(* ===== verification/JsPrelude.thy ===== *)
theory JsPrelude
  imports Main "HOL-Library.Sublist" "HOL-Library.Char_ord" "HOL-Library.List_Lexorder"
begin

text \<open>
  The part of the JavaScript language and standard library that the gateway console uses on
  strings, arrays and optional values, and the automation the component theories share.

  A JavaScript string is modelled by its UTF-8 bytes (a \<^typ>\<open>string\<close>). The literal
  \<open>uni ''~8BA2~5355''\<close> is the source literal whose code units are \<open>U+8BA2 U+5355\<close>: a tilde
  and four hexadecimal digits stand for one code unit of the basic plane, every other character
  for itself. An optional property or an \<open>undefined\<close> value is \<^const>\<open>None\<close>; a thrown
  \<open>Error(m)\<close> is \<open>Inl (JsError m)\<close>.
\<close>

named_theorems js_defs \<open>definitions of the JavaScript library operations\<close>
named_theorems mock_defs \<open>definitions of the operations of the mock gateway\<close>
named_theorems init_defs \<open>initial values of the module-level state\<close>

datatype js_error = JsError string

type_synonym 'a js_result = "js_error + 'a"

subsection \<open>String literals\<close>

definition hex_val :: "char \<Rightarrow> nat" where
  "hex_val c = (let n = of_char c in
     if 48 \<le> n \<and> n \<le> 57 then n - 48 else if 65 \<le> n \<and> n \<le> 70 then n - 55 else n - 87)"

definition utf8_unit :: "nat \<Rightarrow> string" where
  "utf8_unit n =
     (if n < 128 then [char_of n]
      else if n < 2048 then [char_of (192 + n div 64), char_of (128 + n mod 64)]
      else [char_of (224 + n div 4096), char_of (128 + (n div 64) mod 64), char_of (128 + n mod 64)])"

fun uni :: "string \<Rightarrow> string" where
  "uni (c # a # b # d # e # s) =
     (if c = CHR ''~''
      then utf8_unit (4096 * hex_val a + 256 * hex_val b + 16 * hex_val d + hex_val e) @ uni s
      else c # uni (a # b # d # e # s))"
| "uni s = s"

subsection \<open>Optional values\<close>

text \<open>The operators \<open>a ?? b\<close> (with \<open>b\<close> a value or again optional) and, on strings, \<open>a || b\<close>.\<close>

definition nullish :: "'a option \<Rightarrow> 'a \<Rightarrow> 'a" where
  "nullish a b = (case a of None \<Rightarrow> b | Some v \<Rightarrow> v)"

definition nullish_opt :: "'a option \<Rightarrow> 'a option \<Rightarrow> 'a option" where
  "nullish_opt a b = (case a of None \<Rightarrow> b | Some v \<Rightarrow> Some v)"

definition str_or :: "string \<Rightarrow> string \<Rightarrow> string" where
  "str_or a b = (if a = [] then b else a)"

definition opt_truthy :: "string option \<Rightarrow> bool" where
  "opt_truthy a \<longleftrightarrow> (case a of None \<Rightarrow> False | Some s \<Rightarrow> s \<noteq> [])"

lemma nullish_simps [simp]:
  "nullish None b = b" "nullish (Some v) b = v"
  "nullish_opt None c = c" "nullish_opt (Some v) c = Some v"
  by (simp_all add: nullish_def nullish_opt_def)

lemma str_or_simps [simp]: "str_or [] b = b" "str_or (c # s) b = c # s"
  by (simp_all add: str_or_def)

lemma str_or_eq_Nil [simp]: "str_or a b = [] \<longleftrightarrow> a = [] \<and> b = []"
  by (simp add: str_or_def)

lemma opt_truthy_simps [simp]: "\<not> opt_truthy None" "opt_truthy (Some s) \<longleftrightarrow> s \<noteq> []"
  by (simp_all add: opt_truthy_def)

subsection \<open>Stripping, trimming, case\<close>

text \<open>\<open>strip ws s\<close> removes leading members of \<open>ws\<close> from \<open>s\<close> until none is a prefix.\<close>

function strip :: "string list \<Rightarrow> string \<Rightarrow> string" where
  "strip ws s = (case find (\<lambda>w. w \<noteq> [] \<and> prefix w s) ws of
     None \<Rightarrow> s | Some w \<Rightarrow> strip ws (drop (length w) s))"
  by pat_completeness auto
termination
  by (relation "measure (\<lambda>(ws, s). length s)")
    (auto simp: find_Some_iff prefix_def)

declare strip.simps [simp del]

text \<open>The white space and line terminators of \<open>String.prototype.trim\<close>, in UTF-8.\<close>

definition js_whitespace :: "string list" where
  "js_whitespace =
     [[CHR 0x09], [CHR 0x0A], [CHR 0x0B], [CHR 0x0C], [CHR 0x0D], [CHR 0x20],
      utf8_unit 0xA0, utf8_unit 0x1680] @ map utf8_unit [0x2000..<0x200B] @
     [utf8_unit 0x2028, utf8_unit 0x2029, utf8_unit 0x202F, utf8_unit 0x205F,
      utf8_unit 0x3000, utf8_unit 0xFEFF]"

definition trim_start :: "string \<Rightarrow> string" where
  "trim_start s = strip js_whitespace s"

definition trim_end :: "string \<Rightarrow> string" where
  "trim_end s = rev (strip (map rev js_whitespace) (rev s))"

definition trim :: "string \<Rightarrow> string" where
  "trim s = trim_end (trim_start s)"

lemma strip_suffix: "suffix (strip ws s) s"
proof (induction ws s rule: strip.induct)
  case (1 ws s)
  then show ?case
    by (subst strip.simps)
      (auto split: option.splits intro: suffix_order.order_trans suffix_drop)
qed

lemma strip_Nil [simp]: "strip ws [] = []"
  using strip_suffix [of ws "[]"] by simp

lemma strip_fixed:
  "strip ws s = s \<longleftrightarrow> (\<forall>w \<in> set ws. w \<noteq> [] \<longrightarrow> \<not> prefix w s)" (is "_ \<longleftrightarrow> ?none")
proof
  assume ?none
  then have "find (\<lambda>w. w \<noteq> [] \<and> prefix w s) ws = None" by (auto simp: find_None_iff)
  then show "strip ws s = s" by (subst strip.simps) simp
next
  assume eq: "strip ws s = s"
  show ?none
  proof (cases "find (\<lambda>w. w \<noteq> [] \<and> prefix w s) ws")
    case None
    then show ?thesis by (auto simp: find_None_iff)
  next
    case (Some w)
    then have w: "w \<noteq> []" "prefix w s" by (auto simp: find_Some_iff)
    have "length (strip ws s) \<le> length (drop (length w) s)"
      using Some suffix_length_le [OF strip_suffix [of ws "drop (length w) s"]]
      by (subst strip.simps) simp
    moreover have "0 < length w" "length w \<le> length s" using w prefix_length_le by auto
    ultimately have False unfolding eq length_drop by linarith
    then show ?thesis ..
  qed
qed

lemma strip_idem [simp]: "strip ws (strip ws s) = strip ws s"
proof (induction ws s rule: strip.induct)
  case (1 ws s)
  show ?case
  proof (cases "find (\<lambda>w. w \<noteq> [] \<and> prefix w s) ws")
    case None
    then have "strip ws s = s" by (subst strip.simps) simp
    then show ?thesis by simp
  next
    case (Some w)
    then have "strip ws s = strip ws (drop (length w) s)" by (subst strip.simps) simp
    with "1" [OF Some] show ?thesis by simp
  qed
qed

lemma strip_fixed_prefix: "strip ws s = s \<Longrightarrow> prefix t s \<Longrightarrow> strip ws t = t"
  unfolding strip_fixed by (meson prefix_order.order_trans)

lemma trim_end_prefix: "prefix (trim_end s) s"
  using strip_suffix [of "map rev js_whitespace" "rev s"]
  by (simp add: trim_end_def suffix_to_prefix)

lemma trim_end_idem [simp]: "trim_end (trim_end s) = trim_end s"
  by (simp add: trim_end_def)

lemma trim_start_trim [simp]: "trim_start (trim s) = trim s"
proof -
  have "strip js_whitespace (trim_start s) = trim_start s" by (simp add: trim_start_def)
  then show ?thesis
    unfolding trim_def trim_start_def [of "trim_end _"]
    by (rule strip_fixed_prefix) (rule trim_end_prefix)
qed

lemma trim_idem [simp]: "trim (trim s) = trim s"
  using trim_start_trim [of s] by (simp add: trim_def [of "trim s"]) (simp add: trim_def)

lemma trim_Nil [simp]: "trim [] = []"
  by (simp add: trim_def trim_start_def trim_end_def)

lemma set_trim: "set (trim s) \<subseteq> set s"
proof -
  have "set (trim_start s) \<subseteq> set s"
    unfolding trim_start_def using strip_suffix by (metis set_mono_suffix)
  moreover have "set (trim s) \<subseteq> set (trim_start s)"
    unfolding trim_def using trim_end_prefix by (metis set_mono_prefix)
  ultimately show ?thesis by blast
qed

text \<open>
  Bytes above the space and below \<open>0x80\<close> neither start nor end a white space character, so text
  with such bytes at both ends is left alone by \<open>trim\<close>.
\<close>

definition solid :: "char \<Rightarrow> bool" where
  "solid c \<longleftrightarrow> 32 < (of_char c :: nat) \<and> (of_char c :: nat) < 128"

lemma js_whitespace_not_solid:
  "w \<in> set js_whitespace \<Longrightarrow> w \<noteq> [] \<and> \<not> solid (hd w) \<and> \<not> solid (last w)"
  unfolding js_whitespace_def set_append set_map
  by (elim UnE imageE) (auto simp: solid_def utf8_unit_def)

lemma prefix_hd: "prefix w s \<Longrightarrow> w \<noteq> [] \<Longrightarrow> hd w = hd s"
  by (cases w; cases s) auto

lemma trim_start_solid: "solid (hd s) \<Longrightarrow> trim_start s = s"
  unfolding trim_start_def strip_fixed using js_whitespace_not_solid prefix_hd by metis

lemma trim_end_solid:
  assumes "s \<noteq> []" "solid (last s)"
  shows "trim_end s = s"
proof -
  have "\<not> prefix w (rev s)" if w: "w \<in> set (map rev js_whitespace)" "w \<noteq> []" for w
  proof
    assume "prefix w (rev s)"
    with w have "hd w = last s" using prefix_hd by (metis hd_rev)
    moreover obtain v where "v \<in> set js_whitespace" "w = rev v" using w by auto
    ultimately show False using js_whitespace_not_solid assms(2) by (metis hd_rev)
  qed
  then have "strip (map rev js_whitespace) (rev s) = rev s" by (simp add: strip_fixed)
  then show ?thesis by (simp add: trim_end_def)
qed

lemma trim_solid: "s \<noteq> [] \<Longrightarrow> solid (hd s) \<Longrightarrow> solid (last s) \<Longrightarrow> trim s = s"
  by (simp add: trim_def trim_start_solid trim_end_solid)

lemma strip_space: "strip js_whitespace (CHR '' '' # s) = strip js_whitespace s"
proof -
  have "find (\<lambda>w. w \<noteq> [] \<and> prefix w (CHR '' '' # s)) js_whitespace = Some '' ''"
    by (simp add: js_whitespace_def)
  then show ?thesis by (subst strip.simps) simp
qed

lemma trim_space [simp]: "trim (CHR '' '' # s) = trim s"
  by (simp add: trim_def trim_start_def strip_space)

text \<open>\<open>toUpperCase\<close> and \<open>toLowerCase\<close> on the ASCII letters; every other byte is kept.\<close>

definition upper_char :: "char \<Rightarrow> char" where
  "upper_char c = (let n = (of_char c :: nat) in if 97 \<le> n \<and> n \<le> 122 then char_of (n - 32) else c)"

definition toUpperCase :: "string \<Rightarrow> string" where
  "toUpperCase s = map upper_char s"

definition lower_char :: "char \<Rightarrow> char" where
  "lower_char c = (let n = (of_char c :: nat) in if 65 \<le> n \<and> n \<le> 90 then char_of (n + 32) else c)"

definition toLowerCase :: "string \<Rightarrow> string" where
  "toLowerCase s = map lower_char s"

lemma upper_char_idem [simp]: "upper_char (upper_char c) = upper_char c"
proof -
  have "(of_char (char_of (n - 32) :: char) :: nat) = n - 32" if "97 \<le> n" "n \<le> 122" for n :: nat
    using that by simp
  then show ?thesis by (auto simp: upper_char_def Let_def)
qed

lemma toUpperCase_idem [simp]: "toUpperCase (toUpperCase s) = toUpperCase s"
  by (simp add: toUpperCase_def)

lemma toUpperCase_Nil [simp]: "toUpperCase [] = []" "toUpperCase s = [] \<longleftrightarrow> s = []"
  by (simp_all add: toUpperCase_def)

subsection \<open>Decimal and hexadecimal text of integers\<close>

text \<open>\<open>String(n)\<close> and \<open>n.toString(16)\<close> for a non-negative integer, by repeated division.\<close>

definition digit_char :: "nat \<Rightarrow> char" where
  "digit_char d = (if d < 10 then char_of (48 + d) else char_of (87 + d))"

fun nat_text :: "nat \<Rightarrow> nat \<Rightarrow> string" where
  "nat_text base n =
     (if base < 2 \<or> n < base then [digit_char n]
      else nat_text base (n div base) @ [digit_char (n mod base)])"

declare nat_text.simps [simp del]

definition string_of_nat :: "nat \<Rightarrow> string" where
  "string_of_nat n = nat_text 10 n"

definition string_of_int :: "int \<Rightarrow> string" where
  "string_of_int i = (if i < 0 then CHR ''-'' # string_of_nat (nat (- i)) else string_of_nat (nat i))"

definition hex_of_nat :: "nat \<Rightarrow> string" where
  "hex_of_nat n = nat_text 16 n"

definition is_digit :: "char \<Rightarrow> bool" where
  "is_digit c \<longleftrightarrow> 48 \<le> (of_char c :: nat) \<and> (of_char c :: nat) \<le> 57"

definition is_alnum :: "char \<Rightarrow> bool" where
  "is_alnum c \<longleftrightarrow> (let n = (of_char c :: nat) in
     (48 \<le> n \<and> n \<le> 57) \<or> (65 \<le> n \<and> n \<le> 90) \<or> (97 \<le> n \<and> n \<le> 122))"

text \<open>\<open>s.padStart(n, '0')\<close>.\<close>

definition padStart :: "nat \<Rightarrow> string \<Rightarrow> string" where
  "padStart n s = replicate (n - length s) CHR ''0'' @ s"

lemma nat_text_nonempty [simp]: "nat_text base n \<noteq> []"
  by (subst nat_text.simps) simp

lemma is_digit_digit_char: "d < 10 \<Longrightarrow> is_digit (digit_char d)"
  by (simp add: is_digit_def digit_char_def)

lemma string_of_nat_digits: "\<forall>c \<in> set (string_of_nat n). is_digit c"
  unfolding string_of_nat_def
proof (induction n rule: less_induct)
  case (less n)
  show ?case
  proof (cases "n < 10")
    case True
    then show ?thesis by (subst nat_text.simps) (simp add: is_digit_digit_char)
  next
    case False
    then have "n div 10 < n" by simp
    with less have "\<forall>c \<in> set (nat_text 10 (n div 10)). is_digit c" by blast
    with False show ?thesis by (subst nat_text.simps) (auto simp: is_digit_digit_char)
  qed
qed

text \<open>The value of a digit string, and that printing a number and reading it back is the identity.\<close>

definition digit_val :: "char \<Rightarrow> nat" where
  "digit_val c = of_char c - 48"

definition nat_of_digits :: "string \<Rightarrow> nat" where
  "nat_of_digits s = foldl (\<lambda>n c. 10 * n + digit_val c) 0 s"

lemma nat_of_digits_snoc [simp]: "nat_of_digits (s @ [c]) = 10 * nat_of_digits s + digit_val c"
  by (simp add: nat_of_digits_def)

lemma digit_val_digit_char [simp]: "d < 10 \<Longrightarrow> digit_val (digit_char d) = d"
  by (simp add: digit_val_def digit_char_def)

lemma nat_of_string_of_nat [simp]: "nat_of_digits (string_of_nat n) = n"
  unfolding string_of_nat_def
proof (induction n rule: less_induct)
  case (less n)
  show ?case
  proof (cases "n < 10")
    case True
    then show ?thesis by (subst nat_text.simps) (simp add: nat_of_digits_def)
  next
    case False
    then have "n div 10 < n" by simp
    with less have "nat_of_digits (nat_text 10 (n div 10)) = n div 10" by blast
    with False show ?thesis by (subst nat_text.simps) simp
  qed
qed

lemma string_of_nat_inject [simp]: "string_of_nat m = string_of_nat n \<longleftrightarrow> m = n"
  by (metis nat_of_string_of_nat)

lemma string_of_nat_not_minus [simp]: "string_of_nat n \<noteq> CHR ''-'' # s"
  using string_of_nat_digits [of n] by (auto simp: is_digit_def)

lemma string_of_int_inject [simp]: "string_of_int i = string_of_int j \<longleftrightarrow> i = j"
  by (auto simp: string_of_int_def dest: sym)

text \<open>Evaluation of closed string terms by the simplifier.\<close>

lemmas js_eval =
  string_of_nat_def string_of_int_def nat_text.simps digit_char_def toUpperCase_def upper_char_def
  char_of_def bit_simps hex_val_def utf8_unit_def is_digit_def

subsection \<open>Arrays\<close>

text \<open>\<open>xs.slice(a, b)\<close> with negative indices counted from the end and both ends clamped.\<close>

definition slice_pos :: "nat \<Rightarrow> int \<Rightarrow> nat" where
  "slice_pos n i = (if i < 0 then nat (max 0 (int n + i)) else min n (nat i))"

definition slice :: "int \<Rightarrow> int \<Rightarrow> 'a list \<Rightarrow> 'a list" where
  "slice a b xs = (let i = slice_pos (length xs) a; j = slice_pos (length xs) b in take (j - i) (drop i xs))"

text \<open>\<open>xs.findIndex(p)\<close>; the source's \<open>-1\<close> is \<^const>\<open>None\<close>.\<close>

fun findIndex :: "('a \<Rightarrow> bool) \<Rightarrow> 'a list \<Rightarrow> nat option" where
  "findIndex p [] = None"
| "findIndex p (x # xs) = (if p x then Some 0 else map_option Suc (findIndex p xs))"

text \<open>\<open>Array.from(new Set(xs))\<close>: the first occurrence of every element, in order.\<close>

fun unique :: "'a list \<Rightarrow> 'a list" where
  "unique [] = []"
| "unique (x # xs) = x # filter (\<lambda>y. y \<noteq> x) (unique xs)"

lemma slice_nonneg: "0 \<le> a \<Longrightarrow> slice a b xs = take (slice_pos (length xs) b - nat a) (drop (nat a) xs)"
  by (auto simp: slice_def slice_pos_def Let_def min_def)

lemma length_slice_le: "length (slice a b xs) \<le> length xs"
  by (simp add: slice_def Let_def)

lemma set_slice_subset: "set (slice a b xs) \<subseteq> set xs"
  by (auto simp: slice_def Let_def dest: in_set_takeD in_set_dropD)

lemma findIndex_None_iff: "findIndex p xs = None \<longleftrightarrow> (\<forall>x \<in> set xs. \<not> p x)"
  by (induction xs) auto

lemma findIndex_SomeD:
  "findIndex p xs = Some i \<Longrightarrow> i < length xs \<and> p (xs ! i) \<and> (\<forall>j < i. \<not> p (xs ! j))"
proof (induction xs arbitrary: i)
  case (Cons x xs)
  then show ?case
    by (cases "p x") (auto simp: nth_Cons split: nat.splits)
qed simp

lemma findIndex_ex: "x \<in> set xs \<Longrightarrow> p x \<Longrightarrow> \<exists>i. findIndex p xs = Some i"
  using findIndex_None_iff [of p xs] by (cases "findIndex p xs") auto

lemma set_unique [simp]: "set (unique xs) = set xs"
  by (induction xs) auto

lemma distinct_unique [simp]: "distinct (unique xs)"
  by (induction xs) auto

lemma unique_id: "distinct xs \<Longrightarrow> unique xs = xs"
  by (induction xs) (auto intro: filter_True)

lemma unique_eq_Nil [simp]: "unique xs = [] \<longleftrightarrow> xs = []"
  by (cases xs) auto

lemma map_update_same: "i < length xs \<Longrightarrow> f y = f (xs ! i) \<Longrightarrow> map f (xs[i := y]) = map f xs"
  by (simp add: map_update list_update_same_conv)

text \<open>
  A total normaliser: its results satisfy a shape, and it leaves values of that shape alone. The
  console normalises method lists, router bases, file name tokens and trimmed text this way; what
  a caller may rely on is stated once.
\<close>

locale normaliser =
  fixes norm :: "'a \<Rightarrow> 'a" and shape :: "'a \<Rightarrow> bool"
  assumes norm_shape: "shape (norm x)"
    and norm_id: "shape x \<Longrightarrow> norm x = x"
begin

lemma norm_idem: "norm (norm x) = norm x"
  using norm_shape norm_id by blast

lemma shape_iff_fixed: "shape x \<longleftrightarrow> norm x = x"
  using norm_shape norm_id by metis

lemma norm_range: "range norm = {x. shape x}"
  using norm_shape norm_id by (auto simp: image_iff) (metis norm_id)

end

interpretation trim_norm: normaliser trim "\<lambda>s. trim_start s = s \<and> trim_end s = s"
proof
  fix s
  show "trim_start (trim s) = trim s \<and> trim_end (trim s) = trim s"
    by (simp add: trim_start_trim) (simp add: trim_def)
qed (simp add: trim_def)

end
