(* ===== verification/JsNumber.thy ===== *)
theory JsNumber
  imports JsPrelude Complex_Main "HOL-Library.Log_Nat"
begin

text \<open>
  Double precision arithmetic, as far as the code does any: a computed number is the exact rational
  result rounded to 53 significant bits, ties to even (\<open>fl64\<close>). Overflow, subnormal numbers and the
  sign of zero are outside the model; the magnitudes in the code are far from them. A decimal
  literal of the source is \<open>fl64\<close> of its value.
\<close>

definition round_even :: "rat \<Rightarrow> int" where
  "round_even x = (let f = \<lfloor>x\<rfloor>; r = x - of_int f in
     if r < 1 / 2 then f else if r > 1 / 2 then f + 1 else if even f then f else f + 1)"

definition ulp_exp :: "rat \<Rightarrow> int" where
  "ulp_exp x = (let (n, d) = quotient_of x; k = bitlen n - bitlen d in
     (if 2 powi k \<le> x then k else k - 1) - 52)"

definition fl64 :: "rat \<Rightarrow> rat" where
  "fl64 x = (if x = 0 then 0
     else let u = 2 powi ulp_exp \<bar>x\<bar> in sgn x * of_int (round_even (\<bar>x\<bar> / u)) * u)"

text \<open>\<open>Math.round\<close>, and the integer \<open>n\<close> for which \<open>x.toFixed(2)\<close> prints \<open>n/100\<close>.\<close>

definition math_round :: "rat \<Rightarrow> int" where
  "math_round x = \<lfloor>x + 1 / 2\<rfloor>"

definition toFixed2 :: "rat \<Rightarrow> int" where
  "toFixed2 x = (if x < 0 then - \<lfloor>(- x) * 100 + 1 / 2\<rfloor> else \<lfloor>x * 100 + 1 / 2\<rfloor>)"

subsection \<open>Bounds of rounded results\<close>

lemma round_even_nonneg: "0 \<le> x \<Longrightarrow> 0 \<le> round_even x"
  by (auto simp: round_even_def Let_def add_increasing2)

lemma round_even_le: "x \<le> of_int m \<Longrightarrow> round_even x \<le> m"
proof -
  assume x: "x \<le> of_int m"
  show "round_even x \<le> m"
  proof (cases "\<lfloor>x\<rfloor> < m")
    case True
    then show ?thesis by (simp add: round_even_def Let_def)
  next
    case False
    with x have "x = of_int m" by (metis floor_less_iff order_le_less)
    then show ?thesis by (simp add: round_even_def)
  qed
qed

lemma fl64_nonneg: "0 \<le> x \<Longrightarrow> 0 \<le> fl64 x"
  by (simp add: fl64_def Let_def round_even_nonneg)

lemma fl64_zero [simp]: "fl64 0 = 0"
  by (simp add: fl64_def)

lemma ulp_exp_le_zero:
  assumes "0 < x" "x < 2 ^ 53"
  shows "ulp_exp x \<le> 0"
proof -
  obtain n d where q: "quotient_of x = (n, d)" by fastforce
  then have x: "x = of_int n / of_int d" and d: "0 < d"
    by (auto simp: quotient_of_div quotient_of_denom_pos)
  have n: "0 < n" using assms(1) d by (simp add: x zero_less_divide_iff)
  define k where "k = bitlen n - bitlen d"
  have ulp: "ulp_exp x = (if 2 powi k \<le> x then k else k - 1) - 52"
    by (simp add: ulp_exp_def q k_def)
  have big: "j < 53" if "2 powi j \<le> x" for j :: int
  proof (rule ccontr)
    assume "\<not> j < 53"
    then have "(2 :: rat) powi 53 \<le> 2 powi j" by (intro power_int_increasing) auto
    with that assms(2) show False by simp
  qed
  show ?thesis
  proof (cases "2 powi k \<le> x")
    case True
    with ulp big show ?thesis by fastforce
  next
    case False
    have "(2 :: int) ^ nat (bitlen n - 1) \<le> n" "d < 2 ^ nat (bitlen d)"
      using bitlen_bounds n d by blast+
    then have "(2 :: rat) ^ nat (bitlen n - 1) \<le> of_int n" "of_int d < (2 :: rat) ^ nat (bitlen d)"
      by (metis of_int_le_iff of_int_numeral of_int_power, metis of_int_less_iff of_int_numeral of_int_power)
    moreover have "0 < bitlen n" "0 \<le> bitlen d" using n bitlen_nonneg bitlen_eq_zero_iff [of n] by (auto simp: order_le_less)
    ultimately have b: "(2 :: rat) powi (bitlen n - 1) \<le> of_int n" "of_int d \<le> (2 :: rat) powi bitlen d"
      by (simp_all add: power_int_def)
    have "(2 :: rat) powi (k - 1) = 2 powi (bitlen n - 1) / 2 powi bitlen d"
      by (simp add: k_def power_int_diff)
    also have "\<dots> \<le> x" unfolding x using b d n by (intro frac_le) auto
    finally show ?thesis using False ulp big by fastforce
  qed
qed

lemma fl64_le_int:
  assumes "0 \<le> x" "x \<le> of_int c" "c < 2 ^ 53"
  shows "fl64 x \<le> of_int c"
proof (cases "x = 0")
  case True
  with assms show ?thesis by simp
next
  case False
  with assms(1) have x: "0 < x" by simp
  have "x < 2 ^ 53"
    using assms(2,3) by (metis of_int_less_iff of_int_numeral of_int_power order_le_less_trans)
  with x have e: "ulp_exp x \<le> 0" by (rule ulp_exp_le_zero)
  define u :: rat where "u = 2 powi ulp_exp x"
  have u: "0 < u" by (simp add: u_def)
  have inv: "1 / u = of_int (2 ^ nat (- ulp_exp x))"
    using e by (cases "ulp_exp x = 0") (auto simp: u_def power_int_def field_simps)
  have "x / u \<le> of_int c * (1 / u)" using assms(2) u by (simp add: divide_right_mono)
  also have "\<dots> = of_int (c * 2 ^ nat (- ulp_exp x))" by (simp add: inv)
  finally have "round_even (x / u) \<le> c * 2 ^ nat (- ulp_exp x)" by (rule round_even_le)
  then have "(of_int (round_even (x / u)) :: rat) \<le> of_int c * (1 / u)"
    unfolding inv by (metis of_int_le_iff of_int_mult)
  then have "of_int (round_even (x / u)) * u \<le> of_int c" using u by (simp add: field_simps)
  with x show ?thesis by (simp add: fl64_def u_def Let_def)
qed

lemma math_round_nonneg: "0 \<le> x \<Longrightarrow> 0 \<le> math_round x"
  by (simp add: math_round_def)

lemma toFixed2_nonneg: "0 \<le> x \<Longrightarrow> 0 \<le> toFixed2 x"
  by (simp add: toFixed2_def)

lemma toFixed2_le: "0 \<le> x \<Longrightarrow> x \<le> of_int c \<Longrightarrow> toFixed2 x \<le> c * 100"
proof -
  assume x: "0 \<le> x" "x \<le> of_int c"
  have "\<lfloor>x * 100 + 1 / 2\<rfloor> < c * 100 + 1"
    unfolding floor_less_iff using x(2) by simp
  with x(1) show "toFixed2 x \<le> c * 100" by (simp add: toFixed2_def)
qed

text \<open>A ratio as a percentage with two decimals: \<open>Number(((a / b) * 100).toFixed(2))\<close>.\<close>

definition percent2 :: "int \<Rightarrow> int \<Rightarrow> rat" where
  "percent2 a b = fl64 (of_int (toFixed2 (fl64 (fl64 (of_int a / of_int b) * 100))) / 100)"

lemma fl64_percent_bounds:
  assumes "0 \<le> a" "a \<le> b" "0 < b"
  shows "0 \<le> fl64 (fl64 (of_int a / of_int b) * 100) \<and> fl64 (fl64 (of_int a / of_int b) * 100) \<le> 100"
proof -
  have r: "0 \<le> (of_int a / of_int b :: rat)" "(of_int a / of_int b :: rat) \<le> of_int 1" using assms by auto
  have q: "0 \<le> fl64 (of_int a / of_int b)" "fl64 (of_int a / of_int b) \<le> of_int 1"
    using fl64_nonneg [OF r(1)] fl64_le_int [OF r] by auto
  then have "fl64 (of_int a / of_int b) * 100 \<le> of_int 100" by simp
  with q show ?thesis using fl64_nonneg fl64_le_int [of "fl64 (of_int a / of_int b) * 100" 100] by simp
qed

lemma percent2_bounds:
  assumes "0 \<le> a" "a \<le> b" "0 < b"
  shows "0 \<le> percent2 a b \<and> percent2 a b \<le> 100"
proof -
  define y where "y = fl64 (fl64 (of_int a / of_int b) * 100)"
  have y: "0 \<le> y" "y \<le> of_int 100" using fl64_percent_bounds [OF assms] by (simp_all add: y_def)
  have t: "0 \<le> toFixed2 y" "toFixed2 y \<le> 100 * 100" using toFixed2_nonneg toFixed2_le y by blast+
  then have "(of_int (toFixed2 y) / 100 :: rat) \<le> of_int 100"
    by (metis divide_le_eq of_int_le_iff of_int_mult of_int_numeral zero_less_numeral)
  with t show ?thesis
    using fl64_nonneg [of "of_int (toFixed2 y) / 100"] fl64_le_int [of "of_int (toFixed2 y) / 100" 100]
    by (simp add: percent2_def y_def)
qed

end
