(* ===== verification/JsValue.thy ===== *)
theory JsValue
  imports JsNumber
begin

text \<open>
  Dynamic values: what \<open>response.json()\<close> delivers where the source types it \<open>any\<close> or
  \<open>unknown\<close>, with the operators the code applies to such values.

  An object is the list of its own properties in order, each key once. A finite number is its
  value. Numbers whose text needs an exponent (magnitude from \<open>10^21\<close> or below \<open>10^-6\<close>) are outside
  the model of \<open>String\<close>. The keys the code reads are names of no property that arrays, strings,
  numbers or booleans have, so reading one of them from such a value gives \<open>undefined\<close>.
\<close>

text \<open>A number as \<open>Number.isFinite\<close> sees it, for the fields typed \<open>number\<close> that the code tests.\<close>

datatype js_number = NumFin int | NumNaN | NumInf | NumNegInf

datatype jsval =
    JUndefined
  | JNull
  | JBool bool
  | JNum rat
  | JNaN
  | JInf bool
  | JStr string
  | JArr "jsval list"
  | JObj "(string \<times> jsval) list"

subsection \<open>Reading\<close>

definition is_nullish :: "jsval \<Rightarrow> bool" where
  "is_nullish v \<longleftrightarrow> v = JUndefined \<or> v = JNull"

definition truthy :: "jsval \<Rightarrow> bool" where
  "truthy v = (case v of JUndefined \<Rightarrow> False | JNull \<Rightarrow> False | JBool b \<Rightarrow> b | JNum x \<Rightarrow> x \<noteq> 0 | JNaN \<Rightarrow> False
     | JInf _ \<Rightarrow> True | JStr s \<Rightarrow> s \<noteq> [] | JArr _ \<Rightarrow> True | JObj _ \<Rightarrow> True)"

definition is_array :: "jsval \<Rightarrow> bool" where
  "is_array v = (case v of JArr _ \<Rightarrow> True | _ \<Rightarrow> False)"

definition elements :: "jsval \<Rightarrow> jsval list" where
  "elements v = (case v of JArr xs \<Rightarrow> xs | _ \<Rightarrow> [])"

text \<open>\<open>a ?? b\<close> and \<open>a || b\<close>.\<close>

definition coalesce :: "jsval \<Rightarrow> jsval \<Rightarrow> jsval" where
  "coalesce a b = (if is_nullish a then b else a)"

definition or_else :: "jsval \<Rightarrow> jsval \<Rightarrow> jsval" where
  "or_else a b = (if truthy a then a else b)"

text \<open>\<open>v?.k\<close>.\<close>

definition chain :: "jsval \<Rightarrow> string \<Rightarrow> jsval" where
  "chain v k = (case v of JObj fs \<Rightarrow> (case map_of fs k of Some x \<Rightarrow> x | None \<Rightarrow> JUndefined) | _ \<Rightarrow> JUndefined)"

subsection \<open>Building\<close>

text \<open>Setting a property: in place when the key is there, at the end otherwise.\<close>

fun put :: "string \<Rightarrow> 'a \<Rightarrow> (string \<times> 'a) list \<Rightarrow> (string \<times> 'a) list" where
  "put k v [] = [(k, v)]"
| "put k v ((k', v') # fs) = (if k = k' then (k, v) # fs else (k', v') # put k v fs)"

definition put_all :: "(string \<times> 'a) list \<Rightarrow> (string \<times> 'a) list \<Rightarrow> (string \<times> 'a) list" where
  "put_all base fs = foldl (\<lambda>acc (k, v). put k v acc) base fs"

text \<open>
  The own properties \<open>...v\<close> spreads: those of an object, and the numbered elements of an array or
  characters of a string.
\<close>

definition own_props :: "jsval \<Rightarrow> (string \<times> jsval) list" where
  "own_props v = (case v of JObj fs \<Rightarrow> fs
     | JArr xs \<Rightarrow> zip (map string_of_nat [0..<length xs]) xs
     | JStr s \<Rightarrow> zip (map string_of_nat [0..<length s]) (map (\<lambda>c. JStr [c]) s)
     | _ \<Rightarrow> [])"

subsection \<open>JSON\<close>

text \<open>What \<open>JSON.parse(JSON.stringify(v))\<close> gives for a value inside an object or array.\<close>

fun json_clean :: "jsval \<Rightarrow> jsval" where
  "json_clean JUndefined = JNull"
| "json_clean JNaN = JNull"
| "json_clean (JInf _) = JNull"
| "json_clean (JArr xs) = JArr (map json_clean xs)"
| "json_clean (JObj fs) = JObj (map (\<lambda>(k, v). (k, json_clean v)) (filter (\<lambda>(k, v). v \<noteq> JUndefined) fs))"
| "json_clean v = v"

text \<open>Values a JSON text can denote.\<close>

fun is_json :: "jsval \<Rightarrow> bool" where
  "is_json JUndefined = False"
| "is_json JNaN = False"
| "is_json (JInf _) = False"
| "is_json (JArr xs) = list_all is_json xs"
| "is_json (JObj fs) = (distinct (map fst fs) \<and> list_all (\<lambda>(k, v). is_json v) fs)"
| "is_json v = True"

subsection \<open>Conversions\<close>

definition decimal_places :: "rat \<Rightarrow> nat" where
  "decimal_places x =
     nullish (find (\<lambda>d. fl64 (of_int (round_even (x * 10 ^ d)) / 10 ^ d) = x) [1..<25]) 25"

definition num_text :: "rat \<Rightarrow> string" where
  "num_text x =
     (if x = of_int \<lfloor>x\<rfloor> then string_of_int \<lfloor>x\<rfloor>
      else let a = \<bar>x\<bar>; d = decimal_places a; n = nat (round_even (a * 10 ^ d))
           in (if x < 0 then ''-'' else []) @ string_of_nat (n div 10 ^ d) @ ''.'' @
              padStart d (string_of_nat (n mod 10 ^ d)))"

fun comma_join :: "string list \<Rightarrow> string" where
  "comma_join [] = []"
| "comma_join [x] = x"
| "comma_join (x # xs) = x @ '','' @ comma_join xs"

fun js_String :: "jsval \<Rightarrow> string" where
  "js_String JUndefined = ''undefined''"
| "js_String JNull = ''null''"
| "js_String (JBool b) = (if b then ''true'' else ''false'')"
| "js_String (JNum x) = num_text x"
| "js_String JNaN = ''NaN''"
| "js_String (JInf pos) = (if pos then ''Infinity'' else ''-Infinity'')"
| "js_String (JStr s) = s"
| "js_String (JArr xs) = comma_join (map (\<lambda>x. if is_nullish x then [] else js_String x) xs)"
| "js_String (JObj _) = ''[object Object]''"

text \<open>\<open>Number(s)\<close> for a string: a decimal literal with optional sign, fraction and exponent, a
  hexadecimal, octal or binary integer, \<open>Infinity\<close>, or blank; anything else is \<open>NaN\<close>.\<close>

definition split_sign :: "string \<Rightarrow> bool \<times> string" where
  "split_sign s = (case s of c # r \<Rightarrow> if c = CHR ''-'' then (True, r) else if c = CHR ''+'' then (False, r) else (False, s)
     | [] \<Rightarrow> (False, []))"

definition parse_exponent :: "string \<Rightarrow> int option" where
  "parse_exponent s = (case s of [] \<Rightarrow> Some 0
     | e # r \<Rightarrow> (let (neg, ds) = split_sign r in
         if (e = CHR ''e'' \<or> e = CHR ''E'') \<and> ds \<noteq> [] \<and> list_all is_digit ds
         then Some ((if neg then -1 else 1) * int (nat_of_digits ds)) else None))"

definition parse_unsigned :: "string \<Rightarrow> rat option" where
  "parse_unsigned s =
     (let whole = takeWhile is_digit s; r = dropWhile is_digit s;
          (frac, r') = (case r of c # t \<Rightarrow> if c = CHR ''.'' then (takeWhile is_digit t, dropWhile is_digit t) else ([], r)
                        | [] \<Rightarrow> ([], []))
      in if whole = [] \<and> frac = [] then None
         else map_option (\<lambda>e. fl64 (of_nat (nat_of_digits (whole @ frac)) * 10 powi (e - int (length frac))))
                (parse_exponent r'))"

definition radix_val :: "char \<Rightarrow> nat" where
  "radix_val c = (let n = of_char (upper_char c) :: nat in
     if 48 \<le> n \<and> n \<le> 57 then n - 48 else if 65 \<le> n \<and> n \<le> 90 then n - 55 else 36)"

definition parse_radix :: "nat \<Rightarrow> string \<Rightarrow> rat option" where
  "parse_radix b s = (if s \<noteq> [] \<and> list_all (\<lambda>c. radix_val c < b) s
     then Some (fl64 (of_nat (foldl (\<lambda>n c. n * b + radix_val c) 0 s))) else None)"

definition number_of_text :: "string \<Rightarrow> jsval" where
  "number_of_text raw =
     (let s = trim raw; (neg, r) = split_sign s; p = toUpperCase (take 2 s)
      in if s = [] then JNum 0
         else if r = ''Infinity'' then JInf (\<not> neg)
         else case (if p = ''0X'' then parse_radix 16 (drop 2 s)
                    else if p = ''0O'' then parse_radix 8 (drop 2 s)
                    else if p = ''0B'' then parse_radix 2 (drop 2 s)
                    else map_option (\<lambda>x. if neg then - x else x) (parse_unsigned r)) of
                Some x \<Rightarrow> JNum x
              | None \<Rightarrow> JNaN)"

definition js_Number :: "jsval \<Rightarrow> jsval" where
  "js_Number v = (case v of JUndefined \<Rightarrow> JNaN | JNull \<Rightarrow> JNum 0 | JBool b \<Rightarrow> JNum (if b then 1 else 0)
     | JNum x \<Rightarrow> JNum x | JNaN \<Rightarrow> JNaN | JInf p \<Rightarrow> JInf p | JStr s \<Rightarrow> number_of_text s
     | JArr xs \<Rightarrow> number_of_text (js_String (JArr xs)) | JObj _ \<Rightarrow> JNaN)"

definition is_finite :: "jsval \<Rightarrow> bool" where
  "is_finite v = (case v of JNum _ \<Rightarrow> True | _ \<Rightarrow> False)"

subsection \<open>Laws\<close>

lemma is_nullish_simps [simp]:
  "is_nullish JUndefined" "is_nullish JNull" "\<not> is_nullish (JBool b)" "\<not> is_nullish (JNum x)"
  "\<not> is_nullish JNaN" "\<not> is_nullish (JInf p)" "\<not> is_nullish (JStr s)" "\<not> is_nullish (JArr xs)" "\<not> is_nullish (JObj fs)"
  by (simp_all add: is_nullish_def)

lemma truthy_simps [simp]:
  "\<not> truthy JUndefined" "\<not> truthy JNull" "truthy (JBool b) = b" "truthy (JStr s) \<longleftrightarrow> s \<noteq> []" "truthy (JArr xs)"
  "truthy (JObj fs)"
  by (simp_all add: truthy_def)

lemma coalesce_nullish [simp]: "is_nullish (coalesce a b) \<longleftrightarrow> is_nullish a \<and> is_nullish b"
  by (simp add: coalesce_def)

lemma coalesce_id: "\<not> is_nullish a \<Longrightarrow> coalesce a b = a"
  by (simp add: coalesce_def)

lemma coalesce_idem [simp]: "coalesce (coalesce a b) b = coalesce a b"
  by (simp add: coalesce_def)

lemma chain_simps [simp]:
  "chain (JObj fs) k = (case map_of fs k of Some x \<Rightarrow> x | None \<Rightarrow> JUndefined)"
  "chain JUndefined k = JUndefined" "chain JNull k = JUndefined"
  by (simp_all add: chain_def)

lemma chain_nullish: "is_nullish v \<Longrightarrow> chain v k = JUndefined"
  by (auto simp: is_nullish_def)

lemma map_of_put: "map_of (put k v fs) = (map_of fs)(k \<mapsto> v)"
  by (induction fs) auto

lemma keys_put: "map fst (put k v fs) = (if k \<in> set (map fst fs) then map fst fs else map fst fs @ [k])"
  by (induction fs) (auto, force+)

lemma distinct_put: "distinct (map fst fs) \<Longrightarrow> distinct (map fst (put k v fs))"
  by (simp add: keys_put)

lemma put_present: "map_of fs k = Some v \<Longrightarrow> put k v fs = fs"
  by (induction fs) (auto split: if_splits)

lemma put_all_simps [simp]:
  "put_all base [] = base" "put_all base ((k, v) # fs) = put_all (put k v base) fs"
  by (simp_all add: put_all_def)

lemma put_all_append: "put_all base (fs @ gs) = put_all (put_all base fs) gs"
  by (simp add: put_all_def)

lemma map_of_put_all: "distinct (map fst fs) \<Longrightarrow> map_of (put_all base fs) = map_of base ++ map_of fs"
proof (induction fs arbitrary: base)
  case (Cons kv fs)
  obtain k v where kv: "kv = (k, v)" by (cases kv)
  have "map_of fs k = None" using Cons.prems kv by (simp add: map_of_eq_None_iff image_iff)
  then show ?case
    using Cons kv by (auto simp: map_of_put fun_eq_iff map_add_def split: option.splits)
qed simp

lemma distinct_put_all: "distinct (map fst base) \<Longrightarrow> distinct (map fst (put_all base fs))"
  by (induction fs arbitrary: base) (auto simp: distinct_put)

text \<open>Putting back what is there changes nothing.\<close>

lemma put_all_present: "\<forall>(k, v) \<in> set fs. map_of base k = Some v \<Longrightarrow> put_all base fs = base"
  by (induction fs) (auto simp: put_present)

lemma put_all_fresh:
  "distinct (map fst fs) \<Longrightarrow> set (map fst fs) \<inter> set (map fst base) = {} \<Longrightarrow> put_all base fs = base @ fs"
proof (induction fs arbitrary: base)
  case (Cons kv fs)
  obtain k v where kv: "kv = (k, v)" by (cases kv)
  have "k \<notin> set (map fst base)" using Cons.prems kv by simp
  then have "put k v base = base @ [(k, v)]" by (induction base) auto
  with Cons kv show ?case by auto
qed simp

lemma json_clean_id: "is_json v \<Longrightarrow> json_clean v = v"
proof (induction v)
  case (JArr xs)
  then show ?case by (simp add: list_all_iff map_idI)
next
  case (JObj fs)
  have v: "v \<noteq> JUndefined \<and> json_clean v = v" if "(k, v) \<in> set fs" for k v
    using that JObj by (fastforce simp: list_all_iff)
  then have "filter (\<lambda>(k, v). v \<noteq> JUndefined) fs = fs" by (auto intro!: filter_True)
  moreover have "map (\<lambda>(k, v). (k, json_clean v)) fs = fs" using v by (auto intro!: map_idI)
  ultimately show ?case by simp
qed simp_all

lemma is_json_chain: "is_json v \<Longrightarrow> is_json (chain v k) \<or> chain v k = JUndefined"
  by (cases v) (auto simp: chain_def list_all_iff dest!: map_of_SomeD split: option.splits)

lemma is_finite_simps [simp]: "is_finite (JNum x)" "\<not> is_finite JNaN"
  by (simp_all add: is_finite_def)

end
