(* ===== verification/GatewayTypes.thy ===== *)
theory GatewayTypes
  imports JsValue
begin

text \<open>
  The interfaces of \<open>gateway-ui/src/types/gateway.ts\<close> that the modelled code reads or writes. An
  interface is a record of the same name; its property \<open>p\<close> is the field \<open>x_p\<close>, where \<open>x\<close> is the
  record's short prefix. An optional property is an option; a union of literals is a datatype
  whose constructors are the literals behind a prefix; an inline object type is a record of its
  own. A \<open>number\<close> is an \<^typ>\<open>int\<close>, a \<^typ>\<open>rat\<close> where the code stores fractions, and a
  \<open>js_number\<close> where it asks for \<open>Number.isFinite\<close>.
\<close>

subsection \<open>Unions of literals\<close>


datatype TaskKind = Kind_command | Kind_file

datatype TaskStatus = 
    Task_pending
  | Task_accepted
  | Task_running
  | Task_transferring
  | Task_verifying
  | Task_retry_wait
  | Task_succeeded
  | Task_failed
  | Task_dead_lettered
  | Task_cancelled

datatype UiDeployMode = Ui_embedded | Ui_external

datatype TransportProtocol = TCP | UDP

datatype DiagnosticExportStatus = Diag_pending | Diag_collecting | Diag_packaging | Diag_succeeded | Diag_failed

datatype BusinessState = Biz_active | Biz_protocol_only

datatype CheckLevel = Level_info | Level_warn | Level_error

datatype TunnelStatus = Tunnel_connected | Tunnel_disconnected | Tunnel_degraded

datatype RegistrationStatus = Reg_registered | Reg_unregistered | Reg_degraded

datatype HeartbeatStatus = Heartbeat_healthy | Heartbeat_timeout | Heartbeat_unknown

datatype TimelineStatus = Timeline_done | Timeline_processing | Timeline_wait

datatype ResponseMode = RM_AUTO | RM_INLINE | RM_RTP

datatype LinkStatus = 
    Link_connected
  | Link_disabled
  | Link_listening
  | Link_start_failed
  | Link_interrupted
  | Link_abnormal

datatype MappingStatus = Mapping_UNMAPPED | Mapping_MANUAL

datatype StageStatus = Stage_passed | Stage_failed | Stage_blocked

datatype TestStatus = Test_passed | Test_failed

datatype ConnectionInitiator = Initiator_LOCAL | Initiator_PEER

datatype RelayMode = Relay_AUTO | Relay_SIP_ONLY

datatype ExposureMode = Exposure_MANUAL | Exposure_UNEXPOSED

datatype ResourceSource = Source_REMOTE | Source_LOCAL

datatype SessionAction = Session_register_now | Session_reregister | Session_heartbeat_once

datatype CatalogAction = Catalog_pull_remote | Catalog_push_local | Catalog_refresh_all

datatype TransportKind = Transport_SIP | Transport_RTP

datatype LinkTestStatus = LinkTest_pass | LinkTest_warn | LinkTest_fail

datatype SnapshotStatus = Snap_active | Snap_pending | Snap_archived

datatype RiskLevel = Risk_high | Risk_medium | Risk_low

datatype DiagnosticSectionKey = 
    Sec_transport_config
  | Sec_connection_stats_snapshot
  | Sec_port_pool_status
  | Sec_transport_error_summary
  | Sec_task_failure_summary
  | Sec_rate_limit_hit_summary
  | Sec_profile_entry

subsection \<open>Shared interfaces\<close>

record PeerBinding =
  pb_peer_node_id :: string
  pb_peer_name :: "string option"
  pb_peer_signaling_ip :: "string option"
  pb_peer_signaling_port :: "int option"

record Capability =
  cap_supports_large_request_body :: bool
  cap_supports_large_response_body :: bool
  cap_supports_streaming_response :: bool
  cap_supports_bidirectional_http_tunnel :: bool
  cap_supports_transparent_proxy :: bool

record CapabilityItem =
  ci_key :: string
  ci_label :: string
  ci_supported :: bool
  ci_note :: string

record CapabilitySummary =
  cs_supported :: "string list"
  cs_unsupported :: "string list"
  cs_items :: "CapabilityItem list"

record 'a TaskListResult =
  tlr_list :: "'a list"
  tlr_total :: int
  tlr_page :: int
  tlr_pageSize :: int

record NodeConfigCheckResult =
  nccr_level :: CheckLevel
  nccr_message :: string
  nccr_suggestion :: string
  nccr_action_hint :: string

subsection \<open>Text of the literal types\<close>

fun transport_text :: "TransportProtocol \<Rightarrow> string" where
  "transport_text TCP = ''TCP''"
| "transport_text UDP = ''UDP''"

lemma transport_text_inject [simp]: "transport_text p = transport_text q \<longleftrightarrow> p = q"
  by (cases p; cases q) simp_all

end
