(* ===== verification/TunnelTypes.thy ===== *)
theory TunnelTypes
  imports GatewayTypes
begin

text \<open>
  Interfaces of the tunnel mappings, local resources, catalog, GB/T 28181 session state and nodes.
  The conventions are those of \<open>GatewayTypes\<close>.
\<close>

record TunnelMapping =
  tm_mapping_id :: string
  tm_device_id :: "string option"
  tm_resource_code :: "string option"
  tm_resource_type :: "string option"
  tm_name :: "string option"
  tm_enabled :: bool
  tm_peer_node_id :: "string option"
  tm_local_bind_ip :: string
  tm_local_bind_port :: int
  tm_local_base_path :: string
  tm_remote_target_ip :: string
  tm_remote_target_port :: int
  tm_remote_base_path :: string
  tm_allowed_methods :: "(string list) option"
  tm_response_mode :: "ResponseMode option"
  tm_connect_timeout_ms :: int
  tm_request_timeout_ms :: int
  tm_response_timeout_ms :: int
  tm_max_inline_response_body :: "int option"
  tm_max_request_body_bytes :: int
  tm_max_response_body_bytes :: int
  tm_require_streaming_response :: bool
  tm_description :: string
  tm_updated_at :: "string option"
  tm_link_status :: "LinkStatus option"
  tm_link_status_text :: "string option"
  tm_status_reason :: "string option"
  tm_failure_reason :: "string option"
  tm_suggested_action :: "string option"
  tm_request_count :: "int option"
  tm_failure_count :: "int option"
  tm_avg_latency_ms :: "int option"

record TunnelMappingListPayload =
  tmlp_items :: "TunnelMapping list"
  tmlp_bound_peer :: "PeerBinding option"
  tmlp_binding_error :: "string option"
  tmlp_warnings :: "(string list) option"

record TunnelMappingSavePayload =
  tmsp_mapping :: TunnelMapping
  tmsp_warnings :: "(string list) option"

record LocalResourceItem =
  lri_resource_id :: string
  lri_resource_code :: string
  lri_device_id :: string
  lri_resource_type :: string
  lri_name :: string
  lri_enabled :: bool
  lri_target_url :: string
  lri_methods :: "string list"
  lri_response_mode :: ResponseMode
  lri_max_inline_response_body :: int
  lri_max_request_body :: int
  lri_max_response_body :: int
  lri_body_limit_policy :: "string option"
  lri_description :: string
  lri_updated_at :: "string option"
  lri_entry_hint :: "string option"
  lri_local_bind_port :: "int option"
  lri_mapping_id :: "string option"

record LocalResourceListPayload =
  lrlp_items :: "LocalResourceItem list"

record LocalResourceSavePayload =
  lrsp_resource_code :: string
  lrsp_name :: string
  lrsp_enabled :: bool
  lrsp_target_url :: string
  lrsp_methods :: "string list"
  lrsp_response_mode :: ResponseMode
  lrsp_description :: string

record TunnelMappingOverviewItem =
  tmoi_resource_code :: string
  tmoi_device_id :: string
  tmoi_mapping_id :: "string option"
  tmoi_local_bind_port :: "int option"
  tmoi_resource_type :: "string option"
  tmoi_name :: string
  tmoi_source_node :: "string option"
  tmoi_methods :: "string list"
  tmoi_response_mode :: ResponseMode
  tmoi_resource_status :: string
  tmoi_mapping_status :: MappingStatus
  tmoi_mapping_ids :: "(string list) option"
  tmoi_listen_ip :: "string option"
  tmoi_listen_ports :: "int list"
  tmoi_path_prefix :: "string option"
  tmoi_enabled :: bool

record TunnelMappingOverviewSummary =
  tmos_resource_total :: int
  tmos_mapped_total :: int
  tmos_manual_total :: int
  tmos_unmapped_total :: int

record TunnelMappingOverviewPayload =
  tmop_items :: "TunnelMappingOverviewItem list"
  tmop_summary :: TunnelMappingOverviewSummary

record MappingTestStage =
  mts_key :: string
  mts_name :: string
  mts_status :: StageStatus
  mts_passed :: bool
  mts_detail :: string
  mts_blocking_reason :: "string option"
  mts_suggested_action :: "string option"

record MappingTestPayload =
  mtp_passed :: bool
  mtp_status :: TestStatus
  mtp_stages :: "MappingTestStage list"
  mtp_failure_stage :: "string option"
  mtp_signaling_request :: string
  mtp_response_channel :: string
  mtp_registration_status :: string
  mtp_failure_reason :: "string option"
  mtp_suggested_action :: "string option"

record OpsNode =
  on_node_id :: string
  on_role :: string
  on_status :: string
  on_endpoint :: string

record LocalNodeConfig =
  ln_node_id :: string
  ln_node_name :: string
  ln_node_role :: string
  ln_network_mode :: string
  ln_sip_listen_ip :: string
  ln_sip_listen_port :: int
  ln_sip_transport :: TransportProtocol
  ln_rtp_listen_ip :: string
  ln_rtp_port_start :: int
  ln_rtp_port_end :: int
  ln_rtp_transport :: TransportProtocol
  ln_mapping_port_start :: int
  ln_mapping_port_end :: int

record PeerNodeConfig =
  pn_peer_node_id :: string
  pn_peer_name :: string
  pn_peer_signaling_ip :: string
  pn_peer_signaling_port :: int
  pn_peer_media_ip :: string
  pn_peer_media_port_start :: int
  pn_peer_media_port_end :: int
  pn_supported_network_mode :: string
  pn_enabled :: bool

record TunnelConfigCapabilityItem =
  tcci_key :: string
  tcci_supported :: bool
  tcci_description :: string

record TunnelConfigCapability =
  tcc_supports_small_request_body :: bool
  tcc_supports_large_request_body :: bool
  tcc_supports_large_response_body :: bool
  tcc_supports_streaming_response :: bool
  tcc_supports_bidirectional_http_tunnel :: bool
  tcc_supports_transparent_http_proxy :: bool

record TunnelConfigPayload =
  tc_channel_protocol :: string
  tc_connection_initiator :: ConnectionInitiator
  tc_mapping_relay_mode :: "RelayMode option"
  tc_local_device_id :: string
  tc_peer_device_id :: string
  tc_heartbeat_interval_sec :: int
  tc_register_retry_count :: int
  tc_register_retry_interval_sec :: int
  tc_registration_status :: string
  tc_last_register_time :: string
  tc_last_heartbeat_time :: string
  tc_heartbeat_status :: string
  tc_last_failure_reason :: string
  tc_next_retry_time :: string
  tc_consecutive_heartbeat_timeout :: int
  tc_supported_capabilities :: "string list"
  tc_request_channel :: string
  tc_response_channel :: string
  tc_network_mode :: string
  tc_capability :: TunnelConfigCapability
  tc_capability_items :: "TunnelConfigCapabilityItem list"
  tc_register_auth_enabled :: "bool option"
  tc_register_auth_username :: "string option"
  tc_register_auth_password :: "string option"
  tc_register_auth_password_configured :: "bool option"
  tc_register_auth_realm :: "string option"
  tc_register_auth_algorithm :: "string option"
  tc_catalog_subscribe_expires_sec :: "int option"

record TunnelConfigUpdatePayload =
  tcu_channel_protocol :: string
  tcu_connection_initiator :: ConnectionInitiator
  tcu_mapping_relay_mode :: "RelayMode option"
  tcu_heartbeat_interval_sec :: int
  tcu_register_retry_count :: int
  tcu_register_retry_interval_sec :: int
  tcu_network_mode :: string
  tcu_register_auth_enabled :: "bool option"
  tcu_register_auth_username :: "string option"
  tcu_register_auth_password :: "string option"
  tcu_register_auth_password_configured :: "bool option"
  tcu_register_auth_realm :: "string option"
  tcu_register_auth_algorithm :: "string option"
  tcu_catalog_subscribe_expires_sec :: "int option"

record TunnelCatalogResource =
  tcr_resource_code :: "string option"
  tcr_device_id :: string
  tcr_resource_type :: "string option"
  tcr_name :: string
  tcr_local_port :: "int option"
  tcr_local_ports :: "(int list) option"
  tcr_exposure_mode :: ExposureMode
  tcr_methods :: "string list"
  tcr_method_list :: "(string list) option"
  tcr_response_mode :: ResponseMode
  tcr_source :: "ResourceSource option"
  tcr_status :: "string option"
  tcr_max_inline_response_body :: "int option"
  tcr_max_request_body :: "int option"
  tcr_mapping_ids :: "(string list) option"

record TunnelCatalogSummary =
  tcs_resource_total :: int
  tcs_manual_expose_num :: int
  tcs_unexposed_num :: int

record TunnelCatalogPayload =
  tcp_resources :: "TunnelCatalogResource list"
  tcp_summary :: TunnelCatalogSummary

record GB28181PeerState =
  gps_device_id :: string
  gps_node_type :: "string option"
  gps_remote_addr :: string
  gps_callback_addr :: string
  gps_transport :: string
  gps_last_register_at :: "string option"
  gps_register_expires_at :: "string option"
  gps_last_keepalive_at :: "string option"
  gps_subscribed_at :: "string option"
  gps_subscription_expires_at :: "string option"
  gps_last_catalog_notify_at :: "string option"
  gps_auth_required :: bool
  gps_last_error :: "string option"

record GB28181PendingSession =
  gpd_call_id :: string
  gpd_device_id :: string
  gpd_mapping_id :: string
  gpd_response_mode :: string
  gpd_stage :: "string option"
  gpd_last_stage_at :: "string option"
  gpd_last_error :: "string option"
  gpd_started_at :: "string option"

record GB28181InboundSession =
  gis_call_id :: string
  gis_device_id :: string
  gis_mapping_id :: string
  gis_callback_addr :: string
  gis_transport :: string
  gis_remote_rtp_ip :: string
  gis_remote_rtp_port :: int
  gis_stage :: "string option"
  gis_last_stage_at :: "string option"
  gis_last_error :: "string option"
  gis_started_at :: "string option"
  gis_last_invoke_at :: "string option"

record GB28181CatalogState =
  gcs_resource_total :: int
  gcs_exposed_total :: int

record GB28181RuntimeSnapshot =
  grs_peers :: "GB28181PeerState list"
  grs_pending_sessions :: "GB28181PendingSession list"
  grs_inbound_sessions :: "GB28181InboundSession list"
  grs_catalog :: GB28181CatalogState
  grs_updated_at :: string

record TunnelSessionRuntimeState =
  tsrs_registration_status :: string
  tsrs_heartbeat_status :: string
  tsrs_phase :: "string option"
  tsrs_phase_updated_at :: "string option"
  tsrs_last_register_time :: string
  tsrs_last_heartbeat_time :: string
  tsrs_last_failure_reason :: string
  tsrs_next_retry_time :: string
  tsrs_consecutive_heartbeat_timeout :: int

record GB28181StatePayload =
  gsp_session :: TunnelSessionRuntimeState
  gsp_config :: TunnelConfigPayload
  gsp_gb28181 :: "GB28181RuntimeSnapshot option"

record LinkMonitorPayload =
  lmp_session :: TunnelSessionRuntimeState
  lmp_config :: TunnelConfigPayload
  lmp_gb28181 :: "GB28181RuntimeSnapshot option"
  lmp_mapping_summary :: "TunnelMappingOverviewSummary option"
  lmp_live_status :: string
  lmp_ready_status :: string
  lmp_readiness_reasons :: "(string list) option"
  lmp_updated_at :: string

record TunnelSessionActionPayload =
  tsap_action :: SessionAction

record TunnelCatalogActionPayload =
  tcap_action :: CatalogAction

record TunnelCatalogActionResponse =
  tcar_action :: string
  tcar_subscribe_triggered :: "int option"
  tcar_notify_triggered :: "int option"
  tcar_gb28181 :: "GB28181RuntimeSnapshot option"

record TunnelSessionActionResponse =
  tsar_action :: string
  tsar_state :: TunnelSessionRuntimeState

record NodeConfigEndpoint =
  nce_node_ip :: string
  nce_signaling_port :: int
  nce_device_id :: string
  nce_node_type :: "string option"
  nce_rtp_port_start :: "int option"
  nce_rtp_port_end :: "int option"
  nce_mapping_port_start :: "int option"
  nce_mapping_port_end :: "int option"

record NodeConfigPayload =
  ncp_local_node :: NodeConfigEndpoint
  ncp_peer_node :: NodeConfigEndpoint

record NodeDetailPayload =
  ndp_local_node :: LocalNodeConfig
  ndp_current_network_mode :: string
  ndp_current_capability :: Capability
  ndp_compatibility_status :: NodeConfigCheckResult

record NodeNetworkStatusPayload =
  nns_network_mode :: string
  nns_capability :: Capability
  nns_current_network_mode :: string
  nns_current_capability :: Capability
  nns_compatibility_status :: NodeConfigCheckResult
  nns_capability_summary :: CapabilitySummary
  nns_bound_peer :: "PeerBinding option"
  nns_peer_binding_error :: "string option"

record TunnelConfigState =
  ts_channel_protocol :: string
  ts_connection_initiator :: ConnectionInitiator
  ts_mapping_relay_mode :: "RelayMode option"
  ts_local_device_id :: "string option"
  ts_peer_device_id :: "string option"
  ts_heartbeat_interval_sec :: int
  ts_register_retry_count :: int
  ts_register_retry_interval_sec :: int
  ts_registration_status :: string
  ts_last_register_time :: string
  ts_last_heartbeat_time :: string
  ts_heartbeat_status :: string
  ts_last_failure_reason :: string
  ts_next_retry_time :: string
  ts_consecutive_heartbeat_timeout :: int
  ts_supported_capabilities :: "string list"
  ts_request_channel :: string
  ts_response_channel :: string
  ts_network_mode :: string
  ts_capability :: TunnelConfigCapability
  ts_capability_items :: "TunnelConfigCapabilityItem list"
  ts_register_auth_enabled :: "bool option"
  ts_register_auth_username :: "string option"
  ts_register_auth_password :: "string option"
  ts_register_auth_password_configured :: "bool option"
  ts_register_auth_realm :: "string option"
  ts_register_auth_algorithm :: "string option"
  ts_catalog_subscribe_expires_sec :: "int option"

end
