(* ===== verification/NetworkTypes.thy ===== *)
theory NetworkTypes
  imports GatewayTypes
begin

text \<open>
  Interfaces of the audits, link tests, network configuration, configuration governance and
  diagnostic export.
  The conventions are those of \<open>GatewayTypes\<close>.
\<close>

record OpsAuditFilters =
  oaf_requestId :: "string option"
  oaf_traceId :: "string option"
  oaf_rule :: "string option"
  oaf_errorOnly :: "bool option"
  oaf_startTime :: "string option"
  oaf_endTime :: "string option"

record OpsAuditCore =
  oac_request_id :: string
  oac_trace_id :: string
  oac_session_id :: string
  oac_api_code :: string
  oac_source_system :: string
  oac_source_node :: string
  oac_message_type :: string
  oac_result_code :: string
  oac_span_id :: string

record OpsAuditEvent =
  oae_who :: string
  oae_when :: string
  oae_request_type :: string
  oae_validation_passed :: bool
  oae_local_service_route :: string
  oae_final_result :: string
  oae_ops_action :: string
  oae_core :: OpsAuditCore

record OpsLinkTestItem =
  olti_name :: "string option"
  olti_passed :: bool
  olti_status :: TestStatus
  olti_detail :: string
  olti_duration_ms :: int

record OpsLinkTestReport =
  oltr_passed :: bool
  oltr_status :: TestStatus
  oltr_request_id :: string
  oltr_trace_id :: string
  oltr_duration_ms :: int
  oltr_checked_at :: string
  oltr_mock_target :: string
  oltr_items :: "OpsLinkTestItem list"

record SipNetworkConfig =
  sn_listenIp :: string
  sn_listenPort :: int
  sn_protocol :: TransportProtocol
  sn_advertisedAddress :: string
  sn_domain :: string
  sn_tcpKeepaliveEnabled :: bool
  sn_tcpKeepaliveIntervalMs :: int
  sn_tcpReadBufferBytes :: int
  sn_tcpWriteBufferBytes :: int
  sn_maxConnections :: int

record RtpNetworkConfig =
  rn_listenIp :: string
  rn_portRangeStart :: int
  rn_portRangeEnd :: int
  rn_protocol :: TransportProtocol
  rn_advertisedAddress :: string
  rn_maxConcurrentTransfers :: int

record PortPoolStatus =
  pp_totalAvailablePorts :: int
  pp_occupiedPorts :: int
  pp_activeTransfers :: int
  pp_usageRate :: rat

record ConnectionErrorEvent =
  cee_id :: string
  cee_occurredAt :: string
  cee_transport :: TransportKind
  cee_protocol :: TransportProtocol
  cee_nodeId :: string
  cee_errorCode :: string
  cee_reason :: string

record SelfCheckItem =
  sci_key :: string
  sci_name :: "string option"
  sci_level :: CheckLevel
  sci_message :: string
  sci_suggestion :: string
  sci_action_hint :: string
  sci_doc_link :: "string option"

record LinkTestResult =
  ltr_id :: string
  ltr_scene :: string
  ltr_status :: LinkTestStatus
  ltr_avgLatencyMs :: rat
  ltr_packetLossRate :: rat
  ltr_throughputMbps :: rat
  ltr_executedAt :: string

record NetworkConfigPayload =
  nc_sip :: SipNetworkConfig
  nc_rtp :: RtpNetworkConfig
  nc_portPool :: PortPoolStatus
  nc_connectionErrors :: "ConnectionErrorEvent list"
  nc_selfCheckItems :: "SelfCheckItem list"
  nc_linkTests :: "LinkTestResult list"

record UpdateNetworkConfigPayload =
  unc_sip :: SipNetworkConfig
  unc_rtp :: RtpNetworkConfig

record ConfigGovernanceSnapshot =
  cgs_version :: string
  cgs_createdAt :: string
  cgs_operator :: string
  cgs_changeSummary :: string
  cgs_status :: SnapshotStatus

record RuntimeSipConfig =
  rsc_listen_port :: int
  rsc_transport :: TransportProtocol
  rsc_listen_ip :: string

record RuntimeRtpConfig =
  rrc_port_start :: int
  rrc_port_end :: int
  rrc_transport :: TransportProtocol
  rrc_listen_ip :: string

record RuntimeGatewayConfig =
  rgc_sip :: RuntimeSipConfig
  rgc_rtp :: RuntimeRtpConfig
  rgc_max_message_bytes :: int
  rgc_heartbeat_interval_sec :: int

record ConfigDiffItem =
  cdi_path :: string
  cdi_before :: string
  cdi_after :: string
  cdi_riskLevel :: RiskLevel

record ConfigSnapshotFilters =
  csf_startTime :: "string option"
  csf_endTime :: "string option"
  csf_operator :: "string option"
  csf_version :: "string option"

record ConfigGovernancePayload =
  cgp_snapshots :: "ConfigGovernanceSnapshot list"
  cgp_currentConfig :: RuntimeGatewayConfig
  cgp_pendingConfig :: RuntimeGatewayConfig
  cgp_diff :: "ConfigDiffItem list"

record DiagnosticExportCreatePayload =
  decp_nodeId :: string
  decp_requestId :: "string option"
  decp_traceId :: "string option"

record DiagnosticExportSection =
  des_key :: DiagnosticSectionKey
  des_label :: string
  des_done :: bool

record DiagnosticExportJob =
  dej_jobId :: string
  dej_nodeId :: string
  dej_status :: DiagnosticExportStatus
  dej_progress :: int
  dej_startedAt :: string
  dej_updatedAt :: string
  dej_fileName :: string
  dej_sections :: "DiagnosticExportSection list"
  dej_errorMessage :: "string option"
  dej_downloadUrl :: "string option"

end
