(* ===== verification/TransferTypes.thy ===== *)
theory TransferTypes
  imports TunnelTypes NetworkTypes
begin

text \<open>
  Interfaces of the configuration export and import, which join the network, tunnel and node
  configuration. The tunnel part is a \<open>TunnelConfigState\<close>: the export copies the mock gateway's
  state, which need not hold the two device ids that \<open>TunnelConfigPayload\<close> requires.
  The conventions are those of \<open>GatewayTypes\<close>.
\<close>

record ConfigTransferPayload =
  ctp_version :: string
  ctp_exported_at :: string
  ctp_network_config :: UpdateNetworkConfigPayload
  ctp_tunnel_config :: TunnelConfigState
  ctp_node_config :: NodeConfigPayload

record ConfigTransferImportResult =
  ctir_imported :: bool
  ctir_tunnel_restarted :: bool
  ctir_version :: string
  ctir_message :: string

end
