(* ===== verification/TaskTypes.thy ===== *)
theory TaskTypes
  imports GatewayTypes
begin

text \<open>
  Interfaces of the dashboard, the startup summary, the system status and the tasks.
  The conventions are those of \<open>GatewayTypes\<close>.
\<close>

record DashboardMetrics =
  dm_successRate :: rat
  dm_failureRate :: rat
  dm_concurrency :: int
  dm_rtpLossRate :: rat
  dm_rateLimitHits :: int
  dm_sipProtocol :: TransportProtocol
  dm_sipListenPort :: int
  dm_rtpProtocol :: TransportProtocol
  dm_rtpPortRange :: string
  dm_activeSessions :: int
  dm_activeTransfers :: int
  dm_currentConnections :: int
  dm_failedTasks1h :: int
  dm_transportErrors1h :: int
  dm_rateLimitHits1h :: int

record TrendPoint =
  tp_time :: string
  tp_total :: int
  tp_success :: int
  tp_failed :: int

record DashboardPayload =
  dp_metrics :: DashboardMetrics
  dp_recentTrends :: "TrendPoint list"

record DeploymentModePayload =
  dmp_uiMode :: UiDeployMode
  dmp_uiUrl :: string
  dmp_apiUrl :: string
  dmp_configPath :: string
  dmp_configSource :: string

record BusinessExecutionStatus =
  be_state :: BusinessState
  be_route_count :: int
  be_message :: string
  be_impact :: string

record TunnelTransportPlan =
  ttp_request_meta_transport :: string
  ttp_request_body_transport :: string
  ttp_response_meta_transport :: string
  ttp_response_body_transport :: string
  ttp_request_body_size_limit :: js_number
  ttp_response_body_size_limit :: js_number
  ttp_notes :: "string list"
  ttp_warnings :: "string list"

record ActiveStrategySummary =
  ass_entry_selection_policy :: string
  ass_udp_control_header_policy :: string
  ass_generic_download_rtp_tolerance_profile :: string
  ass_generic_download_guard_policy :: "string option"

record UiDeliverySummary =
  uds_metadata_present :: bool
  uds_consistency_status :: string
  uds_consistency_detail :: string
  uds_build_nonce :: string
  uds_embedded_at :: string
  uds_ui_source_latest_write :: string
  uds_embedded_hash_sha256 :: string
  uds_asset_base_mode :: string
  uds_router_base_path_policy :: string
  uds_delivery_guard_status :: string
  uds_delivery_guard_detail :: string
  uds_delivery_guard_removed_count :: int
  uds_delivery_guard_remaining_count :: int
  uds_delivery_guard_hit_count :: int

record SelfCheckSummary =
  scs_generated_at :: string
  scs_overall :: CheckLevel
  scs_info :: int
  scs_warn :: int
  scs_error :: int

record StartupSummaryPayload =
  ss_node_id :: string
  ss_network_mode :: string
  ss_bound_peer :: "PeerBinding option"
  ss_peer_binding_error :: "string option"
  ss_capability :: Capability
  ss_capability_summary :: CapabilitySummary
  ss_config_path :: string
  ss_config_source :: string
  ss_ui_mode :: UiDeployMode
  ss_ui_url :: string
  ss_api_url :: string
  ss_transport_plan :: TunnelTransportPlan
  ss_active_strategy_summary :: "ActiveStrategySummary option"
  ss_ui_delivery_summary :: "UiDeliverySummary option"
  ss_business_execution :: BusinessExecutionStatus
  ss_self_check_summary :: SelfCheckSummary

record SystemStatusCapability =
  ssc_supports_small_request_body :: bool
  ssc_supports_large_response_body :: bool
  ssc_supports_streaming_response :: bool
  ssc_supports_large_file_upload :: bool
  ssc_supports_bidirectional_http_tunnel :: bool

record SystemStatusPayload =
  ssp_tunnel_status :: TunnelStatus
  ssp_connection_reason :: string
  ssp_network_mode :: string
  ssp_registration_status :: "RegistrationStatus option"
  ssp_heartbeat_status :: "HeartbeatStatus option"
  ssp_last_register_time :: "string option"
  ssp_last_heartbeat_time :: "string option"
  ssp_mapping_total :: "int option"
  ssp_mapping_abnormal_total :: "int option"
  ssp_latest_mapping_error_reason :: "string option"
  ssp_bound_peer :: "PeerBinding option"
  ssp_peer_binding_error :: "string option"
  ssp_capability :: SystemStatusCapability

record TaskListFilters =
  tf_status :: "TaskStatus option"
  tf_requestId :: "string option"
  tf_traceId :: "string option"
  tf_startAt :: "string option"
  tf_endAt :: "string option"
  tf_nodeId :: "string option"

record CommandTask =
  ct_id :: string
  ct_requestId :: string
  ct_traceId :: string
  ct_apiCode :: string
  ct_nodeId :: string
  ct_status :: TaskStatus
  ct_createdAt :: string
  ct_updatedAt :: string
  ct_latencyMs :: int

record FileTask =
  ft_id :: string
  ft_requestId :: string
  ft_traceId :: string
  ft_filename :: string
  ft_status :: TaskStatus
  ft_totalShards :: int
  ft_missingShards :: int
  ft_retryRounds :: int
  ft_checksumPassed :: bool
  ft_progress :: int
  ft_createdAt :: string
  ft_updatedAt :: string

record TimelineItem =
  tli_stage :: string
  tli_status :: TimelineStatus
  tli_time :: string
  tli_operator :: string
  tli_detail :: string

record SipEvent =
  se_time :: string
  se_method :: string
  se_code :: int
  se_summary :: string

record HttpExecutionResult =
  her_apiCode :: string
  her_url :: string
  her_method :: string
  her_statusCode :: int
  her_durationMs :: int
  her_responseSnippet :: string

record AuditSnippet =
  as_id :: string
  as_time :: string
  as_actor :: string
  as_action :: string
  as_summary :: string

record RtpStats =
  rs_totalShards :: int
  rs_receivedShards :: int
  rs_missingShards :: int
  rs_retransmittedShards :: int
  rs_bitrateMbps :: rat

record TaskDetail =
  td_id :: string
  td_taskKind :: TaskKind
  td_requestId :: string
  td_traceId :: string
  td_status :: TaskStatus
  td_nodeId :: string
  td_createdAt :: string
  td_updatedAt :: string
  td_timeline :: "TimelineItem list"
  td_sipEvents :: "SipEvent list"
  td_rtpStats :: RtpStats
  td_httpResult :: HttpExecutionResult
  td_auditSnippets :: "AuditSnippet list"

record OpsLimits =
  ol_rps :: int
  ol_burst :: int
  ol_maxConcurrent :: int

record OpsRoute =
  ort_api_code :: string
  ort_http_method :: string
  ort_http_path :: string
  ort_enabled :: bool

end
