(* ===== verification/TunnelCapability.thy ===== *)
theory TunnelCapability
  imports TaskTypes TunnelTypes
begin

text \<open>
  What a network mode lets a tunnel carry: \<open>utils/tunnelConfig.ts\<close> (the capability of a mode and
  its description), \<open>utils/networkMode.ts\<close> (the profile table) and \<open>utils/capability.ts\<close> (the
  capability matrix and the check of a mapping against the mode's limits).
\<close>

subsection \<open>Capability of a network mode\<close>

definition deriveTunnelCapability :: "string \<Rightarrow> TunnelConfigCapability" where
  "deriveTunnelCapability network_mode =
     (if network_mode = ''SENDER_SIP_RTP__RECEIVER_SIP_RTP'' then
        \<lparr>tcc_supports_small_request_body = True, tcc_supports_large_request_body = True,
         tcc_supports_large_response_body = True, tcc_supports_streaming_response = True,
         tcc_supports_bidirectional_http_tunnel = True, tcc_supports_transparent_http_proxy = True\<rparr>
      else if network_mode = ''SENDER_SIP__RECEIVER_SIP'' then
        \<lparr>tcc_supports_small_request_body = True, tcc_supports_large_request_body = False,
         tcc_supports_large_response_body = False, tcc_supports_streaming_response = False,
         tcc_supports_bidirectional_http_tunnel = False, tcc_supports_transparent_http_proxy = False\<rparr>
      else if network_mode = ''SENDER_SIP__RECEIVER_RTP'' \<or> network_mode = ''SENDER_SIP__RECEIVER_SIP_RTP'' then
        \<lparr>tcc_supports_small_request_body = True, tcc_supports_large_request_body = False,
         tcc_supports_large_response_body = True, tcc_supports_streaming_response = True,
         tcc_supports_bidirectional_http_tunnel = False, tcc_supports_transparent_http_proxy = False\<rparr>
      else
        \<lparr>tcc_supports_small_request_body = False, tcc_supports_large_request_body = False,
         tcc_supports_large_response_body = False, tcc_supports_streaming_response = False,
         tcc_supports_bidirectional_http_tunnel = False, tcc_supports_transparent_http_proxy = False\<rparr>)"

definition buildTunnelCapabilityItems :: "TunnelConfigCapability \<Rightarrow> TunnelConfigCapabilityItem list" where
  "buildTunnelCapabilityItems capability =
     [\<lparr>tcci_key = ''supports_small_request_body'', tcci_supported = tcc_supports_small_request_body capability,
       tcci_description = (uni ''~652F~6301~5C0F~8BF7~6C42~4F53~FF08~5178~578B SIP ~8F7D~8377~8303~56F4~FF09'')\<rparr>,
      \<lparr>tcci_key = ''supports_large_request_body'', tcci_supported = tcc_supports_large_request_body capability,
       tcci_description = (uni ''~652F~6301~5927~8BF7~6C42~4F53~4E0A~4F20'')\<rparr>,
      \<lparr>tcci_key = ''supports_large_response_body'', tcci_supported = tcc_supports_large_response_body capability,
       tcci_description = (uni ''~652F~6301~5927~54CD~5E94~4F53~56DE~4F20'')\<rparr>,
      \<lparr>tcci_key = ''supports_streaming_response'', tcci_supported = tcc_supports_streaming_response capability,
       tcci_description = (uni ''~652F~6301~6D41~5F0F~54CD~5E94/~5206~5757~56DE~4F20'')\<rparr>,
      \<lparr>tcci_key = ''supports_bidirectional_http_tunnel'', tcci_supported = tcc_supports_bidirectional_http_tunnel capability,
       tcci_description = (uni ''~652F~6301~53CC~5411 HTTP ~96A7~9053'')\<rparr>,
      \<lparr>tcci_key = ''supports_transparent_http_proxy'', tcci_supported = tcc_supports_transparent_http_proxy capability,
       tcci_description = (uni ''~652F~6301~900F~660E HTTP ~4EE3~7406'')\<rparr>]"

subsection \<open>Network mode profiles\<close>

record NetworkModeProfile =
  nmp_value :: string
  nmp_shortLabel :: string
  nmp_flowLabel :: string
  nmp_senderRole :: string
  nmp_receiverRole :: string
  nmp_requestDirection :: string
  nmp_responseDirection :: string

definition NETWORK_MODE_PROFILES :: "NetworkModeProfile list" where
  "NETWORK_MODE_PROFILES =
     [\<lparr>nmp_value = ''SENDER_SIP__RECEIVER_SIP'',
       nmp_shortLabel = (uni ''~6A21~5F0F0~FF1ASIP --> | <-- SIP''),
       nmp_flowLabel = (uni ''~672C~7EA7~57DF/~53D1~8D77~4FA7: SIP --> | <-- SIP : ~7EA7~8054~5BF9~7AEF/~5E94~7B54~4FA7''),
       nmp_senderRole = (uni ''~672C~7EA7~57DF~FF08~53D1~8D77~4FA7~FF09~4EC5~53D1~9001 SIP ~8BF7~6C42''),
       nmp_receiverRole = (uni ''~7EA7~8054~5BF9~7AEF~FF08~5E94~7B54~4FA7~FF09~4EC5~901A~8FC7 SIP ~8FD4~56DE~54CD~5E94''),
       nmp_requestDirection = (uni ''~5355~5411~8BF7~6C42~FF1A~53D1~9001~7AEF -> ~63A5~6536~7AEF~FF08SIP~FF09''),
       nmp_responseDirection = (uni ''~5355~5411~54CD~5E94~FF1A~63A5~6536~7AEF -> ~53D1~9001~7AEF~FF08SIP~FF09'')\<rparr>,
      \<lparr>nmp_value = ''SENDER_SIP__RECEIVER_RTP'',
       nmp_shortLabel = (uni ''~6A21~5F0F1~FF1ASIP --> | <-- RTP''),
       nmp_flowLabel = (uni ''~672C~7EA7~57DF/~53D1~8D77~4FA7: SIP --> | <-- RTP : ~7EA7~8054~5BF9~7AEF/~5E94~7B54~4FA7''),
       nmp_senderRole = (uni ''~672C~7EA7~57DF~FF08~53D1~8D77~4FA7~FF09~4EC5~53D1~9001 SIP ~8BF7~6C42''),
       nmp_receiverRole = (uni ''~7EA7~8054~5BF9~7AEF~FF08~5E94~7B54~4FA7~FF09~901A~8FC7 RTP ~56DE~4F20~54CD~5E94''),
       nmp_requestDirection = (uni ''~5355~5411~8BF7~6C42~FF1A~53D1~9001~7AEF -> ~63A5~6536~7AEF~FF08SIP~FF09''),
       nmp_responseDirection = (uni ''~5355~5411~54CD~5E94~FF1A~63A5~6536~7AEF -> ~53D1~9001~7AEF~FF08RTP~FF09'')\<rparr>,
      \<lparr>nmp_value = ''SENDER_SIP__RECEIVER_SIP_RTP'',
       nmp_shortLabel = (uni ''~6A21~5F0F2~FF1ASIP --> | <-- SIP&RTP''),
       nmp_flowLabel = (uni ''~672C~7EA7~57DF/~53D1~8D77~4FA7: SIP --> | <-- SIP&RTP : ~7EA7~8054~5BF9~7AEF/~5E94~7B54~4FA7''),
       nmp_senderRole = (uni ''~672C~7EA7~57DF~FF08~53D1~8D77~4FA7~FF09~4EC5~53D1~9001 SIP ~8BF7~6C42''),
       nmp_receiverRole = (uni ''~7EA7~8054~5BF9~7AEF~FF08~5E94~7B54~4FA7~FF09~53EF~7528 SIP/RTP ~8FD4~56DE~54CD~5E94''),
       nmp_requestDirection = (uni ''~5355~5411~8BF7~6C42~FF1A~53D1~9001~7AEF -> ~63A5~6536~7AEF~FF08SIP~FF09''),
       nmp_responseDirection = (uni ''~53CC~901A~9053~54CD~5E94~FF1A~63A5~6536~7AEF -> ~53D1~9001~7AEF~FF08SIP ~6216 RTP~FF09'')\<rparr>,
      \<lparr>nmp_value = ''SENDER_SIP_RTP__RECEIVER_SIP_RTP'',
       nmp_shortLabel = (uni ''~6A21~5F0F3~FF1ASIP&RTP --> | <-- SIP&RTP''),
       nmp_flowLabel = (uni ''~672C~7EA7~57DF/~53D1~8D77~4FA7: SIP&RTP --> | <-- SIP&RTP : ~7EA7~8054~5BF9~7AEF/~5E94~7B54~4FA7''),
       nmp_senderRole = (uni ''~672C~7EA7~57DF~FF08~53D1~8D77~4FA7~FF09~652F~6301 SIP/RTP ~53D1~9001''),
       nmp_receiverRole = (uni ''~7EA7~8054~5BF9~7AEF~FF08~5E94~7B54~4FA7~FF09~652F~6301 SIP/RTP ~6536~53D1''),
       nmp_requestDirection = (uni ''~53CC~901A~9053~8BF7~6C42~FF1A~53D1~9001~7AEF -> ~63A5~6536~7AEF~FF08SIP ~6216 RTP~FF09''),
       nmp_responseDirection = (uni ''~53CC~901A~9053~54CD~5E94~FF1A~63A5~6536~7AEF -> ~53D1~9001~7AEF~FF08SIP ~6216 RTP~FF09'')\<rparr>]"

definition getNetworkModeProfile :: "string \<Rightarrow> NetworkModeProfile option" where
  "getNetworkModeProfile mode = find (\<lambda>item. nmp_value item = mode) NETWORK_MODE_PROFILES"

subsection \<open>Capability matrix and mapping check\<close>

definition stableMethodWarningSet :: "string set" where
  "stableMethodWarningSet = {''PUT'', ''PATCH'', ''DELETE''}"

definition transparentTunnelMethodSet :: "string set" where
  "transparentTunnelMethodSet = {''CONNECT'', ''TRACE''}"

definition default_matrix :: "Capability \<Rightarrow> CapabilityItem list" where
  "default_matrix capability =
     [\<lparr>ci_key = ''small_request'', ci_label = (uni ''~5C0F~8BF7~6C42~4F53~FF08~63A7~5236~9762~5E38~89C4~8BF7~6C42~FF09''), ci_supported = True,
       ci_note = (uni ''~9ED8~8BA4~652F~6301~FF0C~7528~4E8E~5E38~89C4~63A5~53E3~8C03~7528~3002'')\<rparr>,
      \<lparr>ci_key = ''large_request'', ci_label = (uni ''~5927~8BF7~6C42~4F53~FF08~4E0A~4F20/~6279~91CF~63D0~4EA4~FF09''),
       ci_supported = cap_supports_large_request_body capability,
       ci_note = (if cap_supports_large_request_body capability then (uni ''~53EF~914D~7F6E~66F4~5927~8BF7~6C42~4F53~4E0A~9650~3002'')
                  else (uni ''~4E0D~652F~6301~5927~8BF7~6C42~4F53~FF0C~8BF7~4FDD~6301~8BF7~6C42~4F53~5728~6A21~5F0F~9650~5236~5185~3002''))\<rparr>,
      \<lparr>ci_key = ''large_response'', ci_label = (uni ''~5927~54CD~5E94~4F53~FF08~4E0B~8F7D/~6279~91CF~8FD4~56DE~FF09''),
       ci_supported = cap_supports_large_response_body capability,
       ci_note = (if cap_supports_large_response_body capability then (uni ''~53EF~627F~8F7D~5927~54CD~5E94~4F53~3002'')
                  else (uni ''~54CD~5E94~4F53~8FC7~5927~5C06~88AB~9650~5236~6216~5931~8D25~3002''))\<rparr>,
      \<lparr>ci_key = ''streaming_response'', ci_label = (uni ''~6D41~5F0F~54CD~5E94~FF08SSE/~5206~7247~8F93~51FA~FF09''),
       ci_supported = cap_supports_streaming_response capability,
       ci_note = (if cap_supports_streaming_response capability then (uni ''~53EF~5728~6620~5C04~4E2D~542F~7528~6D41~5F0F~54CD~5E94~3002'')
                  else (uni ''~5F53~524D~6A21~5F0F~4E0D~652F~6301~6D41~5F0F~54CD~5E94~3002''))\<rparr>,
      \<lparr>ci_key = ''bidirectional_http_tunnel'', ci_label = (uni ''~53CC~5411~900F~660E HTTP tunnel~FF08CONNECT/TRACE~FF09''),
       ci_supported = cap_supports_bidirectional_http_tunnel capability,
       ci_note = (if cap_supports_bidirectional_http_tunnel capability then (uni ''~652F~6301~900F~660E~96A7~9053~7C7B~8BF7~6C42~3002'')
                  else (uni ''~4E0D~652F~6301~900F~660E tunnel~FF0C~8BF7~907F~514D CONNECT/TRACE~3002''))\<rparr>]"

definition buildCapabilityMatrix :: "Capability \<Rightarrow> CapabilitySummary option \<Rightarrow> CapabilityItem list" where
  "buildCapabilityMatrix capability summary =
     (case summary of
        Some s \<Rightarrow> if cs_items s \<noteq> [] then cs_items s else default_matrix capability
      | None \<Rightarrow> default_matrix capability)"

definition resolveBodyLimit :: "js_number \<Rightarrow> int" where
  "resolveBodyLimit value = (case value of NumFin n \<Rightarrow> if n > 0 then n else 0 | _ \<Rightarrow> 0)"

record MappingCapabilityReport =
  mcr_blockingIssues :: "string list"
  mcr_advisoryWarnings :: "string list"

definition evaluateMappingCapability ::
  "TunnelMapping \<Rightarrow> StartupSummaryPayload option \<Rightarrow> MappingCapabilityReport" where
  "evaluateMappingCapability mapping startupSummary =
     (case startupSummary of
        None \<Rightarrow> \<lparr>mcr_blockingIssues = [], mcr_advisoryWarnings = []\<rparr>
      | Some summary \<Rightarrow>
          let cap = ss_capability summary;
              requestLimit = resolveBodyLimit (ttp_request_body_size_limit (ss_transport_plan summary));
              responseLimit = resolveBodyLimit (ttp_response_body_size_limit (ss_transport_plan summary));
              allowedMethods = nullish (tm_allowed_methods mapping) []
          in \<lparr>mcr_blockingIssues =
                (if \<not> cap_supports_large_request_body cap \<and> requestLimit > 0
                    \<and> tm_max_request_body_bytes mapping > requestLimit
                 then [(uni ''~5F53~524D~6A21~5F0F~4EC5~652F~6301~5C0F~8BF7~6C42~4F53~FF0Cmax_request_body_bytes ~4E0D~80FD~8D85~8FC7 '') @ string_of_int requestLimit]
                 else []) @
                (if \<not> cap_supports_large_response_body cap \<and> responseLimit > 0
                    \<and> tm_max_response_body_bytes mapping > responseLimit
                 then [(uni ''~5F53~524D~6A21~5F0F~4E0D~652F~6301~5927~54CD~5E94~4F53~FF0Cmax_response_body_bytes ~4E0D~80FD~8D85~8FC7 '') @ string_of_int responseLimit]
                 else []) @
                (if tm_require_streaming_response mapping \<and> \<not> cap_supports_streaming_response cap
                 then [(uni ''~5F53~524D~6A21~5F0F~4E0D~652F~6301~6D41~5F0F~54CD~5E94~FF0C~8BF7~5173~95ED~201C~6D41~5F0F~54CD~5E94~201D~5F00~5173'')] else []) @
                (if \<not> cap_supports_bidirectional_http_tunnel cap
                    \<and> (\<exists>m \<in> set allowedMethods. toUpperCase m \<in> transparentTunnelMethodSet)
                 then [(uni ''~5F53~524D~6A21~5F0F~4E0D~652F~6301~53CC~5411~900F~660E HTTP tunnel~FF0C~8BF7~79FB~9664 CONNECT/TRACE ~65B9~6CD5'')] else []),
              mcr_advisoryWarnings =
                (if \<not> cap_supports_bidirectional_http_tunnel cap
                    \<and> (\<exists>m \<in> set allowedMethods. toUpperCase m \<in> stableMethodWarningSet)
                 then [(uni ''~5F53~524D~6A21~5F0F~4E0B PUT/PATCH/DELETE ~53EF~80FD~4E0D~7A33~5B9A~FF0C~5EFA~8BAE~538B~6D4B~540E~518D~4E0A~7EBF'')] else [])\<rparr>)"

subsection \<open>Order on capabilities\<close>

text \<open>\<open>tcc_le a b\<close>: whatever \<open>a\<close> supports, \<open>b\<close> supports.\<close>

definition tcc_le :: "TunnelConfigCapability \<Rightarrow> TunnelConfigCapability \<Rightarrow> bool" where
  "tcc_le a b \<longleftrightarrow>
     (tcc_supports_small_request_body a \<longrightarrow> tcc_supports_small_request_body b) \<and>
     (tcc_supports_large_request_body a \<longrightarrow> tcc_supports_large_request_body b) \<and>
     (tcc_supports_large_response_body a \<longrightarrow> tcc_supports_large_response_body b) \<and>
     (tcc_supports_streaming_response a \<longrightarrow> tcc_supports_streaming_response b) \<and>
     (tcc_supports_bidirectional_http_tunnel a \<longrightarrow> tcc_supports_bidirectional_http_tunnel b) \<and>
     (tcc_supports_transparent_http_proxy a \<longrightarrow> tcc_supports_transparent_http_proxy b)"

lemma tcc_le_refl [simp]: "tcc_le a a"
  by (simp add: tcc_le_def)

lemma tcc_le_trans: "tcc_le a b \<Longrightarrow> tcc_le b c \<Longrightarrow> tcc_le a c"
  by (auto simp: tcc_le_def)

lemma tcc_le_antisym: "tcc_le a b \<Longrightarrow> tcc_le b a \<Longrightarrow> a = b"
  by (cases a; cases b) (auto simp: tcc_le_def)

lemma profile_values:
  "map nmp_value NETWORK_MODE_PROFILES =
     [''SENDER_SIP__RECEIVER_SIP'', ''SENDER_SIP__RECEIVER_RTP'',
      ''SENDER_SIP__RECEIVER_SIP_RTP'', ''SENDER_SIP_RTP__RECEIVER_SIP_RTP'']"
  by (simp add: NETWORK_MODE_PROFILES_def)

lemma getNetworkModeProfile_ex:
  "(\<exists>p. getNetworkModeProfile m = Some p) \<longleftrightarrow> m \<in> set (map nmp_value NETWORK_MODE_PROFILES)"
  unfolding getNetworkModeProfile_def
  by (cases "find (\<lambda>item. nmp_value item = m) NETWORK_MODE_PROFILES")
    (auto simp: find_None_iff find_Some_iff)

lemma getNetworkModeProfile_value: "getNetworkModeProfile m = Some p \<Longrightarrow> nmp_value p = m"
  by (auto simp: getNetworkModeProfile_def find_Some_iff)

lemma derive_unknown_least:
  "m \<notin> set (map nmp_value NETWORK_MODE_PROFILES) \<Longrightarrow>
     tcc_le (deriveTunnelCapability m) (deriveTunnelCapability n)"
  unfolding profile_values by (simp add: tcc_le_def deriveTunnelCapability_def)

lemma derive_full_greatest:
  "tcc_le (deriveTunnelCapability m) (deriveTunnelCapability ''SENDER_SIP_RTP__RECEIVER_SIP_RTP'')"
  by (simp add: tcc_le_def deriveTunnelCapability_def)

lemma derive_small_iff:
  "tcc_supports_small_request_body (deriveTunnelCapability m) \<longleftrightarrow>
     m \<in> set (map nmp_value NETWORK_MODE_PROFILES)"
  unfolding profile_values by (auto simp: deriveTunnelCapability_def)

lemma derive_large_request_iff:
  "tcc_supports_large_request_body (deriveTunnelCapability m) \<longleftrightarrow> m = ''SENDER_SIP_RTP__RECEIVER_SIP_RTP''"
  by (simp add: deriveTunnelCapability_def)

lemma items_supported_keys:
  "map tcci_supported (buildTunnelCapabilityItems c) =
     [tcc_supports_small_request_body c, tcc_supports_large_request_body c,
      tcc_supports_large_response_body c, tcc_supports_streaming_response c,
      tcc_supports_bidirectional_http_tunnel c, tcc_supports_transparent_http_proxy c]"
  by (simp add: buildTunnelCapabilityItems_def)

lemma items_determine_capability:
  "buildTunnelCapabilityItems c = buildTunnelCapabilityItems d \<Longrightarrow> c = d"
proof -
  assume "buildTunnelCapabilityItems c = buildTunnelCapabilityItems d"
  then have "map tcci_supported (buildTunnelCapabilityItems c) = map tcci_supported (buildTunnelCapabilityItems d)"
    by simp
  then show "c = d" by (cases c; cases d) (simp add: items_supported_keys)
qed

subsection \<open>What the mapping check decides\<close>

text \<open>A body of \<open>n\<close> bytes fits a limit: the mode is unlimited, no limit is set, or \<open>n\<close> is within it.\<close>

definition body_fits :: "bool \<Rightarrow> js_number \<Rightarrow> int \<Rightarrow> bool" where
  "body_fits unlimited limit n \<longleftrightarrow> unlimited \<or> (case limit of NumFin l \<Rightarrow> l \<le> 0 \<or> n \<le> l | _ \<Rightarrow> True)"

definition mapping_admissible :: "Capability \<Rightarrow> TunnelTransportPlan \<Rightarrow> TunnelMapping \<Rightarrow> bool" where
  "mapping_admissible cap plan m \<longleftrightarrow>
     body_fits (cap_supports_large_request_body cap) (ttp_request_body_size_limit plan)
       (tm_max_request_body_bytes m) \<and>
     body_fits (cap_supports_large_response_body cap) (ttp_response_body_size_limit plan)
       (tm_max_response_body_bytes m) \<and>
     (tm_require_streaming_response m \<longrightarrow> cap_supports_streaming_response cap) \<and>
     (\<forall>x \<in> set (nullish (tm_allowed_methods m) []). toUpperCase x \<in> transparentTunnelMethodSet \<longrightarrow>
        cap_supports_bidirectional_http_tunnel cap)"

lemma resolveBodyLimit_exceeded:
  "\<not> u \<and> resolveBodyLimit l > 0 \<and> n > resolveBodyLimit l \<longleftrightarrow> \<not> body_fits u l n"
  by (auto simp: resolveBodyLimit_def body_fits_def split: js_number.splits)

lemma blocking_empty_iff:
  "mcr_blockingIssues (evaluateMappingCapability m (Some s)) = [] \<longleftrightarrow>
     mapping_admissible (ss_capability s) (ss_transport_plan s) m"
  unfolding evaluateMappingCapability_def mapping_admissible_def Let_def
  by (simp add: resolveBodyLimit_exceeded)

definition cap_le :: "Capability \<Rightarrow> Capability \<Rightarrow> bool" where
  "cap_le a b \<longleftrightarrow>
     (cap_supports_large_request_body a \<longrightarrow> cap_supports_large_request_body b) \<and>
     (cap_supports_large_response_body a \<longrightarrow> cap_supports_large_response_body b) \<and>
     (cap_supports_streaming_response a \<longrightarrow> cap_supports_streaming_response b) \<and>
     (cap_supports_bidirectional_http_tunnel a \<longrightarrow> cap_supports_bidirectional_http_tunnel b)"

lemma mapping_admissible_mono:
  "cap_le c d \<Longrightarrow> mapping_admissible c plan m \<Longrightarrow> mapping_admissible d plan m"
  unfolding mapping_admissible_def cap_le_def body_fits_def by blast

end
