(* ===== verification/MockState.thy ===== *)
theory MockState
  imports TransferTypes TaskTypes TunnelCapability
begin

text \<open>
  The module-level state of \<open>gateway-ui/src/api/mockGateway.ts\<close> (the in-browser stand-in for the
  gateway server) and its initial value. Every \<open>let\<close> and every mutated \<open>const\<close> of the module is
  a field of \<open>MockState\<close>. A deep copy \<open>JSON.parse(JSON.stringify(x))\<close> of such data is the data
  itself: the model's values are immutable, and an absent property is \<^const>\<open>None\<close> before and after.
\<close>

subsection \<open>State\<close>

text \<open>A local resource of the module: what is saved, and when.\<close>

record LocalResourceRecord = LocalResourceSavePayload +
  lrr_updated_at :: "string option"

text \<open>A running export: the job, the number of polls so far, and whether it will fail once.\<close>

record DiagnosticRecord =
  dr_job :: DiagnosticExportJob
  dr_polls :: nat
  dr_failOnce :: bool

record MockState =
  tunnelConfigState :: TunnelConfigState
  mappingState :: "TunnelMapping list"
  localNodeState :: LocalNodeConfig
  peerNodeState :: "PeerNodeConfig list"
  localResourceState :: "LocalResourceRecord list"
  networkConfigState :: NetworkConfigPayload
  snapshotState :: "ConfigGovernanceSnapshot list"
  runtimePendingConfig :: RuntimeGatewayConfig
  diagnosticJobs :: "string \<rightharpoonup> DiagnosticRecord"

subsection \<open>Initial values\<close>

definition tunnelConfigState_init :: TunnelConfigState where
  "tunnelConfigState_init =
     \<lparr>ts_channel_protocol = ''GB/T 28181'', ts_connection_initiator = Initiator_LOCAL,
      ts_mapping_relay_mode = Some Relay_AUTO, ts_local_device_id = None, ts_peer_device_id = None,
      ts_heartbeat_interval_sec = 60, ts_register_retry_count = 3, ts_register_retry_interval_sec = 10,
      ts_registration_status = ''registered'', ts_last_register_time = ''2026-03-14T10:00:00Z'',
      ts_last_heartbeat_time = ''2026-03-14T10:00:30Z'', ts_heartbeat_status = ''healthy'',
      ts_last_failure_reason = '''', ts_next_retry_time = '''', ts_consecutive_heartbeat_timeout = 0,
      ts_supported_capabilities = [(uni ''~652F~6301 MANSCDP ~63A7~5236~6D88~606F''), (uni ''~652F~6301 Catalog ~76EE~5F55~8BA2~9605''), (uni ''~652F~6301 RTP ~54CD~5E94~4F53~56DE~4F20'')],
      ts_request_channel = ''SIP'', ts_response_channel = ''RTP'',
      ts_network_mode = ''SENDER_SIP__RECEIVER_RTP'',
      ts_capability = deriveTunnelCapability ''SENDER_SIP__RECEIVER_RTP'',
      ts_capability_items = buildTunnelCapabilityItems (deriveTunnelCapability ''SENDER_SIP__RECEIVER_RTP''),
      ts_register_auth_enabled = Some True, ts_register_auth_username = Some ''34020000002000000001'',
      ts_register_auth_password = Some '''', ts_register_auth_password_configured = Some True,
      ts_register_auth_realm = Some ''3402000000'', ts_register_auth_algorithm = Some ''MD5'',
      ts_catalog_subscribe_expires_sec = Some 3600\<rparr>"

definition mappingState_init :: "TunnelMapping list" where
  "mappingState_init =
     [\<lparr>tm_mapping_id = ''map-orders'', tm_device_id = Some ''34020000001320000001'',
       tm_resource_code = None, tm_resource_type = None,
       tm_name = Some (uni ''~8BA2~5355~540C~6B65~6620~5C04''), tm_enabled = True,
       tm_peer_node_id = Some ''gateway-b-01'', tm_local_bind_ip = ''10.10.10.8'',
       tm_local_bind_port = 18120, tm_local_base_path = ''/orders'', tm_remote_target_ip = ''172.16.8.12'',
       tm_remote_target_port = 8080, tm_remote_base_path = ''/api/v1/orders'',
       tm_allowed_methods = Some [''*''], tm_response_mode = Some RM_AUTO, tm_connect_timeout_ms = 500,
       tm_request_timeout_ms = 3000, tm_response_timeout_ms = 3000,
       tm_max_inline_response_body = Some 65536, tm_max_request_body_bytes = 1048576,
       tm_max_response_body_bytes = 10485760, tm_require_streaming_response = False,
       tm_description = (uni ''~7528~4E8E~8BA2~5355~5199~5165~4E0E~72B6~6001~66F4~65B0~3002''),
       tm_updated_at = Some ''2026-03-14T09:00:00Z'', tm_link_status = Some Link_connected,
       tm_link_status_text = Some (uni ''~5DF2~8FDE~63A5''),
       tm_status_reason = Some (uni ''GB/T 28181 ~6CE8~518C~6B63~5E38~FF0C~5FC3~8DF3~7A33~5B9A~FF0C~54CD~5E94~901A~9053~5DF2~5EFA~7ACB~3002''),
       tm_failure_reason = Some (uni ''~94FE~8DEF~72B6~6001~6B63~5E38~3002''),
       tm_suggested_action = Some (uni ''~65E0~9700~5904~7406~FF0C~6301~7EED~89C2~5BDF~8FD0~884C~6307~6807~3002''),
       tm_request_count = None, tm_failure_count = None, tm_avg_latency_ms = None\<rparr>,
      \<lparr>tm_mapping_id = ''map-query'', tm_device_id = Some ''34020000001320000002'', tm_resource_code = None,
       tm_resource_type = None, tm_name = Some (uni ''~67E5~8BE2~6620~5C04''), tm_enabled = True,
       tm_peer_node_id = Some ''gateway-b-02'', tm_local_bind_ip = ''10.10.10.8'',
       tm_local_bind_port = 18121, tm_local_base_path = ''/query'', tm_remote_target_ip = ''172.16.8.18'',
       tm_remote_target_port = 8081, tm_remote_base_path = ''/query'', tm_allowed_methods = Some [''*''],
       tm_response_mode = Some RM_RTP, tm_connect_timeout_ms = 500, tm_request_timeout_ms = 2000,
       tm_response_timeout_ms = 2000, tm_max_inline_response_body = Some 32768,
       tm_max_request_body_bytes = 1048576, tm_max_response_body_bytes = 5242880,
       tm_require_streaming_response = False,
       tm_description = (uni ''~7528~4E8E~53EA~8BFB~67E5~8BE2~3002''),
       tm_updated_at = Some ''2026-03-14T09:10:00Z'', tm_link_status = Some Link_abnormal,
       tm_link_status_text = Some (uni ''~5F02~5E38''),
       tm_status_reason = Some (uni ''~5BF9~7AEF~8282~70B9~77AC~65F6~4E0D~53EF~8FBE~FF0C~6700~8FD1~4E00~6B21~5065~5EB7~63A2~6D4B~5931~8D25~3002''),
       tm_failure_reason = Some (uni ''~5BF9~7AEF~8282~70B9~77AC~65F6~4E0D~53EF~8FBE~FF0C~6700~8FD1~4E00~6B21~5065~5EB7~63A2~6D4B~5931~8D25~3002''),
       tm_suggested_action = Some (uni ''~68C0~67E5~5BF9~7AEF~53EF~8FBE~6027~5E76~91CD~8BD5~94FE~8DEF~6D4B~8BD5~3002''),
       tm_request_count = None, tm_failure_count = None, tm_avg_latency_ms = None\<rparr>]"

definition localNodeState_init :: LocalNodeConfig where
  "localNodeState_init =
     \<lparr>ln_node_id = ''gateway-a-01'', ln_node_name = ''Gateway A'', ln_node_role = ''gateway'',
      ln_network_mode = ''SENDER_SIP__RECEIVER_RTP'', ln_sip_listen_ip = ''0.0.0.0'',
      ln_sip_listen_port = 5060, ln_sip_transport = UDP, ln_rtp_listen_ip = ''0.0.0.0'',
      ln_rtp_port_start = 20000, ln_rtp_port_end = 20999, ln_rtp_transport = UDP,
      ln_mapping_port_start = 18100, ln_mapping_port_end = 18999\<rparr>"

definition peerNodeState_init :: "PeerNodeConfig list" where
  "peerNodeState_init =
     [\<lparr>pn_peer_node_id = ''peer-b-01'', pn_peer_name = (uni ''Peer B ~751F~4EA7''),
       pn_peer_signaling_ip = ''10.20.0.20'', pn_peer_signaling_port = 5060,
       pn_peer_media_ip = ''10.20.0.20'', pn_peer_media_port_start = 32000, pn_peer_media_port_end = 32100,
       pn_supported_network_mode = ''SENDER_SIP__RECEIVER_RTP'', pn_enabled = True\<rparr>]"

definition localResourceState_init :: "LocalResourceRecord list" where
  "localResourceState_init = map (\<lambda>item.
     \<lparr>lrsp_resource_code = str_or (nullish (tm_device_id item) '''') (tm_mapping_id item),
      lrsp_name = str_or (nullish (tm_name item) '''') (tm_mapping_id item),
      lrsp_enabled = tm_enabled item,
      lrsp_target_url = ''http://'' @ tm_remote_target_ip item @ '':'' @
        string_of_int (tm_remote_target_port item) @ tm_remote_base_path item,
      lrsp_methods = (case tm_allowed_methods item of
          Some (m # ms) \<Rightarrow> m # ms | _ \<Rightarrow> [''*'']),
      lrsp_response_mode = nullish (tm_response_mode item) RM_RTP,
      lrsp_description = tm_description item,
      lrr_updated_at = tm_updated_at item\<rparr>) mappingState_init"

definition networkConfigState_init :: NetworkConfigPayload where
  "networkConfigState_init =
     \<lparr>nc_sip = \<lparr>sn_listenIp = ''0.0.0.0'', sn_listenPort = 5060, sn_protocol = UDP,
              sn_advertisedAddress = ''sip.siptunnel.local:5060'', sn_domain = ''siptunnel.local'',
              sn_tcpKeepaliveEnabled = True, sn_tcpKeepaliveIntervalMs = 30000,
              sn_tcpReadBufferBytes = 65536, sn_tcpWriteBufferBytes = 65536, sn_maxConnections = 2048\<rparr>,
      nc_rtp = \<lparr>rn_listenIp = ''0.0.0.0'', rn_portRangeStart = 20000, rn_portRangeEnd = 20999,
              rn_protocol = UDP, rn_advertisedAddress = ''rtp.siptunnel.local'',
              rn_maxConcurrentTransfers = 240\<rparr>,
      nc_portPool = \<lparr>pp_totalAvailablePorts = 1000, pp_occupiedPorts = 126, pp_activeTransfers = 58,
                   pp_usageRate = 126 / 10\<rparr>,
      nc_connectionErrors = [\<lparr>cee_id = ''conn-001'', cee_occurredAt = ''2026-03-12 14:07:52'',
                            cee_transport = Transport_SIP, cee_protocol = UDP,
                            cee_nodeId = ''gateway-a-02'', cee_errorCode = ''SIP_CONN_RESET'',
                            cee_reason = (uni ''~4E0A~6E38~8BBE~5907~91CD~542F~5BFC~81F4~8FDE~63A5~91CD~7F6E~FF0C~91CD~8FDE~8017~65F6 1.4s~3002'')\<rparr>,
                           \<lparr>cee_id = ''conn-002'', cee_occurredAt = ''2026-03-12 14:18:11'',
                            cee_transport = Transport_RTP, cee_protocol = UDP,
                            cee_nodeId = ''gateway-b-01'', cee_errorCode = ''RTP_BIND_TIMEOUT'',
                            cee_reason = (uni ''~7AEF~53E3~6C60~4E89~62A2~5BFC~81F4~7AEF~53E3~7ED1~5B9A~8D85~65F6~FF0C~81EA~52A8~91CD~8BD5~6062~590D~3002'')\<rparr>],
      nc_selfCheckItems = [\<lparr>sci_key = ''sip-listener'', sci_name = Some ''sip.listen_port_occupancy'',
                          sci_level = Level_info,
                          sci_message = (uni ''SIP ~5957~63A5~5B57~54CD~5E94~6B63~5E38~FF0C~65F6~5EF6 < 10ms~3002''),
                          sci_suggestion = (uni ''~65E0~9700~5904~7406~3002''),
                          sci_action_hint = (uni ''~4FDD~6301~5F53~524D~914D~7F6E~5E76~7EB3~5165~5DE1~68C0~57FA~7EBF~3002''),
                          sci_doc_link = None\<rparr>,
                         \<lparr>sci_key = ''sip-listen-ip'', sci_name = Some ''sip.listen_ip'',
                          sci_level = Level_warn,
                          sci_message = (uni ''listen_ip=0.0.0.0 ~4E3A~901A~914D~5730~5740~FF0C~65E0~6CD5~7CBE~786E~6821~9A8C~7F51~5361~5B58~5728~6027~3002''),
                          sci_suggestion = (uni ''~82E5~9700~4E25~683C~7EA6~675F~5230~6307~5B9A~7F51~5361~FF0C~8BF7~6539~4E3A~660E~786E~7684~672C~673A IP~3002''),
                          sci_action_hint = (uni ''~751F~4EA7~5EFA~8BAE~7ED1~5B9A~4E1A~52A1~7F51~5361 IP~FF0C~7070~5EA6~53D1~5E03~540E~590D~6838 /api/selfcheck~3002''),
                          sci_doc_link = Some (uni ''docs/troubleshooting.md#38-~901A~914D~5730~5740-0000-~98CE~9669'')\<rparr>,
                         \<lparr>sci_key = ''downstream-http'',
                          sci_name = Some ''downstream.http_base_reachability'', sci_level = Level_warn,
                          sci_message = (uni ''~672A~914D~7F6E~4E0B~6E38 HTTP ~96A7~9053~6620~5C04~FF1A~5F53~524D~5904~4E8E~534F~8BAE~5C42~53EF~542F~52A8~3001~4E1A~52A1~6267~884C~5C42~672A~6FC0~6D3B~72B6~6001~3002''),
                          sci_suggestion = (uni ''~8BF7~52A0~8F7D~6700~5C0F~96A7~9053~6620~5C04~914D~7F6E~FF08~65E7 httpinvoke route ~4E3A~517C~5BB9~683C~5F0F~FF09~4EE5~6FC0~6D3B~4E1A~52A1~6267~884C~5C42~3002''),
                          sci_action_hint = (uni ''~8865~9F50~96A7~9053~6620~5C04~FF08~65E7 api_code ~4E3A~517C~5BB9~7D22~5F15~FF09~540E~91CD~542F~5E76~590D~6838 /api/selfcheck~3002''),
                          sci_doc_link = Some (uni ''docs/troubleshooting.md#310-~4E0B~6E38-http-~672A~914D~7F6E'')\<rparr>],
      nc_linkTests = [\<lparr>ltr_id = ''lt-001'', ltr_scene = (uni ''A->B ~63A7~5236~94FE~8DEF~57FA~7EBF''),
                     ltr_status = LinkTest_pass, ltr_avgLatencyMs = 87 / 10, ltr_packetLossRate = 3 / 100,
                     ltr_throughputMbps = 964 / 10, ltr_executedAt = ''2026-03-12 14:10:00''\<rparr>,
                    \<lparr>ltr_id = ''lt-002'', ltr_scene = (uni ''B->A ~6587~4EF6~56DE~4F20~94FE~8DEF''),
                     ltr_status = LinkTest_warn, ltr_avgLatencyMs = 274 / 10, ltr_packetLossRate = 32 / 100,
                     ltr_throughputMbps = 812 / 10, ltr_executedAt = ''2026-03-12 14:20:00''\<rparr>]\<rparr>"

definition configSnapshotsSeed :: "ConfigGovernanceSnapshot list" where
  "configSnapshotsSeed =
     [\<lparr>cgs_version = ''v2026.03.12.1'', cgs_createdAt = ''2026-03-12 09:10:00'', cgs_operator = ''ops_admin'',
       cgs_changeSummary = (uni ''~8C03~6574 RTP ~7AEF~53E3~6C60~5BB9~91CF''), cgs_status = Snap_active\<rparr>,
      \<lparr>cgs_version = ''v2026.03.12.2'', cgs_createdAt = ''2026-03-12 11:32:00'', cgs_operator = ''secops'',
       cgs_changeSummary = (uni ''~5207~6362 SIP ~4F20~8F93~534F~8BAE~5230 TCP''), cgs_status = Snap_archived\<rparr>,
      \<lparr>cgs_version = ''v2026.03.12.3'', cgs_createdAt = ''2026-03-12 13:45:00'', cgs_operator = ''ops_admin'',
       cgs_changeSummary = (uni ''~63D0~5347 max_message_bytes ~4EE5~652F~6301~5927~62A5~6587''), cgs_status = Snap_pending\<rparr>,
      \<lparr>cgs_version = ''v2026.03.12.4'', cgs_createdAt = ''2026-03-12 15:21:00'', cgs_operator = ''release_bot'',
       cgs_changeSummary = (uni ''~6821~51C6 RTP ~7AEF~53E3~533A~95F4''), cgs_status = Snap_archived\<rparr>]"

definition runtimeCurrentConfig :: RuntimeGatewayConfig where
  "runtimeCurrentConfig =
     \<lparr>rgc_sip = \<lparr>rsc_listen_port = 5060, rsc_transport = UDP, rsc_listen_ip = ''0.0.0.0''\<rparr>,
      rgc_rtp = \<lparr>rrc_port_start = 20000, rrc_port_end = 20999, rrc_transport = UDP,
               rrc_listen_ip = ''0.0.0.0''\<rparr>,
      rgc_max_message_bytes = 1048576, rgc_heartbeat_interval_sec = 15\<rparr>"

definition runtimePendingConfig_init :: RuntimeGatewayConfig where
  "runtimePendingConfig_init =
     \<lparr>rgc_sip = \<lparr>rsc_listen_port = 5061, rsc_transport = TCP, rsc_listen_ip = ''0.0.0.0''\<rparr>,
      rgc_rtp = \<lparr>rrc_port_start = 21000, rrc_port_end = 21999, rrc_transport = UDP,
               rrc_listen_ip = ''0.0.0.0''\<rparr>,
      rgc_max_message_bytes = 2097152, rgc_heartbeat_interval_sec = 15\<rparr>"

definition mock_init :: MockState where
  "mock_init =
     \<lparr>tunnelConfigState = tunnelConfigState_init, mappingState = mappingState_init,
      localNodeState = localNodeState_init, peerNodeState = peerNodeState_init,
      localResourceState = localResourceState_init, networkConfigState = networkConfigState_init,
      snapshotState = configSnapshotsSeed, runtimePendingConfig = runtimePendingConfig_init,
      diagnosticJobs = Map.empty\<rparr>"

declare mock_init_def [init_defs] tunnelConfigState_init_def [init_defs] mappingState_init_def [init_defs]
  localNodeState_init_def [init_defs] peerNodeState_init_def [init_defs]
  localResourceState_init_def [init_defs] networkConfigState_init_def [init_defs]
  configSnapshotsSeed_def [init_defs] runtimePendingConfig_init_def [init_defs]

end
