(* ===== verification/MockStores.thy ===== *)
theory MockStores
  imports MockState
begin

text \<open>
  The three collections of the mock gateway that the console edits: tunnel mappings, local
  resources and peer nodes (\<open>mockGateway.ts\<close>, lines 443 to 510 and 1294 to 1320). An operation
  takes the state and returns what the source returns together with the next state; one that
  throws returns \<open>Inl\<close>. \<open>new Date().toISOString()\<close> is the argument \<open>now\<close>.

  The locale \<open>keyed_collection\<close> states what the editing pages rely on; the three collections are
  its interpretations.
\<close>

subsection \<open>Mappings\<close>

definition with_default_methods :: "string list option \<Rightarrow> string list option" where
  "with_default_methods ms = (case ms of Some (m # rest) \<Rightarrow> Some (m # rest) | _ \<Rightarrow> Some [''*''])"

definition saved_mapping :: "TunnelMapping \<Rightarrow> string \<Rightarrow> TunnelMapping" where
  "saved_mapping payload now =
     payload\<lparr>tm_allowed_methods := with_default_methods (tm_allowed_methods payload),
             tm_updated_at := Some now\<rparr>"

definition fetchMappingsMock :: "MockState \<Rightarrow> TunnelMappingListPayload" where
  "fetchMappingsMock s =
     \<lparr>tmlp_items = mappingState s, tmlp_bound_peer = None, tmlp_binding_error = None, tmlp_warnings = Some []\<rparr>"

definition createMappingMock :: "TunnelMapping \<Rightarrow> string \<Rightarrow> MockState \<Rightarrow> TunnelMappingSavePayload \<times> MockState" where
  "createMappingMock payload now s =
     (let next = saved_mapping payload now
      in (\<lparr>tmsp_mapping = next, tmsp_warnings = Some []\<rparr>, s\<lparr>mappingState := mappingState s @ [next]\<rparr>))"

definition updateMappingMock ::
  "string \<Rightarrow> TunnelMapping \<Rightarrow> string \<Rightarrow> MockState \<Rightarrow> TunnelMappingSavePayload js_result \<times> MockState" where
  "updateMappingMock mid payload now s =
     (case findIndex (\<lambda>item. tm_mapping_id item = mid) (mappingState s) of
        None \<Rightarrow> (Inl (JsError ''MAPPING_NOT_FOUND''), s)
      | Some index \<Rightarrow>
          (let next = saved_mapping payload now
           in (Inr \<lparr>tmsp_mapping = next, tmsp_warnings = Some []\<rparr>,
               s\<lparr>mappingState := (mappingState s)[index := next]\<rparr>)))"

definition deleteMappingMock :: "string \<Rightarrow> MockState \<Rightarrow> MockState" where
  "deleteMappingMock mid s = s\<lparr>mappingState := filter (\<lambda>item. tm_mapping_id item \<noteq> mid) (mappingState s)\<rparr>"

subsection \<open>Local resources\<close>

definition resource_item :: "LocalResourceRecord \<Rightarrow> LocalResourceItem" where
  "resource_item item =
     \<lparr>lri_resource_id = lrsp_resource_code item, lri_resource_code = lrsp_resource_code item,
      lri_device_id = lrsp_resource_code item, lri_resource_type = ''SERVICE'', lri_name = lrsp_name item,
      lri_enabled = lrsp_enabled item, lri_target_url = lrsp_target_url item, lri_methods = lrsp_methods item,
      lri_response_mode = lrsp_response_mode item,
      lri_max_inline_response_body = (if lrsp_response_mode item = RM_INLINE then 65536 else 262144),
      lri_max_request_body = 65535,
      lri_max_response_body = (if lrsp_response_mode item = RM_INLINE then 65536 else 10485760),
      lri_body_limit_policy = Some (if lrsp_response_mode item = RM_INLINE then (uni ''SIP ~5185~8054'') else (uni ''RTP ~56DE~4F20'')),
      lri_description = lrsp_description item, lri_updated_at = lrr_updated_at item,
      lri_entry_hint = None, lri_local_bind_port = None, lri_mapping_id = None\<rparr>"

definition fetchLocalResourcesMock :: "MockState \<Rightarrow> LocalResourceListPayload" where
  "fetchLocalResourcesMock s = \<lparr>lrlp_items = map resource_item (localResourceState s)\<rparr>"

definition saved_resource :: "LocalResourceSavePayload \<Rightarrow> string \<Rightarrow> LocalResourceRecord" where
  "saved_resource payload now = LocalResourceSavePayload.extend payload \<lparr>lrr_updated_at = Some now\<rparr>"

definition createLocalResourceMock :: "LocalResourceSavePayload \<Rightarrow> string \<Rightarrow> MockState \<Rightarrow> MockState" where
  "createLocalResourceMock payload now s =
     s\<lparr>localResourceState :=
         filter (\<lambda>item. lrsp_resource_code item \<noteq> lrsp_resource_code payload) (localResourceState s)
           @ [saved_resource payload now]\<rparr>"

definition updateLocalResourceMock ::
  "string \<Rightarrow> LocalResourceSavePayload \<Rightarrow> string \<Rightarrow> MockState \<Rightarrow> unit js_result \<times> MockState" where
  "updateLocalResourceMock resourceCode payload now s =
     (case findIndex (\<lambda>item. lrsp_resource_code item = resourceCode) (localResourceState s) of
        None \<Rightarrow> (Inl (JsError ''LOCAL_RESOURCE_NOT_FOUND''), s)
      | Some index \<Rightarrow>
          (Inr (), s\<lparr>localResourceState := (localResourceState s)[index := saved_resource payload now]\<rparr>))"

definition deleteLocalResourceMock :: "string \<Rightarrow> MockState \<Rightarrow> MockState" where
  "deleteLocalResourceMock resourceCode s =
     s\<lparr>localResourceState := filter (\<lambda>item. lrsp_resource_code item \<noteq> resourceCode) (localResourceState s)\<rparr>"

subsection \<open>Peers\<close>

text \<open>The payload of \<open>updatePeerMock\<close>: a peer without its \<open>peer_node_id\<close>.\<close>

record PeerUpdatePayload =
  pu_peer_name :: string
  pu_peer_signaling_ip :: string
  pu_peer_signaling_port :: int
  pu_peer_media_ip :: string
  pu_peer_media_port_start :: int
  pu_peer_media_port_end :: int
  pu_supported_network_mode :: string
  pu_enabled :: bool

definition peer_with_id :: "string \<Rightarrow> PeerUpdatePayload \<Rightarrow> PeerNodeConfig" where
  "peer_with_id peerNodeId p =
     \<lparr>pn_peer_node_id = peerNodeId, pn_peer_name = pu_peer_name p,
      pn_peer_signaling_ip = pu_peer_signaling_ip p, pn_peer_signaling_port = pu_peer_signaling_port p,
      pn_peer_media_ip = pu_peer_media_ip p, pn_peer_media_port_start = pu_peer_media_port_start p,
      pn_peer_media_port_end = pu_peer_media_port_end p,
      pn_supported_network_mode = pu_supported_network_mode p, pn_enabled = pu_enabled p\<rparr>"

record PeerListPayload =
  plp_items :: "PeerNodeConfig list"

record PeerIdPayload =
  pip_peer_node_id :: string

definition fetchPeersMock :: "MockState \<Rightarrow> PeerListPayload" where
  "fetchPeersMock s = \<lparr>plp_items = peerNodeState s\<rparr>"

definition createPeerMock :: "PeerNodeConfig \<Rightarrow> MockState \<Rightarrow> PeerNodeConfig \<times> MockState" where
  "createPeerMock payload s = (payload, s\<lparr>peerNodeState := peerNodeState s @ [payload]\<rparr>)"

definition updatePeerMock ::
  "string \<Rightarrow> PeerUpdatePayload \<Rightarrow> MockState \<Rightarrow> PeerNodeConfig js_result \<times> MockState" where
  "updatePeerMock peerNodeId payload s =
     (case findIndex (\<lambda>item. pn_peer_node_id item = peerNodeId) (peerNodeState s) of
        None \<Rightarrow> (Inl (JsError ''PEER_NOT_FOUND''), s)
      | Some index \<Rightarrow>
          (let updated = peer_with_id peerNodeId payload
           in (Inr updated, s\<lparr>peerNodeState := (peerNodeState s)[index := updated]\<rparr>)))"

definition deletePeerMock :: "string \<Rightarrow> MockState \<Rightarrow> PeerIdPayload \<times> MockState" where
  "deletePeerMock peerNodeId s =
     (\<lparr>pip_peer_node_id = peerNodeId\<rparr>,
      s\<lparr>peerNodeState := filter (\<lambda>item. pn_peer_node_id item \<noteq> peerNodeId) (peerNodeState s)\<rparr>)"

declare fetchMappingsMock_def [mock_defs] createMappingMock_def [mock_defs] updateMappingMock_def [mock_defs]
  deleteMappingMock_def [mock_defs] fetchLocalResourcesMock_def [mock_defs]
  createLocalResourceMock_def [mock_defs] updateLocalResourceMock_def [mock_defs]
  deleteLocalResourceMock_def [mock_defs] fetchPeersMock_def [mock_defs] createPeerMock_def [mock_defs]
  updatePeerMock_def [mock_defs] deletePeerMock_def [mock_defs]

subsection \<open>The contract of an editable collection\<close>

text \<open>
  A collection of keyed entries in the state: \<open>update k p\<close> replaces the first entry with key \<open>k\<close>
  by \<open>entry k p\<close> and throws when there is none; \<open>delete k\<close> removes every entry with key \<open>k\<close>.
\<close>

locale keyed_collection =
  fixes items :: "'s \<Rightarrow> 'a list"
    and key :: "'a \<Rightarrow> 'k"
    and update :: "'k \<Rightarrow> 'p \<Rightarrow> 's \<Rightarrow> 'r js_result \<times> 's"
    and delete :: "'k \<Rightarrow> 's \<Rightarrow> 's"
    and entry :: "'k \<Rightarrow> 'p \<Rightarrow> 'a"
    and missing :: js_error
  assumes delete_items: "items (delete k s) = filter (\<lambda>x. key x \<noteq> k) (items s)"
    and update_missing: "findIndex (\<lambda>x. key x = k) (items s) = None \<Longrightarrow> update k p s = (Inl missing, s)"
    and update_found: "findIndex (\<lambda>x. key x = k) (items s) = Some i \<Longrightarrow>
      \<exists>r. fst (update k p s) = Inr r \<and> items (snd (update k p s)) = (items s)[i := entry k p]"
begin

definition keys :: "'s \<Rightarrow> 'k list" where
  "keys s = map key (items s)"

definition lookup :: "'k \<Rightarrow> 's \<Rightarrow> 'a option" where
  "lookup k s = find (\<lambda>x. key x = k) (items s)"

lemma index_iff: "(\<exists>i. findIndex (\<lambda>x. key x = k) (items s) = Some i) \<longleftrightarrow> k \<in> set (keys s)"
  using findIndex_None_iff [of "\<lambda>x. key x = k" "items s"] by (auto simp: keys_def)

lemma update_throws_iff: "fst (update k p s) = Inl missing \<longleftrightarrow> k \<notin> set (keys s)"
proof (cases "findIndex (\<lambda>x. key x = k) (items s)")
  case None
  then have "k \<notin> set (keys s)" using index_iff [of k s] by auto
  with None show ?thesis by (simp add: update_missing)
next
  case (Some i)
  with index_iff have "k \<in> set (keys s)" by blast
  with update_found [OF Some, of p] show ?thesis by auto
qed

lemma update_throws_keeps: "fst (update k p s) = Inl missing \<Longrightarrow> snd (update k p s) = s"
proof -
  assume "fst (update k p s) = Inl missing"
  then have "findIndex (\<lambda>x. key x = k) (items s) = None"
    unfolding update_throws_iff using index_iff [of k s] by (cases "findIndex (\<lambda>x. key x = k) (items s)") auto
  then show ?thesis by (simp add: update_missing)
qed

lemma update_length: "length (items (snd (update k p s))) = length (items s)"
proof (cases "findIndex (\<lambda>x. key x = k) (items s)")
  case (Some i)
  from update_found [OF Some, of p] show ?thesis by auto
qed (simp add: update_missing)

lemma update_keys: "key (entry k p) = k \<Longrightarrow> keys (snd (update k p s)) = keys s"
proof (cases "findIndex (\<lambda>x. key x = k) (items s)")
  case (Some i)
  assume k: "key (entry k p) = k"
  from Some have i: "i < length (items s)" "key (items s ! i) = k" by (auto dest: findIndex_SomeD)
  from update_found [OF Some, of p] have "items (snd (update k p s)) = (items s)[i := entry k p]" by auto
  with i k show ?thesis by (simp add: keys_def map_update_same)
qed (simp add: update_missing)

lemma lookup_update:
  assumes "key (entry k p) = k" "k \<in> set (keys s)"
  shows "lookup k (snd (update k p s)) = Some (entry k p)"
proof -
  obtain i where i: "findIndex (\<lambda>x. key x = k) (items s) = Some i" using assms(2) index_iff by blast
  note first = findIndex_SomeD [OF i]
  have "items (snd (update k p s)) = (items s)[i := entry k p]" using update_found [OF i, of p] by auto
  with first assms(1) show ?thesis
    by (auto simp: lookup_def find_Some_iff intro!: exI [of _ i])
qed

lemma lookup_update_other:
  assumes "key (entry k p) = k" "j \<noteq> k"
  shows "lookup j (snd (update k p s)) = lookup j s"
proof (cases "findIndex (\<lambda>x. key x = k) (items s)")
  case (Some i)
  then have i: "i < length (items s)" "key (items s ! i) = k" by (auto dest: findIndex_SomeD)
  have upd: "items (snd (update k p s)) = (items s)[i := entry k p]" using update_found [OF Some, of p] by auto
  have split: "items s = take i (items s) @ items s ! i # drop (Suc i) (items s)"
    using i by (simp add: id_take_nth_drop)
  have find_append: "find P (xs @ y # ys) = find P (xs @ z # ys)" if "\<not> P y" "\<not> P z" for P y z and xs ys :: "'a list"
    using that by (induction xs) auto
  have "lookup j (snd (update k p s)) = find (\<lambda>x. key x = j) (take i (items s) @ entry k p # drop (Suc i) (items s))"
    using i by (simp add: lookup_def upd upd_conv_take_nth_drop)
  also have "\<dots> = find (\<lambda>x. key x = j) (take i (items s) @ items s ! i # drop (Suc i) (items s))"
    using i assms by (intro find_append) auto
  finally show ?thesis using split by (simp add: lookup_def)
qed (simp add: update_missing)

lemma delete_keys: "keys (delete k s) = filter (\<lambda>x. x \<noteq> k) (keys s)"
  by (simp add: keys_def delete_items filter_map o_def)

lemma delete_absent: "k \<notin> set (keys (delete k s))"
  by (simp add: delete_keys)

lemma update_after_delete: "fst (update k p (delete k s)) = Inl missing"
  by (simp add: update_throws_iff delete_absent)

lemma lookup_delete: "lookup j (delete k s) = (if j = k then None else lookup j s)"
proof -
  have "find (\<lambda>x. key x = j) (filter (\<lambda>x. key x \<noteq> k) xs) = find (\<lambda>x. key x = j) xs" if "j \<noteq> k" for xs
    using that by (induction xs) auto
  moreover have "find (\<lambda>x. key x = k) (filter (\<lambda>x. key x \<noteq> k) xs) = None" for xs
    by (auto simp: find_None_iff)
  ultimately show ?thesis by (auto simp: lookup_def delete_items)
qed

lemma distinct_delete: "distinct (keys s) \<Longrightarrow> distinct (keys (delete k s))"
  by (simp add: delete_keys)

lemma distinct_update: "key (entry k p) = k \<Longrightarrow> distinct (keys s) \<Longrightarrow> distinct (keys (snd (update k p s)))"
  by (simp add: update_keys)

end

text \<open>A collection whose \<open>create\<close> appends, whatever keys are present.\<close>

locale appending_collection = keyed_collection items key update delete entry missing
  for items :: "'s \<Rightarrow> 'a list" and key :: "'a \<Rightarrow> 'k"
    and update :: "'k \<Rightarrow> 'p \<Rightarrow> 's \<Rightarrow> 'r js_result \<times> 's"
    and delete :: "'k \<Rightarrow> 's \<Rightarrow> 's" and entry :: "'k \<Rightarrow> 'p \<Rightarrow> 'a" and missing :: js_error +
  fixes create :: "'q \<Rightarrow> 's \<Rightarrow> 's" and fresh :: "'q \<Rightarrow> 'a"
  assumes create_items: "items (create p s) = items s @ [fresh p]"
begin

lemma create_keys: "keys (create p s) = keys s @ [key (fresh p)]"
  by (simp add: keys_def create_items)

lemma distinct_create: "distinct (keys (create p s)) \<longleftrightarrow> distinct (keys s) \<and> key (fresh p) \<notin> set (keys s)"
  by (auto simp: create_keys)

lemma lookup_create:
  "lookup j (create p s) =
     (case lookup j s of Some x \<Rightarrow> Some x | None \<Rightarrow> if j = key (fresh p) then Some (fresh p) else None)"
proof -
  have "find P (xs @ [y]) = (case find P xs of Some x \<Rightarrow> Some x | None \<Rightarrow> if P y then Some y else None)" for P xs and y :: 'a
    by (induction xs) auto
  then show ?thesis by (auto simp: lookup_def create_items split: option.splits)
qed

end

text \<open>A collection whose \<open>create\<close> first removes the entries with the new key.\<close>

locale replacing_collection = keyed_collection items key update delete entry missing
  for items :: "'s \<Rightarrow> 'a list" and key :: "'a \<Rightarrow> 'k"
    and update :: "'k \<Rightarrow> 'p \<Rightarrow> 's \<Rightarrow> 'r js_result \<times> 's"
    and delete :: "'k \<Rightarrow> 's \<Rightarrow> 's" and entry :: "'k \<Rightarrow> 'p \<Rightarrow> 'a" and missing :: js_error +
  fixes create :: "'q \<Rightarrow> 's \<Rightarrow> 's" and fresh :: "'q \<Rightarrow> 'a"
  assumes create_items: "items (create p s) = filter (\<lambda>x. key x \<noteq> key (fresh p)) (items s) @ [fresh p]"
begin

lemma create_keys: "keys (create p s) = filter (\<lambda>k. k \<noteq> key (fresh p)) (keys s) @ [key (fresh p)]"
  by (simp add: keys_def create_items filter_map o_def)

lemma distinct_create: "distinct (keys s) \<Longrightarrow> distinct (keys (create p s))"
  by (simp add: create_keys)

lemma lookup_create: "lookup j (create p s) = (if j = key (fresh p) then Some (fresh p) else lookup j s)"
proof -
  have "find (\<lambda>x. key x = j) (filter (\<lambda>x. key x \<noteq> k) xs @ [y]) =
      (if j = k then Some y else find (\<lambda>x. key x = j) xs)" if "key y = k" for k xs y
    using that by (induction xs) auto
  then show ?thesis by (simp add: lookup_def create_items)
qed

end

interpretation mappings: appending_collection
  mappingState tm_mapping_id "\<lambda>k p. updateMappingMock k p now" deleteMappingMock "\<lambda>k p. saved_mapping p now"
  "JsError ''MAPPING_NOT_FOUND''" "\<lambda>p s. snd (createMappingMock p now s)" "\<lambda>p. saved_mapping p now"
  for now
  by unfold_locales (auto simp: mock_defs Let_def)

interpretation peers: appending_collection
  peerNodeState pn_peer_node_id updatePeerMock "\<lambda>k s. snd (deletePeerMock k s)"
  peer_with_id "JsError ''PEER_NOT_FOUND''" "\<lambda>p s. snd (createPeerMock p s)" "\<lambda>p. p"
  by unfold_locales (auto simp: mock_defs Let_def)

lemma saved_resource_code [simp]: "lrsp_resource_code (saved_resource p now) = lrsp_resource_code p"
  by (simp add: saved_resource_def LocalResourceSavePayload.defs)

interpretation resources: replacing_collection
  localResourceState lrsp_resource_code "\<lambda>k p. updateLocalResourceMock k p now" deleteLocalResourceMock
  "\<lambda>k p. saved_resource p now" "JsError ''LOCAL_RESOURCE_NOT_FOUND''"
  "\<lambda>p. createLocalResourceMock p now" "\<lambda>p. saved_resource p now"
  for now
  by unfold_locales (auto simp: mock_defs)

subsection \<open>Stored mappings always name their methods\<close>

definition methods_given :: "TunnelMapping \<Rightarrow> bool" where
  "methods_given m \<longleftrightarrow> (\<exists>x xs. tm_allowed_methods m = Some (x # xs))"

lemma saved_mapping_simps [simp]:
  "tm_mapping_id (saved_mapping p now) = tm_mapping_id p"
  "methods_given (saved_mapping p now)"
  "tm_updated_at (saved_mapping p now) = Some now"
  by (auto simp: saved_mapping_def methods_given_def with_default_methods_def split: option.splits list.splits)

lemma saved_mapping_keeps: "methods_given p \<Longrightarrow> tm_allowed_methods (saved_mapping p now) = tm_allowed_methods p"
  by (auto simp: saved_mapping_def methods_given_def with_default_methods_def)

definition mappings_ok :: "MockState \<Rightarrow> bool" where
  "mappings_ok s \<longleftrightarrow> list_all methods_given (mappingState s)"

lemma mappings_ok_create: "mappings_ok s \<Longrightarrow> mappings_ok (snd (createMappingMock p now s))"
  by (simp add: mappings_ok_def createMappingMock_def Let_def)

lemma mappings_ok_update: "mappings_ok s \<Longrightarrow> mappings_ok (snd (updateMappingMock k p now s))"
  by (auto simp: mappings_ok_def updateMappingMock_def Let_def list_all_iff
      dest: set_update_subset_insert [THEN subsetD] split: option.splits)

lemma mappings_ok_delete: "mappings_ok s \<Longrightarrow> mappings_ok (deleteMappingMock k s)"
  by (auto simp: mappings_ok_def deleteMappingMock_def list_all_iff)

lemma mappings_ok_init: "mappings_ok mock_init"
  by (simp add: mappings_ok_def init_defs methods_given_def)

end
