(* ===== verification/MockTasks.thy ===== *)
theory MockTasks
  imports MockState
begin

text \<open>
  The task lists of the mock gateway (\<open>mockGateway.ts\<close>, lines 175 to 233 and 356 to 429): the
  generated command and file tasks, the common filter, pagination, and the task detail. The locale
  \<open>paged_source\<close> states what a paged list owes its table; both task lists interpret it.
\<close>

subsection \<open>Generated tasks\<close>

definition statuses :: "TaskStatus list" where
  "statuses = [Task_pending, Task_running, Task_succeeded, Task_failed, Task_retry_wait]"

definition makeCommandTask :: "nat \<Rightarrow> CommandTask" where
  "makeCommandTask index =
     \<lparr>ct_id = ''cmd-'' @ string_of_nat (index + 1),
      ct_requestId = ''REQ-CMD-'' @ padStart 4 (string_of_nat (index + 1)),
      ct_traceId = ''TRACE-'' @ toUpperCase (hex_of_nat (100000 + index)),
      ct_apiCode = [''ORDER_SYNC'', ''USER_QUERY'', ''POLICY_PUSH''] ! (index mod 3),
      ct_nodeId = ''node-'' @ string_of_nat (index mod 4 + 1),
      ct_status = statuses ! (index mod length statuses),
      ct_createdAt = ''2026-03-1'' @ string_of_nat (index mod 8) @ '' 09:'' @ string_of_nat (index mod 6) @ ''0:00'',
      ct_updatedAt = ''2026-03-1'' @ string_of_nat (index mod 8) @ '' 09:'' @ string_of_nat (index mod 6 + 2) @ ''2:00'',
      ct_latencyMs = 80 + int index * 7\<rparr>"

definition makeCommandTasks :: "CommandTask list" where
  "makeCommandTasks = map makeCommandTask [0..<24]"

definition makeFileTask :: "nat \<Rightarrow> FileTask" where
  "makeFileTask index =
     (let totalShards = 180 + int index * 2;
          missingShards = int (index mod 4);
          progress = min 100 (72 + int index)
      in \<lparr>ft_id = ''file-'' @ string_of_nat (index + 1),
          ft_requestId = ''REQ-FILE-'' @ padStart 4 (string_of_nat (index + 1)),
          ft_traceId = ''TRACE-F-'' @ toUpperCase (hex_of_nat (110000 + index)),
          ft_filename = ''payload_'' @ string_of_nat (index + 1) @ ''.dat'',
          ft_status = statuses ! ((index + 1) mod length statuses),
          ft_totalShards = totalShards,
          ft_missingShards = missingShards,
          ft_retryRounds = int (index mod 3),
          ft_checksumPassed = (index mod 6 \<noteq> 0),
          ft_progress = progress,
          ft_createdAt = ''2026-03-0'' @ string_of_nat (index mod 9 + 1) @ '' 11:'' @ string_of_nat (index mod 6) @ ''0:00'',
          ft_updatedAt = ''2026-03-0'' @ string_of_nat (index mod 9 + 1) @ '' 11:'' @ string_of_nat (index mod 6 + 3) @ ''2:00''\<rparr>)"

definition makeFileTasks :: "FileTask list" where
  "makeFileTasks = map makeFileTask [0..<24]"

definition commandTasks :: "CommandTask list" where
  "commandTasks = makeCommandTasks"

definition fileTasks :: "FileTask list" where
  "fileTasks = makeFileTasks"

subsection \<open>Filter and pages\<close>

text \<open>
  The filter is generic over the task type: its first three arguments read the request id, the
  trace id and the status of an item.
\<close>

definition matches_common ::
  "('t \<Rightarrow> string) \<Rightarrow> ('t \<Rightarrow> string) \<Rightarrow> ('t \<Rightarrow> TaskStatus) \<Rightarrow> TaskListFilters \<Rightarrow> 't \<Rightarrow> bool" where
  "matches_common requestId traceId status filters item =
     (if tf_status filters \<noteq> None \<and> tf_status filters \<noteq> Some (status item) then False
      else if opt_truthy (tf_requestId filters)
        \<and> \<not> sublist (trim (the (tf_requestId filters))) (requestId item) then False
      else if opt_truthy (tf_traceId filters)
        \<and> \<not> sublist (trim (the (tf_traceId filters))) (traceId item) then False
      else True)"

definition filterByCommon ::
  "('t \<Rightarrow> string) \<Rightarrow> ('t \<Rightarrow> string) \<Rightarrow> ('t \<Rightarrow> TaskStatus) \<Rightarrow> 't list \<Rightarrow> TaskListFilters \<Rightarrow> 't list" where
  "filterByCommon requestId traceId status list filters =
     filter (matches_common requestId traceId status filters) list"

definition paginate :: "'t list \<Rightarrow> int \<Rightarrow> int \<Rightarrow> 't TaskListResult" where
  "paginate list page pageSize =
     (let start = (page - 1) * pageSize
      in \<lparr>tlr_list = slice start (start + pageSize) list, tlr_total = int (length list),
          tlr_page = page, tlr_pageSize = pageSize\<rparr>)"

definition fetchCommandTasksMock :: "TaskListFilters \<Rightarrow> int \<Rightarrow> int \<Rightarrow> CommandTask TaskListResult" where
  "fetchCommandTasksMock filters page pageSize =
     paginate (filterByCommon ct_requestId ct_traceId ct_status commandTasks filters) page pageSize"

definition fetchFileTasksMock :: "TaskListFilters \<Rightarrow> int \<Rightarrow> int \<Rightarrow> FileTask TaskListResult" where
  "fetchFileTasksMock filters page pageSize =
     paginate (filterByCommon ft_requestId ft_traceId ft_status fileTasks filters) page pageSize"

definition fetchTaskDetailMock :: "string \<Rightarrow> TaskKind \<Rightarrow> TaskDetail" where
  "fetchTaskDetailMock tid taskKind =
     \<lparr>td_id = tid, td_taskKind = taskKind,
      td_requestId = (if taskKind = Kind_command then ''REQ-CMD'' else ''REQ-FILE'') @ ''-0088'',
      td_traceId = ''TRACE-DET-75FA'', td_status = Task_running, td_nodeId = ''node-2'',
      td_createdAt = ''2026-03-12 08:40:00'', td_updatedAt = ''2026-03-12 08:46:31'',
      td_timeline = [\<lparr>tli_stage = (uni ''~4EFB~52A1~521B~5EFA''), tli_status = Timeline_done,
                    tli_time = ''08:40:00'', tli_operator = ''scheduler'',
                    tli_detail = (uni ''~63A5~6536~5230 SIP INVITE'')\<rparr>,
                   \<lparr>tli_stage = (uni ''SIP ~534F~5546''), tli_status = Timeline_done,
                    tli_time = ''08:40:08'', tli_operator = ''gateway-a'',
                    tli_detail = (uni ''200 OK~FF0C~5EFA~7ACB~4F1A~8BDD'')\<rparr>,
                   \<lparr>tli_stage = (uni ''RTP ~4F20~8F93''), tli_status = Timeline_processing,
                    tli_time = ''08:44:21'', tli_operator = ''gateway-b'',
                    tli_detail = (uni ''~8FDB~884C~4E2D~FF0C~89E6~53D1~8FC7 1 ~6B21~91CD~4F20'')\<rparr>,
                   \<lparr>tli_stage = (uni ''HTTP ~6267~884C''), tli_status = Timeline_wait, tli_time = ''-'',
                    tli_operator = ''-'',
                    tli_detail = (uni ''~7B49~5F85~6587~4EF6~5B8C~6574~540E~89E6~53D1'')\<rparr>],
      td_sipEvents = [\<lparr>se_time = ''08:40:00'', se_method = ''INVITE'', se_code = 100, se_summary = ''Trying''\<rparr>,
                    \<lparr>se_time = ''08:40:05'', se_method = ''INVITE'', se_code = 180,
                     se_summary = ''Ringing''\<rparr>,
                    \<lparr>se_time = ''08:40:08'', se_method = ''INVITE'', se_code = 200, se_summary = ''OK''\<rparr>,
                    \<lparr>se_time = ''08:45:52'', se_method = ''INFO'', se_code = 200,
                     se_summary = ''State sync success''\<rparr>],
      td_rtpStats = \<lparr>rs_totalShards = 210, rs_receivedShards = 206, rs_missingShards = 4,
                   rs_retransmittedShards = 4, rs_bitrateMbps = 468 / 10\<rparr>,
      td_httpResult = \<lparr>her_apiCode = ''ORDER_SYNC'', her_url = ''/internal/api/order/sync'',
                     her_method = ''POST'', her_statusCode = 202, her_durationMs = 132,
                     her_responseSnippet = (uni ''{~0022message~0022:~0022accepted~0022,~0022job_id~0022:~0022JOB-8871~0022}'')\<rparr>,
      td_auditSnippets = [\<lparr>as_id = ''AUD-901'', as_time = ''08:40:00'', as_actor = ''system'',
                         as_action = ''CREATE_TASK'',
                         as_summary = (uni ''~4ECE SIP ~63A7~5236~9762~521B~5EFA~4EFB~52A1~FF0C~521D~59CB~5316~5E42~7B49~952E~3002'')\<rparr>,
                        \<lparr>as_id = ''AUD-902'', as_time = ''08:41:10'', as_actor = ''ops_admin'',
                         as_action = ''UPDATE_RATE_LIMIT'',
                         as_summary = (uni ''~8C03~9AD8 node-2 ~5BF9 ORDER_SYNC ~7684~5E76~53D1~9608~503C~3002'')\<rparr>]\<rparr>"

subsection \<open>Paged lists\<close>

lemma paginate_simps [simp]:
  "tlr_total (paginate xs p n) = int (length xs)"
  "tlr_page (paginate xs p n) = p"
  "tlr_pageSize (paginate xs p n) = n"
  by (simp_all add: paginate_def Let_def)

lemma slice_nat: "slice (int a) (int b) xs = take (b - a) (drop a xs)"
  by (cases "length xs \<le> b") (simp_all add: slice_nonneg slice_pos_def)

lemma paginate_page: "tlr_list (paginate xs (int (Suc k)) (int n)) = take n (drop (k * n) xs)"
proof -
  have "(int (Suc k) - 1) * int n = int (k * n)" "int (k * n) + int n = int (k * n + n)" by simp_all
  then show ?thesis by (simp only: paginate_def Let_def TaskListResult.simps slice_nat) simp
qed

text \<open>A list shown page by page: the rows for a filter, and the page the table asks for.\<close>

locale paged_source =
  fixes rows :: "'f \<Rightarrow> 'a list" and fetch :: "'f \<Rightarrow> int \<Rightarrow> int \<Rightarrow> 'a TaskListResult"
  assumes fetch_total: "tlr_total (fetch f p n) = int (length (rows f))"
    and fetch_echo: "tlr_page (fetch f p n) = p \<and> tlr_pageSize (fetch f p n) = n"
    and fetch_list: "tlr_list (fetch f (int (Suc k)) (int n')) = take n' (drop (k * n') (rows f))"
begin

definition pages :: "'f \<Rightarrow> nat \<Rightarrow> nat \<Rightarrow> 'a list" where
  "pages f n k = concat (map (\<lambda>p. tlr_list (fetch f (int (Suc p)) (int n))) [0..<k])"

lemma pages_take: "pages f n k = take (k * n) (rows f)"
proof (induction k)
  case (Suc k)
  have "pages f n (Suc k) = pages f n k @ tlr_list (fetch f (int (Suc k)) (int n))" by (simp add: pages_def)
  also have "\<dots> = take (k * n) (rows f) @ take n (drop (k * n) (rows f))" by (simp only: Suc.IH fetch_list)
  also have "\<dots> = take (k * n + n) (rows f)" by (simp add: take_add)
  finally show ?case by (simp add: add.commute)
qed (simp add: pages_def)

lemma pages_complete: "length (rows f) \<le> k * n \<Longrightarrow> pages f n k = rows f"
  by (simp add: pages_take)

lemma page_bounded: "length (tlr_list (fetch f (int (Suc k)) (int n))) \<le> n"
  unfolding fetch_list by simp

end

interpretation command_pages: paged_source
  "filterByCommon ct_requestId ct_traceId ct_status commandTasks" fetchCommandTasksMock
  by unfold_locales (simp_all only: fetchCommandTasksMock_def paginate_simps paginate_page simp_thms)

interpretation file_pages: paged_source
  "filterByCommon ft_requestId ft_traceId ft_status fileTasks" fetchFileTasksMock
  by unfold_locales (simp_all only: fetchFileTasksMock_def paginate_simps paginate_page simp_thms)

subsection \<open>Generated tasks are well formed\<close>

lemma length_commandTasks [simp]: "length commandTasks = 24"
  by (simp add: commandTasks_def makeCommandTasks_def)

lemma length_fileTasks [simp]: "length fileTasks = 24"
  by (simp add: fileTasks_def makeFileTasks_def)

lemma commandTasks_ids_distinct: "distinct (map ct_id commandTasks)"
  by (simp add: commandTasks_def makeCommandTasks_def makeCommandTask_def distinct_map inj_on_def)

lemma fileTasks_ids_distinct: "distinct (map ft_id fileTasks)"
  by (simp add: fileTasks_def makeFileTasks_def makeFileTask_def distinct_map inj_on_def Let_def)

definition file_task_ok :: "FileTask \<Rightarrow> bool" where
  "file_task_ok t \<longleftrightarrow> 0 \<le> ft_missingShards t \<and> ft_missingShards t \<le> ft_totalShards t \<and>
     0 \<le> ft_progress t \<and> ft_progress t \<le> 100 \<and> 0 \<le> ft_retryRounds t"

lemma fileTasks_ok: "t \<in> set fileTasks \<Longrightarrow> file_task_ok t"
  by (auto simp: fileTasks_def makeFileTasks_def makeFileTask_def file_task_ok_def Let_def)

lemma matches_common_iff:
  "matches_common requestId traceId status filters item \<longleftrightarrow>
     (\<forall>st. tf_status filters = Some st \<longrightarrow> status item = st) \<and>
     (\<forall>q. tf_requestId filters = Some q \<longrightarrow> sublist (trim q) (requestId item)) \<and>
     (\<forall>q. tf_traceId filters = Some q \<longrightarrow> sublist (trim q) (traceId item))"
  by (cases "tf_status filters"; cases "tf_requestId filters"; cases "tf_traceId filters")
    (auto simp: matches_common_def)

end
