(* ===== verification/MockFixtures.thy ===== *)
theory MockFixtures
  imports MockState
begin

text \<open>
  The answers of the mock gateway that do not depend on its state: dashboard, deployment mode,
  startup summary, system status, mapping test, tunnel catalog and mapping overview
  (\<open>mockGateway.ts\<close>), and the consistency of the numbers inside each answer.
\<close>

definition fetchDashboardMock :: DashboardPayload where
  "fetchDashboardMock =
     \<lparr>dp_metrics = \<lparr>dm_successRate = 992 / 10, dm_failureRate = 8 / 10, dm_concurrency = 186,
                  dm_rtpLossRate = 17 / 100, dm_rateLimitHits = 31, dm_sipProtocol = UDP,
                  dm_sipListenPort = 5060, dm_rtpProtocol = UDP, dm_rtpPortRange = ''20000-20999'',
                  dm_activeSessions = 128, dm_activeTransfers = 42, dm_currentConnections = 186,
                  dm_failedTasks1h = 7, dm_transportErrors1h = 5, dm_rateLimitHits1h = 12\<rparr>,
      dp_recentTrends = [\<lparr>tp_time = ''09:00'', tp_total = 120, tp_success = 118, tp_failed = 2\<rparr>,
                       \<lparr>tp_time = ''10:00'', tp_total = 132, tp_success = 129, tp_failed = 3\<rparr>,
                       \<lparr>tp_time = ''11:00'', tp_total = 150, tp_success = 148, tp_failed = 2\<rparr>,
                       \<lparr>tp_time = ''12:00'', tp_total = 142, tp_success = 139, tp_failed = 3\<rparr>,
                       \<lparr>tp_time = ''13:00'', tp_total = 166, tp_success = 164, tp_failed = 2\<rparr>,
                       \<lparr>tp_time = ''14:00'', tp_total = 158, tp_success = 155, tp_failed = 3\<rparr>,
                       \<lparr>tp_time = ''15:00'', tp_total = 171, tp_success = 169, tp_failed = 2\<rparr>]\<rparr>"

definition fetchDeploymentModeMock :: DeploymentModePayload where
  "fetchDeploymentModeMock =
     \<lparr>dmp_uiMode = Ui_embedded, dmp_uiUrl = ''http://127.0.0.1:8360/ui'',
      dmp_apiUrl = ''http://127.0.0.1:8360/api'', dmp_configPath = ''/etc/siptunnel/config.yaml'',
      dmp_configSource = ''local-file''\<rparr>"

definition fetchStartupSummaryMock :: StartupSummaryPayload where
  "fetchStartupSummaryMock =
     \<lparr>ss_node_id = ''gateway-a-01'', ss_network_mode = ''SENDER_SIP__RECEIVER_RTP'', ss_bound_peer = None,
      ss_peer_binding_error = None,
      ss_capability = \<lparr>cap_supports_large_request_body = False, cap_supports_large_response_body = True,
                     cap_supports_streaming_response = False,
                     cap_supports_bidirectional_http_tunnel = False, cap_supports_transparent_proxy = False\<rparr>,
      ss_capability_summary = \<lparr>cs_supported = [''small_request'', ''large_response''],
                             cs_unsupported = [''large_request'', ''streaming_response'', ''bidirectional_http_tunnel'', ''transparent_proxy''],
                             cs_items = [\<lparr>ci_key = ''small_request'',
                                        ci_label = (uni ''~5C0F~8BF7~6C42~4F53''), ci_supported = True,
                                        ci_note = (uni ''~652F~6301'')\<rparr>,
                                       \<lparr>ci_key = ''large_response'',
                                        ci_label = (uni ''~5927~54CD~5E94~4F53''), ci_supported = True,
                                        ci_note = (uni ''~652F~6301'')\<rparr>,
                                       \<lparr>ci_key = ''large_request'',
                                        ci_label = (uni ''~5927~8BF7~6C42~4F53''), ci_supported = False,
                                        ci_note = (uni ''~4E0D~652F~6301'')\<rparr>]\<rparr>,
      ss_config_path = ''/etc/siptunnel/config.yaml'', ss_config_source = ''local-file'',
      ss_ui_mode = Ui_embedded, ss_ui_url = ''http://127.0.0.1:8360/ui'',
      ss_api_url = ''http://127.0.0.1:8360/api'',
      ss_transport_plan = \<lparr>ttp_request_meta_transport = ''sip_control'',
                         ttp_request_body_transport = ''sip_body_only'',
                         ttp_response_meta_transport = ''sip_control'',
                         ttp_response_body_transport = ''rtp_stream'',
                         ttp_request_body_size_limit = NumFin 65535,
                         ttp_response_body_size_limit = NumFin (- 1),
                         ttp_notes = [(uni ''transport ~51B3~7B56~7531~5168~5C40~7F51~7EDC~6A21~5F0F~63A8~5BFC~FF0C~7981~6B62~5728~5355~6761~96A7~9053~6620~5C04~4E0A~8986~76D6~3002'')],
                         ttp_warnings = [(uni ''~4E0D~652F~6301~5927~8BF7~6C42~4F53~4E0A~4F20~FF1B~8D85~8FC7 SIP ~9650~5236~7684~8BF7~6C42~4F53~5C06~88AB~62D2~7EDD~3002'')]\<rparr>,
      ss_active_strategy_summary = None, ss_ui_delivery_summary = None,
      ss_business_execution = \<lparr>be_state = Biz_protocol_only, be_route_count = 0,
                             be_message = (uni ''~534F~8BAE~5C42~53EF~542F~52A8~FF0C~4E1A~52A1~6267~884C~5C42~672A~6FC0~6D3B~FF08~672A~52A0~8F7D~4E0B~6E38 HTTP ~96A7~9053~6620~5C04~FF09''),
                             be_impact = (uni ''~4EC5~5B8C~6210 SIP/RTP ~534F~8BAE~4EA4~4E92~FF0C~4E0D~4F1A~6267~884C A ~7F51 HTTP ~843D~5730'')\<rparr>,
      ss_self_check_summary = \<lparr>scs_generated_at = ''2026-03-12T14:20:00Z'', scs_overall = Level_warn,
                             scs_info = 8, scs_warn = 1, scs_error = 0\<rparr>\<rparr>"

definition fetchSystemStatusMock :: SystemStatusPayload where
  "fetchSystemStatusMock =
     \<lparr>ssp_tunnel_status = Tunnel_connected,
      ssp_connection_reason = (uni ''SIP ~63A7~5236~9762~63E1~624B~6210~529F~FF0CRTP ~56DE~4F20~94FE~8DEF~53EF~7528''),
      ssp_network_mode = ''SENDER_SIP__RECEIVER_RTP'', ssp_registration_status = Some Reg_registered,
      ssp_heartbeat_status = Some Heartbeat_healthy, ssp_last_register_time = Some ''2026-03-14T10:00:00Z'',
      ssp_last_heartbeat_time = Some ''2026-03-14T10:00:30Z'', ssp_mapping_total = Some 2,
      ssp_mapping_abnormal_total = Some 1,
      ssp_latest_mapping_error_reason = Some (uni ''map-query~FF1A~5BF9~7AEF~4E0D~53EF~8FBE~FF0C~7B49~5F85~4E0B~4E00~6B21~5FC3~8DF3~6062~590D~3002''),
      ssp_bound_peer = None, ssp_peer_binding_error = None,
      ssp_capability = \<lparr>ssc_supports_small_request_body = True, ssc_supports_large_response_body = True,
                      ssc_supports_streaming_response = True, ssc_supports_large_file_upload = False,
                      ssc_supports_bidirectional_http_tunnel = False\<rparr>\<rparr>"

definition testMappingMock :: MappingTestPayload where
  "testMappingMock =
     \<lparr>mtp_passed = False, mtp_status = Test_failed,
      mtp_stages = [\<lparr>mts_key = ''local_listening'', mts_name = (uni ''~672C~5730~76D1~542C~53EF~7528''),
                   mts_status = Stage_passed, mts_passed = True,
                   mts_detail = (uni ''SIP ~76D1~542C~6B63~5E38~FF1BRTP ~7AEF~53E3~6C60~53EF~7528~3002''),
                   mts_blocking_reason = None, mts_suggested_action = None\<rparr>,
                  \<lparr>mts_key = ''registration'', mts_name = (uni ''~6CE8~518C~72B6~6001~6B63~5E38''),
                   mts_status = Stage_passed, mts_passed = True,
                   mts_detail = (uni ''~5F53~524D~6CE8~518C~72B6~6001~FF1Aregistered''),
                   mts_blocking_reason = None, mts_suggested_action = None\<rparr>,
                  \<lparr>mts_key = ''heartbeat'', mts_name = (uni ''~5FC3~8DF3~72B6~6001~6B63~5E38''),
                   mts_status = Stage_passed, mts_passed = True,
                   mts_detail = (uni ''~5F53~524D~5FC3~8DF3~72B6~6001~FF1Ahealthy''),
                   mts_blocking_reason = None, mts_suggested_action = None\<rparr>,
                  \<lparr>mts_key = ''peer_reachability'', mts_name = (uni ''~5BF9~7AEF~53EF~8FBE''),
                   mts_status = Stage_failed, mts_passed = False,
                   mts_detail = (uni ''TCP ~63A2~6D4B 10.20.0.20:5060 ~5931~8D25''),
                   mts_blocking_reason = Some ''i/o timeout'',
                   mts_suggested_action = Some (uni ''~68C0~67E5~5BF9~7AEF~8FDB~7A0B~3001ACL ~4E0E~8DEF~7531~3002'')\<rparr>,
                  \<lparr>mts_key = ''session_ready'', mts_name = (uni ''~4F1A~8BDD~5DF2~51C6~5907''),
                   mts_status = Stage_blocked, mts_passed = False,
                   mts_detail = (uni ''~4F1A~8BDD~51C6~5907~8981~6C42~FF1A~6CE8~518C~6B63~5E38 + ~5FC3~8DF3~6B63~5E38 + ~5BF9~7AEF~53EF~8FBE~3002''),
                   mts_blocking_reason = Some (uni ''~5BF9~7AEF~4E0D~53EF~8FBE''),
                   mts_suggested_action = Some (uni ''~6309~524D~7F6E~9636~6BB5~63D0~793A~6062~590D~4F1A~8BDD~6761~4EF6~540E~91CD~8BD5~3002'')\<rparr>,
                  \<lparr>mts_key = ''mapping_forward'',
                   mts_name = (uni ''~6620~5C04~8F6C~53D1~51C6~5907~5C31~7EEA''),
                   mts_status = Stage_blocked, mts_passed = False,
                   mts_detail = (uni ''~4F1A~8BDD~5C1A~672A~51C6~5907~5B8C~6210~FF0C~6682~4E0D~6267~884C~8F6C~53D1~51C6~5907~5224~5B9A''),
                   mts_blocking_reason = Some (uni ''~4F9D~8D56~9636~6BB5~201C~4F1A~8BDD~5DF2~51C6~5907~201D~672A~901A~8FC7''),
                   mts_suggested_action = Some (uni ''~5148~6062~590D~6CE8~518C/~5FC3~8DF3/~5BF9~7AEF~53EF~8FBE~540E~91CD~8BD5~3002'')\<rparr>],
      mtp_failure_stage = Some (uni ''~5BF9~7AEF~53EF~8FBE''), mtp_signaling_request = (uni ''~6210~529F''),
      mtp_response_channel = (uni ''~6B63~5E38''), mtp_registration_status = (uni ''~6B63~5E38''),
      mtp_failure_reason = Some ''i/o timeout'',
      mtp_suggested_action = Some (uni ''~68C0~67E5~5BF9~7AEF~8FDB~7A0B~3001ACL ~4E0E~8DEF~7531~3002'')\<rparr>"

definition fetchTunnelCatalogMock :: TunnelCatalogPayload where
  "fetchTunnelCatalogMock =
     \<lparr>tcp_resources = [\<lparr>tcr_resource_code = Some ''34020000001320000001'',
                      tcr_device_id = ''34020000001320000001'', tcr_resource_type = Some ''SERVICE'',
                      tcr_name = (uni ''~8BA2~5355~67E5~8BE2~865A~62DF~8D44~6E90''), tcr_local_port = None,
                      tcr_local_ports = Some [18081], tcr_exposure_mode = Exposure_MANUAL,
                      tcr_methods = [''GET'', ''POST''], tcr_method_list = Some [''GET'', ''POST''],
                      tcr_response_mode = RM_AUTO, tcr_source = Some Source_REMOTE,
                      tcr_status = Some ''ON'', tcr_max_inline_response_body = Some 65536,
                      tcr_max_request_body = Some 1048576, tcr_mapping_ids = Some [''map-orders'']\<rparr>,
                     \<lparr>tcr_resource_code = Some ''34020000001320000002'',
                      tcr_device_id = ''34020000001320000002'', tcr_resource_type = Some ''SERVICE'',
                      tcr_name = (uni ''~5DE5~5355~4E0B~8F7D~865A~62DF~8D44~6E90''), tcr_local_port = None,
                      tcr_local_ports = Some [], tcr_exposure_mode = Exposure_UNEXPOSED,
                      tcr_methods = [''GET''], tcr_method_list = Some [''GET''], tcr_response_mode = RM_RTP,
                      tcr_source = Some Source_REMOTE, tcr_status = Some ''ON'',
                      tcr_max_inline_response_body = Some 32768, tcr_max_request_body = Some 1048576,
                      tcr_mapping_ids = Some []\<rparr>,
                     \<lparr>tcr_resource_code = Some ''34020000001320000003'',
                      tcr_device_id = ''34020000001320000003'', tcr_resource_type = Some ''SERVICE'',
                      tcr_name = (uni ''~4E34~65F6~8BCA~65AD~8D44~6E90''), tcr_local_port = None,
                      tcr_local_ports = Some [], tcr_exposure_mode = Exposure_UNEXPOSED,
                      tcr_methods = [''GET''], tcr_method_list = Some [''GET''],
                      tcr_response_mode = RM_INLINE, tcr_source = Some Source_REMOTE,
                      tcr_status = Some ''OFF'', tcr_max_inline_response_body = Some 16384,
                      tcr_max_request_body = Some 262144, tcr_mapping_ids = Some []\<rparr>],
      tcp_summary = \<lparr>tcs_resource_total = 3, tcs_manual_expose_num = 1, tcs_unexposed_num = 2\<rparr>\<rparr>"

definition fetchTunnelMappingOverviewMock :: TunnelMappingOverviewPayload where
  "fetchTunnelMappingOverviewMock =
     \<lparr>tmop_items = [\<lparr>tmoi_resource_code = ''34020000001320000001'', tmoi_device_id = ''34020000001320000001'',
                   tmoi_mapping_id = None, tmoi_local_bind_port = None,
                   tmoi_resource_type = Some ''SERVICE'',
                   tmoi_name = (uni ''~8BA2~5355~67E5~8BE2~865A~62DF~8D44~6E90''),
                   tmoi_source_node = Some ''34020000002000000002'', tmoi_methods = [''GET'', ''POST''],
                   tmoi_response_mode = RM_AUTO, tmoi_resource_status = ''ON'',
                   tmoi_mapping_status = Mapping_MANUAL, tmoi_mapping_ids = Some [''map-orders''],
                   tmoi_listen_ip = Some ''0.0.0.0'', tmoi_listen_ports = [18081],
                   tmoi_path_prefix = Some ''/'', tmoi_enabled = True\<rparr>,
                  \<lparr>tmoi_resource_code = ''34020000001320000002'', tmoi_device_id = ''34020000001320000002'',
                   tmoi_mapping_id = None, tmoi_local_bind_port = None,
                   tmoi_resource_type = Some ''SERVICE'',
                   tmoi_name = (uni ''~5DE5~5355~4E0B~8F7D~865A~62DF~8D44~6E90''),
                   tmoi_source_node = Some ''34020000002000000002'', tmoi_methods = [''GET''],
                   tmoi_response_mode = RM_RTP, tmoi_resource_status = ''ON'',
                   tmoi_mapping_status = Mapping_UNMAPPED, tmoi_mapping_ids = Some [],
                   tmoi_listen_ip = None, tmoi_listen_ports = [], tmoi_path_prefix = None,
                   tmoi_enabled = False\<rparr>,
                  \<lparr>tmoi_resource_code = ''34020000001320000003'', tmoi_device_id = ''34020000001320000003'',
                   tmoi_mapping_id = None, tmoi_local_bind_port = None,
                   tmoi_resource_type = Some ''SERVICE'',
                   tmoi_name = (uni ''~4E34~65F6~8BCA~65AD~8D44~6E90''),
                   tmoi_source_node = Some ''34020000002000000002'', tmoi_methods = [''GET''],
                   tmoi_response_mode = RM_INLINE, tmoi_resource_status = ''OFF'',
                   tmoi_mapping_status = Mapping_UNMAPPED, tmoi_mapping_ids = Some [],
                   tmoi_listen_ip = None, tmoi_listen_ports = [], tmoi_path_prefix = None,
                   tmoi_enabled = False\<rparr>],
      tmop_summary = \<lparr>tmos_resource_total = 3, tmos_mapped_total = 1, tmos_manual_total = 1,
                    tmos_unmapped_total = 2\<rparr>\<rparr>"

subsection \<open>Consistency of the answers\<close>

definition trend_ok :: "TrendPoint \<Rightarrow> bool" where
  "trend_ok p \<longleftrightarrow> tp_total p = tp_success p + tp_failed p"

definition catalog_ok :: "TunnelCatalogPayload \<Rightarrow> bool" where
  "catalog_ok c \<longleftrightarrow>
     tcs_resource_total (tcp_summary c) = int (length (tcp_resources c)) \<and>
     tcs_manual_expose_num (tcp_summary c) =
       int (length (filter (\<lambda>r. tcr_exposure_mode r = Exposure_MANUAL) (tcp_resources c))) \<and>
     tcs_unexposed_num (tcp_summary c) =
       int (length (filter (\<lambda>r. tcr_exposure_mode r = Exposure_UNEXPOSED) (tcp_resources c))) \<and>
     list_all (\<lambda>r. (tcr_exposure_mode r = Exposure_MANUAL) = (tcr_mapping_ids r \<noteq> Some [])) (tcp_resources c)"

definition overview_ok :: "TunnelMappingOverviewPayload \<Rightarrow> bool" where
  "overview_ok v \<longleftrightarrow>
     tmos_resource_total (tmop_summary v) = int (length (tmop_items v)) \<and>
     tmos_manual_total (tmop_summary v) =
       int (length (filter (\<lambda>i. tmoi_mapping_status i = Mapping_MANUAL) (tmop_items v))) \<and>
     tmos_mapped_total (tmop_summary v) = tmos_manual_total (tmop_summary v) \<and>
     tmos_unmapped_total (tmop_summary v) = tmos_resource_total (tmop_summary v) - tmos_mapped_total (tmop_summary v) \<and>
     list_all (\<lambda>i. tmoi_enabled i = (tmoi_listen_ports i \<noteq> [])) (tmop_items v)"

text \<open>
  A mapping test passes exactly when all its stages pass; a stage passes exactly when its status
  says so; nothing passes after the first failure, and the report names the stage that failed.
\<close>

definition mapping_test_ok :: "MappingTestPayload \<Rightarrow> bool" where
  "mapping_test_ok r \<longleftrightarrow>
     mtp_passed r = list_all mts_passed (mtp_stages r) \<and>
     (mtp_status r = Test_passed) = mtp_passed r \<and>
     list_all (\<lambda>st. mts_passed st = (mts_status st = Stage_passed)) (mtp_stages r) \<and>
     list_all (\<lambda>st. mts_status st \<noteq> Stage_failed \<and> \<not> mts_passed st)
       (tl (dropWhile mts_passed (mtp_stages r))) \<and>
     mtp_failure_stage r = map_option mts_name (find (\<lambda>st. \<not> mts_passed st) (mtp_stages r)) \<and>
     mtp_failure_reason r = Option.bind (find (\<lambda>st. \<not> mts_passed st) (mtp_stages r)) mts_blocking_reason"

lemma trends_ok: "list_all trend_ok (dp_recentTrends fetchDashboardMock)"
  by (simp add: fetchDashboardMock_def trend_ok_def)

lemma catalog_fixture_ok: "catalog_ok fetchTunnelCatalogMock"
  by (simp add: catalog_ok_def fetchTunnelCatalogMock_def)

lemma overview_fixture_ok: "overview_ok fetchTunnelMappingOverviewMock"
  by (simp add: overview_ok_def fetchTunnelMappingOverviewMock_def)

lemma mapping_test_fixture_ok: "mapping_test_ok testMappingMock"
  by (simp add: mapping_test_ok_def testMappingMock_def)

lemma catalog_overview_agree:
  "map tcr_device_id (tcp_resources fetchTunnelCatalogMock) =
     map tmoi_device_id (tmop_items fetchTunnelMappingOverviewMock)"
  "map tcr_mapping_ids (tcp_resources fetchTunnelCatalogMock) =
     map tmoi_mapping_ids (tmop_items fetchTunnelMappingOverviewMock)"
  by (simp_all add: fetchTunnelCatalogMock_def fetchTunnelMappingOverviewMock_def)

end
