(* ===== verification/MockNetwork.thy ===== *)
theory MockNetwork
  imports MockState JsNumber
begin

text \<open>
  Reading and updating the network configuration of the mock gateway, and the port pool figures an
  update derives (\<open>mockGateway.ts\<close>, lines 633 to 654). The two factors are the doubles the
  literals \<open>0.6\<close> and \<open>0.35\<close> denote, and their products are rounded as doubles.
\<close>

definition fetchNetworkConfigMock :: "MockState \<Rightarrow> NetworkConfigPayload" where
  "fetchNetworkConfigMock s = networkConfigState s"

definition pool_after :: "int \<Rightarrow> int \<Rightarrow> PortPoolStatus" where
  "pool_after width maxConcurrentTransfers =
     (let occupied = min width (math_round (fl64 (of_int maxConcurrentTransfers * fl64 (6 / 10))));
          active = min occupied (math_round (fl64 (of_int maxConcurrentTransfers * fl64 (35 / 100))))
      in \<lparr>pp_totalAvailablePorts = width, pp_occupiedPorts = occupied, pp_activeTransfers = active,
          pp_usageRate = (if width = 0 then 0 else percent2 occupied width)\<rparr>)"

definition updateNetworkConfigMock ::
  "UpdateNetworkConfigPayload \<Rightarrow> MockState \<Rightarrow> NetworkConfigPayload \<times> MockState" where
  "updateNetworkConfigMock payload s =
     (let st = (networkConfigState s)\<lparr>nc_sip := unc_sip payload, nc_rtp := unc_rtp payload\<rparr>;
          width = max 0 (rn_portRangeEnd (nc_rtp st) - rn_portRangeStart (nc_rtp st) + 1);
          st' = st\<lparr>nc_portPool := pool_after width (rn_maxConcurrentTransfers (unc_rtp payload))\<rparr>
      in (st', s\<lparr>networkConfigState := st'\<rparr>))"

declare fetchNetworkConfigMock_def [mock_defs] updateNetworkConfigMock_def [mock_defs]

subsection \<open>The port pool agrees with the port range\<close>

definition port_span :: "RtpNetworkConfig \<Rightarrow> int" where
  "port_span r = max 0 (rn_portRangeEnd r - rn_portRangeStart r + 1)"

definition pool_ok :: "NetworkConfigPayload \<Rightarrow> bool" where
  "pool_ok n \<longleftrightarrow>
     pp_totalAvailablePorts (nc_portPool n) = port_span (nc_rtp n) \<and>
     0 \<le> pp_activeTransfers (nc_portPool n) \<and>
     pp_activeTransfers (nc_portPool n) \<le> pp_occupiedPorts (nc_portPool n) \<and>
     pp_occupiedPorts (nc_portPool n) \<le> pp_totalAvailablePorts (nc_portPool n) \<and>
     0 \<le> pp_usageRate (nc_portPool n) \<and> pp_usageRate (nc_portPool n) \<le> 100"

lemma scaled_nonneg: "0 \<le> n \<Longrightarrow> 0 \<le> q \<Longrightarrow> 0 \<le> math_round (fl64 (of_int n * fl64 q))"
  by (intro math_round_nonneg fl64_nonneg mult_nonneg_nonneg) auto

lemma pool_after_bounds:
  assumes "0 \<le> width" "0 \<le> n"
  shows "0 \<le> pp_activeTransfers (pool_after width n) \<and>
    pp_activeTransfers (pool_after width n) \<le> pp_occupiedPorts (pool_after width n) \<and>
    pp_occupiedPorts (pool_after width n) \<le> width \<and>
    0 \<le> pp_usageRate (pool_after width n) \<and> pp_usageRate (pool_after width n) \<le> 100"
proof -
  let ?o = "min width (math_round (fl64 (of_int n * fl64 (6 / 10))))"
  have o: "0 \<le> ?o" "?o \<le> width" using scaled_nonneg [OF assms(2), of "6 / 10"] assms(1) by auto
  have "0 \<le> percent2 ?o width \<and> percent2 ?o width \<le> 100" if "width \<noteq> 0"
    using o that assms(1) by (intro percent2_bounds) auto
  then show ?thesis
    using o scaled_nonneg [OF assms(2), of "35 / 100"]
    by (auto simp: pool_after_def Let_def min_def)
qed

lemma pool_ok_update:
  assumes "0 \<le> rn_maxConcurrentTransfers (unc_rtp p)"
  shows "pool_ok (networkConfigState (snd (updateNetworkConfigMock p s)))"
proof -
  have "0 \<le> port_span (unc_rtp p)" by (simp add: port_span_def)
  from pool_after_bounds [OF this assms] show ?thesis
    by (simp add: pool_ok_def updateNetworkConfigMock_def Let_def port_span_def [symmetric])
      (simp add: pool_after_def Let_def)
qed

lemma pool_ok_init: "pool_ok (networkConfigState mock_init)"
  by (simp add: pool_ok_def init_defs port_span_def)

lemma updateNetworkConfigMock_frame:
  "nc_connectionErrors (fst (updateNetworkConfigMock p s)) = nc_connectionErrors (networkConfigState s)"
  "nc_selfCheckItems (fst (updateNetworkConfigMock p s)) = nc_selfCheckItems (networkConfigState s)"
  "nc_linkTests (fst (updateNetworkConfigMock p s)) = nc_linkTests (networkConfigState s)"
  "snd (updateNetworkConfigMock p s) = s\<lparr>networkConfigState := fst (updateNetworkConfigMock p s)\<rparr>"
  by (simp_all add: updateNetworkConfigMock_def Let_def)

lemma updateNetworkConfigMock_reads:
  "nc_sip (fst (updateNetworkConfigMock p s)) = unc_sip p"
  "nc_rtp (fst (updateNetworkConfigMock p s)) = unc_rtp p"
  "fetchNetworkConfigMock (snd (updateNetworkConfigMock p s)) = fst (updateNetworkConfigMock p s)"
  by (simp_all add: mock_defs Let_def)

end
