(* ===== verification/MockGovernance.thy ===== *)
theory MockGovernance
  imports MockState
begin

text \<open>
  Configuration governance of the mock gateway: snapshots, the difference between the running and
  the pending configuration, roll back and YAML export (\<open>mockGateway.ts\<close>, lines 698 to 758).
\<close>

subsection \<open>Operations\<close>

definition diff_item :: "string \<Rightarrow> string \<Rightarrow> string \<Rightarrow> RiskLevel \<Rightarrow> ConfigDiffItem" where
  "diff_item path before after risk =
     \<lparr>cdi_path = path, cdi_before = before, cdi_after = after, cdi_riskLevel = risk\<rparr>"

definition buildDiff :: "RuntimeGatewayConfig \<Rightarrow> RuntimeGatewayConfig \<Rightarrow> ConfigDiffItem list" where
  "buildDiff before after =
     [diff_item ''sip.listen_port'' (string_of_int (rsc_listen_port (rgc_sip before)))
        (string_of_int (rsc_listen_port (rgc_sip after))) Risk_high,
      diff_item ''sip.transport'' (transport_text (rsc_transport (rgc_sip before)))
        (transport_text (rsc_transport (rgc_sip after))) Risk_high,
      diff_item ''rtp.port_start'' (string_of_int (rrc_port_start (rgc_rtp before)))
        (string_of_int (rrc_port_start (rgc_rtp after))) Risk_high,
      diff_item ''rtp.port_end'' (string_of_int (rrc_port_end (rgc_rtp before)))
        (string_of_int (rrc_port_end (rgc_rtp after))) Risk_high,
      diff_item ''rtp.transport'' (transport_text (rrc_transport (rgc_rtp before)))
        (transport_text (rrc_transport (rgc_rtp after))) Risk_high,
      diff_item ''max_message_bytes'' (string_of_int (rgc_max_message_bytes before))
        (string_of_int (rgc_max_message_bytes after)) Risk_high,
      diff_item ''heartbeat_interval_sec'' (string_of_int (rgc_heartbeat_interval_sec before))
        (string_of_int (rgc_heartbeat_interval_sec after)) Risk_low]"

definition newline :: string where
  "newline = [CHR 0x0A]"

definition toYaml :: "RuntimeGatewayConfig \<Rightarrow> string" where
  "toYaml config =
     ''sip:'' @ newline @
     ''  listen_port: '' @ string_of_int (rsc_listen_port (rgc_sip config)) @ newline @
     ''  transport: '' @ transport_text (rsc_transport (rgc_sip config)) @ newline @
     ''  listen_ip: '' @ rsc_listen_ip (rgc_sip config) @ newline @
     ''rtp:'' @ newline @
     ''  port_start: '' @ string_of_int (rrc_port_start (rgc_rtp config)) @ newline @
     ''  port_end: '' @ string_of_int (rrc_port_end (rgc_rtp config)) @ newline @
     ''  transport: '' @ transport_text (rrc_transport (rgc_rtp config)) @ newline @
     ''  listen_ip: '' @ rrc_listen_ip (rgc_rtp config) @ newline @
     ''max_message_bytes: '' @ string_of_int (rgc_max_message_bytes config) @ newline @
     ''heartbeat_interval_sec: '' @ string_of_int (rgc_heartbeat_interval_sec config) @ newline"

definition snapshot_matches :: "ConfigSnapshotFilters \<Rightarrow> ConfigGovernanceSnapshot \<Rightarrow> bool" where
  "snapshot_matches filters item =
     (if opt_truthy (csf_operator filters)
        \<and> \<not> sublist (trim (the (csf_operator filters))) (cgs_operator item) then False
      else if opt_truthy (csf_version filters)
        \<and> \<not> sublist (trim (the (csf_version filters))) (cgs_version item) then False
      else if opt_truthy (csf_startTime filters) \<and> cgs_createdAt item < the (csf_startTime filters) then False
      else if opt_truthy (csf_endTime filters) \<and> cgs_createdAt item > the (csf_endTime filters) then False
      else True)"

definition fetchConfigGovernanceMock :: "ConfigSnapshotFilters \<Rightarrow> MockState \<Rightarrow> ConfigGovernancePayload" where
  "fetchConfigGovernanceMock filters s =
     \<lparr>cgp_snapshots = filter (snapshot_matches filters) (snapshotState s),
      cgp_currentConfig = runtimeCurrentConfig, cgp_pendingConfig = runtimePendingConfig s,
      cgp_diff = buildDiff runtimeCurrentConfig (runtimePendingConfig s)\<rparr>"

definition rollback_snapshot :: "string \<Rightarrow> ConfigGovernanceSnapshot \<Rightarrow> ConfigGovernanceSnapshot" where
  "rollback_snapshot version item =
     item\<lparr>cgs_status := (if cgs_version item = version then Snap_active
            else if cgs_status item = Snap_active then Snap_archived else cgs_status item)\<rparr>"

definition rollbackConfigMock :: "string \<Rightarrow> MockState \<Rightarrow> ConfigGovernancePayload \<times> MockState" where
  "rollbackConfigMock version s =
     (let s' = s\<lparr>snapshotState := map (rollback_snapshot version) (snapshotState s),
                 runtimePendingConfig := runtimeCurrentConfig\<rparr>
      in (\<lparr>cgp_snapshots = snapshotState s', cgp_currentConfig = runtimeCurrentConfig,
           cgp_pendingConfig = runtimePendingConfig s',
           cgp_diff = buildDiff runtimeCurrentConfig (runtimePendingConfig s')\<rparr>, s'))"

datatype ConfigTarget = Target_current | Target_pending

definition exportConfigYamlMock :: "ConfigTarget \<Rightarrow> MockState \<Rightarrow> string" where
  "exportConfigYamlMock target s =
     toYaml (if target = Target_current then runtimeCurrentConfig else runtimePendingConfig s)"

declare fetchConfigGovernanceMock_def [mock_defs] rollbackConfigMock_def [mock_defs]
  exportConfigYamlMock_def [mock_defs]

subsection \<open>Roll back\<close>

definition is_active :: "ConfigGovernanceSnapshot \<Rightarrow> bool" where
  "is_active x \<longleftrightarrow> cgs_status x = Snap_active"

lemma rollback_snapshot_simps [simp]:
  "cgs_version (rollback_snapshot v x) = cgs_version x"
  "is_active (rollback_snapshot v x) \<longleftrightarrow> cgs_version x = v"
  "cgs_createdAt (rollback_snapshot v x) = cgs_createdAt x"
  "cgs_operator (rollback_snapshot v x) = cgs_operator x"
  "cgs_changeSummary (rollback_snapshot v x) = cgs_changeSummary x"
  by (simp_all add: rollback_snapshot_def is_active_def)

lemma rollback_versions: "map cgs_version (snapshotState (snd (rollbackConfigMock v s))) = map cgs_version (snapshotState s)"
  by (simp add: rollbackConfigMock_def Let_def)

lemma rollback_active:
  "map cgs_version (filter is_active (snapshotState (snd (rollbackConfigMock v s)))) =
     filter (\<lambda>w. w = v) (map cgs_version (snapshotState s))"
  by (simp add: rollbackConfigMock_def Let_def filter_map o_def)

lemma rollback_keeps_pending_snapshots:
  "x \<in> set (snapshotState s) \<Longrightarrow> cgs_version x \<noteq> v \<Longrightarrow> \<not> is_active x \<Longrightarrow>
     x \<in> set (snapshotState (snd (rollbackConfigMock v s)))"
  by (auto simp: rollbackConfigMock_def Let_def rollback_snapshot_def is_active_def image_iff intro!: bexI)

lemma rollback_idem: "snd (rollbackConfigMock v (snd (rollbackConfigMock v s))) = snd (rollbackConfigMock v s)"
  by (simp add: rollbackConfigMock_def Let_def o_def rollback_snapshot_def)

lemma filter_eq_distinct: "distinct xs \<Longrightarrow> filter (\<lambda>w. w = v) xs = (if v \<in> set xs then [v] else [])"
  by (induction xs) auto

definition diff_equal :: "ConfigDiffItem \<Rightarrow> bool" where
  "diff_equal d \<longleftrightarrow> cdi_before d = cdi_after d"

lemma buildDiff_same: "list_all diff_equal (buildDiff c c)"
  by (simp add: buildDiff_def diff_item_def diff_equal_def)

text \<open>A difference without a changed row means equal configurations, up to the listen addresses.\<close>

lemma buildDiff_equal_iff:
  "list_all diff_equal (buildDiff c d) \<longleftrightarrow>
     c = d\<lparr>rgc_sip := (rgc_sip d)\<lparr>rsc_listen_ip := rsc_listen_ip (rgc_sip c)\<rparr>,
           rgc_rtp := (rgc_rtp d)\<lparr>rrc_listen_ip := rrc_listen_ip (rgc_rtp c)\<rparr>\<rparr>"
  by (cases c; cases d; cases "rgc_sip c"; cases "rgc_sip d"; cases "rgc_rtp c"; cases "rgc_rtp d")
    (auto simp: buildDiff_def diff_item_def diff_equal_def)

definition no_filters :: ConfigSnapshotFilters where
  "no_filters = \<lparr>csf_startTime = None, csf_endTime = None, csf_operator = None, csf_version = None\<rparr>"

lemma fetch_no_filters: "cgp_snapshots (fetchConfigGovernanceMock no_filters s) = snapshotState s"
  by (simp add: fetchConfigGovernanceMock_def snapshot_matches_def no_filters_def)

subsection \<open>The YAML text determines the configuration\<close>

lemma line_split:
  assumes "CHR 0x0A \<notin> set a" "CHR 0x0A \<notin> set b" "a @ newline @ r = b @ newline @ t"
  shows "a = b \<and> r = t"
  using assms by (induction a arbitrary: b) (case_tac b; auto simp: newline_def)+

lemma no_newline_nat: "CHR 0x0A \<notin> set (string_of_nat n)"
proof
  assume "CHR 0x0A \<in> set (string_of_nat n)"
  then have "is_digit CHR 0x0A" using string_of_nat_digits by blast
  then show False by (simp add: is_digit_def)
qed

lemma no_newline_int: "CHR 0x0A \<notin> set (string_of_int i)"
  by (simp add: string_of_int_def no_newline_nat)

lemma no_newline_transport: "CHR 0x0A \<notin> set (transport_text p)"
  by (cases p) simp_all

definition addresses_plain :: "RuntimeGatewayConfig \<Rightarrow> bool" where
  "addresses_plain c \<longleftrightarrow> CHR 0x0A \<notin> set (rsc_listen_ip (rgc_sip c)) \<and> CHR 0x0A \<notin> set (rrc_listen_ip (rgc_rtp c))"

lemma field_line:
  assumes "(l @ a) @ newline @ r = (l @ b) @ newline @ t" "CHR 0x0A \<notin> set l" "CHR 0x0A \<notin> set a" "CHR 0x0A \<notin> set b"
  shows "a = b \<and> r = t"
  using line_split [OF _ _ assms(1)] assms(2-4) by auto

lemma toYaml_inject:
  assumes "addresses_plain c" "addresses_plain d" "toYaml c = toYaml d"
  shows "c = d"
proof -
  note plain = no_newline_int no_newline_transport
  note ips = assms(1,2) [unfolded addresses_plain_def]
  have "rsc_listen_port (rgc_sip c) = rsc_listen_port (rgc_sip d) \<and>
      rsc_transport (rgc_sip c) = rsc_transport (rgc_sip d) \<and>
      rsc_listen_ip (rgc_sip c) = rsc_listen_ip (rgc_sip d) \<and>
      rrc_port_start (rgc_rtp c) = rrc_port_start (rgc_rtp d) \<and>
      rrc_port_end (rgc_rtp c) = rrc_port_end (rgc_rtp d) \<and>
      rrc_transport (rgc_rtp c) = rrc_transport (rgc_rtp d) \<and>
      rrc_listen_ip (rgc_rtp c) = rrc_listen_ip (rgc_rtp d) \<and>
      rgc_max_message_bytes c = rgc_max_message_bytes d \<and>
      rgc_heartbeat_interval_sec c = rgc_heartbeat_interval_sec d"
    using assms(3) ips
    by (auto simp: toYaml_def plain dest!: line_split [OF _ _, rotated -1])
  then show ?thesis
    by (cases c; cases d; cases "rgc_sip c"; cases "rgc_sip d"; cases "rgc_rtp c"; cases "rgc_rtp d") auto
qed

end
