(* ===== verification/MockDiagnostics.thy ===== *)
theory MockDiagnostics
  imports MockState
begin

text \<open>
  Diagnostic exports of the mock gateway: a job is created, polled until it has succeeded or
  failed, and may be retried (\<open>mockGateway.ts\<close>, lines 761 to 863). The random part of a job id and
  the ISO time are arguments. \<open>progress / 100\<close> is a multiple of a quarter in every poll, so the
  number of completed sections is computed exactly.
\<close>

subsection \<open>File names\<close>

definition is_sep :: "char \<Rightarrow> bool" where
  "is_sep c \<longleftrightarrow> c = CHR ''-'' \<or> c = CHR ''_''"

text \<open>\<open>replace(/[^a-zA-Z0-9_-]/g, '_')\<close> and \<open>replace(/[-_]+/g, '_')\<close>.\<close>

definition replace_other :: "string \<Rightarrow> string" where
  "replace_other s = map (\<lambda>c. if is_alnum c \<or> is_sep c then c else CHR ''_'') s"

fun squeeze :: "string \<Rightarrow> string" where
  "squeeze [] = []"
| "squeeze (c # s) =
     (if is_sep c then (if s \<noteq> [] \<and> is_sep (hd s) then squeeze s else CHR ''_'' # squeeze s)
      else c # squeeze s)"

text \<open>\<open>replace(/^_+|_+$/g, '')\<close>.\<close>

definition strip_underscores :: "string \<Rightarrow> string" where
  "strip_underscores s = rev (dropWhile (\<lambda>c. c = CHR ''_'') (rev (dropWhile (\<lambda>c. c = CHR ''_'') s)))"

definition normalizeToken :: "string \<Rightarrow> string" where
  "normalizeToken value = strip_underscores (squeeze (replace_other (trim value)))"

text \<open>\<open>iso.replace(/[-:]/g, '').replace(/\..+/, '')\<close>.\<close>

definition iso_stamp :: "string \<Rightarrow> string" where
  "iso_stamp isotime =
     (let t = filter (\<lambda>c. c \<noteq> CHR ''-'' \<and> c \<noteq> CHR '':'') isotime;
          rest = dropWhile (\<lambda>c. c \<noteq> CHR ''.'') t
      in if length rest > 1 then takeWhile (\<lambda>c. c \<noteq> CHR ''.'') t else t)"

fun join :: "string \<Rightarrow> string list \<Rightarrow> string" where
  "join sep [] = []"
| "join sep [x] = x"
| "join sep (x # y # xs) = x @ sep @ join sep (y # xs)"

definition makeDiagnosticFileName ::
  "string \<Rightarrow> string \<Rightarrow> string option \<Rightarrow> string option \<Rightarrow> string \<Rightarrow> string" where
  "makeDiagnosticFileName nodeId jobId requestId traceId now =
     (let stamp = iso_stamp now;
          parts = [''diag_'' @ normalizeToken nodeId @ ''_'' @ stamp] @
            (if opt_truthy requestId then [''req_'' @ normalizeToken (the requestId)] else []) @
            (if opt_truthy traceId then [''trace_'' @ normalizeToken (the traceId)] else []) @
            [jobId]
      in join ''_'' parts @ ''.zip'')"

subsection \<open>Jobs\<close>

definition diagnosticSectionsTemplate :: "(DiagnosticSectionKey \<times> string) list" where
  "diagnosticSectionsTemplate =
     [(Sec_transport_config, (uni ''~5F53~524D transport ~914D~7F6E'')),
      (Sec_connection_stats_snapshot, (uni ''~8FDE~63A5~7EDF~8BA1~5FEB~7167'')),
      (Sec_port_pool_status, (uni ''~7AEF~53E3~6C60~72B6~6001'')),
      (Sec_transport_error_summary, (uni ''~6700~8FD1 transport ~9519~8BEF~6458~8981'')),
      (Sec_task_failure_summary, (uni ''~6700~8FD1 task failure ~6458~8981'')),
      (Sec_rate_limit_hit_summary, (uni ''~6700~8FD1 rate limit ~547D~4E2D~6458~8981'')),
      (Sec_profile_entry, (uni ''profile ~91C7~96C6~5165~53E3~4FE1~606F~FF08~5982~679C~542F~7528~FF09''))]"

definition fresh_sections :: "DiagnosticExportSection list" where
  "fresh_sections =
     map (\<lambda>(k, l). \<lparr>des_key = k, des_label = l, des_done = False\<rparr>) diagnosticSectionsTemplate"

definition createDiagnosticExportMock ::
  "DiagnosticExportCreatePayload \<Rightarrow> string \<Rightarrow> string \<Rightarrow> MockState \<Rightarrow> DiagnosticExportJob \<times> MockState" where
  "createDiagnosticExportMock payload rand now s =
     (let jobId = ''diag-'' @ rand;
          job = \<lparr>dej_jobId = jobId, dej_nodeId = decp_nodeId payload, dej_status = Diag_pending,
                 dej_progress = 0, dej_startedAt = now, dej_updatedAt = now,
                 dej_fileName = makeDiagnosticFileName (decp_nodeId payload) jobId
                   (decp_requestId payload) (decp_traceId payload) now,
                 dej_sections = fresh_sections, dej_errorMessage = None, dej_downloadUrl = None\<rparr>
      in (job, s\<lparr>diagnosticJobs := (diagnosticJobs s)(jobId \<mapsto>
                  \<lparr>dr_job = job, dr_polls = 0, dr_failOnce = suffix ''02'' (decp_nodeId payload)\<rparr>)\<rparr>))"

definition job_missing :: js_error where
  "job_missing = JsError (uni ''~8BCA~65AD~4EFB~52A1~4E0D~5B58~5728~FF0C~8BF7~91CD~65B0~53D1~8D77~5BFC~51FA'')"

definition is_terminal :: "DiagnosticExportStatus \<Rightarrow> bool" where
  "is_terminal st \<longleftrightarrow> st = Diag_succeeded \<or> st = Diag_failed"

definition mark_done :: "nat \<Rightarrow> DiagnosticExportSection list \<Rightarrow> DiagnosticExportSection list" where
  "mark_done n xs = map (\<lambda>(i, x). x\<lparr>des_done := (i < n)\<rparr>) (enumerate 0 xs)"

text \<open>What one poll does to a record that is not finished.\<close>

definition poll_record :: "string \<Rightarrow> DiagnosticRecord \<Rightarrow> DiagnosticRecord" where
  "poll_record now r =
     (let polls = dr_polls r + 1;
          progress = min 100 (polls * 25);
          completedCount = (progress * length (dej_sections (dr_job r))) div 100;
          job = (dr_job r)\<lparr>dej_progress := int progress, dej_updatedAt := now,
                  dej_status := (if progress < 40 then Diag_collecting else Diag_packaging),
                  dej_sections := mark_done completedCount (dej_sections (dr_job r))\<rparr>
      in if progress \<ge> 100 then
           (if dr_failOnce r then
              r\<lparr>dr_polls := polls, dr_failOnce := False,
                dr_job := job\<lparr>dej_status := Diag_failed,
                  dej_errorMessage := Some (uni ''~5BFC~51FA~5305~751F~6210~5931~8D25~FF1A~65E5~5FD7~7D22~5F15~670D~52A1~6682~65F6~4E0D~53EF~7528~3002'')\<rparr>\<rparr>
            else
              r\<lparr>dr_polls := polls,
                dr_job := job\<lparr>dej_status := Diag_succeeded, dej_errorMessage := None,
                  dej_sections := map (\<lambda>x. x\<lparr>des_done := True\<rparr>) (dej_sections job),
                  dej_downloadUrl := Some ''data:application/zip;base64,UEsFBgAAAAAAAAAAAAAAAAAAAAAAAA==''\<rparr>\<rparr>)
         else r\<lparr>dr_polls := polls, dr_job := job\<rparr>)"

definition getDiagnosticExportMock ::
  "string \<Rightarrow> string \<Rightarrow> MockState \<Rightarrow> DiagnosticExportJob js_result \<times> MockState" where
  "getDiagnosticExportMock jobId now s =
     (case diagnosticJobs s jobId of
        None \<Rightarrow> (Inl job_missing, s)
      | Some r \<Rightarrow>
          if is_terminal (dej_status (dr_job r)) then (Inr (dr_job r), s)
          else let r' = poll_record now r
               in (Inr (dr_job r'), s\<lparr>diagnosticJobs := (diagnosticJobs s)(jobId \<mapsto> r')\<rparr>))"

definition retry_record :: "string \<Rightarrow> DiagnosticRecord \<Rightarrow> DiagnosticRecord" where
  "retry_record now r =
     r\<lparr>dr_polls := 0,
       dr_job := (dr_job r)\<lparr>dej_status := Diag_pending, dej_progress := 0, dej_updatedAt := now,
                   dej_errorMessage := None, dej_downloadUrl := None, dej_sections := fresh_sections\<rparr>\<rparr>"

definition retryDiagnosticExportMock ::
  "string \<Rightarrow> string \<Rightarrow> MockState \<Rightarrow> DiagnosticExportJob js_result \<times> MockState" where
  "retryDiagnosticExportMock jobId now s =
     (case diagnosticJobs s jobId of
        None \<Rightarrow> (Inl job_missing, s)
      | Some r \<Rightarrow>
          let r' = retry_record now r
          in (Inr (dr_job r'), s\<lparr>diagnosticJobs := (diagnosticJobs s)(jobId \<mapsto> r')\<rparr>))"

declare createDiagnosticExportMock_def [mock_defs] getDiagnosticExportMock_def [mock_defs]
  retryDiagnosticExportMock_def [mock_defs]

subsection \<open>Tokens\<close>

definition file_token :: "string \<Rightarrow> bool" where
  "file_token s \<longleftrightarrow> list_all (\<lambda>c. is_alnum c \<or> c = CHR ''_'') s \<and> \<not> sublist ''__'' s \<and>
     (s \<noteq> [] \<longrightarrow> hd s \<noteq> CHR ''_'' \<and> last s \<noteq> CHR ''_'')"

lemma squeeze_chars: "list_all (\<lambda>c. is_alnum c \<or> is_sep c) s \<Longrightarrow> list_all (\<lambda>c. is_alnum c \<or> c = CHR ''_'') (squeeze s)"
  by (induction s rule: squeeze.induct) auto

lemma squeeze_hd: "s \<noteq> [] \<Longrightarrow> squeeze s \<noteq> [] \<and> hd (squeeze s) = (if is_sep (hd s) then CHR ''_'' else hd s)"
  by (induction s rule: squeeze.induct) auto

lemma squeeze_no_double: "\<not> sublist ''__'' (squeeze s)"
proof (induction s rule: squeeze.induct)
  case (2 c s)
  show ?case
  proof (cases "is_sep c \<and> s \<noteq> [] \<and> is_sep (hd s)")
    case True
    with 2 show ?thesis by simp
  next
    case False
    define d where "d = (if is_sep c then CHR ''_'' else c)"
    have sq: "squeeze (c # s) = d # squeeze s" using False by (auto simp: d_def)
    have no: "\<not> sublist ''__'' (squeeze s)" using 2 False by auto
    have "\<not> prefix ''__'' (d # squeeze s)"
      using False squeeze_hd [of s]
      by (cases "s = []"; cases "squeeze s") (auto simp: d_def is_sep_def split: if_splits)
    with no show ?thesis unfolding sq by (simp add: sublist_Cons_right)
  qed
qed (simp add: sublist_def)

lemma squeeze_id: "list_all (\<lambda>c. is_alnum c \<or> c = CHR ''_'') s \<Longrightarrow> \<not> sublist ''__'' s \<Longrightarrow> squeeze s = s"
proof (induction s)
  case (Cons c s)
  then have "squeeze s = s" by (auto simp: sublist_Cons_right)
  moreover have "is_sep c \<Longrightarrow> c = CHR ''_''"
    using Cons.prems(1) by (auto simp: is_sep_def is_alnum_def)
  moreover have "\<not> (c = CHR ''_'' \<and> s \<noteq> [] \<and> is_sep (hd s))"
  proof
    assume h: "c = CHR ''_'' \<and> s \<noteq> [] \<and> is_sep (hd s)"
    then have "is_alnum (hd s) \<or> hd s = CHR ''_''" using Cons.prems(1) by (cases s) auto
    with h have "hd s = CHR ''_''" by (auto simp: is_sep_def is_alnum_def)
    with h Cons.prems(2) show False by (cases s) (auto simp: sublist_Cons_right)
  qed
  ultimately show ?case by auto
qed simp

lemma strip_underscores_props:
  "sublist (strip_underscores s) s"
  "strip_underscores s \<noteq> [] \<Longrightarrow> hd (strip_underscores s) \<noteq> CHR ''_'' \<and> last (strip_underscores s) \<noteq> CHR ''_''"
proof -
  define P where "P = (\<lambda>c. c = CHR ''_'')"
  define t where "t = dropWhile P s"
  define u where "u = rev (dropWhile P (rev t))"
  have eq: "strip_underscores s = u" by (simp add: strip_underscores_def P_def t_def u_def)
  have t: "suffix t s" by (simp add: t_def suffix_dropWhile)
  have "suffix (dropWhile P (rev t)) (rev t)" by (rule suffix_dropWhile)
  then have u: "prefix u t" by (simp add: u_def suffix_to_prefix)
  show "sublist (strip_underscores s) s" unfolding eq
    using t u by (meson prefix_imp_sublist sublist_order.order_trans suffix_imp_sublist)
  assume "strip_underscores s \<noteq> []"
  then have ne: "u \<noteq> []" by (simp add: eq)
  then have "dropWhile P (rev t) \<noteq> []" by (simp add: u_def)
  then have "\<not> P (hd (dropWhile P (rev t)))" by (rule hd_dropWhile)
  then have "\<not> P (last u)" by (simp add: u_def last_rev)
  moreover have "t \<noteq> []" using u ne by auto
  then have "\<not> P (hd t)" unfolding t_def by (rule hd_dropWhile)
  then have "\<not> P (hd u)" using prefix_hd [OF u ne] by simp
  ultimately show "hd (strip_underscores s) \<noteq> CHR ''_'' \<and> last (strip_underscores s) \<noteq> CHR ''_''"
    by (simp add: eq P_def)
qed

lemma strip_underscores_id: "(s \<noteq> [] \<longrightarrow> hd s \<noteq> CHR ''_'' \<and> last s \<noteq> CHR ''_'') \<Longrightarrow> strip_underscores s = s"
proof (cases "s = []")
  case False
  assume h: "s \<noteq> [] \<longrightarrow> hd s \<noteq> CHR ''_'' \<and> last s \<noteq> CHR ''_''"
  with False have "dropWhile (\<lambda>c. c = CHR ''_'') s = s" by (cases s) auto
  moreover have "dropWhile (\<lambda>c. c = CHR ''_'') (rev s) = rev s"
    using h False by (cases "rev s") (auto simp: hd_rev [symmetric])
  ultimately show ?thesis by (simp add: strip_underscores_def)
qed (simp add: strip_underscores_def)

lemma token_char_solid: "is_alnum c \<or> c = CHR ''_'' \<Longrightarrow> solid c"
  by (auto simp: is_alnum_def solid_def Let_def)

lemma normalizeToken_shape: "file_token (normalizeToken s)"
proof -
  define t where "t = squeeze (replace_other (trim s))"
  have "list_all (\<lambda>c. is_alnum c \<or> is_sep c) (replace_other (trim s))"
    by (auto simp: replace_other_def list_all_iff is_sep_def)
  then have t: "list_all (\<lambda>c. is_alnum c \<or> c = CHR ''_'') t" "\<not> sublist ''__'' t"
    by (simp_all add: t_def squeeze_chars squeeze_no_double)
  have sub: "sublist (strip_underscores t) t" by (rule strip_underscores_props)
  then have "list_all (\<lambda>c. is_alnum c \<or> c = CHR ''_'') (strip_underscores t)"
    using t(1) set_mono_sublist by (fastforce simp: list_all_iff)
  moreover have "\<not> sublist ''__'' (strip_underscores t)"
    using t(2) sub sublist_order.order_trans by blast
  ultimately show ?thesis
    using strip_underscores_props(2) [of t] by (simp add: file_token_def normalizeToken_def t_def)
qed

interpretation token_norm: normaliser normalizeToken file_token
proof
  fix s
  show "file_token (normalizeToken s)" by (rule normalizeToken_shape)
next
  fix s
  assume s: "file_token s"
  then have chars: "\<forall>c \<in> set s. is_alnum c \<or> c = CHR ''_''" by (simp add: file_token_def list_all_iff)
  have "trim s = s"
  proof (cases "s = []")
    case False
    with chars show ?thesis by (intro trim_solid) (auto intro: token_char_solid)
  qed simp
  moreover have "replace_other s = s"
    unfolding replace_other_def using chars by (intro map_idI) (auto simp: is_sep_def)
  moreover have "squeeze s = s" "strip_underscores s = s"
    using s by (simp_all add: file_token_def squeeze_id strip_underscores_id)
  ultimately show "normalizeToken s = s" by (simp add: normalizeToken_def)
qed

end
