(* ===== verification/DiagnosticsRuns.thy ===== *)
theory DiagnosticsRuns
  imports MockDiagnostics
begin

text \<open>
  The life of a diagnostic export: the invariant of its record, the steps that polling and retrying
  take, and that every export ends. The locale \<open>polling_job\<close> is the contract of a job a page may
  poll: a rank that every poll of an unfinished job lowers.
\<close>

subsection \<open>Order of the statuses\<close>

fun status_rank :: "DiagnosticExportStatus \<Rightarrow> nat" where
  "status_rank Diag_pending = 0"
| "status_rank Diag_collecting = 1"
| "status_rank Diag_packaging = 2"
| "status_rank Diag_succeeded = 3"
| "status_rank Diag_failed = 4"

lemma status_rank_inject: "status_rank a = status_rank b \<Longrightarrow> a = b"
  by (cases a; cases b) simp_all

instantiation DiagnosticExportStatus :: linorder
begin

definition less_eq_DiagnosticExportStatus :: "DiagnosticExportStatus \<Rightarrow> DiagnosticExportStatus \<Rightarrow> bool" where
  "a \<le> b \<longleftrightarrow> status_rank a \<le> status_rank b"

definition less_DiagnosticExportStatus :: "DiagnosticExportStatus \<Rightarrow> DiagnosticExportStatus \<Rightarrow> bool" where
  "a < b \<longleftrightarrow> status_rank a < status_rank b"

instance
  by standard
    (auto simp: less_eq_DiagnosticExportStatus_def less_DiagnosticExportStatus_def intro: status_rank_inject)

end

subsection \<open>Contract of a polled job\<close>

locale polling_job =
  fixes poll :: "'t \<Rightarrow> 'j \<Rightarrow> 'j" and finished :: "'j \<Rightarrow> bool" and ok :: "'j \<Rightarrow> bool" and rank :: "'j \<Rightarrow> nat"
  assumes poll_ok: "ok j \<Longrightarrow> ok (poll t j)"
    and poll_rank: "ok j \<Longrightarrow> \<not> finished j \<Longrightarrow> rank (poll t j) < rank j"
    and poll_finished: "finished j \<Longrightarrow> poll t j = j"
begin

definition polls :: "'t list \<Rightarrow> 'j \<Rightarrow> 'j" where
  "polls ts j = foldl (\<lambda>j t. poll t j) j ts"

lemma polls_simps [simp]: "polls [] j = j" "polls (t # ts) j = polls ts (poll t j)"
  by (simp_all add: polls_def)

lemma polls_ok: "ok j \<Longrightarrow> ok (polls ts j)"
  by (induction ts arbitrary: j) (auto intro: poll_ok)

lemma polls_finished: "finished j \<Longrightarrow> polls ts j = j"
  by (induction ts) (simp_all add: poll_finished)

lemma polls_terminate: "ok j \<Longrightarrow> rank j \<le> length ts \<Longrightarrow> finished (polls ts j)"
proof (induction ts arbitrary: j)
  case Nil
  then show ?case using poll_rank by fastforce
next
  case (Cons t ts)
  show ?case
  proof (cases "finished j")
    case True
    then show ?thesis by (simp add: poll_finished polls_finished)
  next
    case False
    with Cons.prems have "rank (poll t j) \<le> length ts" using poll_rank [of j t] by simp
    with Cons show ?thesis by (simp add: poll_ok)
  qed
qed

end

subsection \<open>Invariant of a record\<close>

definition done_count :: "nat \<Rightarrow> nat" where
  "done_count polls = (25 * polls * 7) div 100"

definition status_ok :: "DiagnosticRecord \<Rightarrow> bool" where
  "status_ok r \<longleftrightarrow>
     (dr_polls r = 0 \<longrightarrow> dej_status (dr_job r) = Diag_pending) \<and>
     (dr_polls r = 1 \<longrightarrow> dej_status (dr_job r) = Diag_collecting) \<and>
     (dr_polls r = 2 \<or> dr_polls r = 3 \<longrightarrow> dej_status (dr_job r) = Diag_packaging) \<and>
     (dr_polls r = 4 \<longrightarrow> is_terminal (dej_status (dr_job r)))"

definition diag_ok :: "DiagnosticRecord \<Rightarrow> bool" where
  "diag_ok r \<longleftrightarrow>
     dr_polls r \<le> 4 \<and> status_ok r \<and>
     dej_progress (dr_job r) = int (25 * dr_polls r) \<and>
     map des_key (dej_sections (dr_job r)) = map fst diagnosticSectionsTemplate \<and>
     map des_done (dej_sections (dr_job r)) = map (\<lambda>i. i < done_count (dr_polls r)) [0..<7] \<and>
     (dej_errorMessage (dr_job r) \<noteq> None \<longleftrightarrow> dej_status (dr_job r) = Diag_failed) \<and>
     (dej_downloadUrl (dr_job r) \<noteq> None \<longleftrightarrow> dej_status (dr_job r) = Diag_succeeded) \<and>
     (dej_status (dr_job r) = Diag_failed \<or> dej_status (dr_job r) = Diag_succeeded \<longrightarrow> \<not> dr_failOnce r)"

lemma length_template [simp]: "length diagnosticSectionsTemplate = 7"
  by (simp add: diagnosticSectionsTemplate_def)

lemma fresh_sections_simps [simp]:
  "map des_key fresh_sections = map fst diagnosticSectionsTemplate"
  "map des_done fresh_sections = replicate 7 False"
  "length fresh_sections = 7"
  by (simp_all add: fresh_sections_def o_def case_prod_unfold map_replicate_const)

lemma mark_done_simps [simp]:
  "map des_key (mark_done n xs) = map des_key xs"
  "map des_done (mark_done n xs) = map (\<lambda>i. i < n) [0..<length xs]"
  "length (mark_done n xs) = length xs"
proof -
  have "map f (mark_done n xs) = map (\<lambda>i. f ((xs ! i)\<lparr>des_done := (i < n)\<rparr>)) [0..<length xs]" for f :: "DiagnosticExportSection \<Rightarrow> 'b"
    by (rule nth_equalityI) (simp_all add: mark_done_def nth_enumerate_eq)
  note eq = this
  show "map des_key (mark_done n xs) = map des_key xs" unfolding eq by (rule nth_equalityI) simp_all
  show "map des_done (mark_done n xs) = map (\<lambda>i. i < n) [0..<length xs]" by (simp add: eq)
  show "length (mark_done n xs) = length xs" by (simp add: mark_done_def)
qed

lemma diag_ok_length: "diag_ok r \<Longrightarrow> length (dej_sections (dr_job r)) = 7"
  unfolding diag_ok_def by (metis length_map length_template)

lemma diag_ok_terminal: "diag_ok r \<Longrightarrow> is_terminal (dej_status (dr_job r)) \<longleftrightarrow> dr_polls r = 4"
proof -
  assume r: "diag_ok r"
  then consider "dr_polls r = 0" | "dr_polls r = 1" | "dr_polls r = 2" | "dr_polls r = 3" | "dr_polls r = 4"
    unfolding diag_ok_def by linarith
  then show ?thesis using r by cases (auto simp: diag_ok_def status_ok_def is_terminal_def)
qed

lemma all_done_list: "map (\<lambda>i. i < (7 :: nat)) [0..<7] = replicate 7 True"
  by (simp add: list_eq_iff_nth_eq)

lemma none_done_list: "map (\<lambda>i. i < done_count 0) [0..<7] = replicate 7 False"
  by (simp add: list_eq_iff_nth_eq done_count_def)

lemma diag_ok_retry: "diag_ok (retry_record now r)"
  by (simp add: diag_ok_def retry_record_def status_ok_def none_done_list del: upt_Suc)

lemma poll_record_early_simps:
  assumes "dr_polls r < 3" "length (dej_sections (dr_job r)) = 7"
  shows "dr_polls (poll_record now r) = Suc (dr_polls r)"
    "dr_failOnce (poll_record now r) = dr_failOnce r"
    "dej_status (dr_job (poll_record now r)) = (if dr_polls r = 0 then Diag_collecting else Diag_packaging)"
    "dej_progress (dr_job (poll_record now r)) = int (25 * Suc (dr_polls r))"
    "dej_sections (dr_job (poll_record now r)) = mark_done (done_count (Suc (dr_polls r))) (dej_sections (dr_job r))"
    "dej_errorMessage (dr_job (poll_record now r)) = dej_errorMessage (dr_job r)"
    "dej_downloadUrl (dr_job (poll_record now r)) = dej_downloadUrl (dr_job r)"
  using assms by (simp_all add: poll_record_def Let_def done_count_def min_def mult.commute)

lemma poll_record_early:
  assumes "diag_ok r" "dr_polls r < 3"
  shows "diag_ok (poll_record now r)"
proof -
  have len: "length (dej_sections (dr_job r)) = 7" using assms(1) by (rule diag_ok_length)
  have "\<not> is_terminal (dej_status (dr_job r))" using assms diag_ok_terminal by simp
  then have "dej_errorMessage (dr_job r) = None" "dej_downloadUrl (dr_job r) = None"
    using assms(1) by (auto simp: diag_ok_def is_terminal_def)
  then show ?thesis
    using assms len poll_record_early_simps [OF assms(2) len]
    by (simp add: diag_ok_def status_ok_def del: upt_Suc)
qed

lemma poll_record_last:
  assumes "diag_ok r" "dr_polls r = 3"
  shows "diag_ok (poll_record now r)"
    and "dej_status (dr_job (poll_record now r)) = (if dr_failOnce r then Diag_failed else Diag_succeeded)"
    and "dr_polls (poll_record now r) = 4"
    and "dr_failOnce (poll_record now r) = False"
proof -
  have len: "length (dej_sections (dr_job r)) = 7" using assms(1) by (rule diag_ok_length)
  have nt: "\<not> is_terminal (dej_status (dr_job r))" using assms diag_ok_terminal by simp
  show "dej_status (dr_job (poll_record now r)) = (if dr_failOnce r then Diag_failed else Diag_succeeded)"
    "dr_polls (poll_record now r) = 4" "dr_failOnce (poll_record now r) = False"
    using assms(2) by (simp_all add: poll_record_def Let_def)
  have keys: "map des_key (map (\<lambda>x. x\<lparr>des_done := True\<rparr>) xs) = map des_key xs"
    "map des_done (map (\<lambda>x. x\<lparr>des_done := True\<rparr>) xs) = replicate (length xs) True" for xs
    by (simp_all add: map_replicate_const [symmetric])
  show "diag_ok (poll_record now r)"
    using assms nt len
    by (auto simp: poll_record_def diag_ok_def Let_def status_ok_def is_terminal_def keys all_done_list
        done_count_def         simp flip: map_map simp del: upt_Suc map_map)
qed

lemma diag_ok_poll: "diag_ok r \<Longrightarrow> \<not> is_terminal (dej_status (dr_job r)) \<Longrightarrow> diag_ok (poll_record now r)"
proof -
  assume r: "diag_ok r" "\<not> is_terminal (dej_status (dr_job r))"
  then have "dr_polls r < 3 \<or> dr_polls r = 3" using diag_ok_terminal by (auto simp: diag_ok_def)
  then show ?thesis using r poll_record_early poll_record_last(1) by blast
qed

subsection \<open>Polling ends\<close>

text \<open>What a poll through \<open>getDiagnosticExportMock\<close> does to the record: nothing once it is finished.\<close>

definition poll_step :: "string \<Rightarrow> DiagnosticRecord \<Rightarrow> DiagnosticRecord" where
  "poll_step now r = (if is_terminal (dej_status (dr_job r)) then r else poll_record now r)"

lemma poll_step_polls:
  assumes "diag_ok r" "\<not> is_terminal (dej_status (dr_job r))"
  shows "dr_polls (poll_step now r) = Suc (dr_polls r)"
proof -
  have len: "length (dej_sections (dr_job r)) = 7" using assms(1) by (rule diag_ok_length)
  have "dr_polls r < 3 \<or> dr_polls r = 3" using assms diag_ok_terminal by (auto simp: diag_ok_def)
  then show ?thesis
    using assms poll_record_early_simps(1) [OF _ len] poll_record_last(3)
    by (auto simp: poll_step_def)
qed

interpretation exports: polling_job poll_step "\<lambda>r. is_terminal (dej_status (dr_job r))" diag_ok "\<lambda>r. 4 - dr_polls r"
proof
  fix r now
  assume r: "diag_ok r"
  then show "diag_ok (poll_step now r)" by (simp add: poll_step_def diag_ok_poll)
  assume t: "\<not> is_terminal (dej_status (dr_job r))"
  with r have "dr_polls r < 4" using diag_ok_terminal by (fastforce simp: diag_ok_def)
  then show "4 - dr_polls (poll_step now r) < 4 - dr_polls r"
    using poll_step_polls [OF r t] by simp
qed (simp add: poll_step_def)

text \<open>The rank of an unfinished status, as a function of the polls so far.\<close>

definition polls_rank :: "nat \<Rightarrow> nat" where
  "polls_rank n = (if n = 0 then 0 else if n = 1 then 1 else if n < 4 then 2 else 3)"

lemma status_rank_polls:
  assumes "diag_ok r"
  shows "polls_rank (dr_polls r) \<le> status_rank (dej_status (dr_job r))"
    and "dr_polls r < 4 \<Longrightarrow> status_rank (dej_status (dr_job r)) = polls_rank (dr_polls r)"
proof -
  have st: "status_ok r" and "dr_polls r \<le> 4" using assms by (auto simp: diag_ok_def)
  then consider "dr_polls r = 0" | "dr_polls r = 1" | "dr_polls r = 2 \<or> dr_polls r = 3" | "dr_polls r = 4"
    by linarith
  then have "polls_rank (dr_polls r) \<le> status_rank (dej_status (dr_job r)) \<and>
      (dr_polls r < 4 \<longrightarrow> status_rank (dej_status (dr_job r)) = polls_rank (dr_polls r))"
    by cases (use st in \<open>auto simp: status_ok_def polls_rank_def is_terminal_def\<close>)
  then show "polls_rank (dr_polls r) \<le> status_rank (dej_status (dr_job r))"
    "dr_polls r < 4 \<Longrightarrow> status_rank (dej_status (dr_job r)) = polls_rank (dr_polls r)" by blast+
qed

lemma polls_rank_mono: "polls_rank n \<le> polls_rank (Suc n)"
  by (simp add: polls_rank_def)

lemma poll_step_monotone:
  assumes "diag_ok r"
  shows "dej_progress (dr_job r) \<le> dej_progress (dr_job (poll_step now r)) \<and>
    dej_status (dr_job r) \<le> dej_status (dr_job (poll_step now r))"
proof (cases "is_terminal (dej_status (dr_job r))")
  case True
  then show ?thesis by (simp add: poll_step_def)
next
  case False
  have "diag_ok (poll_step now r)" using assms by (rule exports.poll_ok)
  then have "dej_progress (dr_job r) \<le> dej_progress (dr_job (poll_step now r))"
    using assms poll_step_polls [OF assms False, of now] by (simp add: diag_ok_def)
  moreover have "dr_polls r < 4" using assms False diag_ok_terminal by (fastforce simp: diag_ok_def)
  then have "status_rank (dej_status (dr_job r)) \<le> status_rank (dej_status (dr_job (poll_step now r)))"
    using status_rank_polls(2) [OF assms] status_rank_polls(1) [OF \<open>diag_ok (poll_step now r)\<close>]
      poll_step_polls [OF assms False, of now] polls_rank_mono [of "dr_polls r"] by simp
  ultimately show ?thesis by (simp add: less_eq_DiagnosticExportStatus_def)
qed

lemma poll_step_failOnce:
  assumes "diag_ok r" "\<not> dr_failOnce r" "dej_status (dr_job r) \<noteq> Diag_failed"
  shows "\<not> dr_failOnce (poll_step now r) \<and> dej_status (dr_job (poll_step now r)) \<noteq> Diag_failed"
proof (cases "is_terminal (dej_status (dr_job r))")
  case True
  with assms show ?thesis by (simp add: poll_step_def)
next
  case False
  have len: "length (dej_sections (dr_job r)) = 7" using assms(1) by (rule diag_ok_length)
  have "dr_polls r < 3 \<or> dr_polls r = 3" using assms False diag_ok_terminal by (auto simp: diag_ok_def)
  then show ?thesis
    using assms False poll_record_early_simps(2,3) [OF _ len] poll_record_last(2,4) [OF assms(1)]
    by (auto simp: poll_step_def split: if_splits)
qed

lemma polls_succeed:
  assumes "diag_ok r" "\<not> dr_failOnce r" "dej_status (dr_job r) \<noteq> Diag_failed" "4 \<le> length ts"
  shows "dej_status (dr_job (exports.polls ts r)) = Diag_succeeded"
proof -
  have "\<not> dr_failOnce (exports.polls ts r) \<and> dej_status (dr_job (exports.polls ts r)) \<noteq> Diag_failed"
    using assms(1-3)
    by (induction ts arbitrary: r) (auto simp: poll_step_failOnce exports.poll_ok)
  moreover have "is_terminal (dej_status (dr_job (exports.polls ts r)))"
    using assms(1,4) by (intro exports.polls_terminate) auto
  ultimately show ?thesis by (auto simp: is_terminal_def)
qed

lemma polls_fail_once:
  assumes "diag_ok r" "dr_failOnce r" "dej_status (dr_job r) = Diag_pending" "4 \<le> length ts"
  shows "dej_status (dr_job (exports.polls ts r)) = Diag_failed \<and> \<not> dr_failOnce (exports.polls ts r)"
proof -
  obtain a b c d us where ts: "ts = a # b # c # d # us"
    using assms(4) by (cases ts; cases "tl ts"; cases "tl (tl ts)"; cases "tl (tl (tl ts))") auto
  have p0: "dr_polls r = 0" using assms(1,3)
    by (cases "dr_polls r = 4") (auto simp: diag_ok_def status_ok_def is_terminal_def numeral_eq_Suc le_Suc_eq)
  define r1 where "r1 = poll_record a r"
  define r2 where "r2 = poll_record b r1"
  define r3 where "r3 = poll_record c r2"
  note early = poll_record_early poll_record_early_simps diag_ok_length
  have 1: "diag_ok r1" "dr_polls r1 = 1" "dr_failOnce r1" using assms p0 early by (auto simp: r1_def)
  have 2: "diag_ok r2" "dr_polls r2 = 2" "dr_failOnce r2" using 1 early by (auto simp: r2_def)
  have 3: "diag_ok r3" "dr_polls r3 = 3" "dr_failOnce r3" using 2 early by (auto simp: r3_def)
  have nt: "\<not> is_terminal (dej_status (dr_job r))" "\<not> is_terminal (dej_status (dr_job r1))"
    "\<not> is_terminal (dej_status (dr_job r2))" "\<not> is_terminal (dej_status (dr_job r3))"
    using assms(1) p0 1 2 3 diag_ok_terminal by auto
  have "exports.polls ts r = exports.polls us (poll_record d r3)"
    using nt by (simp add: ts poll_step_def r1_def r2_def r3_def)
  moreover have "dej_status (dr_job (poll_record d r3)) = Diag_failed" "\<not> dr_failOnce (poll_record d r3)"
    using poll_record_last(2,4) [OF 3(1,2)] 3(3) by auto
  ultimately show ?thesis by (simp add: exports.polls_finished is_terminal_def)
qed

subsection \<open>Steps of a record, and the jobs of the state\<close>

inductive diag_step :: "DiagnosticRecord \<Rightarrow> DiagnosticRecord \<Rightarrow> bool" where
  poll: "\<not> is_terminal (dej_status (dr_job r)) \<Longrightarrow> diag_step r (poll_record now r)"
| retry: "diag_step r (retry_record now r)"

inductive_cases diag_stepE: "diag_step r r'"

inductive diag_reachable :: "DiagnosticRecord \<Rightarrow> bool" where
  start: "diagnosticJobs (snd (createDiagnosticExportMock p rand now s)) (''diag-'' @ rand) = Some r \<Longrightarrow>
    diag_reachable r"
| step: "diag_reachable r \<Longrightarrow> diag_step r r' \<Longrightarrow> diag_reachable r'"

lemma diag_ok_created:
  "diagnosticJobs (snd (createDiagnosticExportMock p rand now s)) (''diag-'' @ rand) = Some r \<Longrightarrow> diag_ok r"
  by (auto simp: createDiagnosticExportMock_def Let_def diag_ok_def status_ok_def none_done_list simp del: upt_Suc)

lemma diag_ok_step: "diag_step r r' \<Longrightarrow> diag_ok r \<Longrightarrow> diag_ok r'"
  by (auto elim!: diag_stepE intro: diag_ok_poll diag_ok_retry)

lemma diag_reachable_ok: "diag_reachable r \<Longrightarrow> diag_ok r"
  by (induction rule: diag_reachable.induct) (auto intro: diag_ok_created diag_ok_step)

definition jobs_ok :: "MockState \<Rightarrow> bool" where
  "jobs_ok s \<longleftrightarrow> (\<forall>j r. diagnosticJobs s j = Some r \<longrightarrow> diag_ok r \<and> dej_jobId (dr_job r) = j)"

lemma poll_record_jobId [simp]: "dej_jobId (dr_job (poll_record now r)) = dej_jobId (dr_job r)"
  by (simp add: poll_record_def Let_def)

lemma retry_record_jobId [simp]: "dej_jobId (dr_job (retry_record now r)) = dej_jobId (dr_job r)"
  by (simp add: retry_record_def)

lemma jobs_ok_create: "jobs_ok s \<Longrightarrow> jobs_ok (snd (createDiagnosticExportMock p rand now s))"
proof -
  assume s: "jobs_ok s"
  have other: "diagnosticJobs (snd (createDiagnosticExportMock p rand now s)) j = diagnosticJobs s j"
    if "j \<noteq> ''diag-'' @ rand" for j
    using that by (simp add: createDiagnosticExportMock_def Let_def)
  have new: "dej_jobId (dr_job r) = ''diag-'' @ rand"
    if "diagnosticJobs (snd (createDiagnosticExportMock p rand now s)) (''diag-'' @ rand) = Some r" for r
    using that by (auto simp: createDiagnosticExportMock_def Let_def)
  show ?thesis
    unfolding jobs_ok_def
  proof (intro allI impI)
    fix j r
    assume r: "diagnosticJobs (snd (createDiagnosticExportMock p rand now s)) j = Some r"
    show "diag_ok r \<and> dej_jobId (dr_job r) = j"
    proof (cases "j = ''diag-'' @ rand")
      case True
      from r [unfolded True] show ?thesis using new diag_ok_created True by blast
    next
      case False
      with r s show ?thesis by (simp add: other jobs_ok_def)
    qed
  qed
qed

lemma jobs_ok_upd:
  assumes "jobs_ok s" "diagnosticJobs s j = Some r" "diag_ok r'" "dej_jobId (dr_job r') = dej_jobId (dr_job r)"
  shows "jobs_ok (s\<lparr>diagnosticJobs := (diagnosticJobs s)(j \<mapsto> r')\<rparr>)"
  using assms unfolding jobs_ok_def by simp

lemma jobs_ok_get: "jobs_ok s \<Longrightarrow> jobs_ok (snd (getDiagnosticExportMock j now s))"
proof (cases "diagnosticJobs s j")
  case (Some r)
  assume s: "jobs_ok s"
  with Some have "diag_ok r" by (auto simp: jobs_ok_def)
  with s Some show ?thesis
    by (simp add: getDiagnosticExportMock_def Let_def jobs_ok_upd diag_ok_poll)
qed (simp add: getDiagnosticExportMock_def)

lemma jobs_ok_retry: "jobs_ok s \<Longrightarrow> jobs_ok (snd (retryDiagnosticExportMock j now s))"
  by (cases "diagnosticJobs s j")
    (simp_all add: retryDiagnosticExportMock_def Let_def jobs_ok_upd diag_ok_retry)

lemma jobs_ok_init: "jobs_ok mock_init"
  by (simp add: jobs_ok_def mock_init_def)

text \<open>Polling one job through the state, once per time stamp.\<close>

definition poll_times :: "string \<Rightarrow> string list \<Rightarrow> MockState \<Rightarrow> MockState" where
  "poll_times j nows s = foldl (\<lambda>s now. snd (getDiagnosticExportMock j now s)) s nows"

lemma get_record:
  "diagnosticJobs s j = Some r \<Longrightarrow>
     diagnosticJobs (snd (getDiagnosticExportMock j now s)) j = Some (poll_step now r)"
  by (simp add: getDiagnosticExportMock_def poll_step_def Let_def)

lemma poll_times_record:
  "diagnosticJobs s j = Some r \<Longrightarrow> diagnosticJobs (poll_times j nows s) j = Some (exports.polls nows r)"
proof (induction nows arbitrary: s r)
  case (Cons now nows)
  from get_record [OF Cons.prems] have "diagnosticJobs (snd (getDiagnosticExportMock j now s)) j = Some (poll_step now r)" .
  from Cons.IH [OF this] show ?case by (simp add: poll_times_def)
qed (simp add: poll_times_def)

end
