(* ===== verification/MockTunnel.thy ===== *)
theory MockTunnel
  imports MockState
begin

text \<open>
  Tunnel and node configuration of the mock gateway, the GB/T 28181 and link state built from them,
  and the export and import of the whole configuration (\<open>mockGateway.ts\<close>, lines 47 to 51, 866 to
  1018, 1139 to 1292 and 1322 to 1378).

  An \<open>await\<close> inside an operation lets other operations run: \<open>exportConfigJsonMock\<close> reads the node
  configuration in a later state than the rest, and \<open>importConfigJsonMock\<close> saves the node
  configuration in a later state than it stores the rest. Both are given with the two states apart.
\<close>

subsection \<open>Tunnel configuration\<close>

definition capabilityDescriptionsFromCapability :: "TunnelConfigCapability \<Rightarrow> string list" where
  "capabilityDescriptionsFromCapability capability =
     (let supported = map tcci_description (filter tcci_supported (buildTunnelCapabilityItems capability))
      in if length supported > 0 then supported else [(uni ''~5F53~524D~7F51~7EDC~6A21~5F0F~4E0B~6682~65E0~53EF~7528~6269~5C55~80FD~529B'')])"

text \<open>\<open>{ ...state, local_device_id, peer_device_id }\<close>.\<close>

definition with_device_ids :: "TunnelConfigState \<Rightarrow> string \<Rightarrow> string \<Rightarrow> TunnelConfigPayload" where
  "with_device_ids t localId peerId =
     \<lparr>tc_channel_protocol = ts_channel_protocol t, tc_connection_initiator = ts_connection_initiator t,
      tc_mapping_relay_mode = ts_mapping_relay_mode t, tc_local_device_id = localId,
      tc_peer_device_id = peerId, tc_heartbeat_interval_sec = ts_heartbeat_interval_sec t,
      tc_register_retry_count = ts_register_retry_count t,
      tc_register_retry_interval_sec = ts_register_retry_interval_sec t,
      tc_registration_status = ts_registration_status t,
      tc_last_register_time = ts_last_register_time t,
      tc_last_heartbeat_time = ts_last_heartbeat_time t, tc_heartbeat_status = ts_heartbeat_status t,
      tc_last_failure_reason = ts_last_failure_reason t, tc_next_retry_time = ts_next_retry_time t,
      tc_consecutive_heartbeat_timeout = ts_consecutive_heartbeat_timeout t,
      tc_supported_capabilities = ts_supported_capabilities t,
      tc_request_channel = ts_request_channel t, tc_response_channel = ts_response_channel t,
      tc_network_mode = ts_network_mode t, tc_capability = ts_capability t,
      tc_capability_items = ts_capability_items t,
      tc_register_auth_enabled = ts_register_auth_enabled t,
      tc_register_auth_username = ts_register_auth_username t,
      tc_register_auth_password = ts_register_auth_password t,
      tc_register_auth_password_configured = ts_register_auth_password_configured t,
      tc_register_auth_realm = ts_register_auth_realm t,
      tc_register_auth_algorithm = ts_register_auth_algorithm t,
      tc_catalog_subscribe_expires_sec = ts_catalog_subscribe_expires_sec t\<rparr>"

definition primary_peer_id :: "MockState \<Rightarrow> string" where
  "primary_peer_id s = (case peerNodeState s of [] \<Rightarrow> '''' | p # _ \<Rightarrow> pn_peer_node_id p)"

definition fetchTunnelConfigMock :: "MockState \<Rightarrow> TunnelConfigPayload" where
  "fetchTunnelConfigMock s = with_device_ids (tunnelConfigState s) (ln_node_id (localNodeState s)) (primary_peer_id s)"

definition saved_tunnel_config :: "TunnelConfigUpdatePayload \<Rightarrow> TunnelConfigState \<Rightarrow> TunnelConfigState" where
  "saved_tunnel_config payload st =
     (let capability = deriveTunnelCapability (tcu_network_mode payload)
      in \<lparr>ts_channel_protocol = tcu_channel_protocol payload,
          ts_connection_initiator = tcu_connection_initiator payload,
          ts_mapping_relay_mode = Some (nullish (nullish_opt (tcu_mapping_relay_mode payload) (ts_mapping_relay_mode st)) Relay_AUTO),
          ts_local_device_id = None, ts_peer_device_id = None,
          ts_heartbeat_interval_sec = tcu_heartbeat_interval_sec payload,
          ts_register_retry_count = tcu_register_retry_count payload,
          ts_register_retry_interval_sec = tcu_register_retry_interval_sec payload,
          ts_registration_status = ts_registration_status st,
          ts_last_register_time = ts_last_register_time st,
          ts_last_heartbeat_time = ts_last_heartbeat_time st,
          ts_heartbeat_status = ts_heartbeat_status st,
          ts_last_failure_reason = ts_last_failure_reason st,
          ts_next_retry_time = ts_next_retry_time st,
          ts_consecutive_heartbeat_timeout = ts_consecutive_heartbeat_timeout st,
          ts_supported_capabilities = capabilityDescriptionsFromCapability capability,
          ts_request_channel = ''SIP'', ts_response_channel = ''RTP'',
          ts_network_mode = tcu_network_mode payload,
          ts_capability = capability, ts_capability_items = buildTunnelCapabilityItems capability,
          ts_register_auth_enabled = Some (nullish (nullish_opt (tcu_register_auth_enabled payload) (ts_register_auth_enabled st)) False),
          ts_register_auth_username = Some (nullish (nullish_opt (tcu_register_auth_username payload) (ts_register_auth_username st)) ''''),
          ts_register_auth_password = Some (nullish (tcu_register_auth_password payload) ''''),
          ts_register_auth_password_configured = Some
            (if trim (nullish (tcu_register_auth_password payload) '''') \<noteq> '''' then True
             else nullish (nullish_opt (tcu_register_auth_password_configured payload) (ts_register_auth_password_configured st)) False),
          ts_register_auth_realm = Some (nullish (nullish_opt (tcu_register_auth_realm payload) (ts_register_auth_realm st)) ''''),
          ts_register_auth_algorithm = Some (nullish (nullish_opt (tcu_register_auth_algorithm payload) (ts_register_auth_algorithm st)) ''MD5''),
          ts_catalog_subscribe_expires_sec =
            Some (nullish (nullish_opt (tcu_catalog_subscribe_expires_sec payload) (ts_catalog_subscribe_expires_sec st)) 3600)\<rparr>)"

definition saveTunnelConfigMock ::
  "TunnelConfigUpdatePayload \<Rightarrow> MockState \<Rightarrow> TunnelConfigPayload \<times> MockState" where
  "saveTunnelConfigMock payload s =
     (let s' = s\<lparr>tunnelConfigState := saved_tunnel_config payload (tunnelConfigState s)\<rparr>
      in (with_device_ids (tunnelConfigState s') (ln_node_id (localNodeState s')) (primary_peer_id s'), s'))"

subsection \<open>Session state\<close>

definition fetchGB28181StateMock :: "MockState \<Rightarrow> GB28181StatePayload" where
  "fetchGB28181StateMock s =
     (let cfg = fetchTunnelConfigMock s in
     \<lparr>gsp_session = \<lparr>tsrs_registration_status = ''registered'', tsrs_heartbeat_status = ''healthy'',
                   tsrs_phase = Some ''heartbeat_healthy'',
                   tsrs_phase_updated_at = Some ''2026-03-14T10:00:30Z'',
                   tsrs_last_register_time = ''2026-03-14T10:00:00Z'',
                   tsrs_last_heartbeat_time = ''2026-03-14T10:00:30Z'', tsrs_last_failure_reason = '''',
                   tsrs_next_retry_time = '''', tsrs_consecutive_heartbeat_timeout = 0\<rparr>,
      gsp_config = cfg,
      gsp_gb28181 = Some \<lparr>grs_peers = [\<lparr>gps_device_id = ''34020000002000000002'', gps_node_type = Some ''SERVER'',
                               gps_remote_addr = ''10.20.0.20:5060'',
                               gps_callback_addr = ''10.20.0.20:5060'', gps_transport = ''TCP'',
                               gps_last_register_at = Some ''2026-03-14T10:00:00Z'',
                               gps_register_expires_at = Some ''2026-03-14T11:00:00Z'',
                               gps_last_keepalive_at = Some ''2026-03-14T10:00:30Z'',
                               gps_subscribed_at = Some ''2026-03-14T10:00:01Z'',
                               gps_subscription_expires_at = Some ''2026-03-14T11:00:01Z'',
                               gps_last_catalog_notify_at = Some ''2026-03-14T10:00:03Z'',
                               gps_auth_required = True, gps_last_error = Some ''''\<rparr>],
                   grs_pending_sessions = [\<lparr>gpd_call_id = ''call-1001'',
                                          gpd_device_id = ''34020000001320000002'',
                                          gpd_mapping_id = ''catalog.34020000001320000002'',
                                          gpd_response_mode = ''RTP'',
                                          gpd_stage = Some ''response_start_ok'',
                                          gpd_last_stage_at = Some ''2026-03-14T10:01:03Z'',
                                          gpd_last_error = None,
                                          gpd_started_at = Some ''2026-03-14T10:01:00Z''\<rparr>],
                   grs_inbound_sessions = [\<lparr>gis_call_id = ''call-1000'',
                                          gis_device_id = ''34020000001320000001'',
                                          gis_mapping_id = ''catalog.34020000001320000001'',
                                          gis_callback_addr = ''10.20.0.10:5060'', gis_transport = ''TCP'',
                                          gis_remote_rtp_ip = ''10.20.0.10'', gis_remote_rtp_port = 30000,
                                          gis_stage = Some ''rtp_body_sent'',
                                          gis_last_stage_at = Some ''2026-03-14T10:01:00Z'',
                                          gis_last_error = None,
                                          gis_started_at = Some ''2026-03-14T10:00:55Z'',
                                          gis_last_invoke_at = Some ''2026-03-14T10:00:58Z''\<rparr>],
                   grs_catalog = \<lparr>gcs_resource_total = 3, gcs_exposed_total = 2\<rparr>,
                   grs_updated_at = ''2026-03-14T10:01:05Z''\<rparr>\<rparr>)"

definition fetchLinkMonitorMock :: "string \<Rightarrow> MockState \<Rightarrow> LinkMonitorPayload" where
  "fetchLinkMonitorMock now s =
     (let state = fetchGB28181StateMock s in
      \<lparr>lmp_session = gsp_session state, lmp_config = gsp_config state, lmp_gb28181 = gsp_gb28181 state,
       lmp_mapping_summary = None, lmp_live_status = ''ok'', lmp_ready_status = ''ready'',
       lmp_readiness_reasons = Some [], lmp_updated_at = now\<rparr>)"

fun catalog_action_text :: "CatalogAction \<Rightarrow> string" where
  "catalog_action_text Catalog_pull_remote = ''pull_remote''"
| "catalog_action_text Catalog_push_local = ''push_local''"
| "catalog_action_text Catalog_refresh_all = ''refresh_all''"

definition triggerTunnelCatalogActionMock :: "TunnelCatalogActionPayload \<Rightarrow> TunnelCatalogActionResponse" where
  "triggerTunnelCatalogActionMock payload =
     \<lparr>tcar_action = catalog_action_text (tcap_action payload),
      tcar_subscribe_triggered = Some (if tcap_action payload = Catalog_push_local then 0 else 1),
      tcar_notify_triggered = Some (if tcap_action payload = Catalog_pull_remote then 0 else 1),
      tcar_gb28181 = None\<rparr>"

subsection \<open>Node configuration\<close>

definition fetchNodeConfigMock :: "MockState \<Rightarrow> NodeConfigPayload" where
  "fetchNodeConfigMock s =
     \<lparr>ncp_local_node =
        \<lparr>nce_node_ip = ln_sip_listen_ip (localNodeState s), nce_signaling_port = ln_sip_listen_port (localNodeState s),
         nce_device_id = ln_node_id (localNodeState s), nce_node_type = Some ''SERVER'',
         nce_rtp_port_start = Some (ln_rtp_port_start (localNodeState s)),
         nce_rtp_port_end = Some (ln_rtp_port_end (localNodeState s)),
         nce_mapping_port_start = Some (ln_mapping_port_start (localNodeState s)),
         nce_mapping_port_end = Some (ln_mapping_port_end (localNodeState s))\<rparr>,
      ncp_peer_node =
        (case peerNodeState s of
           p # _ \<Rightarrow> \<lparr>nce_node_ip = pn_peer_signaling_ip p, nce_signaling_port = pn_peer_signaling_port p,
                     nce_device_id = pn_peer_node_id p, nce_node_type = Some ''SERVER'',
                     nce_rtp_port_start = None, nce_rtp_port_end = None,
                     nce_mapping_port_start = None, nce_mapping_port_end = None\<rparr>
         | [] \<Rightarrow> \<lparr>nce_node_ip = '''', nce_signaling_port = 5060, nce_device_id = '''', nce_node_type = Some ''SERVER'',
                 nce_rtp_port_start = None, nce_rtp_port_end = None,
                 nce_mapping_port_start = None, nce_mapping_port_end = None\<rparr>)\<rparr>"

record SaveNodeConfigResult =
  sncr_config :: NodeConfigPayload
  sncr_tunnel_restarted :: bool

definition saved_local_node :: "NodeConfigEndpoint \<Rightarrow> LocalNodeConfig \<Rightarrow> LocalNodeConfig" where
  "saved_local_node e l =
     l\<lparr>ln_node_id := nce_device_id e, ln_node_name := nce_device_id e,
       ln_sip_listen_ip := nce_node_ip e, ln_rtp_listen_ip := nce_node_ip e,
       ln_sip_listen_port := nce_signaling_port e,
       ln_rtp_port_start := nullish (nce_rtp_port_start e) (ln_rtp_port_start l),
       ln_rtp_port_end := nullish (nce_rtp_port_end e) (ln_rtp_port_end l),
       ln_mapping_port_start := nullish (nce_mapping_port_start e) (ln_mapping_port_start l),
       ln_mapping_port_end := nullish (nce_mapping_port_end e) (ln_mapping_port_end l)\<rparr>"

definition next_peer :: "NodeConfigEndpoint \<Rightarrow> LocalNodeConfig \<Rightarrow> PeerNodeConfig" where
  "next_peer e l =
     \<lparr>pn_peer_node_id = nce_device_id e, pn_peer_name = nce_device_id e,
      pn_peer_signaling_ip = nce_node_ip e, pn_peer_signaling_port = nce_signaling_port e,
      pn_peer_media_ip = nce_node_ip e, pn_peer_media_port_start = ln_rtp_port_start l,
      pn_peer_media_port_end = ln_rtp_port_end l, pn_supported_network_mode = ln_network_mode l,
      pn_enabled = True\<rparr>"

definition saveNodeConfigMock :: "NodeConfigPayload \<Rightarrow> MockState \<Rightarrow> SaveNodeConfigResult \<times> MockState" where
  "saveNodeConfigMock payload s =
     (let l = saved_local_node (ncp_local_node payload) (localNodeState s);
          nextPeer = next_peer (ncp_peer_node payload) l;
          peers = (case findIndex (\<lambda>item. pn_peer_node_id item = pn_peer_node_id nextPeer) (peerNodeState s) of
              Some idx \<Rightarrow> (peerNodeState s)[idx := nextPeer]
            | None \<Rightarrow> nextPeer # peerNodeState s)
      in (\<lparr>sncr_config = payload, sncr_tunnel_restarted = True\<rparr>,
          s\<lparr>localNodeState := l, peerNodeState := peers\<rparr>))"

definition fetchNodeDetailMock :: "MockState \<Rightarrow> NodeDetailPayload" where
  "fetchNodeDetailMock s =
     \<lparr>ndp_local_node = localNodeState s, ndp_current_network_mode = ln_network_mode (localNodeState s),
      ndp_current_capability = \<lparr>cap_supports_large_request_body = False,
                              cap_supports_large_response_body = True,
                              cap_supports_streaming_response = False,
                              cap_supports_bidirectional_http_tunnel = False,
                              cap_supports_transparent_proxy = False\<rparr>,
      ndp_compatibility_status = \<lparr>nccr_level = Level_info,
                                nccr_message = (uni ''~672C~7AEF~914D~7F6E~4E0E~5F53~524D~7F51~7EDC~6A21~5F0F~517C~5BB9''),
                                nccr_suggestion = (uni ''~7EE7~7EED~4FDD~6301~5E76~5B9A~671F~590D~6838~3002''),
                                nccr_action_hint = (uni ''~53D8~66F4~524D~5148~786E~8BA4 peer ~517C~5BB9~6027~3002'')\<rparr>\<rparr>"

definition updateLocalNodeMock :: "LocalNodeConfig \<Rightarrow> MockState \<Rightarrow> LocalNodeConfig \<times> MockState" where
  "updateLocalNodeMock payload s = (payload, s\<lparr>localNodeState := payload\<rparr>)"

definition fetchNodeNetworkStatusMock :: "MockState \<Rightarrow> NodeNetworkStatusPayload" where
  "fetchNodeNetworkStatusMock s =
     \<lparr>nns_network_mode = ln_network_mode (localNodeState s),
      nns_capability = \<lparr>cap_supports_large_request_body = False, cap_supports_large_response_body = True,
                      cap_supports_streaming_response = False,
                      cap_supports_bidirectional_http_tunnel = False,
                      cap_supports_transparent_proxy = False\<rparr>,
      nns_current_network_mode = ln_network_mode (localNodeState s),
      nns_current_capability = \<lparr>cap_supports_large_request_body = False,
                              cap_supports_large_response_body = True,
                              cap_supports_streaming_response = False,
                              cap_supports_bidirectional_http_tunnel = False,
                              cap_supports_transparent_proxy = False\<rparr>,
      nns_compatibility_status = \<lparr>nccr_level = Level_info,
                                nccr_message = (uni ''~8282~70B9~914D~7F6E~4E0E network_mode ~517C~5BB9~3002''),
                                nccr_suggestion = (uni ''~65E0~9700~5904~7406~3002''),
                                nccr_action_hint = (uni ''~4FDD~6301~5F53~524D~914D~7F6E~5E76~7EB3~5165~5DE1~68C0~3002'')\<rparr>,
      nns_capability_summary = \<lparr>cs_supported = [''small_request'', ''large_response''],
                              cs_unsupported = [''large_request'', ''streaming_response'', ''bidirectional_http_tunnel'', ''transparent_proxy''],
                              cs_items = [\<lparr>ci_key = ''small_request'',
                                         ci_label = (uni ''~5C0F~8BF7~6C42~4F53''), ci_supported = True,
                                         ci_note = (uni ''~652F~6301'')\<rparr>,
                                        \<lparr>ci_key = ''large_response'',
                                         ci_label = (uni ''~5927~54CD~5E94~4F53''), ci_supported = True,
                                         ci_note = (uni ''~652F~6301'')\<rparr>,
                                        \<lparr>ci_key = ''large_request'',
                                         ci_label = (uni ''~5927~8BF7~6C42~4F53''), ci_supported = False,
                                         ci_note = (uni ''~4E0D~652F~6301'')\<rparr>]\<rparr>,
      nns_bound_peer = None, nns_peer_binding_error = None\<rparr>"

subsection \<open>Export and import\<close>

text \<open>
  The export: \<open>s\<close> is the state when the network and tunnel configuration are copied, \<open>s'\<close> the one
  after the inner wait, when the node configuration is read; \<open>now\<close> and \<open>now'\<close> are the two times read.
\<close>

definition exportConfigJsonMock :: "string \<Rightarrow> string \<Rightarrow> MockState \<Rightarrow> MockState \<Rightarrow> ConfigTransferPayload" where
  "exportConfigJsonMock now now' s s' =
     \<lparr>ctp_version = ''mock-'' @ slice 0 10 now, ctp_exported_at = now',
      ctp_network_config = \<lparr>unc_sip = nc_sip (networkConfigState s), unc_rtp = nc_rtp (networkConfigState s)\<rparr>,
      ctp_tunnel_config = tunnelConfigState s,
      ctp_node_config = fetchNodeConfigMock s'\<rparr>"

text \<open>The import up to its inner wait, and the whole import when nothing runs in between.\<close>

definition import_apply :: "ConfigTransferPayload \<Rightarrow> MockState \<Rightarrow> MockState" where
  "import_apply payload s =
     s\<lparr>networkConfigState := (networkConfigState s)\<lparr>nc_sip := unc_sip (ctp_network_config payload),
                                nc_rtp := unc_rtp (ctp_network_config payload)\<rparr>,
       tunnelConfigState := ctp_tunnel_config payload\<rparr>"

definition importConfigJsonMock ::
  "ConfigTransferPayload \<Rightarrow> MockState \<Rightarrow> ConfigTransferImportResult \<times> MockState" where
  "importConfigJsonMock payload s =
     (let s' = snd (saveNodeConfigMock (ctp_node_config payload) (import_apply payload s))
      in (\<lparr>ctir_imported = True, ctir_tunnel_restarted = True, ctir_version = ctp_version payload,
           ctir_message = (uni ''~914D~7F6E~5BFC~5165~6210~529F~FF0C~5DF2~5E94~7528~7F51~7EDC/~96A7~9053/~8282~70B9~914D~7F6E~3002'')\<rparr>, s'))"

definition downloadConfigTemplateMock :: "string \<Rightarrow> ConfigTransferPayload" where
  "downloadConfigTemplateMock now =
     \<lparr>ctp_version = ''template-v1'', ctp_exported_at = now,
      ctp_network_config = \<lparr>unc_sip = \<lparr>sn_listenIp = ''0.0.0.0'', sn_listenPort = 5060, sn_protocol = UDP,
                                   sn_advertisedAddress = '''', sn_domain = ''example.local'',
                                   sn_tcpKeepaliveEnabled = True, sn_tcpKeepaliveIntervalMs = 30000,
                                   sn_tcpReadBufferBytes = 1048576, sn_tcpWriteBufferBytes = 1048576,
                                   sn_maxConnections = 2000\<rparr>,
                          unc_rtp = \<lparr>rn_listenIp = ''0.0.0.0'', rn_portRangeStart = 20000,
                                   rn_portRangeEnd = 20999, rn_protocol = UDP, rn_advertisedAddress = '''',
                                   rn_maxConcurrentTransfers = 512\<rparr>\<rparr>,
      ctp_tunnel_config = \<lparr>ts_channel_protocol = ''GB/T 28181'', ts_connection_initiator = Initiator_LOCAL,
                         ts_mapping_relay_mode = None, ts_local_device_id = Some ''gateway-a-template'',
                         ts_peer_device_id = Some ''gateway-b-template'', ts_heartbeat_interval_sec = 60,
                         ts_register_retry_count = 3, ts_register_retry_interval_sec = 10,
                         ts_registration_status = ''unregistered'', ts_last_register_time = '''',
                         ts_last_heartbeat_time = '''', ts_heartbeat_status = ''unknown'',
                         ts_last_failure_reason = '''', ts_next_retry_time = '''',
                         ts_consecutive_heartbeat_timeout = 0,
                         ts_supported_capabilities = [(uni ''~652F~6301~5C0F~8BF7~6C42~4F53~FF08~5178~578B SIP JSON ~8D1F~8F7D~FF09''), (uni ''~652F~6301~5927~54CD~5E94~4F53~56DE~4F20''), (uni ''~652F~6301~6D41~5F0F~54CD~5E94'')],
                         ts_request_channel = ''SIP'', ts_response_channel = ''RTP'',
                         ts_network_mode = ''SENDER_SIP__RECEIVER_RTP'',
                         ts_capability = deriveTunnelCapability ''SENDER_SIP__RECEIVER_RTP'',
                         ts_capability_items = buildTunnelCapabilityItems (deriveTunnelCapability ''SENDER_SIP__RECEIVER_RTP''),
                         ts_register_auth_enabled = None, ts_register_auth_username = None,
                         ts_register_auth_password = None, ts_register_auth_password_configured = None,
                         ts_register_auth_realm = None, ts_register_auth_algorithm = None,
                         ts_catalog_subscribe_expires_sec = None\<rparr>,
      ctp_node_config = \<lparr>ncp_local_node = \<lparr>nce_node_ip = ''10.10.10.8'', nce_signaling_port = 5060,
                                       nce_device_id = ''34020000002000000001'',
                                       nce_node_type = Some ''SERVER'', nce_rtp_port_start = Some 20000,
                                       nce_rtp_port_end = Some 20999, nce_mapping_port_start = None,
                                       nce_mapping_port_end = None\<rparr>,
                       ncp_peer_node = \<lparr>nce_node_ip = ''10.20.0.20'', nce_signaling_port = 5060,
                                      nce_device_id = ''34020000002000000002'',
                                      nce_node_type = Some ''SERVER'', nce_rtp_port_start = None,
                                      nce_rtp_port_end = None, nce_mapping_port_start = None,
                                      nce_mapping_port_end = None\<rparr>\<rparr>\<rparr>"

declare fetchTunnelConfigMock_def [mock_defs] saveTunnelConfigMock_def [mock_defs]
  fetchGB28181StateMock_def [mock_defs] fetchLinkMonitorMock_def [mock_defs] fetchNodeConfigMock_def [mock_defs]
  saveNodeConfigMock_def [mock_defs] updateLocalNodeMock_def [mock_defs] import_apply_def [mock_defs]
  importConfigJsonMock_def [mock_defs] exportConfigJsonMock_def [mock_defs]

subsection \<open>Capabilities agree with the network mode\<close>

definition tunnel_ok :: "TunnelConfigState \<Rightarrow> bool" where
  "tunnel_ok t \<longleftrightarrow> ts_capability t = deriveTunnelCapability (ts_network_mode t) \<and>
     ts_capability_items t = buildTunnelCapabilityItems (ts_capability t)"

lemma tunnel_ok_saved: "tunnel_ok (saved_tunnel_config p st)"
  by (simp add: tunnel_ok_def saved_tunnel_config_def Let_def)

lemma tunnel_ok_init: "tunnel_ok (tunnelConfigState mock_init)"
  by (simp add: tunnel_ok_def mock_init_def tunnelConfigState_init_def)

lemma supported_items_empty_iff:
  "filter tcci_supported (buildTunnelCapabilityItems (deriveTunnelCapability m)) = [] \<longleftrightarrow>
     m \<notin> set (map nmp_value NETWORK_MODE_PROFILES)"
  unfolding profile_values by (simp add: buildTunnelCapabilityItems_def deriveTunnelCapability_def)

lemma capabilityDescriptions_nonempty: "capabilityDescriptionsFromCapability c \<noteq> []"
  by (simp add: capabilityDescriptionsFromCapability_def Let_def)

lemma capabilityDescriptions_known_mode:
  "m \<in> set (map nmp_value NETWORK_MODE_PROFILES) \<Longrightarrow>
     capabilityDescriptionsFromCapability (deriveTunnelCapability m) =
       map tcci_description (filter tcci_supported (buildTunnelCapabilityItems (deriveTunnelCapability m)))"
  using supported_items_empty_iff [of m]
  by (simp add: capabilityDescriptionsFromCapability_def del: filter_empty_conv)

subsection \<open>Saving the tunnel configuration\<close>

lemma nullish_nested [simp]:
  "nullish (nullish_opt a (Some (nullish (nullish_opt a b) d))) d = nullish (nullish_opt a b) d"
  by (cases a) simp_all

lemma fetch_after_saveTunnelConfig:
  "fetchTunnelConfigMock (snd (saveTunnelConfigMock p s)) = fst (saveTunnelConfigMock p s)"
  by (simp add: fetchTunnelConfigMock_def saveTunnelConfigMock_def Let_def)

lemma saved_tunnel_config_idem: "saved_tunnel_config p (saved_tunnel_config p st) = saved_tunnel_config p st"
  by (simp add: saved_tunnel_config_def Let_def)

lemma saveTunnelConfig_idem:
  "saveTunnelConfigMock p (snd (saveTunnelConfigMock p s)) = saveTunnelConfigMock p s"
  by (simp add: saveTunnelConfigMock_def saved_tunnel_config_idem Let_def primary_peer_id_def)

lemma password_configured_kept:
  "ts_register_auth_password_configured st = Some True \<Longrightarrow>
   tcu_register_auth_password_configured p \<noteq> Some False \<Longrightarrow>
     ts_register_auth_password_configured (saved_tunnel_config p st) = Some True"
  by (cases "tcu_register_auth_password_configured p") (auto simp: saved_tunnel_config_def Let_def)

lemma password_configured_iff:
  "tcu_register_auth_password_configured p = None \<Longrightarrow>
     ts_register_auth_password_configured (saved_tunnel_config p st) = Some True \<longleftrightarrow>
       trim (nullish (tcu_register_auth_password p) []) \<noteq> [] \<or>
       ts_register_auth_password_configured st = Some True"
  by (cases "ts_register_auth_password_configured st") (auto simp: saved_tunnel_config_def Let_def)

subsection \<open>Saving the node configuration\<close>

definition local_endpoint :: "LocalNodeConfig \<Rightarrow> NodeConfigEndpoint" where
  "local_endpoint l =
     \<lparr>nce_node_ip = ln_sip_listen_ip l, nce_signaling_port = ln_sip_listen_port l,
      nce_device_id = ln_node_id l, nce_node_type = Some ''SERVER'',
      nce_rtp_port_start = Some (ln_rtp_port_start l), nce_rtp_port_end = Some (ln_rtp_port_end l),
      nce_mapping_port_start = Some (ln_mapping_port_start l),
      nce_mapping_port_end = Some (ln_mapping_port_end l)\<rparr>"

definition peer_endpoint :: "string \<Rightarrow> int \<Rightarrow> string \<Rightarrow> NodeConfigEndpoint" where
  "peer_endpoint ip port device =
     \<lparr>nce_node_ip = ip, nce_signaling_port = port, nce_device_id = device, nce_node_type = Some ''SERVER'',
      nce_rtp_port_start = None, nce_rtp_port_end = None,
      nce_mapping_port_start = None, nce_mapping_port_end = None\<rparr>"

lemma fetchNodeConfig_local: "ncp_local_node (fetchNodeConfigMock s) = local_endpoint (localNodeState s)"
  by (simp add: fetchNodeConfigMock_def local_endpoint_def)

lemma fetchNodeConfig_peer:
  "ncp_peer_node (fetchNodeConfigMock s) =
     (case peerNodeState s of
        p # _ \<Rightarrow> peer_endpoint (pn_peer_signaling_ip p) (pn_peer_signaling_port p) (pn_peer_node_id p)
      | [] \<Rightarrow> peer_endpoint [] 5060 [])"
  by (simp add: fetchNodeConfigMock_def peer_endpoint_def split: list.split)

lemma saveNodeConfig_local:
  "localNodeState (snd (saveNodeConfigMock p s)) = saved_local_node (ncp_local_node p) (localNodeState s)"
  by (simp add: saveNodeConfigMock_def Let_def)

text \<open>A peer is primary when it is the first of the list; only that one is read back.\<close>

definition becomes_primary :: "string \<Rightarrow> MockState \<Rightarrow> bool" where
  "becomes_primary k s \<longleftrightarrow> k \<notin> pn_peer_node_id ` set (peerNodeState s) \<or> primary_peer_id s = k"

lemma findIndex_primary:
  "becomes_primary k s \<longleftrightarrow> findIndex (\<lambda>x. pn_peer_node_id x = k) (peerNodeState s) \<in> {None, Some 0}"
proof (cases "peerNodeState s")
  case Nil
  then show ?thesis by (simp add: becomes_primary_def)
next
  case (Cons p ps)
  then show ?thesis
    using findIndex_None_iff [of "\<lambda>x. pn_peer_node_id x = k" ps]
    by (cases "findIndex (\<lambda>x. pn_peer_node_id x = k) ps") (auto simp: becomes_primary_def primary_peer_id_def)
qed

lemma saveNodeConfig_peers_primary:
  assumes "becomes_primary (nce_device_id (ncp_peer_node p)) s"
  shows "\<exists>ps. peerNodeState (snd (saveNodeConfigMock p s)) =
    next_peer (ncp_peer_node p) (saved_local_node (ncp_local_node p) (localNodeState s)) # ps"
  using assms [unfolded findIndex_primary]
  by (cases "peerNodeState s") (auto simp: saveNodeConfigMock_def Let_def next_peer_def)

lemma saveNodeConfig_peers_other:
  assumes "\<not> becomes_primary (nce_device_id (ncp_peer_node p)) s"
  shows "\<exists>q qs ps. peerNodeState s = q # qs \<and> peerNodeState (snd (saveNodeConfigMock p s)) = q # ps \<and>
    pn_peer_node_id q \<noteq> nce_device_id (ncp_peer_node p)"
proof -
  obtain i where "findIndex (\<lambda>x. pn_peer_node_id x = nce_device_id (ncp_peer_node p)) (peerNodeState s) = Some (Suc i)"
    using assms [unfolded findIndex_primary] by (metis insertCI not0_implies_Suc option.exhaust)
  moreover from this obtain q qs where "peerNodeState s = q # qs"
    by (cases "peerNodeState s") auto
  ultimately show ?thesis
    by (auto simp: saveNodeConfigMock_def Let_def next_peer_def split: if_splits)
qed

lemma primary_after_saveNodeConfig:
  "primary_peer_id (snd (saveNodeConfigMock p s)) = nce_device_id (ncp_peer_node p) \<longleftrightarrow>
     becomes_primary (nce_device_id (ncp_peer_node p)) s"
proof (cases "becomes_primary (nce_device_id (ncp_peer_node p)) s")
  case True
  with saveNodeConfig_peers_primary show ?thesis by (fastforce simp: primary_peer_id_def next_peer_def)
next
  case False
  with saveNodeConfig_peers_other show ?thesis by (fastforce simp: primary_peer_id_def)
qed

lemma fetch_after_saveNodeConfig_peer:
  assumes "becomes_primary (nce_device_id (ncp_peer_node p)) s"
  shows "ncp_peer_node (fetchNodeConfigMock (snd (saveNodeConfigMock p s))) =
    peer_endpoint (nce_node_ip (ncp_peer_node p)) (nce_signaling_port (ncp_peer_node p))
      (nce_device_id (ncp_peer_node p))"
  using saveNodeConfig_peers_primary [OF assms] by (auto simp: fetchNodeConfig_peer next_peer_def)

lemma saved_local_node_endpoint: "local_endpoint (saved_local_node (local_endpoint l) l') = local_endpoint l"
  by (simp add: local_endpoint_def saved_local_node_def)

text \<open>The form of every configuration the operation returns: what can be read back unchanged.\<close>

definition readable_config :: "NodeConfigPayload \<Rightarrow> bool" where
  "readable_config p \<longleftrightarrow>
     (\<exists>l. ncp_local_node p = local_endpoint l) \<and> (\<exists>ip port device. ncp_peer_node p = peer_endpoint ip port device)"

lemma readable_fetchNodeConfig: "readable_config (fetchNodeConfigMock s)"
  unfolding readable_config_def fetchNodeConfig_local fetchNodeConfig_peer by (auto split: list.split)

lemma fetch_after_saveNodeConfig:
  assumes "readable_config p" "becomes_primary (nce_device_id (ncp_peer_node p)) s"
  shows "fetchNodeConfigMock (snd (saveNodeConfigMock p s)) = p"
proof (rule NodeConfigPayload.equality)
  obtain l where "ncp_local_node p = local_endpoint l" using assms(1) by (auto simp: readable_config_def)
  then show "ncp_local_node (fetchNodeConfigMock (snd (saveNodeConfigMock p s))) = ncp_local_node p"
    by (simp add: fetchNodeConfig_local saveNodeConfig_local saved_local_node_endpoint)
  show "ncp_peer_node (fetchNodeConfigMock (snd (saveNodeConfigMock p s))) = ncp_peer_node p"
    using assms(1) by (auto simp: fetch_after_saveNodeConfig_peer [OF assms(2)] readable_config_def peer_endpoint_def)
qed simp

lemma becomes_primary_own: "becomes_primary (nce_device_id (ncp_peer_node (fetchNodeConfigMock s))) s"
  by (auto simp: becomes_primary_def fetchNodeConfig_peer primary_peer_id_def peer_endpoint_def split: list.split)

subsection \<open>Import after export\<close>

lemma import_state:
  "tunnelConfigState (snd (importConfigJsonMock e t)) = ctp_tunnel_config e"
  "nc_sip (networkConfigState (snd (importConfigJsonMock e t))) = unc_sip (ctp_network_config e)"
  "nc_rtp (networkConfigState (snd (importConfigJsonMock e t))) = unc_rtp (ctp_network_config e)"
  "nc_portPool (networkConfigState (snd (importConfigJsonMock e t))) = nc_portPool (networkConfigState t)"
  by (simp_all add: importConfigJsonMock_def import_apply_def saveNodeConfigMock_def Let_def)

lemma import_node_config:
  assumes "readable_config (ctp_node_config e)" "becomes_primary (nce_device_id (ncp_peer_node (ctp_node_config e))) t"
  shows "fetchNodeConfigMock (snd (importConfigJsonMock e t)) = ctp_node_config e"
proof -
  have "becomes_primary (nce_device_id (ncp_peer_node (ctp_node_config e))) (import_apply e t)"
    using assms(2) by (simp add: becomes_primary_def primary_peer_id_def import_apply_def)
  from fetch_after_saveNodeConfig [OF assms(1) this] show ?thesis
    by (simp add: importConfigJsonMock_def Let_def)
qed

lemma export_after_import:
  assumes "e = exportConfigJsonMock now now' s s'"
    and "becomes_primary (nce_device_id (ncp_peer_node (ctp_node_config e))) t"
  shows "exportConfigJsonMock now now' (snd (importConfigJsonMock e t)) (snd (importConfigJsonMock e t)) = e"
  using assms import_node_config [of e t]
  by (simp add: exportConfigJsonMock_def import_state readable_fetchNodeConfig)

end
