(* ===== verification/MockGateway.thy ===== *)
theory MockGateway
  imports MockStores MockTasks MockFixtures MockNetwork MockGovernance DiagnosticsRuns MockTunnel
begin

text \<open>
  The mock gateway as a whole: one constructor per exported operation that changes the module's state
  (\<open>mockGateway.ts\<close>), the states such operations lead to, what stays true in all of them, and the lazy
  loading of the module (\<open>mockGatewayLoader.ts\<close>).

  JavaScript runs one operation at a time between two \<open>await\<close>s; every operation here waits before its
  first access and, \<open>importConfigJsonMock\<close> apart, has no \<open>await\<close> after it, so the interleavings of
  concurrent calls are the sequences of whole operations. The import contributes its two parts,
  \<open>Op_importConfig\<close> and \<open>Op_saveNodeConfig\<close>.
\<close>

subsection \<open>Operations\<close>

datatype MockOp =
    Op_createMapping TunnelMapping string
  | Op_updateMapping string TunnelMapping string
  | Op_deleteMapping string
  | Op_createLocalResource LocalResourceSavePayload string
  | Op_updateLocalResource string LocalResourceSavePayload string
  | Op_deleteLocalResource string
  | Op_createPeer PeerNodeConfig
  | Op_updatePeer string PeerUpdatePayload
  | Op_deletePeer string
  | Op_updateNetworkConfig UpdateNetworkConfigPayload
  | Op_rollbackConfig string
  | Op_createDiagnosticExport DiagnosticExportCreatePayload string string
  | Op_getDiagnosticExport string string
  | Op_retryDiagnosticExport string string
  | Op_saveTunnelConfig TunnelConfigUpdatePayload
  | Op_saveNodeConfig NodeConfigPayload
  | Op_updateLocalNode LocalNodeConfig
  | Op_importConfig ConfigTransferPayload

fun mock_apply :: "MockOp \<Rightarrow> MockState \<Rightarrow> MockState" where
  "mock_apply (Op_createMapping p now) s = snd (createMappingMock p now s)"
| "mock_apply (Op_updateMapping k p now) s = snd (updateMappingMock k p now s)"
| "mock_apply (Op_deleteMapping k) s = deleteMappingMock k s"
| "mock_apply (Op_createLocalResource p now) s = createLocalResourceMock p now s"
| "mock_apply (Op_updateLocalResource k p now) s = snd (updateLocalResourceMock k p now s)"
| "mock_apply (Op_deleteLocalResource k) s = deleteLocalResourceMock k s"
| "mock_apply (Op_createPeer p) s = snd (createPeerMock p s)"
| "mock_apply (Op_updatePeer k p) s = snd (updatePeerMock k p s)"
| "mock_apply (Op_deletePeer k) s = snd (deletePeerMock k s)"
| "mock_apply (Op_updateNetworkConfig p) s = snd (updateNetworkConfigMock p s)"
| "mock_apply (Op_rollbackConfig v) s = snd (rollbackConfigMock v s)"
| "mock_apply (Op_createDiagnosticExport p rand now) s = snd (createDiagnosticExportMock p rand now s)"
| "mock_apply (Op_getDiagnosticExport j now) s = snd (getDiagnosticExportMock j now s)"
| "mock_apply (Op_retryDiagnosticExport j now) s = snd (retryDiagnosticExportMock j now s)"
| "mock_apply (Op_saveTunnelConfig p) s = snd (saveTunnelConfigMock p s)"
| "mock_apply (Op_saveNodeConfig p) s = snd (saveNodeConfigMock p s)"
| "mock_apply (Op_updateLocalNode p) s = snd (updateLocalNodeMock p s)"
| "mock_apply (Op_importConfig e) s = import_apply e s"

text \<open>States reached from the initial one by operations that meet a condition where they run.\<close>

inductive reachable_by :: "(MockOp \<Rightarrow> MockState \<Rightarrow> bool) \<Rightarrow> MockState \<Rightarrow> bool" for G where
  init: "reachable_by G mock_init"
| step: "reachable_by G s \<Longrightarrow> G op s \<Longrightarrow> reachable_by G (mock_apply op s)"

abbreviation mock_reachable :: "MockState \<Rightarrow> bool" where
  "mock_reachable \<equiv> reachable_by (\<lambda>op s. True)"

lemma reachable_by_run:
  "(\<forall>i < length ops. G (ops ! i) (foldl (\<lambda>s op. mock_apply op s) mock_init (take i ops))) \<Longrightarrow>
     reachable_by G (foldl (\<lambda>s op. mock_apply op s) mock_init ops)"
proof (induction ops rule: rev_induct)
  case Nil
  show ?case by (simp add: reachable_by.init)
next
  case (snoc op ops)
  have "\<forall>i < length ops. G (ops ! i) (foldl (\<lambda>s op. mock_apply op s) mock_init (take i ops))"
  proof (intro allI impI)
    fix i
    assume "i < length ops"
    with snoc.prems [rule_format, of i] show "G (ops ! i) (foldl (\<lambda>s op. mock_apply op s) mock_init (take i ops))"
      by (simp add: nth_append)
  qed
  then have "reachable_by G (foldl (\<lambda>s op. mock_apply op s) mock_init ops)" by (rule snoc.IH)
  moreover have "G op (foldl (\<lambda>s op. mock_apply op s) mock_init ops)"
    using snoc.prems [rule_format, of "length ops"] by simp
  ultimately show ?case by (simp add: reachable_by.step)
qed

lemma reachable_poll_times: "mock_reachable s \<Longrightarrow> mock_reachable (poll_times j nows s)"
proof (induction nows arbitrary: s)
  case (Cons now nows)
  from reachable_by.step [OF Cons.prems TrueI, of "Op_getDiagnosticExport j now"] Cons.IH
  show ?case by (simp add: poll_times_def)
qed (simp add: poll_times_def)

subsection \<open>What an operation leaves alone\<close>

lemma mock_apply_mappings:
  "mappingState (mock_apply op s) = mappingState s \<or>
     (\<exists>p now. op = Op_createMapping p now) \<or> (\<exists>k p now. op = Op_updateMapping k p now) \<or>
     (\<exists>k. op = Op_deleteMapping k)"
  by (cases op) (simp_all add: mock_defs Let_def split: option.splits)

lemma mock_apply_resources:
  "localResourceState (mock_apply op s) = localResourceState s \<or>
     (\<exists>p now. op = Op_createLocalResource p now) \<or> (\<exists>k p now. op = Op_updateLocalResource k p now) \<or>
     (\<exists>k. op = Op_deleteLocalResource k)"
  by (cases op) (simp_all add: mock_defs Let_def split: option.splits)

lemma mock_apply_jobs:
  "diagnosticJobs (mock_apply op s) = diagnosticJobs s \<or>
     (\<exists>p r now. op = Op_createDiagnosticExport p r now) \<or> (\<exists>j now. op = Op_getDiagnosticExport j now) \<or>
     (\<exists>j now. op = Op_retryDiagnosticExport j now)"
  by (cases op) (simp_all add: mock_defs Let_def split: option.splits)

lemma mock_apply_snapshots:
  "snapshotState (mock_apply op s) = snapshotState s \<or> (\<exists>v. op = Op_rollbackConfig v)"
  by (cases op) (simp_all add: mock_defs Let_def split: option.splits)

lemma mock_apply_tunnel:
  "tunnelConfigState (mock_apply op s) = tunnelConfigState s \<or>
     (\<exists>p. op = Op_saveTunnelConfig p) \<or> (\<exists>e. op = Op_importConfig e)"
  by (cases op) (simp_all add: mock_defs Let_def split: option.splits)

lemma mock_apply_network:
  "networkConfigState (mock_apply op s) = networkConfigState s \<or>
     (\<exists>p. op = Op_updateNetworkConfig p) \<or> (\<exists>e. op = Op_importConfig e)"
  by (cases op) (simp_all add: mock_defs Let_def split: option.splits)

subsection \<open>Invariants\<close>

text \<open>An invariant of the module: true initially, kept by every operation that meets the condition.\<close>

locale mock_invariant =
  fixes inv :: "MockState \<Rightarrow> bool" and guard :: "MockOp \<Rightarrow> MockState \<Rightarrow> bool"
  assumes inv_init: "inv mock_init"
    and inv_step: "inv s \<Longrightarrow> guard op s \<Longrightarrow> inv (mock_apply op s)"
begin

lemma reachable_inv: "reachable_by guard s \<Longrightarrow> inv s"
  by (induction rule: reachable_by.induct) (auto intro: inv_init inv_step)

end

interpretation mapping_methods: mock_invariant mappings_ok "\<lambda>op s. True"
proof
  fix op s
  assume s: "mappings_ok s"
  consider "mappingState (mock_apply op s) = mappingState s" | (c) p now where "op = Op_createMapping p now"
    | (u) k p now where "op = Op_updateMapping k p now" | (d) k where "op = Op_deleteMapping k"
    using mock_apply_mappings by blast
  then show "mappings_ok (mock_apply op s)"
    by cases (use s in \<open>simp_all add: mappings_ok_create mappings_ok_update mappings_ok_delete\<close>,
      simp add: mappings_ok_def)
qed (rule mappings_ok_init)

interpretation export_jobs: mock_invariant jobs_ok "\<lambda>op s. True"
proof
  fix op s
  assume s: "jobs_ok s"
  consider "diagnosticJobs (mock_apply op s) = diagnosticJobs s"
    | (c) p r now where "op = Op_createDiagnosticExport p r now"
    | (g) j now where "op = Op_getDiagnosticExport j now" | (r) j now where "op = Op_retryDiagnosticExport j now"
    using mock_apply_jobs by blast
  then show "jobs_ok (mock_apply op s)"
    by cases (use s in \<open>simp_all add: jobs_ok_create jobs_ok_get jobs_ok_retry\<close>, simp add: jobs_ok_def)
qed (rule jobs_ok_init)

text \<open>The versions never change, and at most one snapshot is active.\<close>

definition snapshots_ok :: "MockState \<Rightarrow> bool" where
  "snapshots_ok s \<longleftrightarrow> map cgs_version (snapshotState s) = map cgs_version configSnapshotsSeed \<and>
     length (filter is_active (snapshotState s)) \<le> 1"

lemma seed_versions_distinct: "distinct (map cgs_version configSnapshotsSeed)"
  by (simp add: configSnapshotsSeed_def)

interpretation snapshots: mock_invariant snapshots_ok "\<lambda>op s. True"
proof
  show "snapshots_ok mock_init"
    by (simp add: snapshots_ok_def mock_init_def configSnapshotsSeed_def is_active_def)
next
  fix op s
  assume s: "snapshots_ok s"
  consider "snapshotState (mock_apply op s) = snapshotState s" | (r) v where "op = Op_rollbackConfig v"
    using mock_apply_snapshots by blast
  then show "snapshots_ok (mock_apply op s)"
  proof cases
    case (r v)
    have "map cgs_version (filter is_active (snapshotState (snd (rollbackConfigMock v s)))) =
        (if v \<in> set (map cgs_version configSnapshotsSeed) then [v] else [])"
      using s filter_eq_distinct [OF seed_versions_distinct, of v]
      by (simp add: rollback_active snapshots_ok_def)
    then have "length (filter is_active (snapshotState (snd (rollbackConfigMock v s)))) \<le> 1"
      by (metis One_nat_def le_numeral_extra(4) length_Cons length_map list.size(3) zero_le_one)
    with s r show ?thesis by (simp add: snapshots_ok_def rollback_versions)
  qed (use s in \<open>simp add: snapshots_ok_def\<close>)
qed

text \<open>Resource codes stay distinct as long as no update renames a resource.\<close>

definition resource_codes :: "MockState \<Rightarrow> string list" where
  "resource_codes s = map lrsp_resource_code (localResourceState s)"

fun keeps_code :: "MockOp \<Rightarrow> MockState \<Rightarrow> bool" where
  "keeps_code (Op_updateLocalResource k p now) s \<longleftrightarrow> lrsp_resource_code p = k"
| "keeps_code op s \<longleftrightarrow> True"

interpretation resource_keys: mock_invariant "\<lambda>s. distinct (resource_codes s)" keeps_code
proof
  show "distinct (resource_codes mock_init)" by (simp add: resource_codes_def init_defs)
next
  fix op s
  assume s: "distinct (resource_codes s)" and g: "keeps_code op s"
  have keys: "resources.keys s = resource_codes s" for s
    by (simp add: resources.keys_def resource_codes_def)
  consider "localResourceState (mock_apply op s) = localResourceState s"
    | (c) p now where "op = Op_createLocalResource p now"
    | (u) k p now where "op = Op_updateLocalResource k p now" | (d) k where "op = Op_deleteLocalResource k"
    using mock_apply_resources by blast
  then show "distinct (resource_codes (mock_apply op s))"
  proof cases
    case (c p now)
    then show ?thesis using resources.distinct_create [of s p now] s by (simp add: keys)
  next
    case (u k p now)
    then show ?thesis using resources.distinct_update [of p now k s] s g by (simp add: keys)
  next
    case (d k)
    then show ?thesis using resources.distinct_delete [of s k] s by (simp add: keys)
  qed (use s in \<open>simp add: resource_codes_def\<close>)
qed

text \<open>Capabilities agree with the mode, as long as every imported configuration does.\<close>

fun imports_agree :: "MockOp \<Rightarrow> MockState \<Rightarrow> bool" where
  "imports_agree (Op_importConfig e) s \<longleftrightarrow> tunnel_ok (ctp_tunnel_config e)"
| "imports_agree op s \<longleftrightarrow> True"

interpretation tunnel_capabilities: mock_invariant "\<lambda>s. tunnel_ok (tunnelConfigState s)" imports_agree
proof
  fix op s
  assume s: "tunnel_ok (tunnelConfigState s)" and g: "imports_agree op s"
  consider "tunnelConfigState (mock_apply op s) = tunnelConfigState s"
    | (sv) p where "op = Op_saveTunnelConfig p" | (im) e where "op = Op_importConfig e"
    using mock_apply_tunnel by blast
  then show "tunnel_ok (tunnelConfigState (mock_apply op s))"
    by cases (use s g in \<open>simp_all add: saveTunnelConfigMock_def tunnel_ok_saved import_apply_def Let_def\<close>)
qed (rule tunnel_ok_init)

text \<open>
  The port pool agrees with the port range, as long as no update asks for a negative concurrency and
  no import changes the range.
\<close>

fun keeps_pool :: "MockOp \<Rightarrow> MockState \<Rightarrow> bool" where
  "keeps_pool (Op_updateNetworkConfig p) s \<longleftrightarrow> 0 \<le> rn_maxConcurrentTransfers (unc_rtp p)"
| "keeps_pool (Op_importConfig e) s \<longleftrightarrow>
     port_span (unc_rtp (ctp_network_config e)) = port_span (nc_rtp (networkConfigState s))"
| "keeps_pool op s \<longleftrightarrow> True"

interpretation port_pool: mock_invariant "\<lambda>s. pool_ok (networkConfigState s)" keeps_pool
proof
  fix op s
  assume s: "pool_ok (networkConfigState s)" and g: "keeps_pool op s"
  consider "networkConfigState (mock_apply op s) = networkConfigState s"
    | (up) p where "op = Op_updateNetworkConfig p" | (im) e where "op = Op_importConfig e"
    using mock_apply_network by blast
  then show "pool_ok (networkConfigState (mock_apply op s))"
  proof cases
    case (up p)
    with g show ?thesis by (simp add: pool_ok_update)
  next
    case (im e)
    with s g show ?thesis by (simp add: pool_ok_def import_apply_def)
  qed (use s in simp)
qed (rule pool_ok_init)

text \<open>The guard of the import is needed exactly: an import that changes the range breaks the pool.\<close>

lemma pool_ok_import_iff:
  "pool_ok (networkConfigState s) \<Longrightarrow>
     pool_ok (networkConfigState (snd (importConfigJsonMock e s))) \<longleftrightarrow>
       port_span (unc_rtp (ctp_network_config e)) = port_span (nc_rtp (networkConfigState s))"
  by (auto simp: pool_ok_def import_state)

subsection \<open>Loading the module\<close>

text \<open>
  \<open>mockGatewayModulePromise\<close> holds the promise of the first \<open>import()\<close>: \<open>None\<close> before it, then its
  outcome for good, a rejection included. \<open>imp\<close> stands for the dynamic import, \<open>w\<close> for what it reads.
\<close>

definition loadMockGatewayModule ::
  "('w \<Rightarrow> 'm js_result \<times> 'w) \<Rightarrow> 'm js_result option \<Rightarrow> 'w \<Rightarrow> 'm js_result \<times> 'm js_result option \<times> 'w" where
  "loadMockGatewayModule imp cache w =
     (case cache of
        Some outcome \<Rightarrow> (outcome, cache, w)
      | None \<Rightarrow> (let (outcome, w') = imp w in (outcome, Some outcome, w')))"

definition callMockGateway ::
  "('w \<Rightarrow> 'm js_result \<times> 'w) \<Rightarrow> ('m \<Rightarrow> 's \<Rightarrow> 'r js_result \<times> 's) \<Rightarrow> 'm js_result option \<Rightarrow> 'w \<Rightarrow> 's \<Rightarrow>
    'r js_result \<times> 'm js_result option \<times> 'w \<times> 's" where
  "callMockGateway imp handler cache w s =
     (let (outcome, cache', w') = loadMockGatewayModule imp cache w
      in case outcome of
           Inl e \<Rightarrow> (Inl e, cache', w', s)
         | Inr m \<Rightarrow> (let (r, s') = handler m s in (r, cache', w', s')))"

lemma loadMockGatewayModule_once:
  "loadMockGatewayModule imp (fst (snd (loadMockGatewayModule imp c w))) w' =
     (fst (loadMockGatewayModule imp c w), fst (snd (loadMockGatewayModule imp c w)), w')"
  by (cases c) (simp_all add: loadMockGatewayModule_def split: prod.splits)

lemma callMockGateway_failed:
  "callMockGateway imp h (Some (Inl e)) w s = (Inl e, Some (Inl e), w, s)"
  by (simp add: callMockGateway_def loadMockGatewayModule_def)

end
