(* ===== verification/Http.thy ===== *)
theory Http
  imports JsValue
begin

text \<open>
  \<open>api/http.ts\<close>: one request to the gateway server. The browser's \<open>fetch\<close> is a parameter, a
  function of the request and of the state of the network, which it may change. It rejects
  (\<open>Inl\<close>) or delivers a response: an OK one, whose body is read with \<open>json()\<close> and taken to have
  the type \<open>T\<close> the caller names, as the source does, or one that is not OK. The text
  \<open>JSON.stringify(body)\<close> is represented by the body it is the text of. The build variables and the
  two browser storages are the environment.
\<close>

subsection \<open>Data\<close>

record 't ApiResponse =
  ar_code :: jsval
  ar_message :: string
  ar_data :: 't

datatype param_value = P_undefined | P_str string | P_num int | P_bool bool

datatype 'b RequestBody = NoBody | TextBody string | JsonBody 'b

record 'b RequestOptions =
  ro_method :: "string option"
  ro_params :: "(string \<times> param_value) list option"
  ro_headers :: "(string \<times> string) list"
  ro_body :: "'b RequestBody"

record 'b FetchInit =
  fi_url :: string
  fi_method :: "string option"
  fi_headers :: "(string \<times> string) list"
  fi_body :: "'b RequestBody"

datatype 't FetchResponse =
    ResponseOk "'t ApiResponse js_result"
  | ResponseNotOk int string "jsval js_result"

record BrowserStorage =
  bs_local :: "string \<rightharpoonup> string"
  bs_session :: "string \<rightharpoonup> string"

record HttpEnv =
  he_api_base_url :: "string option"
  he_window :: "BrowserStorage option"

type_synonym ('b, 't, 'w) fetcher = "'b FetchInit \<Rightarrow> 'w \<Rightarrow> 't FetchResponse js_result \<times> 'w"

subsection \<open>Administrator headers\<close>

definition API_BASE :: "'e HttpEnv_scheme \<Rightarrow> string" where
  "API_BASE env = nullish (he_api_base_url env) ''/api''"

definition read_storage :: "BrowserStorage \<Rightarrow> string \<Rightarrow> string" where
  "read_storage st key = str_or (nullish (bs_local st key) []) (nullish (bs_session st key) [])"

definition admin_header :: "string \<Rightarrow> string \<Rightarrow> (string \<times> string) list" where
  "admin_header name value = (if value \<noteq> [] then [(name, value)] else [])"

definition browserAdminHeaders :: "'e HttpEnv_scheme \<Rightarrow> (string \<times> string) list" where
  "browserAdminHeaders env =
     (case he_window env of
        None \<Rightarrow> []
      | Some st \<Rightarrow>
          let token = trim (read_storage st ''siptunnel.adminToken'');
              mfa = trim (read_storage st ''siptunnel.adminMfa'');
              operator = trim (read_storage st ''siptunnel.adminOperator'')
          in admin_header ''X-Admin-Token'' token @ admin_header ''X-Admin-MFA'' mfa @
             admin_header ''X-Admin-Operator'' operator)"

subsection \<open>Query strings\<close>

text \<open>The serializer of \<open>URLSearchParams\<close>, byte by byte over the UTF-8 text.\<close>

definition hex_digit :: "nat \<Rightarrow> char" where
  "hex_digit d = char_of (if d < 10 then 48 + d else 55 + d)"

definition form_plain :: "char \<Rightarrow> bool" where
  "form_plain c \<longleftrightarrow> is_alnum c \<or> c \<in> {CHR ''*'', CHR ''-'', CHR ''.'', CHR ''_''}"

definition percent :: "char \<Rightarrow> string" where
  "percent c = [CHR ''%'', hex_digit (of_char c div 16), hex_digit (of_char c mod 16)]"

definition form_encode :: "string \<Rightarrow> string" where
  "form_encode s = concat (map (\<lambda>c. if form_plain c then [c] else if c = CHR '' '' then ''+'' else percent c) s)"

fun query_text :: "(string \<times> string) list \<Rightarrow> string" where
  "query_text [] = []"
| "query_text [(k, v)] = form_encode k @ ''='' @ form_encode v"
| "query_text ((k, v) # kvs) = form_encode k @ ''='' @ form_encode v @ ''&'' @ query_text kvs"

definition param_text :: "param_value \<Rightarrow> string option" where
  "param_text v = (case v of P_undefined \<Rightarrow> None | P_str s \<Rightarrow> Some s | P_num n \<Rightarrow> Some (string_of_int n)
     | P_bool b \<Rightarrow> Some (if b then ''true'' else ''false''))"

definition defined_params :: "(string \<times> param_value) list \<Rightarrow> (string \<times> string) list" where
  "defined_params ps = List.map_filter (\<lambda>(k, v). map_option (Pair k) (param_text v)) ps"

definition withQuery :: "string \<Rightarrow> (string \<times> param_value) list option \<Rightarrow> string" where
  "withQuery url params =
     (case params of
        None \<Rightarrow> url
      | Some ps \<Rightarrow> (let queryString = query_text (defined_params ps)
                   in if queryString \<noteq> [] then url @ ''?'' @ queryString else url))"

subsection \<open>Requests\<close>

definition error_detail :: "string \<Rightarrow> jsval js_result \<Rightarrow> jsval" where
  "error_detail statusText body =
     (case body of
        Inl _ \<Rightarrow> JStr statusText
      | Inr p \<Rightarrow> or_else (chain (chain p ''error'') ''message'')
                  (or_else (chain p ''message'') (or_else (chain (chain p ''data'') ''message'') (JStr statusText))))"

definition fetch_init :: "'e HttpEnv_scheme \<Rightarrow> string \<Rightarrow> 'b RequestOptions \<Rightarrow> 'b FetchInit" where
  "fetch_init env path options =
     \<lparr>fi_url = withQuery (API_BASE env @ path) (ro_params options), fi_method = ro_method options,
      fi_headers = put_all [(''Content-Type'', ''application/json'')] (browserAdminHeaders env @ ro_headers options),
      fi_body = ro_body options\<rparr>"

definition request ::
  "'e HttpEnv_scheme \<Rightarrow> ('b, 't, 'w) fetcher \<Rightarrow> string \<Rightarrow> 'b RequestOptions \<Rightarrow> 'w \<Rightarrow> 't ApiResponse js_result \<times> 'w" where
  "request env fetch path options w =
     (case fetch (fetch_init env path options) w of
        (Inl e, w') \<Rightarrow> (Inl e, w')
      | (Inr (ResponseNotOk status statusText body), w') \<Rightarrow>
          (Inl (JsError (''HTTP '' @ string_of_int status @ '': '' @ js_String (error_detail statusText body))), w')
      | (Inr (ResponseOk body), w') \<Rightarrow> (body, w'))"

subsection \<open>What the server reads from a query\<close>

text \<open>The parser of \<open>application/x-www-form-urlencoded\<close> text: the other side of the serializer.\<close>

definition is_hex :: "char \<Rightarrow> bool" where
  "is_hex c \<longleftrightarrow> radix_val c < 16"

function form_decode :: "string \<Rightarrow> string" where
  "form_decode [] = []"
| "form_decode (c # s) =
     (if c = CHR ''+'' then CHR '' '' # form_decode s
      else if c = CHR ''%'' \<and> 2 \<le> length s \<and> list_all is_hex (take 2 s)
      then char_of (16 * radix_val (s ! 0) + radix_val (s ! 1)) # form_decode (drop 2 s)
      else c # form_decode s)"
  by pat_completeness auto

termination form_decode by (relation "measure length") auto

fun split_on :: "char \<Rightarrow> string \<Rightarrow> string list" where
  "split_on d [] = [[]]"
| "split_on d (c # s) =
     (if c = d then [] # split_on d s else (case split_on d s of p # ps \<Rightarrow> (c # p) # ps | [] \<Rightarrow> [[c]]))"

definition parse_pair :: "string \<Rightarrow> string \<times> string" where
  "parse_pair p = (form_decode (takeWhile (\<lambda>c. c \<noteq> CHR ''='') p),
     form_decode (tl (dropWhile (\<lambda>c. c \<noteq> CHR ''='') p)))"

definition parse_query :: "string \<Rightarrow> (string \<times> string) list" where
  "parse_query s = map parse_pair (filter (\<lambda>p. p \<noteq> []) (split_on CHR ''&'' s))"

lemma of_char_hex_digit: "d < 16 \<Longrightarrow> (of_char (hex_digit d) :: nat) = (if d < 10 then 48 + d else 55 + d)"
  by (simp add: hex_digit_def)

lemma hex_digit_props: "d < 16 \<Longrightarrow> radix_val (hex_digit d) = d"
  by (simp add: radix_val_def upper_char_def of_char_hex_digit Let_def)

lemma nibbles: "(of_char (c :: char) :: nat) div 16 < 16" "(of_char c :: nat) mod 16 < 16"
  using nat_of_char_less_256 [of c] by (auto simp: less_mult_imp_div_less)

lemma percent_decode: "form_decode (percent c @ s) = c # form_decode s"
proof -
  have "char_of (16 * (of_char c div 16) + of_char c mod 16 :: nat) = c" by simp
  with nibbles [of c] show ?thesis by (simp add: percent_def is_hex_def hex_digit_props)
qed

lemma form_plain_decode: "form_plain c \<Longrightarrow> form_decode (c # s) = c # form_decode s"
  by (auto simp: form_plain_def is_alnum_def)

lemma form_encode_Cons:
  "form_encode (c # s) = (if form_plain c then [c] else if c = CHR '' '' then ''+'' else percent c) @ form_encode s"
  by (simp add: form_encode_def)

lemma form_encode_Nil [simp]: "form_encode [] = []"
  by (simp add: form_encode_def)

lemma form_decode_encode: "form_decode (form_encode s) = s"
proof (induction s)
  case (Cons c s)
  then show ?case by (auto simp: form_encode_Cons form_plain_decode percent_decode simp del: form_decode.simps(2))
      (simp_all add: Cons.IH)
qed simp

lemma hex_digit_plain: "d < 16 \<Longrightarrow> hex_digit d \<notin> {CHR ''&'', CHR ''=''}"
  using of_char_hex_digit [of d] by (auto split: if_splits)

lemma form_encode_chars: "CHR ''&'' \<notin> set (form_encode s) \<and> CHR ''='' \<notin> set (form_encode s)"
proof (induction s)
  case (Cons c s)
  from hex_digit_plain [OF nibbles(1) [of c]] hex_digit_plain [OF nibbles(2) [of c]] Cons.IH show ?case
    by (auto simp: form_encode_Cons percent_def form_plain_def is_alnum_def)
qed simp

lemma split_on_none: "d \<notin> set s \<Longrightarrow> split_on d s = [s]"
  by (induction s) auto

lemma split_on_append: "d \<notin> set s \<Longrightarrow> split_on d (s @ d # t) = s # split_on d t"
  by (induction s) auto

lemma parse_pair_encode: "parse_pair (form_encode k @ CHR ''='' # form_encode v) = (k, v)"
proof -
  have "takeWhile (\<lambda>c. c \<noteq> CHR ''='') (form_encode k @ CHR ''='' # form_encode v) = form_encode k"
    "dropWhile (\<lambda>c. c \<noteq> CHR ''='') (form_encode k @ CHR ''='' # form_encode v) = CHR ''='' # form_encode v"
    using form_encode_chars [of k] by (auto simp: takeWhile_append dropWhile_append)
  then show ?thesis by (simp only: parse_pair_def form_decode_encode list.sel)
qed

lemma parse_query_text: "parse_query (query_text kvs) = kvs"
proof (induction kvs rule: query_text.induct)
  case (2 k v)
  have "CHR ''&'' \<notin> set (form_encode k @ CHR ''='' # form_encode v)" using form_encode_chars by auto
  then show ?case by (simp add: parse_query_def split_on_none parse_pair_encode)
next
  case (3 k v kv kvs)
  have "CHR ''&'' \<notin> set (form_encode k @ CHR ''='' # form_encode v)" using form_encode_chars by auto
  from split_on_append [OF this, of "query_text (kv # kvs)"] 3 show ?case
    by (simp add: parse_query_def parse_pair_encode)
qed (simp add: parse_query_def)

lemma query_text_Nil_iff: "query_text kvs = [] \<longleftrightarrow> kvs = []"
  by (cases kvs rule: query_text.cases) auto

subsection \<open>Outcomes\<close>

lemma request_throws_iff:
  "(\<exists>e. fst (request env fetch path options w) = Inl e) \<longleftrightarrow>
     \<not> (\<exists>r. fst (fetch (fetch_init env path options) w) = Inr (ResponseOk (Inr r)))"
  by (auto simp: request_def split: prod.splits sum.splits FetchResponse.splits) (metis sum.exhaust)

lemma request_network: "snd (request env fetch path options w) = snd (fetch (fetch_init env path options) w)"
  by (auto simp: request_def split: prod.splits sum.splits FetchResponse.splits)

lemma admin_header_name: "x \<in> set (admin_header n v) \<Longrightarrow> fst x = n \<and> snd x = v \<and> v \<noteq> []"
  by (simp add: admin_header_def split: if_splits)

lemma map_of_admin_headers:
  "he_window env = Some st \<Longrightarrow>
     map_of (browserAdminHeaders env) ''X-Admin-Token'' =
       (let t = trim (read_storage st ''siptunnel.adminToken'') in if t = [] then None else Some t)"
  by (simp add: browserAdminHeaders_def admin_header_def Let_def)

lemma distinct_admin_headers: "distinct (map fst (browserAdminHeaders env))"
  by (simp add: browserAdminHeaders_def admin_header_def Let_def split: option.split)

end
