(* ===== verification/ConsoleTypes.thy ===== *)
theory ConsoleTypes
  imports GatewayTypes
begin

text \<open>
  Interfaces of the access logs, system settings, dashboard summaries, mapping workspace, load
  tests, licence and security views.
  The conventions are those of \<open>GatewayTypes\<close>.
\<close>

record AccessLogSummary =
  als_total :: int
  als_failed :: int
  als_slow :: int
  als_error_types :: "(string \<times> int) list"
  als_window :: string

record AccessLogEntry =
  ale_id :: string
  ale_occurred_at :: string
  ale_mapping_name :: string
  ale_source_ip :: string
  ale_method :: string
  ale_path :: string
  ale_status_code :: int
  ale_duration_ms :: int
  ale_failure_reason :: string
  ale_request_id :: string
  ale_trace_id :: string

record SystemSettingsPayload =
  sp_sqlite_path :: string
  sp_log_cleanup_cron :: string
  sp_max_task_age_days :: int
  sp_max_task_records :: int
  sp_max_access_log_age_days :: int
  sp_max_access_log_records :: int
  sp_max_audit_age_days :: int
  sp_max_audit_records :: int
  sp_max_diagnostic_age_days :: int
  sp_max_diagnostic_records :: int
  sp_max_loadtest_age_days :: int
  sp_max_loadtest_records :: int
  sp_admin_allow_cidr :: string
  sp_admin_require_mfa :: bool
  sp_generic_download_total_mbps :: "rat option"
  sp_generic_download_per_transfer_mbps :: "rat option"
  sp_generic_download_window_mb :: "rat option"
  sp_adaptive_hot_cache_mb :: "rat option"
  sp_adaptive_hot_window_mb :: "rat option"
  sp_generic_download_segment_concurrency :: "int option"
  sp_generic_download_rtp_reorder_window_packets :: "int option"
  sp_generic_download_rtp_loss_tolerance_packets :: "int option"
  sp_generic_download_rtp_gap_timeout_ms :: "int option"
  sp_generic_download_rtp_fec_enabled :: "bool option"
  sp_generic_download_rtp_fec_group_packets :: "int option"
  sp_admin_token_configured :: "bool option"
  sp_admin_mfa_configured :: "bool option"
  sp_config_encryption_enabled :: "bool option"
  sp_tunnel_signer_externalized :: "bool option"
  sp_cleaner_last_run_at :: string
  sp_cleaner_last_result :: string
  sp_cleaner_last_removed_records :: int

record DashboardOpsSummaryItem =
  dosi_name :: string
  dosi_count :: int
  dosi_avg_latency_ms :: "int option"

record DashboardOpsSummaryPayload =
  dosp_top_mappings :: "DashboardOpsSummaryItem list"
  dosp_top_source_ips :: "DashboardOpsSummaryItem list"
  dosp_top_failed_mappings :: "DashboardOpsSummaryItem list"
  dosp_top_failed_source_ips :: "DashboardOpsSummaryItem list"
  dosp_rate_limit_status :: string
  dosp_circuit_breaker_state :: string
  dosp_protection_status :: string

record DashboardSummary =
  dsum_systemHealth :: string
  dsum_activeConnections :: int
  dsum_mappingTotal :: int
  dsum_mappingErrorCount :: int
  dsum_recentFailureCount :: int
  dsum_rateLimitState :: string
  dsum_circuitBreakerState :: string

record DashboardOpsSummary =
  dos_hotMappings :: "DashboardOpsSummaryItem list"
  dos_topFailureMappings :: "DashboardOpsSummaryItem list"
  dos_hotSourceIPs :: "DashboardOpsSummaryItem list"
  dos_topFailureIPs :: "DashboardOpsSummaryItem list"

record DashboardTrendPoint =
  dtp_bucket :: string
  dtp_label :: string
  dtp_total :: int
  dtp_failed :: int
  dtp_slow :: int

record DashboardTrendSeries =
  dts_range :: string
  dts_granularity :: string
  dts_points :: "DashboardTrendPoint list"

record MappingWorkspaceItem =
  mwi_mappingName :: string
  mwi_localEntry :: string
  mwi_peerTarget :: string
  mwi_status :: string
  mwi_lastTestResult :: string
  mwi_requestCount :: int
  mwi_failureCount :: int
  mwi_avgLatency :: int
  mwi_riskLevel :: string
  mwi_mappingId :: string

record MappingWorkspaceList =
  mwl_items :: "MappingWorkspaceItem list"

record AccessLogQuery =
  alq_mapping :: "string option"
  alq_sourceIP :: "string option"
  alq_method :: "string option"
  alq_status :: "int option"
  alq_startTime :: "string option"
  alq_endTime :: "string option"
  alq_slowOnly :: "bool option"
  alq_failedOnly :: "bool option"

record SystemResourceUsage =
  sru_captured_at :: string
  sru_cpu_cores :: int
  sru_gomaxprocs :: int
  sru_goroutines :: int
  sru_heap_alloc_bytes :: int
  sru_heap_sys_bytes :: int
  sru_heap_idle_bytes :: int
  sru_stack_inuse_bytes :: int
  sru_last_gc_time :: "string option"
  sru_sip_connections :: int
  sru_rtp_active_transfers :: int
  sru_rtp_port_pool_used :: int
  sru_rtp_port_pool_total :: int
  sru_active_requests :: int
  sru_configured_generic_download_mbps :: rat
  sru_configured_generic_per_transfer_mbps :: rat
  sru_configured_adaptive_hot_cache_mb :: rat
  sru_configured_adaptive_hot_window_mb :: rat
  sru_configured_generic_download_window_mb :: rat
  sru_configured_generic_segment_concurrency :: int
  sru_configured_generic_rtp_reorder_window_packets :: int
  sru_configured_generic_rtp_loss_tolerance_packets :: int
  sru_configured_generic_rtp_gap_timeout_ms :: int
  sru_configured_generic_rtp_fec_enabled :: bool
  sru_configured_generic_rtp_fec_group_packets :: int
  sru_status_color :: "string option"
  sru_status_summary :: "string option"
  sru_status_reasons :: "(string list) option"
  sru_recommended_summary :: "string option"
  sru_recommended_profile :: "string option"
  sru_suggested_actions :: "(string list) option"
  sru_suitable_scenarios :: "(string list) option"
  sru_selfcheck_overall :: "string option"
  sru_rtp_port_pool_usage_percent :: "rat option"
  sru_active_request_usage_percent :: "rat option"
  sru_heap_usage_percent :: "rat option"
  sru_theoretical_rtp_transfer_limit :: "int option"
  sru_recommended_file_transfer_max_concurrent :: "int option"
  sru_recommended_max_concurrent :: "int option"
  sru_recommended_rate_limit_rps :: "int option"
  sru_recommended_rate_limit_burst :: "int option"
  sru_observed_jitter_loss_events :: "int option"
  sru_observed_gap_timeouts :: "int option"
  sru_observed_fec_recovered :: "int option"
  sru_observed_peak_pending :: "int option"
  sru_observed_max_gap_hold_ms :: "int option"
  sru_observed_writer_block_ms :: "int option"
  sru_observed_max_writer_block_ms :: "int option"
  sru_observed_context_canceled :: "int option"
  sru_observed_circuit_open_count :: "int option"
  sru_observed_circuit_half_open_count :: "int option"
  sru_runtime_profile_applied :: "string option"
  sru_runtime_profile_applied_at :: "string option"
  sru_runtime_profile_reason :: "string option"
  sru_runtime_profile_changed :: "bool option"

record GatewayRestartResponse =
  grr_accepted :: bool
  grr_command :: string
  grr_scheduled_at :: string

record LoadtestJob =
  ltj_job_id :: string
  ltj_status :: string
  ltj_created_at :: string
  ltj_updated_at :: string
  ltj_targets :: "string list"
  ltj_http_url :: string
  ltj_sip_address :: string
  ltj_rtp_address :: string
  ltj_gateway_base_url :: string
  ltj_concurrency :: int
  ltj_qps :: int
  ltj_duration_sec :: int
  ltj_output_dir :: string
  ltj_summary_file :: "string option"
  ltj_report_file :: "string option"
  ltj_error_message :: "string option"
  ltj_capacity_suggestion :: "((string \<times> jsval) list) option"

record DiagnosticExportFile =
  def_name :: string
  def_description :: string

record DiagnosticExportData =
  ded_generated_at :: string
  ded_job_id :: string
  ded_node_id :: string
  ded_request_id :: "string option"
  ded_trace_id :: "string option"
  ded_file_name :: string
  ded_output_dir :: string
  ded_files :: "DiagnosticExportFile list"

record SystemSettingsState =
  st_sqlitePath :: string
  st_logPath :: string
  st_uiMode :: UiDeployMode
  st_apiBaseUrl :: string
  st_metricsEndpoint :: string
  st_readyEndpoint :: string
  st_selfCheckEndpoint :: string
  st_startupSummaryEndpoint :: string
  st_uiConsistencyStatus :: "string option"
  st_uiConsistencyDetail :: "string option"
  st_uiEmbedBuildNonce :: "string option"
  st_uiEmbeddedAt :: "string option"
  st_uiSourceLatestWrite :: "string option"
  st_uiEmbeddedHash :: "string option"
  st_uiAssetBaseMode :: "string option"
  st_uiRouterBasePathPolicy :: "string option"
  st_uiDeliveryGuardStatus :: "string option"
  st_uiDeliveryGuardDetail :: "string option"
  st_uiDeliveryGuardRemovedCount :: "int option"
  st_uiDeliveryGuardRemainingCount :: "int option"
  st_uiDeliveryGuardHitCount :: "int option"
  st_entrySelectionPolicy :: "string option"
  st_udpControlHeaderPolicy :: "string option"
  st_genericDownloadRTPToleranceProfile :: "string option"
  st_genericDownloadGuardPolicy :: "string option"
  st_logRetentionDays :: int
  st_logRetentionRecords :: int
  st_auditRetentionDays :: int
  st_auditRetentionRecords :: int
  st_accessLogRetentionDays :: int
  st_accessLogRetentionRecords :: int
  st_diagnosticsRetentionDays :: int
  st_diagnosticsRetentionRecords :: int
  st_loadtestRetentionDays :: int
  st_loadtestRetentionRecords :: int
  st_cleanupCron :: string
  st_adminCIDR :: string
  st_mfaEnabled :: bool
  st_genericDownloadTotalMbps :: rat
  st_genericDownloadPerTransferMbps :: rat
  st_genericDownloadWindowMB :: rat
  st_adaptiveHotCacheMB :: rat
  st_adaptiveHotWindowMB :: rat
  st_genericDownloadSegmentConcurrency :: int
  st_genericDownloadRTPReorderWindowPackets :: int
  st_genericDownloadRTPLossTolerancePackets :: int
  st_genericDownloadRTPGapTimeoutMS :: int
  st_genericDownloadRTPFECEnabled :: bool
  st_genericDownloadRTPFECGroupPackets :: int
  st_adminTokenConfigured :: "bool option"
  st_adminMfaConfigured :: "bool option"
  st_configEncryptionEnabled :: "bool option"
  st_tunnelSignerExternalized :: "bool option"
  st_lastCleanupStatus :: string
  st_lastCleanupRemovedRecords :: int

record SecurityStatePayload =
  secp_license_status :: string
  secp_expiry_time :: string
  secp_active_time :: string
  secp_maintenance_expire_time :: string
  secp_license_time :: string
  secp_product_type :: string
  secp_product_type_name :: "string option"
  secp_license_type :: string
  secp_license_counter :: string
  secp_machine_code :: string
  secp_project_code :: string
  secp_licensed_features :: "string list"
  secp_last_validation :: string
  secp_management_security :: string
  secp_signing_algorithm :: string
  secp_admin_token_configured :: "bool option"
  secp_admin_mfa_required :: "bool option"
  secp_admin_mfa_configured :: "bool option"
  secp_config_encryption :: "bool option"
  secp_signer_externalized :: "bool option"
  secp_admin_token_fingerprint :: "string option"

record LicensePayload =
  lic_status :: string
  lic_expire_at :: string
  lic_active_at :: string
  lic_maintenance_expire_at :: string
  lic_license_time :: string
  lic_product_type :: string
  lic_product_type_name :: "string option"
  lic_license_type :: string
  lic_license_counter :: string
  lic_machine_code :: string
  lic_project_code :: string
  lic_region_info :: string
  lic_industry_info :: string
  lic_customer_info :: string
  lic_user_info :: string
  lic_server_info :: string
  lic_features :: "string list"
  lic_last_verify_result :: string
  lic_summary1 :: string
  lic_summary2 :: string
  lic_raw_license_content :: "string option"

record SecurityCenterState =
  secs_licenseStatus :: string
  secs_expiryTime :: string
  secs_activeTime :: string
  secs_maintenanceExpireTime :: string
  secs_licenseTime :: string
  secs_productType :: string
  secs_productTypeName :: "string option"
  secs_licenseType :: string
  secs_licenseCounter :: string
  secs_machineCode :: string
  secs_projectCode :: string
  secs_licensedFeatures :: "string list"
  secs_lastValidation :: string
  secs_managementSecurity :: string
  secs_signingAlgorithm :: string
  secs_adminTokenConfigured :: "bool option"
  secs_adminMFARequired :: "bool option"
  secs_adminMFAConfigured :: "bool option"
  secs_configEncryption :: "bool option"
  secs_signerExternalized :: "bool option"
  secs_adminTokenFingerprint :: "string option"

record MachineCodePayload =
  mcp_machine_code :: string
  mcp_node_id :: string
  mcp_hostname :: string
  mcp_cpu_id :: string
  mcp_board_serial :: string
  mcp_mac_address :: string
  mcp_request_file :: string

record SecurityEventRecord =
  ser_when :: string
  ser_category :: string
  ser_transport :: string
  ser_requestId :: string
  ser_traceId :: string
  ser_sessionId :: string
  ser_reason :: string
  ser_auditLinked :: "bool option"

end
