(* ===== verification/GatewayMapping.thy ===== *)
theory GatewayMapping
  imports Http TaskTypes TunnelTypes NetworkTypes ConsoleTypes
begin

text \<open>
  How \<open>api/gateway.ts\<close> turns what the server answers into what the pages use, and back: the mapping
  functions of the file (lines 78 to 257) and the ones its operations contain. A response the source
  types \<open>any\<close> is a dynamic value, and so is what is built from it; a response with a declared type is
  a record of that type.
\<close>

subsection \<open>Tasks and dashboard\<close>

text \<open>
  The wire form of a task. Its status is cast to the type of the ten task statuses without a check,
  so the model gives the field that type.
\<close>

record TaskApiModel =
  tam_ID :: string
  tam_RequestID :: string
  tam_TraceID :: string
  tam_APICode :: string
  tam_SourceSystem :: string
  tam_Status :: TaskStatus
  tam_CreatedAt :: string
  tam_UpdatedAt :: string

definition normalizeTaskStatus :: "TaskStatus \<Rightarrow> TaskStatus" where
  "normalizeTaskStatus status = status"

definition mapTask :: "TaskApiModel \<Rightarrow> CommandTask" where
  "mapTask item =
     \<lparr>ct_id = tam_ID item, ct_requestId = tam_RequestID item, ct_traceId = tam_TraceID item,
      ct_apiCode = tam_APICode item, ct_nodeId = tam_SourceSystem item,
      ct_status = normalizeTaskStatus (tam_Status item), ct_createdAt = tam_CreatedAt item,
      ct_updatedAt = tam_UpdatedAt item, ct_latencyMs = 0\<rparr>"

definition mapFileTask :: "TaskApiModel \<Rightarrow> FileTask" where
  "mapFileTask item =
     \<lparr>ft_id = tam_ID item, ft_requestId = tam_RequestID item, ft_traceId = tam_TraceID item,
      ft_filename = tam_APICode item, ft_status = normalizeTaskStatus (tam_Status item),
      ft_totalShards = 0, ft_missingShards = 0, ft_retryRounds = 0, ft_checksumPassed = True,
      ft_progress = (if tam_Status item = Task_succeeded then 100 else 0),
      ft_createdAt = tam_CreatedAt item, ft_updatedAt = tam_UpdatedAt item\<rparr>"

definition mapTaskDetail :: "TaskKind \<Rightarrow> TaskApiModel \<Rightarrow> TaskDetail" where
  "mapTaskDetail taskKind task =
     \<lparr>td_id = tam_ID task, td_taskKind = taskKind, td_requestId = tam_RequestID task,
      td_traceId = tam_TraceID task, td_status = normalizeTaskStatus (tam_Status task),
      td_nodeId = tam_SourceSystem task, td_createdAt = tam_CreatedAt task,
      td_updatedAt = tam_UpdatedAt task, td_timeline = [], td_sipEvents = [],
      td_rtpStats = \<lparr>rs_totalShards = 0, rs_receivedShards = 0, rs_missingShards = 0,
        rs_retransmittedShards = 0, rs_bitrateMbps = 0\<rparr>,
      td_httpResult = \<lparr>her_apiCode = tam_APICode task, her_url = ''-'', her_method = ''-'', her_statusCode = 0,
        her_durationMs = 0, her_responseSnippet = ''-''\<rparr>,
      td_auditSnippets = []\<rparr>"

text \<open>The dashboard computed from the statuses of all tasks.\<close>

definition dashboardOfStatuses :: "TaskStatus list \<Rightarrow> DashboardPayload" where
  "dashboardOfStatuses allTasks =
     (let total = (if length allTasks = 0 then 1 else int (length allTasks));
          successCount = int (length (filter (\<lambda>st. st = Task_succeeded) allTasks));
          failedCount = int (length (filter (\<lambda>st. st = Task_failed \<or> st = Task_dead_lettered) allTasks));
          open_count = int (length (filter (\<lambda>st. st \<noteq> Task_cancelled) allTasks))
      in \<lparr>dp_metrics =
            \<lparr>dm_successRate = fl64 (fl64 (of_int successCount / of_int total) * 100),
             dm_failureRate = fl64 (fl64 (of_int failedCount / of_int total) * 100),
             dm_concurrency = int (length (filter (\<lambda>st. st = Task_running \<or> st = Task_transferring) allTasks)),
             dm_rtpLossRate = 0, dm_rateLimitHits = 0, dm_sipProtocol = UDP, dm_sipListenPort = 5060,
             dm_rtpProtocol = UDP, dm_rtpPortRange = ''20000-20999'', dm_activeSessions = open_count,
             dm_activeTransfers = int (length (filter (\<lambda>st. st = Task_transferring) allTasks)),
             dm_currentConnections = open_count, dm_failedTasks1h = failedCount,
             dm_transportErrors1h = 0, dm_rateLimitHits1h = 0\<rparr>,
          dp_recentTrends = []\<rparr>)"

record DashboardSummaryWire =
  dsw_system_health :: string
  dsw_active_connections :: int
  dsw_mapping_total :: int
  dsw_mapping_error_count :: int
  dsw_recent_failure_count :: int
  dsw_rate_limit_state :: string
  dsw_circuit_breaker_state :: string

definition mapDashboardSummary :: "DashboardSummaryWire \<Rightarrow> DashboardSummary" where
  "mapDashboardSummary payload =
     \<lparr>dsum_systemHealth = dsw_system_health payload, dsum_activeConnections = dsw_active_connections payload,
      dsum_mappingTotal = dsw_mapping_total payload, dsum_mappingErrorCount = dsw_mapping_error_count payload,
      dsum_recentFailureCount = dsw_recent_failure_count payload,
      dsum_rateLimitState = dsw_rate_limit_state payload,
      dsum_circuitBreakerState = dsw_circuit_breaker_state payload\<rparr>"

definition mapDashboardOpsSummary :: "DashboardOpsSummaryPayload \<Rightarrow> DashboardOpsSummary" where
  "mapDashboardOpsSummary payload =
     \<lparr>dos_hotMappings = dosp_top_mappings payload, dos_topFailureMappings = dosp_top_failed_mappings payload,
      dos_hotSourceIPs = dosp_top_source_ips payload, dos_topFailureIPs = dosp_top_failed_source_ips payload\<rparr>"

subsection \<open>Protection state\<close>

definition listed :: "jsval \<Rightarrow> string \<Rightarrow> jsval" where
  "listed payload k = coalesce (chain payload k) (JArr [])"

definition mapProtectionState :: "jsval \<Rightarrow> jsval" where
  "mapProtectionState payload = JObj
     [(''alertRules'', listed payload ''alert_rules''),
      (''rateLimitRules'', listed payload ''rate_limit_rules''),
      (''circuitBreakerRules'', listed payload ''circuit_breaker_rules''),
      (''currentTriggered'', listed payload ''current_triggered''),
      (''lastTriggeredTime'', coalesce (chain payload ''last_triggered_time'') (JStr [])),
      (''lastTriggeredTarget'', coalesce (chain payload ''last_triggered_target'') (JStr [])),
      (''rps'', chain payload ''rps''), (''burst'', chain payload ''burst''),
      (''maxConcurrent'', chain payload ''max_concurrent''),
      (''failureThreshold'', chain payload ''failure_threshold''),
      (''recoveryWindowSec'', chain payload ''recovery_window_sec''),
      (''rateLimitStatus'', chain payload ''rate_limit_status''),
      (''circuitBreakerStatus'', chain payload ''circuit_breaker_status''),
      (''protectionStatus'', chain payload ''protection_status''),
      (''analysisWindow'', chain payload ''analysis_window''),
      (''recentFailureCount'', chain payload ''recent_failure_count''),
      (''recentSlowRequestCount'', chain payload ''recent_slow_request_count''),
      (''currentActiveRequests'', chain payload ''current_active_requests''),
      (''rateLimitHitsTotal'', chain payload ''rate_limit_hits_total''),
      (''concurrentRejectsTotal'', chain payload ''concurrent_rejects_total''),
      (''allowedRequestsTotal'', chain payload ''allowed_requests_total''),
      (''lastTriggeredType'', chain payload ''last_triggered_type''),
      (''circuitOpenCount'', chain payload ''circuit_open_count''),
      (''circuitHalfOpenCount'', chain payload ''circuit_half_open_count''),
      (''circuitActiveState'', chain payload ''circuit_active_state''),
      (''circuitLastOpenUntil'', chain payload ''circuit_last_open_until''),
      (''circuitLastOpenReason'', chain payload ''circuit_last_open_reason''),
      (''circuitEntries'', listed payload ''circuit_entries''),
      (''topRateLimitTargets'', listed payload ''top_rate_limit_targets''),
      (''topConcurrentTargets'', listed payload ''top_concurrent_targets''),
      (''topAllowedTargets'', listed payload ''top_allowed_targets''),
      (''scopes'', listed payload ''scopes''),
      (''restrictions'', listed payload ''restrictions'')]"

text \<open>\<open>{ ...data, state: data?.state ? mapProtectionState(data.state) : undefined }\<close>.\<close>

definition with_protection_state :: "jsval \<Rightarrow> jsval" where
  "with_protection_state d =
     JObj (put ''state'' (if truthy (chain d ''state'') then mapProtectionState (chain d ''state'') else JUndefined)
       (own_props d))"

definition protection_update_body :: "jsval \<Rightarrow> jsval" where
  "protection_update_body payload = JObj
     [(''alert_rules'', chain payload ''alertRules''),
      (''circuit_breaker_rules'', chain payload ''circuitBreakerRules''),
      (''rps'', chain payload ''rps''), (''burst'', chain payload ''burst''),
      (''max_concurrent'', chain payload ''maxConcurrent''),
      (''failure_threshold'', chain payload ''failureThreshold''),
      (''recovery_window_sec'', chain payload ''recoveryWindowSec'')]"

subsection \<open>Node and tunnel workspace\<close>

definition mapNodeEndpoint :: "jsval \<Rightarrow> jsval" where
  "mapNodeEndpoint payload = JObj
     [(''node_ip'', coalesce (chain payload ''node_ip'') (JStr [])),
      (''signaling_port'', coalesce (chain payload ''signaling_port'') (JNum 0)),
      (''device_id'', coalesce (chain payload ''device_id'') (JStr [])),
      (''node_type'', coalesce (chain payload ''node_type'') (JStr ''SERVER'')),
      (''rtp_port_start'', coalesce (chain payload ''rtp_port_start'') JUndefined),
      (''rtp_port_end'', coalesce (chain payload ''rtp_port_end'') JUndefined),
      (''mapping_port_start'', coalesce (chain payload ''mapping_port_start'') JUndefined),
      (''mapping_port_end'', coalesce (chain payload ''mapping_port_end'') JUndefined)]"

definition emptySessionSettings :: "(string \<times> jsval) list" where
  "emptySessionSettings =
     [(''channel_protocol'', JStr ''SIP''), (''connection_initiator'', JStr ''LOCAL''),
      (''mapping_relay_mode'', JStr ''AUTO''), (''local_device_id'', JStr []), (''peer_device_id'', JStr []),
      (''heartbeat_interval_sec'', JNum 30), (''register_retry_count'', JNum 3),
      (''register_retry_interval_sec'', JNum 5), (''registration_status'', JStr []),
      (''last_register_time'', JStr []), (''last_heartbeat_time'', JStr []), (''heartbeat_status'', JStr []),
      (''last_failure_reason'', JStr []), (''next_retry_time'', JStr []),
      (''consecutive_heartbeat_timeout'', JNum 0), (''supported_capabilities'', JArr []),
      (''request_channel'', JStr ''SIP''), (''response_channel'', JStr ''RTP''),
      (''network_mode'', JStr ''SENDER_SIP__RECEIVER_RTP''),
      (''capability'', JObj
         [(''supports_small_request_body'', JBool True), (''supports_large_request_body'', JBool False),
          (''supports_large_response_body'', JBool True), (''supports_streaming_response'', JBool True),
          (''supports_bidirectional_http_tunnel'', JBool False), (''supports_transparent_http_proxy'', JBool False)]),
      (''capability_items'', JArr []), (''register_auth_enabled'', JBool False),
      (''register_auth_username'', JStr []), (''register_auth_password'', JStr []),
      (''register_auth_password_configured'', JBool False), (''register_auth_realm'', JStr []),
      (''register_auth_algorithm'', JStr ''MD5''), (''catalog_subscribe_expires_sec'', JNum 3600)]"

definition capability_with_transport :: "string \<Rightarrow> jsval \<Rightarrow> jsval" where
  "capability_with_transport dflt cap =
     JObj (put ''transport'' (JStr (toUpperCase (js_String (coalesce (chain cap ''transport'') (JStr dflt)))))
       (own_props (coalesce cap (JObj []))))"

definition mapSessionSettings :: "jsval \<Rightarrow> jsval" where
  "mapSessionSettings settings =
     JObj (put ''mapping_relay_mode'' (coalesce (chain settings ''mapping_relay_mode'') (JStr ''AUTO''))
       (put_all emptySessionSettings (own_props (coalesce settings (JObj [])))))"

definition mapSecuritySettings :: "jsval \<Rightarrow> jsval" where
  "mapSecuritySettings settings = JObj
     [(''signer'', coalesce (chain settings ''signer'') (JStr ''HMAC-SHA256'')),
      (''encryption'', coalesce (chain settings ''encryption'') (JStr ''AES'')),
      (''verify_interval_min'', coalesce (chain settings ''verify_interval_min'') (JNum 30)),
      (''admin_allow_cidr'', coalesce (chain settings ''admin_allow_cidr'') (JStr [])),
      (''admin_require_mfa'', JBool (truthy (chain settings ''admin_require_mfa'')))]"

definition mapNodeTunnelWorkspace :: "jsval \<Rightarrow> jsval" where
  "mapNodeTunnelWorkspace payload = JObj
     [(''localNode'', mapNodeEndpoint (chain payload ''local_node'')),
      (''peerNode'', mapNodeEndpoint (chain payload ''peer_node'')),
      (''networkMode'', coalesce (chain payload ''network_mode'') (JStr ''SENDER_SIP__RECEIVER_RTP'')),
      (''capabilityMatrix'', if is_array (chain payload ''capability_matrix'') then chain payload ''capability_matrix'' else JArr []),
      (''sipCapability'', capability_with_transport ''TCP'' (chain payload ''sip_capability'')),
      (''rtpCapability'', capability_with_transport ''UDP'' (chain payload ''rtp_capability'')),
      (''sessionSettings'', mapSessionSettings (chain payload ''session_settings'')),
      (''securitySettings'', mapSecuritySettings (chain payload ''security_settings'')),
      (''encryptionSettings'', coalesce (chain payload ''encryption_settings'')
         (JObj [(''algorithm'', coalesce (chain (chain payload ''security_settings'') ''encryption'') (JStr ''AES''))]))]"

definition toNodeTunnelWorkspacePayload :: "jsval \<Rightarrow> jsval" where
  "toNodeTunnelWorkspacePayload payload = JObj
     [(''local_node'', chain payload ''localNode''), (''peer_node'', chain payload ''peerNode''),
      (''network_mode'', chain payload ''networkMode''), (''capability_matrix'', chain payload ''capabilityMatrix''),
      (''sip_capability'', chain payload ''sipCapability''), (''rtp_capability'', chain payload ''rtpCapability''),
      (''session_settings'', chain payload ''sessionSettings''), (''security_settings'', chain payload ''securitySettings''),
      (''encryption_settings'', chain payload ''encryptionSettings'')]"

subsection \<open>Catalog\<close>

definition array_or :: "jsval \<Rightarrow> jsval \<Rightarrow> jsval" where
  "array_or v d = (if is_array v then v else d)"

definition mapCatalogResource :: "jsval \<Rightarrow> jsval" where
  "mapCatalogResource item =
     (let ports = chain item ''local_ports'' in JObj
     [(''resource_code'', coalesce (chain item ''resource_code'') (coalesce (chain item ''device_id'') (JStr []))),
      (''device_id'', coalesce (chain item ''device_id'') (coalesce (chain item ''resource_code'') (JStr []))),
      (''resource_type'', coalesce (chain item ''resource_type'') (JStr ''SERVICE'')),
      (''name'', coalesce (chain item ''name'')
         (coalesce (chain item ''device_id'') (coalesce (chain item ''resource_code'') (JStr [])))),
      (''local_port'', if is_array ports \<and> length (elements ports) > 0 then js_Number (hd (elements ports))
         else coalesce (chain item ''local_port'') JUndefined),
      (''local_ports'', if is_array ports then JArr (filter is_finite (map js_Number (elements ports))) else JArr []),
      (''exposure_mode'', coalesce (chain item ''exposure_mode'') (JStr ''UNEXPOSED'')),
      (''methods'', array_or (chain item ''method_list'') (array_or (chain item ''methods'') (JArr []))),
      (''method_list'', array_or (chain item ''method_list'') JUndefined),
      (''response_mode'', coalesce (chain item ''response_mode'') (JStr ''RTP'')),
      (''source'', coalesce (chain item ''source'') (JStr ''REMOTE'')),
      (''status'', coalesce (chain item ''status'') (JStr ''UNKNOWN'')),
      (''max_inline_response_body'', coalesce (chain item ''max_inline_response_body'') JUndefined),
      (''max_request_body'', coalesce (chain item ''max_request_body'') JUndefined),
      (''mapping_ids'', array_or (chain item ''mapping_ids'') (JArr []))])"

definition mapTunnelCatalog :: "jsval \<Rightarrow> jsval" where
  "mapTunnelCatalog payload = JObj
     [(''resources'', JArr (map mapCatalogResource (elements (chain payload ''resources'')))),
      (''summary'', JObj
         [(''resource_total'', coalesce (chain (chain payload ''summary'') ''resource_total'') (JNum 0)),
          (''manual_expose_num'', coalesce (chain (chain payload ''summary'') ''manual_expose_num'') (JNum 0)),
          (''unexposed_num'', coalesce (chain (chain payload ''summary'') ''unexposed_num'') (JNum 0))])]"

text \<open>
  The session state: lists the server sends as something else become empty lists. The payload's
  property is read without optional chaining, so a \<open>null\<close> payload throws.
\<close>

definition mapGB28181State :: "jsval \<Rightarrow> jsval js_result" where
  "mapGB28181State payload =
     (if is_nullish payload then Inl (JsError ''TypeError'')
      else let g = chain payload ''gb28181'' in
      Inr (JObj (put ''gb28181''
        (if truthy g
         then JObj (put_all (own_props g)
                [(''peers'', array_or (chain g ''peers'') (JArr [])),
                 (''pending_sessions'', array_or (chain g ''pending_sessions'') (JArr [])),
                 (''inbound_sessions'', array_or (chain g ''inbound_sessions'') (JArr []))])
         else JUndefined)
        (own_props payload))))"

subsection \<open>Settings, security and mapping overview\<close>

text \<open>\<open>s.replace(/\/api$/, '')\<close>.\<close>

definition without_api_suffix :: "string \<Rightarrow> string" where
  "without_api_suffix s = (if suffix ''/api'' s then take (length s - 4) s else s)"

definition mapSystemSettings :: "SystemSettingsPayload \<Rightarrow> StartupSummaryPayload \<Rightarrow> SystemSettingsState" where
  "mapSystemSettings payload summary =
     (let ui = ss_ui_delivery_summary summary; strategy = ss_active_strategy_summary summary; api = ss_api_url summary in
      \<lparr>st_sqlitePath = sp_sqlite_path payload, st_logPath = ''/var/log/siptunnel'',
       st_uiMode = ss_ui_mode summary, st_apiBaseUrl = api,
       st_metricsEndpoint = without_api_suffix api @ ''/metrics'',
       st_readyEndpoint = without_api_suffix api @ ''/readyz'',
       st_selfCheckEndpoint = api @ ''/selfcheck'', st_startupSummaryEndpoint = api @ ''/startup-summary'',
       st_uiConsistencyStatus = map_option uds_consistency_status ui,
       st_uiConsistencyDetail = map_option uds_consistency_detail ui,
       st_uiEmbedBuildNonce = map_option uds_build_nonce ui, st_uiEmbeddedAt = map_option uds_embedded_at ui,
       st_uiSourceLatestWrite = map_option uds_ui_source_latest_write ui,
       st_uiEmbeddedHash = map_option uds_embedded_hash_sha256 ui,
       st_uiAssetBaseMode = map_option uds_asset_base_mode ui,
       st_uiRouterBasePathPolicy = map_option uds_router_base_path_policy ui,
       st_uiDeliveryGuardStatus = map_option uds_delivery_guard_status ui,
       st_uiDeliveryGuardDetail = map_option uds_delivery_guard_detail ui,
       st_uiDeliveryGuardRemovedCount = map_option uds_delivery_guard_removed_count ui,
       st_uiDeliveryGuardRemainingCount = map_option uds_delivery_guard_remaining_count ui,
       st_uiDeliveryGuardHitCount = map_option uds_delivery_guard_hit_count ui,
       st_entrySelectionPolicy = map_option ass_entry_selection_policy strategy,
       st_udpControlHeaderPolicy = map_option ass_udp_control_header_policy strategy,
       st_genericDownloadRTPToleranceProfile = map_option ass_generic_download_rtp_tolerance_profile strategy,
       st_genericDownloadGuardPolicy = Option.bind strategy ass_generic_download_guard_policy,
       st_logRetentionDays = sp_max_task_age_days payload, st_logRetentionRecords = sp_max_task_records payload,
       st_auditRetentionDays = sp_max_audit_age_days payload,
       st_auditRetentionRecords = sp_max_audit_records payload,
       st_accessLogRetentionDays = sp_max_access_log_age_days payload,
       st_accessLogRetentionRecords = sp_max_access_log_records payload,
       st_diagnosticsRetentionDays = sp_max_diagnostic_age_days payload,
       st_diagnosticsRetentionRecords = sp_max_diagnostic_records payload,
       st_loadtestRetentionDays = sp_max_loadtest_age_days payload,
       st_loadtestRetentionRecords = sp_max_loadtest_records payload,
       st_cleanupCron = sp_log_cleanup_cron payload, st_adminCIDR = sp_admin_allow_cidr payload,
       st_mfaEnabled = sp_admin_require_mfa payload,
       st_genericDownloadTotalMbps = nullish (sp_generic_download_total_mbps payload) 0,
       st_genericDownloadPerTransferMbps = nullish (sp_generic_download_per_transfer_mbps payload) 0,
       st_genericDownloadWindowMB = nullish (sp_generic_download_window_mb payload) 0,
       st_adaptiveHotCacheMB = nullish (sp_adaptive_hot_cache_mb payload) 0,
       st_adaptiveHotWindowMB = nullish (sp_adaptive_hot_window_mb payload) 0,
       st_genericDownloadSegmentConcurrency = nullish (sp_generic_download_segment_concurrency payload) 0,
       st_genericDownloadRTPReorderWindowPackets = nullish (sp_generic_download_rtp_reorder_window_packets payload) 0,
       st_genericDownloadRTPLossTolerancePackets = nullish (sp_generic_download_rtp_loss_tolerance_packets payload) 0,
       st_genericDownloadRTPGapTimeoutMS = nullish (sp_generic_download_rtp_gap_timeout_ms payload) 0,
       st_genericDownloadRTPFECEnabled = nullish (sp_generic_download_rtp_fec_enabled payload) False,
       st_genericDownloadRTPFECGroupPackets = nullish (sp_generic_download_rtp_fec_group_packets payload) 0,
       st_adminTokenConfigured = sp_admin_token_configured payload,
       st_adminMfaConfigured = sp_admin_mfa_configured payload,
       st_configEncryptionEnabled = sp_config_encryption_enabled payload,
       st_tunnelSignerExternalized = sp_tunnel_signer_externalized payload,
       st_lastCleanupStatus = sp_cleaner_last_result payload,
       st_lastCleanupRemovedRecords = sp_cleaner_last_removed_records payload\<rparr>)"

definition settingsRequest :: "SystemSettingsState \<Rightarrow> SystemSettingsPayload" where
  "settingsRequest payload =
     \<lparr>sp_sqlite_path = st_sqlitePath payload, sp_log_cleanup_cron = st_cleanupCron payload,
      sp_max_task_age_days = st_logRetentionDays payload, sp_max_task_records = st_logRetentionRecords payload,
      sp_max_access_log_age_days = st_accessLogRetentionDays payload,
      sp_max_access_log_records = st_accessLogRetentionRecords payload,
      sp_max_audit_age_days = st_auditRetentionDays payload, sp_max_audit_records = st_auditRetentionRecords payload,
      sp_max_diagnostic_age_days = st_diagnosticsRetentionDays payload,
      sp_max_diagnostic_records = st_diagnosticsRetentionRecords payload,
      sp_max_loadtest_age_days = st_loadtestRetentionDays payload,
      sp_max_loadtest_records = st_loadtestRetentionRecords payload,
      sp_admin_allow_cidr = st_adminCIDR payload, sp_admin_require_mfa = st_mfaEnabled payload,
      sp_generic_download_total_mbps = Some (st_genericDownloadTotalMbps payload),
      sp_generic_download_per_transfer_mbps = Some (st_genericDownloadPerTransferMbps payload),
      sp_generic_download_window_mb = Some (st_genericDownloadWindowMB payload),
      sp_adaptive_hot_cache_mb = Some (st_adaptiveHotCacheMB payload),
      sp_adaptive_hot_window_mb = Some (st_adaptiveHotWindowMB payload),
      sp_generic_download_segment_concurrency = Some (st_genericDownloadSegmentConcurrency payload),
      sp_generic_download_rtp_reorder_window_packets = Some (st_genericDownloadRTPReorderWindowPackets payload),
      sp_generic_download_rtp_loss_tolerance_packets = Some (st_genericDownloadRTPLossTolerancePackets payload),
      sp_generic_download_rtp_gap_timeout_ms = Some (st_genericDownloadRTPGapTimeoutMS payload),
      sp_generic_download_rtp_fec_enabled = Some (st_genericDownloadRTPFECEnabled payload),
      sp_generic_download_rtp_fec_group_packets = Some (st_genericDownloadRTPFECGroupPackets payload),
      sp_admin_token_configured = None, sp_admin_mfa_configured = None, sp_config_encryption_enabled = None,
      sp_tunnel_signer_externalized = None, sp_cleaner_last_run_at = [],
      sp_cleaner_last_result = st_lastCleanupStatus payload,
      sp_cleaner_last_removed_records = st_lastCleanupRemovedRecords payload\<rparr>"

definition mapSecurityState :: "SecurityStatePayload \<Rightarrow> SecurityCenterState" where
  "mapSecurityState state =
     \<lparr>secs_licenseStatus = secp_license_status state, secs_expiryTime = secp_expiry_time state,
      secs_activeTime = secp_active_time state,
      secs_maintenanceExpireTime = secp_maintenance_expire_time state,
      secs_licenseTime = secp_license_time state, secs_productType = secp_product_type state,
      secs_productTypeName = Some (str_or (nullish (secp_product_type_name state) [])
        (if secp_product_type state = ''6'' then (uni ''SIP~96A7~9053~7F51~5173'') else [])),
      secs_licenseType = secp_license_type state, secs_licenseCounter = secp_license_counter state,
      secs_machineCode = secp_machine_code state, secs_projectCode = secp_project_code state,
      secs_licensedFeatures = secp_licensed_features state, secs_lastValidation = secp_last_validation state,
      secs_managementSecurity = secp_management_security state,
      secs_signingAlgorithm = secp_signing_algorithm state,
      secs_adminTokenConfigured = secp_admin_token_configured state,
      secs_adminMFARequired = secp_admin_mfa_required state,
      secs_adminMFAConfigured = secp_admin_mfa_configured state,
      secs_configEncryption = secp_config_encryption state,
      secs_signerExternalized = secp_signer_externalized state,
      secs_adminTokenFingerprint = secp_admin_token_fingerprint state\<rparr>"

definition mapMappingWorkspaceItem :: "TunnelMapping \<Rightarrow> MappingWorkspaceItem" where
  "mapMappingWorkspaceItem item =
     (let failed = opt_truthy (tm_failure_reason item) in
      \<lparr>mwi_mappingName = str_or (nullish (tm_name item) []) (tm_mapping_id item),
       mwi_localEntry = tm_local_bind_ip item @ '':'' @ string_of_int (tm_local_bind_port item) @ tm_local_base_path item,
       mwi_peerTarget = tm_remote_target_ip item @ '':'' @ string_of_int (tm_remote_target_port item) @ tm_remote_base_path item,
       mwi_status = (if tm_enabled item then ''enabled'' else ''disabled''),
       mwi_lastTestResult = (if failed then ''failed'' else ''passed''),
       mwi_requestCount = 0, mwi_failureCount = (if failed then 1 else 0), mwi_avgLatency = 0,
       mwi_riskLevel = (if failed then ''high'' else ''normal''), mwi_mappingId = tm_mapping_id item\<rparr>)"

subsection \<open>Rates\<close>

lemma dashboard_rate_bounds:
  "0 \<le> dm_successRate (dp_metrics (dashboardOfStatuses sts)) \<and> dm_successRate (dp_metrics (dashboardOfStatuses sts)) \<le> 100 \<and>
   0 \<le> dm_failureRate (dp_metrics (dashboardOfStatuses sts)) \<and> dm_failureRate (dp_metrics (dashboardOfStatuses sts)) \<le> 100"
proof -
  let ?total = "if length sts = 0 then 1 else int (length sts)"
  have b: "0 \<le> fl64 (fl64 (of_int (int (length (filter P sts))) / of_int ?total) * 100) \<and>
      fl64 (fl64 (of_int (int (length (filter P sts))) / of_int ?total) * 100) \<le> 100" for P
    by (rule fl64_percent_bounds) (auto simp: Suc_le_eq)
  show ?thesis
    using b [of "\<lambda>st. st = Task_succeeded"] b [of "\<lambda>st. st = Task_failed \<or> st = Task_dead_lettered"]
    by (simp only: dashboardOfStatuses_def Let_def DashboardPayload.simps DashboardMetrics.simps)
qed

subsection \<open>The settings round trip\<close>

text \<open>What a form that is filled from the server and sent back unchanged asks the server to store.\<close>

lemma settingsRequest_mapSystemSettings:
  "settingsRequest (mapSystemSettings p summary) =
     p\<lparr>sp_generic_download_total_mbps := Some (nullish (sp_generic_download_total_mbps p) 0),
       sp_generic_download_per_transfer_mbps := Some (nullish (sp_generic_download_per_transfer_mbps p) 0),
       sp_generic_download_window_mb := Some (nullish (sp_generic_download_window_mb p) 0),
       sp_adaptive_hot_cache_mb := Some (nullish (sp_adaptive_hot_cache_mb p) 0),
       sp_adaptive_hot_window_mb := Some (nullish (sp_adaptive_hot_window_mb p) 0),
       sp_generic_download_segment_concurrency := Some (nullish (sp_generic_download_segment_concurrency p) 0),
       sp_generic_download_rtp_reorder_window_packets := Some (nullish (sp_generic_download_rtp_reorder_window_packets p) 0),
       sp_generic_download_rtp_loss_tolerance_packets := Some (nullish (sp_generic_download_rtp_loss_tolerance_packets p) 0),
       sp_generic_download_rtp_gap_timeout_ms := Some (nullish (sp_generic_download_rtp_gap_timeout_ms p) 0),
       sp_generic_download_rtp_fec_enabled := Some (nullish (sp_generic_download_rtp_fec_enabled p) False),
       sp_generic_download_rtp_fec_group_packets := Some (nullish (sp_generic_download_rtp_fec_group_packets p) 0),
       sp_admin_token_configured := None, sp_admin_mfa_configured := None, sp_config_encryption_enabled := None,
       sp_tunnel_signer_externalized := None, sp_cleaner_last_run_at := []\<rparr>"
  by (simp add: settingsRequest_def mapSystemSettings_def Let_def)

end
