(* ===== verification/WorkspaceLaws.thy ===== *)
theory WorkspaceLaws
  imports GatewayMapping
begin

text \<open>
  Laws of the mappings of dynamic values: the workspace form is stable under saving and reading, the
  protection state always has its lists, and the catalog has finite ports only.
\<close>

subsection \<open>Association lists\<close>

lemma assoc_eqI:
  "map fst xs = map fst ys \<Longrightarrow> distinct (map fst xs) \<Longrightarrow> map_of xs = map_of ys \<Longrightarrow> xs = ys"
proof (induction xs arbitrary: ys)
  case (Cons x xs)
  obtain k v where x: "x = (k, v)" by (cases x)
  with Cons.prems obtain v' ys' where ys: "ys = (k, v') # ys'" by (cases ys) auto
  have v: "v = v'" using fun_cong [OF Cons.prems(3), of k] x ys by simp
  have "k \<notin> set (map fst xs)" "k \<notin> set (map fst ys')" using Cons.prems x ys by auto
  then have none: "map_of xs k = None" "map_of ys' k = None" by (simp_all add: map_of_eq_None_iff)
  have "map_of xs = map_of ys'"
  proof
    fix j
    show "map_of xs j = map_of ys' j"
      using fun_cong [OF Cons.prems(3), of j] x ys none by (cases "j = k") auto
  qed
  with Cons.IH [of ys'] Cons.prems x ys v show ?case by simp
qed simp

lemma keys_put_all:
  "distinct (map fst fs) \<Longrightarrow>
     map fst (put_all base fs) = map fst base @ filter (\<lambda>k. k \<notin> set (map fst base)) (map fst fs)"
proof (induction fs arbitrary: base)
  case (Cons kv fs)
  obtain k v where kv: "kv = (k, v)" by (cases kv)
  have k: "k \<notin> set (map fst fs)" using Cons.prems kv by simp
  have "filter (\<lambda>j. j \<notin> set (map fst base) \<and> j \<noteq> k) (map fst fs) = filter (\<lambda>j. j \<notin> set (map fst base)) (map fst fs)"
    using k by (intro filter_cong) auto
  moreover have "set (map fst (put k v base)) = insert k (set (map fst base))" by (auto simp: keys_put)
  ultimately show ?case
    using Cons.IH [of "put k v base"] Cons.prems k kv
    by (simp add: keys_put conj_commute insert_absorb del: set_map)
qed simp

lemma put_all_absorb:
  assumes "map fst fs = map fst base @ extra" "distinct (map fst fs)"
  shows "put_all base fs = fs"
proof (rule assoc_eqI)
  have "filter (\<lambda>k. k \<notin> set (map fst base)) (map fst fs) = extra"
    using assms by (auto simp: filter_id_conv)
  then show k: "map fst (put_all base fs) = map fst fs" using assms by (simp add: keys_put_all)
  then show "distinct (map fst (put_all base fs))" using assms by simp
  have "dom (map_of base) \<subseteq> dom (map_of fs)"
    using arg_cong [OF assms(1), of set] by (auto simp: dom_map_of_conv_image_fst)
  then show "map_of (put_all base fs) = map_of fs"
    using assms by (auto simp: map_of_put_all fun_eq_iff map_add_def split: option.splits)
qed

subsection \<open>JSON\<close>

text \<open>What a property of JSON data can be once an optional read has produced it.\<close>

definition field_ok :: "jsval \<Rightarrow> bool" where
  "field_ok v \<longleftrightarrow> is_json v \<or> v = JUndefined"

lemma field_ok_chain: "field_ok v \<Longrightarrow> field_ok (chain v k)"
  using is_json_chain by (auto simp: field_ok_def)

lemma field_ok_coalesce: "field_ok a \<Longrightarrow> field_ok b \<Longrightarrow> field_ok (coalesce a b)"
  by (simp add: coalesce_def)

lemma field_ok_simps [simp]: "field_ok JUndefined" "field_ok (JStr s)" "field_ok (JNum x)" "field_ok (JBool b)"
  "field_ok (JArr [])"
  by (simp_all add: field_ok_def)

lemma field_ok_json: "field_ok v \<Longrightarrow> \<not> is_nullish v \<Longrightarrow> is_json v"
  by (auto simp: field_ok_def)

lemma chain_clean:
  assumes "distinct (map fst fs)"
  shows "chain (json_clean (JObj fs)) k = (if chain (JObj fs) k = JUndefined then JUndefined else json_clean (chain (JObj fs) k))"
  using assms
proof (induction fs)
  case (Cons kv fs)
  obtain j v where kv: "kv = (j, v)" by (cases kv)
  have none: "map_of fs j = None" using Cons.prems kv by (simp add: map_of_eq_None_iff)
  have "map_of (map (\<lambda>(k, v). (k, json_clean v)) (filter (\<lambda>(k, v). v \<noteq> JUndefined) fs)) j = None"
    using Cons.prems kv by (auto simp: map_of_eq_None_iff image_iff)
  with Cons kv none show ?case by (auto split: option.splits)
qed simp

lemma chain_clean_field:
  "distinct (map fst fs) \<Longrightarrow> field_ok (chain (JObj fs) k) \<Longrightarrow> chain (json_clean (JObj fs)) k = chain (JObj fs) k"
  by (auto simp only: chain_clean field_ok_def json_clean_id if_True if_False split: if_split)

lemma list_all_zip: "list_all P ys \<Longrightarrow> list_all (\<lambda>(k, x). P x) (zip ks ys)"
  by (auto simp: list_all_iff dest: set_zip_rightD)

lemma own_props_json: "is_json v \<Longrightarrow> distinct (map fst (own_props v)) \<and> list_all (\<lambda>(k, x). is_json x) (own_props v)"
  by (cases v) (simp_all add: own_props_def distinct_map inj_on_def list_all_zip list.pred_map o_def list.pred_True)

lemma is_json_put:
  "is_json (JObj fs) \<Longrightarrow> is_json v \<Longrightarrow> is_json (JObj (put k v fs))"
proof -
  have "list_all (\<lambda>(k, v). is_json v) fs \<Longrightarrow> is_json v \<Longrightarrow> list_all (\<lambda>(k, v). is_json v) (put k v fs)"
    by (induction fs) auto
  then show "is_json (JObj fs) \<Longrightarrow> is_json v \<Longrightarrow> is_json (JObj (put k v fs))" by (simp add: distinct_put)
qed

lemma is_json_put_all:
  "is_json (JObj base) \<Longrightarrow> list_all (\<lambda>(k, x). is_json x) fs \<Longrightarrow> is_json (JObj (put_all base fs))"
proof (induction fs arbitrary: base)
  case (Cons kv fs)
  obtain k v where kv: "kv = (k, v)" by (cases kv)
  with Cons.prems have "is_json (JObj (put k v base))" by (intro is_json_put) auto
  with Cons kv show ?case by simp
qed simp

subsection \<open>The parts of a workspace\<close>

lemma mapNodeEndpoint_stable:
  assumes "field_ok e"
  shows "mapNodeEndpoint (json_clean (mapNodeEndpoint e)) = mapNodeEndpoint e"
proof -
  have c: "field_ok (coalesce (chain e k) d)" if "field_ok d" for k d
    using assms that by (intro field_ok_coalesce field_ok_chain)
  have "field_ok (chain (mapNodeEndpoint e) k)" for k
    by (simp add: mapNodeEndpoint_def c split: option.split)
  then have chains: "chain (json_clean (mapNodeEndpoint e)) k = chain (mapNodeEndpoint e) k" for k
    unfolding mapNodeEndpoint_def by (intro chain_clean_field) simp_all
  show ?thesis
    unfolding mapNodeEndpoint_def [of "json_clean (mapNodeEndpoint e)"]
    by (simp add: chains, simp add: mapNodeEndpoint_def c)
qed

lemma mapSecuritySettings_stable:
  assumes "field_ok e"
  shows "mapSecuritySettings (json_clean (mapSecuritySettings e)) = mapSecuritySettings e"
proof -
  have c: "field_ok (coalesce (chain e k) d)" if "field_ok d" for k d
    using assms that by (intro field_ok_coalesce field_ok_chain)
  have "field_ok (chain (mapSecuritySettings e) k)" for k
    by (simp add: mapSecuritySettings_def c split: option.split)
  then have chains: "chain (json_clean (mapSecuritySettings e)) k = chain (mapSecuritySettings e) k" for k
    unfolding mapSecuritySettings_def by (intro chain_clean_field) simp_all
  show ?thesis
    unfolding mapSecuritySettings_def [of "json_clean (mapSecuritySettings e)"]
    by (simp add: chains, simp add: mapSecuritySettings_def c)
qed

lemma own_props_coalesce:
  "field_ok c \<Longrightarrow> is_json (JObj (own_props (coalesce c (JObj []))))"
  using own_props_json [of "coalesce c (JObj [])"]
  by (cases "is_nullish c") (auto simp: coalesce_def own_props_def field_ok_def)

lemma capability_json: "field_ok c \<Longrightarrow> is_json (capability_with_transport d c)"
  unfolding capability_with_transport_def by (intro is_json_put own_props_coalesce) simp_all

lemma capability_stable:
  assumes "field_ok c"
  shows "capability_with_transport d (json_clean (capability_with_transport d c)) = capability_with_transport d c"
proof -
  define t where "t = toUpperCase (js_String (coalesce (chain c ''transport'') (JStr d)))"
  define fs where "fs = put ''transport'' (JStr t) (own_props (coalesce c (JObj [])))"
  have r: "capability_with_transport d c = JObj fs" by (simp add: capability_with_transport_def fs_def t_def)
  have t: "map_of fs ''transport'' = Some (JStr t)" by (simp add: fs_def map_of_put)
  have "toUpperCase t = t" by (simp add: t_def)
  with t have "capability_with_transport d (JObj fs) = JObj fs"
    by (simp add: capability_with_transport_def coalesce_def own_props_def put_present)
  with json_clean_id [OF capability_json [OF assms, of d]] show ?thesis by (simp add: r)
qed

lemma empty_settings_json: "is_json (JObj emptySessionSettings)"
  by (simp add: emptySessionSettings_def)

lemma session_json: "field_ok s \<Longrightarrow> is_json (mapSessionSettings s)"
proof -
  assume s: "field_ok s"
  have "is_json (coalesce (chain s ''mapping_relay_mode'') (JStr ''AUTO''))"
    using s by (intro field_ok_json field_ok_coalesce field_ok_chain) simp_all
  then show ?thesis
    unfolding mapSessionSettings_def
    using own_props_coalesce [OF s] by (intro is_json_put is_json_put_all empty_settings_json) simp_all
qed

lemma session_stable:
  assumes "field_ok s"
  shows "mapSessionSettings (json_clean (mapSessionSettings s)) = mapSessionSettings s"
proof -
  let ?k = "''mapping_relay_mode''"
  define m where "m = coalesce (chain s ?k) (JStr ''AUTO'')"
  define ps where "ps = own_props (coalesce s (JObj []))"
  define fs where "fs = put ?k m (put_all emptySessionSettings ps)"
  have r: "mapSessionSettings s = JObj fs" by (simp add: mapSessionSettings_def fs_def m_def ps_def)
  have ps: "distinct (map fst ps)" using own_props_coalesce [OF assms] by (simp add: ps_def)
  obtain extra where keys: "map fst (put_all emptySessionSettings ps) = map fst emptySessionSettings @ extra"
    using keys_put_all [OF ps] by blast
  then have keys': "map fst fs = map fst emptySessionSettings @ extra"
    by (simp add: fs_def keys_put) (simp add: emptySessionSettings_def)
  have "distinct (map fst fs)" using session_json [OF assms] by (simp add: r)
  with keys' have absorb: "put_all emptySessionSettings fs = fs" by (rule put_all_absorb)
  have m: "map_of fs ?k = Some m" by (simp add: fs_def map_of_put)
  have "\<not> is_nullish m" by (simp add: m_def)
  with m absorb have "mapSessionSettings (JObj fs) = JObj fs"
    by (simp add: mapSessionSettings_def coalesce_def own_props_def put_present)
  with json_clean_id [OF session_json [OF assms]] show ?thesis by (simp add: r)
qed

subsection \<open>The workspace\<close>

lemma chain_saved_workspace:
  "chain (json_clean (toNodeTunnelWorkspacePayload w)) k =
     (if chain (toNodeTunnelWorkspacePayload w) k = JUndefined then JUndefined
      else json_clean (chain (toNodeTunnelWorkspacePayload w) k))"
  unfolding toNodeTunnelWorkspacePayload_def by (rule chain_clean) simp

lemma mapNodeEndpoint_object: "mapNodeEndpoint e \<noteq> JUndefined" "mapSecuritySettings e \<noteq> JUndefined"
  "mapSessionSettings e \<noteq> JUndefined" "capability_with_transport d e \<noteq> JUndefined"
  by (simp_all add: mapNodeEndpoint_def mapSecuritySettings_def mapSessionSettings_def capability_with_transport_def)

lemma coalesce_clean:
  assumes "field_ok a" "is_json b" "\<not> is_nullish b"
  shows "coalesce (json_clean (coalesce a b)) c = coalesce a b" "coalesce a b \<noteq> JUndefined"
proof -
  have "is_json (coalesce a b)" using assms by (intro field_ok_json field_ok_coalesce) (auto simp: field_ok_def)
  moreover have n: "\<not> is_nullish (coalesce a b)" using assms by simp
  ultimately show "coalesce (json_clean (coalesce a b)) c = coalesce a b" by (simp add: json_clean_id coalesce_id)
  show "coalesce a b \<noteq> JUndefined" using n by (metis is_nullish_simps(1))
qed

lemma matrix_json:
  "field_ok a \<Longrightarrow> is_json (if is_array a then a else JArr []) \<and> is_array (if is_array a then a else JArr []) \<and>
     (if is_array a then a else JArr []) \<noteq> JUndefined"
  by (cases a) (simp_all add: is_array_def field_ok_def)

lemma workspace_stable:
  assumes "is_json p"
  shows "mapNodeTunnelWorkspace (json_clean (toNodeTunnelWorkspacePayload (mapNodeTunnelWorkspace p))) =
    mapNodeTunnelWorkspace p"
proof -
  have p: "field_ok (chain p k)" "field_ok (chain (chain p k) j)" for k j
    using assms field_ok_chain by (auto simp: field_ok_def intro: field_ok_chain)
  have enc: "is_json (JObj [(''algorithm'', coalesce (chain (chain p ''security_settings'') ''encryption'') (JStr ''AES''))])"
    using field_ok_json [OF field_ok_coalesce [OF p(2)], of "JStr ''AES''"] by simp
  let ?w = "mapNodeTunnelWorkspace p"
  let ?q = "json_clean (toNodeTunnelWorkspacePayload ?w)"
  have local_node: "mapNodeEndpoint (chain ?q ''local_node'') = chain ?w ''localNode''"
    unfolding chain_saved_workspace
    by (simp add: toNodeTunnelWorkspacePayload_def mapNodeTunnelWorkspace_def mapNodeEndpoint_object mapNodeEndpoint_stable p)
  have peer_node: "mapNodeEndpoint (chain ?q ''peer_node'') = chain ?w ''peerNode''"
    unfolding chain_saved_workspace
    by (simp add: toNodeTunnelWorkspacePayload_def mapNodeTunnelWorkspace_def mapNodeEndpoint_object mapNodeEndpoint_stable p)
  have mode: "coalesce (chain ?q ''network_mode'') d = chain ?w ''networkMode''" for d
    unfolding chain_saved_workspace
    by (simp add: toNodeTunnelWorkspacePayload_def mapNodeTunnelWorkspace_def coalesce_clean p)
  let ?m = "chain ?w ''capabilityMatrix''"
  have m: "?m = (if is_array (chain p ''capability_matrix'') then chain p ''capability_matrix'' else JArr [])"
    by (simp add: mapNodeTunnelWorkspace_def)
  have "chain ?q ''capability_matrix'' = json_clean ?m" "is_json ?m \<and> is_array ?m"
    using matrix_json [OF p(1), of "''capability_matrix''", folded m]
    by (simp_all only: chain_saved_workspace) (simp add: toNodeTunnelWorkspacePayload_def)
  then have matrix: "(if is_array (chain ?q ''capability_matrix'') then chain ?q ''capability_matrix'' else JArr []) = ?m"
    by (simp add: json_clean_id)
  have sip: "capability_with_transport ''TCP'' (chain ?q ''sip_capability'') = chain ?w ''sipCapability''"
    unfolding chain_saved_workspace
    by (simp add: toNodeTunnelWorkspacePayload_def mapNodeTunnelWorkspace_def mapNodeEndpoint_object capability_stable p)
  have rtp: "capability_with_transport ''UDP'' (chain ?q ''rtp_capability'') = chain ?w ''rtpCapability''"
    unfolding chain_saved_workspace
    by (simp add: toNodeTunnelWorkspacePayload_def mapNodeTunnelWorkspace_def mapNodeEndpoint_object capability_stable p)
  have session: "mapSessionSettings (chain ?q ''session_settings'') = chain ?w ''sessionSettings''"
    unfolding chain_saved_workspace
    by (simp add: toNodeTunnelWorkspacePayload_def mapNodeTunnelWorkspace_def mapNodeEndpoint_object session_stable p)
  have security: "mapSecuritySettings (chain ?q ''security_settings'') = chain ?w ''securitySettings''"
    unfolding chain_saved_workspace
    by (simp add: toNodeTunnelWorkspacePayload_def mapNodeTunnelWorkspace_def mapNodeEndpoint_object mapSecuritySettings_stable p)
  have encryption: "coalesce (chain ?q ''encryption_settings'') d = chain ?w ''encryptionSettings''" for d
    unfolding chain_saved_workspace
    by (simp add: toNodeTunnelWorkspacePayload_def mapNodeTunnelWorkspace_def coalesce_clean [OF p(1) enc])
  show ?thesis
    unfolding mapNodeTunnelWorkspace_def [of ?q]
    unfolding local_node peer_node mode matrix sip rtp session security encryption
    by (simp add: mapNodeTunnelWorkspace_def)
qed

subsection \<open>Protection state and catalog\<close>

definition protection_lists :: "string list" where
  "protection_lists = [''alertRules'', ''rateLimitRules'', ''circuitBreakerRules'', ''currentTriggered'',
     ''circuitEntries'', ''topRateLimitTargets'', ''topConcurrentTargets'', ''topAllowedTargets'', ''scopes'',
     ''restrictions'', ''lastTriggeredTime'', ''lastTriggeredTarget'']"

lemma protection_lists_present: "list_all (\<lambda>k. \<not> is_nullish (chain (mapProtectionState p) k)) protection_lists"
  by (simp add: protection_lists_def mapProtectionState_def listed_def)

lemma catalog_ports_finite:
  assumes "r \<in> set (elements (chain (mapTunnelCatalog p) ''resources''))"
  shows "is_array (chain r ''local_ports'') \<and> list_all is_finite (elements (chain r ''local_ports''))"
proof -
  obtain item where "r = mapCatalogResource item"
    using assms by (auto simp: mapTunnelCatalog_def elements_def)
  then show ?thesis by (simp add: mapCatalogResource_def Let_def is_array_def elements_def list_all_iff)
qed

text \<open>The single port is the first one listed, unless that one is not a finite number.\<close>

lemma catalog_first_port:
  assumes "chain item ''local_ports'' = JArr (x # xs)" "is_finite (js_Number x)"
  shows "chain (mapCatalogResource item) ''local_port'' = hd (elements (chain (mapCatalogResource item) ''local_ports''))"
  using assms by (simp add: mapCatalogResource_def Let_def is_array_def elements_def)

end
