(* ===== verification/GatewayApi.thy ===== *)
theory GatewayApi
  imports MockGateway WorkspaceLaws
begin

text \<open>
  The facade \<open>gatewayApi\<close> of \<open>api/gateway.ts\<close>: every call the pages make goes either to the mock
  module or to the server, depending on the build variable \<open>VITE_API_MODE\<close>. The state of a client is
  the outcome of loading the mock module, the mock module's own state, and the network, which \<open>fetch\<close>
  and the dynamic import read and change. \<open>fetch\<close> is a parameter of every operation that sends a
  request, at the type of the data that request asks for; an operation that sends two requests has two.

  \<open>Promise.all\<close> of two requests sends both whatever becomes of the first; when both fail, the model
  reports the first of the list. \<open>new Date().toISOString()\<close> is an argument.
\<close>

subsection \<open>Environment and dispatch\<close>

record 'w ApiEnv = HttpEnv +
  ae_api_mode :: "string option"
  ae_import :: "'w \<Rightarrow> unit js_result \<times> 'w"

record 'w ApiState =
  as_module :: "unit js_result option"
  as_mock :: MockState
  as_net :: 'w

type_synonym ('r, 'w) api = "'w ApiState \<Rightarrow> 'r js_result \<times> 'w ApiState"

definition useMockMode :: "'w ApiEnv \<Rightarrow> bool" where
  "useMockMode env \<longleftrightarrow> toLowerCase (nullish (ae_api_mode env) ''real'') = ''mock''"

definition from_server :: "('w \<Rightarrow> 'r js_result \<times> 'w) \<Rightarrow> ('r, 'w) api" where
  "from_server p st = (let (r, w) = p (as_net st) in (r, st\<lparr>as_net := w\<rparr>))"

definition from_mock :: "'w ApiEnv \<Rightarrow> (MockState \<Rightarrow> 'r js_result \<times> MockState) \<Rightarrow> ('r, 'w) api" where
  "from_mock env handler st =
     (let (r, c, w, s) = callMockGateway (ae_import env) (\<lambda>_. handler) (as_module st) (as_net st) (as_mock st)
      in (r, \<lparr>as_module = c, as_mock = s, as_net = w\<rparr>))"

definition dispatch ::
  "'w ApiEnv \<Rightarrow> (MockState \<Rightarrow> 'r js_result \<times> MockState) \<Rightarrow> ('w \<Rightarrow> 'r js_result \<times> 'w) \<Rightarrow> ('r, 'w) api" where
  "dispatch env handler p st = (if useMockMode env then from_mock env handler st else from_server p st)"

definition map_result :: "('a \<Rightarrow> 'b) \<Rightarrow> ('s \<Rightarrow> 'a js_result \<times> 's) \<Rightarrow> 's \<Rightarrow> 'b js_result \<times> 's" where
  "map_result f p s = (let (r, s') = p s in (case r of Inl e \<Rightarrow> Inl e | Inr x \<Rightarrow> Inr (f x), s'))"

definition then_result :: "('a \<Rightarrow> 'b js_result) \<Rightarrow> ('s \<Rightarrow> 'a js_result \<times> 's) \<Rightarrow> 's \<Rightarrow> 'b js_result \<times> 's" where
  "then_result f p s = (let (r, s') = p s in (case r of Inl e \<Rightarrow> Inl e | Inr x \<Rightarrow> f x, s'))"

definition unwrap :: "('s \<Rightarrow> 't ApiResponse js_result \<times> 's) \<Rightarrow> 's \<Rightarrow> 't js_result \<times> 's" where
  "unwrap p = map_result ar_data p"

definition promise_all ::
  "('s \<Rightarrow> 'a js_result \<times> 's) \<Rightarrow> ('s \<Rightarrow> 'b js_result \<times> 's) \<Rightarrow> 's \<Rightarrow> ('a \<times> 'b) js_result \<times> 's" where
  "promise_all p q s =
     (let (a, s') = p s; (b, s'') = q s'
      in (case a of Inl e \<Rightarrow> Inl e | Inr x \<Rightarrow> (case b of Inl e \<Rightarrow> Inl e | Inr y \<Rightarrow> Inr (x, y)), s''))"

text \<open>Mock operations that only read, and ones that cannot fail.\<close>

definition mock_read :: "(MockState \<Rightarrow> 'r) \<Rightarrow> MockState \<Rightarrow> 'r js_result \<times> MockState" where
  "mock_read f s = (Inr (f s), s)"

definition mock_write :: "(MockState \<Rightarrow> 'r \<times> MockState) \<Rightarrow> MockState \<Rightarrow> 'r js_result \<times> MockState" where
  "mock_write f s = (Inr (fst (f s)), snd (f s))"

definition call ::
  "'w ApiEnv \<Rightarrow> ('b, 't, 'w) fetcher \<Rightarrow> string \<Rightarrow> string \<Rightarrow> (string \<times> param_value) list option \<Rightarrow> 'b RequestBody \<Rightarrow>
    'w \<Rightarrow> 't js_result \<times> 'w" where
  "call env fetch verb path params body =
     unwrap (request env fetch path \<lparr>ro_method = Some verb, ro_params = params, ro_headers = [], ro_body = body\<rparr>)"

definition get_json :: "'w ApiEnv \<Rightarrow> ('b, 't, 'w) fetcher \<Rightarrow> string \<Rightarrow> 'w \<Rightarrow> 't js_result \<times> 'w" where
  "get_json env fetch path = call env fetch ''GET'' path None NoBody"

definition send_json ::
  "'w ApiEnv \<Rightarrow> ('b, 't, 'w) fetcher \<Rightarrow> string \<Rightarrow> string \<Rightarrow> 'b \<Rightarrow> 'w \<Rightarrow> 't js_result \<times> 'w" where
  "send_json env fetch verb path body = call env fetch verb path None (JsonBody body)"

text \<open>\<open>encodeURIComponent\<close>, byte by byte over the UTF-8 text.\<close>

definition encodeURIComponent :: "string \<Rightarrow> string" where
  "encodeURIComponent s = concat (map (\<lambda>c.
     if is_alnum c \<or> c \<in> set ''-_.!~*()'' \<or> c = CHR 0x27 then [c] else percent c) s)"

fun task_status_text :: "TaskStatus \<Rightarrow> string" where
  "task_status_text Task_pending = ''pending''"
| "task_status_text Task_accepted = ''accepted''"
| "task_status_text Task_running = ''running''"
| "task_status_text Task_transferring = ''transferring''"
| "task_status_text Task_verifying = ''verifying''"
| "task_status_text Task_retry_wait = ''retry_wait''"
| "task_status_text Task_succeeded = ''succeeded''"
| "task_status_text Task_failed = ''failed''"
| "task_status_text Task_dead_lettered = ''dead_lettered''"
| "task_status_text Task_cancelled = ''cancelled''"

definition p_str :: "string option \<Rightarrow> param_value" where
  "p_str v = (case v of None \<Rightarrow> P_undefined | Some s \<Rightarrow> P_str s)"

definition p_bool :: "bool option \<Rightarrow> param_value" where
  "p_bool v = (case v of None \<Rightarrow> P_undefined | Some b \<Rightarrow> P_bool b)"

definition p_num :: "int option \<Rightarrow> param_value" where
  "p_num v = (case v of None \<Rightarrow> P_undefined | Some n \<Rightarrow> P_num n)"

record Pagination =
  pg_total :: int
  pg_page :: int
  pg_page_size :: int

record 'i ItemsPage =
  ip_items :: "'i list"
  ip_pagination :: Pagination

record 'i Items =
  it_items :: "'i list"

definition page_of :: "('i \<Rightarrow> 'a) \<Rightarrow> 'i ItemsPage \<Rightarrow> 'a TaskListResult" where
  "page_of f r =
     \<lparr>tlr_list = map f (ip_items r), tlr_total = pg_total (ip_pagination r), tlr_page = pg_page (ip_pagination r),
      tlr_pageSize = pg_page_size (ip_pagination r)\<rparr>"

subsection \<open>Tasks and dashboard\<close>

definition task_params :: "string \<Rightarrow> TaskListFilters \<Rightarrow> int \<Rightarrow> int \<Rightarrow> (string \<times> param_value) list" where
  "task_params task_type filters page pageSize =
     [(''task_type'', P_str task_type), (''status'', p_str (map_option task_status_text (tf_status filters))),
      (''request_id'', p_str (tf_requestId filters)), (''trace_id'', p_str (tf_traceId filters)),
      (''page'', P_num page), (''page_size'', P_num pageSize)]"

definition fetchCommandTasks ::
  "'w ApiEnv \<Rightarrow> ('b, TaskApiModel ItemsPage, 'w) fetcher \<Rightarrow> TaskListFilters \<Rightarrow> int \<Rightarrow> int \<Rightarrow> (CommandTask TaskListResult, 'w) api" where
  "fetchCommandTasks env fetch filters page pageSize =
     dispatch env (mock_read (\<lambda>_. fetchCommandTasksMock filters page pageSize))
       (map_result (page_of mapTask)
         (call env fetch ''GET'' ''/tasks'' (Some (task_params ''command'' filters page pageSize)) NoBody))"

definition fetchFileTasks ::
  "'w ApiEnv \<Rightarrow> ('b, TaskApiModel ItemsPage, 'w) fetcher \<Rightarrow> TaskListFilters \<Rightarrow> int \<Rightarrow> int \<Rightarrow> (FileTask TaskListResult, 'w) api" where
  "fetchFileTasks env fetch filters page pageSize =
     dispatch env (mock_read (\<lambda>_. fetchFileTasksMock filters page pageSize))
       (map_result (page_of mapFileTask)
         (call env fetch ''GET'' ''/tasks'' (Some (task_params ''file'' filters page pageSize)) NoBody))"

definition no_task_filters :: TaskListFilters where
  "no_task_filters = \<lparr>tf_status = None, tf_requestId = None, tf_traceId = None, tf_startAt = None, tf_endAt = None, tf_nodeId = None\<rparr>"

definition fetchDashboard :: "'w ApiEnv \<Rightarrow> ('b, TaskApiModel ItemsPage, 'w) fetcher \<Rightarrow> (DashboardPayload, 'w) api" where
  "fetchDashboard env fetch st =
     (if useMockMode env then from_mock env (mock_read (\<lambda>_. fetchDashboardMock)) st
      else map_result
             (\<lambda>(commandTasks, fileTasks).
                dashboardOfStatuses (map ct_status (tlr_list commandTasks) @ map ft_status (tlr_list fileTasks)))
             (promise_all (fetchCommandTasks env fetch no_task_filters 1 200) (fetchFileTasks env fetch no_task_filters 1 200)) st)"

definition fetchTaskDetail :: "'w ApiEnv \<Rightarrow> ('b, TaskApiModel, 'w) fetcher \<Rightarrow> string \<Rightarrow> TaskKind \<Rightarrow> (TaskDetail, 'w) api" where
  "fetchTaskDetail env fetch tid taskKind =
     dispatch env (mock_read (\<lambda>_. fetchTaskDetailMock tid taskKind))
       (map_result (mapTaskDetail taskKind) (get_json env fetch (''/tasks/'' @ tid)))"

definition fetchStartupSummary :: "'w ApiEnv \<Rightarrow> ('b, StartupSummaryPayload, 'w) fetcher \<Rightarrow> (StartupSummaryPayload, 'w) api" where
  "fetchStartupSummary env fetch = dispatch env (mock_read (\<lambda>_. fetchStartupSummaryMock)) (get_json env fetch ''/startup-summary'')"

definition fetchSystemStatus :: "'w ApiEnv \<Rightarrow> ('b, SystemStatusPayload, 'w) fetcher \<Rightarrow> (SystemStatusPayload, 'w) api" where
  "fetchSystemStatus env fetch = dispatch env (mock_read (\<lambda>_. fetchSystemStatusMock)) (get_json env fetch ''/system/status'')"

subsection \<open>Tunnel, resources and catalog\<close>

definition fetchTunnelConfig :: "'w ApiEnv \<Rightarrow> ('b, TunnelConfigPayload, 'w) fetcher \<Rightarrow> (TunnelConfigPayload, 'w) api" where
  "fetchTunnelConfig env fetch = dispatch env (mock_read fetchTunnelConfigMock) (get_json env fetch ''/tunnel/config'')"

definition saveTunnelConfig ::
  "'w ApiEnv \<Rightarrow> (TunnelConfigUpdatePayload, TunnelConfigPayload, 'w) fetcher \<Rightarrow> TunnelConfigUpdatePayload \<Rightarrow> (TunnelConfigPayload, 'w) api" where
  "saveTunnelConfig env fetch payload =
     dispatch env (mock_write (saveTunnelConfigMock payload)) (send_json env fetch ''POST'' ''/tunnel/config'' payload)"

definition fetchLocalResources :: "'w ApiEnv \<Rightarrow> ('b, LocalResourceListPayload, 'w) fetcher \<Rightarrow> (LocalResourceListPayload, 'w) api" where
  "fetchLocalResources env fetch = dispatch env (mock_read fetchLocalResourcesMock) (get_json env fetch ''/resources/local'')"

text \<open>The server's answer to a change of a resource is passed on without a declared type.\<close>

definition createLocalResource ::
  "'w ApiEnv \<Rightarrow> (LocalResourceSavePayload, jsval, 'w) fetcher \<Rightarrow> LocalResourceSavePayload \<Rightarrow> string \<Rightarrow> (jsval, 'w) api" where
  "createLocalResource env fetch payload now =
     dispatch env (mock_write (\<lambda>s. (JUndefined, createLocalResourceMock payload now s)))
       (send_json env fetch ''POST'' ''/resources/local'' payload)"

definition updateLocalResource ::
  "'w ApiEnv \<Rightarrow> (LocalResourceSavePayload, jsval, 'w) fetcher \<Rightarrow> string \<Rightarrow> LocalResourceSavePayload \<Rightarrow> string \<Rightarrow> (jsval, 'w) api" where
  "updateLocalResource env fetch resourceCode payload now =
     dispatch env (map_result (\<lambda>_. JUndefined) (updateLocalResourceMock resourceCode payload now))
       (send_json env fetch ''PUT'' (''/resources/local/'' @ encodeURIComponent resourceCode) payload)"

definition deleteLocalResource :: "'w ApiEnv \<Rightarrow> ('b, jsval, 'w) fetcher \<Rightarrow> string \<Rightarrow> (jsval, 'w) api" where
  "deleteLocalResource env fetch resourceCode =
     dispatch env (mock_write (\<lambda>s. (JUndefined, deleteLocalResourceMock resourceCode s)))
       (call env fetch ''DELETE'' (''/resources/local/'' @ encodeURIComponent resourceCode) None NoBody)"

text \<open>Two operations answer with the mock's record or with a mapped dynamic value.\<close>

definition fetchTunnelCatalog :: "'w ApiEnv \<Rightarrow> ('b, jsval, 'w) fetcher \<Rightarrow> (TunnelCatalogPayload + jsval, 'w) api" where
  "fetchTunnelCatalog env fetch =
     dispatch env (mock_read (\<lambda>_. Inl fetchTunnelCatalogMock))
       (map_result (\<lambda>p. Inr (mapTunnelCatalog p)) (get_json env fetch ''/tunnel/catalog''))"

definition fetchTunnelMappingOverview ::
  "'w ApiEnv \<Rightarrow> ('b, TunnelMappingOverviewPayload, 'w) fetcher \<Rightarrow> (TunnelMappingOverviewPayload, 'w) api" where
  "fetchTunnelMappingOverview env fetch =
     dispatch env (mock_read (\<lambda>_. fetchTunnelMappingOverviewMock)) (get_json env fetch ''/tunnel/mappings'')"

definition fetchGB28181State :: "'w ApiEnv \<Rightarrow> ('b, jsval, 'w) fetcher \<Rightarrow> (GB28181StatePayload + jsval, 'w) api" where
  "fetchGB28181State env fetch =
     dispatch env (mock_read (\<lambda>s. Inl (fetchGB28181StateMock s)))
       (map_result Inr (then_result mapGB28181State (get_json env fetch ''/tunnel/gb28181/state'')))"

definition fetchLinkMonitor :: "'w ApiEnv \<Rightarrow> ('b, LinkMonitorPayload, 'w) fetcher \<Rightarrow> string \<Rightarrow> (LinkMonitorPayload, 'w) api" where
  "fetchLinkMonitor env fetch now = dispatch env (mock_read (fetchLinkMonitorMock now)) (get_json env fetch ''/link-monitor'')"

definition triggerTunnelSessionAction ::
  "'w ApiEnv \<Rightarrow> (TunnelSessionActionPayload, TunnelSessionActionResponse, 'w) fetcher \<Rightarrow> TunnelSessionActionPayload \<Rightarrow>
    (TunnelSessionActionResponse, 'w) api" where
  "triggerTunnelSessionAction env fetch payload = from_server (send_json env fetch ''POST'' ''/tunnel/session/actions'' payload)"

definition triggerTunnelCatalogAction ::
  "'w ApiEnv \<Rightarrow> (TunnelCatalogActionPayload, TunnelCatalogActionResponse, 'w) fetcher \<Rightarrow> TunnelCatalogActionPayload \<Rightarrow>
    (TunnelCatalogActionResponse, 'w) api" where
  "triggerTunnelCatalogAction env fetch payload =
     dispatch env (mock_read (\<lambda>_. triggerTunnelCatalogActionMock payload))
       (send_json env fetch ''POST'' ''/tunnel/catalog/actions'' payload)"

subsection \<open>Nodes and peers\<close>

definition fetchNodeConfig :: "'w ApiEnv \<Rightarrow> ('b, NodeConfigPayload, 'w) fetcher \<Rightarrow> (NodeConfigPayload, 'w) api" where
  "fetchNodeConfig env fetch = dispatch env (mock_read fetchNodeConfigMock) (get_json env fetch ''/node/config'')"

definition saveNodeConfig ::
  "'w ApiEnv \<Rightarrow> (NodeConfigPayload, SaveNodeConfigResult, 'w) fetcher \<Rightarrow> NodeConfigPayload \<Rightarrow> (SaveNodeConfigResult, 'w) api" where
  "saveNodeConfig env fetch payload =
     dispatch env (mock_write (saveNodeConfigMock payload)) (send_json env fetch ''POST'' ''/node/config'' payload)"

definition fetchNodeDetail :: "'w ApiEnv \<Rightarrow> ('b, NodeDetailPayload, 'w) fetcher \<Rightarrow> (NodeDetailPayload, 'w) api" where
  "fetchNodeDetail env fetch = dispatch env (mock_read fetchNodeDetailMock) (get_json env fetch ''/node'')"

definition updateLocalNode ::
  "'w ApiEnv \<Rightarrow> (LocalNodeConfig, LocalNodeConfig, 'w) fetcher \<Rightarrow> LocalNodeConfig \<Rightarrow> (LocalNodeConfig, 'w) api" where
  "updateLocalNode env fetch payload =
     dispatch env (mock_write (updateLocalNodeMock payload)) (send_json env fetch ''PUT'' ''/node'' payload)"

definition fetchPeers :: "'w ApiEnv \<Rightarrow> ('b, PeerListPayload, 'w) fetcher \<Rightarrow> (PeerListPayload, 'w) api" where
  "fetchPeers env fetch = dispatch env (mock_read fetchPeersMock) (get_json env fetch ''/peers'')"

definition createPeer ::
  "'w ApiEnv \<Rightarrow> (PeerNodeConfig, PeerNodeConfig, 'w) fetcher \<Rightarrow> PeerNodeConfig \<Rightarrow> (PeerNodeConfig, 'w) api" where
  "createPeer env fetch payload =
     dispatch env (mock_write (createPeerMock payload)) (send_json env fetch ''POST'' ''/peers'' payload)"

definition updatePeer ::
  "'w ApiEnv \<Rightarrow> (PeerUpdatePayload, PeerNodeConfig, 'w) fetcher \<Rightarrow> string \<Rightarrow> PeerUpdatePayload \<Rightarrow> (PeerNodeConfig, 'w) api" where
  "updatePeer env fetch peerNodeId payload =
     dispatch env (updatePeerMock peerNodeId payload) (send_json env fetch ''PUT'' (''/peers/'' @ peerNodeId) payload)"

definition deletePeer :: "'w ApiEnv \<Rightarrow> ('b, PeerIdPayload, 'w) fetcher \<Rightarrow> string \<Rightarrow> (PeerIdPayload, 'w) api" where
  "deletePeer env fetch peerNodeId =
     dispatch env (mock_write (deletePeerMock peerNodeId)) (call env fetch ''DELETE'' (''/peers/'' @ peerNodeId) None NoBody)"

definition fetchNodeNetworkStatus ::
  "'w ApiEnv \<Rightarrow> ('b, NodeNetworkStatusPayload, 'w) fetcher \<Rightarrow> (NodeNetworkStatusPayload, 'w) api" where
  "fetchNodeNetworkStatus env fetch =
     dispatch env (mock_read fetchNodeNetworkStatusMock) (get_json env fetch ''/node/network-status'')"

subsection \<open>Limits, routes and mappings\<close>

record RoutesBody =
  rb_routes :: "OpsRoute list"

definition fetchLimits :: "'w ApiEnv \<Rightarrow> ('b, OpsLimits, 'w) fetcher \<Rightarrow> (OpsLimits, 'w) api" where
  "fetchLimits env fetch = from_server (get_json env fetch ''/limits'')"

definition updateLimits :: "'w ApiEnv \<Rightarrow> (OpsLimits, OpsLimits, 'w) fetcher \<Rightarrow> OpsLimits \<Rightarrow> (OpsLimits, 'w) api" where
  "updateLimits env fetch payload = from_server (send_json env fetch ''PUT'' ''/limits'' payload)"

definition fetchRoutes :: "'w ApiEnv \<Rightarrow> ('b, OpsRoute Items, 'w) fetcher \<Rightarrow> (OpsRoute list, 'w) api" where
  "fetchRoutes env fetch = from_server (map_result it_items (get_json env fetch ''/routes''))"

definition updateRoutes :: "'w ApiEnv \<Rightarrow> (RoutesBody, OpsRoute Items, 'w) fetcher \<Rightarrow> OpsRoute list \<Rightarrow> (OpsRoute list, 'w) api" where
  "updateRoutes env fetch routes =
     from_server (map_result it_items (send_json env fetch ''PUT'' ''/routes'' \<lparr>rb_routes = routes\<rparr>))"

definition fetchMappings :: "'w ApiEnv \<Rightarrow> ('b, TunnelMappingListPayload, 'w) fetcher \<Rightarrow> (TunnelMappingListPayload, 'w) api" where
  "fetchMappings env fetch = dispatch env (mock_read fetchMappingsMock) (get_json env fetch ''/mappings'')"

definition createMapping ::
  "'w ApiEnv \<Rightarrow> (TunnelMapping, TunnelMappingSavePayload, 'w) fetcher \<Rightarrow> TunnelMapping \<Rightarrow> string \<Rightarrow> (TunnelMappingSavePayload, 'w) api" where
  "createMapping env fetch payload now =
     dispatch env (mock_write (createMappingMock payload now)) (send_json env fetch ''POST'' ''/mappings'' payload)"

definition updateMapping ::
  "'w ApiEnv \<Rightarrow> (TunnelMapping, TunnelMappingSavePayload, 'w) fetcher \<Rightarrow> string \<Rightarrow> TunnelMapping \<Rightarrow> string \<Rightarrow>
    (TunnelMappingSavePayload, 'w) api" where
  "updateMapping env fetch mid payload now =
     dispatch env (updateMappingMock mid payload now) (send_json env fetch ''PUT'' (''/mappings/'' @ mid) payload)"

definition deleteMapping :: "'w ApiEnv \<Rightarrow> ('b, jsval, 'w) fetcher \<Rightarrow> string \<Rightarrow> (unit, 'w) api" where
  "deleteMapping env fetch mid =
     dispatch env (mock_write (\<lambda>s. ((), deleteMappingMock mid s)))
       (map_result (\<lambda>_. ()) (call env fetch ''DELETE'' (''/mappings/'' @ mid) None NoBody))"

definition testMapping :: "'w ApiEnv \<Rightarrow> ('b, MappingTestPayload, 'w) fetcher \<Rightarrow> (MappingTestPayload, 'w) api" where
  "testMapping env fetch =
     dispatch env (mock_read (\<lambda>_. testMappingMock)) (call env fetch ''POST'' ''/mapping/test'' None NoBody)"

definition fetchNodes :: "'w ApiEnv \<Rightarrow> ('b, OpsNode Items, 'w) fetcher \<Rightarrow> (OpsNode list, 'w) api" where
  "fetchNodes env fetch = from_server (map_result it_items (get_json env fetch ''/nodes''))"

subsection \<open>Audits, link tests and access logs\<close>

definition fetchAudits ::
  "'w ApiEnv \<Rightarrow> ('b, OpsAuditEvent ItemsPage, 'w) fetcher \<Rightarrow> int \<Rightarrow> int \<Rightarrow> OpsAuditFilters option \<Rightarrow> (OpsAuditEvent TaskListResult, 'w) api" where
  "fetchAudits env fetch page pageSize query =
     from_server (map_result (page_of (\<lambda>x. x))
       (call env fetch ''GET'' ''/audits'' (Some
          [(''page'', P_num page), (''page_size'', P_num pageSize),
           (''request_id'', p_str (Option.bind query oaf_requestId)), (''trace_id'', p_str (Option.bind query oaf_traceId)),
           (''rule'', p_str (Option.bind query oaf_rule)), (''error_only'', p_bool (Option.bind query oaf_errorOnly)),
           (''start_time'', p_str (Option.bind query oaf_startTime)),
           (''end_time'', p_str (Option.bind query oaf_endTime))]) NoBody))"

record LinkTestRequest =
  ltr_target :: "string option"

definition mockLinkTest :: "string \<Rightarrow> OpsLinkTestReport" where
  "mockLinkTest now =
     \<lparr>oltr_passed = True, oltr_status = Test_passed, oltr_request_id = ''req-link-mock-001'',
      oltr_trace_id = ''trace-link-mock-001'', oltr_duration_ms = 42, oltr_checked_at = now,
      oltr_mock_target = ''http://10.20.0.20:8080/healthz'',
      oltr_items =
        [\<lparr>olti_name = Some ''sip_control'', olti_passed = True, olti_status = Test_passed,
          olti_detail = (uni ''SIP TCP ~63A7~5236~9762~63E1~624B~6210~529F~FF08~65E0~4E1A~52A1~8F7D~8377~FF09''), olti_duration_ms = 11\<rparr>,
         \<lparr>olti_name = Some ''rtp_port_pool'', olti_passed = True, olti_status = Test_passed,
          olti_detail = (uni ''RTP ~7AEF~53E3~6C60~53EF~7528: 874/1000''), olti_duration_ms = 8\<rparr>,
         \<lparr>olti_name = Some ''http_downstream'', olti_passed = True, olti_status = Test_passed,
          olti_detail = (uni ''HTTP ~5DF2~914D~7F6E~76EE~6807~63A2~6D4B~6210~529F''), olti_duration_ms = 23\<rparr>]\<rparr>"

text \<open>Two operations answer in mock mode without the mock module.\<close>

definition runLinkTest ::
  "'w ApiEnv \<Rightarrow> (LinkTestRequest, OpsLinkTestReport, 'w) fetcher \<Rightarrow> LinkTestRequest option \<Rightarrow> string \<Rightarrow> (OpsLinkTestReport, 'w) api" where
  "runLinkTest env fetch payload now st =
     (if useMockMode env then (Inr (mockLinkTest now), st)
      else from_server (send_json env fetch ''POST'' ''/ops/link-test'' (nullish payload \<lparr>ltr_target = None\<rparr>)) st)"

definition fetchLatestLinkTest :: "'w ApiEnv \<Rightarrow> ('b, OpsLinkTestReport, 'w) fetcher \<Rightarrow> (OpsLinkTestReport, 'w) api" where
  "fetchLatestLinkTest env fetch = from_server (get_json env fetch ''/ops/link-test'')"

record AccessLogWire = "AccessLogEntry ItemsPage" +
  alw_summary :: AccessLogSummary

record AccessLogPage = "AccessLogEntry TaskListResult" +
  alp_summary :: AccessLogSummary

definition fetchAccessLogs ::
  "'w ApiEnv \<Rightarrow> ('b, AccessLogWire, 'w) fetcher \<Rightarrow> AccessLogQuery \<Rightarrow> int \<Rightarrow> int \<Rightarrow> (AccessLogPage, 'w) api" where
  "fetchAccessLogs env fetch filters page pageSize =
     from_server (map_result
       (\<lambda>r. \<lparr>tlr_list = ip_items r, tlr_total = pg_total (ip_pagination r), tlr_page = pg_page (ip_pagination r),
             tlr_pageSize = pg_page_size (ip_pagination r), alp_summary = alw_summary r\<rparr>)
       (call env fetch ''GET'' ''/access-logs'' (Some
          [(''status'', p_num (alq_status filters)), (''mapping'', p_str (alq_mapping filters)),
           (''source_ip'', p_str (alq_sourceIP filters)), (''method'', p_str (alq_method filters)),
           (''slow_only'', p_bool (alq_slowOnly filters)), (''failed_only'', p_bool (alq_failedOnly filters)),
           (''start_time'', p_str (alq_startTime filters)), (''end_time'', p_str (alq_endTime filters)),
           (''page'', P_num page), (''page_size'', P_num pageSize)]) NoBody))"

subsection \<open>Dashboard summaries and workspaces\<close>

definition fetchDashboardSummary :: "'w ApiEnv \<Rightarrow> ('b, DashboardSummaryWire, 'w) fetcher \<Rightarrow> (DashboardSummary, 'w) api" where
  "fetchDashboardSummary env fetch = from_server (map_result mapDashboardSummary (get_json env fetch ''/dashboard/summary''))"

definition fetchDashboardOpsSummary ::
  "'w ApiEnv \<Rightarrow> ('b, DashboardOpsSummaryPayload, 'w) fetcher \<Rightarrow> (DashboardOpsSummary, 'w) api" where
  "fetchDashboardOpsSummary env fetch =
     from_server (map_result mapDashboardOpsSummary (get_json env fetch ''/dashboard/ops-summary''))"

definition fetchDashboardTrends ::
  "'w ApiEnv \<Rightarrow> ('b, DashboardTrendSeries, 'w) fetcher \<Rightarrow> string \<Rightarrow> string \<Rightarrow> (DashboardTrendSeries, 'w) api" where
  "fetchDashboardTrends env fetch range_text granularity =
     from_server (call env fetch ''GET'' ''/dashboard/trends''
       (Some [(''range'', P_str range_text), (''granularity'', P_str granularity)]) NoBody)"

definition fetchNodeTunnelWorkspace :: "'w ApiEnv \<Rightarrow> ('b, jsval, 'w) fetcher \<Rightarrow> (jsval, 'w) api" where
  "fetchNodeTunnelWorkspace env fetch =
     from_server (map_result mapNodeTunnelWorkspace (get_json env fetch ''/node-tunnel/workspace''))"

definition saveNodeTunnelWorkspace :: "'w ApiEnv \<Rightarrow> (jsval, jsval, 'w) fetcher \<Rightarrow> jsval \<Rightarrow> (jsval, 'w) api" where
  "saveNodeTunnelWorkspace env fetch payload =
     from_server (map_result mapNodeTunnelWorkspace
       (send_json env fetch ''POST'' ''/node-tunnel/workspace'' (toNodeTunnelWorkspacePayload payload)))"

definition fetchMappingWorkspaceList ::
  "'w ApiEnv \<Rightarrow> ('b, TunnelMappingListPayload, 'w) fetcher \<Rightarrow> (MappingWorkspaceList, 'w) api" where
  "fetchMappingWorkspaceList env fetch =
     from_server (map_result (\<lambda>p. \<lparr>mwl_items = map mapMappingWorkspaceItem (tmlp_items p)\<rparr>)
       (get_json env fetch ''/mappings''))"

subsection \<open>Protection\<close>

record RestrictionPayload =
  rp_scope :: string
  rp_target :: string
  rp_minutes :: int
  rp_reason :: "string option"

record RestrictionKey =
  rk_scope :: string
  rk_target :: string

record RecoverBody =
  rcb_target :: "string option"

definition fetchProtectionState :: "'w ApiEnv \<Rightarrow> ('b, jsval, 'w) fetcher \<Rightarrow> (jsval, 'w) api" where
  "fetchProtectionState env fetch = from_server (map_result mapProtectionState (get_json env fetch ''/protection/state''))"

definition fetchSystemResourceUsage :: "'w ApiEnv \<Rightarrow> ('b, SystemResourceUsage, 'w) fetcher \<Rightarrow> (SystemResourceUsage, 'w) api" where
  "fetchSystemResourceUsage env fetch = from_server (get_json env fetch ''/system/resource-usage'')"

definition upsertProtectionRestriction ::
  "'w ApiEnv \<Rightarrow> (RestrictionPayload, jsval, 'w) fetcher \<Rightarrow> RestrictionPayload \<Rightarrow> (jsval, 'w) api" where
  "upsertProtectionRestriction env fetch payload =
     from_server (map_result with_protection_state (send_json env fetch ''POST'' ''/protection/restrictions'' payload))"

definition removeProtectionRestriction ::
  "'w ApiEnv \<Rightarrow> (RestrictionKey, jsval, 'w) fetcher \<Rightarrow> string \<Rightarrow> string \<Rightarrow> (jsval, 'w) api" where
  "removeProtectionRestriction env fetch scope target =
     from_server (map_result with_protection_state
       (send_json env fetch ''DELETE'' ''/protection/restrictions'' \<lparr>rk_scope = scope, rk_target = target\<rparr>))"

definition updateProtectionState :: "'w ApiEnv \<Rightarrow> (jsval, jsval, 'w) fetcher \<Rightarrow> jsval \<Rightarrow> (jsval, 'w) api" where
  "updateProtectionState env fetch payload =
     from_server (map_result mapProtectionState
       (send_json env fetch ''PUT'' ''/protection/state'' (protection_update_body payload)))"

definition recoverProtectionCircuit :: "'w ApiEnv \<Rightarrow> (RecoverBody, jsval, 'w) fetcher \<Rightarrow> string option \<Rightarrow> (jsval, 'w) api" where
  "recoverProtectionCircuit env fetch target =
     from_server (map_result with_protection_state
       (send_json env fetch ''POST'' ''/protection/circuit/recover'' \<lparr>rcb_target = target\<rparr>))"

definition restartGateway :: "'w ApiEnv \<Rightarrow> ('b, GatewayRestartResponse, 'w) fetcher \<Rightarrow> string \<Rightarrow> (GatewayRestartResponse, 'w) api" where
  "restartGateway env fetch now st =
     (if useMockMode env
      then (Inr \<lparr>grr_accepted = True, grr_command = ''mock restart gateway'', grr_scheduled_at = now\<rparr>, st)
      else from_server (call env fetch ''POST'' ''/gateway/restart'' None NoBody) st)"

subsection \<open>Settings and security\<close>

record SecuritySettings =
  sset_signer :: string
  sset_encryption :: string
  sset_verify_interval_min :: int

record LicenseUpdate =
  lu_token :: "string option"
  lu_content :: "string option"

definition fetchSystemSettings ::
  "'w ApiEnv \<Rightarrow> ('b, SystemSettingsPayload, 'w) fetcher \<Rightarrow> ('c, StartupSummaryPayload, 'w) fetcher \<Rightarrow> (SystemSettingsState, 'w) api" where
  "fetchSystemSettings env fetch fetch_summary =
     map_result (\<lambda>(payload, summary). mapSystemSettings payload summary)
       (promise_all (from_server (get_json env fetch ''/system/settings'')) (fetchStartupSummary env fetch_summary))"

definition updateSystemSettings ::
  "'w ApiEnv \<Rightarrow> (SystemSettingsPayload, SystemSettingsPayload, 'w) fetcher \<Rightarrow> ('c, StartupSummaryPayload, 'w) fetcher \<Rightarrow>
    SystemSettingsState \<Rightarrow> (SystemSettingsState, 'w) api" where
  "updateSystemSettings env fetch fetch_summary payload st =
     (case from_server (send_json env fetch ''POST'' ''/system/settings'' (settingsRequest payload)) st of
        (Inl e, st') \<Rightarrow> (Inl e, st')
      | (Inr _, st') \<Rightarrow> fetchSystemSettings env fetch fetch_summary st')"

definition fetchSecurityState :: "'w ApiEnv \<Rightarrow> ('b, SecurityStatePayload, 'w) fetcher \<Rightarrow> (SecurityCenterState, 'w) api" where
  "fetchSecurityState env fetch = from_server (map_result mapSecurityState (get_json env fetch ''/security/state''))"

definition fetchSecuritySettings :: "'w ApiEnv \<Rightarrow> ('b, SecuritySettings, 'w) fetcher \<Rightarrow> (SecuritySettings, 'w) api" where
  "fetchSecuritySettings env fetch = from_server (get_json env fetch ''/security/settings'')"

definition updateSecuritySettings ::
  "'w ApiEnv \<Rightarrow> (SecuritySettings, SecuritySettings, 'w) fetcher \<Rightarrow> SecuritySettings \<Rightarrow> (SecuritySettings, 'w) api" where
  "updateSecuritySettings env fetch payload = from_server (send_json env fetch ''PUT'' ''/security/settings'' payload)"

definition fetchLicense :: "'w ApiEnv \<Rightarrow> ('b, LicensePayload, 'w) fetcher \<Rightarrow> (LicensePayload, 'w) api" where
  "fetchLicense env fetch = from_server (get_json env fetch ''/license'')"

definition updateLicense :: "'w ApiEnv \<Rightarrow> (LicenseUpdate, LicensePayload, 'w) fetcher \<Rightarrow> LicenseUpdate \<Rightarrow> (LicensePayload, 'w) api" where
  "updateLicense env fetch payload = from_server (send_json env fetch ''PUT'' ''/license'' payload)"

definition fetchMachineCode :: "'w ApiEnv \<Rightarrow> ('b, MachineCodePayload, 'w) fetcher \<Rightarrow> (MachineCodePayload, 'w) api" where
  "fetchMachineCode env fetch = from_server (get_json env fetch ''/license/machine-code'')"

definition fetchSecurityEvents :: "'w ApiEnv \<Rightarrow> ('b, SecurityEventRecord list, 'w) fetcher \<Rightarrow> (SecurityEventRecord list, 'w) api" where
  "fetchSecurityEvents env fetch = from_server (get_json env fetch ''/security/events'')"

subsection \<open>Diagnostics and load tests\<close>

record LoadtestStart =
  lts_targets :: "string list option"
  lts_http_url :: "string option"
  lts_sip_address :: "string option"
  lts_rtp_address :: "string option"
  lts_gateway_base_url :: "string option"
  lts_concurrency :: "int option"
  lts_qps :: "int option"
  lts_duration_sec :: "int option"
  lts_output_dir :: "string option"

definition exportDiagnostics ::
  "'w ApiEnv \<Rightarrow> ('b, DiagnosticExportData, 'w) fetcher \<Rightarrow> string option \<Rightarrow> string option \<Rightarrow> (DiagnosticExportData, 'w) api" where
  "exportDiagnostics env fetch requestId traceId =
     from_server (call env fetch ''GET'' ''/diagnostics/export''
       (Some [(''request_id'', p_str requestId), (''trace_id'', p_str traceId)]) NoBody)"

definition fetchLoadtestJobs :: "'w ApiEnv \<Rightarrow> ('b, LoadtestJob Items, 'w) fetcher \<Rightarrow> (LoadtestJob list, 'w) api" where
  "fetchLoadtestJobs env fetch = from_server (map_result it_items (get_json env fetch ''/loadtests''))"

definition startLoadtest :: "'w ApiEnv \<Rightarrow> (LoadtestStart, LoadtestJob, 'w) fetcher \<Rightarrow> LoadtestStart \<Rightarrow> (LoadtestJob, 'w) api" where
  "startLoadtest env fetch payload = from_server (send_json env fetch ''POST'' ''/loadtests'' payload)"

definition fetchLoadtestJob :: "'w ApiEnv \<Rightarrow> ('b, LoadtestJob, 'w) fetcher \<Rightarrow> string \<Rightarrow> (LoadtestJob, 'w) api" where
  "fetchLoadtestJob env fetch jobId = from_server (get_json env fetch (''/loadtests/'' @ jobId))"

end
