(* ===== verification/ApiLaws.thy ===== *)
theory ApiLaws
  imports GatewayApi
begin

text \<open>
  What the facade guarantees its callers: the two modes do not touch each other's state, mock mode
  behaves as the mock operations do, and every request is sent as its description says.
\<close>

subsection \<open>Combinators\<close>

lemma map_result_simps:
  "snd (map_result f p s) = snd (p s)"
  "fst (map_result f p s) = (case fst (p s) of Inl e \<Rightarrow> Inl e | Inr x \<Rightarrow> Inr (f x))"
  by (simp_all add: map_result_def split: prod.splits)

lemma from_server_simps:
  "fst (from_server p st) = fst (p (as_net st))"
  "snd (from_server p st) = st\<lparr>as_net := snd (p (as_net st))\<rparr>"
  by (simp_all add: from_server_def split: prod.splits)

text \<open>A client whose mock module is loaded.\<close>

definition module_loaded :: "'w ApiState \<Rightarrow> bool" where
  "module_loaded st \<longleftrightarrow> as_module st = Some (Inr ())"

lemma from_mock_loaded:
  "module_loaded st \<Longrightarrow>
     from_mock env h st = (fst (h (as_mock st)), st\<lparr>as_mock := snd (h (as_mock st))\<rparr>)"
  by (cases st) (simp add: module_loaded_def from_mock_def callMockGateway_def loadMockGatewayModule_def split: prod.splits)

lemma dispatch_mock:
  "useMockMode env \<Longrightarrow> module_loaded st \<Longrightarrow>
     dispatch env h p st = (fst (h (as_mock st)), st\<lparr>as_mock := snd (h (as_mock st))\<rparr>)"
  by (simp add: dispatch_def from_mock_loaded)

lemma dispatch_server: "\<not> useMockMode env \<Longrightarrow> dispatch env h p st = from_server p st"
  by (simp add: dispatch_def)

lemma dispatch_frames:
  "useMockMode env \<Longrightarrow> module_loaded st \<Longrightarrow> as_net (snd (dispatch env h p st)) = as_net st \<and> module_loaded (snd (dispatch env h p st))"
  "\<not> useMockMode env \<Longrightarrow> as_mock (snd (dispatch env h p st)) = as_mock st \<and> as_module (snd (dispatch env h p st)) = as_module st"
  by (simp_all add: dispatch_mock dispatch_server from_server_simps module_loaded_def)

lemma promise_all_fails: "fst (p s) = Inl e \<Longrightarrow> fst (promise_all p q s) = Inl e"
  by (auto simp: promise_all_def split: prod.splits)

lemma promise_all_Inr:
  "fst (promise_all p q s) = Inr (x, y) \<Longrightarrow> fst (p s) = Inr x \<and> fst (q (snd (p s))) = Inr y"
  by (auto simp: promise_all_def split: prod.splits sum.splits)

lemma promise_all_state: "snd (promise_all p q s) = snd (q (snd (p s)))"
  by (simp add: promise_all_def split: prod.splits)

subsection \<open>Requests\<close>

definition sent :: "'w ApiEnv \<Rightarrow> string \<Rightarrow> string \<Rightarrow> (string \<times> param_value) list option \<Rightarrow> 'b RequestBody \<Rightarrow> 'b FetchInit" where
  "sent env verb path params body =
     fetch_init env path \<lparr>ro_method = Some verb, ro_params = params, ro_headers = [], ro_body = body\<rparr>"

lemma call_network: "snd (call env fetch verb path params body w) = snd (fetch (sent env verb path params body) w)"
  by (simp add: call_def unwrap_def map_result_simps request_network sent_def)

lemma call_ok:
  "fst (fetch (sent env verb path params body) w) = Inr (ResponseOk (Inr r)) \<Longrightarrow>
     fst (call env fetch verb path params body w) = Inr (ar_data r)"
  by (auto simp: call_def unwrap_def map_result_simps request_def sent_def split: prod.splits)

lemma call_fails:
  "(\<exists>e. fst (call env fetch verb path params body w) = Inl e) \<longleftrightarrow>
     \<not> (\<exists>r. fst (fetch (sent env verb path params body) w) = Inr (ResponseOk (Inr r)))"
proof -
  have "(\<exists>e. fst (call env fetch verb path params body w) = Inl e) \<longleftrightarrow>
      (\<exists>e. fst (request env fetch path \<lparr>ro_method = Some verb, ro_params = params, ro_headers = [], ro_body = body\<rparr> w) = Inl e)"
    by (auto simp: call_def unwrap_def map_result_simps split: sum.splits)
  then show ?thesis by (simp add: request_throws_iff sent_def)
qed

lemma sent_fields:
  "fi_url (sent env verb path params body) = withQuery (API_BASE env @ path) params"
  "fi_method (sent env verb path params body) = Some verb"
  "fi_body (sent env verb path params body) = body"
  "fi_headers (sent env verb path params body) =
     put_all [(''Content-Type'', ''application/json'')] (browserAdminHeaders env)"
  by (simp_all add: sent_def fetch_init_def)

lemma admin_header_names: "x \<in> set (browserAdminHeaders env) \<Longrightarrow> fst x \<noteq> ''Content-Type''"
  by (auto simp: browserAdminHeaders_def admin_header_def Let_def split: option.splits if_splits)

lemma sent_header:
  "map_of (fi_headers (sent env verb path params body)) k =
     (case map_of (browserAdminHeaders env) k of Some v \<Rightarrow> Some v
      | None \<Rightarrow> if k = ''Content-Type'' then Some ''application/json'' else None)"
  by (auto simp: sent_fields map_of_put_all distinct_admin_headers map_add_def split: option.splits)

subsection \<open>Operations\<close>

lemma mock_write_simps [simp]: "fst (mock_write f s) = Inr (fst (f s))" "snd (mock_write f s) = snd (f s)"
  by (simp_all add: mock_write_def)

lemma mock_read_simps [simp]: "fst (mock_read f s) = Inr (f s)" "snd (mock_read f s) = s"
  by (simp_all add: mock_read_def)

lemma createMapping_mock:
  assumes "useMockMode env" "module_loaded st"
  shows "fst (fetchMappings env fetch (snd (createMapping env fetch' p now st))) =
      Inr \<lparr>tmlp_items = mappingState (as_mock st) @ [saved_mapping p now], tmlp_bound_peer = None,
           tmlp_binding_error = None, tmlp_warnings = Some []\<rparr>"
    and "as_net (snd (createMapping env fetch' p now st)) = as_net st"
proof -
  have l: "module_loaded (snd (createMapping env fetch' p now st))"
    unfolding createMapping_def by (rule dispatch_frames(1) [OF assms, THEN conjunct2])
  show "as_net (snd (createMapping env fetch' p now st)) = as_net st"
    unfolding createMapping_def by (rule dispatch_frames(1) [OF assms, THEN conjunct1])
  show "fst (fetchMappings env fetch (snd (createMapping env fetch' p now st))) =
      Inr \<lparr>tmlp_items = mappingState (as_mock st) @ [saved_mapping p now], tmlp_bound_peer = None,
           tmlp_binding_error = None, tmlp_warnings = Some []\<rparr>"
    unfolding fetchMappings_def using assms l
    by (simp add: dispatch_mock) (simp add: createMapping_def dispatch_mock createMappingMock_def fetchMappingsMock_def Let_def)
qed

lemma fetchDashboard_server:
  assumes "\<not> useMockMode env" "fst (fetchDashboard env fetch st) = Inr d"
  shows "\<exists>sts. d = dashboardOfStatuses sts"
  using assms by (auto simp: fetchDashboard_def map_result_simps split: sum.splits)

lemma updateSystemSettings_failed:
  assumes "fst (call env fetch ''POST'' ''/system/settings'' None (JsonBody (settingsRequest payload)) (as_net st)) = Inl e"
  shows "updateSystemSettings env fetch fetch' payload st =
    (Inl e, st\<lparr>as_net := snd (fetch (sent env ''POST'' ''/system/settings'' None (JsonBody (settingsRequest payload))) (as_net st))\<rparr>)"
  using assms
  by (auto simp: updateSystemSettings_def send_json_def from_server_def call_network [symmetric] split: prod.splits)

lemma updateSystemSettings_stored:
  assumes "fst (call env fetch ''POST'' ''/system/settings'' None (JsonBody (settingsRequest payload)) (as_net st)) = Inr r"
  shows "updateSystemSettings env fetch fetch' payload st =
    fetchSystemSettings env fetch fetch'
      (st\<lparr>as_net := snd (fetch (sent env ''POST'' ''/system/settings'' None (JsonBody (settingsRequest payload))) (as_net st))\<rparr>)"
  using assms
  by (auto simp: updateSystemSettings_def send_json_def from_server_def call_network [symmetric] split: prod.splits)

end
