(* ===== verification/Contracts.thy ===== *)
theory Contracts
  imports ApiLaws
begin

text \<open>
  \<open>contracts/accessLogs.ts\<close> and \<open>contracts/systemSettings.ts\<close>: what two pages declare about the
  operation they rely on, and that the facade's operations agree with it.
\<close>

subsection \<open>Definitions\<close>

record ('q, 'r) ViewContract =
  vc_feature :: string
  vc_apiPath :: string
  vc_handler :: string
  vc_dataSource :: string
  vc_request :: 'q
  vc_response :: 'r

definition ACCESS_LOGS_CONTRACT :: "(AccessLogQuery, AccessLogEntry TaskListResult) ViewContract" where
  "ACCESS_LOGS_CONTRACT =
     \<lparr>vc_feature = (uni ''~8BBF~95EE~65E5~5FD7''), vc_apiPath = ''/access-logs'', vc_handler = ''gatewayApi.fetchAccessLogs'',
      vc_dataSource = ''HTTP ingress / gateway request chain'',
      vc_request = \<lparr>alq_mapping = None, alq_sourceIP = None, alq_method = None, alq_status = None,
        alq_startTime = None, alq_endTime = None, alq_slowOnly = Some False, alq_failedOnly = None\<rparr>,
      vc_response = \<lparr>tlr_list = [], tlr_total = 0, tlr_page = 1, tlr_pageSize = 50\<rparr>\<rparr>"

text \<open>This contract has no request part.\<close>

definition SYSTEM_SETTINGS_CONTRACT :: "(unit, SystemSettingsState) ViewContract" where
  "SYSTEM_SETTINGS_CONTRACT =
     \<lparr>vc_feature = (uni ''~7CFB~7EDF~8BBE~7F6E''), vc_apiPath = ''/system/settings'',
      vc_handler = ''gatewayApi.fetchSystemSettings / gatewayApi.updateSystemSettings'',
      vc_dataSource = (uni ''SQLite ~6301~4E45~5316~914D~7F6E~4E0E~7CFB~7EDF~6E05~7406~7B56~7565''), vc_request = (),
      vc_response =
        \<lparr>st_sqlitePath = [], st_logPath = [], st_uiMode = Ui_embedded,
         st_apiBaseUrl = ''http://127.0.0.1:18080/api'', st_metricsEndpoint = ''http://127.0.0.1:18080/metrics'',
         st_readyEndpoint = ''http://127.0.0.1:18080/readyz'',
         st_selfCheckEndpoint = ''http://127.0.0.1:18080/api/selfcheck'',
         st_startupSummaryEndpoint = ''http://127.0.0.1:18080/api/startup-summary'',
         st_uiConsistencyStatus = None, st_uiConsistencyDetail = None, st_uiEmbedBuildNonce = None,
         st_uiEmbeddedAt = None, st_uiSourceLatestWrite = None, st_uiEmbeddedHash = None,
         st_uiAssetBaseMode = None, st_uiRouterBasePathPolicy = None, st_uiDeliveryGuardStatus = None,
         st_uiDeliveryGuardDetail = None, st_uiDeliveryGuardRemovedCount = None,
         st_uiDeliveryGuardRemainingCount = None, st_uiDeliveryGuardHitCount = None,
         st_entrySelectionPolicy = None, st_udpControlHeaderPolicy = None,
         st_genericDownloadRTPToleranceProfile = None, st_genericDownloadGuardPolicy = None,
         st_logRetentionDays = 7, st_logRetentionRecords = 10000, st_auditRetentionDays = 30,
         st_auditRetentionRecords = 10000, st_accessLogRetentionDays = 30,
         st_accessLogRetentionRecords = 10000, st_diagnosticsRetentionDays = 7,
         st_diagnosticsRetentionRecords = 200, st_loadtestRetentionDays = 7,
         st_loadtestRetentionRecords = 200, st_cleanupCron = ''0 3 * * *'', st_adminCIDR = [],
         st_mfaEnabled = False, st_genericDownloadTotalMbps = 16, st_genericDownloadPerTransferMbps = 8,
         st_genericDownloadWindowMB = 2, st_adaptiveHotCacheMB = 32, st_adaptiveHotWindowMB = 16,
         st_genericDownloadSegmentConcurrency = 2, st_genericDownloadRTPReorderWindowPackets = 512,
         st_genericDownloadRTPLossTolerancePackets = 128, st_genericDownloadRTPGapTimeoutMS = 1200,
         st_genericDownloadRTPFECEnabled = True, st_genericDownloadRTPFECGroupPackets = 8,
         st_adminTokenConfigured = None, st_adminMfaConfigured = None, st_configEncryptionEnabled = None,
         st_tunnelSignerExternalized = None, st_lastCleanupStatus = [], st_lastCleanupRemovedRecords = 0\<rparr>\<rparr>"

subsection \<open>Agreement with the facade\<close>

text \<open>The operation a contract names asks for the path the contract names.\<close>

lemma access_logs_path:
  "\<exists>params. snd (fetchAccessLogs env fetch q pg psize st) =
     st\<lparr>as_net := snd (fetch (sent env ''GET'' (vc_apiPath ACCESS_LOGS_CONTRACT) (Some params) NoBody) (as_net st))\<rparr>"
  by (auto simp: fetchAccessLogs_def from_server_simps map_result_simps call_network ACCESS_LOGS_CONTRACT_def)

lemma system_settings_path:
  "as_net (snd (fetchSystemSettings env fetch fetch' st)) =
     as_net (snd (fetchStartupSummary env fetch'
       (st\<lparr>as_net := snd (fetch (sent env ''GET'' (vc_apiPath SYSTEM_SETTINGS_CONTRACT) None NoBody) (as_net st))\<rparr>)))"
  by (simp add: fetchSystemSettings_def map_result_simps promise_all_state from_server_simps get_json_def call_network
      SYSTEM_SETTINGS_CONTRACT_def)

text \<open>The endpoints the settings contract shows are the ones derived from its API base.\<close>

lemma contract_endpoints:
  assumes "ss_api_url summary = st_apiBaseUrl (vc_response SYSTEM_SETTINGS_CONTRACT)"
  shows "st_metricsEndpoint (mapSystemSettings p summary) = st_metricsEndpoint (vc_response SYSTEM_SETTINGS_CONTRACT) \<and>
    st_readyEndpoint (mapSystemSettings p summary) = st_readyEndpoint (vc_response SYSTEM_SETTINGS_CONTRACT) \<and>
    st_selfCheckEndpoint (mapSystemSettings p summary) = st_selfCheckEndpoint (vc_response SYSTEM_SETTINGS_CONTRACT) \<and>
    st_startupSummaryEndpoint (mapSystemSettings p summary) = st_startupSummaryEndpoint (vc_response SYSTEM_SETTINGS_CONTRACT)"
  using assms
  by (simp add: mapSystemSettings_def Let_def SYSTEM_SETTINGS_CONTRACT_def without_api_suffix_def suffix_def)

end
