(* ===== verification/NetworkRisk.thy ===== *)
theory NetworkRisk
  imports NetworkTypes
begin

text \<open>
  \<open>utils/networkConfig.ts\<close>: which fields of a draft network configuration change in a way that is
  risky for a running gateway. The configuration is read by path, as in the source, so a field
  value is a string or a number.
\<close>

datatype field_value = FStr string | FNum int

fun field_text :: "field_value \<Rightarrow> string" where
  "field_text (FStr s) = s"
| "field_text (FNum n) = string_of_int n"

record HighRiskChange =
  hrc_field :: string
  hrc_before :: string
  hrc_after :: string
  hrc_risk :: string

record HighRiskMeta =
  hrm_label :: string
  hrm_risk :: string

definition highRiskMap :: "(string \<times> HighRiskMeta) list" where
  "highRiskMap =
     [(''sip.listenPort'', \<lparr>hrm_label = (uni ''SIP ~76D1~542C~7AEF~53E3''), hrm_risk = (uni ''~53D8~66F4~540E~53EF~80FD~5BFC~81F4~63A7~5236~9762~8FDE~63A5~4E2D~65AD~3002'')\<rparr>),
      (''sip.protocol'', \<lparr>hrm_label = (uni ''SIP ~534F~8BAE''), hrm_risk = (uni ''~534F~8BAE~5207~6362~53EF~80FD~9020~6210~4E0A~4E0B~6E38~534F~5546~5931~8D25~3002'')\<rparr>),
      (''sip.advertisedAddress'', \<lparr>hrm_label = (uni ''SIP ~5BF9~5916~901A~544A~5730~5740''), hrm_risk = (uni ''~53D8~66F4~540E~5916~90E8~8282~70B9~53EF~80FD~77ED~671F~65E0~6CD5~56DE~8FDE~3002'')\<rparr>),
      (''rtp.portRangeStart'', \<lparr>hrm_label = (uni ''RTP ~7AEF~53E3~8303~56F4''), hrm_risk = (uni ''~7AEF~53E3~6C60~53D8~5316~53EF~80FD~5F71~54CD~6B63~5728~8FDB~884C~7684~4F20~8F93~4F1A~8BDD~3002'')\<rparr>),
      (''rtp.portRangeEnd'', \<lparr>hrm_label = (uni ''RTP ~7AEF~53E3~8303~56F4''), hrm_risk = (uni ''~7AEF~53E3~6C60~53D8~5316~53EF~80FD~5F71~54CD~6B63~5728~8FDB~884C~7684~4F20~8F93~4F1A~8BDD~3002'')\<rparr>),
      (''rtp.protocol'', \<lparr>hrm_label = (uni ''RTP ~534F~8BAE''), hrm_risk = (uni ''~534F~8BAE~5207~6362~53EF~80FD~5BFC~81F4~4F20~8F93~94FE~8DEF~4E0D~517C~5BB9~3002'')\<rparr>),
      (''rtp.maxConcurrentTransfers'', \<lparr>hrm_label = (uni ''~6700~5927~5E76~53D1~4F20~8F93~6570''), hrm_risk = (uni ''~9608~503C~8C03~6574~53EF~80FD~5F15~53D1~6027~80FD~6296~52A8~6216~6392~961F~79EF~538B~3002'')\<rparr>)]"

text \<open>\<open>path.split('.')\<close> for a path with one dot: the part before it and the part after it.\<close>

definition split_path :: "string \<Rightarrow> string \<times> string" where
  "split_path p = (takeWhile (\<lambda>c. c \<noteq> CHR ''.'') p, tl (dropWhile (\<lambda>c. c \<noteq> CHR ''.'') p))"

text \<open>\<open>config[group][key]\<close> for the properties the table names; any other key is \<open>undefined\<close>.\<close>

definition sip_field :: "SipNetworkConfig \<Rightarrow> string \<Rightarrow> field_value option" where
  "sip_field c k =
     (if k = ''listenPort'' then Some (FNum (sn_listenPort c))
      else if k = ''protocol'' then Some (FStr (transport_text (sn_protocol c)))
      else if k = ''advertisedAddress'' then Some (FStr (sn_advertisedAddress c))
      else None)"

definition rtp_field :: "RtpNetworkConfig \<Rightarrow> string \<Rightarrow> field_value option" where
  "rtp_field c k =
     (if k = ''portRangeStart'' then Some (FNum (rn_portRangeStart c))
      else if k = ''portRangeEnd'' then Some (FNum (rn_portRangeEnd c))
      else if k = ''protocol'' then Some (FStr (transport_text (rn_protocol c)))
      else if k = ''maxConcurrentTransfers'' then Some (FNum (rn_maxConcurrentTransfers c))
      else None)"

definition network_field :: "SipNetworkConfig \<Rightarrow> RtpNetworkConfig \<Rightarrow> string \<Rightarrow> field_value option" where
  "network_field sip rtp path =
     (let (group, key) = split_path path in if group = ''sip'' then sip_field sip key else rtp_field rtp key)"

definition opt_field_text :: "field_value option \<Rightarrow> string" where
  "opt_field_text v = (case v of None \<Rightarrow> ''undefined'' | Some x \<Rightarrow> field_text x)"

definition detectHighRiskChanges ::
  "NetworkConfigPayload \<Rightarrow> UpdateNetworkConfigPayload \<Rightarrow> HighRiskChange list" where
  "detectHighRiskChanges current draft =
     concat (map (\<lambda>(path, meta).
       let before = network_field (nc_sip current) (nc_rtp current) path;
           after = network_field (unc_sip draft) (unc_rtp draft) path
       in if before \<noteq> after
          then [\<lparr>hrc_field = hrm_label meta, hrc_before = opt_field_text before,
                 hrc_after = opt_field_text after, hrc_risk = hrm_risk meta\<rparr>]
          else []) highRiskMap)"

definition formatPortRange :: "int \<Rightarrow> int \<Rightarrow> string" where
  "formatPortRange start stop = string_of_int start @ '' - '' @ string_of_int stop"

subsection \<open>What the detector reports\<close>

text \<open>The seven settings a running gateway depends on, read directly from the two records.\<close>

definition risky_settings ::
  "SipNetworkConfig \<Rightarrow> RtpNetworkConfig \<Rightarrow> int \<times> TransportProtocol \<times> string \<times> int \<times> int \<times> TransportProtocol \<times> int" where
  "risky_settings sip rtp =
     (sn_listenPort sip, sn_protocol sip, sn_advertisedAddress sip, rn_portRangeStart rtp,
      rn_portRangeEnd rtp, rn_protocol rtp, rn_maxConcurrentTransfers rtp)"

lemma network_field_paths:
  "network_field s r ''sip.listenPort'' = Some (FNum (sn_listenPort s))"
  "network_field s r ''sip.protocol'' = Some (FStr (transport_text (sn_protocol s)))"
  "network_field s r ''sip.advertisedAddress'' = Some (FStr (sn_advertisedAddress s))"
  "network_field s r ''rtp.portRangeStart'' = Some (FNum (rn_portRangeStart r))"
  "network_field s r ''rtp.portRangeEnd'' = Some (FNum (rn_portRangeEnd r))"
  "network_field s r ''rtp.protocol'' = Some (FStr (transport_text (rn_protocol r)))"
  "network_field s r ''rtp.maxConcurrentTransfers'' = Some (FNum (rn_maxConcurrentTransfers r))"
  by (simp_all add: network_field_def split_path_def sip_field_def rtp_field_def)

lemma field_text_typed:
  "field_text (FNum m) = field_text (FNum n) \<longleftrightarrow> m = n"
  "field_text (FStr s) = field_text (FStr t) \<longleftrightarrow> s = t"
  by simp_all

lemma detect_empty_iff:
  "detectHighRiskChanges c d = [] \<longleftrightarrow>
     risky_settings (nc_sip c) (nc_rtp c) = risky_settings (unc_sip d) (unc_rtp d)"
  by (auto simp: detectHighRiskChanges_def highRiskMap_def network_field_paths risky_settings_def
      split: if_splits)

lemma detect_reports_difference: "x \<in> set (detectHighRiskChanges c d) \<Longrightarrow> hrc_before x \<noteq> hrc_after x"
  by (auto simp: detectHighRiskChanges_def highRiskMap_def network_field_paths opt_field_text_def
      split: if_splits)

lemma detect_count: "length (detectHighRiskChanges c d) =
    length (filter (\<lambda>(path, meta). network_field (nc_sip c) (nc_rtp c) path \<noteq>
      network_field (unc_sip d) (unc_rtp d) path) highRiskMap)"
proof -
  have "length (concat (map (\<lambda>(path, meta). let b = f path; a = g path in if b \<noteq> a then [h path meta b a] else []) xs)) =
      length (filter (\<lambda>(path, meta). f path \<noteq> g path) xs)" for f g :: "string \<Rightarrow> field_value option" and h xs
    by (induction xs) (auto simp: Let_def)
  then show ?thesis unfolding detectHighRiskChanges_def .
qed

end
