(* ===== verification/Gb28181.thy ===== *)
theory Gb28181
  imports GatewayTypes
begin

text \<open>
  \<open>utils/gb28181.ts\<close>: GB/T 28181 device codes, the normalisation of a method selection and the
  body limits a response mode implies. \<open>Date.now()\<close> and \<open>Math.floor(Math.random() * 1000)\<close> are
  arguments of \<open>generateGBCode\<close>.
\<close>

subsection \<open>Definitions\<close>

record SelectOption =
  so_label :: string
  so_value :: string

definition resourceTypeOptions :: "SelectOption list" where
  "resourceTypeOptions =
     [\<lparr>so_label = (uni ''~670D~52A1~7C7B~578B''), so_value = ''SERVICE''\<rparr>,
      \<lparr>so_label = (uni ''~6444~50CF~673A''), so_value = ''CAMERA''\<rparr>,
      \<lparr>so_label = (uni ''~5176~4ED6''), so_value = ''OTHER''\<rparr>]"

definition methodOptions :: "SelectOption list" where
  "methodOptions = map (\<lambda>v. \<lparr>so_label = v, so_value = v\<rparr>)
     [''*'', ''GET'', ''POST'', ''PUT'', ''PATCH'', ''DELETE'', ''HEAD'', ''OPTIONS'']"

definition responseModeOptions :: "SelectOption list" where
  "responseModeOptions =
     [\<lparr>so_label = ''AUTO'', so_value = ''AUTO''\<rparr>,
      \<lparr>so_label = ''INLINE'', so_value = ''INLINE''\<rparr>,
      \<lparr>so_label = ''RTP'', so_value = ''RTP''\<rparr>]"

text \<open>The pattern \<open>/^\d{20}$/\<close>.\<close>

definition GB_CODE_PATTERN :: "string \<Rightarrow> bool" where
  "GB_CODE_PATTERN s \<longleftrightarrow> length s = 20 \<and> list_all is_digit s"

definition isGBCode20 :: "string option \<Rightarrow> bool" where
  "isGBCode20 value = GB_CODE_PATTERN (trim (str_or (nullish value '''') ''''))"

definition normalizeMethodSelection :: "string list option \<Rightarrow> string list" where
  "normalizeMethodSelection values =
     (let normalized = unique (filter (\<lambda>s. s \<noteq> '''')
            (map (\<lambda>item. toUpperCase (trim (str_or item ''''))) (nullish values [])))
      in if ''*'' \<in> set normalized then [''*'']
         else if normalized \<noteq> [] then normalized else [''*''])"

record BodyLimitProfile =
  blp_maxInlineResponseBody :: int
  blp_maxRequestBody :: int
  blp_maxResponseBody :: int
  blp_policyLabel :: string

definition deriveBodyLimitProfile :: "string \<Rightarrow> string option \<Rightarrow> BodyLimitProfile" where
  "deriveBodyLimitProfile responseMode networkMode =
     (let normalizedMode = toUpperCase (str_or responseMode ''AUTO'');
          supportsLargeRequest =
            (toUpperCase (str_or (nullish networkMode '''') '''') = ''SENDER_SIP_RTP__RECEIVER_SIP_RTP'');
          profile = \<lparr>blp_maxInlineResponseBody = 64 * 1024,
                     blp_maxRequestBody = (if supportsLargeRequest then 8 * 1024 * 1024 else 64 * 1024),
                     blp_maxResponseBody = 64 * 1024,
                     blp_policyLabel = (uni ''SIP ~5C0F~4F53~91CF'')\<rparr>
      in if normalizedMode = ''INLINE'' then
           profile\<lparr>blp_policyLabel := (uni ''SIP ~5185~8054''),
                   blp_maxResponseBody := blp_maxInlineResponseBody profile\<rparr>
         else if normalizedMode = ''RTP'' then
           profile\<lparr>blp_policyLabel := (uni ''RTP ~56DE~4F20''),
                   blp_maxRequestBody := (if supportsLargeRequest then 8 * 1024 * 1024 else 512 * 1024),
                   blp_maxResponseBody := 64 * 1024 * 1024\<rparr>
         else
           profile\<lparr>blp_policyLabel := (uni ''AUTO ~81EA~9002~5E94''),
                   blp_maxRequestBody := (if supportsLargeRequest then 8 * 1024 * 1024 else 512 * 1024),
                   blp_maxResponseBody := 64 * 1024 * 1024\<rparr>)"

definition RESOURCE_TYPE_DIGIT :: "(string \<times> string) list" where
  "RESOURCE_TYPE_DIGIT = [(''SERVICE'', ''2''), (''CAMERA'', ''1''), (''OTHER'', ''9''), (''SERVER'', ''2'')]"

definition generateGBCode :: "string option \<Rightarrow> nat \<Rightarrow> nat \<Rightarrow> string" where
  "generateGBCode type now rand =
     (let typeDigit = str_or (nullish (map_of RESOURCE_TYPE_DIGIT
                        (toUpperCase (str_or (nullish type ''SERVICE'') ''SERVICE''))) '''') ''9'';
          text = string_of_nat now @ string_of_nat rand;
          serial = padStart 9 (slice (-9) (int (length text)) text)
      in ''3402000000'' @ typeDigit @ serial)"

subsection \<open>Device codes\<close>

lemma slice_last: "0 < n \<Longrightarrow> slice (- int n) (int (length s)) s = drop (length s - n) s"
proof -
  assume "0 < n"
  then have "slice_pos (length s) (- int n) = length s - n" by (simp add: slice_pos_def)
  moreover have "slice_pos (length s) (int (length s)) = length s" by (simp add: slice_pos_def)
  ultimately show ?thesis by (simp add: slice_def)
qed

lemma serial_shape:
  assumes "\<forall>c \<in> set s. is_digit c"
  shows "length (padStart 9 (slice (-9) (int (length s)) s)) = 9 \<and>
    list_all is_digit (padStart 9 (slice (-9) (int (length s)) s))"
proof -
  have s: "slice (-9) (int (length s)) s = drop (length s - 9) s"
    using slice_last [of 9 s] by simp
  have "is_digit CHR ''0''" by (simp add: is_digit_def)
  with assms show ?thesis
    by (auto simp: s padStart_def list_all_iff dest: in_set_dropD)
qed

lemma type_digit_shape:
  "length (str_or (nullish (map_of RESOURCE_TYPE_DIGIT t) '''') ''9'') = 1 \<and>
     list_all is_digit (str_or (nullish (map_of RESOURCE_TYPE_DIGIT t) '''') ''9'')"
  by (simp add: RESOURCE_TYPE_DIGIT_def is_digit_def)

lemma digit_solid: "is_digit c \<Longrightarrow> solid c"
  by (simp add: is_digit_def solid_def)

lemma pattern_trim: "GB_CODE_PATTERN s \<Longrightarrow> trim s = s"
proof -
  assume s: "GB_CODE_PATTERN s"
  then have "s \<noteq> []" by (auto simp: GB_CODE_PATTERN_def)
  with s show "trim s = s"
    by (intro trim_solid) (auto simp: GB_CODE_PATTERN_def list_all_iff intro: digit_solid)
qed

lemma isGBCode20_pattern: "GB_CODE_PATTERN s \<Longrightarrow> isGBCode20 (Some s)"
  by (cases s) (simp_all add: isGBCode20_def pattern_trim)

subsection \<open>Method selections\<close>

text \<open>Upper-casing commutes with trimming: no white space byte is an ASCII letter.\<close>

definition letter_free :: "string \<Rightarrow> bool" where
  "letter_free w \<longleftrightarrow> list_all (\<lambda>c. let n = (of_char c :: nat) in n < 65 \<or> 122 < n) w"

lemma whitespace_letter_free: "w \<in> set js_whitespace \<Longrightarrow> letter_free w"
  unfolding js_whitespace_def set_append set_map
  by (elim UnE imageE) (auto simp: letter_free_def utf8_unit_def)

lemma upper_char_letter_free:
  assumes "(of_char c :: nat) < 65 \<or> 122 < (of_char c :: nat)"
  shows "upper_char d = c \<longleftrightarrow> d = c"
proof
  assume up: "upper_char d = c"
  show "d = c"
  proof (rule ccontr)
    assume "d \<noteq> c"
    let ?m = "of_char d :: nat"
    from up \<open>d \<noteq> c\<close> have m: "97 \<le> ?m" "?m \<le> 122" "c = char_of (?m - 32)"
      by (auto simp: upper_char_def Let_def split: if_splits)
    then have "of_char c = ?m - 32" by simp
    with m assms show False by linarith
  qed
next
  assume "d = c"
  with assms show "upper_char d = c" by (auto simp: upper_char_def)
qed

lemma prefix_toUpperCase: "letter_free w \<Longrightarrow> prefix w (toUpperCase s) \<longleftrightarrow> prefix w s"
proof (induction w arbitrary: s)
  case (Cons c w)
  then have c: "c = upper_char d \<longleftrightarrow> c = d" for d
    using upper_char_letter_free [of c d] by (auto simp: letter_free_def Let_def)
  have "letter_free w" using Cons.prems by (simp add: letter_free_def)
  with Cons.IH show ?case
    by (cases s) (simp_all add: toUpperCase_def c)
qed simp

lemma trim_toUpperCase: "trim s = s \<Longrightarrow> trim (toUpperCase s) = toUpperCase s"
proof -
  assume "trim s = s"
  then have "trim_start s = s" "trim_end s = s" by (metis trim_norm.norm_shape)+
  then have "strip js_whitespace s = s" "strip (map rev js_whitespace) (rev s) = rev s"
    by (simp_all add: trim_start_def trim_end_def) (metis rev_rev_ident)
  moreover have "letter_free w \<Longrightarrow> letter_free (rev w)" for w
    by (simp add: letter_free_def list_all_iff)
  moreover have "rev (toUpperCase s) = toUpperCase (rev s)" by (simp add: toUpperCase_def rev_map)
  ultimately have "strip js_whitespace (toUpperCase s) = toUpperCase s"
    "strip (map rev js_whitespace) (rev (toUpperCase s)) = rev (toUpperCase s)"
    by (auto simp: strip_fixed prefix_toUpperCase whitespace_letter_free)
  then show ?thesis by (simp add: trim_def trim_start_def trim_end_def)
qed

definition method_token :: "string \<Rightarrow> bool" where
  "method_token m \<longleftrightarrow> m \<noteq> '''' \<and> trim m = m \<and> toUpperCase m = m"

definition method_selection :: "string list \<Rightarrow> bool" where
  "method_selection ms \<longleftrightarrow>
     ms \<noteq> [] \<and> distinct ms \<and> list_all method_token ms \<and> (''*'' \<in> set ms \<longrightarrow> ms = [''*''])"

lemma method_token_Nil [simp]: "\<not> method_token []"
  by (simp add: method_token_def)

lemma method_token_star: "method_token ''*''"
proof -
  have "trim ''*'' = ''*''" by (rule trim_solid) (simp_all add: solid_def)
  then show ?thesis by (simp add: method_token_def toUpperCase_def upper_char_def)
qed

lemma method_token_normalised: "toUpperCase (trim m) \<noteq> '''' \<Longrightarrow> method_token (toUpperCase (trim m))"
  by (simp add: method_token_def trim_toUpperCase)

lemma method_token_fixed: "method_token m \<Longrightarrow> toUpperCase (trim (str_or m '''')) = m"
  by (cases m) (simp_all add: method_token_def)

interpretation method_norm: normaliser "\<lambda>ms. normalizeMethodSelection (Some ms)" method_selection
proof
  fix ms
  show "method_selection (normalizeMethodSelection (Some ms))"
    by (auto simp: normalizeMethodSelection_def method_selection_def Let_def list_all_iff
        method_token_star intro!: method_token_normalised)
next
  fix ms
  assume ms: "method_selection ms"
  then have tokens: "\<forall>m \<in> set ms. toUpperCase (trim (str_or m '''')) = m \<and> m \<noteq> ''''"
    by (auto simp: method_selection_def list_all_iff method_token_fixed)
  then have "map (\<lambda>item. toUpperCase (trim (str_or item ''''))) ms = ms" by (simp add: map_idI)
  moreover have "filter (\<lambda>s. s \<noteq> '''') ms = ms" using tokens by (simp add: filter_id_conv)
  ultimately show "normalizeMethodSelection (Some ms) = ms"
    using ms tokens
    by (auto simp: normalizeMethodSelection_def method_selection_def Let_def unique_id)
qed

lemma set_normalizeMethodSelection:
  "''*'' \<notin> set (normalizeMethodSelection (Some ms)) \<Longrightarrow>
     set (normalizeMethodSelection (Some ms)) = {toUpperCase (trim m) | m. m \<in> set ms \<and> trim m \<noteq> ''''}"
  by (auto simp: normalizeMethodSelection_def Let_def str_or_def split: if_splits)

end
