(* ===== verification/UiShell.thy ===== *)
theory UiShell
  imports GatewayTypes
begin

text \<open>
  The shell of the console: the router base path (\<open>utils/uiBase.ts\<close>), the route table
  (\<open>router/index.ts\<close>), and the stores of the shell (\<open>stores/app.ts\<close>, \<open>stores/ui.ts\<close>,
  \<open>stores/health.ts\<close>) with the types of \<open>types/index.ts\<close> they use.
\<close>

subsection \<open>Router base\<close>

text \<open>\<open>value.replace(/\/+/g, '/')\<close>: every maximal run of slashes becomes one slash.\<close>

fun collapse_slashes :: "string \<Rightarrow> string" where
  "collapse_slashes [] = []"
| "collapse_slashes (c # s) =
     (if c = CHR ''/'' \<and> s \<noteq> [] \<and> hd s = CHR ''/'' then collapse_slashes s else c # collapse_slashes s)"

definition ui_base_placeholder :: string where
  "ui_base_placeholder = ''__SIPTUNNEL_UI_BASE_PATH__''"

definition normalizeRouterBase :: "string option \<Rightarrow> string" where
  "normalizeRouterBase raw =
     (let text = trim (nullish raw '''')
      in if text = '''' \<or> sublist ui_base_placeholder text then ''/''
         else let value = (if prefix ''/'' text then text else CHR ''/'' # text);
                  value' = (if suffix ''/'' value then value else value @ ''/'')
              in collapse_slashes value')"

text \<open>
  The document is \<^const>\<open>None\<close> when there is no DOM; otherwise it gives the content attribute of
  the base path element, if any.
\<close>

definition resolveUIRouterBase :: "string option option \<Rightarrow> string option \<Rightarrow> string" where
  "resolveUIRouterBase document base_url =
     (case document of
        Some content \<Rightarrow>
          (let fromMeta = normalizeRouterBase content
           in if fromMeta \<noteq> ''/'' then fromMeta else normalizeRouterBase base_url)
      | None \<Rightarrow> normalizeRouterBase base_url)"

subsection \<open>Routes and stores\<close>

record NavigationItem =
  nav_key :: string
  nav_label :: string
  nav_path :: string

record RouteRecord =
  route_path :: string
  route_name :: string
  route_component :: string
  route_title :: string

datatype MessageType = Msg_success | Msg_info | Msg_warning | Msg_error

record GlobalMessage =
  gm_type :: MessageType
  gm_content :: string

definition navigation :: "NavigationItem list" where
  "navigation =
     [\<lparr>nav_key = ''dashboard'', nav_label = (uni ''~603B~89C8~76D1~63A7''), nav_path = ''/dashboard''\<rparr>,
      \<lparr>nav_key = ''nodes-tunnels'', nav_label = (uni ''~8282~70B9~4E0E~7EA7~8054''), nav_path = ''/nodes-tunnels''\<rparr>,
      \<lparr>nav_key = ''local-resources'', nav_label = (uni ''~672C~5730~8D44~6E90''), nav_path = ''/local-resources''\<rparr>,
      \<lparr>nav_key = ''tunnel-mappings'', nav_label = (uni ''~96A7~9053~6620~5C04''), nav_path = ''/tunnel-mappings''\<rparr>,
      \<lparr>nav_key = ''link-monitor'', nav_label = (uni ''~94FE~8DEF~76D1~63A7''), nav_path = ''/link-monitor''\<rparr>,
      \<lparr>nav_key = ''access-logs'', nav_label = (uni ''~8BBF~95EE~65E5~5FD7''), nav_path = ''/access-logs''\<rparr>,
      \<lparr>nav_key = ''ops-audits'', nav_label = (uni ''~8FD0~7EF4~5BA1~8BA1''), nav_path = ''/ops-audits''\<rparr>,
      \<lparr>nav_key = ''alerts-protection'', nav_label = (uni ''~544A~8B66~4E0E~4FDD~62A4''), nav_path = ''/alerts-protection''\<rparr>,
      \<lparr>nav_key = ''system-settings'', nav_label = (uni ''~7CFB~7EDF~8BBE~7F6E''), nav_path = ''/system-settings''\<rparr>,
      \<lparr>nav_key = ''diagnostics-loadtest'', nav_label = (uni ''~8BCA~65AD~4E0E~538B~6D4B''), nav_path = ''/diagnostics-loadtest''\<rparr>,
      \<lparr>nav_key = ''security-center'', nav_label = (uni ''~6388~6743~7BA1~7406''), nav_path = ''/security-center''\<rparr>,
      \<lparr>nav_key = ''security-events'', nav_label = (uni ''~5B89~5168~4E8B~4EF6''), nav_path = ''/security-events''\<rparr>]"

definition root_redirect :: string where
  "root_redirect = ''/dashboard''"

definition routes :: "RouteRecord list" where
  "routes =
     [\<lparr>route_path = ''dashboard'', route_name = ''dashboard'', route_component = ''DashboardView'', route_title = (uni ''~603B~89C8~76D1~63A7'')\<rparr>,
      \<lparr>route_path = ''nodes-tunnels'', route_name = ''nodes-tunnels'', route_component = ''NodesAndTunnelsView'', route_title = (uni ''~8282~70B9~4E0E~7EA7~8054'')\<rparr>,
      \<lparr>route_path = ''local-resources'', route_name = ''local-resources'', route_component = ''LocalResourcesView'', route_title = (uni ''~672C~5730~8D44~6E90'')\<rparr>,
      \<lparr>route_path = ''tunnel-mappings'', route_name = ''tunnel-mappings'', route_component = ''TunnelMappingsView'', route_title = (uni ''~96A7~9053~6620~5C04'')\<rparr>,
      \<lparr>route_path = ''link-monitor'', route_name = ''link-monitor'', route_component = ''LinkMonitorView'', route_title = (uni ''~94FE~8DEF~76D1~63A7'')\<rparr>,
      \<lparr>route_path = ''access-logs'', route_name = ''access-logs'', route_component = ''AccessLogsView'', route_title = (uni ''~8BBF~95EE~65E5~5FD7'')\<rparr>,
      \<lparr>route_path = ''ops-audits'', route_name = ''ops-audits'', route_component = ''OpsAuditsView'', route_title = (uni ''~8FD0~7EF4~5BA1~8BA1'')\<rparr>,
      \<lparr>route_path = ''alerts-protection'', route_name = ''alerts-protection'', route_component = ''AlertsAndRateLimitView'', route_title = (uni ''~544A~8B66~4E0E~4FDD~62A4'')\<rparr>,
      \<lparr>route_path = ''system-settings'', route_name = ''system-settings'', route_component = ''SystemSettingsView'', route_title = (uni ''~7CFB~7EDF~8BBE~7F6E'')\<rparr>,
      \<lparr>route_path = ''diagnostics-loadtest'', route_name = ''diagnostics-loadtest'', route_component = ''DiagnosticsLoadtestView'', route_title = (uni ''~8BCA~65AD~4E0E~538B~6D4B'')\<rparr>,
      \<lparr>route_path = ''security-center'', route_name = ''security-center'', route_component = ''SecurityCenterView'', route_title = (uni ''~6388~6743~7BA1~7406'')\<rparr>,
      \<lparr>route_path = ''security-events'', route_name = ''security-events'', route_component = ''SecurityEventsView'', route_title = (uni ''~5B89~5168~4E8B~4EF6'')\<rparr>]"

record AppStore =
  app_collapsed :: bool
  app_navigation :: "NavigationItem list"

definition useAppStore :: AppStore where
  "useAppStore = \<lparr>app_collapsed = False, app_navigation = navigation\<rparr>"

definition toggleSidebar :: "AppStore \<Rightarrow> AppStore" where
  "toggleSidebar s = s\<lparr>app_collapsed := \<not> app_collapsed s\<rparr>"

record HealthState =
  health_status :: string

definition useHealthStore :: HealthState where
  "useHealthStore = \<lparr>health_status = ''ok''\<rparr>"

text \<open>
  The registered message API is the list of messages it has shown; it is outside the console, so
  the model only records the calls made on it.
\<close>

record UiState =
  ui_messageApi :: "(MessageType \<times> string) list option"

definition useUiStore :: UiState where
  "useUiStore = \<lparr>ui_messageApi = None\<rparr>"

definition registerMessageApi :: "(MessageType \<times> string) list \<Rightarrow> UiState \<Rightarrow> UiState" where
  "registerMessageApi api s = s\<lparr>ui_messageApi := Some api\<rparr>"

definition notify :: "GlobalMessage \<Rightarrow> UiState \<Rightarrow> UiState" where
  "notify payload s =
     s\<lparr>ui_messageApi := map_option (\<lambda>api. api @ [(gm_type payload, gm_content payload)]) (ui_messageApi s)\<rparr>"

subsection \<open>Shape of a router base\<close>

definition router_base :: "string \<Rightarrow> bool" where
  "router_base s \<longleftrightarrow> prefix ''/'' s \<and> suffix ''/'' s \<and> \<not> sublist ''//'' s \<and> \<not> sublist ui_base_placeholder s"

lemma collapse_hd [simp]: "s \<noteq> [] \<Longrightarrow> collapse_slashes s \<noteq> [] \<and> hd (collapse_slashes s) = hd s"
  by (induction s rule: collapse_slashes.induct) auto

lemma collapse_last: "s \<noteq> [] \<Longrightarrow> last (collapse_slashes s) = last s"
proof (induction s rule: collapse_slashes.induct)
  case (2 c s)
  then show ?case by (cases "s = []") auto
qed simp

lemma collapse_no_double: "\<not> sublist ''//'' (collapse_slashes s)"
proof (induction s rule: collapse_slashes.induct)
  case (2 c s)
  show ?case
  proof (cases "c = CHR ''/'' \<and> s \<noteq> [] \<and> hd s = CHR ''/''")
    case True
    with 2 show ?thesis by simp
  next
    case False
    with 2 have no: "\<not> sublist ''//'' (collapse_slashes s)" by auto
    have "\<not> prefix ''//'' (c # collapse_slashes s)"
      using False collapse_hd [of s] by (cases "s = []"; cases "collapse_slashes s") auto
    with no False show ?thesis by (auto simp: sublist_Cons_right)
  qed
qed (simp add: sublist_def)

lemma collapse_id: "\<not> sublist ''//'' s \<Longrightarrow> collapse_slashes s = s"
proof (induction s)
  case (Cons c s)
  then have "collapse_slashes s = s" by (auto simp: sublist_Cons_right)
  moreover have "\<not> (c = CHR ''/'' \<and> s \<noteq> [] \<and> hd s = CHR ''/'')"
    using Cons.prems by (cases s) (auto simp: sublist_Cons_right)
  ultimately show ?case by simp
qed simp

lemma prefix_collapse: "CHR ''/'' \<notin> set p \<Longrightarrow> prefix p (collapse_slashes s) \<Longrightarrow> prefix p s"
proof (induction s arbitrary: p rule: collapse_slashes.induct)
  case (2 c s)
  show ?case
  proof (cases p)
    case (Cons d q)
    with 2 show ?thesis
      by (cases "c = CHR ''/'' \<and> s \<noteq> [] \<and> hd s = CHR ''/''")
        (auto simp: prefix_hd [symmetric] dest: prefix_hd)
  qed simp
qed simp

lemma sublist_collapse: "CHR ''/'' \<notin> set p \<Longrightarrow> sublist p (collapse_slashes s) \<Longrightarrow> sublist p s"
proof (induction s rule: collapse_slashes.induct)
  case (2 c s)
  show ?case
  proof (cases "c = CHR ''/'' \<and> s \<noteq> [] \<and> hd s = CHR ''/''")
    case True
    with 2 show ?thesis by (auto simp: sublist_Cons_right)
  next
    case False
    with 2 prefix_collapse [of p "c # s"] show ?thesis by (auto simp: sublist_Cons_right)
  qed
qed simp

lemma sublist_Cons_slash: "CHR ''/'' \<notin> set p \<Longrightarrow> p \<noteq> [] \<Longrightarrow> sublist p (CHR ''/'' # s) \<longleftrightarrow> sublist p s"
  by (cases p) (auto simp: sublist_Cons_right)

lemma sublist_snoc_slash:
  assumes "CHR ''/'' \<notin> set p" "p \<noteq> []"
  shows "sublist p (s @ ''/'') \<longleftrightarrow> sublist p s"
proof -
  have "sublist p (s @ ''/'') \<longleftrightarrow> sublist (rev p) (CHR ''/'' # rev s)"
    by (metis rev.simps(2) rev_rev_ident sublist_rev)
  also have "\<dots> \<longleftrightarrow> sublist (rev p) (rev s)"
    using assms by (intro sublist_Cons_slash) auto
  finally show ?thesis by (simp add: sublist_rev)
qed

lemma placeholder_no_slash: "CHR ''/'' \<notin> set ui_base_placeholder" "ui_base_placeholder \<noteq> []"
  by (simp_all add: ui_base_placeholder_def)

lemma router_base_root: "router_base ''/''"
  by (simp add: router_base_def ui_base_placeholder_def sublist_code suffix_def)

lemma suffix_slash_iff: "suffix ''/'' s \<longleftrightarrow> s \<noteq> [] \<and> last s = CHR ''/''"
  by (metis append_butlast_last_id last_snoc snoc_eq_iff_butlast suffix_def suffix_bot.extremum_uniqueI not_Cons_self2 append_is_Nil_conv)

lemma prefix_slash_iff: "prefix ''/'' s \<longleftrightarrow> s \<noteq> [] \<and> hd s = CHR ''/''"
  by (cases s) auto

lemma router_base_trim: "router_base s \<Longrightarrow> trim s = s"
  by (rule trim_solid) (auto simp: router_base_def prefix_slash_iff suffix_slash_iff solid_def)

lemma normalizeRouterBase_shape: "router_base (normalizeRouterBase raw)"
proof -
  define t where "t = trim (nullish raw '''')"
  show ?thesis
  proof (cases "t = '''' \<or> sublist ui_base_placeholder t")
    case True
    then show ?thesis by (simp add: normalizeRouterBase_def t_def router_base_root)
  next
    case False
    define v where "v = (if prefix ''/'' t then t else CHR ''/'' # t)"
    define w where "w = (if suffix ''/'' v then v else v @ ''/'')"
    have eq: "normalizeRouterBase raw = collapse_slashes w"
      using False by (simp add: normalizeRouterBase_def t_def v_def w_def Let_def)
    have v: "v \<noteq> []" "hd v = CHR ''/''" "\<not> sublist ui_base_placeholder v"
      using False placeholder_no_slash by (auto simp: v_def prefix_slash_iff sublist_Cons_slash)
    then have w: "w \<noteq> []" "hd w = CHR ''/''" "last w = CHR ''/''" "\<not> sublist ui_base_placeholder w"
      using placeholder_no_slash by (auto simp: w_def suffix_slash_iff sublist_snoc_slash)
    then show ?thesis
      unfolding eq router_base_def prefix_slash_iff suffix_slash_iff
      using collapse_no_double sublist_collapse [OF placeholder_no_slash(1)]
      by (auto simp: collapse_last)
  qed
qed

interpretation base_norm: normaliser "\<lambda>s. normalizeRouterBase (Some s)" router_base
proof
  fix s
  show "router_base (normalizeRouterBase (Some s))" by (rule normalizeRouterBase_shape)
next
  fix s
  assume s: "router_base s"
  then have "trim s = s" by (rule router_base_trim)
  with s show "normalizeRouterBase (Some s) = s"
    by (auto simp: normalizeRouterBase_def router_base_def Let_def collapse_id)
qed

end
