(* ===== verification/ConsoleFacts.thy ===== *)
theory ConsoleFacts
  imports Contracts NetworkRisk Gb28181 UiShell
begin

text \<open>
  Facts about single operations of the mock gateway, the facade and the utilities, stated over the
  definitions of their theories alone.
\<close>

text \<open>In every reachable state every stored mapping names at least one method.\<close>

lemma stored_mappings_have_methods:
  "mock_reachable s \<Longrightarrow> m \<in> set (tmlp_items (fetchMappingsMock s)) \<Longrightarrow>
     \<exists>x xs. tm_allowed_methods m = Some (x # xs)"
  using mapping_methods.reachable_inv [of s]
  by (auto simp: mappings_ok_def list_all_iff methods_given_def fetchMappingsMock_def)

text \<open>A network mode the console has no profile for supports nothing; the full duplex mode supports
  whatever any mode does; and the six capability items determine the capability.\<close>

lemma derived_capability_order:
  "tcc_le (deriveTunnelCapability m) (deriveTunnelCapability ''SENDER_SIP_RTP__RECEIVER_SIP_RTP'') \<and>
   (getNetworkModeProfile m = None \<longleftrightarrow> \<not> tcc_supports_small_request_body (deriveTunnelCapability m)) \<and>
   (getNetworkModeProfile m = None \<longrightarrow> list_all (\<lambda>i. \<not> tcci_supported i) (buildTunnelCapabilityItems (deriveTunnelCapability m))) \<and>
   (buildTunnelCapabilityItems (deriveTunnelCapability m) = buildTunnelCapabilityItems (deriveTunnelCapability n) \<longrightarrow>
      deriveTunnelCapability m = deriveTunnelCapability n)"
proof -
  have known: "getNetworkModeProfile m = None \<longleftrightarrow> m \<notin> set (map nmp_value NETWORK_MODE_PROFILES)"
    using getNetworkModeProfile_ex [of m] by (cases "getNetworkModeProfile m") auto
  have "list_all (\<lambda>i. \<not> tcci_supported i) (buildTunnelCapabilityItems (deriveTunnelCapability m))"
    if "m \<notin> set (map nmp_value NETWORK_MODE_PROFILES)"
    using supported_items_empty_iff [of m] that by (auto simp: list_all_iff filter_empty_conv)
  then show ?thesis
    using derive_full_greatest [of m] derive_small_iff [of m] items_determine_capability by (simp add: known)
qed

text \<open>After a save that does not set the flag itself, a registration password counts as configured
  exactly when the save brings one that is not blank or one was configured before; a save without a
  password never forgets it.\<close>

lemma password_configured_rule:
  "tcu_register_auth_password_configured p = None \<Longrightarrow>
     tc_register_auth_password_configured (fst (saveTunnelConfigMock p s)) = Some True \<longleftrightarrow>
       trim (nullish (tcu_register_auth_password p) []) \<noteq> [] \<or>
       tc_register_auth_password_configured (fetchTunnelConfigMock s) = Some True"
  using password_configured_iff [of p "tunnelConfigState s"]
  by (simp add: saveTunnelConfigMock_def fetchTunnelConfigMock_def with_device_ids_def Let_def)

text \<open>Two configurations whose addresses contain no line break have the same YAML text only when
  they are equal.\<close>

lemma yaml_export_injective:
  "addresses_plain c \<Longrightarrow> addresses_plain d \<Longrightarrow> toYaml c = toYaml d \<Longrightarrow> c = d"
  by (rule toYaml_inject)

text \<open>A normalised method selection is never empty, has no duplicates, is trimmed and in upper case
  and contains the wildcard only alone; normalising it again changes nothing; and without the wildcard its
  methods are exactly the given ones that are not blank.\<close>

lemma method_selection_normalised:
  "method_selection (normalizeMethodSelection (Some ms)) \<and>
   normalizeMethodSelection (Some (normalizeMethodSelection (Some ms))) = normalizeMethodSelection (Some ms) \<and>
   (''*'' \<in> set (normalizeMethodSelection (Some ms)) \<or>
    set (normalizeMethodSelection (Some ms)) = {toUpperCase (trim m) | m. m \<in> set ms \<and> trim m \<noteq> []})"
  using method_norm.norm_shape method_norm.norm_idem set_normalizeMethodSelection by blast

text \<open>Every entry of the navigation leads to a route of the same name, title and path, in the same
  order, and no two routes share a name; the start page is one of them.\<close>

lemma navigation_matches_routes:
  "map nav_key navigation = map route_name routes \<and>
   map nav_label navigation = map route_title routes \<and>
   map nav_path navigation = map (\<lambda>r. CHR ''/'' # route_path r) routes \<and>
   distinct (map route_name routes) \<and> root_redirect \<in> set (map nav_path navigation)"
  by (simp add: navigation_def routes_def root_redirect_def)

text \<open>Every part of a diagnostic file name that comes from user input consists of ASCII letters, digits
  and single inner underscores only, and normalising it again changes nothing.\<close>

lemma file_token_safe:
  "file_token (normalizeToken t) \<and> normalizeToken (normalizeToken t) = normalizeToken t"
  using token_norm.norm_shape token_norm.norm_idem by blast

text \<open>Every request the facade sends declares a JSON body and carries the administrator token exactly
  when the local storage, or else the session storage, holds one that is not blank, with surrounding white
  space removed.\<close>

lemma admin_token_sent:
  "map_of (fi_headers (sent env verb path params body)) ''Content-Type'' = Some ''application/json'' \<and>
   map_of (fi_headers (sent env verb path params body)) ''X-Admin-Token'' =
     (case he_window env of
        None \<Rightarrow> None
      | Some st \<Rightarrow> (let t = trim (read_storage st ''siptunnel.adminToken'') in if t = [] then None else Some t))"
proof -
  have "map_of (browserAdminHeaders env) ''Content-Type'' = None"
    using admin_header_names [of _ env] by (fastforce simp: map_of_eq_None_iff)
  note c = this
  show ?thesis
  proof (cases "he_window env")
    case None
    then have "browserAdminHeaders env = []" by (simp add: browserAdminHeaders_def)
    with None show ?thesis by (simp add: sent_header)
  next
    case (Some st)
    with c map_of_admin_headers [OF Some] show ?thesis by (simp add: sent_header Let_def)
  qed
qed

text \<open>Whatever the server answers to a catalog request, every resource the facade passes on has a list
  of ports that are all finite numbers.\<close>

lemma catalog_ports_are_finite:
  "r \<in> set (elements (chain (mapTunnelCatalog p) ''resources'')) \<Longrightarrow>
     is_array (chain r ''local_ports'') \<and> list_all is_finite (elements (chain r ''local_ports''))"
  by (rule catalog_ports_finite)

text \<open>Creating a local resource replaces the resource with the same code: afterwards the code leads
  to the new resource, every other code to what it led to before, and distinct codes stay distinct.\<close>

lemma resource_create_contract:
  "find (\<lambda>r. lrsp_resource_code r = j) (localResourceState (createLocalResourceMock p now s)) =
     (if j = lrsp_resource_code p then Some (saved_resource p now)
      else find (\<lambda>r. lrsp_resource_code r = j) (localResourceState s)) \<and>
   (distinct (map lrsp_resource_code (localResourceState s)) \<longrightarrow>
      distinct (map lrsp_resource_code (localResourceState (createLocalResourceMock p now s))))"
  using resources.lookup_create [of j p now s] resources.distinct_create [of s p now]
  by (simp add: resources.keys_def resources.lookup_def)

text \<open>Deleting a mapping removes every mapping with the id and no other, and a later update of that
  id throws.\<close>

lemma mapping_delete_contract:
  "map tm_mapping_id (mappingState (deleteMappingMock k s)) =
     filter (\<lambda>j. j \<noteq> k) (map tm_mapping_id (mappingState s)) \<and>
   find (\<lambda>m. tm_mapping_id m = j) (mappingState (deleteMappingMock k s)) =
     (if j = k then None else find (\<lambda>m. tm_mapping_id m = j) (mappingState s)) \<and>
   fst (updateMappingMock k p now (deleteMappingMock k s)) = Inl (JsError ''MAPPING_NOT_FOUND'')"
  using mappings.delete_keys [of k s] mappings.lookup_delete [of j k s] mappings.update_after_delete [of k p now s]
  by (simp add: mappings.keys_def mappings.lookup_def)

text \<open>Polling an export in a reachable state never moves it backwards: its progress does not
  decrease, and its status does not go back in the order pending, collecting, packaging, finished.\<close>

lemma poll_never_regresses:
  assumes "mock_reachable s" "diagnosticJobs s j = Some r"
  shows "\<exists>r'. diagnosticJobs (snd (getDiagnosticExportMock j now s)) j = Some r' \<and>
    dej_progress (dr_job r) \<le> dej_progress (dr_job r') \<and> dej_status (dr_job r) \<le> dej_status (dr_job r')"
proof -
  have "diag_ok r" using export_jobs.reachable_inv [OF assms(1)] assms(2) by (simp add: jobs_ok_def)
  from poll_step_monotone [OF this] get_record [OF assms(2)] show ?thesis by auto
qed

text \<open>What saving the tunnel configuration returns is what is read afterwards, and saving the same
  payload again changes nothing and returns the same.\<close>

lemma tunnel_save_readback:
  "fetchTunnelConfigMock (snd (saveTunnelConfigMock p s)) = fst (saveTunnelConfigMock p s) \<and>
   saveTunnelConfigMock p (snd (saveTunnelConfigMock p s)) = saveTunnelConfigMock p s"
  by (simp add: fetch_after_saveTunnelConfig saveTunnelConfig_idem)

text \<open>In mock mode a page that creates a mapping finds it, with its methods filled in, at the end of the
  list it reads next.\<close>

lemma created_mapping_listed:
  assumes "useMockMode env" "module_loaded st"
  shows "\<exists>r. fst (fetchMappings env fetch (snd (createMapping env fetch' p now st))) = Inr r \<and>
    tmlp_items r = mappingState (as_mock st) @ [saved_mapping p now]"
  by (simp add: createMapping_mock(1) [OF assms])

text \<open>When the dashboard is computed from the server's tasks, its success and failure rates are between
  0 and 100, in double precision, even without any task.\<close>

lemma dashboard_rates_bounded:
  "\<not> useMockMode env \<Longrightarrow> fst (fetchDashboard env fetch st) = Inr d \<Longrightarrow>
     0 \<le> dm_successRate (dp_metrics d) \<and> dm_successRate (dp_metrics d) \<le> 100 \<and>
     0 \<le> dm_failureRate (dp_metrics d) \<and> dm_failureRate (dp_metrics d) \<le> 100"
  using fetchDashboard_server [of env fetch st d] dashboard_rate_bounds by auto

text \<open>The router base is always an absolute path that ends in a slash, has no empty segment and no
  unexpanded placeholder, whatever the document and the build configuration say, and normalising such a
  base changes nothing.\<close>

lemma router_base_valid:
  "router_base (resolveUIRouterBase document base_url) \<and>
   normalizeRouterBase (Some (resolveUIRouterBase document base_url)) = resolveUIRouterBase document base_url"
proof -
  have "router_base (resolveUIRouterBase document base_url)"
    by (simp add: resolveUIRouterBase_def normalizeRouterBase_shape Let_def split: option.split)
  then show ?thesis using base_norm.shape_iff_fixed by blast
qed

text \<open>The pages of a command task list, fetched one after the other with a positive page size, put
  together are exactly the tasks that match the filters, in order, and no page is longer than asked for.\<close>

lemma command_pages_complete:
  assumes "length (filterByCommon ct_requestId ct_traceId ct_status commandTasks f) \<le> k * n"
  shows "concat (map (\<lambda>i. tlr_list (fetchCommandTasksMock f (int (Suc i)) (int n))) [0..<k]) =
      filterByCommon ct_requestId ct_traceId ct_status commandTasks f \<and>
    length (tlr_list (fetchCommandTasksMock f (int (Suc i)) (int n))) \<le> n \<and>
    tlr_total (fetchCommandTasksMock f (int (Suc i)) (int n)) =
      int (length (filterByCommon ct_requestId ct_traceId ct_status commandTasks f))"
  using command_pages.pages_complete [OF assms] command_pages.page_bounded [of f i n]
    command_pages.fetch_total [of f "int (Suc i)" "int n"]
  by (simp add: command_pages.pages_def)

text \<open>Every generated device code is a valid code of twenty digits, whatever the resource type, the
  clock and the random number.\<close>

lemma generated_code_valid:
  "isGBCode20 (Some (generateGBCode type now rand))"
proof -
  let ?t = "string_of_nat now @ string_of_nat rand"
  have "\<forall>c \<in> set ?t. is_digit c" using string_of_nat_digits by auto
  from serial_shape [OF this] show ?thesis
    using type_digit_shape
    by (intro isGBCode20_pattern)
      (simp add: generateGBCode_def Let_def GB_CODE_PATTERN_def is_digit_def)
qed

text \<open>A node configuration in the form the gateway itself returns is read back unchanged after it was
  saved, provided its peer is new or already the first of the list.\<close>

lemma node_config_roundtrip:
  "readable_config p \<Longrightarrow> becomes_primary (nce_device_id (ncp_peer_node p)) s \<Longrightarrow>
     fetchNodeConfigMock (snd (saveNodeConfigMock p s)) = p"
  by (rule fetch_after_saveNodeConfig)

text \<open>The two modes are separate: in mock mode, once the mock module is loaded, an operation never
  touches the network; otherwise it never touches the mock module or its state.\<close>

lemma modes_separate:
  "(useMockMode env \<longrightarrow> module_loaded st \<longrightarrow> as_net (snd (dispatch env h p st)) = as_net st) \<and>
   (\<not> useMockMode env \<longrightarrow> as_mock (snd (dispatch env h p st)) = as_mock st \<and>
      as_module (snd (dispatch env h p st)) = as_module st)"
  using dispatch_frames by blast

text \<open>As long as no update renames a resource, no two local resources have the same code.\<close>

lemma resource_codes_distinct:
  "reachable_by keeps_code s \<Longrightarrow> distinct (map lri_resource_code (lrlp_items (fetchLocalResourcesMock s)))"
  using resource_keys.reachable_inv [of s]
  by (simp add: resource_codes_def fetchLocalResourcesMock_def resource_item_def o_def)

text \<open>Updating a mapping throws exactly when no mapping has the id, and then changes nothing;
  otherwise the stored mapping is the saved payload and every other mapping is read as before.\<close>

lemma mapping_update_contract:
  "(fst (updateMappingMock k p now s) = Inl (JsError ''MAPPING_NOT_FOUND'') \<longleftrightarrow>
      k \<notin> set (map tm_mapping_id (mappingState s))) \<and>
   (k \<notin> set (map tm_mapping_id (mappingState s)) \<longrightarrow> snd (updateMappingMock k p now s) = s) \<and>
   (k \<in> set (map tm_mapping_id (mappingState s)) \<longrightarrow> tm_mapping_id p = k \<longrightarrow>
      (let s' = snd (updateMappingMock k p now s)
       in find (\<lambda>m. tm_mapping_id m = k) (mappingState s') = Some (saved_mapping p now) \<and>
          (\<forall>j. j \<noteq> k \<longrightarrow> find (\<lambda>m. tm_mapping_id m = j) (mappingState s') = find (\<lambda>m. tm_mapping_id m = j) (mappingState s)) \<and>
          map tm_mapping_id (mappingState s') = map tm_mapping_id (mappingState s)))"
  using mappings.update_throws_iff [of k p now s] mappings.update_throws_keeps [of k p now s]
    mappings.lookup_update [of p now k s] mappings.lookup_update_other [of p now k _ s]
    mappings.update_keys [of p now k s]
  by (simp add: mappings.keys_def mappings.lookup_def Let_def)

text \<open>The mock module is imported at most once: after a call, every later call uses the outcome of that
  first import without importing again, and in particular a failed import fails every later call.\<close>

lemma mock_module_loaded_once:
  "callMockGateway imp h' (fst (snd (callMockGateway imp h c w s))) w' s' =
     (case fst (loadMockGatewayModule imp c w) of
        Inl e \<Rightarrow> (Inl e, Some (Inl e), w', s')
      | Inr m \<Rightarrow> (fst (h' m s'), Some (Inr m), w', snd (h' m s')))"
  by (cases c) (auto simp: callMockGateway_def loadMockGatewayModule_def split: prod.splits sum.splits)

end
