(* ===== verification/PageRuntime.thy ===== *)
theory PageRuntime
  imports ApiLaws Gb28181
begin

text \<open>
  What the scripts of the pages (\<open>views/*.vue\<close>) have in common. A page keeps its reactive variables in
  a record; a handler is an \<open>async\<close> function that reads and writes them and awaits calls of the
  facade. A handler is modelled as a \<open>script\<close>: a function of the page and the client state that
  returns or throws, with both states changed. \<open>await\<close> runs the call on the client state; a thrown
  error skips the rest up to the enclosing \<open>catch\<close>. One handler runs to its end before the next one
  starts; what overlapping loads do to a page is the subject of \<open>PageRaces\<close>.

  \<open>e instanceof Error ? e.message : text\<close> is the message of the error, since every error of the model
  is an \<open>Error\<close>; the \<open>text\<close> for other thrown values is never used.
\<close>

type_synonym ('a, 'p, 'w) script = "'p \<times> 'w ApiState \<Rightarrow> 'a js_result \<times> ('p \<times> 'w ApiState)"

definition returnS :: "'a \<Rightarrow> ('a, 'p, 'w) script" where
  "returnS x s = (Inr x, s)"

definition throwS :: "string \<Rightarrow> ('a, 'p, 'w) script" where
  "throwS m s = (Inl (JsError m), s)"

definition bindS :: "('a, 'p, 'w) script \<Rightarrow> ('a \<Rightarrow> ('b, 'p, 'w) script) \<Rightarrow> ('b, 'p, 'w) script" where
  "bindS m f s = (case m s of (Inl e, s') \<Rightarrow> (Inl e, s') | (Inr x, s') \<Rightarrow> f x s')"

definition thenS :: "('a, 'p, 'w) script \<Rightarrow> ('b, 'p, 'w) script \<Rightarrow> ('b, 'p, 'w) script" where
  "thenS m n = bindS m (\<lambda>_. n)"

definition awaitS :: "('a, 'w) api \<Rightarrow> ('a, 'p, 'w) script" where
  "awaitS req s = (case req (snd s) of (r, st) \<Rightarrow> (r, (fst s, st)))"

definition setS :: "('p \<Rightarrow> 'p) \<Rightarrow> (unit, 'p, 'w) script" where
  "setS f s = (Inr (), (f (fst s), snd s))"

definition readS :: "('p \<Rightarrow> ('a, 'p, 'w) script) \<Rightarrow> ('a, 'p, 'w) script" where
  "readS f s = f (fst s) s"

definition try_catch :: "(unit, 'p, 'w) script \<Rightarrow> (string \<Rightarrow> (unit, 'p, 'w) script) \<Rightarrow> (unit, 'p, 'w) script" where
  "try_catch body handler s = (case body s of (Inl (JsError m), s') \<Rightarrow> handler m s' | (Inr x, s') \<Rightarrow> (Inr x, s'))"

definition try_finally :: "(unit, 'p, 'w) script \<Rightarrow> ('p \<Rightarrow> 'p) \<Rightarrow> (unit, 'p, 'w) script" where
  "try_finally body cleanup s = (case body s of (r, p, st) \<Rightarrow> (r, (cleanup p, st)))"

text \<open>
  The frame most handlers have: raise a busy flag, reset messages, run the body, show the message of
  an error, lower the flag.
\<close>

definition guarded ::
  "(bool \<Rightarrow> 'p \<Rightarrow> 'p) \<Rightarrow> ('p \<Rightarrow> 'p) \<Rightarrow> (string \<Rightarrow> 'p \<Rightarrow> 'p) \<Rightarrow> (unit, 'p, 'w) script \<Rightarrow> (unit, 'p, 'w) script" where
  "guarded set_busy reset set_error body =
     thenS (setS (\<lambda>p. reset (set_busy True p)))
       (try_finally (try_catch body (\<lambda>m. setS (set_error m))) (set_busy False))"

named_theorems script_simps \<open>evaluation of scripts\<close>

lemma script_eval [script_simps]:
  "returnS x s = (Inr x, s)"
  "throwS m s = (Inl (JsError m), s)"
  "setS f (p, st) = (Inr (), (f p, st))"
  "readS g (p, st) = g p (p, st)"
  by (simp_all add: returnS_def throwS_def setS_def readS_def)

lemma then_eval [script_simps]: "thenS m n s = (case m s of (Inl e, s') \<Rightarrow> (Inl e, s') | (Inr x, s') \<Rightarrow> n s')"
  by (simp add: thenS_def bindS_def)

lemma await_eval [script_simps]: "awaitS req (p, st) = (fst (req st), (p, snd (req st)))"
  by (simp add: awaitS_def split: prod.splits)

lemma bind_eval [script_simps]: "bindS m f s = (case m s of (Inl e, s') \<Rightarrow> (Inl e, s') | (Inr x, s') \<Rightarrow> f x s')"
  by (simp add: bindS_def)

lemma guarded_eval:
  "guarded set_busy reset set_error body (p, st) =
     (case body (reset (set_busy True p), st) of
        (Inl (JsError m), p', st') \<Rightarrow> (Inr (), (set_busy False (set_error m p'), st'))
      | (Inr _, p', st') \<Rightarrow> (Inr (), (set_busy False p', st')))"
  by (simp add: guarded_def script_simps try_finally_def try_catch_def split: prod.splits sum.splits js_error.splits)

text \<open>What a load leaves of the client state when only its request changes it.\<close>

lemma guarded_state:
  assumes "\<And>x p st. snd (snd (k x (p, st))) = st"
  shows "snd (snd (guarded set_busy reset set_error (bindS (awaitS q) k) (p, st))) = snd (q st)"
proof -
  obtain r st' where q: "q st = (r, st')" by fastforce
  let ?p = "reset (set_busy True p)"
  show ?thesis
  proof (cases r)
    case (Inr x)
    then show ?thesis using q assms [of x ?p st'] by (cases "k x (?p, st')") (auto simp: guarded_eval script_simps split: sum.splits js_error.splits)
  qed (use q in \<open>auto simp: guarded_eval script_simps split: js_error.splits\<close>)
qed

lemma if_list_empty: "(if c then [x] else []) = [] \<longleftrightarrow> \<not> c" "(if c then xs else []) = [] \<longleftrightarrow> (c \<longrightarrow> xs = [])"
  by simp_all

lemma guarded_never_rejects: "fst (guarded set_busy reset set_error body s) = Inr ()"
  by (cases s) (simp add: guarded_eval split: prod.splits sum.splits js_error.splits)

text \<open>
  What such a handler owes the page: the flag is down when it ends, an error of the body is what the
  page shows, and a body that succeeds decides what the page shows.
\<close>

locale busy_page =
  fixes busy :: "'p \<Rightarrow> bool" and set_busy :: "bool \<Rightarrow> 'p \<Rightarrow> 'p"
    and error :: "'p \<Rightarrow> string" and set_error :: "string \<Rightarrow> 'p \<Rightarrow> 'p" and reset :: "'p \<Rightarrow> 'p"
  assumes busy_set: "busy (set_busy b p) = b"
    and error_set: "error (set_error m p) = m"
    and error_set_busy: "error (set_busy b p) = error p"
    and error_reset: "error (reset p) = []"
begin

lemma guarded_not_busy: "\<not> busy (fst (snd (guarded set_busy reset set_error body s)))"
  by (cases s) (simp add: guarded_eval busy_set split: prod.splits sum.splits js_error.splits)

lemma guarded_error:
  "body (reset (set_busy True p), st) = (Inl (JsError m), s') \<Longrightarrow>
     error (fst (snd (guarded set_busy reset set_error body (p, st)))) = m"
  by (simp add: guarded_eval error_set error_set_busy split: prod.splits)

lemma guarded_success:
  "body (reset (set_busy True p), st) = (Inr u, s') \<Longrightarrow>
     guarded set_busy reset set_error body (p, st) = (Inr (), (set_busy False (fst s'), snd s'))"
  by (cases s') (simp add: guarded_eval)

lemma guarded_shows_failure:
  "error (fst (snd (guarded set_busy reset set_error body (p, st)))) =
     (case body (reset (set_busy True p), st) of
        (Inl (JsError m), _) \<Rightarrow> m | (Inr _, s') \<Rightarrow> error (fst s'))"
  by (auto simp: guarded_eval error_set error_set_busy split: prod.splits sum.splits js_error.splits)

end

subsection \<open>Comparison of dynamic values\<close>

text \<open>
  \<open>a < b\<close> and \<open>a <= b\<close>: objects and arrays become text, two texts are compared by their bytes, anything
  else as numbers, and \<open>NaN\<close> is comparable with nothing. \<open>a === b\<close> is used on primitive values only.
\<close>

definition to_primitive :: "jsval \<Rightarrow> jsval" where
  "to_primitive v = (case v of JArr xs \<Rightarrow> JStr (js_String v) | JObj fs \<Rightarrow> JStr (js_String v) | _ \<Rightarrow> v)"

fun num_less :: "jsval \<Rightarrow> jsval \<Rightarrow> bool" where
  "num_less (JNum x) (JNum y) \<longleftrightarrow> x < y"
| "num_less (JNum x) (JInf p) \<longleftrightarrow> p"
| "num_less (JInf p) (JNum y) \<longleftrightarrow> \<not> p"
| "num_less (JInf p) (JInf q) \<longleftrightarrow> \<not> p \<and> q"
| "num_less _ _ \<longleftrightarrow> False"

fun num_leq :: "jsval \<Rightarrow> jsval \<Rightarrow> bool" where
  "num_leq (JNum x) (JNum y) \<longleftrightarrow> x \<le> y"
| "num_leq (JNum x) (JInf p) \<longleftrightarrow> p"
| "num_leq (JInf p) (JNum y) \<longleftrightarrow> \<not> p"
| "num_leq (JInf p) (JInf q) \<longleftrightarrow> \<not> p \<or> q"
| "num_leq _ _ \<longleftrightarrow> False"

definition js_less :: "jsval \<Rightarrow> jsval \<Rightarrow> bool" where
  "js_less a b \<longleftrightarrow> (case (to_primitive a, to_primitive b) of
     (JStr s, JStr t) \<Rightarrow> s < t | (x, y) \<Rightarrow> num_less (js_Number x) (js_Number y))"

definition js_leq :: "jsval \<Rightarrow> jsval \<Rightarrow> bool" where
  "js_leq a b \<longleftrightarrow> (case (to_primitive a, to_primitive b) of
     (JStr s, JStr t) \<Rightarrow> s \<le> t | (x, y) \<Rightarrow> num_leq (js_Number x) (js_Number y))"

definition strict_eq :: "jsval \<Rightarrow> jsval \<Rightarrow> bool" where
  "strict_eq a b \<longleftrightarrow> a = b \<and> a \<noteq> JNaN"

abbreviation JInt :: "int \<Rightarrow> jsval" where
  "JInt n \<equiv> JNum (of_int n)"

lemma js_compare_num [simp]:
  "js_less (JNum x) (JNum y) \<longleftrightarrow> x < y" "js_leq (JNum x) (JNum y) \<longleftrightarrow> x \<le> y"
  by (simp_all add: js_less_def js_leq_def to_primitive_def js_Number_def)

lemma truthy_num [simp]: "truthy (JNum x) \<longleftrightarrow> x \<noteq> 0" "\<not> truthy JNaN"
  by (simp_all add: truthy_def)

lemma or_else_num [simp]: "or_else (JNum x) (JNum 0) = JNum x"
  by (simp add: or_else_def)

subsection \<open>Formatting\<close>

text \<open>\<open>x.toFixed(d)\<close> for a magnitude below \<open>10^21\<close>: the nearest multiple of \<open>10^-d\<close>, ties upwards.\<close>

definition toFixed :: "nat \<Rightarrow> rat \<Rightarrow> string" where
  "toFixed d x =
     (let n = nat \<lfloor>\<bar>x\<bar> * 10 ^ d + 1 / 2\<rfloor>; m = padStart (d + 1) (string_of_nat n); k = length m - d
      in (if x < 0 then ''-'' else []) @ take k m @ (if d = 0 then [] else ''.'' @ drop k m))"

fun join_with :: "string \<Rightarrow> string list \<Rightarrow> string" where
  "join_with sep [] = []"
| "join_with sep [x] = x"
| "join_with sep (x # xs) = x @ sep @ join_with sep xs"

subsection \<open>Facts the resource and the mapping pages share\<close>

fun mode_text :: "ResponseMode \<Rightarrow> string" where
  "mode_text RM_AUTO = ''AUTO''"
| "mode_text RM_INLINE = ''INLINE''"
| "mode_text RM_RTP = ''RTP''"

text \<open>The network mode of a workspace, as the text \<open>String(networkMode || '')\<close> the limits are derived from.\<close>

definition workspace_mode :: "jsval \<Rightarrow> string option" where
  "workspace_mode w = Some (js_String (or_else (chain w ''networkMode'') (JStr [])))"

text \<open>Calls that leave the mock module's state alone.\<close>

definition keeps_mock :: "('r, 'w) api \<Rightarrow> bool" where
  "keeps_mock a \<longleftrightarrow> (\<forall>st. module_loaded st \<longrightarrow> as_mock (snd (a st)) = as_mock st \<and> module_loaded (snd (a st)))"

lemma keeps_mock_combinators:
  "keeps_mock a \<Longrightarrow> keeps_mock b \<Longrightarrow> keeps_mock (promise_all a b)"
  by (simp add: keeps_mock_def promise_all_state)

lemma keeps_mock_server: "keeps_mock (from_server q)"
  by (simp add: keeps_mock_def from_server_simps module_loaded_def)

lemma keeps_mock_read: "useMockMode env \<Longrightarrow> keeps_mock (dispatch env (mock_read h) q)"
  by (simp add: keeps_mock_def dispatch_mock mock_read_def module_loaded_def)

end
