(* ===== verification/SystemSettingsPage.thy ===== *)
theory SystemSettingsPage
  imports PageRuntime
begin

text \<open>
  The script of \<open>views/SystemSettingsView.vue\<close>: the settings form with its validation, the
  administrator session kept in the browser's storage, loading and saving. A numeric input that was
  cleared counts as \<open>0\<close>, which the validation rejects in the same way.
\<close>

subsection \<open>State\<close>

record AdminSession =
  adm_operator :: string
  adm_token :: string
  adm_mfa :: string

record SettingsPage =
  stp_loading :: bool
  stp_saving :: bool
  stp_error :: string
  stp_notice :: string
  stp_form :: "SystemSettingsState option"
  stp_resourceUsage :: "SystemResourceUsage option"
  stp_validationErrors :: "string list"
  stp_adminSession :: AdminSession

definition settings_page_init :: SettingsPage where
  "settings_page_init =
     \<lparr>stp_loading = False, stp_saving = False, stp_error = [], stp_notice = [], stp_form = None,
      stp_resourceUsage = None, stp_validationErrors = [],
      stp_adminSession = \<lparr>adm_operator = [], adm_token = [], adm_mfa = []\<rparr>\<rparr>"

subsection \<open>Labels\<close>

definition uiModeLabel :: "SettingsPage \<Rightarrow> string" where
  "uiModeLabel p = (if map_option st_uiMode (stp_form p) = Some Ui_embedded then (uni ''~5185~5D4C~6A21~5F0F~FF08~9ED8~8BA4~FF09'') else (uni ''~5916~90E8~6A21~5F0F''))"

definition consistency_color :: "string option \<Rightarrow> string" where
  "consistency_color v = (if v = Some ''aligned'' then ''green'' else if v = Some ''degraded'' then ''orange'' else ''default'')"

definition uiConsistencyTagColor :: "SettingsPage \<Rightarrow> string" where
  "uiConsistencyTagColor p = consistency_color (Option.bind (stp_form p) st_uiConsistencyStatus)"

definition uiDeliveryGuardTagColor :: "SettingsPage \<Rightarrow> string" where
  "uiDeliveryGuardTagColor p = consistency_color (Option.bind (stp_form p) st_uiDeliveryGuardStatus)"

definition cleanupSummary :: "SettingsPage \<Rightarrow> string" where
  "cleanupSummary p = (case stp_form p of
     None \<Rightarrow> (uni ''~6682~65E0~6267~884C~8BB0~5F55'')
   | Some f \<Rightarrow> str_or (st_lastCleanupStatus f) (uni ''~6682~65E0~6267~884C~8BB0~5F55'') @ (uni ''~FF1B~6700~8FD1~6E05~7406~8BB0~5F55~6570~FF1A'') @ string_of_int (st_lastCleanupRemovedRecords f))"

definition formatMiB :: "int option \<Rightarrow> string" where
  "formatMiB bytes = toFixed 1 (fl64 (of_int (nullish bytes 0) / of_int (1024 * 1024))) @ '' MB''"

definition formatMBValue :: "rat option \<Rightarrow> string" where
  "formatMBValue mb = toFixed 1 (nullish mb 0) @ '' MB''"

definition formatMbps :: "rat option \<Rightarrow> string" where
  "formatMbps mbps = toFixed 1 (nullish mbps 0) @ '' Mbps''"

definition resourceStatusTagColor :: "string option \<Rightarrow> string" where
  "resourceStatusTagColor v =
     (if v = Some ''green'' then ''green'' else if v = Some ''yellow'' then ''orange''
      else if v = Some ''red'' then ''red'' else ''default'')"

subsection \<open>Validation\<close>

text \<open>
  \<open>cronPattern\<close>: one of five aliases, or five fields of non-space characters separated by white space.
  A field and a separator have no character in common, so the match is found without backtracking:
  the longest field, then the longest separator.
\<close>

definition starts_with_space :: "string \<Rightarrow> bool" where
  "starts_with_space s \<longleftrightarrow> (\<exists>w \<in> set js_whitespace. prefix w s)"

fun split_field :: "string \<Rightarrow> string \<times> string" where
  "split_field [] = ([], [])"
| "split_field (c # s) =
     (if starts_with_space (c # s) then ([], c # s) else (let (w, r) = split_field s in (c # w, r)))"

fun match_fields :: "nat \<Rightarrow> string \<Rightarrow> bool" where
  "match_fields 0 s = (let (w, r) = split_field s in w \<noteq> [] \<and> r = [])"
| "match_fields (Suc n) s =
     (let (w, r) = split_field s in w \<noteq> [] \<and> starts_with_space r \<and> match_fields n (trim_start r))"

definition cron_aliases :: "string list" where
  "cron_aliases = [''@hourly'', ''@daily'', ''@weekly'', ''@monthly'', ''@yearly'']"

definition cronPattern :: "string \<Rightarrow> bool" where
  "cronPattern s \<longleftrightarrow> s \<in> set cron_aliases \<or> match_fields 4 s"

definition positiveInt :: "string \<Rightarrow> int \<Rightarrow> int \<Rightarrow> string list" where
  "positiveInt label v least =
     (if v = 0 \<or> v < least then [label @ (uni ''~5FC5~987B~5927~4E8E~7B49~4E8E '') @ string_of_int least] else [])"

definition positiveFloat :: "string \<Rightarrow> rat \<Rightarrow> rat \<Rightarrow> string list" where
  "positiveFloat label v least =
     (if v = 0 \<or> v < least then [label @ (uni ''~5FC5~987B~5927~4E8E~7B49~4E8E '') @ num_text least] else [])"

definition settings_issues :: "SystemSettingsState \<Rightarrow> string list" where
  "settings_issues f =
     (if trim (st_sqlitePath f) = [] then [(uni ''SQLite ~8DEF~5F84~4E0D~80FD~4E3A~7A7A'')] else []) @
     (if \<not> cronPattern (trim (st_cleanupCron f)) then [(uni ''~6E05~7406~8BA1~5212~FF08Cron~FF09~683C~5F0F~4E0D~6B63~786E'')] else []) @
     positiveInt (uni ''~4EFB~52A1~4FDD~7559~5929~6570'') (st_logRetentionDays f) 1 @
     positiveInt (uni ''~4EFB~52A1~4FDD~7559~6761~6570'') (st_logRetentionRecords f) 100 @
     positiveInt (uni ''~8BBF~95EE~65E5~5FD7~4FDD~7559~5929~6570'') (st_accessLogRetentionDays f) 1 @
     positiveInt (uni ''~8BBF~95EE~65E5~5FD7~4FDD~7559~6761~6570'') (st_accessLogRetentionRecords f) 100 @
     positiveInt (uni ''~5BA1~8BA1~4FDD~7559~5929~6570'') (st_auditRetentionDays f) 1 @
     positiveInt (uni ''~5BA1~8BA1~4FDD~7559~6761~6570'') (st_auditRetentionRecords f) 100 @
     positiveInt (uni ''~8BCA~65AD~4FDD~7559~5929~6570'') (st_diagnosticsRetentionDays f) 1 @
     positiveInt (uni ''~8BCA~65AD~4FDD~7559~6761~6570'') (st_diagnosticsRetentionRecords f) 10 @
     positiveInt (uni ''~538B~6D4B~4FDD~7559~5929~6570'') (st_loadtestRetentionDays f) 1 @
     positiveInt (uni ''~538B~6D4B~4FDD~7559~6761~6570'') (st_loadtestRetentionRecords f) 10 @
     positiveFloat (uni ''~5927~6587~4EF6~603B~5E26~5BBD~4E0A~9650~FF08Mbps~FF09'') (st_genericDownloadTotalMbps f) 1 @
     positiveFloat (uni ''~5355~4F20~8F93~4FDD~5E95~5E26~5BBD~FF08Mbps~FF09'') (st_genericDownloadPerTransferMbps f) (1 / 2) @
     positiveFloat (uni ''~5927~6587~4EF6~7A97~53E3~FF08MB~FF09'') (st_genericDownloadWindowMB f) (1 / 2) @
     positiveFloat (uni ''~70ED~70B9~7F13~5B58~FF08MB~FF09'') (st_adaptiveHotCacheMB f) 1 @
     positiveFloat (uni ''~70ED~70B9~7A97~53E3~FF08MB~FF09'') (st_adaptiveHotWindowMB f) 1 @
     positiveInt (uni ''~5927~6587~4EF6~6BB5~5E76~53D1'') (st_genericDownloadSegmentConcurrency f) 1 @
     positiveInt (uni ''RTP ~4E71~5E8F~7A97~53E3~FF08~5305~FF09'') (st_genericDownloadRTPReorderWindowPackets f) 32 @
     positiveInt (uni ''RTP ~4E22~5305~5BB9~5FCD~FF08~5305~FF09'') (st_genericDownloadRTPLossTolerancePackets f) 1 @
     positiveInt (uni ''RTP Gap ~8D85~65F6~FF08ms~FF09'') (st_genericDownloadRTPGapTimeoutMS f) 100 @
     (if st_genericDownloadRTPFECEnabled f
      then positiveInt (uni ''RTP FEC ~7EC4~5927~5C0F~FF08~5305~FF09'') (st_genericDownloadRTPFECGroupPackets f) 2 else [])"

text \<open>Without a form the messages on the page stay as they are.\<close>

definition validateSettings :: "SettingsPage \<Rightarrow> string list \<times> SettingsPage" where
  "validateSettings p = (case stp_form p of
     None \<Rightarrow> ([(uni ''~7CFB~7EDF~8BBE~7F6E~5C1A~672A~52A0~8F7D~5B8C~6210'')], p)
   | Some f \<Rightarrow> (settings_issues f, p\<lparr>stp_validationErrors := settings_issues f\<rparr>))"

subsection \<open>Handlers\<close>

text \<open>An edit of the form runs the validation, through \<open>watch(form, ...)\<close>.\<close>

definition settings_edit :: "(SystemSettingsState \<Rightarrow> SystemSettingsState) \<Rightarrow> SettingsPage \<Rightarrow> SettingsPage" where
  "settings_edit change p =
     (case stp_form p of None \<Rightarrow> p | Some f \<Rightarrow> snd (validateSettings (p\<lparr>stp_form := Some (change f)\<rparr>)))"

definition settings_reset :: "SettingsPage \<Rightarrow> SettingsPage" where
  "settings_reset p = p\<lparr>stp_error := [], stp_notice := []\<rparr>"

definition settings_load ::
  "'w ApiEnv \<Rightarrow> ('b, SystemSettingsPayload, 'w) fetcher \<Rightarrow> ('c, StartupSummaryPayload, 'w) fetcher \<Rightarrow>
    ('d, SystemResourceUsage, 'w) fetcher \<Rightarrow> (unit, SettingsPage, 'w) script" where
  "settings_load env fetch fetch_summary fetch_usage =
     guarded (\<lambda>b p. p\<lparr>stp_loading := b\<rparr>) settings_reset (\<lambda>m p. p\<lparr>stp_error := m\<rparr>)
       (bindS (awaitS (promise_all (fetchSystemSettings env fetch fetch_summary) (fetchSystemResourceUsage env fetch_usage)))
         (\<lambda>(settings, usage). setS (\<lambda>p.
            snd (validateSettings (p\<lparr>stp_form := Some settings, stp_resourceUsage := Some usage\<rparr>)))))"

text \<open>Reading the form again after the save runs the validation once more, through the watcher.\<close>

definition settings_save ::
  "'w ApiEnv \<Rightarrow> (SystemSettingsPayload, SystemSettingsPayload, 'w) fetcher \<Rightarrow> ('c, StartupSummaryPayload, 'w) fetcher \<Rightarrow>
    ('d, SystemResourceUsage, 'w) fetcher \<Rightarrow> (unit, SettingsPage, 'w) script" where
  "settings_save env fetch fetch_summary fetch_usage =
     readS (\<lambda>p. case stp_form p of
        None \<Rightarrow> returnS ()
      | Some form \<Rightarrow>
          (let (issues, p') = validateSettings p in
           thenS (setS (\<lambda>_. p'))
             (if length issues > 0 then setS (\<lambda>p. p\<lparr>stp_error := (uni ''~8BF7~5148~4FEE~6B63~7CFB~7EDF~8BBE~7F6E~4E2D~7684~6821~9A8C~95EE~9898'')\<rparr>)
              else guarded (\<lambda>b p. p\<lparr>stp_saving := b\<rparr>) settings_reset (\<lambda>m p. p\<lparr>stp_error := m\<rparr>)
                (bindS (awaitS (updateSystemSettings env fetch fetch_summary form))
                  (\<lambda>saved. thenS (setS (\<lambda>p. snd (validateSettings (p\<lparr>stp_form := Some saved\<rparr>))))
                    (bindS (awaitS (fetchSystemResourceUsage env fetch_usage))
                      (\<lambda>usage. setS (\<lambda>p. p\<lparr>stp_resourceUsage := Some usage,
                         stp_notice := (uni ''~7CFB~7EDF~8BBE~7F6E~5DF2~4FDD~5B58~5E76~91CD~65B0~56DE~8BFB~3002'')\<rparr>))))))))"

text \<open>The administrator session: three entries of \<open>localStorage\<close>.\<close>

definition loadAdminSession :: "BrowserStorage option \<Rightarrow> SettingsPage \<Rightarrow> SettingsPage" where
  "loadAdminSession window p = (case window of
     None \<Rightarrow> p
   | Some st \<Rightarrow> p\<lparr>stp_adminSession :=
       \<lparr>adm_operator = nullish (bs_local st ''siptunnel.adminOperator'') [],
        adm_token = nullish (bs_local st ''siptunnel.adminToken'') [],
        adm_mfa = nullish (bs_local st ''siptunnel.adminMfa'') []\<rparr>\<rparr>)"

definition saveAdminSession :: "SettingsPage \<Rightarrow> BrowserStorage option \<Rightarrow> SettingsPage \<times> BrowserStorage option" where
  "saveAdminSession p window = (case window of
     None \<Rightarrow> (p, None)
   | Some st \<Rightarrow>
       (p\<lparr>stp_notice := (uni ''~6D4F~89C8~5668~672C~5730~7BA1~7406~4F1A~8BDD~5DF2~4FDD~5B58~3002'')\<rparr>,
        Some (st\<lparr>bs_local := (bs_local st)
          (''siptunnel.adminOperator'' \<mapsto> adm_operator (stp_adminSession p),
           ''siptunnel.adminToken'' \<mapsto> adm_token (stp_adminSession p),
           ''siptunnel.adminMfa'' \<mapsto> adm_mfa (stp_adminSession p))\<rparr>)))"

definition clearAdminSession :: "SettingsPage \<Rightarrow> BrowserStorage option \<Rightarrow> SettingsPage \<times> BrowserStorage option" where
  "clearAdminSession p window = (case window of
     None \<Rightarrow> (p, None)
   | Some st \<Rightarrow>
       (p\<lparr>stp_adminSession := \<lparr>adm_operator = [], adm_token = [], adm_mfa = []\<rparr>,
          stp_notice := (uni ''~6D4F~89C8~5668~672C~5730~7BA1~7406~4F1A~8BDD~5DF2~6E05~7A7A~3002'')\<rparr>,
        Some (st\<lparr>bs_local := (bs_local st)
          (''siptunnel.adminOperator'' := None, ''siptunnel.adminToken'' := None, ''siptunnel.adminMfa'' := None)\<rparr>)))"

subsection \<open>The frame of the handlers\<close>

interpretation settings_loading: busy_page stp_loading "\<lambda>b p. p\<lparr>stp_loading := b\<rparr>" stp_error "\<lambda>m p. p\<lparr>stp_error := m\<rparr>" settings_reset
  by unfold_locales (simp_all add: settings_reset_def)

interpretation settings_saving: busy_page stp_saving "\<lambda>b p. p\<lparr>stp_saving := b\<rparr>" stp_error "\<lambda>m p. p\<lparr>stp_error := m\<rparr>" settings_reset
  by unfold_locales (simp_all add: settings_reset_def)

subsection \<open>The validation is exact\<close>

definition settings_valid :: "SystemSettingsState \<Rightarrow> bool" where
  "settings_valid f \<longleftrightarrow>
     trim (st_sqlitePath f) \<noteq> [] \<and> cronPattern (trim (st_cleanupCron f)) \<and>
     list_all (\<lambda>n. 1 \<le> n)
       [st_logRetentionDays f, st_accessLogRetentionDays f, st_auditRetentionDays f, st_diagnosticsRetentionDays f,
        st_loadtestRetentionDays f, st_genericDownloadSegmentConcurrency f, st_genericDownloadRTPLossTolerancePackets f] \<and>
     list_all (\<lambda>n. 100 \<le> n)
       [st_logRetentionRecords f, st_accessLogRetentionRecords f, st_auditRetentionRecords f, st_genericDownloadRTPGapTimeoutMS f] \<and>
     10 \<le> st_diagnosticsRetentionRecords f \<and> 10 \<le> st_loadtestRetentionRecords f \<and>
     list_all (\<lambda>x. 1 \<le> x) [st_genericDownloadTotalMbps f, st_adaptiveHotCacheMB f, st_adaptiveHotWindowMB f] \<and>
     1 / 2 \<le> st_genericDownloadPerTransferMbps f \<and> 1 / 2 \<le> st_genericDownloadWindowMB f \<and>
     32 \<le> st_genericDownloadRTPReorderWindowPackets f \<and>
     (st_genericDownloadRTPFECEnabled f \<longrightarrow> 2 \<le> st_genericDownloadRTPFECGroupPackets f)"

lemma positive_empty:
  "0 < a \<Longrightarrow> positiveInt l v a = [] \<longleftrightarrow> a \<le> v"
  "0 < b \<Longrightarrow> positiveFloat l x b = [] \<longleftrightarrow> b \<le> x"
  by (auto simp: positiveInt_def positiveFloat_def)

lemma settings_issues_empty: "settings_issues f = [] \<longleftrightarrow> settings_valid f"
  unfolding settings_issues_def settings_valid_def append_is_Nil_conv if_list_empty
  by (simp add: positive_empty) blast

subsection \<open>Cron fields\<close>

lemma starts_with_space_simps:
  "solid c \<Longrightarrow> \<not> starts_with_space (c # s)" "starts_with_space (CHR '' '' # s)" "\<not> starts_with_space []"
proof -
  show "\<not> starts_with_space (c # s)" if "solid c"
    using that js_whitespace_not_solid prefix_hd unfolding starts_with_space_def by (metis list.sel(1))
  show "starts_with_space (CHR '' '' # s)" unfolding starts_with_space_def js_whitespace_def by simp
  show "\<not> starts_with_space []" using js_whitespace_not_solid unfolding starts_with_space_def by auto
qed

lemma split_field_word:
  "list_all solid w \<Longrightarrow> r = [] \<or> starts_with_space r \<Longrightarrow> split_field (w @ r) = (w, r)"
proof (induction w)
  case Nil
  then show ?case by (cases r) auto
qed (simp add: starts_with_space_simps)

lemma trim_start_space_word:
  "list_all solid w \<Longrightarrow> w \<noteq> [] \<Longrightarrow> trim_start (CHR '' '' # w @ r) = w @ r"
  by (cases w) (auto simp: trim_start_def strip_space intro: trim_start_solid [unfolded trim_start_def])

lemma match_fields_join:
  assumes "list_all (\<lambda>w. w \<noteq> [] \<and> list_all solid w) (w # ws)"
  shows "match_fields n (join_with '' '' (w # ws)) \<longleftrightarrow> length ws = n"
  using assms
proof (induction n arbitrary: w ws)
  case 0
  then show ?case
    by (cases ws) (simp_all add: split_field_word [of _ "[]", simplified] split_field_word starts_with_space_simps)
next
  case (Suc n)
  show ?case
  proof (cases ws)
    case Nil
    with Suc.prems show ?thesis
      by (simp add: split_field_word [of _ "[]", simplified] starts_with_space_simps)
  next
    case (Cons v vs)
    have v: "v \<noteq> []" "list_all solid v" using Suc.prems Cons by simp_all
    have "trim_start (CHR '' '' # join_with '' '' (v # vs)) = join_with '' '' (v # vs)"
      using trim_start_space_word [OF v(2,1)] trim_start_space_word [OF v(2,1), of "[]"] by (cases vs) simp_all
    with Suc.IH [of v vs] Suc.prems Cons show ?thesis
      by (simp add: split_field_word starts_with_space_simps)
  qed
qed

text \<open>A schedule of plain fields separated by single spaces is accepted exactly when it has five of them.\<close>

lemma cron_fields:
  assumes "list_all (\<lambda>w. w \<noteq> [] \<and> list_all solid w) ws" "ws \<noteq> []" "CHR ''@'' \<notin> set (hd ws)"
  shows "cronPattern (join_with '' '' ws) \<longleftrightarrow> length ws = 5"
proof -
  obtain w vs where ws: "ws = w # vs" using assms(2) by (cases ws) auto
  obtain c u where w: "w = c # u" using assms(1) ws by (cases w) auto
  have "join_with '' '' ws \<notin> set cron_aliases" using assms(3) by (cases vs) (auto simp: ws w cron_aliases_def)
  with match_fields_join [of w vs 4] assms(1) ws show ?thesis by (simp add: cronPattern_def)
qed

subsection \<open>Saving\<close>

definition form_valid :: "SettingsPage \<Rightarrow> bool" where
  "form_valid p \<longleftrightarrow> (\<exists>f. stp_form p = Some f \<and> settings_valid f)"

lemma save_blocked:
  "\<not> form_valid p \<Longrightarrow>
     snd (snd (settings_save env fetch fs fu (p, st))) = st \<and>
     stp_form (fst (snd (settings_save env fetch fs fu (p, st)))) = stp_form p \<and>
     stp_saving (fst (snd (settings_save env fetch fs fu (p, st)))) = stp_saving p"
  by (auto simp: settings_save_def script_simps validateSettings_def form_valid_def settings_issues_empty
      split: option.splits)

lemma save_guarded:
  assumes "stp_form p = Some f" "settings_valid f"
  shows "settings_save env fetch fs fu (p, st) =
    guarded (\<lambda>b p. p\<lparr>stp_saving := b\<rparr>) settings_reset (\<lambda>m p. p\<lparr>stp_error := m\<rparr>)
      (bindS (awaitS (updateSystemSettings env fetch fs f))
        (\<lambda>saved. thenS (setS (\<lambda>p. snd (validateSettings (p\<lparr>stp_form := Some saved\<rparr>))))
          (bindS (awaitS (fetchSystemResourceUsage env fu))
            (\<lambda>usage. setS (\<lambda>p. p\<lparr>stp_resourceUsage := Some usage, stp_notice := (uni ''~7CFB~7EDF~8BBE~7F6E~5DF2~4FDD~5B58~5E76~91CD~65B0~56DE~8BFB~3002'')\<rparr>)))))
      (p\<lparr>stp_validationErrors := []\<rparr>, st)"
  using assms by (simp add: settings_save_def script_simps validateSettings_def settings_issues_empty [THEN iffD2])

text \<open>A save the server refuses keeps what the user typed and shows why.\<close>

lemma save_refused:
  assumes "stp_form p = Some f" "settings_valid f"
    "fst (updateSystemSettings env fetch fs f st) = Inl (JsError m)"
  shows "fst (snd (settings_save env fetch fs fu (p, st))) =
    p\<lparr>stp_saving := False, stp_error := m, stp_notice := [], stp_validationErrors := []\<rparr>"
  using assms(3)
  by (simp add: save_guarded [OF assms(1,2)] guarded_eval script_simps settings_reset_def)

lemma save_accepted:
  assumes "stp_form p = Some f" "settings_valid f"
    "fst (updateSystemSettings env fetch fs f st) = Inr g"
    "fst (fetchSystemResourceUsage env fu (snd (updateSystemSettings env fetch fs f st))) = Inr u"
  shows "fst (snd (settings_save env fetch fs fu (p, st))) =
    p\<lparr>stp_saving := False, stp_error := [], stp_notice := (uni ''~7CFB~7EDF~8BBE~7F6E~5DF2~4FDD~5B58~5E76~91CD~65B0~56DE~8BFB~3002''), stp_form := Some g,
      stp_resourceUsage := Some u, stp_validationErrors := settings_issues g\<rparr>"
  using assms(3,4)
  by (simp add: save_guarded [OF assms(1,2)] guarded_eval script_simps settings_reset_def validateSettings_def)

lemma save_ends:
  "fst (settings_save env fetch fs fu (p, st)) = Inr ()"
  "\<not> stp_saving p \<Longrightarrow> \<not> stp_saving (fst (snd (settings_save env fetch fs fu (p, st))))"
proof -
  show "fst (settings_save env fetch fs fu (p, st)) = Inr ()"
  proof (cases "form_valid p")
    case True
    then show ?thesis by (auto simp: form_valid_def save_guarded guarded_never_rejects)
  next
    case False
    then show ?thesis
      by (auto simp: settings_save_def script_simps validateSettings_def form_valid_def settings_issues_empty
          split: option.splits)
  qed
  show "\<not> stp_saving (fst (snd (settings_save env fetch fs fu (p, st))))" if "\<not> stp_saving p"
  proof (cases "form_valid p")
    case True
    then show ?thesis by (auto simp: form_valid_def save_guarded settings_saving.guarded_not_busy)
  qed (simp add: save_blocked that)
qed

subsection \<open>The administrator session\<close>

text \<open>A saved session is read back, and it is what the next request sends.\<close>

lemma session_roundtrip:
  "stp_adminSession (loadAdminSession (snd (saveAdminSession p (Some st))) q) = stp_adminSession p"
  by (simp add: saveAdminSession_def loadAdminSession_def)

lemma session_headers:
  assumes "he_window env = snd (saveAdminSession p (Some st))"
    "adm_token (stp_adminSession p) \<noteq> []" "adm_mfa (stp_adminSession p) \<noteq> []" "adm_operator (stp_adminSession p) \<noteq> []"
  shows "browserAdminHeaders env =
    admin_header ''X-Admin-Token'' (trim (adm_token (stp_adminSession p))) @
    admin_header ''X-Admin-MFA'' (trim (adm_mfa (stp_adminSession p))) @
    admin_header ''X-Admin-Operator'' (trim (adm_operator (stp_adminSession p)))"
  using assms by (simp add: browserAdminHeaders_def saveAdminSession_def read_storage_def str_or_def)

text \<open>After clearing it, only entries of \<open>sessionStorage\<close> are still sent.\<close>

lemma session_cleared:
  assumes "he_window env = snd (clearAdminSession p (Some st))"
  shows "browserAdminHeaders env =
    admin_header ''X-Admin-Token'' (trim (nullish (bs_session st ''siptunnel.adminToken'') [])) @
    admin_header ''X-Admin-MFA'' (trim (nullish (bs_session st ''siptunnel.adminMfa'') [])) @
    admin_header ''X-Admin-Operator'' (trim (nullish (bs_session st ''siptunnel.adminOperator'') []))"
  using assms by (simp add: browserAdminHeaders_def clearAdminSession_def read_storage_def)

text \<open>Every outcome of a save.\<close>

lemma save_outcome:
  assumes "stp_form p = Some f" "\<not> stp_saving p"
  shows "(if settings_valid f
    then (case fst (updateSystemSettings env fetch fs f st) of
            Inl (JsError m) \<Rightarrow> stp_form (fst (snd (settings_save env fetch fs fu (p, st)))) = Some f \<and>
              stp_error (fst (snd (settings_save env fetch fs fu (p, st)))) = m
          | Inr g \<Rightarrow> stp_form (fst (snd (settings_save env fetch fs fu (p, st)))) = Some g)
    else snd (snd (settings_save env fetch fs fu (p, st))) = st \<and>
      stp_form (fst (snd (settings_save env fetch fs fu (p, st)))) = Some f \<and>
      stp_validationErrors (fst (snd (settings_save env fetch fs fu (p, st)))) \<noteq> []) \<and>
    \<not> stp_saving (fst (snd (settings_save env fetch fs fu (p, st))))"
proof -
  have idle: "\<not> stp_saving (fst (snd (settings_save env fetch fs fu (p, st))))" by (rule save_ends(2) [OF assms(2)])
  show ?thesis
  proof (cases "settings_valid f")
    case True
    have "stp_form (fst (snd (settings_save env fetch fs fu (p, st)))) = Some g"
      if "fst (updateSystemSettings env fetch fs f st) = Inr g" for g
      using that by (simp add: save_guarded [OF assms(1) True] guarded_eval script_simps settings_reset_def validateSettings_def
          del: uni.simps split: sum.splits js_error.splits)
    moreover have "fst (snd (settings_save env fetch fs fu (p, st))) =
        p\<lparr>stp_saving := False, stp_error := m, stp_notice := [], stp_validationErrors := []\<rparr>"
      if "fst (updateSystemSettings env fetch fs f st) = Inl (JsError m)" for m
      by (rule save_refused [OF assms(1) True that])
    ultimately show ?thesis using idle True assms(1) by (simp split: sum.splits js_error.splits)
  next
    case False
    then have "settings_issues f \<noteq> []" by (simp add: settings_issues_empty)
    with False idle show ?thesis
      by (simp add: settings_save_def script_simps validateSettings_def assms(1) del: uni.simps)
  qed
qed

end
