(* ===== verification/AlertsPage.thy ===== *)
theory AlertsPage
  imports PageRuntime
begin

text \<open>
  The script of \<open>views/AlertsAndRateLimitView.vue\<close>: the protection state with its form, hot targets,
  temporary restrictions and the circuit. The protection state is the dynamic value the facade
  delivers; a scope or a restriction of its lists has the declared type.
\<close>

subsection \<open>Data\<close>

record ProtectionTargetStat =
  pts_target :: string
  pts_count :: int

record ProtectionScopeSnapshot =
  pss_scope :: string
  pss_label :: string
  pss_rps :: int
  pss_burst :: int
  pss_max_concurrent :: int
  pss_active_requests :: int
  pss_rate_limit_hits_total :: int
  pss_concurrent_rejects_total :: int
  pss_allowed_total :: int
  pss_top_rate_limit_targets :: "ProtectionTargetStat list option"
  pss_top_concurrent_targets :: "ProtectionTargetStat list option"
  pss_top_allowed_targets :: "ProtectionTargetStat list option"

record ProtectionRestrictionSnapshot =
  prs_scope :: string
  prs_target :: string
  prs_reason :: "string option"
  prs_created_at :: "string option"
  prs_expires_at :: "string option"
  prs_minutes :: "int option"
  prs_active :: bool

datatype RestrictionScope = Scope_source | Scope_mapping

fun scope_text :: "RestrictionScope \<Rightarrow> string" where
  "scope_text Scope_source = ''source''"
| "scope_text Scope_mapping = ''mapping''"

record AlertsPage =
  alp_loading :: bool
  alp_saving :: bool
  alp_recovering :: bool
  alp_editing :: bool
  alp_restricting :: bool
  alp_removing :: bool
  alp_removingKey :: string
  alp_error :: string
  alp_notice :: string
  alp_state :: jsval
  alp_resourceUsage :: "SystemResourceUsage option"
  alp_alertRule1 :: jsval
  alp_alertRule2 :: jsval
  alp_circuitRule1 :: jsval
  alp_circuitRule2 :: jsval
  alp_rps :: jsval
  alp_burst :: jsval
  alp_maxConcurrent :: jsval
  alp_failureThreshold :: jsval
  alp_recoveryWindowSec :: jsval
  alp_restrictionScope :: RestrictionScope
  alp_restrictionTarget :: string
  alp_restrictionMinutes :: int
  alp_restrictionReason :: string

definition alerts_page_init :: AlertsPage where
  "alerts_page_init =
     \<lparr>alp_loading = False, alp_saving = False, alp_recovering = False, alp_editing = False,
      alp_restricting = False, alp_removing = False, alp_removingKey = [], alp_error = [], alp_notice = [],
      alp_state = JUndefined, alp_resourceUsage = None,
      alp_alertRule1 = JStr [], alp_alertRule2 = JStr [], alp_circuitRule1 = JStr [], alp_circuitRule2 = JStr [],
      alp_rps = JNull, alp_burst = JNull, alp_maxConcurrent = JNull, alp_failureThreshold = JNull,
      alp_recoveryWindowSec = JNull, alp_restrictionScope = Scope_source, alp_restrictionTarget = [],
      alp_restrictionMinutes = 10, alp_restrictionReason = (uni ''~70ED~70B9~5F02~5E38~4E34~65F6~9650~5236'')\<rparr>"

definition restrictionScopeOptions :: "(string \<times> RestrictionScope) list" where
  "restrictionScopeOptions = [((uni ''~6765~6E90 IP''), Scope_source), ((uni ''~6620~5C04~8D44~6E90''), Scope_mapping)]"

subsection \<open>The form\<close>

text \<open>\<open>v?.[i]\<close> on a list or a text.\<close>

definition at_index :: "jsval \<Rightarrow> nat \<Rightarrow> jsval" where
  "at_index v i = (case v of JArr xs \<Rightarrow> (if i < length xs then xs ! i else JUndefined)
     | JStr s \<Rightarrow> (if i < length s then JStr [s ! i] else JUndefined) | _ \<Rightarrow> JUndefined)"

text \<open>
  \<open>v?.find((item) => item.startsWith(key))\<close>: only lists have \<open>find\<close>, only texts \<open>startsWith\<close>; anything
  else throws.
\<close>

fun find_prefixed :: "string \<Rightarrow> jsval list \<Rightarrow> string option js_result" where
  "find_prefixed key [] = Inr None"
| "find_prefixed key (v # vs) =
     (case v of JStr s \<Rightarrow> if prefix key s then Inr (Some s) else find_prefixed key vs
      | _ \<Rightarrow> Inl (JsError ''TypeError''))"

definition find_rule :: "string \<Rightarrow> jsval \<Rightarrow> string option js_result" where
  "find_rule key v =
     (if is_nullish v then Inr None else case v of JArr xs \<Rightarrow> find_prefixed key xs | _ \<Rightarrow> Inl (JsError ''TypeError''))"

text \<open>\<open>text.split('=')[1]\<close> for a text with an equals sign.\<close>

definition after_equals :: "string \<Rightarrow> string" where
  "after_equals s = takeWhile (\<lambda>c. c \<noteq> CHR ''='') (tl (dropWhile (\<lambda>c. c \<noteq> CHR ''='') s))"

definition rule_number :: "jsval \<Rightarrow> string option \<Rightarrow> jsval" where
  "rule_number v parsed =
     coalesce v (case parsed of None \<Rightarrow> JNull | Some s \<Rightarrow> number_of_text (after_equals s))"

definition syncForm :: "jsval \<Rightarrow> (unit, AlertsPage, 'w) script" where
  "syncForm payload =
     thenS (setS (\<lambda>p. p\<lparr>
        alp_alertRule1 := coalesce (at_index (chain payload ''alertRules'') 0) (JStr []),
        alp_alertRule2 := coalesce (at_index (chain payload ''alertRules'') 1) (JStr []),
        alp_circuitRule1 := coalesce (at_index (chain payload ''circuitBreakerRules'') 0) (JStr []),
        alp_circuitRule2 := coalesce (at_index (chain payload ''circuitBreakerRules'') 1) (JStr [])\<rparr>))
     (case (find_rule ''RPS='' (chain payload ''rateLimitRules''), find_rule ''Burst='' (chain payload ''rateLimitRules''),
            find_rule ''MaxConcurrent='' (chain payload ''rateLimitRules'')) of
        (Inr parsedRps, Inr parsedBurst, Inr parsedMax) \<Rightarrow>
          setS (\<lambda>p. p\<lparr>
            alp_rps := rule_number (chain payload ''rps'') parsedRps,
            alp_burst := rule_number (chain payload ''burst'') parsedBurst,
            alp_maxConcurrent := rule_number (chain payload ''maxConcurrent'') parsedMax,
            alp_failureThreshold := coalesce (chain payload ''failureThreshold'') JNull,
            alp_recoveryWindowSec := coalesce (chain payload ''recoveryWindowSec'') JNull\<rparr>)
      | _ \<Rightarrow> throwS ''TypeError'')"

text \<open>\<open>v ?? undefined\<close>, and the payload \<open>saveAll\<close> sends.\<close>

definition defined_or_absent :: "jsval \<Rightarrow> jsval" where
  "defined_or_absent v = coalesce v JUndefined"

definition form_payload :: "AlertsPage \<Rightarrow> jsval" where
  "form_payload p = JObj
     [(''alertRules'', JArr (filter truthy [alp_alertRule1 p, alp_alertRule2 p])),
      (''circuitBreakerRules'', JArr (filter truthy [alp_circuitRule1 p, alp_circuitRule2 p])),
      (''rps'', defined_or_absent (alp_rps p)), (''burst'', defined_or_absent (alp_burst p)),
      (''maxConcurrent'', defined_or_absent (alp_maxConcurrent p)),
      (''failureThreshold'', defined_or_absent (alp_failureThreshold p)),
      (''recoveryWindowSec'', defined_or_absent (alp_recoveryWindowSec p))]"

subsection \<open>Hot targets and remaining time\<close>

record HotTarget =
  ht_target :: string
  ht_count :: int
  ht_sourceLabel :: string

text \<open>The \<open>Map\<close> from target to entry, in insertion order: setting a present key keeps its place.\<close>

definition add_item :: "string \<Rightarrow> (string \<times> HotTarget) list \<Rightarrow> ProtectionTargetStat \<Rightarrow> (string \<times> HotTarget) list" where
  "add_item label merged item =
     (case map_of merged (pts_target item) of
        Some existing \<Rightarrow>
          if pts_count item > ht_count existing
          then put (pts_target item) \<lparr>ht_target = pts_target item, ht_count = pts_count item, ht_sourceLabel = label\<rparr> merged
          else merged
      | None \<Rightarrow>
          put (pts_target item) \<lparr>ht_target = pts_target item, ht_count = pts_count item, ht_sourceLabel = label\<rparr> merged)"

definition add_items ::
  "ProtectionTargetStat list option \<Rightarrow> string \<Rightarrow> (string \<times> HotTarget) list \<Rightarrow> (string \<times> HotTarget) list" where
  "add_items items label merged = foldl (add_item label) merged (nullish items [])"

definition merged_targets :: "ProtectionScopeSnapshot \<Rightarrow> (string \<times> HotTarget) list" where
  "merged_targets scope =
     add_items (pss_top_concurrent_targets scope) (uni ''~5E76~53D1~62D2~7EDD'') (add_items (pss_top_rate_limit_targets scope) (uni ''~9650~6D41~547D~4E2D'') [])"

definition scopeHotTargets :: "ProtectionScopeSnapshot \<Rightarrow> HotTarget list" where
  "scopeHotTargets scope = slice 0 4 (sort_key (\<lambda>t. - ht_count t) (map snd (merged_targets scope)))"

text \<open>The date parser of the host is a parameter: \<open>None\<close> is an invalid date.\<close>

definition restrictionRemainingText :: "(string \<Rightarrow> int option) \<Rightarrow> int \<Rightarrow> ProtectionRestrictionSnapshot \<Rightarrow> string" where
  "restrictionRemainingText date_parse now item =
     (if \<not> prs_active item \<or> \<not> opt_truthy (prs_expires_at item) then (uni ''~5DF2~5931~6548'')
      else case date_parse (nullish (prs_expires_at item) []) of
        None \<Rightarrow> (uni ''~6709~6548'')
      | Some t \<Rightarrow>
          (let remaining = t - now in
           if remaining \<le> 0 then (uni ''~5DF2~5230~671F'')
           else (uni ''~5269~4F59 '') @ string_of_int (max 1 \<lceil>fl64 (of_int remaining / 60000)\<rceil>) @ (uni '' ~5206~949F'')))"

subsection \<open>Handlers\<close>

definition resetRestrictionForm :: "AlertsPage \<Rightarrow> AlertsPage" where
  "resetRestrictionForm p =
     p\<lparr>alp_restrictionScope := Scope_source, alp_restrictionTarget := [], alp_restrictionMinutes := 10,
       alp_restrictionReason := (uni ''~70ED~70B9~5F02~5E38~4E34~65F6~9650~5236'')\<rparr>"

definition alerts_reset :: "AlertsPage \<Rightarrow> AlertsPage" where
  "alerts_reset p = p\<lparr>alp_error := [], alp_notice := []\<rparr>"

abbreviation alerts_error :: "string \<Rightarrow> AlertsPage \<Rightarrow> AlertsPage" where
  "alerts_error m p \<equiv> p\<lparr>alp_error := m\<rparr>"

definition alerts_load ::
  "'w ApiEnv \<Rightarrow> ('b, jsval, 'w) fetcher \<Rightarrow> ('d, SystemResourceUsage, 'w) fetcher \<Rightarrow> (unit, AlertsPage, 'w) script" where
  "alerts_load env fetch fetch_usage =
     guarded (\<lambda>b p. p\<lparr>alp_loading := b\<rparr>) alerts_reset alerts_error
       (bindS (awaitS (promise_all (fetchProtectionState env fetch) (fetchSystemResourceUsage env fetch_usage)))
         (\<lambda>(protectionState, usage).
            thenS (setS (\<lambda>p. p\<lparr>alp_state := protectionState, alp_resourceUsage := Some usage\<rparr>))
              (syncForm protectionState)))"

definition cancelEdit ::
  "'w ApiEnv \<Rightarrow> ('b, jsval, 'w) fetcher \<Rightarrow> ('d, SystemResourceUsage, 'w) fetcher \<Rightarrow> (unit, AlertsPage, 'w) script" where
  "cancelEdit env fetch fetch_usage =
     thenS (setS (\<lambda>p. p\<lparr>alp_editing := False\<rparr>)) (alerts_load env fetch fetch_usage)"

text \<open>\<open>if (resp.state) \<dots> else await load()\<close>, which three handlers share.\<close>

definition adopt_state ::
  "'w ApiEnv \<Rightarrow> ('b, jsval, 'w) fetcher \<Rightarrow> ('d, SystemResourceUsage, 'w) fetcher \<Rightarrow> jsval \<Rightarrow> (unit, AlertsPage, 'w) script" where
  "adopt_state env fetch fetch_usage resp =
     (if truthy (chain resp ''state'')
      then thenS (setS (\<lambda>p. p\<lparr>alp_state := chain resp ''state''\<rparr>)) (syncForm (chain resp ''state''))
      else alerts_load env fetch fetch_usage)"

definition recoverCircuit ::
  "'w ApiEnv \<Rightarrow> (RecoverBody, jsval, 'w) fetcher \<Rightarrow> ('b, jsval, 'w) fetcher \<Rightarrow> ('d, SystemResourceUsage, 'w) fetcher \<Rightarrow>
    (unit, AlertsPage, 'w) script" where
  "recoverCircuit env fetch_recover fetch fetch_usage =
     guarded (\<lambda>b p. p\<lparr>alp_recovering := b\<rparr>) alerts_reset alerts_error
       (bindS (awaitS (recoverProtectionCircuit env fetch_recover None))
         (\<lambda>resp. thenS (adopt_state env fetch fetch_usage resp)
           (setS (\<lambda>p. p\<lparr>alp_notice :=
              (uni ''~5DF2~6267~884C~7194~65AD~6062~590D~FF0C~6E05~7406~5BF9~8C61~6570~FF1A'') @ js_String (coalesce (chain resp ''removed'') (JNum 0))\<rparr>))))"

definition saveAll :: "'w ApiEnv \<Rightarrow> (jsval, jsval, 'w) fetcher \<Rightarrow> (unit, AlertsPage, 'w) script" where
  "saveAll env fetch =
     guarded (\<lambda>b p. p\<lparr>alp_saving := b\<rparr>) alerts_reset alerts_error
       (readS (\<lambda>p. bindS (awaitS (updateProtectionState env fetch (form_payload p)))
         (\<lambda>state. thenS (setS (\<lambda>p. p\<lparr>alp_state := state\<rparr>))
           (thenS (syncForm state)
             (setS (\<lambda>p. p\<lparr>alp_editing := False, alp_notice := (uni ''~4FDD~62A4~7B56~7565~5DF2~4FDD~5B58~5E76~91CD~65B0~56DE~8BFB~3002'')\<rparr>))))))"

definition restriction_payload :: "AlertsPage \<Rightarrow> RestrictionPayload" where
  "restriction_payload p =
     \<lparr>rp_scope = scope_text (alp_restrictionScope p), rp_target = trim (alp_restrictionTarget p),
      rp_minutes = alp_restrictionMinutes p,
      rp_reason = Some (str_or (trim (alp_restrictionReason p)) (uni ''~70ED~70B9~5F02~5E38~4E34~65F6~9650~5236''))\<rparr>"

definition submitRestriction ::
  "'w ApiEnv \<Rightarrow> (RestrictionPayload, jsval, 'w) fetcher \<Rightarrow> ('b, jsval, 'w) fetcher \<Rightarrow> ('d, SystemResourceUsage, 'w) fetcher \<Rightarrow>
    (unit, AlertsPage, 'w) script" where
  "submitRestriction env fetch_upsert fetch fetch_usage =
     readS (\<lambda>p.
       if trim (alp_restrictionTarget p) = [] then setS (alerts_error (uni ''~8BF7~5148~586B~5199~9700~8981~9650~5236~7684~6765~6E90 IP ~6216~6620~5C04 ID''))
       else guarded (\<lambda>b p. p\<lparr>alp_restricting := b\<rparr>) alerts_reset alerts_error
         (bindS (awaitS (upsertProtectionRestriction env fetch_upsert (restriction_payload p)))
           (\<lambda>resp. thenS (adopt_state env fetch fetch_usage resp)
             (setS (\<lambda>p. resetRestrictionForm (p\<lparr>alp_notice :=
                (uni ''~5DF2~65B0~589E~4E34~65F6~9650~5236~FF1A'') @ trim (alp_restrictionTarget p) @ (uni ''~FF0C~6301~7EED '') @
                string_of_int (alp_restrictionMinutes p) @ (uni '' ~5206~949F~3002'')\<rparr>))))))"

definition quickRestrict ::
  "'w ApiEnv \<Rightarrow> (RestrictionPayload, jsval, 'w) fetcher \<Rightarrow> ('b, jsval, 'w) fetcher \<Rightarrow> ('d, SystemResourceUsage, 'w) fetcher \<Rightarrow>
    string \<Rightarrow> string \<Rightarrow> int option \<Rightarrow> (unit, AlertsPage, 'w) script" where
  "quickRestrict env fetch_upsert fetch fetch_usage scope target minutes =
     thenS (setS (\<lambda>p. p\<lparr>
        alp_restrictionScope := (if scope = ''mapping'' then Scope_mapping else Scope_source),
        alp_restrictionTarget := target, alp_restrictionMinutes := nullish minutes 10,
        alp_restrictionReason := (if scope = ''mapping'' then (uni ''~70ED~70B9~8D44~6E90~4E34~65F6~9650~5236'') else (uni ''~70ED~70B9~6765~6E90 IP ~4E34~65F6~9650~5236''))\<rparr>))
       (submitRestriction env fetch_upsert fetch fetch_usage)"

definition removeRestriction ::
  "'w ApiEnv \<Rightarrow> (RestrictionKey, jsval, 'w) fetcher \<Rightarrow> ('b, jsval, 'w) fetcher \<Rightarrow> ('d, SystemResourceUsage, 'w) fetcher \<Rightarrow>
    ProtectionRestrictionSnapshot \<Rightarrow> (unit, AlertsPage, 'w) script" where
  "removeRestriction env fetch_remove fetch fetch_usage item =
     guarded (\<lambda>b p. p\<lparr>alp_removing := b, alp_removingKey := (if b then prs_scope item @ ''|'' @ prs_target item else [])\<rparr>)
       alerts_reset alerts_error
       (bindS (awaitS (removeProtectionRestriction env fetch_remove (prs_scope item) (prs_target item)))
         (\<lambda>resp. thenS (adopt_state env fetch fetch_usage resp)
           (setS (\<lambda>p. p\<lparr>alp_notice := (uni ''~5DF2~89E3~9664~4E34~65F6~9650~5236~FF1A'') @ prs_target item\<rparr>))))"

subsection \<open>The frame of the handlers\<close>

interpretation alerts_loading: busy_page alp_loading "\<lambda>b p. p\<lparr>alp_loading := b\<rparr>" alp_error "\<lambda>m p. p\<lparr>alp_error := m\<rparr>" alerts_reset
  by unfold_locales (simp_all add: alerts_reset_def)

interpretation alerts_saving: busy_page alp_saving "\<lambda>b p. p\<lparr>alp_saving := b\<rparr>" alp_error "\<lambda>m p. p\<lparr>alp_error := m\<rparr>" alerts_reset
  by unfold_locales (simp_all add: alerts_reset_def)

interpretation alerts_recovering: busy_page alp_recovering "\<lambda>b p. p\<lparr>alp_recovering := b\<rparr>" alp_error "\<lambda>m p. p\<lparr>alp_error := m\<rparr>" alerts_reset
  by unfold_locales (simp_all add: alerts_reset_def)

interpretation alerts_restricting: busy_page alp_restricting "\<lambda>b p. p\<lparr>alp_restricting := b\<rparr>" alp_error "\<lambda>m p. p\<lparr>alp_error := m\<rparr>" alerts_reset
  by unfold_locales (simp_all add: alerts_reset_def)

interpretation alerts_removing: busy_page alp_removing
  "\<lambda>b p. p\<lparr>alp_removing := b, alp_removingKey := (if b then key else [])\<rparr>" alp_error "\<lambda>m p. p\<lparr>alp_error := m\<rparr>" alerts_reset
  for key
  by unfold_locales (simp_all add: alerts_reset_def)

text \<open>The key of the restriction being removed is cleared with the flag.\<close>

lemma removing_key_cleared:
  "alp_removingKey (fst (snd (removeRestriction env fr fetch fu item s))) = []"
  by (cases s) (simp add: removeRestriction_def guarded_eval split: prod.splits sum.splits js_error.splits)

text \<open>A restriction without a target is not sent.\<close>

lemma blank_restriction:
  "trim (alp_restrictionTarget p) = [] \<Longrightarrow>
     submitRestriction env fr fetch fu (p, st) = (Inr (), (p\<lparr>alp_error := (uni ''~8BF7~5148~586B~5199~9700~8981~9650~5236~7684~6765~6E90 IP ~6216~6620~5C04 ID'')\<rparr>, st))"
  by (simp add: submitRestriction_def script_simps)

text \<open>A refused restriction keeps what was typed.\<close>

lemma refused_restriction:
  assumes "trim (alp_restrictionTarget p) \<noteq> []"
    "fst (upsertProtectionRestriction env fr (restriction_payload p) st) = Inl (JsError m)"
  shows "submitRestriction env fr fetch fu (p, st) =
    (Inr (), (p\<lparr>alp_restricting := False, alp_error := m, alp_notice := []\<rparr>,
      snd (upsertProtectionRestriction env fr (restriction_payload p) st)))"
  using assms by (simp add: submitRestriction_def script_simps guarded_eval alerts_reset_def)

subsection \<open>Hot targets\<close>

definition target_stats :: "ProtectionScopeSnapshot \<Rightarrow> ProtectionTargetStat list" where
  "target_stats scope = nullish (pss_top_rate_limit_targets scope) [] @ nullish (pss_top_concurrent_targets scope) []"

definition counts_of :: "string \<Rightarrow> ProtectionTargetStat list \<Rightarrow> int set" where
  "counts_of k stats = pts_count ` {s \<in> set stats. pts_target s = k}"

text \<open>What the merge has established after the entries of \<open>stats\<close>.\<close>

definition merged_ok :: "ProtectionTargetStat list \<Rightarrow> (string \<times> HotTarget) list \<Rightarrow> bool" where
  "merged_ok stats merged \<longleftrightarrow>
     distinct (map fst merged) \<and> fst ` set merged = pts_target ` set stats \<and>
     (\<forall>(k, h) \<in> set merged. ht_target h = k \<and> ht_count h = Max (counts_of k stats))"

lemma counts_of_snoc:
  "counts_of k (stats @ [item]) = (if pts_target item = k then insert (pts_count item) (counts_of k stats) else counts_of k stats)"
  by (auto simp: counts_of_def)

lemma finite_counts_of [simp]: "finite (counts_of k stats)"
  by (simp add: counts_of_def)

lemma counts_of_empty: "counts_of k stats = {} \<longleftrightarrow> k \<notin> pts_target ` set stats"
  by (auto simp: counts_of_def)

lemma set_put: "distinct (map fst fs) \<Longrightarrow> set (put k v fs) = insert (k, v) {(k', v') \<in> set fs. k' \<noteq> k}"
  by (induction fs) (fastforce simp: image_iff split: if_splits)+

lemma fst_set_put: "fst ` set (put k v fs) = insert k (fst ` set fs)"
proof -
  have "set (map fst (put k v fs)) = insert k (set (map fst fs))" by (auto simp: keys_put)
  then show ?thesis by simp
qed

lemma merged_ok_put:
  assumes ok: "merged_ok stats merged" and c: "Max (insert c (counts_of k stats)) = c"
    and item: "pts_target item = k" "pts_count item = c" and h: "ht_target h = k" "ht_count h = c"
  shows "merged_ok (stats @ [item]) (put k h merged)"
proof -
  have d: "distinct (map fst merged)" using ok by (simp add: merged_ok_def)
  have "ht_target x = k' \<and> ht_count x = Max (counts_of k' (stats @ [item]))" if "(k', x) \<in> set (put k h merged)" for k' x
  proof (cases "k' = k")
    case True
    with that d have "x = h" by (auto simp: set_put)
    with True c item h show ?thesis by (simp add: counts_of_snoc)
  next
    case False
    with that d have "(k', x) \<in> set merged" by (auto simp: set_put)
    with ok False item show ?thesis by (auto simp: merged_ok_def counts_of_snoc)
  qed
  moreover have "fst ` set (put k h merged) = pts_target ` set (stats @ [item])"
    using ok item by (simp add: merged_ok_def fst_set_put)
  ultimately show ?thesis using d by (auto simp: merged_ok_def distinct_put)
qed

lemma merged_ok_add: "merged_ok stats merged \<Longrightarrow> merged_ok (stats @ [item]) (add_item label merged item)"
proof -
  assume ok: "merged_ok stats merged"
  let ?k = "pts_target item" and ?c = "pts_count item"
  show ?thesis
  proof (cases "map_of merged ?k")
    case None
    then have "counts_of ?k stats = {}"
      using ok by (auto simp: counts_of_empty merged_ok_def map_of_eq_None_iff)
    then show ?thesis using None ok by (simp add: add_item_def merged_ok_put)
  next
    case (Some h)
    then have "(?k, h) \<in> set merged" by (rule map_of_SomeD)
    moreover from this have "?k \<in> fst ` set merged" by force
    ultimately have h: "ht_count h = Max (counts_of ?k stats)" "counts_of ?k stats \<noteq> {}"
      using ok unfolding merged_ok_def counts_of_empty by auto
    show ?thesis
    proof (cases "?c > ht_count h")
      case True
      then have "Max (insert ?c (counts_of ?k stats)) = ?c"
        using True h(2) unfolding h(1) by (simp add: Max_insert max_def del: Max_less_iff)
      with True Some ok show ?thesis by (simp add: add_item_def merged_ok_put)
    next
      case False
      have k: "?k \<in> pts_target ` set stats" using h(2) counts_of_empty by blast
      have "Max (insert ?c (counts_of ?k stats)) = Max (counts_of ?k stats)"
        using False h by (simp add: Max_insert max_def del: Max_less_iff)
      then have same: "Max (counts_of k (stats @ [item])) = Max (counts_of k stats)" for k
        by (auto simp: counts_of_snoc)
      have "pts_target ` set (stats @ [item]) = pts_target ` set stats" using k by auto
      with False Some ok show ?thesis by (simp add: add_item_def merged_ok_def same)
    qed
  qed
qed

lemma merged_ok_fold: "merged_ok stats merged \<Longrightarrow> merged_ok (stats @ items) (foldl (add_item label) merged items)"
proof (induction items arbitrary: stats merged)
  case (Cons item items)
  from Cons.IH [OF merged_ok_add [OF Cons.prems]] show ?case by simp
qed simp

lemma merged_targets_ok: "merged_ok (target_stats scope) (merged_targets scope)"
proof -
  have "merged_ok [] []" by (simp add: merged_ok_def)
  from merged_ok_fold [OF this, of "nullish (pss_top_rate_limit_targets scope) []" "(uni ''~9650~6D41~547D~4E2D'')"]
  have "merged_ok (nullish (pss_top_rate_limit_targets scope) []) (add_items (pss_top_rate_limit_targets scope) (uni ''~9650~6D41~547D~4E2D'') [])"
    by (simp add: add_items_def)
  from merged_ok_fold [OF this, of "nullish (pss_top_concurrent_targets scope) []" "(uni ''~5E76~53D1~62D2~7EDD'')"] show ?thesis
    by (simp add: merged_targets_def target_stats_def add_items_def)
qed

lemma hot_targets_take: "scopeHotTargets scope = take 4 (sort_key (\<lambda>t. - ht_count t) (map snd (merged_targets scope)))"
  by (simp add: scopeHotTargets_def slice_nonneg slice_pos_def min_def)

text \<open>The four most frequent targets of both lists, each once with its highest count, highest first.\<close>

lemma hot_targets_distinct: "distinct (map ht_target (scopeHotTargets scope))"
proof -
  have "map (ht_target \<circ> snd) (merged_targets scope) = map fst (merged_targets scope)"
    using merged_targets_ok [of scope] by (auto simp: merged_ok_def)
  then have "distinct (map (ht_target \<circ> snd) (merged_targets scope))"
    using merged_targets_ok [of scope] by (simp only: merged_ok_def)
  then have "distinct (map ht_target (sort_key (\<lambda>t. - ht_count t) (map snd (merged_targets scope))))"
    by (simp add: distinct_map)  (metis comp_inj_on_iff distinct_map inj_on_imageI list.map_comp set_map)
  then show ?thesis unfolding hot_targets_take take_map [symmetric] by (rule distinct_take)
qed

lemma sorted_by_count:
  "sorted_wrt (\<lambda>a b. ht_count b \<le> ht_count a) (sort_key (\<lambda>t. - ht_count t) ts)"
proof -
  have "sorted (map (\<lambda>t. - ht_count t) (sort_key (\<lambda>t. - ht_count t) ts))" by simp
  then show ?thesis by (simp add: sorted_wrt_map)
qed

lemma hot_targets_sorted: "sorted_wrt (\<lambda>a b. ht_count b \<le> ht_count a) (scopeHotTargets scope)"
  unfolding hot_targets_take by (rule sorted_wrt_take) (rule sorted_by_count)

lemma hot_target_count:
  assumes "t \<in> set (scopeHotTargets scope)"
  shows "ht_target t \<in> pts_target ` set (target_stats scope)"
    and "ht_count t = Max (counts_of (ht_target t) (target_stats scope))"
proof -
  obtain k where kt: "(k, t) \<in> set (merged_targets scope)"
    using assms by (auto simp: hot_targets_take dest!: in_set_takeD)
  have ok: "merged_ok (target_stats scope) (merged_targets scope)" by (rule merged_targets_ok)
  from kt have "k \<in> fst ` set (merged_targets scope)" by force
  with ok have k: "k \<in> pts_target ` set (target_stats scope)" unfolding merged_ok_def by simp
  from ok kt have "ht_target t = k \<and> ht_count t = Max (counts_of k (target_stats scope))"
    unfolding merged_ok_def by auto
  with k show "ht_target t \<in> pts_target ` set (target_stats scope)"
    "ht_count t = Max (counts_of (ht_target t) (target_stats scope))" by auto
qed

lemma hot_target_left_out:
  assumes s: "s \<in> set (target_stats scope)" and out: "pts_target s \<notin> ht_target ` set (scopeHotTargets scope)"
    and t: "t \<in> set (scopeHotTargets scope)"
  shows "pts_count s \<le> ht_count t"
proof -
  let ?all = "sort_key (\<lambda>t. - ht_count t) (map snd (merged_targets scope))"
  have ok: "merged_ok (target_stats scope) (merged_targets scope)" by (rule merged_targets_ok)
  then have "pts_target s \<in> fst ` set (merged_targets scope)" using s unfolding merged_ok_def by simp
  then obtain h where kh: "(pts_target s, h) \<in> set (merged_targets scope)" by force
  with ok have h: "ht_target h = pts_target s" "ht_count h = Max (counts_of (pts_target s) (target_stats scope))"
    unfolding merged_ok_def by auto
  have "h \<in> set ?all" using kh by force
  moreover have "h \<notin> set (take 4 ?all)" using out h(1) unfolding hot_targets_take by (metis image_eqI)
  ultimately have "h \<in> set (drop 4 ?all)" by (metis Un_iff append_take_drop_id set_append)
  moreover have "t \<in> set (take 4 ?all)" using t by (simp add: hot_targets_take)
  moreover have "sorted_wrt (\<lambda>a b. ht_count b \<le> ht_count a) (take 4 ?all @ drop 4 ?all)"
    unfolding append_take_drop_id by (rule sorted_by_count)
  ultimately have "ht_count h \<le> ht_count t" unfolding sorted_wrt_append by blast
  moreover have "pts_count s \<le> ht_count h" unfolding h(2) using s by (auto simp: counts_of_def intro!: Max_ge)
  ultimately show ?thesis by simp
qed

lemma hot_targets_length: "length (scopeHotTargets scope) = min 4 (card (pts_target ` set (target_stats scope)))"
proof -
  have ok: "merged_ok (target_stats scope) (merged_targets scope)" by (rule merged_targets_ok)
  then have "card (fst ` set (merged_targets scope)) = length (merged_targets scope)"
    unfolding merged_ok_def by (metis distinct_card length_map set_map)
  with ok show ?thesis by (simp add: hot_targets_take merged_ok_def min.commute)
qed

subsection \<open>What the form keeps of the state\<close>

lemma find_prefixed_texts: "list_all (\<lambda>v. \<exists>s. v = JStr s) vs \<Longrightarrow> \<exists>r. find_prefixed key vs = Inr r"
  by (induction vs) auto

lemma sync_form:
  assumes "find_rule ''RPS='' (chain payload ''rateLimitRules'') = Inr a"
    "find_rule ''Burst='' (chain payload ''rateLimitRules'') = Inr b"
    "find_rule ''MaxConcurrent='' (chain payload ''rateLimitRules'') = Inr c"
  shows "syncForm payload (p, st) = (Inr (), (p\<lparr>
      alp_alertRule1 := coalesce (at_index (chain payload ''alertRules'') 0) (JStr []),
      alp_alertRule2 := coalesce (at_index (chain payload ''alertRules'') 1) (JStr []),
      alp_circuitRule1 := coalesce (at_index (chain payload ''circuitBreakerRules'') 0) (JStr []),
      alp_circuitRule2 := coalesce (at_index (chain payload ''circuitBreakerRules'') 1) (JStr []),
      alp_rps := rule_number (chain payload ''rps'') a, alp_burst := rule_number (chain payload ''burst'') b,
      alp_maxConcurrent := rule_number (chain payload ''maxConcurrent'') c,
      alp_failureThreshold := coalesce (chain payload ''failureThreshold'') JNull,
      alp_recoveryWindowSec := coalesce (chain payload ''recoveryWindowSec'') JNull\<rparr>, st))"
  by (simp only: syncForm_def assms script_simps prod.case sum.case)

lemma find_rule_texts: "list_all (\<lambda>v. \<exists>s. v = JStr s) vs \<Longrightarrow> \<exists>r. find_rule key (JArr vs) = Inr r"
  using find_prefixed_texts by (simp add: find_rule_def)

lemma first_two_truthy:
  "list_all truthy xs \<Longrightarrow>
     filter truthy [coalesce (at_index (JArr xs) 0) (JStr []), coalesce (at_index (JArr xs) 1) (JStr [])] = take 2 xs"
proof -
  assume xs: "list_all truthy xs"
  have keep: "\<not> is_nullish x" if "truthy x" for x using that by (auto simp: is_nullish_def)
  show ?thesis
  proof (cases xs)
    case (Cons a ys)
    with xs show ?thesis by (cases ys) (auto simp: at_index_def keep coalesce_def)
  qed (simp add: at_index_def coalesce_def)
qed

text \<open>The hot targets of a protection scope are the targets of its two lists, each once and with its
  highest count, highest first; they are four, or all there are when there are fewer, and no target left
  out has a higher count than one shown.\<close>

lemma hot_targets_correct:
  "distinct (map ht_target (scopeHotTargets scope)) \<and>
   sorted_wrt (\<lambda>a b. ht_count b \<le> ht_count a) (scopeHotTargets scope) \<and>
   length (scopeHotTargets scope) = min 4 (card (pts_target ` set (target_stats scope))) \<and>
   (\<forall>t. t \<in> set (scopeHotTargets scope) \<longrightarrow>
      ht_target t \<in> pts_target ` set (target_stats scope) \<and>
      ht_count t = Max (counts_of (ht_target t) (target_stats scope)) \<and>
      (\<forall>x. x \<in> set (target_stats scope) \<longrightarrow> pts_target x \<notin> ht_target ` set (scopeHotTargets scope) \<longrightarrow> pts_count x \<le> ht_count t))"
  using hot_targets_distinct [of scope] hot_targets_sorted [of scope] hot_targets_length [of scope]
    hot_target_count [of _ scope] hot_target_left_out [of _ scope] by blast

end
