(* ===== verification/NodesPage.thy ===== *)
theory NodesPage
  imports PageRuntime TunnelCapability Gb28181
begin

text \<open>
  The script of \<open>views/NodesAndTunnelsView.vue\<close>: the node and tunnel workspace with its validation, the
  linkage between network mode and channels, code generation, loading and saving. The workspace is
  the dynamic value the facade delivers; \<open>undefined\<close> stands for the empty \<open>ref\<close>.
\<close>

subsection \<open>State\<close>

record NodesPage =
  ndp_loading :: bool
  ndp_saving :: bool
  ndp_error :: string
  ndp_notice :: string
  ndp_workspace :: jsval
  ndp_validationErrors :: "string list"
  ndp_registerAuthPasswordInput :: string

definition nodes_page_init :: NodesPage where
  "nodes_page_init =
     \<lparr>ndp_loading = False, ndp_saving = False, ndp_error = [], ndp_notice = [], ndp_workspace = JUndefined,
      ndp_validationErrors = [], ndp_registerAuthPasswordInput = []\<rparr>"

definition transportOptions :: "SelectOption list" where
  "transportOptions = [\<lparr>so_label = ''UDP'', so_value = ''UDP''\<rparr>, \<lparr>so_label = ''TCP'', so_value = ''TCP''\<rparr>]"

definition mappingRelayModeOptions :: "SelectOption list" where
  "mappingRelayModeOptions =
     [\<lparr>so_label = (uni ''~81EA~52A8~FF08~6309~7F51~7EDC~6A21~5F0F~80FD~529B~FF09''), so_value = ''AUTO''\<rparr>,
      \<lparr>so_label = (uni ''~4EC5 SIP ~94FE~8DEF~FF08~5C0F~8BF7~6C42/~5C0F~54CD~5E94~FF09''), so_value = ''SIP_ONLY''\<rparr>]"

definition initiatorOptions :: "SelectOption list" where
  "initiatorOptions =
     [\<lparr>so_label = (uni ''~672C~7EA7~57DF~4F5C~4E3A~4E0B~7EA7~57DF~FF1A~4E3B~52A8~5411~4E0A~7EA7~57DF REGISTER''), so_value = ''LOCAL''\<rparr>,
      \<lparr>so_label = (uni ''~672C~7EA7~57DF~4F5C~4E3A~4E0A~7EA7~57DF~FF1A~7B49~5F85~4E0B~7EA7~57DF REGISTER''), so_value = ''PEER''\<rparr>]"

definition networkModeOptions :: "SelectOption list" where
  "networkModeOptions =
     [\<lparr>so_label = (uni ''~4EC5 SIP~FF1A~672C~7EA7~57DF~53D1~8D77~FF1B~7EA7~8054~5BF9~7AEF~7ECF SIP ~56DE~4F20~FF08~5C0F~8BF7~6C42/~5C0F~54CD~5E94~FF09''), so_value = ''SENDER_SIP__RECEIVER_SIP''\<rparr>,
      \<lparr>so_label = (uni ''~5355~5411~8BF7~6C42~FF1A~672C~7EA7~57DF~53D1~8D77~FF1B~7EA7~8054~5BF9~7AEF~7ECF RTP ~56DE~4F20''), so_value = ''SENDER_SIP__RECEIVER_RTP''\<rparr>,
      \<lparr>so_label = (uni ''~5355~5411~8BF7~6C42~FF1A~672C~7EA7~57DF~53D1~8D77~FF1B~7EA7~8054~5BF9~7AEF~7ECF SIP/RTP ~56DE~4F20''), so_value = ''SENDER_SIP__RECEIVER_SIP_RTP''\<rparr>,
      \<lparr>so_label = (uni ''~53CC~65B9~8BF7~6C42~FF1A~672C~7EA7~57DF~4E0E~7EA7~8054~5BF9~7AEF~5747~652F~6301 SIP/RTP''), so_value = ''SENDER_SIP_RTP__RECEIVER_SIP_RTP''\<rparr>]"

definition capabilityLabelMap :: "(string \<times> string) list" where
  "capabilityLabelMap =
     [(''supports_small_request_body'', (uni ''~5C0F~8BF7~6C42~4F53'')), (''supports_large_request_body'', (uni ''~5927~8BF7~6C42~4F53'')),
      (''supports_large_response_body'', (uni ''~5927~54CD~5E94~4F53'')), (''supports_streaming_response'', (uni ''~6D41~5F0F~54CD~5E94'')),
      (''supports_bidirectional_http_tunnel'', (uni ''~53CC~5411 HTTP ~96A7~9053''))]"

subsection \<open>Capability matrix\<close>

definition matrix_row :: "string \<Rightarrow> bool \<Rightarrow> jsval" where
  "matrix_row k supported = JObj [(''key'', JStr k), (''supported'', JBool supported)]"

definition deriveCapabilityMatrix :: "jsval \<Rightarrow> jsval" where
  "deriveCapabilityMatrix mode =
     (if mode = JStr ''SENDER_SIP__RECEIVER_SIP'' then JArr
        [matrix_row ''supports_small_request_body'' True, matrix_row ''supports_large_request_body'' False,
         matrix_row ''supports_large_response_body'' False, matrix_row ''supports_streaming_response'' False,
         matrix_row ''supports_bidirectional_http_tunnel'' False]
      else if mode = JStr ''SENDER_SIP__RECEIVER_RTP'' \<or> mode = JStr ''SENDER_SIP__RECEIVER_SIP_RTP'' then JArr
        [matrix_row ''supports_small_request_body'' True, matrix_row ''supports_large_request_body'' False,
         matrix_row ''supports_large_response_body'' True, matrix_row ''supports_streaming_response'' True,
         matrix_row ''supports_bidirectional_http_tunnel'' False]
      else JArr
        [matrix_row ''supports_small_request_body'' True, matrix_row ''supports_large_request_body'' True,
         matrix_row ''supports_large_response_body'' True, matrix_row ''supports_streaming_response'' True,
         matrix_row ''supports_bidirectional_http_tunnel'' True])"

record CapabilityRow =
  cr_key :: jsval
  cr_label :: jsval
  cr_result :: string

definition capability_label :: "jsval \<Rightarrow> jsval" where
  "capability_label k = (case map_of capabilityLabelMap (js_String k) of Some l \<Rightarrow> JStr l | None \<Rightarrow> k)"

definition capabilityRows :: "NodesPage \<Rightarrow> CapabilityRow list" where
  "capabilityRows p = map (\<lambda>item.
     \<lparr>cr_key = chain item ''key'', cr_label = capability_label (chain item ''key''),
      cr_result = (if truthy (chain item ''supported'') then (uni ''~652F~6301'') else (uni ''~4E0D~652F~6301''))\<rparr>)
     (elements (coalesce (chain (ndp_workspace p) ''capabilityMatrix'') (JArr [])))"

definition roleHint :: "NodesPage \<Rightarrow> string" where
  "roleHint p =
     (if toUpperCase (js_String (or_else (chain (chain (ndp_workspace p) ''sessionSettings'') ''connection_initiator'') (JStr []))) = ''PEER''
      then (uni ''~5F53~524D~6309 GB/T 28181 ~4E0A~7EA7~57DF~6A21~5F0F~8FD0~884C~FF1A~672C~7EA7~57DF~76D1~542C SIP ~4FE1~4EE4~7AEF~53E3~FF0C~7B49~5F85~4E0B~7EA7~57DF~4E3B~52A8 REGISTER~FF1B~7EA7~8054~5BF9~7AEF~662F~4E0B~7EA7~57DF~3002'')
      else (uni ''~5F53~524D~6309 GB/T 28181 ~4E0B~7EA7~57DF~4E25~683C~6A21~5F0F~8FD0~884C~FF1A~672C~7EA7~57DF~4E3B~52A8~5411~4E0A~7EA7~57DF~53D1~8D77 REGISTER / MESSAGE(~4FDD~6D3B/~63A7~5236) / SUBSCRIBE~FF0C~7EA7~8054~5BF9~7AEF~662F~4E0A~7EA7~57DF~3002''))"

subsection \<open>Linkage\<close>

text \<open>Setting a property of an object.\<close>

definition set_prop :: "string \<Rightarrow> jsval \<Rightarrow> jsval \<Rightarrow> jsval" where
  "set_prop k v obj = (case obj of JObj fs \<Rightarrow> JObj (put k v fs) | _ \<Rightarrow> obj)"

definition response_channel :: "jsval \<Rightarrow> jsval \<Rightarrow> string" where
  "response_channel mode relay =
     (let relayMode = toUpperCase (js_String (or_else relay (JStr ''AUTO''))) in
      if mode = JStr ''SENDER_SIP__RECEIVER_SIP'' then ''SIP''
      else if mode = JStr ''SENDER_SIP__RECEIVER_RTP'' then (if relayMode = ''SIP_ONLY'' then ''SIP'' else ''RTP'')
      else if relayMode = ''SIP_ONLY'' then ''SIP'' else ''SIP/RTP'')"

definition linked_session :: "jsval \<Rightarrow> jsval \<Rightarrow> jsval" where
  "linked_session mode session =
     set_prop ''response_channel'' (JStr (response_channel mode (chain session ''mapping_relay_mode'')))
       (set_prop ''request_channel'' (JStr ''SIP'') (set_prop ''network_mode'' mode session))"

definition linked_workspace :: "jsval \<Rightarrow> jsval" where
  "linked_workspace w =
     (let mode = chain w ''networkMode'' in
      set_prop ''sessionSettings'' (linked_session mode (chain w ''sessionSettings''))
        (set_prop ''capabilityMatrix'' (deriveCapabilityMatrix mode) w))"

definition applyNetworkModeLinkage :: "(unit, NodesPage, 'w) script" where
  "applyNetworkModeLinkage =
     readS (\<lambda>p.
       if \<not> truthy (ndp_workspace p) then returnS ()
       else if is_nullish (chain (ndp_workspace p) ''sessionSettings'') then
         thenS (setS (\<lambda>p. p\<lparr>ndp_workspace :=
             set_prop ''capabilityMatrix'' (deriveCapabilityMatrix (chain (ndp_workspace p) ''networkMode'')) (ndp_workspace p)\<rparr>))
           (throwS ''TypeError'')
       else setS (\<lambda>p. p\<lparr>ndp_workspace := linked_workspace (ndp_workspace p)\<rparr>))"

subsection \<open>Validation\<close>

definition gb_code_ok :: "jsval \<Rightarrow> bool" where
  "gb_code_ok v \<longleftrightarrow> GB_CODE_PATTERN (trim (js_String (or_else v (JStr []))))"

definition port_of :: "jsval \<Rightarrow> string \<Rightarrow> jsval" where
  "port_of v k = or_else (chain v k) (JNum 0)"

definition workspace_issues :: "jsval \<Rightarrow> string \<Rightarrow> string list" where
  "workspace_issues w password =
     (let l = chain w ''localNode''; r = chain w ''peerNode''; ss = chain w ''sessionSettings'' in
     (if \<not> gb_code_ok (chain l ''device_id'') then [(uni ''~672C~7EA7~57DF~7F16~7801~5FC5~987B~4E3A 20 ~4F4D~56FD~6807~7F16~7801'')] else []) @
     (if \<not> gb_code_ok (chain r ''device_id'') then [(uni ''~7EA7~8054~5BF9~7AEF~7F16~7801~5FC5~987B~4E3A 20 ~4F4D~56FD~6807~7F16~7801'')] else []) @
     (if \<not> truthy (chain l ''node_ip'') then [(uni ''~672C~7EA7~57DF~76D1~542C~5730~5740~4E0D~80FD~4E3A~7A7A'')] else []) @
     (if \<not> truthy (chain r ''node_ip'') then [(uni ''~7EA7~8054~7EA7~8054~5BF9~7AEF~5730~5740~4E0D~80FD~4E3A~7A7A'')] else []) @
     (if \<not> truthy (chain l ''signaling_port'') then [(uni ''~672C~7EA7~57DF SIP ~4FE1~4EE4~7AEF~53E3~4E0D~80FD~4E3A~7A7A'')] else []) @
     (if \<not> truthy (chain r ''signaling_port'') then [(uni ''~7EA7~8054~5BF9~7AEF SIP ~4FE1~4EE4~7AEF~53E3~4E0D~80FD~4E3A~7A7A'')] else []) @
     (if \<not> truthy (chain l ''mapping_port_start'') \<or> \<not> truthy (chain l ''mapping_port_end'')
      then [(uni ''~672C~5730~96A7~9053~6620~5C04~7AEF~53E3~8303~56F4~4E0D~80FD~4E3A~7A7A'')] else []) @
     (if js_less (port_of l ''mapping_port_end'') (port_of l ''mapping_port_start'')
      then [(uni ''~672C~5730~96A7~9053~6620~5C04~8D77~59CB~7AEF~53E3~4E0D~80FD~5927~4E8E~7ED3~675F~7AEF~53E3'')] else []) @
     (if js_leq (port_of l ''mapping_port_start'') (port_of l ''signaling_port'')
         \<and> js_leq (port_of l ''signaling_port'') (port_of l ''mapping_port_end'')
      then [(uni ''~672C~5730~96A7~9053~6620~5C04~7AEF~53E3~8303~56F4~4E0D~80FD~8986~76D6~672C~7EA7~57DF SIP ~4FE1~4EE4~7AEF~53E3'')] else []) @
     (if js_leq (port_of l ''mapping_port_start'') (port_of l ''rtp_port_end'')
         \<and> js_leq (port_of l ''rtp_port_start'') (port_of l ''mapping_port_end'')
      then [(uni ''~672C~5730~96A7~9053~6620~5C04~7AEF~53E3~8303~56F4~4E0D~80FD~4E0E~672C~7EA7~57DF RTP ~7AEF~53E3~8303~56F4~91CD~53E0'')] else []) @
     (if js_less (port_of ss ''catalog_subscribe_expires_sec'') (JNum 60) then [(uni ''Catalog ~7EED~8BA2~5468~671F~81F3~5C11~4E3A 60 ~79D2'')] else []) @
     (if js_less (port_of ss ''heartbeat_interval_sec'') (JNum 5) then [(uni ''~5FC3~8DF3~95F4~9694~81F3~5C11~4E3A 5 ~79D2'')] else []) @
     (if truthy (chain ss ''register_auth_enabled'') \<and> trim password = []
         \<and> \<not> truthy (chain ss ''register_auth_password_configured'')
      then [(uni ''~542F~7528 Digest ~9274~6743~65F6~5FC5~987B~586B~5199~9274~6743~5BC6~7801'')] else []))"

text \<open>The three parts are read without optional chaining.\<close>

definition nodes_validate :: "(string list, NodesPage, 'w) script" where
  "nodes_validate =
     readS (\<lambda>p.
       let w = ndp_workspace p; issues = workspace_issues w (ndp_registerAuthPasswordInput p) in
       if \<not> truthy w then returnS [(uni ''~8282~70B9~4E0E~7EA7~8054~6570~636E~5C1A~672A~52A0~8F7D~5B8C~6210'')]
       else if is_nullish (chain w ''localNode'') \<or> is_nullish (chain w ''peerNode'') \<or> is_nullish (chain w ''sessionSettings'')
       then throwS ''TypeError''
       else thenS (setS (\<lambda>p. p\<lparr>ndp_validationErrors := issues\<rparr>)) (returnS issues))"

definition validate_only :: "(unit, NodesPage, 'w) script" where
  "validate_only = bindS nodes_validate (\<lambda>_. returnS ())"

subsection \<open>Handlers\<close>

definition set_device_id :: "string \<Rightarrow> string \<Rightarrow> NodesPage \<Rightarrow> NodesPage" where
  "set_device_id node code p =
     p\<lparr>ndp_workspace := set_prop node (set_prop ''device_id'' (JStr code) (chain (ndp_workspace p) node)) (ndp_workspace p)\<rparr>"

text \<open>\<open>generateLocalNodeCode\<close> and \<open>generatePeerNodeCode\<close>, with the clock and the random number as arguments.\<close>

definition generateNodeCode :: "string \<Rightarrow> nat \<Rightarrow> nat \<Rightarrow> (unit, NodesPage, 'w) script" where
  "generateNodeCode node now rand =
     readS (\<lambda>p.
       if \<not> truthy (ndp_workspace p) then returnS ()
       else if is_nullish (chain (ndp_workspace p) node) then throwS ''TypeError''
       else thenS (setS (set_device_id node (generateGBCode (Some ''SERVER'') now rand))) validate_only)"

text \<open>Choosing another mode runs the linkage, through the two watchers.\<close>

definition select_network_mode :: "string \<Rightarrow> (unit, NodesPage, 'w) script" where
  "select_network_mode mode =
     thenS (setS (\<lambda>p. p\<lparr>ndp_workspace := set_prop ''networkMode'' (JStr mode) (ndp_workspace p)\<rparr>)) applyNetworkModeLinkage"

definition select_relay_mode :: "string \<Rightarrow> (unit, NodesPage, 'w) script" where
  "select_relay_mode relay =
     thenS (setS (\<lambda>p. p\<lparr>ndp_workspace := set_prop ''sessionSettings''
         (set_prop ''mapping_relay_mode'' (JStr relay) (chain (ndp_workspace p) ''sessionSettings'')) (ndp_workspace p)\<rparr>))
       applyNetworkModeLinkage"

definition nodes_load :: "'w ApiEnv \<Rightarrow> ('b, jsval, 'w) fetcher \<Rightarrow> bool \<Rightarrow> (unit, NodesPage, 'w) script" where
  "nodes_load env fetch resetNotice =
     guarded (\<lambda>b p. p\<lparr>ndp_loading := b\<rparr>)
       (\<lambda>p. p\<lparr>ndp_error := [], ndp_notice := (if resetNotice then [] else ndp_notice p)\<rparr>) (\<lambda>m p. p\<lparr>ndp_error := m\<rparr>)
       (bindS (awaitS (fetchNodeTunnelWorkspace env fetch))
         (\<lambda>w. thenS (setS (\<lambda>p. p\<lparr>ndp_workspace := w, ndp_registerAuthPasswordInput := []\<rparr>))
           (thenS applyNetworkModeLinkage validate_only)))"

definition missing_code :: "jsval \<Rightarrow> string \<Rightarrow> bool" where
  "missing_code w node \<longleftrightarrow> truthy w \<and> trim (js_String (or_else (chain (chain w node) ''device_id'') (JStr []))) = []"

definition mapping_port :: "jsval \<Rightarrow> string \<Rightarrow> jsval" where
  "mapping_port w k = js_Number (or_else (chain (chain w ''localNode'') k) (JNum 0))"

text \<open>\<open>a != b\<close> on two numbers.\<close>

definition num_differs :: "jsval \<Rightarrow> jsval \<Rightarrow> bool" where
  "num_differs a b \<longleftrightarrow> \<not> strict_eq a b"

definition readback_check :: "jsval \<Rightarrow> jsval \<Rightarrow> jsval \<Rightarrow> string option" where
  "readback_check expectedStart expectedEnd w =
     (let actualStart = mapping_port w ''mapping_port_start''; actualEnd = mapping_port w ''mapping_port_end'' in
      if js_less (JNum 0) expectedStart \<and> js_less (JNum 0) expectedEnd
         \<and> (num_differs actualStart expectedStart \<or> num_differs actualEnd expectedEnd)
      then Some ((uni ''~4FDD~5B58~540E~56DE~8BFB~4E0D~4E00~81F4~FF1A~671F~671B~672C~5730~96A7~9053~6620~5C04~7AEF~53E3~8303~56F4 '') @ js_String expectedStart @ ''-'' @ js_String expectedEnd @
             (uni ''~FF0C~5B9E~9645~56DE~8BFB~4E3A '') @ js_String (or_else actualStart (JStr ''-'')) @ ''-'' @ js_String (or_else actualEnd (JStr ''-'')))
      else None)"

definition nodes_save_body ::
  "'w ApiEnv \<Rightarrow> (jsval, jsval, 'w) fetcher \<Rightarrow> ('b, jsval, 'w) fetcher \<Rightarrow> (unit, NodesPage, 'w) script" where
  "nodes_save_body env fetch_save fetch =
     readS (\<lambda>p.
       let expectedStart = mapping_port (ndp_workspace p) ''mapping_port_start'';
           expectedEnd = mapping_port (ndp_workspace p) ''mapping_port_end'';
           w = set_prop ''sessionSettings''
                 (set_prop ''register_auth_password'' (JStr (ndp_registerAuthPasswordInput p))
                   (chain (ndp_workspace p) ''sessionSettings'')) (ndp_workspace p)
       in thenS (setS (\<lambda>p. p\<lparr>ndp_workspace := w\<rparr>))
           (thenS (awaitS (saveNodeTunnelWorkspace env fetch_save w))
             (bindS (awaitS (fetchNodeTunnelWorkspace env fetch))
               (\<lambda>reloaded. thenS (setS (\<lambda>p. p\<lparr>ndp_workspace := reloaded, ndp_registerAuthPasswordInput := []\<rparr>))
                 (thenS applyNetworkModeLinkage (thenS validate_only
                   (readS (\<lambda>p. case readback_check expectedStart expectedEnd (ndp_workspace p) of
                      Some m \<Rightarrow> throwS m
                    | None \<Rightarrow> setS (\<lambda>p. p\<lparr>ndp_notice := (uni ''~8282~70B9~4E0E~7EA7~8054~914D~7F6E~5DF2~4FDD~5B58~5E76~5E94~7528'')\<rparr>)))))))))"

definition nodes_save ::
  "'w ApiEnv \<Rightarrow> (jsval, jsval, 'w) fetcher \<Rightarrow> ('b, jsval, 'w) fetcher \<Rightarrow> nat \<Rightarrow> nat \<Rightarrow> nat \<Rightarrow> nat \<Rightarrow> (unit, NodesPage, 'w) script" where
  "nodes_save env fetch_save fetch now rand now' rand' =
     thenS (readS (\<lambda>p. if missing_code (ndp_workspace p) ''localNode'' then generateNodeCode ''localNode'' now rand else returnS ()))
     (thenS (readS (\<lambda>p. if missing_code (ndp_workspace p) ''peerNode'' then generateNodeCode ''peerNode'' now' rand' else returnS ()))
     (bindS nodes_validate (\<lambda>issues.
        if length issues > 0 then returnS ()
        else guarded (\<lambda>b p. p\<lparr>ndp_saving := b\<rparr>) (\<lambda>p. p\<lparr>ndp_error := [], ndp_notice := []\<rparr>) (\<lambda>m p. p\<lparr>ndp_error := m\<rparr>)
          (nodes_save_body env fetch_save fetch))))"

subsection \<open>The shape of a workspace\<close>

text \<open>
  What the declared type \<open>NodeTunnelWorkspace\<close> promises of the parts the page reads without a check.
  Every workspace the facade delivers has this shape, whatever the server answered, and the page keeps it.
\<close>

definition is_object :: "jsval \<Rightarrow> bool" where
  "is_object v \<longleftrightarrow> (\<exists>fs. v = JObj fs)"

definition workspace_shape :: "jsval \<Rightarrow> bool" where
  "workspace_shape w \<longleftrightarrow> is_object w \<and> is_object (chain w ''localNode'') \<and> is_object (chain w ''peerNode'') \<and>
     is_object (chain w ''sessionSettings'')"

lemma is_object_simps [simp]: "is_object (JObj fs)" "is_object v \<Longrightarrow> truthy v" "is_object v \<Longrightarrow> \<not> is_nullish v"
  by (auto simp: is_object_def)

lemma chain_set_prop: "is_object v \<Longrightarrow> chain (set_prop k x v) k' = (if k' = k then x else chain v k')"
  by (auto simp: is_object_def set_prop_def map_of_put)

lemma is_object_set_prop [simp]: "is_object (set_prop k x v) \<longleftrightarrow> is_object v"
  by (cases v) (simp_all add: is_object_def set_prop_def)

lemma workspace_shape_facade: "workspace_shape (mapNodeTunnelWorkspace payload)"
  by (simp add: workspace_shape_def mapNodeTunnelWorkspace_def mapNodeEndpoint_def mapSessionSettings_def)

lemma workspace_shape_set:
  "workspace_shape w \<Longrightarrow> is_object x \<or> k \<notin> {''localNode'', ''peerNode'', ''sessionSettings''} \<Longrightarrow> workspace_shape (set_prop k x w)"
  by (auto simp: workspace_shape_def chain_set_prop)

lemma linked_session_object: "is_object ss \<Longrightarrow> is_object (linked_session mode ss)"
  by (simp add: linked_session_def)

lemma linked_workspace_shape: "workspace_shape w \<Longrightarrow> workspace_shape (linked_workspace w)"
  unfolding linked_workspace_def Let_def
  by (intro workspace_shape_set) (auto simp: workspace_shape_def linked_session_object)

lemma linkage_run:
  "workspace_shape (ndp_workspace p) \<Longrightarrow>
     applyNetworkModeLinkage (p, st) = (Inr (), (p\<lparr>ndp_workspace := linked_workspace (ndp_workspace p)\<rparr>, st))"
  by (simp add: applyNetworkModeLinkage_def script_simps workspace_shape_def)

lemma validate_run:
  "workspace_shape (ndp_workspace p) \<Longrightarrow>
     nodes_validate (p, st) =
       (Inr (workspace_issues (ndp_workspace p) (ndp_registerAuthPasswordInput p)),
        (p\<lparr>ndp_validationErrors := workspace_issues (ndp_workspace p) (ndp_registerAuthPasswordInput p)\<rparr>, st))"
  by (simp add: nodes_validate_def script_simps workspace_shape_def Let_def)

lemma validate_only_run:
  "workspace_shape (ndp_workspace p) \<Longrightarrow>
     validate_only (p, st) =
       (Inr (), (p\<lparr>ndp_validationErrors := workspace_issues (ndp_workspace p) (ndp_registerAuthPasswordInput p)\<rparr>, st))"
  by (simp add: validate_only_def script_simps validate_run)

lemma generate_run:
  assumes "workspace_shape (ndp_workspace p)" "node \<in> {''localNode'', ''peerNode''}"
  shows "\<exists>p'. generateNodeCode node now rand (p, st) = (Inr (), (p', st)) \<and> workspace_shape (ndp_workspace p') \<and>
    ndp_saving p' = ndp_saving p \<and> chain (chain (ndp_workspace p') node) ''device_id'' = JStr (generateGBCode (Some ''SERVER'') now rand)"
proof -
  have n: "is_object (chain (ndp_workspace p) node)" using assms by (auto simp: workspace_shape_def)
  have w: "is_object (ndp_workspace p)" using assms(1) by (simp add: workspace_shape_def)
  have "workspace_shape (ndp_workspace (set_device_id node c p))" for c
    using assms(1) n by (simp add: set_device_id_def workspace_shape_set)
  then show ?thesis
    using n w by (simp add: generateNodeCode_def script_simps validate_only_run) (simp add: set_device_id_def chain_set_prop)
qed

subsection \<open>Linkage\<close>

lemma chain_linked_session:
  "is_object ss \<Longrightarrow>
     chain (linked_session mode ss) k =
       (if k = ''response_channel'' then JStr (response_channel mode (chain ss ''mapping_relay_mode''))
        else if k = ''request_channel'' then JStr ''SIP'' else if k = ''network_mode'' then mode else chain ss k)"
  by (simp add: linked_session_def chain_set_prop)

lemma chain_linked_workspace:
  "is_object w \<Longrightarrow>
     chain (linked_workspace w) k =
       (if k = ''sessionSettings'' then linked_session (chain w ''networkMode'') (chain w ''sessionSettings'')
        else if k = ''capabilityMatrix'' then deriveCapabilityMatrix (chain w ''networkMode'') else chain w k)"
  by (simp add: linked_workspace_def chain_set_prop Let_def)

lemma set_prop_same: "is_object v \<Longrightarrow> chain v k = x \<Longrightarrow> x \<noteq> JUndefined \<Longrightarrow> set_prop k x v = v"
  by (auto simp: is_object_def set_prop_def put_present split: option.splits)

lemma linked_session_stable:
  assumes "is_object ss" "mode \<noteq> JUndefined"
  shows "linked_session mode (linked_session mode ss) = linked_session mode ss"
proof -
  let ?s = "linked_session mode ss"
  have o: "is_object ?s" using assms(1) by (rule linked_session_object)
  have c: "chain ?s ''network_mode'' = mode" "chain ?s ''request_channel'' = JStr ''SIP''"
    "chain ?s ''response_channel'' = JStr (response_channel mode (chain ?s ''mapping_relay_mode''))"
    using assms(1) by (simp_all add: chain_linked_session)
  show ?thesis
    unfolding linked_session_def [of mode ?s]
    by (simp add: set_prop_same [OF o c(1) assms(2)] set_prop_same [OF o c(2)] set_prop_same [OF o c(3)])
qed

text \<open>Running the linkage twice is running it once, so the watchers settle.\<close>

lemma linked_workspace_stable:
  assumes "workspace_shape w" "chain w ''networkMode'' \<noteq> JUndefined"
  shows "linked_workspace (linked_workspace w) = linked_workspace w"
proof -
  let ?v = "linked_workspace w" and ?m = "chain w ''networkMode''" and ?s = "chain w ''sessionSettings''"
  have w: "is_object w" "is_object ?s" using assms(1) by (auto simp: workspace_shape_def)
  have o: "is_object ?v" using linked_workspace_shape [OF assms(1)] by (simp add: workspace_shape_def)
  have c: "chain ?v ''networkMode'' = ?m" "chain ?v ''capabilityMatrix'' = deriveCapabilityMatrix ?m"
    "chain ?v ''sessionSettings'' = linked_session ?m ?s"
    using w(1) by (simp_all add: chain_linked_workspace)
  have d: "deriveCapabilityMatrix ?m \<noteq> JUndefined" "linked_session ?m ?s \<noteq> JUndefined"
    using linked_session_object [OF w(2), of ?m] by (auto simp: deriveCapabilityMatrix_def is_object_def)
  show ?thesis
    unfolding linked_workspace_def [of ?v] Let_def c(1,3) linked_session_stable [OF w(2) assms(2)]
    by (simp add: set_prop_same [OF o c(2) d(1)] set_prop_same [OF o c(3) d(2)])
qed

subsection \<open>The two capability derivations\<close>

text \<open>
  The matrix the page derives from a mode, against the capability \<open>utils/tunnelConfig.ts\<close> derives from
  it: they agree exactly on the four known modes. For any other mode the page shows every capability
  as supported, the utility none.
\<close>

definition matrix_of_capability :: "TunnelConfigCapability \<Rightarrow> jsval" where
  "matrix_of_capability c =
     JArr (map (\<lambda>i. matrix_row (tcci_key i) (tcci_supported i)) (butlast (buildTunnelCapabilityItems c)))"

lemma matrix_agrees_iff:
  "deriveCapabilityMatrix (JStr mode) = matrix_of_capability (deriveTunnelCapability mode) \<longleftrightarrow>
     mode \<in> set (map nmp_value NETWORK_MODE_PROFILES)"
  by (simp add: deriveCapabilityMatrix_def matrix_of_capability_def buildTunnelCapabilityItems_def deriveTunnelCapability_def
      matrix_row_def NETWORK_MODE_PROFILES_def)

lemma options_are_known_modes: "map so_value networkModeOptions = map nmp_value NETWORK_MODE_PROFILES"
  by (simp add: networkModeOptions_def NETWORK_MODE_PROFILES_def)

subsection \<open>What a valid workspace guarantees\<close>

text \<open>
  For numeric ports the interval tests are exact: the mapping range is not empty, and no port of it is
  the signalling port or lies in the RTP range.
\<close>

lemma valid_ranges:
  fixes a b sip c d :: int
  assumes "workspace_issues w password = []"
    and "chain (chain w ''localNode'') ''mapping_port_start'' = JInt a"
    and "chain (chain w ''localNode'') ''mapping_port_end'' = JInt b"
    and "chain (chain w ''localNode'') ''signaling_port'' = JInt sip"
    and "chain (chain w ''localNode'') ''rtp_port_start'' = JInt c"
    and "chain (chain w ''localNode'') ''rtp_port_end'' = JInt d"
  shows "a \<le> b" and "a \<le> x \<Longrightarrow> x \<le> b \<Longrightarrow> x \<noteq> sip" and "a \<le> x \<Longrightarrow> x \<le> b \<Longrightarrow> \<not> (c \<le> x \<and> x \<le> d)"
proof -
  note checks = assms(1) [unfolded workspace_issues_def Let_def append_is_Nil_conv if_list_empty port_of_def assms(2-6)
      or_else_num js_compare_num]
  from checks have ab: "\<not> (of_int b :: rat) < of_int a"
    and s: "\<not> ((of_int a :: rat) \<le> of_int sip \<and> (of_int sip :: rat) \<le> of_int b)"
    and r: "\<not> ((of_int a :: rat) \<le> of_int d \<and> (of_int c :: rat) \<le> of_int b)"
    by blast+
  show "a \<le> b" "a \<le> x \<Longrightarrow> x \<le> b \<Longrightarrow> x \<noteq> sip" "a \<le> x \<Longrightarrow> x \<le> b \<Longrightarrow> \<not> (c \<le> x \<and> x \<le> d)"
    using ab s r by auto
qed

lemma valid_codes:
  assumes "workspace_issues w password = []"
  shows "gb_code_ok (chain (chain w ''localNode'') ''device_id'')" "gb_code_ok (chain (chain w ''peerNode'') ''device_id'')"
  using assms unfolding workspace_issues_def Let_def append_is_Nil_conv if_list_empty by blast+

subsection \<open>The page as a state machine\<close>

text \<open>
  The mode, the matrix and the channels agree; \<open>nodes_inv\<close> holds of every page the user can reach, with
  any server.
\<close>

definition linked :: "jsval \<Rightarrow> bool" where
  "linked w \<longleftrightarrow>
     (let mode = chain w ''networkMode''; ss = chain w ''sessionSettings'' in
      mode \<noteq> JUndefined \<and> chain w ''capabilityMatrix'' = deriveCapabilityMatrix mode \<and>
      chain ss ''network_mode'' = mode \<and> chain ss ''request_channel'' = JStr ''SIP'' \<and>
      chain ss ''response_channel'' = JStr (response_channel mode (chain ss ''mapping_relay_mode'')))"

definition nodes_inv :: "NodesPage \<Rightarrow> bool" where
  "nodes_inv p \<longleftrightarrow> ndp_workspace p = JUndefined \<or> (workspace_shape (ndp_workspace p) \<and> linked (ndp_workspace p))"

text \<open>Edits of a field of a node or of the session; the fields the linkage owns have their own handlers.\<close>

definition edit_field :: "string \<Rightarrow> string \<Rightarrow> jsval \<Rightarrow> NodesPage \<Rightarrow> NodesPage" where
  "edit_field part k v p =
     p\<lparr>ndp_workspace := set_prop part (set_prop k v (chain (ndp_workspace p) part)) (ndp_workspace p)\<rparr>"

definition editable :: "string \<Rightarrow> string \<Rightarrow> bool" where
  "editable part k \<longleftrightarrow> part \<in> {''localNode'', ''peerNode''} \<or>
     part = ''sessionSettings'' \<and> k \<notin> {''network_mode'', ''request_channel'', ''response_channel'', ''mapping_relay_mode''}"

inductive nodes_reachable ::
  "'w ApiEnv \<Rightarrow> (jsval, jsval, 'w) fetcher \<Rightarrow> ('b, jsval, 'w) fetcher \<Rightarrow> NodesPage \<times> 'w ApiState \<Rightarrow> bool"
  for env fetch_save fetch where
  init: "nodes_reachable env fetch_save fetch (nodes_page_init, st)"
| load: "nodes_reachable env fetch_save fetch s \<Longrightarrow> nodes_reachable env fetch_save fetch (snd (nodes_load env fetch reset s))"
| save: "nodes_reachable env fetch_save fetch s \<Longrightarrow>
    nodes_reachable env fetch_save fetch (snd (nodes_save env fetch_save fetch n r n' r' s))"
| code: "nodes_reachable env fetch_save fetch s \<Longrightarrow> node \<in> {''localNode'', ''peerNode''} \<Longrightarrow>
    nodes_reachable env fetch_save fetch (snd (generateNodeCode node n r s))"
| mode: "nodes_reachable env fetch_save fetch s \<Longrightarrow> nodes_reachable env fetch_save fetch (snd (select_network_mode m s))"
| relay: "nodes_reachable env fetch_save fetch s \<Longrightarrow> nodes_reachable env fetch_save fetch (snd (select_relay_mode m s))"
| edit: "nodes_reachable env fetch_save fetch (p, st) \<Longrightarrow> editable part k \<Longrightarrow>
    nodes_reachable env fetch_save fetch (edit_field part k v p, st)"
| password: "nodes_reachable env fetch_save fetch (p, st) \<Longrightarrow>
    nodes_reachable env fetch_save fetch (p\<lparr>ndp_registerAuthPasswordInput := pw\<rparr>, st)"

lemma set_prop_undefined [simp]: "set_prop k x JUndefined = JUndefined"
  by (simp add: set_prop_def)

lemma linked_workspace_linked: "workspace_shape w \<Longrightarrow> chain w ''networkMode'' \<noteq> JUndefined \<Longrightarrow> linked (linked_workspace w)"
  by (simp add: linked_def Let_def workspace_shape_def chain_linked_workspace chain_linked_session)

lemma facade_mode: "chain (mapNodeTunnelWorkspace x) ''networkMode'' \<noteq> JUndefined"
  using coalesce_nullish [of "chain x ''network_mode''" "JStr ''SENDER_SIP__RECEIVER_RTP''"]
  by (auto simp: mapNodeTunnelWorkspace_def simp del: coalesce_nullish)

lemma edit_field_inv: "nodes_inv p \<Longrightarrow> editable part k \<Longrightarrow> nodes_inv (edit_field part k v p)"
proof -
  assume inv: "nodes_inv p" and e: "editable part k"
  show ?thesis
  proof (cases "ndp_workspace p = JUndefined")
    case True
    then show ?thesis by (simp add: nodes_inv_def edit_field_def)
  next
    case False
    let ?w = "ndp_workspace p"
    have w: "workspace_shape ?w" "linked ?w" using inv False by (auto simp: nodes_inv_def)
    have part: "is_object (chain ?w part)" "part \<in> {''localNode'', ''peerNode'', ''sessionSettings''}"
      using w(1) e by (auto simp: editable_def workspace_shape_def)
    have "workspace_shape (ndp_workspace (edit_field part k v p))"
      using w(1) part(1) by (simp add: edit_field_def workspace_shape_set)
    moreover have "linked (ndp_workspace (edit_field part k v p))"
      using w part e by (auto simp: linked_def Let_def edit_field_def editable_def chain_set_prop workspace_shape_def)
    ultimately show ?thesis by (simp add: nodes_inv_def)
  qed
qed

lemma inv_cong: "ndp_workspace p = ndp_workspace q \<Longrightarrow> nodes_inv p \<longleftrightarrow> nodes_inv q"
  by (simp add: nodes_inv_def)

text \<open>After a workspace of the facade is taken over, the linkage and the validation run without throwing.\<close>

definition adopted :: "jsval \<Rightarrow> NodesPage \<Rightarrow> NodesPage" where
  "adopted payload p =
     (let w = linked_workspace (mapNodeTunnelWorkspace payload) in
      p\<lparr>ndp_registerAuthPasswordInput := [], ndp_workspace := w, ndp_validationErrors := workspace_issues w []\<rparr>)"

lemma adopted_inv: "nodes_inv (adopted payload p)"
  by (simp add: nodes_inv_def adopted_def Let_def linked_workspace_shape linked_workspace_linked workspace_shape_facade facade_mode)

lemma adopt_run:
  "thenS applyNetworkModeLinkage (thenS validate_only m)
     (p\<lparr>ndp_workspace := mapNodeTunnelWorkspace payload, ndp_registerAuthPasswordInput := []\<rparr>, st) = m (adopted payload p, st)"
  "thenS applyNetworkModeLinkage validate_only
     (p\<lparr>ndp_workspace := mapNodeTunnelWorkspace payload, ndp_registerAuthPasswordInput := []\<rparr>, st) = (Inr (), (adopted payload p, st))"
  by (simp_all add: script_simps linkage_run validate_only_run workspace_shape_facade linked_workspace_shape adopted_def Let_def)

lemma fetch_workspace_cases:
  obtains (failed) m where "fst (fetchNodeTunnelWorkspace env fetch st) = Inl (JsError m)"
  | (ok) payload where "fst (fetchNodeTunnelWorkspace env fetch st) = Inr (mapNodeTunnelWorkspace payload)"
proof (cases "fst (get_json env fetch ''/node-tunnel/workspace'' (as_net st))")
  case (Inl e)
  then show ?thesis using that(1) by (cases e) (simp add: fetchNodeTunnelWorkspace_def from_server_simps map_result_simps)
qed (use that(2) in \<open>simp add: fetchNodeTunnelWorkspace_def from_server_simps map_result_simps\<close>)

lemma load_failed:
  "fst (fetchNodeTunnelWorkspace env fetch st) = Inl (JsError m) \<Longrightarrow>
     fst (snd (nodes_load env fetch reset (p, st))) =
       p\<lparr>ndp_loading := False, ndp_error := m, ndp_notice := (if reset then [] else ndp_notice p)\<rparr>"
  by (simp add: nodes_load_def guarded_eval script_simps)

lemma load_ok:
  "fst (fetchNodeTunnelWorkspace env fetch st) = Inr (mapNodeTunnelWorkspace payload) \<Longrightarrow>
     fst (snd (nodes_load env fetch reset (p, st))) =
       (adopted payload p)\<lparr>ndp_loading := False, ndp_error := [], ndp_notice := (if reset then [] else ndp_notice p)\<rparr>"
  by (simp add: nodes_load_def guarded_eval adopt_run bind_eval await_eval then_eval [of "setS _"] script_eval(3))
    (simp add: adopted_def Let_def)

lemma load_inv: "nodes_inv (fst s) \<Longrightarrow> nodes_inv (fst (snd (nodes_load env fetch reset s)))"
proof -
  assume inv: "nodes_inv (fst s)"
  obtain p st where s: "s = (p, st)" by (cases s)
  show ?thesis
  proof (cases rule: fetch_workspace_cases [of env fetch st])
    case (failed m)
    with inv show ?thesis by (simp add: s load_failed nodes_inv_def)
  next
    case (ok payload)
    with adopted_inv [of payload p] show ?thesis by (simp add: s load_ok nodes_inv_def)
  qed
qed

text \<open>A page whose workspace is loaded.\<close>

definition loaded :: "NodesPage \<Rightarrow> bool" where
  "loaded p \<longleftrightarrow> workspace_shape (ndp_workspace p) \<and> linked (ndp_workspace p)"

lemma inv_loaded: "nodes_inv p \<longleftrightarrow> ndp_workspace p = JUndefined \<or> loaded p"
  by (simp add: nodes_inv_def loaded_def)

lemma loaded_truthy: "loaded p \<Longrightarrow> ndp_workspace p \<noteq> JUndefined \<and> truthy (ndp_workspace p)"
  by (auto simp: loaded_def workspace_shape_def is_object_def)

lemma edit_field_loaded: "loaded p \<Longrightarrow> editable part k \<Longrightarrow> loaded (edit_field part k v p)"
proof -
  assume l: "loaded p" and e: "editable part k"
  have "is_object (ndp_workspace (edit_field part k v p))"
    using l by (simp add: loaded_def workspace_shape_def edit_field_def)
  then have "ndp_workspace (edit_field part k v p) \<noteq> JUndefined" by (auto simp: is_object_def)
  with edit_field_inv [of p part k v] l e show ?thesis by (simp add: inv_loaded)
qed

lemma generate_loaded:
  assumes "loaded p" "node \<in> {''localNode'', ''peerNode''}"
  shows "\<exists>p'. generateNodeCode node n r (p, st) = (Inr (), (p', st)) \<and> loaded p'"
proof -
  let ?q = "set_device_id node (generateGBCode (Some ''SERVER'') n r) p"
  have "set_device_id node c p = edit_field node ''device_id'' (JStr c) p" for c
    by (simp add: set_device_id_def edit_field_def)
  then have q: "loaded ?q" using edit_field_loaded [OF assms(1)] assms(2) by (auto simp: editable_def)
  have "is_object (chain (ndp_workspace p) node)" using assms by (auto simp: loaded_def workspace_shape_def)
  with q loaded_truthy [OF assms(1)] show ?thesis
    by (simp add: generateNodeCode_def script_simps validate_only_run loaded_def)
qed

lemma complete_code:
  assumes "loaded p" "node \<in> {''localNode'', ''peerNode''}"
  shows "\<exists>p'. readS (\<lambda>p. if missing_code (ndp_workspace p) node then generateNodeCode node n r else returnS ()) (p, st) =
    (Inr (), (p', st)) \<and> loaded p'"
  using generate_loaded [OF assms] assms(1) by (auto simp: script_simps)

lemma set_password_loaded:
  "loaded p \<Longrightarrow>
     loaded (p\<lparr>ndp_workspace := set_prop ''sessionSettings'' (set_prop ''register_auth_password'' (JStr pw)
       (chain (ndp_workspace p) ''sessionSettings'')) (ndp_workspace p)\<rparr>)"
  using edit_field_loaded [of p "''sessionSettings''" "''register_auth_password''" "JStr pw"]
  by (simp add: editable_def edit_field_def)

lemma save_body_inv:
  assumes l: "loaded p"
  shows "nodes_inv (fst (snd (nodes_save_body env fs fetch (p, st))))"
    and "fst (nodes_save_body env fs fetch (p, st)) = Inr () \<Longrightarrow>
      readback_check (mapping_port (ndp_workspace p) ''mapping_port_start'') (mapping_port (ndp_workspace p) ''mapping_port_end'')
        (ndp_workspace (fst (snd (nodes_save_body env fs fetch (p, st))))) = None"
proof -
  let ?w = "set_prop ''sessionSettings'' (set_prop ''register_auth_password'' (JStr (ndp_registerAuthPasswordInput p))
      (chain (ndp_workspace p) ''sessionSettings'')) (ndp_workspace p)"
  let ?q = "p\<lparr>ndp_workspace := ?w\<rparr>"
  let ?es = "mapping_port (ndp_workspace p) ''mapping_port_start''" and ?ee = "mapping_port (ndp_workspace p) ''mapping_port_end''"
  let ?tail = "readS (\<lambda>p. case readback_check ?es ?ee (ndp_workspace p) of Some m \<Rightarrow> throwS m
      | None \<Rightarrow> setS (\<lambda>p. p\<lparr>ndp_notice := (uni ''~8282~70B9~4E0E~7EA7~8054~914D~7F6E~5DF2~4FDD~5B58~5E76~5E94~7528'')\<rparr>))"
  let ?st = "snd (saveNodeTunnelWorkspace env fs ?w st)"
  have q: "nodes_inv ?q" using set_password_loaded [OF l] by (simp add: inv_loaded)
  have body: "nodes_save_body env fs fetch (p, st) =
      (case fst (saveNodeTunnelWorkspace env fs ?w st) of Inl e \<Rightarrow> (Inl e, (?q, ?st))
       | Inr _ \<Rightarrow> (case fst (fetchNodeTunnelWorkspace env fetch ?st) of
           Inl e \<Rightarrow> (Inl e, (?q, snd (fetchNodeTunnelWorkspace env fetch ?st)))
         | Inr v \<Rightarrow> thenS applyNetworkModeLinkage (thenS validate_only ?tail)
             (p\<lparr>ndp_workspace := v, ndp_registerAuthPasswordInput := []\<rparr>, snd (fetchNodeTunnelWorkspace env fetch ?st))))"
    unfolding nodes_save_body_def Let_def
    by (simp add: script_eval(3,4) bind_eval await_eval then_eval [of "setS _"] then_eval [of "awaitS _"] split: sum.splits)
  have tail: "nodes_inv (fst (snd (?tail (adopted v p, t)))) \<and>
      (fst (?tail (adopted v p, t)) = Inr () \<longrightarrow> readback_check ?es ?ee (ndp_workspace (fst (snd (?tail (adopted v p, t))))) = None)"
    for v t
    using adopted_inv [of v p] by (simp add: script_simps nodes_inv_def split: option.splits)
  show "nodes_inv (fst (snd (nodes_save_body env fs fetch (p, st))))"
    unfolding body
    by (cases rule: fetch_workspace_cases [of env fetch ?st]) (auto simp: q adopt_run(1) tail split: sum.splits)
  show "readback_check ?es ?ee (ndp_workspace (fst (snd (nodes_save_body env fs fetch (p, st))))) = None"
    if "fst (nodes_save_body env fs fetch (p, st)) = Inr ()"
    using that unfolding body
    by (cases rule: fetch_workspace_cases [of env fetch ?st]) (auto simp: adopt_run(1) tail split: sum.splits)
qed

interpretation nodes_saving: busy_page ndp_saving "\<lambda>b p. p\<lparr>ndp_saving := b\<rparr>" ndp_error "\<lambda>m p. p\<lparr>ndp_error := m\<rparr>"
  "\<lambda>p. p\<lparr>ndp_error := [], ndp_notice := []\<rparr>"
  by unfold_locales simp_all

interpretation nodes_loading: busy_page ndp_loading "\<lambda>b p. p\<lparr>ndp_loading := b\<rparr>" ndp_error "\<lambda>m p. p\<lparr>ndp_error := m\<rparr>"
  "\<lambda>p. p\<lparr>ndp_error := [], ndp_notice := (if reset then [] else ndp_notice p)\<rparr>" for reset
  by unfold_locales simp_all

text \<open>A save completes missing codes, validates, and either stops there or runs its body on a valid workspace.\<close>

lemma save_loaded:
  assumes "loaded p"
  obtains (blocked) q where "loaded q" "nodes_save env fs fetch n r n' r' (p, st) = (Inr (), (q, st))"
    "workspace_issues (ndp_workspace q) (ndp_registerAuthPasswordInput q) \<noteq> []"
  | (sent) q where "loaded q" "workspace_issues (ndp_workspace q) (ndp_registerAuthPasswordInput q) = []"
    "nodes_save env fs fetch n r n' r' (p, st) =
      guarded (\<lambda>b p. p\<lparr>ndp_saving := b\<rparr>) (\<lambda>p. p\<lparr>ndp_error := [], ndp_notice := []\<rparr>) (\<lambda>m p. p\<lparr>ndp_error := m\<rparr>)
        (nodes_save_body env fs fetch) (q, st)"
proof -
  obtain p1 where 1: "readS (\<lambda>p. if missing_code (ndp_workspace p) ''localNode'' then generateNodeCode ''localNode'' n r else returnS ()) (p, st) =
      (Inr (), (p1, st))" "loaded p1"
    using complete_code [OF assms, of "''localNode''" n r st] by auto
  obtain p2 where 2: "readS (\<lambda>p. if missing_code (ndp_workspace p) ''peerNode'' then generateNodeCode ''peerNode'' n' r' else returnS ()) (p1, st) =
      (Inr (), (p2, st))" "loaded p2"
    using complete_code [OF 1(2), of "''peerNode''" n' r' st] by auto
  let ?i = "workspace_issues (ndp_workspace p2) (ndp_registerAuthPasswordInput p2)"
  let ?q = "p2\<lparr>ndp_validationErrors := ?i\<rparr>"
  have q: "loaded ?q" using 2(2) by (simp add: loaded_def)
  have v: "nodes_validate (p2, st) = (Inr ?i, (?q, st))" using 2(2) by (simp add: validate_run loaded_def)
  have run: "nodes_save env fs fetch n r n' r' (p, st) =
      (if length ?i > 0 then returnS ()
       else guarded (\<lambda>b p. p\<lparr>ndp_saving := b\<rparr>) (\<lambda>p. p\<lparr>ndp_error := [], ndp_notice := []\<rparr>) (\<lambda>m p. p\<lparr>ndp_error := m\<rparr>)
         (nodes_save_body env fs fetch)) (?q, st)"
    by (simp only: nodes_save_def then_eval bind_eval 1(1) 2(1) v prod.case sum.case)
  show thesis
  proof (cases "?i = []")
    case True
    with that(2) [of ?q] q run show ?thesis by simp
  next
    case False
    with that(1) [of ?q] q run show ?thesis by (simp add: script_simps)
  qed
qed

lemma save_unloaded:
  "ndp_workspace p = JUndefined \<Longrightarrow> nodes_save env fs fetch n r n' r' (p, st) = (Inr (), (p, st))"
  by (simp add: nodes_save_def script_simps missing_code_def nodes_validate_def Let_def)

lemma guarded_body_inv:
  assumes "loaded q"
  shows "nodes_inv (fst (snd (guarded (\<lambda>b p. p\<lparr>ndp_saving := b\<rparr>) (\<lambda>p. p\<lparr>ndp_error := [], ndp_notice := []\<rparr>) (\<lambda>m p. p\<lparr>ndp_error := m\<rparr>)
    (nodes_save_body env fs fetch) (q, st))))"
proof -
  have "loaded (q\<lparr>ndp_saving := True, ndp_error := [], ndp_notice := []\<rparr>)" using assms by (simp add: loaded_def)
  from save_body_inv(1) [OF this, of env fs fetch st] show ?thesis
    by (auto simp: guarded_eval nodes_inv_def split: prod.splits sum.splits js_error.splits)
qed

lemma save_inv: "nodes_inv p \<Longrightarrow> nodes_inv (fst (snd (nodes_save env fs fetch n r n' r' (p, st))))"
proof -
  assume inv: "nodes_inv p"
  show ?thesis
  proof (cases "loaded p")
    case True
    then show ?thesis
    proof (cases rule: save_loaded [of p env fs fetch n r n' r' st])
      case (blocked q)
      then show ?thesis by (simp add: inv_loaded)
    next
      case (sent q)
      then show ?thesis by (simp add: guarded_body_inv)
    qed
  next
    case False
    with inv show ?thesis by (simp add: inv_loaded save_unloaded)
  qed
qed

lemma linkage_inv:
  assumes "ndp_workspace p = JUndefined \<or> workspace_shape (ndp_workspace p) \<and> chain (ndp_workspace p) ''networkMode'' \<noteq> JUndefined"
  shows "nodes_inv (fst (snd (applyNetworkModeLinkage (p, st))))"
  using assms
proof
  assume "ndp_workspace p = JUndefined"
  then show ?thesis by (simp add: applyNetworkModeLinkage_def script_simps nodes_inv_def)
next
  assume "workspace_shape (ndp_workspace p) \<and> chain (ndp_workspace p) ''networkMode'' \<noteq> JUndefined"
  then show ?thesis by (simp add: linkage_run nodes_inv_def linked_workspace_shape linked_workspace_linked)
qed

lemma select_inv:
  assumes "nodes_inv p"
  shows "nodes_inv (fst (snd (select_network_mode m (p, st))))" "nodes_inv (fst (snd (select_relay_mode m (p, st))))"
proof -
  have "ndp_workspace p = JUndefined \<or> workspace_shape (ndp_workspace p) \<and> linked (ndp_workspace p)"
    using assms by (simp add: nodes_inv_def)
  then show "nodes_inv (fst (snd (select_network_mode m (p, st))))"
    unfolding select_network_mode_def then_eval script_eval prod.case sum.case
    by (intro linkage_inv) (auto simp: workspace_shape_set chain_set_prop workspace_shape_def)
  show "nodes_inv (fst (snd (select_relay_mode m (p, st))))"
    using \<open>ndp_workspace p = JUndefined \<or> _\<close>
    unfolding select_relay_mode_def then_eval script_eval prod.case sum.case
    by (intro linkage_inv) (auto simp: workspace_shape_def chain_set_prop linked_def Let_def)
qed

lemma code_inv: "nodes_inv p \<Longrightarrow> node \<in> {''localNode'', ''peerNode''} \<Longrightarrow> nodes_inv (fst (snd (generateNodeCode node n r (p, st))))"
proof -
  assume inv: "nodes_inv p" and node: "node \<in> {''localNode'', ''peerNode''}"
  show ?thesis
  proof (cases "loaded p")
    case True
    from generate_loaded [OF this node, of n r st] show ?thesis by (auto simp: inv_loaded)
  next
    case False
    with inv show ?thesis by (simp add: inv_loaded generateNodeCode_def script_simps)
  qed
qed

lemma nodes_reachable_inv: "nodes_reachable env fs fetch s \<Longrightarrow> nodes_inv (fst s)"
proof (induction rule: nodes_reachable.induct)
  case (init st)
  then show ?case by (simp add: nodes_inv_def nodes_page_init_def)
next
  case (load s reset)
  then show ?case by (simp add: load_inv)
next
  case (save s n r n' r')
  then show ?case by (cases s) (simp add: save_inv)
next
  case (code s node n r)
  then show ?case by (cases s) (simp add: code_inv)
next
  case (mode s m)
  then show ?case by (cases s) (simp add: select_inv)
next
  case (relay s m)
  then show ?case by (cases s) (simp add: select_inv)
next
  case (edit p st part k v)
  then show ?case by (simp add: edit_field_inv)
next
  case (password p st pw)
  then show ?case by (simp add: nodes_inv_def)
qed

text \<open>In no reachable state does validating, or running the linkage, throw.\<close>

lemma reachable_no_type_error:
  assumes "nodes_reachable env fs fetch (p, st)"
  shows "\<exists>issues. fst (nodes_validate (p, st)) = Inr issues" "fst (applyNetworkModeLinkage (p, st)) = Inr ()"
proof -
  have "ndp_workspace p = JUndefined \<or> workspace_shape (ndp_workspace p)"
    using nodes_reachable_inv [OF assms] by (auto simp: nodes_inv_def)
  then show "\<exists>issues. fst (nodes_validate (p, st)) = Inr issues" "fst (applyNetworkModeLinkage (p, st)) = Inr ()"
    by (auto simp: validate_run linkage_run) (simp_all add: nodes_validate_def applyNetworkModeLinkage_def script_simps Let_def)
qed

definition local_port :: "NodesPage \<Rightarrow> string \<Rightarrow> jsval" where
  "local_port p k = chain (chain (ndp_workspace p) ''localNode'') k"

lemma gb_code_ok_text: "GB_CODE_PATTERN s \<Longrightarrow> gb_code_ok (JStr s)"
  by (cases s) (simp_all add: gb_code_ok_def or_else_def truthy_def pattern_trim GB_CODE_PATTERN_def)

end
