(* ===== verification/MappingsPage.thy ===== *)
theory MappingsPage
  imports PageRuntime
begin

text \<open>
  The script of \<open>views/TunnelMappingsView.vue\<close>: the mapping overview, the editor of a mapping with its
  port checks, saving and removing, the catalog actions and the link test. The requests of \<open>load\<close> are
  bundled in a record; the time stamp of the mock module is an argument.
\<close>

subsection \<open>State\<close>

record MappingEditor =
  me_local_bind_ip :: string
  me_local_bind_port :: "int option"
  me_local_base_path :: string
  me_enabled :: bool
  me_description :: string

record MappingsPage =
  mpp_loading :: bool
  mpp_testing :: bool
  mpp_saving :: bool
  mpp_error :: string
  mpp_notice :: string
  mpp_workspace :: jsval
  mpp_catalog :: "(TunnelCatalogPayload + jsval) option"
  mpp_overview :: "TunnelMappingOverviewPayload option"
  mpp_rawMappings :: "TunnelMapping list"
  mpp_detailOpen :: bool
  mpp_editorOpen :: bool
  mpp_editingId :: string
  mpp_currentResource :: "TunnelMappingOverviewItem option"
  mpp_currentRaw :: "TunnelMapping option"
  mpp_editor :: MappingEditor

record ('b, 'w) MappingFetchers =
  mf_overview :: "('b, TunnelMappingOverviewPayload, 'w) fetcher"
  mf_catalog :: "('b, jsval, 'w) fetcher"
  mf_mappings :: "('b, TunnelMappingListPayload, 'w) fetcher"
  mf_workspace :: "('b, jsval, 'w) fetcher"

definition mappings_page_init :: MappingsPage where
  "mappings_page_init =
     \<lparr>mpp_loading = False, mpp_testing = False, mpp_saving = False, mpp_error = [], mpp_notice = [],
      mpp_workspace = JUndefined, mpp_catalog = None, mpp_overview = None, mpp_rawMappings = [], mpp_detailOpen = False,
      mpp_editorOpen = False, mpp_editingId = [], mpp_currentResource = None, mpp_currentRaw = None,
      mpp_editor = \<lparr>me_local_bind_ip = ''0.0.0.0'', me_local_bind_port = Some 0, me_local_base_path = ''/'',
        me_enabled = True, me_description = []\<rparr>\<rparr>"

subsection \<open>Displayed text\<close>

definition mapping_rows :: "MappingsPage \<Rightarrow> TunnelMappingOverviewItem list" where
  "mapping_rows p = (case mpp_overview p of None \<Rightarrow> [] | Some o' \<Rightarrow> tmop_items o')"

definition local_node :: "MappingsPage \<Rightarrow> string \<Rightarrow> jsval" where
  "local_node p k = chain (chain (mpp_workspace p) ''localNode'') k"

definition range_text :: "jsval \<Rightarrow> jsval \<Rightarrow> string" where
  "range_text a b =
     (if truthy a \<and> truthy b then ''['' @ js_String a @ '', '' @ js_String b @ '']'' else (uni ''~672A~914D~7F6E''))"

definition rtpRangeText :: "MappingsPage \<Rightarrow> string" where
  "rtpRangeText p = range_text (local_node p ''rtp_port_start'') (local_node p ''rtp_port_end'')"

definition mappingRangeText :: "MappingsPage \<Rightarrow> string" where
  "mappingRangeText p = range_text (local_node p ''mapping_port_start'') (local_node p ''mapping_port_end'')"

definition mappingStatusLabel :: "MappingStatus \<Rightarrow> string" where
  "mappingStatusLabel v = (if v = Mapping_MANUAL then (uni ''~624B~5DE5~6620~5C04'') else (uni ''~672A~6620~5C04''))"

definition opt_str :: "string option \<Rightarrow> jsval" where
  "opt_str v = (case v of None \<Rightarrow> JUndefined | Some s \<Rightarrow> JStr s)"

definition formatListenEntry :: "MappingsPage \<Rightarrow> TunnelMappingOverviewItem \<Rightarrow> string" where
  "formatListenEntry p item =
     (if tmoi_listen_ports item = [] then ''-''
      else js_String (or_else (opt_str (tmoi_listen_ip item)) (or_else (local_node p ''node_ip'') (JStr ''127.0.0.1''))) @ '':'' @
           comma_join (map string_of_int (tmoi_listen_ports item)) @ str_or (nullish (tmoi_path_prefix item) []) ''/'')"

subsection \<open>Loading and tests\<close>

abbreviation mappings_error :: "string \<Rightarrow> MappingsPage \<Rightarrow> MappingsPage" where
  "mappings_error m p \<equiv> p\<lparr>mpp_error := m\<rparr>"

definition mappings_load :: "'w ApiEnv \<Rightarrow> ('b, 'w) MappingFetchers \<Rightarrow> bool \<Rightarrow> (unit, MappingsPage, 'w) script" where
  "mappings_load env f resetNotice =
     guarded (\<lambda>b p. p\<lparr>mpp_loading := b\<rparr>)
       (\<lambda>p. p\<lparr>mpp_error := [], mpp_notice := (if resetNotice then [] else mpp_notice p)\<rparr>) mappings_error
       (bindS (awaitS (promise_all (fetchTunnelMappingOverview env (mf_overview f))
                (promise_all (fetchTunnelCatalog env (mf_catalog f))
                  (promise_all (fetchMappings env (mf_mappings f)) (fetchNodeTunnelWorkspace env (mf_workspace f))))))
         (\<lambda>(overviewResp, catalogResp, mappingsResp, workspaceResp). setS (\<lambda>p. p\<lparr>
            mpp_overview := Some overviewResp, mpp_catalog := Some catalogResp,
            mpp_rawMappings := tmlp_items mappingsResp, mpp_workspace := workspaceResp\<rparr>)))"

definition testing_reset :: "MappingsPage \<Rightarrow> MappingsPage" where
  "testing_reset p = p\<lparr>mpp_error := [], mpp_notice := []\<rparr>"

fun action_label :: "CatalogAction \<Rightarrow> string" where
  "action_label Catalog_pull_remote = (uni ''~624B~52A8~62C9~53D6~76EE~5F55'')"
| "action_label Catalog_push_local = (uni ''~624B~52A8~63A8~9001~76EE~5F55'')"
| "action_label Catalog_refresh_all = (uni ''~76EE~5F55~5237~65B0'')"

definition runCatalogAction ::
  "'w ApiEnv \<Rightarrow> (TunnelCatalogActionPayload, TunnelCatalogActionResponse, 'w) fetcher \<Rightarrow> ('b, 'w) MappingFetchers \<Rightarrow>
    CatalogAction \<Rightarrow> (unit, MappingsPage, 'w) script" where
  "runCatalogAction env fetch_action f action =
     guarded (\<lambda>b p. p\<lparr>mpp_testing := b\<rparr>) testing_reset mappings_error
       (bindS (awaitS (triggerTunnelCatalogAction env fetch_action \<lparr>tcap_action = action\<rparr>))
         (\<lambda>result. thenS (setS (\<lambda>p. p\<lparr>mpp_notice :=
              (uni ''~76EE~5F55~52A8~4F5C~5DF2~6267~884C~FF1A'') @ action_label action @ (uni ''~FF08~62C9~53D6='') @ string_of_int (nullish (tcar_subscribe_triggered result) 0) @
              (uni ''~FF0C~63A8~9001='') @ string_of_int (nullish (tcar_notify_triggered result) 0) @ (uni ''~FF09'')\<rparr>))
           (mappings_load env f False)))"

definition runTest :: "'w ApiEnv \<Rightarrow> ('b, MappingTestPayload, 'w) fetcher \<Rightarrow> (unit, MappingsPage, 'w) script" where
  "runTest env fetch =
     guarded (\<lambda>b p. p\<lparr>mpp_testing := b\<rparr>) testing_reset mappings_error
       (bindS (awaitS (testMapping env fetch))
         (\<lambda>result. setS (\<lambda>p.
            if mtp_status result = Test_passed then p\<lparr>mpp_notice := (uni ''~94FE~8DEF~81EA~68C0~5B8C~6210~FF1A~901A~8FC7~3002'')\<rparr>
            else p\<lparr>mpp_error := str_or (nullish (mtp_failure_reason result) [])
                   (str_or (nullish (mtp_failure_stage result) [])
                     (str_or (nullish (mtp_suggested_action result) []) (uni ''~8BF7~68C0~67E5~672C~5730~76D1~542C~3001~6CE8~518C~72B6~6001~4E0E~5BF9~7AEF~8FDE~901A~6027~3002'')))\<rparr>)))"

subsection \<open>The editor\<close>

definition belongs_to :: "TunnelMappingOverviewItem \<Rightarrow> TunnelMapping \<Rightarrow> bool" where
  "belongs_to resource item \<longleftrightarrow>
     tm_mapping_id item \<in> set (nullish (tmoi_mapping_ids resource) []) \<or> tm_device_id item = Some (tmoi_device_id resource)"

definition resource_code_of :: "TunnelMappingOverviewItem \<Rightarrow> string" where
  "resource_code_of resource = str_or (tmoi_resource_code resource) (tmoi_device_id resource)"

definition fresh_mapping :: "MappingsPage \<Rightarrow> TunnelMappingOverviewItem \<Rightarrow> TunnelMapping" where
  "fresh_mapping p resource =
     (let profile = deriveBodyLimitProfile (mode_text (tmoi_response_mode resource)) (workspace_mode (mpp_workspace p)) in
      \<lparr>tm_mapping_id = resource_code_of resource, tm_device_id = Some (resource_code_of resource),
       tm_resource_code = Some (resource_code_of resource),
       tm_resource_type = Some (str_or (nullish (tmoi_resource_type resource) []) ''SERVICE''),
       tm_name = Some (tmoi_name resource), tm_enabled = True, tm_peer_node_id = Some [],
       tm_local_bind_ip = ''0.0.0.0'',
       tm_local_bind_port = (case tmoi_listen_ports resource of [] \<Rightarrow> 0 | n # _ \<Rightarrow> n), tm_local_base_path = ''/'',
       tm_remote_target_ip = ''127.0.0.1'', tm_remote_target_port = 80, tm_remote_base_path = ''/'',
       tm_allowed_methods = Some (tmoi_methods resource), tm_response_mode = Some (tmoi_response_mode resource),
       tm_connect_timeout_ms = 3000, tm_request_timeout_ms = 15000, tm_response_timeout_ms = 15000,
       tm_max_inline_response_body = Some (blp_maxInlineResponseBody profile),
       tm_max_request_body_bytes = blp_maxRequestBody profile, tm_max_response_body_bytes = blp_maxResponseBody profile,
       tm_require_streaming_response = (tmoi_response_mode resource \<noteq> RM_INLINE), tm_description = [],
       tm_updated_at = None, tm_link_status = None, tm_link_status_text = None, tm_status_reason = None,
       tm_failure_reason = None, tm_suggested_action = None, tm_request_count = None, tm_failure_count = None,
       tm_avg_latency_ms = None\<rparr>)"

definition findBaseMapping :: "MappingsPage \<Rightarrow> TunnelMappingOverviewItem \<Rightarrow> TunnelMapping \<times> string" where
  "findBaseMapping p resource = (case find (belongs_to resource) (mpp_rawMappings p) of
     Some manual \<Rightarrow> (manual, tm_mapping_id manual)
   | None \<Rightarrow> (fresh_mapping p resource, []))"

definition openMapping :: "TunnelMappingOverviewItem \<Rightarrow> MappingsPage \<Rightarrow> MappingsPage" where
  "openMapping resource p =
     (let (mapping, editing) = findBaseMapping p resource in
      p\<lparr>mpp_currentResource := Some resource, mpp_currentRaw := Some mapping, mpp_editingId := editing,
        mpp_editor :=
          \<lparr>me_local_bind_ip = str_or (tm_local_bind_ip mapping) ''0.0.0.0'',
           me_local_bind_port = (if tm_local_bind_port mapping = 0 then None else Some (tm_local_bind_port mapping)),
           me_local_base_path = str_or (tm_local_base_path mapping) ''/'', me_enabled = tm_enabled mapping,
           me_description = tm_description mapping\<rparr>,
        mpp_editorOpen := True\<rparr>)"

definition openDetail :: "TunnelMappingOverviewItem \<Rightarrow> MappingsPage \<Rightarrow> MappingsPage" where
  "openDetail resource p =
     p\<lparr>mpp_currentResource := Some resource, mpp_currentRaw := find (belongs_to resource) (mpp_rawMappings p),
       mpp_detailOpen := True\<rparr>"

subsection \<open>Saving and removing\<close>

definition port_taken :: "MappingsPage \<Rightarrow> TunnelMappingOverviewItem \<Rightarrow> int \<Rightarrow> bool" where
  "port_taken p resource port \<longleftrightarrow>
     (\<exists>item \<in> set (mapping_rows p). port \<in> set (tmoi_listen_ports item) \<and> tmoi_resource_code item \<noteq> tmoi_resource_code resource)"

text \<open>The checks before a request is sent: the message of the first one that fails.\<close>

definition mapping_check :: "MappingsPage \<Rightarrow> TunnelMappingOverviewItem \<Rightarrow> string option" where
  "mapping_check p resource =
     (let port = nullish (me_local_bind_port (mpp_editor p)) 0; text = string_of_int port;
          sip = local_node p ''signaling_port''; rtpStart = local_node p ''rtp_port_start''; rtpEnd = local_node p ''rtp_port_end'';
          mappingStart = local_node p ''mapping_port_start''; mappingEnd = local_node p ''mapping_port_end'' in
      if \<not> isGBCode20 (Some (resource_code_of resource)) then Some (uni ''~8D44~6E90~7F16~7801~5FC5~987B~4E3A 20 ~4F4D~56FD~6807~7F16~7801'')
      else if port = 0 then Some (uni ''~76D1~542C~7AEF~53E3~5FC5~987B~624B~5DE5~586B~5199~FF0C~7CFB~7EDF~4E0D~518D~81EA~52A8~5206~914D~7AEF~53E3'')
      else if port_taken p resource port then Some ((uni ''~76D1~542C~7AEF~53E3 '') @ text @ (uni '' ~5DF2~88AB~5176~4ED6~6620~5C04~5360~7528''))
      else if truthy sip \<and> strict_eq (JInt port) sip
        then Some ((uni ''~76D1~542C~7AEF~53E3 '') @ text @ (uni '' ~4E0D~80FD~4E0E~672C~7AEF SIP ~76D1~542C~7AEF~53E3 '') @ js_String sip @ (uni '' ~76F8~540C''))
      else if truthy rtpStart \<and> truthy rtpEnd \<and> js_leq rtpStart (JInt port) \<and> js_leq (JInt port) rtpEnd
        then Some ((uni ''~76D1~542C~7AEF~53E3 '') @ text @ (uni '' ~4E0D~80FD~843D~5165~672C~7AEF RTP ~7AEF~53E3~8303~56F4 '') @ rtpRangeText p)
      else if truthy mappingStart \<and> truthy mappingEnd \<and> (js_less (JInt port) mappingStart \<or> js_less mappingEnd (JInt port))
        then Some ((uni ''~76D1~542C~7AEF~53E3~5FC5~987B~843D~5728~672C~5730~6620~5C04~7AEF~53E3~8303~56F4 '') @ mappingRangeText p @ (uni '' ~5185''))
      else None)"

definition mapping_payload :: "MappingsPage \<Rightarrow> TunnelMappingOverviewItem \<Rightarrow> TunnelMapping" where
  "mapping_payload p resource =
     (let profile = deriveBodyLimitProfile (mode_text (tmoi_response_mode resource)) (workspace_mode (mpp_workspace p));
          base = nullish (mpp_currentRaw p) (fst (findBaseMapping p resource)); code = resource_code_of resource;
          editor = mpp_editor p in
      base\<lparr>tm_mapping_id := str_or (mpp_editingId p) (str_or (tm_mapping_id base) code),
        tm_device_id := Some code, tm_resource_code := Some code,
        tm_resource_type := Some (str_or (nullish (tmoi_resource_type resource) []) (str_or (nullish (tm_resource_type base) []) ''SERVICE'')),
        tm_name := Some (tmoi_name resource), tm_enabled := me_enabled editor,
        tm_local_bind_ip := str_or (trim (me_local_bind_ip editor)) ''0.0.0.0'',
        tm_local_bind_port := nullish (me_local_bind_port editor) 0,
        tm_local_base_path := str_or (trim (me_local_base_path editor)) ''/'',
        tm_allowed_methods := Some (tmoi_methods resource), tm_response_mode := Some (tmoi_response_mode resource),
        tm_connect_timeout_ms := 3000, tm_request_timeout_ms := 15000, tm_response_timeout_ms := 15000,
        tm_max_inline_response_body := Some (blp_maxInlineResponseBody profile),
        tm_max_request_body_bytes := blp_maxRequestBody profile, tm_max_response_body_bytes := blp_maxResponseBody profile,
        tm_require_streaming_response := (tmoi_response_mode resource \<noteq> RM_INLINE),
        tm_description := me_description editor\<rparr>)"

definition save_mapping_body ::
  "'w ApiEnv \<Rightarrow> (TunnelMapping, TunnelMappingSavePayload, 'w) fetcher \<Rightarrow> ('b, 'w) MappingFetchers \<Rightarrow> string \<Rightarrow>
    TunnelMappingOverviewItem \<Rightarrow> (unit, MappingsPage, 'w) script" where
  "save_mapping_body env fetch_save f now resource =
     readS (\<lambda>p. case mapping_check p resource of
        Some m \<Rightarrow> throwS m
      | None \<Rightarrow>
          thenS (awaitS (if mpp_editingId p \<noteq> []
                         then updateMapping env fetch_save (mpp_editingId p) (mapping_payload p resource) now
                         else createMapping env fetch_save (mapping_payload p resource) now))
            (thenS (setS (\<lambda>p. p\<lparr>mpp_editorOpen := False,
                 mpp_notice := (if mpp_editingId p \<noteq> [] then (uni ''~96A7~9053~6620~5C04~5DF2~66F4~65B0'') else (uni ''~96A7~9053~6620~5C04~5DF2~521B~5EFA''))\<rparr>))
              (mappings_load env f True)))"

definition saveMapping ::
  "'w ApiEnv \<Rightarrow> (TunnelMapping, TunnelMappingSavePayload, 'w) fetcher \<Rightarrow> ('b, 'w) MappingFetchers \<Rightarrow> string \<Rightarrow>
    (unit, MappingsPage, 'w) script" where
  "saveMapping env fetch_save f now =
     readS (\<lambda>p. case mpp_currentResource p of
        None \<Rightarrow> returnS ()
      | Some resource \<Rightarrow>
          guarded (\<lambda>b p. p\<lparr>mpp_saving := b\<rparr>) testing_reset mappings_error (save_mapping_body env fetch_save f now resource))"

definition removeMapping ::
  "'w ApiEnv \<Rightarrow> ('c, jsval, 'w) fetcher \<Rightarrow> ('b, 'w) MappingFetchers \<Rightarrow> (unit, MappingsPage, 'w) script" where
  "removeMapping env fetch_delete f =
     readS (\<lambda>p. if mpp_editingId p = [] then returnS ()
       else guarded (\<lambda>b p. p\<lparr>mpp_saving := b\<rparr>) (\<lambda>p. p\<lparr>mpp_error := []\<rparr>) mappings_error
         (readS (\<lambda>p. thenS (awaitS (deleteMapping env fetch_delete (mpp_editingId p)))
           (thenS (setS (\<lambda>p. p\<lparr>mpp_editorOpen := False, mpp_notice := (uni ''~96A7~9053~6620~5C04~5DF2~5220~9664'')\<rparr>))
             (mappings_load env f True)))))"

subsection \<open>The frame of the handlers\<close>

interpretation mappings_saving: busy_page mpp_saving "\<lambda>b p. p\<lparr>mpp_saving := b\<rparr>" mpp_error "\<lambda>m p. p\<lparr>mpp_error := m\<rparr>" testing_reset
  by unfold_locales (simp_all add: testing_reset_def)

interpretation mappings_loading: busy_page mpp_loading "\<lambda>b p. p\<lparr>mpp_loading := b\<rparr>" mpp_error "\<lambda>m p. p\<lparr>mpp_error := m\<rparr>"
  "\<lambda>p. p\<lparr>mpp_error := [], mpp_notice := (if reset then [] else mpp_notice p)\<rparr>" for reset
  by unfold_locales simp_all

interpretation mappings_testing: busy_page mpp_testing "\<lambda>b p. p\<lparr>mpp_testing := b\<rparr>" mpp_error "\<lambda>m p. p\<lparr>mpp_error := m\<rparr>" testing_reset
  by unfold_locales (simp_all add: testing_reset_def)

subsection \<open>What the checks decide\<close>

text \<open>Flags and messages do not matter to the checks and to the payload.\<close>

definition saving_page :: "MappingsPage \<Rightarrow> MappingsPage" where
  "saving_page p = testing_reset (p\<lparr>mpp_saving := True\<rparr>)"

lemma saving_page_fields:
  "mpp_workspace (saving_page p) = mpp_workspace p" "mpp_overview (saving_page p) = mpp_overview p"
  "mpp_rawMappings (saving_page p) = mpp_rawMappings p" "mpp_editor (saving_page p) = mpp_editor p"
  "mpp_currentRaw (saving_page p) = mpp_currentRaw p" "mpp_editingId (saving_page p) = mpp_editingId p"
  "mpp_currentResource (saving_page p) = mpp_currentResource p"
  by (simp_all add: saving_page_def testing_reset_def)

lemma saving_page_parts:
  "local_node (saving_page p) = local_node p" "port_taken (saving_page p) = port_taken p"
  "rtpRangeText (saving_page p) = rtpRangeText p" "mappingRangeText (saving_page p) = mappingRangeText p"
  "findBaseMapping (saving_page p) = findBaseMapping p"
  by (simp_all only: fun_eq_iff local_node_def port_taken_def mapping_rows_def rtpRangeText_def mappingRangeText_def
      findBaseMapping_def fresh_mapping_def saving_page_fields simp_thms)

lemma saving_page_same [simp]:
  "mapping_check (saving_page p) r = mapping_check p r" "mapping_payload (saving_page p) r = mapping_payload p r"
  by (simp_all only: mapping_check_def mapping_payload_def saving_page_fields saving_page_parts)

text \<open>With numeric ports in the workspace, the checks pass exactly for a usable port.\<close>

definition port_usable :: "MappingsPage \<Rightarrow> TunnelMappingOverviewItem \<Rightarrow> int \<Rightarrow> bool" where
  "port_usable p resource port \<longleftrightarrow> port \<noteq> 0 \<and> \<not> port_taken p resource port"

lemma mapping_check_iff:
  fixes sip a b c d :: int
  assumes "local_node p ''signaling_port'' = JInt sip" "local_node p ''rtp_port_start'' = JInt a" "local_node p ''rtp_port_end'' = JInt b"
    "local_node p ''mapping_port_start'' = JInt c" "local_node p ''mapping_port_end'' = JInt d"
    "sip \<noteq> 0" "a \<noteq> 0" "b \<noteq> 0" "c \<noteq> 0" "d \<noteq> 0"
    "me_local_bind_port (mpp_editor p) = Some port"
  shows "mapping_check p resource = None \<longleftrightarrow>
    isGBCode20 (Some (resource_code_of resource)) \<and> port_usable p resource port \<and>
    port \<noteq> sip \<and> \<not> (a \<le> port \<and> port \<le> b) \<and> c \<le> port \<and> port \<le> d"
  unfolding mapping_check_def port_usable_def Let_def assms
  by (auto simp: strict_eq_def assms)

subsection \<open>What a save does\<close>

lemma mapping_save_guarded:
  "mpp_currentResource p = Some r \<Longrightarrow>
     saveMapping env fs f now (p, st) =
       (case save_mapping_body env fs f now r (saving_page p, st) of
          (Inl (JsError m), q, st') \<Rightarrow> (Inr (), (q\<lparr>mpp_error := m, mpp_saving := False\<rparr>, st'))
        | (Inr _, q, st') \<Rightarrow> (Inr (), (q\<lparr>mpp_saving := False\<rparr>, st')))"
  by (simp only: saveMapping_def script_eval(4) option.case guarded_eval saving_page_def)

lemma save_rejected:
  assumes "mpp_currentResource p = Some r" "mapping_check p r = Some m"
  shows "saveMapping env fs f now (p, st) =
    (Inr (), (p\<lparr>mpp_saving := False, mpp_error := m, mpp_notice := []\<rparr>, st))"
  using assms by (simp add: mapping_save_guarded save_mapping_body_def script_simps) (simp add: saving_page_def testing_reset_def)

text \<open>The notice set before the reload is reset by the reload: after a save or a removal none is shown.\<close>

lemma load_clears_notice: "mpp_notice (fst (snd (mappings_load env f True s))) = []"
  by (cases s) (simp add: mappings_load_def guarded_eval script_simps split: prod.splits sum.splits js_error.splits)

lemma load_never_throws: "fst (mappings_load env f reset s) = Inr ()"
  by (simp add: mappings_load_def guarded_never_rejects)

text \<open>A save that passes the checks sends the payload, and what follows is the reload.\<close>

definition mapping_request ::
  "'w ApiEnv \<Rightarrow> (TunnelMapping, TunnelMappingSavePayload, 'w) fetcher \<Rightarrow> MappingsPage \<Rightarrow> TunnelMappingOverviewItem \<Rightarrow> string \<Rightarrow>
    (TunnelMappingSavePayload, 'w) api" where
  "mapping_request env fs p r now =
     (if mpp_editingId p \<noteq> [] then updateMapping env fs (mpp_editingId p) (mapping_payload p r) now
      else createMapping env fs (mapping_payload p r) now)"

lemma saving_page_request: "mapping_request env fs (saving_page p) r now = mapping_request env fs p r now"
  by (simp only: mapping_request_def saving_page_fields saving_page_same)

lemma save_body_run:
  assumes "mapping_check p r = None"
  shows "save_mapping_body env fs f now r (saving_page p, st) =
    (case fst (mapping_request env fs p r now st) of
       Inl e \<Rightarrow> (Inl e, (saving_page p, snd (mapping_request env fs p r now st)))
     | Inr _ \<Rightarrow> mappings_load env f True ((saving_page p)\<lparr>mpp_editorOpen := False,
         mpp_notice := (if mpp_editingId p \<noteq> [] then (uni ''~96A7~9053~6620~5C04~5DF2~66F4~65B0'') else (uni ''~96A7~9053~6620~5C04~5DF2~521B~5EFA''))\<rparr>, snd (mapping_request env fs p r now st)))"
  unfolding save_mapping_body_def script_eval(4) saving_page_same assms option.case
    mapping_request_def [symmetric] then_eval await_eval saving_page_request
  by (simp add: script_eval(3) saving_page_fields del: uni.simps split: sum.splits)

lemma save_run:
  assumes "mpp_currentResource p = Some r" "mapping_check p r = None"
  shows "saveMapping env fs f now (p, st) =
    (case fst (mapping_request env fs p r now st) of
       Inl (JsError m) \<Rightarrow> (Inr (), (p\<lparr>mpp_saving := False, mpp_error := m, mpp_notice := []\<rparr>, snd (mapping_request env fs p r now st)))
     | Inr _ \<Rightarrow> (let s' = snd (mappings_load env f True ((saving_page p)\<lparr>mpp_editorOpen := False,
           mpp_notice := (if mpp_editingId p \<noteq> [] then (uni ''~96A7~9053~6620~5C04~5DF2~66F4~65B0'') else (uni ''~96A7~9053~6620~5C04~5DF2~521B~5EFA''))\<rparr>, snd (mapping_request env fs p r now st)))
         in (Inr (), ((fst s')\<lparr>mpp_saving := False\<rparr>, snd s'))))"
proof (cases "fst (mapping_request env fs p r now st)")
  case (Inl e)
  then show ?thesis
    by (cases e) (simp add: mapping_save_guarded assms save_body_run, simp add: saving_page_def testing_reset_def)
next
  case (Inr u)
  have "\<exists>q. mappings_load env f True s = (Inr (), q)" for s
    using load_never_throws [of env f True s] by (metis prod.collapse)
  then obtain q where "mappings_load env f True ((saving_page p)\<lparr>mpp_editorOpen := False,
      mpp_notice := (if mpp_editingId p \<noteq> [] then (uni ''~96A7~9053~6620~5C04~5DF2~66F4~65B0'') else (uni ''~96A7~9053~6620~5C04~5DF2~521B~5EFA''))\<rparr>, snd (mapping_request env fs p r now st)) = (Inr (), q)"
    by blast
  then show ?thesis using Inr by (cases q) (simp add: mapping_save_guarded assms(1) save_body_run [OF assms(2)] del: uni.simps)
qed

lemma save_notice_lost: "mpp_currentResource p = Some r \<Longrightarrow> mpp_notice (fst (snd (saveMapping env fs f now (p, st)))) = []"
proof (cases "mapping_check p r")
  case None
  assume r: "mpp_currentResource p = Some r"
  show ?thesis
    unfolding save_run [OF r None]
    by (simp add: load_clears_notice Let_def split: sum.splits js_error.splits del: uni.simps)
qed (simp add: save_rejected)

text \<open>In mock mode the mapping that was checked is the one that is stored.\<close>

lemma load_keeps_mock:
  assumes "useMockMode env" "module_loaded st"
  shows "as_mock (snd (snd (mappings_load env f reset (p, st)))) = as_mock st"
proof -
  let ?all = "promise_all (fetchTunnelMappingOverview env (mf_overview f)) (promise_all (fetchTunnelCatalog env (mf_catalog f))
      (promise_all (fetchMappings env (mf_mappings f)) (fetchNodeTunnelWorkspace env (mf_workspace f))))"
  have "keeps_mock ?all"
    unfolding fetchTunnelMappingOverview_def fetchTunnelCatalog_def fetchMappings_def fetchNodeTunnelWorkspace_def
    by (intro keeps_mock_combinators keeps_mock_read keeps_mock_server assms(1))
  then have "as_mock (snd (?all st)) = as_mock st" using assms(2) by (simp add: keeps_mock_def)
  moreover have "snd (snd (mappings_load env f reset (p, st))) = snd (?all st)"
    unfolding mappings_load_def by (rule guarded_state) (simp add: script_simps split: prod.split)
  ultimately show ?thesis by simp
qed

lemma mock_save:
  assumes "useMockMode env" "module_loaded st" "mpp_currentResource p = Some r" "mapping_check p r = None" "mpp_editingId p = []"
  shows "as_mock (snd (snd (saveMapping env fs f now (p, st)))) = snd (createMappingMock (mapping_payload p r) now (as_mock st))"
proof -
  have req: "mapping_request env fs p r now st = (Inr (fst (createMappingMock (mapping_payload p r) now (as_mock st))),
      st\<lparr>as_mock := snd (createMappingMock (mapping_payload p r) now (as_mock st))\<rparr>)"
    using assms by (simp add: mapping_request_def createMapping_def dispatch_mock mock_write_def)
  have "as_mock (snd (snd (mappings_load env f True (q, st\<lparr>as_mock := x\<rparr>)))) = x" for q x
    using load_keeps_mock [OF assms(1), of "st\<lparr>as_mock := x\<rparr>"] assms(2) by (simp add: module_loaded_def)
  then show ?thesis unfolding save_run [OF assms(3,4)] req by (simp add: Let_def del: uni.simps)
qed

end
