(* ===== verification/LocalResourcesPage.thy ===== *)
theory LocalResourcesPage
  imports PageRuntime
begin

text \<open>
  The script of \<open>views/LocalResourcesView.vue\<close>: the list of local resources, the editor with its
  checks, saving, removing and pushing the catalog. \<open>new URL(text)\<close> belongs to the browser: whether it
  accepts a text is the parameter \<open>url_ok\<close>. The clock and the random number of a generated code are
  arguments, as is the time stamp of the mock module.

  In mock mode the page, as long as its list is the stored one, implements a finite map from codes
  to resources.
\<close>

subsection \<open>State\<close>

record LocalResourceEditor =
  lre_resource_code :: string
  lre_name :: string
  lre_enabled :: bool
  lre_target_url :: string
  lre_methods :: "string list"
  lre_response_mode :: ResponseMode
  lre_description :: string

record ResourcesPage =
  lrp_loading :: bool
  lrp_saving :: bool
  lrp_syncingCatalog :: bool
  lrp_error :: string
  lrp_notice :: string
  lrp_rows :: "LocalResourceItem list"
  lrp_workspace :: jsval
  lrp_editorOpen :: bool
  lrp_editingId :: string
  lrp_editor :: LocalResourceEditor

definition empty_editor :: LocalResourceEditor where
  "empty_editor =
     \<lparr>lre_resource_code = [], lre_name = [], lre_enabled = True, lre_target_url = ''http://127.0.0.1:8080/'',
      lre_methods = [''GET'', ''POST''], lre_response_mode = RM_RTP, lre_description = []\<rparr>"

definition resources_page_init :: ResourcesPage where
  "resources_page_init =
     \<lparr>lrp_loading = False, lrp_saving = False, lrp_syncingCatalog = False, lrp_error = [], lrp_notice = [], lrp_rows = [],
      lrp_workspace = JUndefined, lrp_editorOpen = False, lrp_editingId = [], lrp_editor = empty_editor\<rparr>"

definition limitProfile :: "ResourcesPage \<Rightarrow> BodyLimitProfile" where
  "limitProfile p = deriveBodyLimitProfile (mode_text (lre_response_mode (lrp_editor p))) (workspace_mode (lrp_workspace p))"

definition formatBytes :: "int \<Rightarrow> string" where
  "formatBytes value =
     (if value \<ge> 1024 * 1024 then toFixed 0 (of_int value / (1024 * 1024)) @ '' MB''
      else if value \<ge> 1024 then toFixed 0 (of_int value / 1024) @ '' KB''
      else string_of_int value @ '' B'')"

subsection \<open>Operations\<close>

definition generateResourceCode :: "string \<Rightarrow> nat \<Rightarrow> nat \<Rightarrow> ResourcesPage \<Rightarrow> ResourcesPage" where
  "generateResourceCode kind clock rand p =
     p\<lparr>lrp_editor := (lrp_editor p)\<lparr>lre_resource_code := generateGBCode (Some kind) clock rand\<rparr>\<rparr>"

abbreviation resources_error :: "string \<Rightarrow> ResourcesPage \<Rightarrow> ResourcesPage" where
  "resources_error m p \<equiv> p\<lparr>lrp_error := m\<rparr>"

definition resources_load ::
  "'w ApiEnv \<Rightarrow> ('b, LocalResourceListPayload, 'w) fetcher \<Rightarrow> ('b, jsval, 'w) fetcher \<Rightarrow> bool \<Rightarrow> (unit, ResourcesPage, 'w) script" where
  "resources_load env fetch_list fetch_workspace resetNotice =
     guarded (\<lambda>b p. p\<lparr>lrp_loading := b\<rparr>)
       (\<lambda>p. p\<lparr>lrp_error := [], lrp_notice := (if resetNotice then [] else lrp_notice p)\<rparr>) resources_error
       (bindS (awaitS (promise_all (fetchLocalResources env fetch_list) (fetchNodeTunnelWorkspace env fetch_workspace)))
         (\<lambda>(list, nodeWorkspace). setS (\<lambda>p. p\<lparr>lrp_rows := lrlp_items list, lrp_workspace := nodeWorkspace\<rparr>)))"

definition pushLocalCatalog ::
  "'w ApiEnv \<Rightarrow> (TunnelCatalogActionPayload, TunnelCatalogActionResponse, 'w) fetcher \<Rightarrow>
    ('b, LocalResourceListPayload, 'w) fetcher \<Rightarrow> ('b, jsval, 'w) fetcher \<Rightarrow> (unit, ResourcesPage, 'w) script" where
  "pushLocalCatalog env fetch_action fetch_list fetch_workspace =
     guarded (\<lambda>b p. p\<lparr>lrp_syncingCatalog := b\<rparr>) (\<lambda>p. p\<lparr>lrp_error := []\<rparr>) resources_error
       (bindS (awaitS (triggerTunnelCatalogAction env fetch_action \<lparr>tcap_action = Catalog_push_local\<rparr>))
         (\<lambda>result. thenS (setS (\<lambda>p. p\<lparr>lrp_notice :=
              (uni ''~76EE~5F55~63A8~9001~5DF2~89E6~53D1~FF08~63A8~9001='') @ string_of_int (nullish (tcar_notify_triggered result) 0) @ (uni ''~FF09'')\<rparr>))
           (resources_load env fetch_list fetch_workspace False)))"

definition resetEditor :: "ResourcesPage \<Rightarrow> ResourcesPage" where
  "resetEditor p = p\<lparr>lrp_editor := empty_editor\<rparr>"

definition localResourceToEditor :: "LocalResourceItem \<Rightarrow> LocalResourceEditor" where
  "localResourceToEditor item =
     \<lparr>lre_resource_code = str_or (lri_resource_code item) (str_or (lri_device_id item) (lri_resource_id item)),
      lre_name = str_or (lri_name item) (lri_resource_code item), lre_enabled = lri_enabled item,
      lre_target_url = lri_target_url item, lre_methods = normalizeMethodSelection (Some (lri_methods item)),
      lre_response_mode = lri_response_mode item, lre_description = lri_description item\<rparr>"

definition editorToPayload :: "(string \<Rightarrow> bool) \<Rightarrow> ResourcesPage \<Rightarrow> LocalResourceSavePayload js_result" where
  "editorToPayload url_ok p =
     (let editor = lrp_editor p; code = trim (lre_resource_code editor); editingId = lrp_editingId p in
      if \<not> isGBCode20 (Some (lre_resource_code editor)) then Inl (JsError (uni ''~8D44~6E90~7F16~7801~5FC5~987B~4E3A 20 ~4F4D~56FD~6807~7F16~7801''))
      else if \<exists>item \<in> set (lrp_rows p). lri_resource_code item = code \<and> (editingId \<noteq> [] \<longrightarrow> lri_resource_code item \<noteq> editingId)
        then Inl (JsError ((uni ''~8D44~6E90~7F16~7801 '') @ code @ (uni '' ~5DF2~5B58~5728~FF0C~8BF7~52FF~91CD~590D~4F7F~7528'')))
      else if \<not> url_ok (lre_target_url editor) then Inl (JsError (uni ''~76EE~6807 URL ~683C~5F0F~4E0D~6B63~786E''))
      else Inr \<lparr>lrsp_resource_code = code, lrsp_name = trim (lre_name editor), lrsp_enabled = lre_enabled editor,
        lrsp_target_url = trim (lre_target_url editor), lrsp_methods = normalizeMethodSelection (Some (lre_methods editor)),
        lrsp_response_mode = lre_response_mode editor, lrsp_description = lre_description editor\<rparr>)"

definition resources_openCreate :: "ResourcesPage \<Rightarrow> ResourcesPage" where
  "resources_openCreate p = (resetEditor (p\<lparr>lrp_editingId := []\<rparr>))\<lparr>lrp_editorOpen := True\<rparr>"

definition resources_openEdit :: "LocalResourceItem \<Rightarrow> ResourcesPage \<Rightarrow> ResourcesPage" where
  "resources_openEdit row p =
     p\<lparr>lrp_editingId := lri_resource_code row, lrp_editor := localResourceToEditor row, lrp_editorOpen := True\<rparr>"

definition filled_code :: "nat \<Rightarrow> nat \<Rightarrow> ResourcesPage \<Rightarrow> ResourcesPage" where
  "filled_code clock rand p =
     (if trim (lre_resource_code (lrp_editor p)) = [] then generateResourceCode ''SERVICE'' clock rand p else p)"

definition resource_request ::
  "'w ApiEnv \<Rightarrow> (LocalResourceSavePayload, jsval, 'w) fetcher \<Rightarrow> string \<Rightarrow> LocalResourceSavePayload \<Rightarrow> string \<Rightarrow> (jsval, 'w) api" where
  "resource_request env fetch_save editing payload now =
     (if editing \<noteq> [] then updateLocalResource env fetch_save editing payload now
      else createLocalResource env fetch_save payload now)"

definition save_resource_body ::
  "(string \<Rightarrow> bool) \<Rightarrow> 'w ApiEnv \<Rightarrow> (LocalResourceSavePayload, jsval, 'w) fetcher \<Rightarrow> ('b, LocalResourceListPayload, 'w) fetcher \<Rightarrow>
    ('b, jsval, 'w) fetcher \<Rightarrow> string \<Rightarrow> (unit, ResourcesPage, 'w) script" where
  "save_resource_body url_ok env fetch_save fetch_list fetch_workspace now =
     readS (\<lambda>p. case editorToPayload url_ok p of
        Inl (JsError m) \<Rightarrow> throwS m
      | Inr payload \<Rightarrow>
          thenS (awaitS (resource_request env fetch_save (lrp_editingId p) payload now))
            (thenS (setS (\<lambda>p. p\<lparr>lrp_notice := (if lrp_editingId p \<noteq> [] then (uni ''~672C~5730~8D44~6E90~5DF2~66F4~65B0'') else (uni ''~672C~5730~8D44~6E90~5DF2~521B~5EFA'')),
                lrp_editorOpen := False\<rparr>))
              (resources_load env fetch_list fetch_workspace True)))"

definition saveResource ::
  "(string \<Rightarrow> bool) \<Rightarrow> 'w ApiEnv \<Rightarrow> (LocalResourceSavePayload, jsval, 'w) fetcher \<Rightarrow> ('b, LocalResourceListPayload, 'w) fetcher \<Rightarrow>
    ('b, jsval, 'w) fetcher \<Rightarrow> nat \<Rightarrow> nat \<Rightarrow> string \<Rightarrow> (unit, ResourcesPage, 'w) script" where
  "saveResource url_ok env fetch_save fetch_list fetch_workspace clock rand now =
     thenS (setS (filled_code clock rand))
       (guarded (\<lambda>b p. p\<lparr>lrp_saving := b\<rparr>) (\<lambda>p. p\<lparr>lrp_error := []\<rparr>) resources_error
         (save_resource_body url_ok env fetch_save fetch_list fetch_workspace now))"

text \<open>The confirmed removal of a row.\<close>

definition removeResource ::
  "'w ApiEnv \<Rightarrow> ('c, jsval, 'w) fetcher \<Rightarrow> ('b, LocalResourceListPayload, 'w) fetcher \<Rightarrow> ('b, jsval, 'w) fetcher \<Rightarrow>
    LocalResourceItem \<Rightarrow> (unit, ResourcesPage, 'w) script" where
  "removeResource env fetch_delete fetch_list fetch_workspace row =
     try_catch
       (thenS (awaitS (deleteLocalResource env fetch_delete (str_or (lri_resource_code row) (lri_resource_id row))))
         (thenS (setS (\<lambda>p. p\<lparr>lrp_notice := (uni ''~672C~5730~8D44~6E90~5DF2~5220~9664'')\<rparr>)) (resources_load env fetch_list fetch_workspace True)))
       (\<lambda>m. setS (resources_error m))"

subsection \<open>The frame of the handlers\<close>

interpretation resources_saving: busy_page lrp_saving "\<lambda>b p. p\<lparr>lrp_saving := b\<rparr>" lrp_error "\<lambda>m p. p\<lparr>lrp_error := m\<rparr>"
  "\<lambda>p. p\<lparr>lrp_error := []\<rparr>"
  by unfold_locales simp_all

interpretation resources_loading: busy_page lrp_loading "\<lambda>b p. p\<lparr>lrp_loading := b\<rparr>" lrp_error "\<lambda>m p. p\<lparr>lrp_error := m\<rparr>"
  "\<lambda>p. p\<lparr>lrp_error := [], lrp_notice := (if reset then [] else lrp_notice p)\<rparr>" for reset
  by unfold_locales simp_all

interpretation resources_syncing: busy_page lrp_syncingCatalog "\<lambda>b p. p\<lparr>lrp_syncingCatalog := b\<rparr>" lrp_error
  "\<lambda>m p. p\<lparr>lrp_error := m\<rparr>" "\<lambda>p. p\<lparr>lrp_error := []\<rparr>"
  by unfold_locales simp_all

lemma resources_load_ends:
  "fst (resources_load env fl fw r s) = Inr ()" "\<not> lrp_loading (fst (snd (resources_load env fl fw r s)))"
  by (simp_all add: resources_load_def guarded_never_rejects resources_loading.guarded_not_busy)

lemma resources_load_resets: "lrp_notice (fst (snd (resources_load env fl fw True s))) = []"
  by (cases s) (simp add: resources_load_def guarded_eval script_simps split: prod.splits sum.splits js_error.splits)

lemma resources_load_run:
  "resources_load env fl fw r (p, st) =
     (let q = promise_all (fetchLocalResources env fl) (fetchNodeTunnelWorkspace env fw) st;
          p0 = p\<lparr>lrp_error := [], lrp_notice := (if r then [] else lrp_notice p), lrp_loading := False\<rparr> in
      (Inr (), (case fst q of Inl (JsError m) \<Rightarrow> p0\<lparr>lrp_error := m\<rparr>
         | Inr (list, ws) \<Rightarrow> p0\<lparr>lrp_rows := lrlp_items list, lrp_workspace := ws\<rparr>, snd q)))"
  by (simp add: resources_load_def guarded_eval script_simps Let_def split: prod.splits sum.splits js_error.splits)

subsection \<open>Saving\<close>

text \<open>The payload of an accepted editor: a code of twenty digits that no other row has.\<close>

lemma editorToPayload_ok:
  "(\<exists>payload. editorToPayload url_ok p = Inr payload) \<longleftrightarrow>
     isGBCode20 (Some (lre_resource_code (lrp_editor p))) \<and> url_ok (lre_target_url (lrp_editor p)) \<and>
     (\<forall>item \<in> set (lrp_rows p). lri_resource_code item = trim (lre_resource_code (lrp_editor p)) \<longrightarrow>
        lrp_editingId p \<noteq> [] \<and> lri_resource_code item = lrp_editingId p)"
  by (auto simp: editorToPayload_def Let_def simp del: uni.simps)

lemma editorToPayload_code:
  assumes "editorToPayload url_ok p = Inr payload"
  shows "lrsp_resource_code payload = trim (lre_resource_code (lrp_editor p))"
    and "GB_CODE_PATTERN (lrsp_resource_code payload)"
    and "lri_resource_code ` set (lrp_rows p) \<inter> {lrsp_resource_code payload} \<subseteq> {lrp_editingId p} - {[]}"
proof -
  have "\<exists>payload. editorToPayload url_ok p = Inr payload" using assms by blast
  note ok = this [unfolded editorToPayload_ok]
  show code: "lrsp_resource_code payload = trim (lre_resource_code (lrp_editor p))"
    using assms by (auto simp: editorToPayload_def Let_def simp del: uni.simps split: if_splits)
  show "GB_CODE_PATTERN (lrsp_resource_code payload)"
    using ok by (auto simp: code isGBCode20_def str_or_def)
  show "lri_resource_code ` set (lrp_rows p) \<inter> {lrsp_resource_code payload} \<subseteq> {lrp_editingId p} - {[]}"
    using ok by (auto simp: code)
qed

definition saving_resource :: "ResourcesPage \<Rightarrow> ResourcesPage" where
  "saving_resource p = p\<lparr>lrp_saving := True, lrp_error := []\<rparr>"

lemma saving_resource_fields:
  "lrp_editor (saving_resource p) = lrp_editor p" "lrp_rows (saving_resource p) = lrp_rows p"
  "lrp_editingId (saving_resource p) = lrp_editingId p"
  by (simp_all add: saving_resource_def)

lemma saving_resource_same:
  "editorToPayload url_ok (saving_resource p) = editorToPayload url_ok p" "lrp_editingId (saving_resource p) = lrp_editingId p"
  by (simp_all only: editorToPayload_def saving_resource_fields)

definition saved_page :: "ResourcesPage \<Rightarrow> ResourcesPage" where
  "saved_page p = (saving_resource p)\<lparr>lrp_notice := (if lrp_editingId p \<noteq> [] then (uni ''~672C~5730~8D44~6E90~5DF2~66F4~65B0'') else (uni ''~672C~5730~8D44~6E90~5DF2~521B~5EFA'')),
     lrp_editorOpen := False\<rparr>"

lemma saveResource_run:
  assumes "q = filled_code clock rand p"
  shows "saveResource url_ok env fs fl fw clock rand now (p, st) =
    (case editorToPayload url_ok q of
       Inl (JsError m) \<Rightarrow> (Inr (), (q\<lparr>lrp_saving := False, lrp_error := m\<rparr>, st))
     | Inr payload \<Rightarrow>
         (let req = resource_request env fs (lrp_editingId q) payload now st in
          case fst req of
            Inl (JsError m) \<Rightarrow> (Inr (), (q\<lparr>lrp_saving := False, lrp_error := m\<rparr>, snd req))
          | Inr _ \<Rightarrow> (let l = snd (resources_load env fl fw True (saved_page q, snd req))
                      in (Inr (), ((fst l)\<lparr>lrp_saving := False\<rparr>, snd l)))))"
proof -
  let ?body = "save_resource_body url_ok env fs fl fw now"
  have frame: "saveResource url_ok env fs fl fw clock rand now (p, st) = (case ?body (saving_resource q, st) of
      (Inl (JsError m), p', st') \<Rightarrow> (Inr (), (p'\<lparr>lrp_error := m, lrp_saving := False\<rparr>, st'))
    | (Inr _, p', st') \<Rightarrow> (Inr (), (p'\<lparr>lrp_saving := False\<rparr>, st')))"
    unfolding saveResource_def then_eval script_eval(3) assms saving_resource_def
    by (simp add: guarded_eval del: uni.simps)
  show ?thesis
  proof (cases "editorToPayload url_ok q")
    case (Inl e)
    then show ?thesis unfolding frame save_resource_body_def script_eval(4) saving_resource_same
      by (cases e) (simp add: script_eval(2) saving_resource_def del: uni.simps)
  next
    case (Inr payload)
    let ?req = "resource_request env fs (lrp_editingId q) payload now st"
    have body: "?body (saving_resource q, st) = (case fst ?req of
        Inl e \<Rightarrow> (Inl e, (saving_resource q, snd ?req))
      | Inr _ \<Rightarrow> resources_load env fl fw True (saved_page q, snd ?req))"
      unfolding save_resource_body_def script_eval(4) saving_resource_same Inr sum.case then_eval await_eval saved_page_def
      by (simp add: script_eval(3) saving_resource_same del: uni.simps split: sum.splits)
    obtain l where l: "resources_load env fl fw True (saved_page q, snd ?req) = (Inr (), l)"
      using resources_load_ends(1) [of env fl fw True "(saved_page q, snd ?req)"] by (metis prod.collapse)
    show ?thesis unfolding frame body
      by (simp add: Inr l saving_resource_def Let_def case_prod_beta del: uni.simps split: sum.splits js_error.splits)
  qed
qed

lemma saveResource_notice_lost:
  assumes "lrp_notice p = []"
  shows "lrp_notice (fst (snd (saveResource url_ok env fs fl fw clock rand now (p, st)))) = []"
proof -
  have "lrp_notice (filled_code clock rand p) = []" using assms by (simp add: filled_code_def generateResourceCode_def)
  then show ?thesis
    unfolding saveResource_run [OF refl]
    by (simp add: resources_load_resets Let_def del: uni.simps split: sum.splits js_error.splits)
qed

subsection \<open>Renaming an entry of a collection\<close>

context keyed_collection
begin

lemma lookup_distinct: "distinct (keys s) \<Longrightarrow> lookup j s = Some x \<longleftrightarrow> x \<in> set (items s) \<and> key x = j"
proof -
  have "find (\<lambda>x. key x = j) xs = Some x \<longleftrightarrow> x \<in> set xs \<and> key x = j" if "distinct (map key xs)" for xs
    using that by (induction xs) auto
  then show "distinct (keys s) \<Longrightarrow> lookup j s = Some x \<longleftrightarrow> x \<in> set (items s) \<and> key x = j"
    by (simp add: lookup_def keys_def)
qed

lemma lookup_None: "lookup j s = None \<longleftrightarrow> j \<notin> set (keys s)"
  by (auto simp: lookup_def keys_def find_None_iff)

lemma update_rename:
  assumes "distinct (keys s)" "k \<in> set (keys s)" "key (entry k p) = k \<or> key (entry k p) \<notin> set (keys s)"
  shows "distinct (keys (snd (update k p s)))"
    and "lookup j (snd (update k p s)) =
      (if j = key (entry k p) then Some (entry k p) else if j = k then None else lookup j s)"
proof -
  let ?e = "entry k p"
  obtain i where i: "findIndex (\<lambda>x. key x = k) (items s) = Some i" using assms(2) index_iff by blast
  have at: "i < length (items s)" "key (items s ! i) = k" using findIndex_SomeD [OF i] by auto
  have upd: "items (snd (update k p s)) = (items s)[i := ?e]" using update_found [OF i, of p] by auto
  have dist: "distinct (items s)" using assms(1) by (simp add: keys_def distinct_map)
  have new: "set (items (snd (update k p s))) = insert ?e (set (items s) - {items s ! i})"
    unfolding upd by (rule set_update_distinct [OF dist at(1)])
  have ks: "keys (snd (update k p s)) = (keys s)[i := key ?e]" by (simp add: keys_def upd map_update)
  have ki: "keys s ! i = k" "i < length (keys s)" using at by (simp_all add: keys_def)
  show d: "distinct (keys (snd (update k p s)))"
    using assms ki by (auto simp: ks intro!: distinct_list_update)
  have inj: "x = items s ! i" if "x \<in> set (items s)" "key x = k" for x
    using assms(1) that at by (auto simp: keys_def distinct_map inj_on_def)
  have free: "key ?e = k" if "x \<in> set (items s)" "key x = key ?e" for x
    using assms(3) that by (auto simp: keys_def) (metis imageI)
  have same: "lookup j (snd (update k p s)) = Some x \<longleftrightarrow>
      (if j = key ?e then Some ?e else if j = k then None else lookup j s) = Some x" for x
    unfolding lookup_distinct [OF d] new using at inj free lookup_distinct [OF assms(1), of j x] by auto
  show "lookup j (snd (update k p s)) = (if j = key ?e then Some ?e else if j = k then None else lookup j s)"
    using same by (metis not_None_eq)
qed

end

subsection \<open>The page implements a finite map\<close>

text \<open>
  The specification: resources under their codes. A save adds a resource under a free code, or replaces
  one and may move it to a free code; it never overwrites another resource.
\<close>

type_synonym ResourceMap = "string \<rightharpoonup> LocalResourceRecord"

inductive resource_spec_step :: "ResourceMap \<Rightarrow> ResourceMap \<Rightarrow> bool" where
  keep: "resource_spec_step m m"
| add: "GB_CODE_PATTERN (lrsp_resource_code r) \<Longrightarrow> lrsp_resource_code r \<notin> dom m \<Longrightarrow>
    resource_spec_step m (m(lrsp_resource_code r \<mapsto> r))"
| change: "k \<in> dom m \<Longrightarrow> GB_CODE_PATTERN (lrsp_resource_code r) \<Longrightarrow> lrsp_resource_code r = k \<or> lrsp_resource_code r \<notin> dom m \<Longrightarrow>
    resource_spec_step m ((m(k := None))(lrsp_resource_code r \<mapsto> r))"
| remove: "k \<in> dom m \<Longrightarrow> resource_spec_step m (m(k := None))"

definition stored_resources :: "MockState \<Rightarrow> ResourceMap" where
  "stored_resources s code = find (\<lambda>r. lrsp_resource_code r = code) (localResourceState s)"

definition resources_synced :: "ResourcesPage \<times> 'w ApiState \<Rightarrow> bool" where
  "resources_synced s \<longleftrightarrow>
     module_loaded (snd s) \<and> distinct (map lrsp_resource_code (localResourceState (as_mock (snd s)))) \<and>
     lrp_rows (fst s) = map resource_item (localResourceState (as_mock (snd s)))"

definition workspace_answers :: "'w ApiEnv \<Rightarrow> ('b, jsval, 'w) fetcher \<Rightarrow> bool" where
  "workspace_answers env fw \<longleftrightarrow> (\<forall>w. \<exists>ws. fst (get_json env fw ''/node-tunnel/workspace'' w) = Inr ws)"

text \<open>One action of the user, run to its end.\<close>

inductive resource_page_step ::
  "(string \<Rightarrow> bool) \<Rightarrow> 'w ApiEnv \<Rightarrow> (LocalResourceSavePayload, jsval, 'w) fetcher \<Rightarrow> ('b, LocalResourceListPayload, 'w) fetcher \<Rightarrow>
    ('b, jsval, 'w) fetcher \<Rightarrow> ResourcesPage \<times> 'w ApiState \<Rightarrow> ResourcesPage \<times> 'w ApiState \<Rightarrow> bool"
  for url_ok env fs fl fw where
  refresh: "resource_page_step url_ok env fs fl fw s (snd (resources_load env fl fw True s))"
| push: "resource_page_step url_ok env fs fl fw s (snd (pushLocalCatalog env fa fl fw s))"
| create: "resource_page_step url_ok env fs fl fw (p, st) (resources_openCreate p, st)"
| edit: "row \<in> set (lrp_rows p) \<Longrightarrow> resource_page_step url_ok env fs fl fw (p, st) (resources_openEdit row p, st)"
| type: "resource_page_step url_ok env fs fl fw (p, st) (p\<lparr>lrp_editor := e\<rparr>, st)"
| generate: "resource_page_step url_ok env fs fl fw (p, st) (generateResourceCode kind clock rand p, st)"
| cancel: "resource_page_step url_ok env fs fl fw (p, st) (p\<lparr>lrp_editorOpen := False\<rparr>, st)"
| save: "resource_page_step url_ok env fs fl fw s (snd (saveResource url_ok env fs fl fw clock rand now s))"
| remove: "row \<in> set (lrp_rows (fst s)) \<Longrightarrow> resource_page_step url_ok env fs fl fw s (snd (removeResource env (fd :: ('b, jsval, 'w) fetcher) fl fw row s))"

inductive resource_console ::
  "(string \<Rightarrow> bool) \<Rightarrow> 'w ApiEnv \<Rightarrow> (LocalResourceSavePayload, jsval, 'w) fetcher \<Rightarrow> ('b, LocalResourceListPayload, 'w) fetcher \<Rightarrow>
    ('b, jsval, 'w) fetcher \<Rightarrow> ResourcesPage \<times> 'w ApiState \<Rightarrow> bool"
  for url_ok env fs fl fw where
  mounted: "module_loaded st \<Longrightarrow> distinct (map lrsp_resource_code (localResourceState (as_mock st))) \<Longrightarrow>
    resource_console url_ok env fs fl fw (snd (resources_load env fl fw True (resources_page_init, st)))"
| step: "resource_console url_ok env fs fl fw s \<Longrightarrow> resource_page_step url_ok env fs fl fw s s' \<Longrightarrow>
    resource_console url_ok env fs fl fw s'"

lemma stored_resources_lookup: "stored_resources s code = resources.lookup code s"
  by (simp add: stored_resources_def resources.lookup_def)

lemma stored_keys: "map lrsp_resource_code (localResourceState s) = resources.keys s"
  by (simp add: resources.keys_def)

lemma dom_stored: "dom (stored_resources s) = set (resources.keys s)"
  by (auto simp: dom_def stored_resources_lookup resources.lookup_None simp flip: not_None_eq)

lemma row_codes: "lri_resource_code (resource_item r) = lrsp_resource_code r" "lri_resource_id (resource_item r) = lrsp_resource_code r"
  by (simp_all add: resource_item_def del: uni.simps)

lemma load_mock:
  assumes "useMockMode env" "workspace_answers env fw" "module_loaded st"
    and "distinct (map lrsp_resource_code (localResourceState (as_mock st)))"
  shows "resources_synced (snd (resources_load env fl fw r (p, st)))"
    and "as_mock (snd (snd (resources_load env fl fw r (p, st)))) = as_mock st"
proof -
  obtain ws where ws: "fst (get_json env fw ''/node-tunnel/workspace'' (as_net st)) = Inr ws"
    using assms(2) unfolding workspace_answers_def by blast
  let ?all = "promise_all (fetchLocalResources env fl) (fetchNodeTunnelWorkspace env fw) st"
  have list: "fetchLocalResources env fl st = (Inr (fetchLocalResourcesMock (as_mock st)), st)"
    using assms(1,3) by (simp add: fetchLocalResources_def dispatch_mock)
  have res: "fst ?all = Inr (fetchLocalResourcesMock (as_mock st), mapNodeTunnelWorkspace ws)"
    by (simp add: promise_all_def list fetchNodeTunnelWorkspace_def from_server_simps map_result_simps ws case_prod_beta Let_def)
  have st: "snd ?all = st\<lparr>as_net := snd (get_json env fw ''/node-tunnel/workspace'' (as_net st))\<rparr>"
    by (simp add: promise_all_state list fetchNodeTunnelWorkspace_def from_server_simps map_result_simps)
  show "resources_synced (snd (resources_load env fl fw r (p, st)))"
    and "as_mock (snd (snd (resources_load env fl fw r (p, st)))) = as_mock st"
    using assms(3,4) unfolding resources_load_run Let_def res st
    by (simp_all add: resources_synced_def module_loaded_def fetchLocalResourcesMock_def)
qed

lemma request_mock:
  assumes "useMockMode env" "module_loaded st"
  shows "resource_request env fs k payload now st =
    (if k = [] then (Inr JUndefined, st\<lparr>as_mock := createLocalResourceMock payload now (as_mock st)\<rparr>)
     else (case fst (updateLocalResourceMock k payload now (as_mock st)) of
        Inl e \<Rightarrow> (Inl e, st\<lparr>as_mock := snd (updateLocalResourceMock k payload now (as_mock st))\<rparr>)
      | Inr _ \<Rightarrow> (Inr JUndefined, st\<lparr>as_mock := snd (updateLocalResourceMock k payload now (as_mock st))\<rparr>)))"
  using assms
  by (simp add: resource_request_def createLocalResource_def updateLocalResource_def dispatch_mock map_result_simps split: sum.splits)

text \<open>What an accepted payload does to the store: an outcome of the specification, on distinct codes.\<close>

lemma create_step:
  assumes "distinct (resources.keys s)" "lrsp_resource_code payload \<notin> set (resources.keys s)" "GB_CODE_PATTERN (lrsp_resource_code payload)"
  shows "resource_spec_step (stored_resources s) (stored_resources (createLocalResourceMock payload now s))"
    and "distinct (resources.keys (createLocalResourceMock payload now s))"
proof -
  let ?r = "saved_resource payload now"
  have "stored_resources (createLocalResourceMock payload now s) = (stored_resources s)(lrsp_resource_code ?r \<mapsto> ?r)"
    by (rule ext) (simp add: stored_resources_lookup resources.lookup_create)
  then show "resource_spec_step (stored_resources s) (stored_resources (createLocalResourceMock payload now s))"
    using resource_spec_step.add [of ?r "stored_resources s"] assms by (simp add: dom_stored)
  show "distinct (resources.keys (createLocalResourceMock payload now s))"
    using assms(1) by (rule resources.distinct_create)
qed

lemma update_step:
  assumes "distinct (resources.keys s)" "GB_CODE_PATTERN (lrsp_resource_code payload)"
    and "lrsp_resource_code payload = k \<or> lrsp_resource_code payload \<notin> set (resources.keys s)"
  shows "resource_spec_step (stored_resources s) (stored_resources (snd (updateLocalResourceMock k payload now s)))"
    and "distinct (resources.keys (snd (updateLocalResourceMock k payload now s)))"
proof -
  let ?r = "saved_resource payload now" and ?s = "snd (updateLocalResourceMock k payload now s)"
  have "resource_spec_step (stored_resources s) (stored_resources ?s) \<and> distinct (resources.keys ?s)"
  proof (cases "k \<in> set (resources.keys s)")
    case True
    note upd = resources.update_rename [OF assms(1) True, of payload now, unfolded saved_resource_code, OF assms(3)]
    have "stored_resources ?s = ((stored_resources s)(k := None))(lrsp_resource_code ?r \<mapsto> ?r)"
      by (rule ext) (simp add: stored_resources_lookup upd(2))
    moreover have "resource_spec_step (stored_resources s) (((stored_resources s)(k := None))(lrsp_resource_code ?r \<mapsto> ?r))"
      using assms(2,3) True by (intro resource_spec_step.change) (simp_all add: dom_stored)
    ultimately show ?thesis using upd(1) by simp
  next
    case False
    then have "?s = s" using resources.update_throws_keeps resources.update_throws_iff by blast
    with assms(1) show ?thesis by (simp add: resource_spec_step.keep)
  qed
  then show "resource_spec_step (stored_resources s) (stored_resources ?s)" "distinct (resources.keys ?s)" by simp_all
qed

lemma delete_step:
  assumes "distinct (resources.keys s)" "k \<in> set (resources.keys s)"
  shows "resource_spec_step (stored_resources s) (stored_resources (deleteLocalResourceMock k s))"
    and "distinct (resources.keys (deleteLocalResourceMock k s))"
proof -
  have "stored_resources (deleteLocalResourceMock k s) = (stored_resources s)(k := None)"
    by (rule ext) (simp add: stored_resources_lookup resources.lookup_delete)
  then show "resource_spec_step (stored_resources s) (stored_resources (deleteLocalResourceMock k s))"
    using resource_spec_step.remove [of k "stored_resources s"] assms(2) by (simp add: dom_stored)
  show "distinct (resources.keys (deleteLocalResourceMock k s))" using assms(1) by (rule resources.distinct_delete)
qed

text \<open>The relation a handler establishes between the states before and after it.\<close>

definition resources_advance :: "'w ApiState \<Rightarrow> ResourcesPage \<times> 'w ApiState \<Rightarrow> bool" where
  "resources_advance st s' \<longleftrightarrow>
     resources_synced s' \<and> resource_spec_step (stored_resources (as_mock st)) (stored_resources (as_mock (snd s')))"

lemma advance_load:
  assumes "useMockMode env" "workspace_answers env fw" "module_loaded st'"
    and "distinct (resources.keys (as_mock st'))" "resource_spec_step (stored_resources (as_mock st)) (stored_resources (as_mock st'))"
  shows "resources_advance st (snd (resources_load env fl fw r (p, st')))"
  using load_mock [OF assms(1-3), of fl r p] assms(4,5) by (simp add: resources_advance_def stored_keys)

lemma advance_keep:
  "resources_synced (p, st) \<Longrightarrow> lrp_rows q = lrp_rows p \<Longrightarrow> resources_advance st (q, st)"
  by (simp add: resources_advance_def resources_synced_def resource_spec_step.keep)

lemma advance_save:
  assumes "useMockMode env" "workspace_answers env fw" "resources_synced (p, st)"
  shows "resources_advance st (snd (saveResource url_ok env fs fl fw clock rand now (p, st)))"
proof -
  define q where "q = filled_code clock rand p"
  let ?m = "as_mock st" and ?k = "lrp_editingId q"
  have rows: "lrp_rows q = map resource_item (localResourceState ?m)"
    using assms(3) by (simp add: q_def filled_code_def generateResourceCode_def resources_synced_def)
  have ld: "module_loaded st" and dist: "distinct (resources.keys ?m)" using assms(3) by (simp_all add: resources_synced_def stored_keys)
  have same: "lrp_rows q = lrp_rows p" using assms(3) rows by (simp add: resources_synced_def)
  note run = saveResource_run [OF q_def, of url_ok env fs fl fw now st]
  show ?thesis
  proof (cases "editorToPayload url_ok q")
    case (Inl e)
    then show ?thesis unfolding run
      by (cases e) (simp add: advance_keep [OF assms(3)] same)
  next
    case (Inr payload)
    let ?c = "lrsp_resource_code payload"
    have code: "GB_CODE_PATTERN ?c" by (rule editorToPayload_code(2) [OF Inr])
    have "lri_resource_code ` set (lrp_rows q) = set (resources.keys ?m)"
      by (simp add: rows image_image row_codes resources.keys_def)
    with editorToPayload_code(3) [OF Inr] have free: "?c \<in> set (resources.keys ?m) \<Longrightarrow> ?c = ?k \<and> ?k \<noteq> []" by auto
    show ?thesis
    proof (cases "?k = []")
      case True
      have l: "resources_advance st (snd (resources_load env fl fw True (p', st\<lparr>as_mock := createLocalResourceMock payload now ?m\<rparr>)))" for p'
        using create_step [OF dist, of payload] free code ld True
        by (intro advance_load [OF assms(1,2)]) (auto simp: module_loaded_def)
      show ?thesis unfolding run Inr
        using l [of "saved_page q"] by (simp add: request_mock [OF assms(1) ld] True resources_advance_def resources_synced_def Let_def)
    next
      case False
      let ?u = "updateLocalResourceMock ?k payload now ?m"
      have upd: "resource_spec_step (stored_resources ?m) (stored_resources (snd ?u))" "distinct (resources.keys (snd ?u))"
        using update_step [OF dist code] free by blast+
      have l: "resources_advance st (snd (resources_load env fl fw True (p', st\<lparr>as_mock := snd ?u\<rparr>)))" for p'
        using upd ld by (intro advance_load [OF assms(1,2)]) (simp_all add: module_loaded_def)
      have "fst ?u = Inl e \<Longrightarrow> snd ?u = ?m" for e
        by (auto simp: updateLocalResourceMock_def split: option.splits)
      then show ?thesis unfolding run Inr
        using l [of "saved_page q"] advance_keep [OF assms(3) same] False
        by (simp add: request_mock [OF assms(1) ld] resources_advance_def resources_synced_def Let_def split: sum.splits js_error.splits)
    qed
  qed
qed

lemma removeResource_run:
  "removeResource env fd fl fw row (p, st) =
     (let del = deleteLocalResource env fd (str_or (lri_resource_code row) (lri_resource_id row)) st in
      case fst del of Inl (JsError m) \<Rightarrow> (Inr (), (p\<lparr>lrp_error := m\<rparr>, snd del))
      | Inr _ \<Rightarrow> (Inr (), snd (resources_load env fl fw True (p\<lparr>lrp_notice := (uni ''~672C~5730~8D44~6E90~5DF2~5220~9664'')\<rparr>, snd del))))"
proof -
  let ?del = "deleteLocalResource env fd (str_or (lri_resource_code row) (lri_resource_id row)) st"
  obtain l where l: "resources_load env fl fw True (p\<lparr>lrp_notice := (uni ''~672C~5730~8D44~6E90~5DF2~5220~9664'')\<rparr>, snd ?del) = (Inr (), l)"
    using resources_load_ends(1) by (metis prod.collapse)
  show ?thesis unfolding removeResource_def try_catch_def then_eval await_eval
    by (simp add: script_eval(3) l Let_def del: uni.simps split: sum.splits js_error.splits)
qed

lemma advance_remove:
  assumes "useMockMode env" "workspace_answers env fw" "resources_synced (p, st)" "row \<in> set (lrp_rows p)"
  shows "resources_advance st (snd (removeResource env fd fl fw row (p, st)))"
proof -
  let ?m = "as_mock st"
  have ld: "module_loaded st" and dist: "distinct (resources.keys ?m)" using assms(3) by (simp_all add: resources_synced_def stored_keys)
  obtain r where r: "row = resource_item r" "r \<in> set (localResourceState ?m)" using assms(3,4) by (auto simp: resources_synced_def)
  then have key: "lrsp_resource_code r \<in> set (resources.keys ?m)" by (simp add: resources.keys_def)
  have del: "deleteLocalResource env fd (str_or (lri_resource_code row) (lri_resource_id row)) st =
      (Inr JUndefined, st\<lparr>as_mock := deleteLocalResourceMock (lrsp_resource_code r) ?m\<rparr>)"
    using assms(1) ld by (simp add: deleteLocalResource_def dispatch_mock r row_codes str_or_def)
  have "resources_advance st (snd (resources_load env fl fw True (p', st\<lparr>as_mock := deleteLocalResourceMock (lrsp_resource_code r) ?m\<rparr>)))" for p'
    using delete_step [OF dist key] ld by (intro advance_load [OF assms(1,2)]) (simp_all add: module_loaded_def)
  then show ?thesis unfolding removeResource_run del by (simp add: Let_def del: uni.simps)
qed

lemma advance_push:
  assumes "useMockMode env" "workspace_answers env fw" "resources_synced (p, st)"
  shows "resources_advance st (snd (pushLocalCatalog env fa fl fw (p, st)))"
proof -
  have ld: "module_loaded st" and dist: "distinct (resources.keys (as_mock st))"
    using assms(3) by (simp_all add: resources_synced_def stored_keys)
  obtain x where act: "triggerTunnelCatalogAction env fa \<lparr>tcap_action = Catalog_push_local\<rparr> st = (Inr x, st)"
    using assms(1) ld by (simp add: triggerTunnelCatalogAction_def dispatch_mock)
  have l: "resources_advance st (snd (resources_load env fl fw False (p', st)))" for p'
    by (rule advance_load [OF assms(1,2) ld dist resource_spec_step.keep])
  have "resources_advance st ((fst s)\<lparr>lrp_syncingCatalog := False\<rparr>, snd s)" if "resources_advance st s" for s
    using that by (simp add: resources_advance_def resources_synced_def)
  then show ?thesis unfolding pushLocalCatalog_def guarded_eval bind_eval await_eval act
    using l
    by (simp add: script_simps case_prod_beta resources_load_ends(1) del: uni.simps split: sum.splits js_error.splits)
qed

lemma advance_step:
  assumes "useMockMode env" "workspace_answers env fw" "resource_page_step url_ok env fs fl fw s s'" "resources_synced s"
  shows "resources_advance (snd s) s'"
  using assms(3,4)
proof cases
  case refresh
  obtain p st where s: "s = (p, st)" by fastforce
  have "module_loaded st" "distinct (resources.keys (as_mock st))" using assms(4) by (simp_all add: s resources_synced_def stored_keys)
  then show ?thesis unfolding refresh s snd_conv
    by (intro advance_load [OF assms(1,2)] resource_spec_step.keep)
next
  case push
  then show ?thesis using advance_push [OF assms(1,2), of "fst s" "snd s"] assms(4) by simp
next
  case save
  then show ?thesis using advance_save [OF assms(1,2), of "fst s" "snd s"] assms(4) by simp
next
  case remove
  then show ?thesis using advance_remove [OF assms(1,2), of "fst s" "snd s"] assms(4) by simp
qed (use assms(4) in \<open>auto intro: advance_keep simp: resources_openCreate_def resources_openEdit_def resetEditor_def generateResourceCode_def\<close>)

lemma console_synced:
  assumes "useMockMode env" "workspace_answers env fw" "resource_console url_ok env fs fl fw s"
  shows "resources_synced s"
  using assms(3)
proof induction
  case (mounted st)
  then show ?case using load_mock(1) [OF assms(1,2)] by blast
next
  case (step s s')
  then show ?case using advance_step [OF assms(1,2)] resources_advance_def by blast
qed

text \<open>The outcome of a save on a page whose list is the stored one.\<close>

lemma saveResource_effect:
  assumes "useMockMode env" "workspace_answers env fw" "resources_synced (p, st)"
    and "lrp_editingId p = [] \<or> lrp_editingId p \<in> dom (stored_resources (as_mock st))"
  shows "case editorToPayload url_ok (filled_code clock rand p) of
      Inl (JsError m) \<Rightarrow>
        as_mock (snd (snd (saveResource url_ok env fs fl fw clock rand now (p, st)))) = as_mock st \<and>
        lrp_error (fst (snd (saveResource url_ok env fs fl fw clock rand now (p, st)))) = m
    | Inr payload \<Rightarrow>
        stored_resources (as_mock (snd (snd (saveResource url_ok env fs fl fw clock rand now (p, st))))) =
          (if lrp_editingId p = [] then stored_resources (as_mock st)
           else (stored_resources (as_mock st))(lrp_editingId p := None))
          (lrsp_resource_code payload \<mapsto> saved_resource payload now)"
proof -
  define q where "q = filled_code clock rand p"
  let ?m = "as_mock st" and ?k = "lrp_editingId p"
  have q: "lrp_editingId q = ?k" "lrp_rows q = lrp_rows p"
    by (simp_all add: q_def filled_code_def generateResourceCode_def)
  have ld: "module_loaded st" and dist: "distinct (resources.keys ?m)"
    using assms(3) by (simp_all add: resources_synced_def stored_keys)
  note run = saveResource_run [OF q_def, of url_ok env fs fl fw now st]
  show ?thesis
  proof (cases "editorToPayload url_ok q")
    case (Inl e)
    then show ?thesis by (cases e) (simp add: run q_def [symmetric])
  next
    case (Inr payload)
    let ?c = "lrsp_resource_code payload" and ?r = "saved_resource payload now"
    have "lri_resource_code ` set (lrp_rows q) = set (resources.keys ?m)"
      using assms(3) by (simp add: q(2) resources_synced_def image_image row_codes resources.keys_def)
    with editorToPayload_code(3) [OF Inr] q(1) have free: "?c = ?k \<or> ?c \<notin> set (resources.keys ?m)" by auto
    have kept: "as_mock (snd (snd (resources_load env fl fw True (p', st\<lparr>as_mock := m'\<rparr>)))) = m'"
      if "distinct (resources.keys m')" for m' p'
      using load_mock(2) [OF assms(1,2), of "st\<lparr>as_mock := m'\<rparr>" fl True p'] ld that
      by (simp add: module_loaded_def stored_keys)
    show ?thesis
    proof (cases "?k = []")
      case True
      have "stored_resources (createLocalResourceMock payload now ?m) = (stored_resources ?m)(?c \<mapsto> ?r)"
        by (rule ext) (simp add: stored_resources_lookup resources.lookup_create)
      then show ?thesis
        using kept [OF resources.distinct_create [OF dist]] Inr True
        by (simp add: run q q_def [symmetric] request_mock [OF assms(1) ld] Let_def)
    next
      case False
      then have k: "?k \<in> set (resources.keys ?m)" using assms(4) by (simp add: dom_stored)
      let ?u = "updateLocalResourceMock ?k payload now ?m"
      note upd = resources.update_rename [OF dist k, of payload now, unfolded saved_resource_code, OF free]
      have "stored_resources (snd ?u) = ((stored_resources ?m)(?k := None))(?c \<mapsto> ?r)"
        by (rule ext) (simp add: stored_resources_lookup upd(2))
      moreover obtain x where "fst ?u = Inr x"
        using resources.update_throws_iff [of ?k payload now ?m] k
        by (auto simp: updateLocalResourceMock_def split: option.splits)
      ultimately show ?thesis
        using kept [OF upd(1)] Inr False
        by (simp add: run q q_def [symmetric] request_mock [OF assms(1) ld] Let_def)
    qed
  qed
qed

end
