(* ===== verification/DashboardPage.thy ===== *)
theory DashboardPage
  imports PageRuntime
begin

text \<open>
  The script of \<open>views/DashboardView.vue\<close>: loading the summaries, the cards and the trend chart. The
  chart's coordinates are rational numbers; a polyline is the list of its points, before they are
  printed. Navigation (\<open>go\<close>, \<open>goToAccessLogs\<close>) only calls the router.
\<close>

subsection \<open>State and loading\<close>

record DashboardPage =
  dp_loading :: bool
  dp_error :: string
  dp_summary :: "DashboardSummary option"
  dp_ops :: "DashboardOpsSummary option"
  dp_trendSeries :: DashboardTrendSeries
  dp_rangeKey :: string
  dp_granularity :: string

definition dashboard_init :: DashboardPage where
  "dashboard_init =
     \<lparr>dp_loading = False, dp_error = [], dp_summary = None, dp_ops = None,
      dp_trendSeries = \<lparr>dts_range = ''24h'', dts_granularity = ''1h'', dts_points = []\<rparr>, dp_rangeKey = ''24h'', dp_granularity = ''1h''\<rparr>"

definition dashboard_load ::
  "'w ApiEnv \<Rightarrow> ('b, DashboardSummaryWire, 'w) fetcher \<Rightarrow> ('b, DashboardOpsSummaryPayload, 'w) fetcher \<Rightarrow>
    ('b, DashboardTrendSeries, 'w) fetcher \<Rightarrow> (unit, DashboardPage, 'w) script" where
  "dashboard_load env fetch_summary fetch_ops fetch_trends =
     guarded (\<lambda>b p. p\<lparr>dp_loading := b\<rparr>) (\<lambda>p. p\<lparr>dp_error := []\<rparr>) (\<lambda>m p. p\<lparr>dp_error := m\<rparr>)
       (readS (\<lambda>p. bindS (awaitS (promise_all (fetchDashboardSummary env fetch_summary)
            (promise_all (fetchDashboardOpsSummary env fetch_ops)
              (fetchDashboardTrends env fetch_trends (dp_rangeKey p) (dp_granularity p)))))
         (\<lambda>(summaryResp, opsResp, trendResp). setS (\<lambda>p. p\<lparr>dp_summary := Some summaryResp, dp_ops := Some opsResp,
            dp_trendSeries := trendResp\<rparr>))))"

definition loadTrends :: "'w ApiEnv \<Rightarrow> ('b, DashboardTrendSeries, 'w) fetcher \<Rightarrow> (unit, DashboardPage, 'w) script" where
  "loadTrends env fetch_trends =
     try_catch
       (readS (\<lambda>p. bindS (awaitS (fetchDashboardTrends env fetch_trends (dp_rangeKey p) (dp_granularity p)))
         (\<lambda>r. setS (\<lambda>p. p\<lparr>dp_trendSeries := r\<rparr>))))
       (\<lambda>m. setS (\<lambda>p. p\<lparr>dp_error := m\<rparr>))"

interpretation dashboard: busy_page dp_loading "\<lambda>b p. p\<lparr>dp_loading := b\<rparr>" dp_error "\<lambda>m p. p\<lparr>dp_error := m\<rparr>" "\<lambda>p. p\<lparr>dp_error := []\<rparr>"
  by unfold_locales simp_all

subsection \<open>Cards\<close>

definition translateHealth :: "string \<Rightarrow> string" where
  "translateHealth value =
     (if value = ''healthy'' then (uni ''~5065~5EB7'') else if value = ''degraded'' then (uni ''~964D~7EA7'') else str_or value (uni ''~672A~77E5''))"

definition formatRateState :: "string \<Rightarrow> string" where
  "formatRateState value =
     (if value = ''normal'' then (uni ''~6B63~5E38'') else if value = ''enabled'' then (uni ''~5DF2~542F~7528'') else str_or value (uni ''~6B63~5E38''))"

definition formatCircuitState :: "string \<Rightarrow> string" where
  "formatCircuitState value =
     (if value = ''closed'' then (uni ''~5173~95ED'') else if value = ''open'' then (uni ''~4FDD~62A4~4E2D'') else str_or value (uni ''~5173~95ED''))"

datatype CardValue = CardText string | CardNumber int

record SummaryCard =
  sc_title :: string
  sc_value :: CardValue
  sc_hint :: string

definition summaryCards :: "DashboardPage \<Rightarrow> SummaryCard list" where
  "summaryCards p = (case dp_summary p of None \<Rightarrow> [] | Some s \<Rightarrow>
     [\<lparr>sc_title = (uni ''~7CFB~7EDF~5065~5EB7''), sc_value = CardText (translateHealth (dsum_systemHealth s)),
       sc_hint = (uni ''~6839~636E~8FD1 1 ~5C0F~65F6~8BBF~95EE~65E5~5FD7~4E0E~96A7~9053~72B6~6001~7EFC~5408~5224~65AD~3002'')\<rparr>,
      \<lparr>sc_title = (uni ''~5F53~524D~8FDE~63A5~6570''), sc_value = CardNumber (dsum_activeConnections s), sc_hint = (uni ''~6765~81EA~7F51~5173~5F53~524D~8FDE~63A5~7EDF~8BA1~3002'')\<rparr>,
      \<lparr>sc_title = (uni ''~6620~5C04~603B~6570''), sc_value = CardNumber (dsum_mappingTotal s),
       sc_hint = (uni ''~5F02~5E38~6620~5C04 '') @ string_of_int (dsum_mappingErrorCount s) @ (uni '' ~6761~3002'')\<rparr>,
      \<lparr>sc_title = (uni ''~8FD1 1 ~5C0F~65F6~5931~8D25~6570''), sc_value = CardNumber (dsum_recentFailureCount s),
       sc_hint = (uni ''~4E0E~8BBF~95EE~65E5~5FD7~6458~8981~548C~544A~8B66~89E6~53D1~5171~7528~540C~4E00~53E3~5F84~3002'')\<rparr>,
      \<lparr>sc_title = (uni ''~9650~6D41~72B6~6001''), sc_value = CardText (formatRateState (dsum_rateLimitState s)), sc_hint = (uni ''~8BF7~7ED3~5408~544A~8B66~4E0E~4FDD~62A4~9875~8FDB~4E00~6B65~67E5~770B~3002'')\<rparr>,
      \<lparr>sc_title = (uni ''~7194~65AD~72B6~6001''), sc_value = CardText (formatCircuitState (dsum_circuitBreakerState s)),
       sc_hint = (uni ''~82E5~5F02~5E38~5347~9AD8~FF0C~5EFA~8BAE~5148~4E0B~94BB~5931~8D25~65E5~5FD7~3002'')\<rparr>])"

definition actionAdvice :: "DashboardPage \<Rightarrow> string" where
  "actionAdvice p = (case dp_summary p of None \<Rightarrow> (uni ''~6682~65E0~5EFA~8BAE'') | Some s \<Rightarrow>
     if dsum_recentFailureCount s > 0 then (uni ''~5148~67E5~770B~5931~8D25~65E5~5FD7~FF0C~518D~68C0~67E5~6620~5C04~6D4B~8BD5~4E0E~8282~70B9~914D~7F6E~3002'')
     else if dsum_mappingErrorCount s > 0 then (uni ''~4F18~5148~5904~7406~5F02~5E38~6620~5C04~FF0C~5E76~590D~6838~5BF9~7AEF~8282~70B9~8FDE~901A~6027~3002'')
     else (uni ''~5F53~524D~6574~4F53~7A33~5B9A~FF0C~53EF~91CD~70B9~5173~6CE8~70ED~70B9~6620~5C04~4E0E~6765~6E90 IP~3002''))"

subsection \<open>The trend chart\<close>

definition chartWidth :: int where "chartWidth = 900"
definition chartHeight :: int where "chartHeight = 260"
definition paddingLeft :: int where "paddingLeft = 32"
definition paddingRight :: int where "paddingRight = 12"
definition paddingTop :: int where "paddingTop = 16"
definition paddingBottom :: int where "paddingBottom = 28"

definition trend_points :: "DashboardPage \<Rightarrow> DashboardTrendPoint list" where
  "trend_points p = dts_points (dp_trendSeries p)"

definition totalSlow :: "DashboardPage \<Rightarrow> int" where
  "totalSlow p = sum_list (map dtp_slow (trend_points p))"

definition yMax :: "DashboardPage \<Rightarrow> int" where
  "yMax p = fold max (map (\<lambda>point. max (dtp_total point) (dtp_failed point)) (trend_points p)) 1"

definition usableWidth :: int where
  "usableWidth = chartWidth - paddingLeft - paddingRight"

definition usableHeight :: int where
  "usableHeight = chartHeight - paddingTop - paddingBottom"

definition gridLines :: "rat list" where
  "gridLines = map (\<lambda>ratio. of_int paddingTop + of_int usableHeight * ratio) [0, 1 / 4, 1 / 2, 3 / 4, 1]"

definition pointX :: "DashboardPage \<Rightarrow> nat \<Rightarrow> rat" where
  "pointX p index =
     (if length (trend_points p) \<le> 1 then of_int paddingLeft
      else of_int paddingLeft + (of_int usableWidth * of_nat index) / of_nat (length (trend_points p) - 1))"

definition pointY :: "DashboardPage \<Rightarrow> int \<Rightarrow> rat" where
  "pointY p value = of_int paddingTop + of_int usableHeight * (1 - of_int value / of_int (yMax p))"

definition makePolyline :: "(DashboardTrendPoint \<Rightarrow> int) \<Rightarrow> DashboardPage \<Rightarrow> (rat \<times> rat) list" where
  "makePolyline selector p =
     map (\<lambda>(index, point). (pointX p index, pointY p (selector point))) (enumerate 0 (trend_points p))"

definition totalPolyline :: "DashboardPage \<Rightarrow> (rat \<times> rat) list" where
  "totalPolyline p = makePolyline dtp_total p"

definition failedPolyline :: "DashboardPage \<Rightarrow> (rat \<times> rat) list" where
  "failedPolyline p = makePolyline dtp_failed p"

definition xTicks :: "DashboardPage \<Rightarrow> DashboardTrendPoint list" where
  "xTicks p =
     (let points = trend_points p in
      if length points \<le> 6 then points
      else (let last = length points - 1; picked = {0, last div 4, last div 2, (last * 3) div 4, last}
            in map snd (filter (\<lambda>(index, _). index \<in> picked) (enumerate 0 points))))"

subsection \<open>The chart stays in its frame\<close>

lemmas chart_consts = chartWidth_def chartHeight_def paddingLeft_def paddingRight_def paddingTop_def paddingBottom_def
  usableWidth_def usableHeight_def

lemma fold_max_start: "(a :: int) \<le> fold max xs a"
proof (induction xs arbitrary: a)
  case (Cons y xs)
  show ?case using Cons [of "max y a"] by simp
qed simp

lemma fold_max_in: "x \<in> set xs \<Longrightarrow> x \<le> fold max xs (a :: int)"
proof (induction xs arbitrary: a)
  case (Cons y xs)
  then show ?case using fold_max_start [of "max y a" xs] by auto
qed simp

lemma yMax_bounds:
  "1 \<le> yMax p" "point \<in> set (trend_points p) \<Longrightarrow> dtp_total point \<le> yMax p \<and> dtp_failed point \<le> yMax p"
proof -
  show "1 \<le> yMax p" unfolding yMax_def by (rule fold_max_start)
  assume "point \<in> set (trend_points p)"
  then have "max (dtp_total point) (dtp_failed point) \<in> set (map (\<lambda>point. max (dtp_total point) (dtp_failed point)) (trend_points p))"
    by simp
  from fold_max_in [OF this, of 1] show "dtp_total point \<le> yMax p \<and> dtp_failed point \<le> yMax p"
    unfolding yMax_def by simp
qed

lemma pointX_fraction:
  "1 < length (trend_points p) \<Longrightarrow> pointX p index = 32 + 856 * (of_nat index / of_nat (length (trend_points p) - 1))"
  by (simp add: pointX_def chart_consts)

lemma pointX_bounds:
  assumes "index < length (trend_points p)"
  shows "of_int paddingLeft \<le> pointX p index" "pointX p index \<le> of_int (chartWidth - paddingRight)"
proof -
  let ?n = "length (trend_points p)"
  have "of_int paddingLeft \<le> pointX p index \<and> pointX p index \<le> of_int (chartWidth - paddingRight)"
  proof (cases "1 < ?n")
    case True
    then have "of_nat index / of_nat (?n - 1) \<le> (1 :: rat)" using assms by (simp add: field_simps)
    moreover have "(0 :: rat) \<le> of_nat index / of_nat (?n - 1)" by simp
    ultimately show ?thesis unfolding pointX_fraction [OF True] by (simp add: chart_consts)
  qed (simp add: pointX_def chart_consts)
  then show "of_int paddingLeft \<le> pointX p index" "pointX p index \<le> of_int (chartWidth - paddingRight)" by simp_all
qed

lemma pointX_mono:
  assumes "i < j" "j < length (trend_points p)"
  shows "pointX p i < pointX p j"
proof -
  have n: "1 < length (trend_points p)" using assms by simp
  then have "of_nat i / of_nat (length (trend_points p) - 1) < (of_nat j / of_nat (length (trend_points p) - 1) :: rat)"
    using assms(1) by (intro divide_strict_right_mono) simp_all
  then show ?thesis unfolding pointX_fraction [OF n] by simp
qed

lemma pointY_bounds:
  assumes "0 \<le> value" "value \<le> yMax p"
  shows "of_int paddingTop \<le> pointY p value" "pointY p value \<le> of_int (chartHeight - paddingBottom)"
proof -
  have "of_int value / of_int (yMax p) \<le> (1 :: rat)" "0 \<le> of_int value / (of_int (yMax p) :: rat)"
    using assms yMax_bounds(1) [of p] by (simp_all add: field_simps)
  then show "of_int paddingTop \<le> pointY p value" "pointY p value \<le> of_int (chartHeight - paddingBottom)"
    by (simp_all add: pointY_def chart_consts)
qed

lemma xTicks_subseq: "subseq (xTicks p) (trend_points p)"
proof -
  have "subseq (map snd (filter P (enumerate n xs))) xs" for P and xs :: "DashboardTrendPoint list" and n
    by (induction xs arbitrary: n) auto
  then show ?thesis by (simp add: xTicks_def Let_def)
qed

lemma filter_enumerate_length:
  "finite A \<Longrightarrow> length (filter (\<lambda>(i, _). i \<in> A) (enumerate n xs)) \<le> card A"
proof -
  assume "finite A"
  have "distinct (map fst (filter (\<lambda>(i, _). i \<in> A) (enumerate n xs)))"
    by (intro distinct_map_filter) (simp add: distinct_enumerate flip: enumerate_eq_zip)
  moreover have "set (map fst (filter (\<lambda>(i, _). i \<in> A) (enumerate n xs))) \<subseteq> A" by auto
  ultimately show ?thesis using \<open>finite A\<close> by (metis card_mono distinct_card length_map)
qed

lemma xTicks_length: "length (xTicks p) \<le> 6"
proof (cases "length (trend_points p) \<le> 6")
  case False
  let ?last = "length (trend_points p) - 1"
  let ?A = "{0, ?last div 4, ?last div 2, (?last * 3) div 4, ?last}"
  have "card ?A \<le> 5" by (simp add: card_insert_if)
  moreover have "length (xTicks p) \<le> card ?A"
    using False filter_enumerate_length [of ?A 0 "trend_points p"] by (simp add: xTicks_def Let_def)
  ultimately show ?thesis by linarith
qed (simp add: xTicks_def)

definition in_frame :: "rat \<times> rat \<Rightarrow> bool" where
  "in_frame q \<longleftrightarrow>
     of_int paddingLeft \<le> fst q \<and> fst q \<le> of_int (chartWidth - paddingRight) \<and>
     of_int paddingTop \<le> snd q \<and> snd q \<le> of_int (chartHeight - paddingBottom)"

lemma polyline_nth:
  "i < length (trend_points p) \<Longrightarrow> makePolyline f p ! i = (pointX p i, pointY p (f (trend_points p ! i)))"
  "length (makePolyline f p) = length (trend_points p)"
  by (simp_all add: makePolyline_def nth_enumerate_eq)

lemma polyline_in_frame:
  assumes "\<And>point. point \<in> set (trend_points p) \<Longrightarrow> 0 \<le> f point \<and> f point \<le> yMax p"
  shows "list_all in_frame (makePolyline f p)"
proof -
  have "in_frame (makePolyline f p ! i)" if "i < length (trend_points p)" for i
    using pointX_bounds [OF that] pointY_bounds [of "f (trend_points p ! i)" p] assms [OF nth_mem [OF that]]
    by (simp add: polyline_nth that in_frame_def)
  then show ?thesis by (simp add: list_all_length polyline_nth)
qed

lemma polyline_ordered: "sorted_wrt (<) (map fst (makePolyline f p))"
  by (simp add: sorted_wrt_iff_nth_less polyline_nth pointX_mono)

text \<open>The trend chart stays in its frame: with counts that are not negative, every point of both lines
  lies between the margins and the points go from left to right; the axis shows at most six of the points,
  in their order.\<close>

lemma chart_in_frame:
  assumes "list_all (\<lambda>point. 0 \<le> dtp_total point \<and> 0 \<le> dtp_failed point) (trend_points p)"
  shows "list_all in_frame (totalPolyline p) \<and> list_all in_frame (failedPolyline p) \<and>
    sorted_wrt (<) (map fst (totalPolyline p)) \<and> sorted_wrt (<) (map fst (failedPolyline p)) \<and>
    subseq (xTicks p) (trend_points p) \<and> length (xTicks p) \<le> 6"
  using assms yMax_bounds(2) [of _ p] polyline_ordered [of _ p] xTicks_subseq [of p] xTicks_length [of p]
  by (auto simp: totalPolyline_def failedPolyline_def list_all_iff [of _ "trend_points p"] intro!: polyline_in_frame)

end
