(* ===== verification/LogPages.thy ===== *)
theory LogPages
  imports PageRuntime
begin

text \<open>
  The scripts of the pages that list records: \<open>AccessLogsView.vue\<close>, \<open>AuditLogsView.vue\<close>,
  \<open>OpsAuditsView.vue\<close>, \<open>SecurityEventsView.vue\<close>, \<open>CommandTasksView.vue\<close>, \<open>FileTasksView.vue\<close> and
  \<open>TaskDetailView.vue\<close>, with the badge component \<open>StatusPill.vue\<close>.

  The access log page derives its query from the chosen time range in a \<open>watch\<close>. Vue runs the callback
  of a watcher after the code that changed the watched value has given up control, so a change first
  leaves the watcher pending; \<open>flush_watch\<close> runs it. A moment of the time range is its
  \<open>toISOString()\<close> text.
\<close>

subsection \<open>Access logs\<close>

record AccessPage =
  acp_loading :: bool
  acp_error :: string
  acp_list :: "AccessLogEntry list"
  acp_summary :: AccessLogSummary
  acp_current :: "AccessLogEntry option"
  acp_detailOpen :: bool
  acp_timeRange :: "(string \<times> string) option"
  acp_query :: AccessLogQuery
  acp_watch_pending :: bool

definition defaultQuery :: AccessLogQuery where
  "defaultQuery =
     \<lparr>alq_mapping = None, alq_sourceIP = None, alq_method = None, alq_status = None, alq_startTime = None, alq_endTime = None,
      alq_slowOnly = Some False, alq_failedOnly = Some False\<rparr>"

definition access_page_init :: AccessPage where
  "access_page_init =
     \<lparr>acp_loading = False, acp_error = [], acp_list = [],
      acp_summary = \<lparr>als_total = 0, als_failed = 0, als_slow = 0, als_error_types = [], als_window = (uni ''~5F53~524D~7B5B~9009~6761~4EF6'')\<rparr>,
      acp_current = None, acp_detailOpen = False, acp_timeRange = None, acp_query = defaultQuery, acp_watch_pending = False\<rparr>"

definition set_timeRange :: "(string \<times> string) option \<Rightarrow> AccessPage \<Rightarrow> AccessPage" where
  "set_timeRange r p = p\<lparr>acp_timeRange := r, acp_watch_pending := True\<rparr>"

definition flush_watch :: "AccessPage \<Rightarrow> AccessPage" where
  "flush_watch p =
     (if acp_watch_pending p
      then p\<lparr>acp_query := (acp_query p)\<lparr>alq_startTime := map_option fst (acp_timeRange p),
               alq_endTime := map_option snd (acp_timeRange p)\<rparr>, acp_watch_pending := False\<rparr>
      else p)"

text \<open>The request is made from the query as it is when \<open>load\<close> is called; pending watchers run while it is under way.\<close>

definition access_load :: "'w ApiEnv \<Rightarrow> ('b, AccessLogWire, 'w) fetcher \<Rightarrow> (unit, AccessPage, 'w) script" where
  "access_load env fetch =
     guarded (\<lambda>b p. p\<lparr>acp_loading := b\<rparr>) (\<lambda>p. p\<lparr>acp_error := []\<rparr>) (\<lambda>m p. p\<lparr>acp_error := m\<rparr>)
       (readS (\<lambda>p. thenS (setS flush_watch)
         (bindS (awaitS (fetchAccessLogs env fetch (acp_query p) 1 100))
           (\<lambda>data. setS (\<lambda>p. p\<lparr>acp_list := tlr_list data, acp_summary := alp_summary data\<rparr>)))))"

definition access_reset :: "'w ApiEnv \<Rightarrow> ('b, AccessLogWire, 'w) fetcher \<Rightarrow> string \<Rightarrow> string \<Rightarrow> (unit, AccessPage, 'w) script" where
  "access_reset env fetch hour_ago now =
     thenS (setS (\<lambda>p. set_timeRange (Some (hour_ago, now)) (p\<lparr>acp_query := defaultQuery\<rparr>))) (access_load env fetch)"

definition access_mounted :: "'w ApiEnv \<Rightarrow> ('b, AccessLogWire, 'w) fetcher \<Rightarrow> string \<Rightarrow> string \<Rightarrow> (unit, AccessPage, 'w) script" where
  "access_mounted env fetch hour_ago now =
     thenS (setS (set_timeRange (Some (hour_ago, now)))) (access_load env fetch)"

definition access_openDetail :: "AccessLogEntry \<Rightarrow> AccessPage \<Rightarrow> AccessPage" where
  "access_openDetail record p = p\<lparr>acp_current := Some record, acp_detailOpen := True\<rparr>"

definition access_cards :: "AccessPage \<Rightarrow> (string \<times> int) list" where
  "access_cards p =
     (let s = acp_summary p in
      [((uni ''~547D~4E2D~8BB0~5F55~6570''), als_total s), ((uni ''~5931~8D25~8BF7~6C42''), als_failed s), ((uni ''~6162~8BF7~6C42''), als_slow s),
       ((uni ''~5F02~5E38~7C7B~578B~6570''), int (length (als_error_types s)))])"

definition summaryWindow :: "AccessPage \<Rightarrow> string" where
  "summaryWindow p = str_or (als_window (acp_summary p)) (uni ''~5F53~524D~7B5B~9009~6761~4EF6'')"

interpretation access_loading: busy_page acp_loading "\<lambda>b p. p\<lparr>acp_loading := b\<rparr>" acp_error "\<lambda>m p. p\<lparr>acp_error := m\<rparr>"
  "\<lambda>p. p\<lparr>acp_error := []\<rparr>"
  by unfold_locales simp_all

subsection \<open>Audit logs\<close>

record AuditPage =
  aup_requestId :: string
  aup_traceId :: string
  aup_rule :: string
  aup_errorOnly :: "bool option"
  aup_startTime :: "string option"
  aup_endTime :: "string option"
  aup_selectedRange :: "(string \<times> string) option"
  aup_drawerVisible :: bool
  aup_selectedLog :: "OpsAuditEvent option"
  aup_logs :: "OpsAuditEvent list"
  aup_current :: int
  aup_pageSize :: int
  aup_total :: int

definition audit_page_init :: AuditPage where
  "audit_page_init =
     \<lparr>aup_requestId = [], aup_traceId = [], aup_rule = [], aup_errorOnly = Some False, aup_startTime = None, aup_endTime = None, aup_selectedRange = None,
      aup_drawerVisible = False, aup_selectedLog = None, aup_logs = [], aup_current = 1, aup_pageSize = 8, aup_total = 0\<rparr>"

definition nonempty :: "string \<Rightarrow> string option" where
  "nonempty s = (if s = [] then None else Some s)"

definition buildQuery :: "AuditPage \<Rightarrow> OpsAuditFilters" where
  "buildQuery p =
     \<lparr>oaf_requestId = nonempty (trim (aup_requestId p)), oaf_traceId = nonempty (trim (aup_traceId p)),
      oaf_rule = nonempty (trim (aup_rule p)), oaf_errorOnly = (if aup_errorOnly p = Some True then Some True else None),
      oaf_startTime = aup_startTime p, oaf_endTime = aup_endTime p\<rparr>"

definition loadLogs :: "'w ApiEnv \<Rightarrow> ('b, OpsAuditEvent ItemsPage, 'w) fetcher \<Rightarrow> int \<Rightarrow> int \<Rightarrow> (unit, AuditPage, 'w) script" where
  "loadLogs env fetch page pageSize =
     readS (\<lambda>p. bindS (awaitS (fetchAudits env fetch page pageSize (Some (buildQuery p))))
       (\<lambda>result. setS (\<lambda>p. p\<lparr>aup_logs := tlr_list result, aup_current := page, aup_pageSize := pageSize, aup_total := tlr_total result\<rparr>)))"

definition audit_onTableChange ::
  "'w ApiEnv \<Rightarrow> ('b, OpsAuditEvent ItemsPage, 'w) fetcher \<Rightarrow> int option \<Rightarrow> int option \<Rightarrow> (unit, AuditPage, 'w) script" where
  "audit_onTableChange env fetch current pageSize = loadLogs env fetch (nullish current 1) (nullish pageSize 8)"

definition onRangeChange :: "(string \<times> string) option \<Rightarrow> AuditPage \<Rightarrow> AuditPage" where
  "onRangeChange value p = p\<lparr>aup_startTime := map_option fst value, aup_endTime := map_option snd value\<rparr>"

definition audit_openDetail :: "OpsAuditEvent \<Rightarrow> AuditPage \<Rightarrow> AuditPage" where
  "audit_openDetail record p = p\<lparr>aup_selectedLog := Some record, aup_drawerVisible := True\<rparr>"

subsection \<open>Operation audits and security events\<close>

record AuditRow =
  ar_id :: string
  ar_time :: string
  ar_type :: string
  ar_target :: string
  ar_operator :: string
  ar_result :: string
  ar_summary :: string
  ar_raw :: OpsAuditEvent

record OpsAuditPage =
  oap_loading :: bool
  oap_error :: string
  oap_rows :: "AuditRow list"
  oap_detailOpen :: bool
  oap_current :: "OpsAuditEvent option"
  oap_filters :: OpsAuditFilters

definition ops_audit_filters_init :: OpsAuditFilters where
  "ops_audit_filters_init =
     \<lparr>oaf_requestId = Some [], oaf_traceId = Some [], oaf_rule = None, oaf_errorOnly = Some False, oaf_startTime = None, oaf_endTime = None\<rparr>"

definition ops_audit_init :: OpsAuditPage where
  "ops_audit_init =
     \<lparr>oap_loading = False, oap_error = [], oap_rows = [], oap_detailOpen = False, oap_current = None, oap_filters = ops_audit_filters_init\<rparr>"

definition audit_row :: "nat \<times> OpsAuditEvent \<Rightarrow> AuditRow" where
  "audit_row x =
     (let (index, item) = x in
      \<lparr>ar_id = oae_when item @ ''-'' @ string_of_nat index, ar_time = oae_when item, ar_type = oae_request_type item,
       ar_target = str_or (oae_local_service_route item) (str_or (oac_api_code (oae_core item)) (uni ''~7CFB~7EDF~914D~7F6E'')),
       ar_operator = oae_who item, ar_result = (if oae_validation_passed item then (uni ''~6210~529F'') else (uni ''~5931~8D25'')),
       ar_summary = str_or (oae_ops_action item) (oae_final_result item), ar_raw = item\<rparr>)"

definition ops_audit_load :: "'w ApiEnv \<Rightarrow> ('b, OpsAuditEvent ItemsPage, 'w) fetcher \<Rightarrow> (unit, OpsAuditPage, 'w) script" where
  "ops_audit_load env fetch =
     guarded (\<lambda>b p. p\<lparr>oap_loading := b\<rparr>) (\<lambda>p. p\<lparr>oap_error := []\<rparr>) (\<lambda>m p. p\<lparr>oap_error := m\<rparr>)
       (readS (\<lambda>p. bindS (awaitS (fetchAudits env fetch 1 100 (Some (oap_filters p))))
         (\<lambda>data. setS (\<lambda>p. p\<lparr>oap_rows := map audit_row (enumerate 0 (tlr_list data))\<rparr>))))"

definition ops_audit_reset :: "'w ApiEnv \<Rightarrow> ('b, OpsAuditEvent ItemsPage, 'w) fetcher \<Rightarrow> (unit, OpsAuditPage, 'w) script" where
  "ops_audit_reset env fetch =
     thenS (setS (\<lambda>p. p\<lparr>oap_filters := (oap_filters p)\<lparr>oaf_requestId := Some [], oaf_traceId := Some [], oaf_errorOnly := Some False\<rparr>\<rparr>))
       (ops_audit_load env fetch)"

definition ops_audit_openDetail :: "OpsAuditEvent \<Rightarrow> OpsAuditPage \<Rightarrow> OpsAuditPage" where
  "ops_audit_openDetail row p = p\<lparr>oap_current := Some row, oap_detailOpen := True\<rparr>"

record SecurityEventsPage =
  sep_loading :: bool
  sep_error :: string
  sep_rows :: "(SecurityEventRecord \<times> string) list"

text \<open>A row is an event with its \<open>key\<close>.\<close>

definition event_rows :: "SecurityEventRecord list \<Rightarrow> (SecurityEventRecord \<times> string) list" where
  "event_rows items = map (\<lambda>(index, item). (item, ser_when item @ ''-'' @ string_of_nat index)) (enumerate 0 items)"

definition security_events_load ::
  "'w ApiEnv \<Rightarrow> ('b, SecurityEventRecord list, 'w) fetcher \<Rightarrow> (unit, SecurityEventsPage, 'w) script" where
  "security_events_load env fetch =
     guarded (\<lambda>b p. p\<lparr>sep_loading := b\<rparr>) (\<lambda>p. p\<lparr>sep_error := []\<rparr>) (\<lambda>m p. p\<lparr>sep_error := m\<rparr>)
       (bindS (awaitS (fetchSecurityEvents env fetch)) (\<lambda>items. setS (\<lambda>p. p\<lparr>sep_rows := event_rows items\<rparr>)))"

interpretation ops_audit_loading: busy_page oap_loading "\<lambda>b p. p\<lparr>oap_loading := b\<rparr>" oap_error "\<lambda>m p. p\<lparr>oap_error := m\<rparr>"
  "\<lambda>p. p\<lparr>oap_error := []\<rparr>"
  by unfold_locales simp_all

interpretation security_events_loading: busy_page sep_loading "\<lambda>b p. p\<lparr>sep_loading := b\<rparr>" sep_error "\<lambda>m p. p\<lparr>sep_error := m\<rparr>"
  "\<lambda>p. p\<lparr>sep_error := []\<rparr>"
  by unfold_locales simp_all

subsection \<open>Tasks\<close>

text \<open>The two task lists run the same code over their own kind of task.\<close>

record 't TasksPage =
  tpg_filters :: TaskListFilters
  tpg_result :: "'t TaskListResult"
  tpg_current :: int
  tpg_pageSize :: int
  tpg_total :: int

definition tasks_page_init :: "'t TasksPage" where
  "tasks_page_init =
     \<lparr>tpg_filters = no_task_filters, tpg_result = \<lparr>tlr_list = [], tlr_total = 0, tlr_page = 1, tlr_pageSize = 10\<rparr>,
      tpg_current = 1, tpg_pageSize = 10, tpg_total = 0\<rparr>"

fun statusTextMap :: "TaskStatus \<Rightarrow> string" where
  "statusTextMap Task_pending = (uni ''~5F85~6267~884C'')"
| "statusTextMap Task_accepted = (uni ''~5DF2~53D7~7406'')"
| "statusTextMap Task_running = (uni ''~6267~884C~4E2D'')"
| "statusTextMap Task_transferring = (uni ''~4F20~8F93~4E2D'')"
| "statusTextMap Task_verifying = (uni ''~6821~9A8C~4E2D'')"
| "statusTextMap Task_retry_wait = (uni ''~91CD~8BD5~7B49~5F85'')"
| "statusTextMap Task_succeeded = (uni ''~6210~529F'')"
| "statusTextMap Task_failed = (uni ''~5931~8D25'')"
| "statusTextMap Task_dead_lettered = (uni ''~6B7B~4FE1'')"
| "statusTextMap Task_cancelled = (uni ''~5DF2~53D6~6D88'')"

fun statusColorMap :: "TaskStatus \<Rightarrow> string" where
  "statusColorMap Task_pending = ''default''"
| "statusColorMap Task_accepted = ''blue''"
| "statusColorMap Task_running = ''processing''"
| "statusColorMap Task_transferring = ''cyan''"
| "statusColorMap Task_verifying = ''purple''"
| "statusColorMap Task_retry_wait = ''orange''"
| "statusColorMap Task_succeeded = ''success''"
| "statusColorMap Task_failed = ''error''"
| "statusColorMap Task_dead_lettered = ''red''"
| "statusColorMap Task_cancelled = ''default''"

definition statusOptions :: "SelectOption list" where
  "statusOptions = map (\<lambda>v. \<lparr>so_label = statusTextMap v, so_value = task_status_text v\<rparr>)
     [Task_pending, Task_accepted, Task_running, Task_transferring, Task_verifying, Task_retry_wait, Task_succeeded,
      Task_failed, Task_dead_lettered, Task_cancelled]"

definition tasks_loadData ::
  "(TaskListFilters \<Rightarrow> int \<Rightarrow> int \<Rightarrow> ('t TaskListResult, 'w) api) \<Rightarrow> int \<Rightarrow> int \<Rightarrow> (unit, 't TasksPage, 'w) script" where
  "tasks_loadData fetchTasks page pageSize =
     readS (\<lambda>p. bindS (awaitS (fetchTasks (tpg_filters p) page pageSize))
       (\<lambda>r. setS (\<lambda>p. p\<lparr>tpg_result := r, tpg_current := page, tpg_pageSize := pageSize, tpg_total := tlr_total r\<rparr>)))"

definition tasks_onTableChange ::
  "(TaskListFilters \<Rightarrow> int \<Rightarrow> int \<Rightarrow> ('t TaskListResult, 'w) api) \<Rightarrow> int option \<Rightarrow> int option \<Rightarrow> (unit, 't TasksPage, 'w) script" where
  "tasks_onTableChange fetchTasks current pageSize = tasks_loadData fetchTasks (nullish current 1) (nullish pageSize 10)"

definition tasks_reset ::
  "(TaskListFilters \<Rightarrow> int \<Rightarrow> int \<Rightarrow> ('t TaskListResult, 'w) api) \<Rightarrow> (unit, 't TasksPage, 'w) script" where
  "tasks_reset fetchTasks =
     thenS (setS (\<lambda>p. p\<lparr>tpg_filters := (tpg_filters p)\<lparr>tf_status := None, tf_requestId := Some [], tf_traceId := Some []\<rparr>\<rparr>))
       (readS (\<lambda>p. tasks_loadData fetchTasks 1 (tpg_pageSize p)))"

definition command_tasks_load :: "'w ApiEnv \<Rightarrow> ('b, TaskApiModel ItemsPage, 'w) fetcher \<Rightarrow> int \<Rightarrow> int \<Rightarrow> (unit, CommandTask TasksPage, 'w) script" where
  "command_tasks_load env fetch = tasks_loadData (fetchCommandTasks env fetch)"

definition file_tasks_load :: "'w ApiEnv \<Rightarrow> ('b, TaskApiModel ItemsPage, 'w) fetcher \<Rightarrow> int \<Rightarrow> int \<Rightarrow> (unit, FileTask TasksPage, 'w) script" where
  "file_tasks_load env fetch = tasks_loadData (fetchFileTasks env fetch)"

definition task_detail_init :: TaskDetail where
  "task_detail_init =
     \<lparr>td_id = [], td_taskKind = Kind_command, td_requestId = [], td_traceId = [], td_status = Task_pending, td_nodeId = [],
      td_createdAt = [], td_updatedAt = [], td_timeline = [], td_sipEvents = [],
      td_rtpStats = \<lparr>rs_totalShards = 0, rs_receivedShards = 0, rs_missingShards = 0, rs_retransmittedShards = 0, rs_bitrateMbps = 0\<rparr>,
      td_httpResult = \<lparr>her_apiCode = [], her_url = [], her_method = [], her_statusCode = 0, her_durationMs = 0, her_responseSnippet = []\<rparr>,
      td_auditSnippets = []\<rparr>"

definition task_detail_mounted ::
  "'w ApiEnv \<Rightarrow> ('b, TaskApiModel, 'w) fetcher \<Rightarrow> string \<Rightarrow> string \<Rightarrow> (unit, TaskDetail, 'w) script" where
  "task_detail_mounted env fetch route_id route_kind =
     bindS (awaitS (fetchTaskDetail env fetch route_id (if route_kind = ''file'' then Kind_file else Kind_command)))
       (\<lambda>r. setS (\<lambda>_. r))"

subsection \<open>Status badges\<close>

datatype PillKind = Pill_status | Pill_severity | Pill_online

definition pill_statusMap :: "(string \<times> string \<times> string) list" where
  "pill_statusMap =
     [(''pending'', (uni ''~5F85~6267~884C''), ''default''), (''running'', (uni ''~6267~884C~4E2D''), ''processing''), (''success'', (uni ''~6210~529F''), ''success''),
      (''failed'', (uni ''~5931~8D25''), ''error''), (''partial_success'', (uni ''~90E8~5206~6210~529F''), ''warning'')]"

definition pill_severityMap :: "(string \<times> string \<times> string) list" where
  "pill_severityMap =
     [(''critical'', (uni ''~4E25~91CD''), ''error''), (''high'', (uni ''~9AD8''), ''volcano''), (''medium'', (uni ''~4E2D''), ''gold''), (''low'', (uni ''~4F4E''), ''blue'')]"

definition pill_onlineMap :: "(string \<times> string \<times> string) list" where
  "pill_onlineMap =
     [(''online'', (uni ''~5DF2~8FDE~63A5''), ''success''), (''offline'', (uni ''~672A~8FDE~63A5''), ''default''), (''degraded'', (uni ''~5F02~5E38''), ''warning'')]"

fun currentMap :: "PillKind \<Rightarrow> (string \<times> string \<times> string) list" where
  "currentMap Pill_severity = pill_severityMap"
| "currentMap Pill_online = pill_onlineMap"
| "currentMap Pill_status = pill_statusMap"

definition resolvedLabel :: "PillKind \<Rightarrow> string \<Rightarrow> string" where
  "resolvedLabel kind value = (case map_of (currentMap kind) value of None \<Rightarrow> value | Some (label, _) \<Rightarrow> label)"

definition resolvedColor :: "PillKind \<Rightarrow> string \<Rightarrow> string" where
  "resolvedColor kind value = (case map_of (currentMap kind) value of None \<Rightarrow> ''default'' | Some (_, color) \<Rightarrow> color)"

subsection \<open>Which query the access log page sends\<close>

lemma flush_commutes:
  "flush_watch (p\<lparr>acp_loading := b, acp_error := e\<rparr>) = (flush_watch p)\<lparr>acp_loading := b, acp_error := e\<rparr>"
  by (simp add: flush_watch_def)

lemma access_load_run:
  "access_load env f (p, st) =
     (let r = fetchAccessLogs env f (acp_query p) 1 100 st; q = (flush_watch p)\<lparr>acp_error := [], acp_loading := False\<rparr> in
      (Inr (), (case fst r of Inl (JsError m) \<Rightarrow> q\<lparr>acp_error := m\<rparr>
         | Inr d \<Rightarrow> q\<lparr>acp_list := tlr_list d, acp_summary := alp_summary d\<rparr>, snd r)))"
  by (simp add: access_load_def guarded_eval script_simps flush_watch_def Let_def split: sum.splits js_error.splits)

lemma access_after_load:
  "acp_query (fst (snd (access_load env f (p, st)))) = acp_query (flush_watch p)"
  "acp_timeRange (fst (snd (access_load env f (p, st)))) = acp_timeRange p"
  "\<not> acp_watch_pending (fst (snd (access_load env f (p, st))))"
  "snd (snd (access_load env f (p, st))) = snd (fetchAccessLogs env f (acp_query p) 1 100 st)"
  by (simp_all add: access_load_run flush_watch_def Let_def split: sum.splits js_error.splits)

text \<open>
  A page whose watcher is not pending sends the query that belongs to the range it shows; after
  mounting and after a reset the first request is the one without a range.
\<close>

definition query_matches_range :: "AccessPage \<Rightarrow> bool" where
  "query_matches_range p \<longleftrightarrow>
     alq_startTime (acp_query p) = map_option fst (acp_timeRange p) \<and> alq_endTime (acp_query p) = map_option snd (acp_timeRange p)"

lemma flush_matches: "acp_watch_pending p \<or> query_matches_range p \<Longrightarrow> query_matches_range (flush_watch p)"
  by (auto simp: query_matches_range_def flush_watch_def)

lemma access_mounted_run:
  "snd (snd (access_mounted env f ago now (p, st))) = snd (fetchAccessLogs env f (acp_query p) 1 100 st)"
  "acp_timeRange (fst (snd (access_mounted env f ago now (p, st)))) = Some (ago, now)"
  "query_matches_range (fst (snd (access_mounted env f ago now (p, st))))"
proof -
  have run: "access_mounted env f ago now (p, st) = access_load env f (set_timeRange (Some (ago, now)) p, st)"
    by (simp add: access_mounted_def script_simps)
  show "snd (snd (access_mounted env f ago now (p, st))) = snd (fetchAccessLogs env f (acp_query p) 1 100 st)"
    "acp_timeRange (fst (snd (access_mounted env f ago now (p, st)))) = Some (ago, now)"
    unfolding run access_after_load by (simp_all add: set_timeRange_def)
  show "query_matches_range (fst (snd (access_mounted env f ago now (p, st))))"
    using flush_matches [of "set_timeRange (Some (ago, now)) p"]
    unfolding run query_matches_range_def access_after_load by (simp add: set_timeRange_def flush_watch_def)
qed

lemma access_reset_run:
  "access_reset env f ago now (p, st) = access_mounted env f ago now (p\<lparr>acp_query := defaultQuery\<rparr>, st)"
  by (simp add: access_reset_def access_mounted_def script_simps)

subsection \<open>Row keys\<close>

lemma digits_no_dash: "CHR ''-'' \<notin> set (string_of_nat n)"
  using string_of_nat_digits [of n] by (auto simp: is_digit_def)

lemma key_index: "a @ ''-'' @ string_of_nat i = b @ ''-'' @ string_of_nat j \<Longrightarrow> i = j"
proof -
  assume eq: "a @ ''-'' @ string_of_nat i = b @ ''-'' @ string_of_nat j"
  have "takeWhile (\<lambda>c. c \<noteq> CHR ''-'') (rev (x @ ''-'' @ string_of_nat n)) = rev (string_of_nat n)" for x n
    using digits_no_dash [of n] by (simp add: takeWhile_append takeWhile_eq_all_conv)
  then have "rev (string_of_nat i) = rev (string_of_nat j)" using eq by metis
  then show "i = j" by simp
qed

lemma indexed_keys_distinct: "distinct (map (\<lambda>x. f (snd x) @ ''-'' @ string_of_nat (fst x)) (enumerate n xs))"
proof -
  have "inj_on (\<lambda>x. f (snd x) @ ''-'' @ string_of_nat (fst x)) (set (enumerate n xs))"
  proof (rule inj_onI)
    fix x y assume "x \<in> set (enumerate n xs)" "y \<in> set (enumerate n xs)"
      and eq: "f (snd x) @ ''-'' @ string_of_nat (fst x) = f (snd y) @ ''-'' @ string_of_nat (fst y)"
    moreover have "fst x = fst y" by (rule key_index [OF eq])
    ultimately show "x = y" by (simp add: in_set_enumerate_eq prod_eq_iff)
  qed
  then show ?thesis by (simp add: distinct_map distinct_enumerate)
qed

lemma event_keys_distinct: "distinct (map snd (event_rows items))"
  using indexed_keys_distinct [of ser_when 0 items] by (simp add: event_rows_def o_def case_prod_beta)

lemma audit_keys_distinct: "distinct (map ar_id (map audit_row (enumerate 0 items)))"
  using indexed_keys_distinct [of oae_when 0 items] by (simp add: audit_row_def o_def case_prod_beta Let_def del: uni.simps)

end
