(* ===== verification/PageRaces.thy ===== *)
theory PageRaces
  imports DashboardPage LogPages
begin

text \<open>
  Overlapping loads. A handler of a page sends a request and does not wait for the one before; an answer
  is stored when it arrives, and answers may arrive in any order. Here the part of a handler before its
  \<open>await\<close> (\<open>start\<close>) and the part after it (\<open>finish\<close>) are separate steps. \<open>answer\<close> is what the server has
  for a request; a failed request changes no data and is left out.

  A page shows data together with a label that tells what the data are. What holds of them depends on
  when the label is set: with the answer, and the two always belong together; with the request, and they
  belong together only when the answers arrive in the order of the requests.
\<close>

record ('p, 'q) Overlap =
  ov_page :: 'p
  ov_pending :: "'q list"

definition drop_at :: "nat \<Rightarrow> 'a list \<Rightarrow> 'a list" where
  "drop_at i xs = take i xs @ drop (Suc i) xs"

definition send_request :: "('q \<Rightarrow> 'p \<Rightarrow> 'p) \<Rightarrow> 'q \<Rightarrow> ('p, 'q) Overlap \<Rightarrow> ('p, 'q) Overlap" where
  "send_request start q s = s\<lparr>ov_page := start q (ov_page s), ov_pending := ov_pending s @ [q]\<rparr>"

definition answer_arrives :: "('q \<Rightarrow> 'a \<Rightarrow> 'p \<Rightarrow> 'p) \<Rightarrow> ('q \<Rightarrow> 'a) \<Rightarrow> nat \<Rightarrow> ('p, 'q) Overlap \<Rightarrow> ('p, 'q) Overlap" where
  "answer_arrives finish answer i s =
     (let q = ov_pending s ! i in s\<lparr>ov_page := finish q (answer q) (ov_page s), ov_pending := drop_at i (ov_pending s)\<rparr>)"

inductive overlap_run ::
  "('q \<Rightarrow> 'p \<Rightarrow> 'p) \<Rightarrow> ('q \<Rightarrow> 'a \<Rightarrow> 'p \<Rightarrow> 'p) \<Rightarrow> ('q \<Rightarrow> 'a) \<Rightarrow> bool \<Rightarrow> 'p \<Rightarrow> ('p, 'q) Overlap \<Rightarrow> bool"
  for start finish answer in_order p0 where
  loaded: "overlap_run start finish answer in_order p0 \<lparr>ov_page = p0, ov_pending = []\<rparr>"
| send: "overlap_run start finish answer in_order p0 s \<Longrightarrow> overlap_run start finish answer in_order p0 (send_request start q s)"
| arrive: "overlap_run start finish answer in_order p0 s \<Longrightarrow> i < length (ov_pending s) \<Longrightarrow> in_order \<longrightarrow> i = 0 \<Longrightarrow>
    overlap_run start finish answer in_order p0 (answer_arrives finish answer i s)"

subsection \<open>When the label is set\<close>

locale overlapping_loads =
  fixes start :: "'q \<Rightarrow> 'p \<Rightarrow> 'p" and finish :: "'q \<Rightarrow> 'a \<Rightarrow> 'p \<Rightarrow> 'p"
    and shown :: "'p \<Rightarrow> 'a" and label :: "'p \<Rightarrow> 'l" and key :: "'q \<Rightarrow> 'l"
  assumes shown_start: "shown (start q p) = shown p" and shown_finish: "shown (finish q a p) = a"
begin

lemma shown_answer:
  "overlap_run start finish answer in_order p0 s \<Longrightarrow> shown (ov_page s) = shown p0 \<or> (\<exists>q. shown (ov_page s) = answer q)"
  by (induction rule: overlap_run.induct)
    (auto simp: send_request_def answer_arrives_def Let_def shown_start shown_finish)

end

locale labelled_when_shown = overlapping_loads +
  assumes label_start: "label (start q p) = label p" and label_finish: "label (finish q a p) = key q"
begin

lemma always_consistent:
  "overlap_run start finish answer in_order p0 s \<Longrightarrow>
     shown (ov_page s) = shown p0 \<and> label (ov_page s) = label p0 \<or>
     (\<exists>q. key q = label (ov_page s) \<and> shown (ov_page s) = answer q)"
  by (induction rule: overlap_run.induct)
    (auto simp: send_request_def answer_arrives_def Let_def shown_start shown_finish label_start label_finish)

end

locale labelled_when_sent = overlapping_loads +
  assumes label_start: "label (start q p) = key q" and label_finish: "label (finish q a p) = label p"
begin

text \<open>The last request under way, or the last one answered, is the one of the label.\<close>

definition in_step where
  "in_step answer p0 s \<longleftrightarrow>
     (if ov_pending s = []
      then shown (ov_page s) = shown p0 \<and> label (ov_page s) = label p0 \<or>
        (\<exists>q. key q = label (ov_page s) \<and> shown (ov_page s) = answer q)
      else key (last (ov_pending s)) = label (ov_page s))"

lemma in_order_settles: "overlap_run start finish answer True p0 s \<Longrightarrow> in_step answer p0 s"
proof (induction rule: overlap_run.induct)
  case (arrive s i)
  then have "i = 0" by simp
  obtain q qs where "ov_pending s = q # qs" using arrive(2) by (cases "ov_pending s") auto
  with arrive(4) \<open>i = 0\<close> show ?case
    by (auto simp: in_step_def answer_arrives_def Let_def drop_at_def shown_finish label_finish split: if_splits)
qed (simp_all add: in_step_def send_request_def label_start)

lemma race:
  "\<exists>s. overlap_run start finish answer False p0 s \<and> ov_pending s = [] \<and> label (ov_page s) = key q2 \<and>
     shown (ov_page s) = answer q1"
proof -
  let ?start = "\<lparr>ov_page = p0, ov_pending = []\<rparr>"
  let ?s = "send_request start q2 (send_request start q1 ?start)"
  let ?t = "answer_arrives finish answer 0 (answer_arrives finish answer 1 ?s)"
  have "overlap_run start finish answer False p0 ?s" by (intro overlap_run.send overlap_run.loaded)
  then have "overlap_run start finish answer False p0 (answer_arrives finish answer 1 ?s)"
    by (rule overlap_run.arrive) (simp_all add: send_request_def)
  then have "overlap_run start finish answer False p0 ?t"
    by (rule overlap_run.arrive) (simp_all add: send_request_def answer_arrives_def drop_at_def)
  moreover have "ov_pending ?t = []" "label (ov_page ?t) = key q2" "shown (ov_page ?t) = answer q1"
    by (simp_all add: send_request_def answer_arrives_def drop_at_def label_start label_finish shown_finish)
  ultimately show ?thesis by blast
qed

end

subsection \<open>The dashboard\<close>

text \<open>Choosing a range or a granularity sends a request at once (\<open>@change="loadTrends"\<close>): the label is set with it.\<close>

type_synonym trend_state = "(DashboardPage, string \<times> string) Overlap"

definition trend_start :: "string \<times> string \<Rightarrow> DashboardPage \<Rightarrow> DashboardPage" where
  "trend_start q p = p\<lparr>dp_rangeKey := fst q, dp_granularity := snd q\<rparr>"

definition trend_finish :: "string \<times> string \<Rightarrow> DashboardTrendSeries \<Rightarrow> DashboardPage \<Rightarrow> DashboardPage" where
  "trend_finish q series p = p\<lparr>dp_trendSeries := series\<rparr>"

definition selection :: "DashboardPage \<Rightarrow> string \<times> string" where
  "selection p = (dp_rangeKey p, dp_granularity p)"

lemma loadTrends_parts:
  assumes "fst (fetchDashboardTrends env f (fst q) (snd q) st) = Inr series"
  shows "loadTrends env f (trend_start q p, st) =
    (Inr (), (trend_finish q series (trend_start q p), snd (fetchDashboardTrends env f (fst q) (snd q) st)))"
  using assms by (simp add: loadTrends_def try_catch_def script_simps trend_start_def trend_finish_def)

interpretation trends: labelled_when_sent trend_start trend_finish dp_trendSeries selection "\<lambda>q. q"
  by unfold_locales (simp_all add: trend_start_def trend_finish_def selection_def)

lemma trends_settle:
  "overlap_run trend_start trend_finish answer True p0 s \<Longrightarrow> ov_pending s = [] \<Longrightarrow>
     dp_trendSeries p0 = answer (selection p0) \<Longrightarrow> dp_trendSeries (ov_page s) = answer (selection (ov_page s))"
  using trends.in_order_settles [of answer p0 s] by (auto simp: trends.in_step_def)

subsection \<open>The tables\<close>

text \<open>
  The task tables and the audit table set page number, page pageSize and total together with the rows.
\<close>

definition tasks_start :: "TaskListFilters \<times> int \<times> int \<Rightarrow> 't TasksPage \<Rightarrow> 't TasksPage" where
  "tasks_start q p = p\<lparr>tpg_filters := fst q\<rparr>"

definition tasks_finish :: "TaskListFilters \<times> int \<times> int \<Rightarrow> 't TaskListResult \<Rightarrow> 't TasksPage \<Rightarrow> 't TasksPage" where
  "tasks_finish q r p = p\<lparr>tpg_result := r, tpg_current := fst (snd q), tpg_pageSize := snd (snd q), tpg_total := tlr_total r\<rparr>"

lemma tasks_load_parts:
  assumes "fst (fetchTasks f page pageSize st) = Inr r"
  shows "tasks_loadData fetchTasks page pageSize (tasks_start (f, page, pageSize) p, st) =
    (Inr (), (tasks_finish (f, page, pageSize) r (tasks_start (f, page, pageSize) p), snd (fetchTasks f page pageSize st)))"
  using assms by (simp add: tasks_loadData_def script_simps tasks_start_def tasks_finish_def)

interpretation tasks: labelled_when_shown tasks_start tasks_finish tpg_result "\<lambda>p. (tpg_current p, tpg_pageSize p)" snd
  by unfold_locales (simp_all add: tasks_start_def tasks_finish_def)

lemma tasks_total:
  "overlap_run tasks_start tasks_finish answer in_order p0 s \<Longrightarrow> tpg_total p0 = tlr_total (tpg_result p0) \<Longrightarrow>
     tpg_total (ov_page s) = tlr_total (tpg_result (ov_page s))"
  by (induction rule: overlap_run.induct) (simp_all add: send_request_def answer_arrives_def Let_def tasks_start_def tasks_finish_def)

text \<open>The filters of a task table are set with the request: a second contract of the same handler.\<close>

interpretation task_filters: labelled_when_sent tasks_start tasks_finish tpg_result tpg_filters fst
  by unfold_locales (simp_all add: tasks_start_def tasks_finish_def)

definition audit_start :: "OpsAuditFilters \<times> int \<times> int \<Rightarrow> AuditPage \<Rightarrow> AuditPage" where
  "audit_start q p = p"

definition audit_finish :: "OpsAuditFilters \<times> int \<times> int \<Rightarrow> OpsAuditEvent list \<times> int \<Rightarrow> AuditPage \<Rightarrow> AuditPage" where
  "audit_finish q r p = p\<lparr>aup_logs := fst r, aup_current := fst (snd q), aup_pageSize := snd (snd q), aup_total := snd r\<rparr>"

lemma loadLogs_parts:
  assumes "fst (fetchAudits env f page pageSize (Some (buildQuery p)) st) = Inr r"
  shows "loadLogs env f page pageSize (audit_start (buildQuery p, page, pageSize) p, st) =
    (Inr (), (audit_finish (buildQuery p, page, pageSize) (tlr_list r, tlr_total r) p, snd (fetchAudits env f page pageSize (Some (buildQuery p)) st)))"
  using assms by (simp add: loadLogs_def script_simps audit_start_def audit_finish_def)

interpretation audits: labelled_when_shown audit_start audit_finish "\<lambda>p. (aup_logs p, aup_total p)"
  "\<lambda>p. (aup_current p, aup_pageSize p)" snd
  by unfold_locales (simp_all add: audit_start_def audit_finish_def)

end
