(* ===== verification/DateText.thy ===== *)
theory DateText
  imports JsPrelude
begin

text \<open>
  The date texts of \<open>utils/date.ts\<close>. A \<open>Date\<close> is represented by its local time value: milliseconds
  since the start of 1970 on the local clock, from which the getters read the fields with the calendar
  of the language standard (\<open>DayFromYear\<close>, \<open>YearFromTime\<close>, \<open>MonthFromTime\<close>, \<open>DateFromTime\<close>, \<open>MakeDay\<close>).

  Two things belong to the browser and are parameters: \<open>resolve\<close> maps the local time a constructor is
  given to the one the getters read back (they differ where the time zone skips an hour), and \<open>parse\<close>
  is \<open>new Date(text)\<close>, with \<open>None\<close> for an invalid date.
\<close>

subsection \<open>The calendar of the language\<close>

definition is_leap :: "int \<Rightarrow> bool" where
  "is_leap y \<longleftrightarrow> y mod 4 = 0 \<and> y mod 100 \<noteq> 0 \<or> y mod 400 = 0"

definition day_from_year :: "int \<Rightarrow> int" where
  "day_from_year y = 365 * (y - 1970) + (y - 1969) div 4 - (y - 1901) div 100 + (y - 1601) div 400"

definition month_start :: "bool \<Rightarrow> nat \<Rightarrow> int" where
  "month_start leap m =
     [0, 31, 59, 90, 120, 151, 181, 212, 243, 273, 304, 334] ! m + (if leap \<and> 2 \<le> m then 1 else 0)"

definition year_from_day :: "int \<Rightarrow> int" where
  "year_from_day d =
     (let y = 1970 + (d * 400) div 146097
      in if day_from_year (y + 1) \<le> d then y + 1 else if d < day_from_year y then y - 1 else y)"

definition month_from_day :: "bool \<Rightarrow> int \<Rightarrow> nat" where
  "month_from_day leap n = length (filter (\<lambda>m. month_start leap m \<le> n) [1..<12])"

definition make_day :: "int \<Rightarrow> int \<Rightarrow> int \<Rightarrow> int" where
  "make_day year month date =
     (let y = year + month div 12; m = nat (month mod 12) in day_from_year y + month_start (is_leap y) m + date - 1)"

definition make_time :: "int \<Rightarrow> int \<Rightarrow> int \<Rightarrow> int \<Rightarrow> int" where
  "make_time h m s ms = h * 3600000 + m * 60000 + s * 1000 + ms"

definition ms_per_day :: int where
  "ms_per_day = 86400000"

definition new_Date :: "(int \<Rightarrow> int) \<Rightarrow> int \<Rightarrow> int \<Rightarrow> int \<Rightarrow> int \<Rightarrow> int \<Rightarrow> int \<Rightarrow> int \<Rightarrow> int" where
  "new_Date resolve y m d h mi s ms =
     resolve (make_day (if 0 \<le> y \<and> y \<le> 99 then 1900 + y else y) m d * ms_per_day + make_time h mi s ms)"

definition getFullYear :: "int \<Rightarrow> int" where
  "getFullYear t = year_from_day (t div ms_per_day)"

definition day_in_year :: "int \<Rightarrow> int" where
  "day_in_year t = t div ms_per_day - day_from_year (getFullYear t)"

definition getMonth :: "int \<Rightarrow> nat" where
  "getMonth t = month_from_day (is_leap (getFullYear t)) (day_in_year t)"

definition getDate :: "int \<Rightarrow> int" where
  "getDate t = day_in_year t - month_start (is_leap (getFullYear t)) (getMonth t) + 1"

definition getHours :: "int \<Rightarrow> int" where
  "getHours t = (t div 3600000) mod 24"

definition getMinutes :: "int \<Rightarrow> int" where
  "getMinutes t = (t div 60000) mod 60"

definition getSeconds :: "int \<Rightarrow> int" where
  "getSeconds t = (t div 1000) mod 60"

definition getMilliseconds :: "int \<Rightarrow> int" where
  "getMilliseconds t = t mod 1000"

subsection \<open>The code\<close>

record DateFields =
  df_year :: string
  df_month :: string
  df_day :: string
  df_hour :: string
  df_minute :: string
  df_second :: string
  df_fractional :: "string option"

definition digits_at :: "nat \<Rightarrow> nat \<Rightarrow> string \<Rightarrow> bool" where
  "digits_at i n s \<longleftrightarrow> list_all is_digit (take n (drop i s))"

definition UNIFIED_DATETIME_REGEX :: "string \<Rightarrow> DateFields option" where
  "UNIFIED_DATETIME_REGEX s =
     (let part = (\<lambda>i n. take n (drop i s)); rest = drop 19 s in
      if 19 \<le> length s \<and> digits_at 0 4 s \<and> s ! 4 = CHR ''-'' \<and> digits_at 5 2 s \<and> s ! 7 = CHR ''-'' \<and> digits_at 8 2 s \<and>
         s ! 10 = CHR '' '' \<and> digits_at 11 2 s \<and> s ! 13 = CHR '':'' \<and> digits_at 14 2 s \<and> s ! 16 = CHR '':'' \<and> digits_at 17 2 s \<and>
         (rest = [] \<or> hd rest = CHR ''.'' \<and> tl rest \<noteq> [] \<and> length (tl rest) \<le> 9 \<and> list_all is_digit (tl rest))
      then Some \<lparr>df_year = part 0 4, df_month = part 5 2, df_day = part 8 2, df_hour = part 11 2, df_minute = part 14 2,
        df_second = part 17 2, df_fractional = (if rest = [] then None else Some (tl rest))\<rparr>
      else None)"

definition pad :: "int \<Rightarrow> nat \<Rightarrow> string" where
  "pad value n = padStart n (string_of_int value)"

definition formatLocalDateTime :: "int \<Rightarrow> string" where
  "formatLocalDateTime parsed =
     string_of_int (getFullYear parsed) @ ''-'' @ pad (int (getMonth parsed) + 1) 2 @ ''-'' @ pad (getDate parsed) 2 @ '' '' @
     pad (getHours parsed) 2 @ '':'' @ pad (getMinutes parsed) 2 @ '':'' @ pad (getSeconds parsed) 2 @ ''.'' @
     pad (getMilliseconds parsed) 3"

definition parseUnifiedLocalDate :: "(int \<Rightarrow> int) \<Rightarrow> string \<Rightarrow> int option" where
  "parseUnifiedLocalDate resolve text = (case UNIFIED_DATETIME_REGEX text of
     None \<Rightarrow> None
   | Some m \<Rightarrow>
       (let num = (\<lambda>s. int (nat_of_digits s));
            millis = num (slice 0 3 (nullish (df_fractional m) ''0'' @ ''000''))
        in Some (new_Date resolve (num (df_year m)) (num (df_month m) - 1) (num (df_day m)) (num (df_hour m))
                  (num (df_minute m)) (num (df_second m)) millis)))"

definition formatDateTimeText :: "(int \<Rightarrow> int) \<Rightarrow> (string \<Rightarrow> int option) \<Rightarrow> string option \<Rightarrow> string \<Rightarrow> string" where
  "formatDateTimeText resolve parse value fallback =
     (let text = trim (nullish value []) in
      if text = [] then fallback
      else case parseUnifiedLocalDate resolve text of
             Some unifiedLocal \<Rightarrow> formatLocalDateTime unifiedLocal
           | None \<Rightarrow> (case parse text of None \<Rightarrow> text | Some parsed \<Rightarrow> formatLocalDateTime parsed))"

subsection \<open>The calendar is consistent\<close>

lemma div_bounds: "0 < k \<Longrightarrow> k * (x div k) \<le> x \<and> x < k * (x div k) + k" for x k :: int
  using mult_div_mod_eq [of k x] pos_mod_bound [of k x] pos_mod_sign [of k x] by linarith

lemma day_from_year_bounds:
  "146097 * y - 287811600 \<le> 400 * day_from_year y" "400 * day_from_year y \<le> 146097 * y - 287810500"
proof -
  define a b c where "a = (y - 1969) div 4" and "b = (y - 1901) div 100" and "c = (y - 1601) div 400"
  have "4 * a \<le> y - 1969" "y - 1969 < 4 * a + 4" using div_bounds [of 4 "y - 1969"] by (simp_all add: a_def)
  moreover have "100 * b \<le> y - 1901" "y - 1901 < 100 * b + 100" using div_bounds [of 100 "y - 1901"] by (simp_all add: b_def)
  moreover have "400 * c \<le> y - 1601" "y - 1601 < 400 * c + 400" using div_bounds [of 400 "y - 1601"] by (simp_all add: c_def)
  moreover have "day_from_year y = 365 * y - 719050 + a - b + c" by (simp add: day_from_year_def a_def b_def c_def)
  ultimately show "146097 * y - 287811600 \<le> 400 * day_from_year y" "400 * day_from_year y \<le> 146097 * y - 287810500"
    by linarith+
qed

lemma div_succ: "0 < k \<Longrightarrow> (x + 1) div k = x div k + (if (x + 1) mod k = 0 then 1 else 0)" for x k :: int
proof (cases "(x + 1) mod k = 0")
  case True
  assume "0 < k"
  from True obtain q where q: "x + 1 = k * q" by auto
  then have "x = k * (q - 1) + (k - 1)" by (simp add: algebra_simps)
  then have "x div k = q - 1" using \<open>0 < k\<close> by (intro int_div_pos_eq [where r = "k - 1"]) auto
  with q \<open>0 < k\<close> True show ?thesis by simp
next
  case False
  assume "0 < k"
  then have "0 < (x + 1) mod k" "(x + 1) mod k < k"
    using False pos_mod_sign [of k "x + 1"] pos_mod_bound [of k "x + 1"] by linarith+
  then have "x div k = (x + 1) div k"
    using mult_div_mod_eq [of k "x + 1"] by (intro int_div_pos_eq [where r = "(x + 1) mod k - 1"]) linarith+
  with False show ?thesis by simp
qed

lemma year_length: "day_from_year (y + 1) = day_from_year y + (if is_leap y then 366 else 365)"
proof -
  define a b c :: int where "a = (if y mod 4 = 0 then 1 else 0)" and "b = (if y mod 100 = 0 then 1 else 0)"
    and "c = (if y mod 400 = 0 then 1 else 0)"
  have "(y + 1 - 1969) div 4 = (y - 1969) div 4 + a"
    using div_succ [of 4 "y - 1969"] mod_mult_self2 [of y 4 "- 492"] by (simp add: a_def)
  moreover have "(y + 1 - 1901) div 100 = (y - 1901) div 100 + b"
    using div_succ [of 100 "y - 1901"] mod_mult_self2 [of y 100 "- 19"] by (simp add: b_def)
  moreover have "(y + 1 - 1601) div 400 = (y - 1601) div 400 + c"
    using div_succ [of 400 "y - 1601"] mod_mult_self2 [of y 400 "- 4"] by (simp add: c_def)
  ultimately have "day_from_year (y + 1) = 365 * (y + 1 - 1970) + ((y - 1969) div 4 + a) - ((y - 1901) div 100 + b) + ((y - 1601) div 400 + c)"
    by (simp only: day_from_year_def)
  then have "day_from_year (y + 1) = day_from_year y + 365 + a - b + c"
    unfolding day_from_year_def [of y] by (simp only: algebra_simps)
  moreover have "y mod 100 = 0" if "y mod 400 = 0"
    using that dvd_trans [of 100 400 y] by (simp add: mod_eq_0_iff_dvd)
  moreover have "y mod 4 = 0" if "y mod 100 = 0"
    using that dvd_trans [of 4 100 y] by (simp add: mod_eq_0_iff_dvd)
  ultimately show ?thesis unfolding is_leap_def a_def b_def c_def by (simp split: if_splits)
qed

lemma year_from_day_unique:
  assumes "day_from_year y \<le> d" "d < day_from_year (y + 1)"
  shows "year_from_day d = y"
proof -
  define Y where "Y = 1970 + (d * 400) div 146097"
  have Y: "146097 * Y \<le> 400 * d + 287811090" "400 * d + 287811090 < 146097 * Y + 146097"
    using div_bounds [of 146097 "d * 400"] by (simp_all add: Y_def algebra_simps)
  have "y - 1 \<le> Y" using Y(2) assms(1) day_from_year_bounds(1) [of y] by linarith
  moreover have "400 * day_from_year (y + 1) \<le> 146097 * y - 287664403"
    using day_from_year_bounds(2) [of "y + 1"] by (simp add: algebra_simps)
  then have "Y \<le> y + 1" using Y(1) assms(2) by linarith
  ultimately consider "Y = y - 1" | "Y = y" | "Y = y + 1" by linarith
  then have "(if day_from_year (Y + 1) \<le> d then Y + 1 else if d < day_from_year Y then Y - 1 else Y) = y"
    using assms year_length [of "y + 1"] by cases (simp_all split: if_splits)
  then show ?thesis by (simp only: year_from_day_def Let_def Y_def)
qed

lemma month_cases: "m < 12 \<Longrightarrow> m \<in> {0, 1, 2, 3, 4, 5, 6, 7, 8, 9, 10, 11}" for m :: nat
proof -
  assume "m < 12"
  then have "m \<in> set [0..<12]" by simp
  then show ?thesis by (simp add: upt_rec numeral_eq_Suc)
qed

lemma month_from_day_unique:
  assumes "m < 12" "month_start leap m \<le> n" "m < 11 \<Longrightarrow> n < month_start leap (m + 1)"
  shows "month_from_day leap n = m"
proof -
  have mono: "month_start leap i \<le> month_start leap j" if "i \<le> j" "j < 12" for i j
    using that month_cases [of i] month_cases [of j] by (auto simp: month_start_def)
  have "month_start leap k \<le> n \<longleftrightarrow> k \<le> m" if "k < 12" for k
    using mono [of k m] mono [of "m + 1" k] assms that by fastforce
  then have "filter (\<lambda>k. month_start leap k \<le> n) [1..<12] = filter (\<lambda>k. k < Suc m) [1..<12]"
    by (intro filter_cong) auto
  also have "\<dots> = [1..<Suc m]"
  proof -
    have "[1..<12] = [1..<Suc m] @ [Suc m..<12]" using assms(1) upt_add_eq_append [of 1 "Suc m" "11 - m"] by simp
    then show ?thesis by simp
  qed
  finally show ?thesis by (simp add: month_from_day_def)
qed

subsection \<open>Constructing and reading a date\<close>

definition month_days :: "bool \<Rightarrow> nat \<Rightarrow> int" where
  "month_days leap m = (if m = 11 then 31 else month_start leap (m + 1) - month_start leap m)"

record LocalDate =
  ld_year :: int
  ld_month :: nat
  ld_day :: int
  ld_hour :: int
  ld_minute :: int
  ld_second :: int
  ld_ms :: int

text \<open>The dates the calendar has, with a year of four digits; months count from one.\<close>

definition valid_date :: "LocalDate \<Rightarrow> bool" where
  "valid_date d \<longleftrightarrow> 1000 \<le> ld_year d \<and> ld_year d \<le> 9999 \<and> 1 \<le> ld_month d \<and> ld_month d \<le> 12 \<and>
     1 \<le> ld_day d \<and> ld_day d \<le> month_days (is_leap (ld_year d)) (ld_month d - 1) \<and>
     0 \<le> ld_hour d \<and> ld_hour d < 24 \<and> 0 \<le> ld_minute d \<and> ld_minute d < 60 \<and>
     0 \<le> ld_second d \<and> ld_second d < 60 \<and> 0 \<le> ld_ms d \<and> ld_ms d < 1000"

definition local_value :: "LocalDate \<Rightarrow> int" where
  "local_value d =
     make_day (ld_year d) (int (ld_month d) - 1) (ld_day d) * ms_per_day +
     make_time (ld_hour d) (ld_minute d) (ld_second d) (ld_ms d)"

lemma month_end: "m < 12 \<Longrightarrow> month_start leap m + month_days leap m \<le> (if leap then 366 else 365)" "m < 12 \<Longrightarrow> 0 \<le> month_start leap m"
  by (auto simp: month_days_def month_start_def dest!: month_cases)

lemma make_day_read:
  assumes "valid_date d" and D: "D = make_day (ld_year d) (int (ld_month d) - 1) (ld_day d)"
  shows "year_from_day D = ld_year d"
    and "month_from_day (is_leap (ld_year d)) (D - day_from_year (ld_year d)) = ld_month d - 1"
    and "D - day_from_year (ld_year d) - month_start (is_leap (ld_year d)) (ld_month d - 1) + 1 = ld_day d"
proof -
  let ?y = "ld_year d" and ?m = "ld_month d - 1"
  have m: "?m < 12" "(int (ld_month d) - 1) div 12 = 0" "nat ((int (ld_month d) - 1) mod 12) = ?m"
    using assms(1) by (auto simp: valid_date_def nat_diff_distrib)
  have day: "D = day_from_year ?y + month_start (is_leap ?y) ?m + ld_day d - 1" by (simp add: D make_day_def m Let_def)
  have range: "1 \<le> ld_day d" "ld_day d \<le> month_days (is_leap ?y) ?m" using assms(1) by (simp_all add: valid_date_def)
  show "year_from_day D = ?y"
    using month_end [OF m(1), of "is_leap ?y"] range by (intro year_from_day_unique) (simp_all add: day year_length split: if_splits)
  show "month_from_day (is_leap ?y) (D - day_from_year ?y) = ?m"
    using range m(1) by (intro month_from_day_unique) (simp_all add: day month_days_def)
  show "D - day_from_year ?y - month_start (is_leap ?y) ?m + 1 = ld_day d" by (simp add: day)
qed

lemma split_time:
  assumes "0 \<le> h" "h < 24" "0 \<le> mi" "mi < 60" "0 \<le> s" "s < 60" "0 \<le> ms" "ms < 1000"
    and t: "t = D * ms_per_day + make_time h mi s ms"
  shows "t div ms_per_day = D" "getHours t = h" "getMinutes t = mi" "getSeconds t = s" "getMilliseconds t = ms"
proof -
  show "t div ms_per_day = D"
    using assms(1-8) by (intro int_div_pos_eq [where r = "make_time h mi s ms"]) (auto simp: t make_time_def ms_per_day_def)
  have "t div 3600000 = h + 24 * D"
    using assms(1-8) by (intro int_div_pos_eq [where r = "mi * 60000 + s * 1000 + ms"]) (auto simp: t make_time_def ms_per_day_def)
  then show "getHours t = h" using assms(1,2) by (simp add: getHours_def)
  have "t div 60000 = mi + 60 * (24 * D + h)"
    using assms(1-8) by (intro int_div_pos_eq [where r = "s * 1000 + ms"]) (auto simp: t make_time_def ms_per_day_def)
  then show "getMinutes t = mi" using assms(3,4) by (simp only: getMinutes_def mod_mult_self2 mod_pos_pos_trivial)
  have sec: "t div 1000 = s + 60 * (60 * (24 * D + h) + mi)"
    using assms(1-8) by (intro int_div_pos_eq [where r = "ms"]) (auto simp: t make_time_def ms_per_day_def)
  then show "getSeconds t = s" using assms(5,6) by (simp only: getSeconds_def mod_mult_self2 mod_pos_pos_trivial)
  have "t = ms + 1000 * (s + 60 * (60 * (24 * D + h) + mi))" by (simp add: t make_time_def ms_per_day_def)
  then show "getMilliseconds t = ms" using assms(7,8) by (simp only: getMilliseconds_def mod_mult_self2 mod_pos_pos_trivial)
qed

lemma local_value_read:
  assumes "valid_date d"
  shows "getFullYear (local_value d) = ld_year d" "getMonth (local_value d) = ld_month d - 1" "getDate (local_value d) = ld_day d"
    "getHours (local_value d) = ld_hour d" "getMinutes (local_value d) = ld_minute d" "getSeconds (local_value d) = ld_second d"
    "getMilliseconds (local_value d) = ld_ms d"
proof -
  let ?D = "make_day (ld_year d) (int (ld_month d) - 1) (ld_day d)"
  note time = split_time [of "ld_hour d" "ld_minute d" "ld_second d" "ld_ms d" "local_value d" ?D]
  have t: "local_value d div ms_per_day = ?D" and fields: "getHours (local_value d) = ld_hour d" "getMinutes (local_value d) = ld_minute d"
      "getSeconds (local_value d) = ld_second d" "getMilliseconds (local_value d) = ld_ms d"
    using assms time by (simp_all add: valid_date_def local_value_def)
  note day = make_day_read [OF assms refl]
  show y: "getFullYear (local_value d) = ld_year d" by (simp add: getFullYear_def t day(1))
  have n: "day_in_year (local_value d) = ?D - day_from_year (ld_year d)" by (simp add: day_in_year_def t y)
  show m: "getMonth (local_value d) = ld_month d - 1" by (simp only: getMonth_def y n day(2))
  show "getDate (local_value d) = ld_day d" by (simp only: getDate_def y n m day(3))
  show "getHours (local_value d) = ld_hour d" "getMinutes (local_value d) = ld_minute d" "getSeconds (local_value d) = ld_second d"
    "getMilliseconds (local_value d) = ld_ms d" by (rule fields)+
qed

subsection \<open>Printing and reading back\<close>

definition date_text :: "LocalDate \<Rightarrow> string" where
  "date_text d = pad (ld_year d) 4 @ ''-'' @ pad (int (ld_month d)) 2 @ ''-'' @ pad (ld_day d) 2 @ '' '' @
     pad (ld_hour d) 2 @ '':'' @ pad (ld_minute d) 2 @ '':'' @ pad (ld_second d) 2 @ ''.'' @ pad (ld_ms d) 3"

lemma nat_of_digits_pad: "nat_of_digits (replicate k CHR ''0'' @ s) = nat_of_digits s"
  by (induction k) (simp_all add: nat_of_digits_def digit_val_def)

lemma string_of_nat_length: "n < 10 ^ k \<Longrightarrow> 0 < k \<Longrightarrow> length (string_of_nat n) \<le> k"
  unfolding string_of_nat_def
proof (induction k arbitrary: n)
  case (Suc k)
  show ?case
  proof (cases "n < 10")
    case False
    then have "0 < k" using Suc.prems(1) by (cases k) simp_all
    moreover have "n div 10 < 10 ^ k" using Suc.prems(1) by (simp add: less_mult_imp_div_less mult.commute)
    ultimately have "length (nat_text 10 (n div 10)) \<le> k" using Suc.IH by blast
    with False show ?thesis by (subst nat_text.simps) simp
  qed (subst nat_text.simps, simp)
qed simp

lemma pad_shape:
  assumes "0 \<le> v" "v < 10 ^ k" "0 < k"
  shows "length (pad v k) = k" "list_all is_digit (pad v k)" "int (nat_of_digits (pad v k)) = v"
proof -
  have n: "string_of_int v = string_of_nat (nat v)" using assms(1) by (simp add: string_of_int_def)
  have "nat v < 10 ^ k" using assms(1,2) by (simp add: nat_less_iff)
  from string_of_nat_length [OF this assms(3)] show "length (pad v k) = k" by (simp add: pad_def padStart_def n)
  show "list_all is_digit (pad v k)" using string_of_nat_digits [of "nat v"]
    by (auto simp: pad_def padStart_def n list_all_iff is_digit_def)
  show "int (nat_of_digits (pad v k)) = v" using assms(1) by (simp add: pad_def padStart_def n nat_of_digits_pad)
qed

lemma length_2: "length s = 2 \<Longrightarrow> \<exists>a b. s = [a, b]" and length_4: "length s = 4 \<Longrightarrow> \<exists>a b c d. s = [a, b, c, d]"
  by (auto simp: numeral_eq_Suc length_Suc_conv)

lemma regex_match:
  assumes "length Y = 4" "length M = 2" "length D = 2" "length h = 2" "length m = 2" "length s = 2"
    and "list_all is_digit Y" "list_all is_digit M" "list_all is_digit D" "list_all is_digit h" "list_all is_digit m" "list_all is_digit s"
    and "F \<noteq> []" "length F \<le> 9" "list_all is_digit F"
  shows "UNIFIED_DATETIME_REGEX (Y @ ''-'' @ M @ ''-'' @ D @ '' '' @ h @ '':'' @ m @ '':'' @ s @ ''.'' @ F) =
    Some \<lparr>df_year = Y, df_month = M, df_day = D, df_hour = h, df_minute = m, df_second = s, df_fractional = Some F\<rparr>"
proof -
  obtain a b c d where Y: "Y = [a, b, c, d]" using length_4 assms(1) by blast
  obtain e f where M: "M = [e, f]" using length_2 assms(2) by blast
  obtain g i where D: "D = [g, i]" using length_2 assms(3) by blast
  obtain j k where h: "h = [j, k]" using length_2 assms(4) by blast
  obtain l n where m: "m = [l, n]" using length_2 assms(5) by blast
  obtain p q where s: "s = [p, q]" using length_2 assms(6) by blast
  show ?thesis using assms(7-15) unfolding Y M D h m s
    by (simp add: UNIFIED_DATETIME_REGEX_def digits_at_def Let_def)
qed

lemma parse_date_text:
  assumes "valid_date d"
  shows "parseUnifiedLocalDate resolve (date_text d) = Some (resolve (local_value d))"
proof -
  have days: "month_days leap m \<le> 31" if "m < 12" for leap m
    using month_cases [OF that] by (auto simp: month_days_def month_start_def)
  have m: "ld_month d - 1 < 12" and "ld_day d \<le> month_days (is_leap (ld_year d)) (ld_month d - 1)"
    using assms by (auto simp: valid_date_def)
  then have small: "ld_day d < 100" using days [OF m, of "is_leap (ld_year d)"] by linarith
  note shapes = pad_shape [of "ld_year d" 4] pad_shape [of "int (ld_month d)" 2] pad_shape [of "ld_day d" 2]
    pad_shape [of "ld_hour d" 2] pad_shape [of "ld_minute d" 2] pad_shape [of "ld_second d" 2] pad_shape [of "ld_ms d" 3]
  have len: "length (pad (ld_ms d) 3) = 3" using assms shapes(19) by (simp add: valid_date_def)
  have match: "UNIFIED_DATETIME_REGEX (date_text d) =
      Some \<lparr>df_year = pad (ld_year d) 4, df_month = pad (int (ld_month d)) 2, df_day = pad (ld_day d) 2, df_hour = pad (ld_hour d) 2,
        df_minute = pad (ld_minute d) 2, df_second = pad (ld_second d) 2, df_fractional = Some (pad (ld_ms d) 3)\<rparr>"
    unfolding date_text_def using assms shapes small len
    by (intro regex_match) (auto simp: valid_date_def)
  have cut: "slice 0 3 (pad (ld_ms d) 3 @ ''000'') = pad (ld_ms d) 3"
    using len by (simp add: slice_def slice_pos_def)
  show ?thesis using assms shapes small
    by (simp add: parseUnifiedLocalDate_def match cut new_Date_def local_value_def valid_date_def nullish_def Let_def)
qed

lemma format_date:
  assumes "valid_date d"
  shows "formatLocalDateTime (local_value d) = date_text d"
proof -
  have "4 \<le> length (string_of_nat (nat (ld_year d)))"
  proof (rule ccontr)
    assume short: "\<not> ?thesis"
    have "nat_of_digits s < 10 ^ length s" if "\<forall>c \<in> set s. is_digit c" for s
      using that by (induction s rule: rev_induct) (auto simp: nat_of_digits_def is_digit_def digit_val_def)
    from this [OF string_of_nat_digits] have "nat (ld_year d) < 10 ^ length (string_of_nat (nat (ld_year d)))" by simp
    also have "\<dots> \<le> 10 ^ 3" using short by (intro power_increasing) simp_all
    finally have "nat (ld_year d) < 1000" by simp
    moreover have "1000 \<le> ld_year d" using assms by (simp add: valid_date_def)
    ultimately show False by linarith
  qed
  then have "pad (ld_year d) 4 = string_of_int (ld_year d)"
    using assms by (simp add: pad_def padStart_def string_of_int_def valid_date_def)
  moreover have "int (ld_month d - 1) + 1 = int (ld_month d)" using assms by (simp add: valid_date_def)
  ultimately show ?thesis by (simp add: formatLocalDateTime_def date_text_def local_value_read [OF assms])
qed

lemma trim_date:
  assumes "valid_date d"
  shows "trim (date_text d) = date_text d"
proof -
  have digit: "solid c" if "is_digit c" for c using that by (simp add: solid_def is_digit_def)
  have "pad (ld_year d) 4 \<noteq> []" "list_all is_digit (pad (ld_year d) 4)" "pad (ld_ms d) 3 \<noteq> []" "list_all is_digit (pad (ld_ms d) 3)"
    using assms pad_shape [of "ld_year d" 4] pad_shape [of "ld_ms d" 3] by (auto simp: valid_date_def)
  then have "date_text d \<noteq> []" "is_digit (hd (date_text d))" "is_digit (last (date_text d))"
    by (auto simp: date_text_def list_all_iff hd_append)
  then show ?thesis by (intro trim_solid digit)
qed

lemma date_text_fixed:
  assumes "valid_date d" "resolve (local_value d) = local_value d"
  shows "formatDateTimeText resolve parse (Some (date_text d)) fallback = date_text d"
proof -
  have "date_text d \<noteq> []" by (simp add: date_text_def)
  then show ?thesis
    by (simp add: formatDateTimeText_def trim_date [OF assms(1)] parse_date_text [OF assms(1)] assms(2)
        format_date [OF assms(1)] nullish_def)
qed

end
