(* ===== verification/NodePages.thy ===== *)
theory NodePages
  imports PageRuntime DateText
begin

text \<open>
  The scripts of five pages that edit or show the node and tunnel configuration:
  \<open>TunnelConfigView.vue\<close>, \<open>LinkMonitorView.vue\<close>, \<open>NodeConfigView.vue\<close>, \<open>LocalNodeConfigView.vue\<close> and
  \<open>PeerNodeConfigView.vue\<close>. Where a handler has no \<open>catch\<close>, an error leaves it, after its \<open>finally\<close>.
  \<open>message.success\<close> is a list of shown texts. \<open>Object.assign(draft, data)\<close> keeps a field of the draft
  that the data leave out.
\<close>

subsection \<open>Tunnel configuration\<close>

record TunnelPage =
  tp_saving :: bool
  tp_actionLoading :: bool
  tp_passwordInput :: string
  tp_draft :: TunnelConfigPayload
  tp_messages :: "string list"

definition tunnel_page_init :: TunnelPage where
  "tunnel_page_init =
     \<lparr>tp_saving = False, tp_actionLoading = False, tp_passwordInput = [],
      tp_draft =
        \<lparr>tc_channel_protocol = ''GB/T 28181'', tc_connection_initiator = Initiator_LOCAL, tc_mapping_relay_mode = Some Relay_AUTO,
         tc_local_device_id = [], tc_peer_device_id = [], tc_heartbeat_interval_sec = 60, tc_register_retry_count = 3,
         tc_register_retry_interval_sec = 10, tc_registration_status = ''unregistered'', tc_last_register_time = [],
         tc_last_heartbeat_time = [], tc_heartbeat_status = ''unknown'', tc_last_failure_reason = [], tc_next_retry_time = [],
         tc_consecutive_heartbeat_timeout = 0, tc_supported_capabilities = [], tc_request_channel = ''SIP'',
         tc_response_channel = ''RTP'', tc_network_mode = ''SENDER_SIP__RECEIVER_RTP'',
         tc_capability = deriveTunnelCapability ''SENDER_SIP__RECEIVER_RTP'', tc_capability_items = [],
         tc_register_auth_enabled = None, tc_register_auth_username = None, tc_register_auth_password = None,
         tc_register_auth_password_configured = None, tc_register_auth_realm = None, tc_register_auth_algorithm = None,
         tc_catalog_subscribe_expires_sec = None\<rparr>,
      tp_messages = []\<rparr>"

definition heartbeatTagColor :: "TunnelPage \<Rightarrow> string" where
  "heartbeatTagColor p =
     (if tc_heartbeat_status (tp_draft p) = ''healthy'' then ''green''
      else if tc_heartbeat_status (tp_draft p) = ''timeout'' then ''red'' else ''default'')"

definition networkModeLabels :: "(string \<times> string) list" where
  "networkModeLabels =
     [(''SENDER_SIP__RECEIVER_SIP'', (uni ''~6A21~5F0F0~FF1ASIP --> | <-- SIP'')), (''SENDER_SIP__RECEIVER_RTP'', (uni ''~6A21~5F0F1~FF1ASIP --> | <-- RTP'')),
      (''SENDER_SIP__RECEIVER_SIP_RTP'', (uni ''~6A21~5F0F2~FF1ASIP --> | <-- SIP&RTP'')),
      (''SENDER_SIP_RTP__RECEIVER_SIP_RTP'', (uni ''~6A21~5F0F3~FF1ASIP&RTP --> | <-- SIP&RTP''))]"

definition networkModeLabel :: "TunnelPage \<Rightarrow> string" where
  "networkModeLabel p = nullish (map_of networkModeLabels (tc_network_mode (tp_draft p))) (tc_network_mode (tp_draft p))"

definition networkModeProfile :: "TunnelPage \<Rightarrow> NetworkModeProfile option" where
  "networkModeProfile p = getNetworkModeProfile (tc_network_mode (tp_draft p))"

definition formatRegistrationStatus :: "string \<Rightarrow> string" where
  "formatRegistrationStatus status =
     (if status = ''registered'' then (uni ''~5DF2~6CE8~518C'') else if status = ''registering'' then (uni ''~6CE8~518C~4E2D'')
      else if status = ''failed'' then (uni ''~6CE8~518C~5931~8D25'') else (uni ''~672A~6CE8~518C''))"

definition formatHeartbeatStatus :: "string \<Rightarrow> string" where
  "formatHeartbeatStatus status =
     (if status = ''healthy'' then (uni ''~6B63~5E38'') else if status = ''timeout'' then (uni ''~8D85~65F6'') else if status = ''lost'' then (uni ''~4E22~5931'') else (uni ''~672A~77E5''))"

definition assign_tunnel :: "TunnelConfigPayload \<Rightarrow> TunnelConfigPayload \<Rightarrow> TunnelConfigPayload" where
  "assign_tunnel draft data =
     data\<lparr>tc_mapping_relay_mode := nullish_opt (tc_mapping_relay_mode data) (tc_mapping_relay_mode draft),
       tc_register_auth_enabled := nullish_opt (tc_register_auth_enabled data) (tc_register_auth_enabled draft),
       tc_register_auth_username := nullish_opt (tc_register_auth_username data) (tc_register_auth_username draft),
       tc_register_auth_password := nullish_opt (tc_register_auth_password data) (tc_register_auth_password draft),
       tc_register_auth_password_configured :=
         nullish_opt (tc_register_auth_password_configured data) (tc_register_auth_password_configured draft),
       tc_register_auth_realm := nullish_opt (tc_register_auth_realm data) (tc_register_auth_realm draft),
       tc_register_auth_algorithm := nullish_opt (tc_register_auth_algorithm data) (tc_register_auth_algorithm draft),
       tc_catalog_subscribe_expires_sec :=
         nullish_opt (tc_catalog_subscribe_expires_sec data) (tc_catalog_subscribe_expires_sec draft)\<rparr>"

definition tunnel_load :: "'w ApiEnv \<Rightarrow> ('b, TunnelConfigPayload, 'w) fetcher \<Rightarrow> (unit, TunnelPage, 'w) script" where
  "tunnel_load env fetch =
     bindS (awaitS (fetchTunnelConfig env fetch))
       (\<lambda>data. setS (\<lambda>p. p\<lparr>tp_draft := assign_tunnel (tp_draft p) data, tp_passwordInput := []\<rparr>))"

definition tunnel_payload :: "TunnelPage \<Rightarrow> TunnelConfigUpdatePayload" where
  "tunnel_payload p =
     (let draft = tp_draft p in
      \<lparr>tcu_channel_protocol = tc_channel_protocol draft, tcu_connection_initiator = tc_connection_initiator draft,
       tcu_mapping_relay_mode = Some (nullish (tc_mapping_relay_mode draft) Relay_AUTO),
       tcu_heartbeat_interval_sec = tc_heartbeat_interval_sec draft, tcu_register_retry_count = tc_register_retry_count draft,
       tcu_register_retry_interval_sec = tc_register_retry_interval_sec draft, tcu_network_mode = tc_network_mode draft,
       tcu_register_auth_enabled = tc_register_auth_enabled draft, tcu_register_auth_username = tc_register_auth_username draft,
       tcu_register_auth_password = Some (tp_passwordInput p), tcu_register_auth_password_configured = None,
       tcu_register_auth_realm = tc_register_auth_realm draft, tcu_register_auth_algorithm = tc_register_auth_algorithm draft,
       tcu_catalog_subscribe_expires_sec = tc_catalog_subscribe_expires_sec draft\<rparr>)"

definition tunnel_save ::
  "'w ApiEnv \<Rightarrow> (TunnelConfigUpdatePayload, TunnelConfigPayload, 'w) fetcher \<Rightarrow> ('b, TunnelConfigPayload, 'w) fetcher \<Rightarrow>
    (unit, TunnelPage, 'w) script" where
  "tunnel_save env fetch_save fetch =
     thenS (setS (\<lambda>p. p\<lparr>tp_saving := True\<rparr>))
       (try_finally
         (readS (\<lambda>p. thenS (awaitS (saveTunnelConfig env fetch_save (tunnel_payload p)))
           (thenS (setS (\<lambda>p. p\<lparr>tp_messages := tp_messages p @ [(uni ''GB/T 28181 ~6CE8~518C~4E0E~5FC3~8DF3~914D~7F6E~4FDD~5B58~6210~529F'')]\<rparr>)) (tunnel_load env fetch))))
         (\<lambda>p. p\<lparr>tp_saving := False\<rparr>))"

definition tunnel_runAction ::
  "'w ApiEnv \<Rightarrow> (TunnelSessionActionPayload, TunnelSessionActionResponse, 'w) fetcher \<Rightarrow> ('b, TunnelConfigPayload, 'w) fetcher \<Rightarrow>
    SessionAction \<Rightarrow> (unit, TunnelPage, 'w) script" where
  "tunnel_runAction env fetch_action fetch action =
     thenS (setS (\<lambda>p. p\<lparr>tp_actionLoading := True\<rparr>))
       (try_finally
         (thenS (awaitS (triggerTunnelSessionAction env fetch_action \<lparr>tsap_action = action\<rparr>))
           (thenS (setS (\<lambda>p. p\<lparr>tp_messages := tp_messages p @ [(uni ''~4F1A~8BDD~52A8~4F5C~5DF2~89E6~53D1'')]\<rparr>)) (tunnel_load env fetch)))
         (\<lambda>p. p\<lparr>tp_actionLoading := False\<rparr>))"

subsection \<open>Link monitor\<close>

record LinkPage =
  lkp_loading :: bool
  lkp_actionLoading :: bool
  lkp_error :: string
  lkp_notice :: string
  lkp_state :: "LinkMonitorPayload option"

definition link_page_init :: LinkPage where
  "link_page_init = \<lparr>lkp_loading = False, lkp_actionLoading = False, lkp_error = [], lkp_notice = [], lkp_state = None\<rparr>"

definition link_snapshot :: "LinkPage \<Rightarrow> GB28181RuntimeSnapshot option" where
  "link_snapshot p = Option.bind (lkp_state p) lmp_gb28181"


definition formatTime :: "(int \<Rightarrow> int) \<Rightarrow> (string \<Rightarrow> int option) \<Rightarrow> string option \<Rightarrow> string" where
  "formatTime resolve parse value = formatDateTimeText resolve parse value ''-''"

definition peerRows :: "(int \<Rightarrow> int) \<Rightarrow> (string \<Rightarrow> int option) \<Rightarrow> LinkPage \<Rightarrow> GB28181PeerState list" where
  "peerRows resolve parse p =
     map (\<lambda>item. item\<lparr>gps_subscription_expires_at := Some (formatTime resolve parse (gps_subscription_expires_at item))\<rparr>)
       (case link_snapshot p of None \<Rightarrow> [] | Some g \<Rightarrow> grs_peers g)"

definition pendingRows :: "(int \<Rightarrow> int) \<Rightarrow> (string \<Rightarrow> int option) \<Rightarrow> LinkPage \<Rightarrow> GB28181PendingSession list" where
  "pendingRows resolve parse p =
     map (\<lambda>item. item\<lparr>gpd_last_stage_at := Some (formatTime resolve parse (gpd_last_stage_at item))\<rparr>)
       (case link_snapshot p of None \<Rightarrow> [] | Some g \<Rightarrow> grs_pending_sessions g)"

definition inboundRows :: "(int \<Rightarrow> int) \<Rightarrow> (string \<Rightarrow> int option) \<Rightarrow> LinkPage \<Rightarrow> GB28181InboundSession list" where
  "inboundRows resolve parse p =
     map (\<lambda>item. item\<lparr>gis_last_stage_at := Some (formatTime resolve parse (gis_last_stage_at item))\<rparr>)
       (case link_snapshot p of None \<Rightarrow> [] | Some g \<Rightarrow> grs_inbound_sessions g)"

definition sipPortWarning :: "LinkPage \<Rightarrow> string" where
  "sipPortWarning p =
     (let reason = toLowerCase (case lkp_state p of None \<Rightarrow> [] | Some s \<Rightarrow> tsrs_last_failure_reason (lmp_session s)) in
      if sublist ''parse outgoing sip payload'' reason
      then (uni ''REGISTER ~5728~672C~7AEF~53D1~9001~524D~5C31~5931~8D25~4E86~FF1A~5F53~524D~9519~8BEF~53D1~751F~5728~672C~7AEF SIP ~62A5~6587~7F16~7801/~53D1~9001~94FE~8DEF~FF0C~800C~4E0D~662F~5BF9~7AEF~8FD4~56DE~3002~8BF7~4F18~5148~68C0~67E5~672C~7AEF~53D1~9001~8DEF~5F84~3001SIP ~76D1~542C~7AEF~53E3~590D~7528~4E0E~8BF7~6C42~7F16~7801~3002'')
      else if sublist ''read udp'' reason \<and> sublist ''i/o timeout'' reason
      then (uni ''~6700~8FD1~7684 REGISTER ~8D85~65F6~770B~8D77~6765~662F SIP ~4FE1~4EE4~6CA1~6709~8D70~5728~4E24~7AEF~7EA6~5B9A~7684 SIP ~7AEF~53E3~4E0A~3002~8BF7~91CD~70B9~68C0~67E5~FF1A~672C~7EA7~57DF SIP ~76D1~542C~7AEF~53E3~3001~7EA7~8054~5BF9~7AEF~4FE1~4EE4~7AEF~53E3~3001SIP transport ~662F~5426~4E00~81F4~FF0C~4EE5~53CA~9632~706B~5899~662F~5426~653E~884C~3002'')
      else [])"

definition phaseLabel :: "string option \<Rightarrow> string" where
  "phaseLabel raw =
     (let value = toLowerCase (nullish raw []) in
      if value = ''initializing'' then (uni ''~521D~59CB~5316'') else if value = ''waiting_peer'' then (uni ''~7B49~5F85~5BF9~7AEF'')
      else if value = ''registering'' then (uni ''~6CE8~518C~4E2D'') else if value = ''auth_challenge'' then (uni ''~9274~6743~6311~6218'')
      else if value = ''registered'' then (uni ''~5DF2~6CE8~518C'') else if value = ''heartbeat_ready'' then (uni ''~5F85~5FC3~8DF3'')
      else if value = ''heartbeat_due'' then (uni ''~89E6~53D1~5FC3~8DF3'') else if value = ''heartbeat_healthy'' then (uni ''~5FC3~8DF3~6B63~5E38'')
      else if value = ''retry_wait'' then (uni ''~7B49~5F85~91CD~8BD5'') else str_or (nullish raw []) ''-'')"

datatype StatusKind = Kind_registration | Kind_heartbeat

definition statusLabel :: "string option \<Rightarrow> StatusKind \<Rightarrow> string" where
  "statusLabel raw kind =
     (let value = toLowerCase (nullish raw []) in
      if kind = Kind_registration \<and> value = ''registered'' then (uni ''~5DF2~6CE8~518C'')
      else if kind = Kind_registration \<and> value = ''registering'' then (uni ''~6CE8~518C~4E2D'')
      else if kind = Kind_registration \<and> value = ''failed'' then (uni ''~6CE8~518C~5931~8D25'')
      else if kind = Kind_registration \<and> value = ''waiting_peer'' then (uni ''~7B49~5F85~5BF9~7AEF~53D1~8D77'')
      else if kind = Kind_registration \<and> value = ''unregistered'' then (uni ''~672A~6CE8~518C'')
      else if kind = Kind_heartbeat \<and> value = ''healthy'' then (uni ''~6B63~5E38'')
      else if kind = Kind_heartbeat \<and> value = ''timeout'' then (uni ''~8D85~65F6'')
      else if kind = Kind_heartbeat \<and> value = ''unknown'' then (uni ''~672A~77E5'')
      else str_or (nullish raw []) ''-'')"

definition link_load :: "'w ApiEnv \<Rightarrow> ('b, LinkMonitorPayload, 'w) fetcher \<Rightarrow> string \<Rightarrow> (unit, LinkPage, 'w) script" where
  "link_load env fetch now =
     guarded (\<lambda>b p. p\<lparr>lkp_loading := b\<rparr>) (\<lambda>p. p\<lparr>lkp_error := []\<rparr>) (\<lambda>m p. p\<lparr>lkp_error := m\<rparr>)
       (bindS (awaitS (fetchLinkMonitor env fetch now)) (\<lambda>r. setS (\<lambda>p. p\<lparr>lkp_state := Some r\<rparr>)))"

fun actionText :: "SessionAction \<Rightarrow> string" where
  "actionText Session_register_now = (uni ''~624B~52A8~6CE8~518C'')"
| "actionText Session_reregister = (uni ''~91CD~65B0~6CE8~518C'')"
| "actionText Session_heartbeat_once = (uni ''~53D1~9001~5FC3~8DF3'')"

definition link_runAction ::
  "'w ApiEnv \<Rightarrow> (TunnelSessionActionPayload, TunnelSessionActionResponse, 'w) fetcher \<Rightarrow> ('b, LinkMonitorPayload, 'w) fetcher \<Rightarrow>
    string \<Rightarrow> SessionAction \<Rightarrow> (unit, LinkPage, 'w) script" where
  "link_runAction env fetch_action fetch now action =
     guarded (\<lambda>b p. p\<lparr>lkp_actionLoading := b\<rparr>) (\<lambda>p. p\<lparr>lkp_error := []\<rparr>) (\<lambda>m p. p\<lparr>lkp_error := m\<rparr>)
       (thenS (awaitS (triggerTunnelSessionAction env fetch_action \<lparr>tsap_action = action\<rparr>))
         (thenS (setS (\<lambda>p. p\<lparr>lkp_notice := (uni ''~5DF2~6267~884C~64CD~4F5C~FF1A'') @ actionText action\<rparr>)) (link_load env fetch now)))"

interpretation link_loading: busy_page lkp_loading "\<lambda>b p. p\<lparr>lkp_loading := b\<rparr>" lkp_error "\<lambda>m p. p\<lparr>lkp_error := m\<rparr>" "\<lambda>p. p\<lparr>lkp_error := []\<rparr>"
  by unfold_locales simp_all

interpretation link_acting: busy_page lkp_actionLoading "\<lambda>b p. p\<lparr>lkp_actionLoading := b\<rparr>" lkp_error "\<lambda>m p. p\<lparr>lkp_error := m\<rparr>"
  "\<lambda>p. p\<lparr>lkp_error := []\<rparr>"
  by unfold_locales simp_all

subsection \<open>Node configuration\<close>

record NodeConfigPage =
  ncpg_saving :: bool
  ncpg_draft :: NodeConfigPayload
  ncpg_messages :: "string list"

definition node_config_init :: NodeConfigPage where
  "node_config_init =
     \<lparr>ncpg_saving = False,
      ncpg_draft =
        \<lparr>ncp_local_node = \<lparr>nce_node_ip = [], nce_signaling_port = 5060, nce_device_id = [], nce_node_type = None,
           nce_rtp_port_start = Some 20000, nce_rtp_port_end = Some 20999, nce_mapping_port_start = Some 18100,
           nce_mapping_port_end = Some 18999\<rparr>,
         ncp_peer_node = \<lparr>nce_node_ip = [], nce_signaling_port = 5060, nce_device_id = [], nce_node_type = None,
           nce_rtp_port_start = None, nce_rtp_port_end = None, nce_mapping_port_start = None, nce_mapping_port_end = None\<rparr>\<rparr>,
      ncpg_messages = []\<rparr>"

definition assign_endpoint :: "NodeConfigEndpoint \<Rightarrow> NodeConfigEndpoint \<Rightarrow> NodeConfigEndpoint" where
  "assign_endpoint draft data =
     data\<lparr>nce_node_type := nullish_opt (nce_node_type data) (nce_node_type draft),
       nce_rtp_port_start := nullish_opt (nce_rtp_port_start data) (nce_rtp_port_start draft),
       nce_rtp_port_end := nullish_opt (nce_rtp_port_end data) (nce_rtp_port_end draft),
       nce_mapping_port_start := nullish_opt (nce_mapping_port_start data) (nce_mapping_port_start draft),
       nce_mapping_port_end := nullish_opt (nce_mapping_port_end data) (nce_mapping_port_end draft)\<rparr>"

definition node_config_load :: "'w ApiEnv \<Rightarrow> ('b, NodeConfigPayload, 'w) fetcher \<Rightarrow> (unit, NodeConfigPage, 'w) script" where
  "node_config_load env fetch =
     bindS (awaitS (fetchNodeConfig env fetch))
       (\<lambda>data. setS (\<lambda>p. p\<lparr>ncpg_draft :=
          \<lparr>ncp_local_node = assign_endpoint (ncp_local_node (ncpg_draft p)) (ncp_local_node data),
           ncp_peer_node = assign_endpoint (ncp_peer_node (ncpg_draft p)) (ncp_peer_node data)\<rparr>\<rparr>))"

definition node_config_save ::
  "'w ApiEnv \<Rightarrow> (NodeConfigPayload, SaveNodeConfigResult, 'w) fetcher \<Rightarrow> ('b, NodeConfigPayload, 'w) fetcher \<Rightarrow>
    (unit, NodeConfigPage, 'w) script" where
  "node_config_save env fetch_save fetch =
     thenS (setS (\<lambda>p. p\<lparr>ncpg_saving := True\<rparr>))
       (try_finally
         (readS (\<lambda>p. bindS (awaitS (saveNodeConfig env fetch_save (ncpg_draft p)))
           (\<lambda>result. thenS (setS (\<lambda>p. if sncr_tunnel_restarted result
               then p\<lparr>ncpg_messages := ncpg_messages p @ [(uni ''~8282~70B9~914D~7F6E~5DF2~4FDD~5B58~5E76~91CD~542F~901A~9053'')]\<rparr> else p))
             (node_config_load env fetch))))
         (\<lambda>p. p\<lparr>ncpg_saving := False\<rparr>))"

subsection \<open>Local node\<close>

record LocalNodePage =
  lnp_saving :: bool
  lnp_networkStatus :: "NodeNetworkStatusPayload option"
  lnp_draft :: LocalNodeConfig
  lnp_messages :: "string list"

definition local_node_init :: LocalNodePage where
  "local_node_init =
     \<lparr>lnp_saving = False, lnp_networkStatus = None,
      lnp_draft =
        \<lparr>ln_node_id = [], ln_node_name = [], ln_node_role = [], ln_network_mode = [], ln_sip_listen_ip = [], ln_sip_listen_port = 5060,
         ln_sip_transport = UDP, ln_rtp_listen_ip = [], ln_rtp_port_start = 20000, ln_rtp_port_end = 20999,
         ln_rtp_transport = UDP, ln_mapping_port_start = 18100, ln_mapping_port_end = 18999\<rparr>,
      lnp_messages = []\<rparr>"

definition capabilitySummaryText :: "NodeNetworkStatusPayload option \<Rightarrow> string" where
  "capabilitySummaryText status = (case status of None \<Rightarrow> ''-'' | Some s \<Rightarrow>
     (let summary = nns_capability_summary s in
      (uni ''~652F~6301: '') @ str_or (join_with '', '' (cs_supported summary)) ''-'' @ (uni ''~FF1B~4E0D~652F~6301: '') @
      str_or (join_with '', '' (cs_unsupported summary)) ''-''))"

definition local_node_load ::
  "'w ApiEnv \<Rightarrow> ('b, NodeDetailPayload, 'w) fetcher \<Rightarrow> ('b, NodeNetworkStatusPayload, 'w) fetcher \<Rightarrow> (unit, LocalNodePage, 'w) script" where
  "local_node_load env fetch_detail fetch_status =
     bindS (awaitS (promise_all (fetchNodeDetail env fetch_detail) (fetchNodeNetworkStatus env fetch_status)))
       (\<lambda>(detail, status). setS (\<lambda>p. p\<lparr>lnp_draft := ndp_local_node detail, lnp_networkStatus := Some status\<rparr>))"

definition local_node_save ::
  "'w ApiEnv \<Rightarrow> (LocalNodeConfig, LocalNodeConfig, 'w) fetcher \<Rightarrow> ('b, NodeDetailPayload, 'w) fetcher \<Rightarrow>
    ('b, NodeNetworkStatusPayload, 'w) fetcher \<Rightarrow> (unit, LocalNodePage, 'w) script" where
  "local_node_save env fetch_save fetch_detail fetch_status =
     thenS (setS (\<lambda>p. p\<lparr>lnp_saving := True\<rparr>))
       (try_finally
         (readS (\<lambda>p. thenS (awaitS (updateLocalNode env fetch_save (lnp_draft p)))
           (thenS (setS (\<lambda>p. p\<lparr>lnp_messages := lnp_messages p @ [(uni ''~672C~7AEF~8282~70B9~914D~7F6E~5DF2~4FDD~5B58'')]\<rparr>))
             (local_node_load env fetch_detail fetch_status))))
         (\<lambda>p. p\<lparr>lnp_saving := False\<rparr>))"

subsection \<open>Peer nodes\<close>

datatype PeerMode = Peer_create | Peer_edit

record PeerPage =
  ppg_peers :: "PeerNodeConfig list"
  ppg_networkStatus :: "NodeNetworkStatusPayload option"
  ppg_drawerOpen :: bool
  ppg_mode :: PeerMode
  ppg_editing :: PeerNodeConfig
  ppg_messages :: "string list"

definition emptyPeer :: PeerNodeConfig where
  "emptyPeer =
     \<lparr>pn_peer_node_id = [], pn_peer_name = [], pn_peer_signaling_ip = [], pn_peer_signaling_port = 5060, pn_peer_media_ip = [],
      pn_peer_media_port_start = 32000, pn_peer_media_port_end = 32100, pn_supported_network_mode = [], pn_enabled = True\<rparr>"

definition peer_page_init :: PeerPage where
  "peer_page_init =
     \<lparr>ppg_peers = [], ppg_networkStatus = None, ppg_drawerOpen = False, ppg_mode = Peer_create, ppg_editing = emptyPeer, ppg_messages = []\<rparr>"

definition drawerTitle :: "PeerPage \<Rightarrow> string" where
  "drawerTitle p = (if ppg_mode p = Peer_create then (uni ''~65B0~589E~5BF9~7AEF~8282~70B9'') else (uni ''~7F16~8F91~5BF9~7AEF~8282~70B9''))"

definition peer_load ::
  "'w ApiEnv \<Rightarrow> ('b, PeerListPayload, 'w) fetcher \<Rightarrow> ('b, NodeNetworkStatusPayload, 'w) fetcher \<Rightarrow> (unit, PeerPage, 'w) script" where
  "peer_load env fetch_peers fetch_status =
     bindS (awaitS (promise_all (fetchPeers env fetch_peers) (fetchNodeNetworkStatus env fetch_status)))
       (\<lambda>(peerResult, status). setS (\<lambda>p. p\<lparr>ppg_peers := plp_items peerResult, ppg_networkStatus := Some status\<rparr>))"

definition peer_openCreate :: "PeerPage \<Rightarrow> PeerPage" where
  "peer_openCreate p =
     p\<lparr>ppg_mode := Peer_create, ppg_drawerOpen := True,
       ppg_editing := emptyPeer\<lparr>pn_supported_network_mode :=
         (case ppg_networkStatus p of None \<Rightarrow> [] | Some s \<Rightarrow> nns_current_network_mode s)\<rparr>\<rparr>"

definition peer_openEdit :: "PeerNodeConfig \<Rightarrow> PeerPage \<Rightarrow> PeerPage" where
  "peer_openEdit peer p = p\<lparr>ppg_mode := Peer_edit, ppg_editing := peer, ppg_drawerOpen := True\<rparr>"

text \<open>\<open>const { peer_node_id, ...payload } = editing\<close>.\<close>

definition peer_update_of :: "PeerNodeConfig \<Rightarrow> PeerUpdatePayload" where
  "peer_update_of e =
     \<lparr>pu_peer_name = pn_peer_name e, pu_peer_signaling_ip = pn_peer_signaling_ip e,
      pu_peer_signaling_port = pn_peer_signaling_port e, pu_peer_media_ip = pn_peer_media_ip e,
      pu_peer_media_port_start = pn_peer_media_port_start e, pu_peer_media_port_end = pn_peer_media_port_end e,
      pu_supported_network_mode = pn_supported_network_mode e, pu_enabled = pn_enabled e\<rparr>"

definition peer_save ::
  "'w ApiEnv \<Rightarrow> (PeerNodeConfig, PeerNodeConfig, 'w) fetcher \<Rightarrow> (PeerUpdatePayload, PeerNodeConfig, 'w) fetcher \<Rightarrow>
    ('b, PeerListPayload, 'w) fetcher \<Rightarrow> ('b, NodeNetworkStatusPayload, 'w) fetcher \<Rightarrow> (unit, PeerPage, 'w) script" where
  "peer_save env fetch_create fetch_update fetch_peers fetch_status =
     thenS
       (readS (\<lambda>p. if ppg_mode p = Peer_create
          then thenS (awaitS (createPeer env fetch_create (ppg_editing p)))
                 (setS (\<lambda>p. p\<lparr>ppg_messages := ppg_messages p @ [(uni ''~5BF9~7AEF~8282~70B9~5DF2~521B~5EFA'')]\<rparr>))
          else thenS (awaitS (updatePeer env fetch_update (pn_peer_node_id (ppg_editing p)) (peer_update_of (ppg_editing p))))
                 (setS (\<lambda>p. p\<lparr>ppg_messages := ppg_messages p @ [(uni ''~5BF9~7AEF~8282~70B9~5DF2~66F4~65B0'')]\<rparr>))))
       (thenS (setS (\<lambda>p. p\<lparr>ppg_drawerOpen := False\<rparr>)) (peer_load env fetch_peers fetch_status))"

definition peer_remove ::
  "'w ApiEnv \<Rightarrow> ('c, PeerIdPayload, 'w) fetcher \<Rightarrow> ('b, PeerListPayload, 'w) fetcher \<Rightarrow> ('b, NodeNetworkStatusPayload, 'w) fetcher \<Rightarrow>
    string \<Rightarrow> (unit, PeerPage, 'w) script" where
  "peer_remove env fetch_delete fetch_peers fetch_status peerNodeId =
     thenS (awaitS (deletePeer env fetch_delete peerNodeId))
       (thenS (setS (\<lambda>p. p\<lparr>ppg_messages := ppg_messages p @ [(uni ''~5BF9~7AEF~8282~70B9~5DF2~5220~9664'')]\<rparr>)) (peer_load env fetch_peers fetch_status))"

subsection \<open>Pages of a mock console\<close>

text \<open>A handler without \<open>catch\<close> ends with its flag down, whatever happens in it.\<close>

lemma finally_eval: "try_finally body cleanup s = (fst (body s), (cleanup (fst (snd (body s))), snd (snd (body s))))"
  by (simp add: try_finally_def split: prod.splits)

lemma saving_ends:
  "\<not> tp_saving (fst (snd (tunnel_save env fs f s)))" "\<not> tp_actionLoading (fst (snd (tunnel_runAction env fa f a s)))"
  "\<not> ncpg_saving (fst (snd (node_config_save env fn fc s')))" "\<not> lnp_saving (fst (snd (local_node_save env fl fd ft s'')))"
  by (cases s; cases s'; cases s'';
      simp add: tunnel_save_def tunnel_runAction_def node_config_save_def local_node_save_def then_eval script_eval finally_eval)+

lemma mock_ops:
  assumes "useMockMode env" "module_loaded st"
  shows "fetchTunnelConfig env f1 st = (Inr (fetchTunnelConfigMock (as_mock st)), st)"
    "saveTunnelConfig env f2 u st =
       (Inr (fst (saveTunnelConfigMock u (as_mock st))), st\<lparr>as_mock := snd (saveTunnelConfigMock u (as_mock st))\<rparr>)"
    "fetchNodeConfig env f3 st = (Inr (fetchNodeConfigMock (as_mock st)), st)"
    "saveNodeConfig env f4 c st =
       (Inr (fst (saveNodeConfigMock c (as_mock st))), st\<lparr>as_mock := snd (saveNodeConfigMock c (as_mock st))\<rparr>)"
    "fetchNodeDetail env f5 st = (Inr (fetchNodeDetailMock (as_mock st)), st)"
    "fetchNodeNetworkStatus env f6 st = (Inr (fetchNodeNetworkStatusMock (as_mock st)), st)"
    "updateLocalNode env f7 n st =
       (Inr (fst (updateLocalNodeMock n (as_mock st))), st\<lparr>as_mock := snd (updateLocalNodeMock n (as_mock st))\<rparr>)"
    "fetchPeers env f8 st = (Inr (fetchPeersMock (as_mock st)), st)"
    "createPeer env f9 e st = (Inr (fst (createPeerMock e (as_mock st))), st\<lparr>as_mock := snd (createPeerMock e (as_mock st))\<rparr>)"
    "updatePeer env f10 k v st = (fst (updatePeerMock k v (as_mock st)), st\<lparr>as_mock := snd (updatePeerMock k v (as_mock st))\<rparr>)"
    "deletePeer env f11 k st = (Inr (fst (deletePeerMock k (as_mock st))), st\<lparr>as_mock := snd (deletePeerMock k (as_mock st))\<rparr>)"
  using assms
  by (simp_all add: fetchTunnelConfig_def saveTunnelConfig_def fetchNodeConfig_def saveNodeConfig_def fetchNodeDetail_def
      fetchNodeNetworkStatus_def updateLocalNode_def fetchPeers_def createPeer_def updatePeer_def deletePeer_def dispatch_mock)

lemma module_loaded_mock [simp]: "module_loaded (st\<lparr>as_mock := m\<rparr>) = module_loaded st"
  by (simp add: module_loaded_def)

text \<open>Saving the tunnel configuration stores the payload and shows what is stored.\<close>

lemma tunnel_save_mock:
  assumes "useMockMode env" "module_loaded st" and m: "m = snd (saveTunnelConfigMock (tunnel_payload p) (as_mock st))"
  shows "tunnel_save env fs f (p, st) =
    (Inr (), (p\<lparr>tp_messages := tp_messages p @ [(uni ''GB/T 28181 ~6CE8~518C~4E0E~5FC3~8DF3~914D~7F6E~4FDD~5B58~6210~529F'')],
        tp_draft := assign_tunnel (tp_draft p) (fetchTunnelConfigMock m), tp_passwordInput := [], tp_saving := False\<rparr>, st\<lparr>as_mock := m\<rparr>))"
proof -
  have pay: "tunnel_payload (p\<lparr>tp_saving := True\<rparr>) = tunnel_payload p" by (simp add: tunnel_payload_def)
  show ?thesis
    unfolding tunnel_save_def then_eval script_eval finally_eval pay bind_eval await_eval tunnel_load_def
    using assms(1,2) by (simp add: mock_ops m script_simps pay del: uni.simps)
qed

lemma blank_password_stored:
  "tp_passwordInput p = [] \<Longrightarrow>
     ts_register_auth_password (tunnelConfigState (snd (saveTunnelConfigMock (tunnel_payload p) s))) = Some []"
  by (simp add: saveTunnelConfigMock_def saved_tunnel_config_def tunnel_payload_def nullish_def Let_def)

text \<open>With every optional field filled in, the form shows the same values after a save; only the password input is cleared.\<close>

definition tunnel_form_complete :: "TunnelPage \<Rightarrow> bool" where
  "tunnel_form_complete p \<longleftrightarrow>
     (let d = tp_draft p in tc_register_auth_enabled d \<noteq> None \<and> tc_register_auth_username d \<noteq> None \<and>
        tc_register_auth_realm d \<noteq> None \<and> tc_register_auth_algorithm d \<noteq> None \<and> tc_catalog_subscribe_expires_sec d \<noteq> None)"

lemma tunnel_save_stable:
  assumes "useMockMode env" "module_loaded st" "tunnel_form_complete p"
  shows "tunnel_payload (fst (snd (tunnel_save env fs f (p, st)))) = (tunnel_payload p)\<lparr>tcu_register_auth_password := Some []\<rparr>"
  using assms(3)
  by (auto simp: tunnel_save_mock [OF assms(1,2) refl] tunnel_form_complete_def tunnel_payload_def assign_tunnel_def
      fetchTunnelConfigMock_def saveTunnelConfigMock_def saved_tunnel_config_def with_device_ids_def nullish_def nullish_opt_def Let_def
      simp del: uni.simps)

text \<open>Saving the node configuration: the form keeps its values, provided the saved peer is the one reported.\<close>

lemma assign_endpoint_same: "assign_endpoint e e = e"
  by (cases e) (simp add: assign_endpoint_def nullish_opt_def split: option.splits)

lemma node_config_save_mock:
  assumes "useMockMode env" "module_loaded st" "readable_config (ncpg_draft p)"
    and "becomes_primary (nce_device_id (ncp_peer_node (ncpg_draft p))) (as_mock st)"
  shows "ncpg_draft (fst (snd (node_config_save env fs f (p, st)))) = ncpg_draft p"
proof -
  have draft: "ncpg_draft (p\<lparr>ncpg_saving := True\<rparr>) = ncpg_draft p" by simp
  show ?thesis
    unfolding node_config_save_def then_eval script_eval finally_eval draft bind_eval await_eval node_config_load_def
    using assms(1,2)
    by (simp add: mock_ops script_simps fetch_after_saveNodeConfig [OF assms(3,4)] assign_endpoint_same del: uni.simps)
qed

text \<open>Both pages read the device ids from the same state.\<close>

lemma node_config_save_run:
  assumes "useMockMode env" "module_loaded st"
  shows "fst (node_config_save env fs f (p, st)) = Inr ()"
    and "snd (snd (node_config_save env fs f (p, st))) = st\<lparr>as_mock := snd (saveNodeConfigMock (ncpg_draft p) (as_mock st))\<rparr>"
    and "nce_device_id (ncp_local_node (ncpg_draft (fst (snd (node_config_save env fs f (p, st)))))) =
      nce_device_id (ncp_local_node (fetchNodeConfigMock (snd (saveNodeConfigMock (ncpg_draft p) (as_mock st)))))"
    and "nce_device_id (ncp_peer_node (ncpg_draft (fst (snd (node_config_save env fs f (p, st)))))) =
      nce_device_id (ncp_peer_node (fetchNodeConfigMock (snd (saveNodeConfigMock (ncpg_draft p) (as_mock st)))))"
proof -
  have draft: "ncpg_draft (p\<lparr>ncpg_saving := True\<rparr>) = ncpg_draft p" by simp
  note * = node_config_save_def then_eval script_eval finally_eval draft bind_eval await_eval node_config_load_def
  show "fst (node_config_save env fs f (p, st)) = Inr ()"
    unfolding * using assms by (simp add: mock_ops script_simps del: uni.simps)
  show "snd (snd (node_config_save env fs f (p, st))) = st\<lparr>as_mock := snd (saveNodeConfigMock (ncpg_draft p) (as_mock st))\<rparr>"
    unfolding * using assms by (simp add: mock_ops script_simps del: uni.simps)
  show "nce_device_id (ncp_local_node (ncpg_draft (fst (snd (node_config_save env fs f (p, st)))))) =
      nce_device_id (ncp_local_node (fetchNodeConfigMock (snd (saveNodeConfigMock (ncpg_draft p) (as_mock st)))))"
    unfolding * using assms by (simp add: mock_ops script_simps assign_endpoint_def del: uni.simps)
  show "nce_device_id (ncp_peer_node (ncpg_draft (fst (snd (node_config_save env fs f (p, st)))))) =
      nce_device_id (ncp_peer_node (fetchNodeConfigMock (snd (saveNodeConfigMock (ncpg_draft p) (as_mock st)))))"
    unfolding * using assms by (simp add: mock_ops script_simps assign_endpoint_def del: uni.simps)
qed

lemma tunnel_load_ids:
  assumes "useMockMode env" "module_loaded st"
  shows "tc_local_device_id (tp_draft (fst (snd (tunnel_load env f (t, st))))) = ln_node_id (localNodeState (as_mock st))"
    and "tc_peer_device_id (tp_draft (fst (snd (tunnel_load env f (t, st))))) = primary_peer_id (as_mock st)"
  using assms by (simp_all add: tunnel_load_def bind_eval await_eval mock_ops script_simps fetchTunnelConfigMock_def
    with_device_ids_def assign_tunnel_def)

lemma read_peer_id: "nce_device_id (ncp_peer_node (fetchNodeConfigMock t)) = primary_peer_id t"
  by (simp add: fetchNodeConfig_peer primary_peer_id_def peer_endpoint_def split: list.split)

lemma local_node_save_mock:
  assumes "useMockMode env" "module_loaded st"
  shows "lnp_draft (fst (snd (local_node_save env fl fd ft (p, st)))) = lnp_draft p"
    and "localNodeState (as_mock (snd (snd (local_node_save env fl fd ft (p, st))))) = lnp_draft p"
proof -
  have draft: "lnp_draft (p\<lparr>lnp_saving := True\<rparr>) = lnp_draft p" by simp
  show "lnp_draft (fst (snd (local_node_save env fl fd ft (p, st)))) = lnp_draft p"
    and "localNodeState (as_mock (snd (snd (local_node_save env fl fd ft (p, st))))) = lnp_draft p"
    unfolding local_node_save_def then_eval script_eval finally_eval draft bind_eval await_eval local_node_load_def
    using assms
    by (simp_all add: mock_ops script_simps promise_all_def updateLocalNodeMock_def fetchNodeDetailMock_def case_prod_beta Let_def
        del: uni.simps)
qed

subsection \<open>The peer page\<close>

lemma peer_load_mock:
  assumes "useMockMode env" "module_loaded st"
  shows "peer_load env fp ft (p, st) = (Inr (), (p\<lparr>ppg_peers := peerNodeState (as_mock st),
    ppg_networkStatus := Some (fetchNodeNetworkStatusMock (as_mock st))\<rparr>, st))"
  using assms by (simp add: peer_load_def script_simps promise_all_def mock_ops fetchPeersMock_def)

lemma peer_with_update: "peer_with_id (pn_peer_node_id e) (peer_update_of e) = e"
  by (simp add: peer_with_id_def peer_update_of_def)

lemma peer_save_mock:
  assumes "useMockMode env" "module_loaded st"
  shows "peer_save env fc fu fp ft (p, st) =
    (if ppg_mode p = Peer_create
     then peer_load env fp ft (p\<lparr>ppg_messages := ppg_messages p @ [(uni ''~5BF9~7AEF~8282~70B9~5DF2~521B~5EFA'')], ppg_drawerOpen := False\<rparr>,
            st\<lparr>as_mock := snd (createPeerMock (ppg_editing p) (as_mock st))\<rparr>)
     else (let u = updatePeerMock (pn_peer_node_id (ppg_editing p)) (peer_update_of (ppg_editing p)) (as_mock st) in
       case fst u of
         Inl e \<Rightarrow> (Inl e, (p, st))
       | Inr _ \<Rightarrow> peer_load env fp ft (p\<lparr>ppg_messages := ppg_messages p @ [(uni ''~5BF9~7AEF~8282~70B9~5DF2~66F4~65B0'')], ppg_drawerOpen := False\<rparr>,
            st\<lparr>as_mock := snd u\<rparr>)))"
proof -
  have "fst (updatePeerMock k v m) = Inl e \<Longrightarrow> snd (updatePeerMock k v m) = m" for k v m e
    by (auto simp: updatePeerMock_def Let_def split: option.splits)
  then show ?thesis
    unfolding peer_save_def then_eval script_eval
    using assms by (simp add: mock_ops script_simps Let_def del: uni.simps split: sum.splits)
qed

text \<open>
  After a successful save the page lists the store's peers: the edited peer under its id, every other
  one as before. A peer that is not in the store any more is refused and nothing changes.
\<close>

lemma peer_edit_mock:
  assumes "useMockMode env" "module_loaded st" "ppg_mode p = Peer_edit"
    and r_def: "r = peer_save env fc fu fp ft (p, st)"
  shows "(fst r = Inr () \<longleftrightarrow> pn_peer_node_id (ppg_editing p) \<in> set (peers.keys (as_mock st))) \<and>
    (fst r = Inr () \<longrightarrow> ppg_peers (fst (snd r)) = peerNodeState (as_mock (snd (snd r))) \<and>
       peers.keys (as_mock (snd (snd r))) = peers.keys (as_mock st) \<and>
       (\<forall>k. peers.lookup k (as_mock (snd (snd r))) =
          (if k = pn_peer_node_id (ppg_editing p) then Some (ppg_editing p) else peers.lookup k (as_mock st)))) \<and>
    (fst r \<noteq> Inr () \<longrightarrow> snd r = (p, st))"
proof -
  let ?e = "ppg_editing p" let ?k = "pn_peer_node_id ?e" let ?m = "as_mock st"
  let ?u = "updatePeerMock ?k (peer_update_of ?e) ?m"
  have key: "pn_peer_node_id (peer_with_id ?k (peer_update_of ?e)) = ?k" by (simp add: peer_with_update)
  show ?thesis
  proof (cases "?k \<in> set (peers.keys ?m)")
    case True
    then obtain x where x: "fst ?u = Inr x"
      using peers.update_throws_iff [of ?k "peer_update_of ?e" ?m] peers.index_iff [of ?k ?m] peers.update_found by (metis)
    have l: "module_loaded (st\<lparr>as_mock := snd ?u\<rparr>)" using assms(2) by simp
    have "peers.lookup j (snd ?u) = (if j = ?k then Some ?e else peers.lookup j ?m)" for j
      using peers.lookup_update [OF key True] peers.lookup_update_other [OF key, of j] by (simp add: peer_with_update)
    then show ?thesis
      using True peers.update_keys [OF key, of ?m]
      by (simp add: r_def peer_save_mock [OF assms(1,2)] assms(3) x Let_def peer_load_mock [OF assms(1) l] del: uni.simps)
  next
    case False
    then have "fst ?u = Inl (JsError ''PEER_NOT_FOUND'')" using peers.update_throws_iff by blast
    with False show ?thesis by (simp add: r_def peer_save_mock [OF assms(1,2)] assms(3) Let_def del: uni.simps)
  qed
qed

end
