(* ===== verification/OpsPages.thy ===== *)
theory OpsPages
  imports PageRuntime UiShell
begin

text \<open>
  The scripts of the operations pages: \<open>DiagnosticsLoadtestView.vue\<close>, \<open>OpsToolsView.vue\<close>,
  \<open>SecurityCenterView.vue\<close>, \<open>RateLimitPoliciesView.vue\<close> and \<open>AlertsCenterView.vue\<close>, and the frame of the
  console, \<open>AdminLayout.vue\<close>. Texts shown by \<open>message\<close>, downloads and route changes are outputs of the
  handlers; whether the clipboard accepts a text is a parameter.
\<close>

subsection \<open>Diagnostics and load tests\<close>

record DiagnosticsPage =
  dgp_loading :: bool
  dgp_testing :: bool
  dgp_exporting :: bool
  dgp_startingLoadtest :: bool
  dgp_error :: string
  dgp_notice :: string
  dgp_report :: "OpsLinkTestReport option"
  dgp_exportData :: "DiagnosticExportData option"
  dgp_jobs :: "LoadtestJob list"
  dgp_httpUrl :: string
  dgp_gatewayBaseUrl :: string
  dgp_concurrency :: "int option"
  dgp_qps :: "int option"
  dgp_durationSec :: "int option"
  dgp_outputDir :: string
  dgp_workspace :: jsval

definition diagnostics_init :: DiagnosticsPage where
  "diagnostics_init =
     \<lparr>dgp_loading = False, dgp_testing = False, dgp_exporting = False, dgp_startingLoadtest = False, dgp_error = [], dgp_notice = [],
      dgp_report = None, dgp_exportData = None, dgp_jobs = [], dgp_httpUrl = ''http://127.0.0.1:18080/healthz'',
      dgp_gatewayBaseUrl = ''http://127.0.0.1:8080'', dgp_concurrency = Some 50, dgp_qps = Some 100, dgp_durationSec = Some 30,
      dgp_outputDir = [], dgp_workspace = JUndefined\<rparr>"

definition latestCapacitySuggestion :: "DiagnosticsPage \<Rightarrow> jsval" where
  "latestCapacitySuggestion p =
     (case find (\<lambda>item. ltj_status item = ''succeeded'' \<and> ltj_capacity_suggestion item \<noteq> None) (dgp_jobs p) of
        None \<Rightarrow> JUndefined | Some item \<Rightarrow> JObj (nullish (ltj_capacity_suggestion item) []))"

definition array_text :: "string \<Rightarrow> jsval \<Rightarrow> string" where
  "array_text sep v = join_with sep (map (\<lambda>x. if is_nullish x then [] else js_String x) (elements v))"

definition capacityBasisText :: "DiagnosticsPage \<Rightarrow> jsval" where
  "capacityBasisText p =
     (let s = latestCapacitySuggestion p in
      if is_array (chain s ''basis'') then JStr (array_text (uni ''~FF1B'') (chain s ''basis''))
      else or_else (chain s ''note'') (JStr (uni ''~6682~65E0'')))"

text \<open>\<open>promise.catch(() => value)\<close>.\<close>

definition catch_with :: "'r \<Rightarrow> ('r, 'w) api \<Rightarrow> ('r, 'w) api" where
  "catch_with value req st = (case req st of (Inl _, st') \<Rightarrow> (Inr value, st') | (Inr x, st') \<Rightarrow> (Inr x, st'))"

abbreviation diagnostics_error :: "string \<Rightarrow> DiagnosticsPage \<Rightarrow> DiagnosticsPage" where
  "diagnostics_error m p \<equiv> p\<lparr>dgp_error := m\<rparr>"

definition diagnostics_reset :: "DiagnosticsPage \<Rightarrow> DiagnosticsPage" where
  "diagnostics_reset p = p\<lparr>dgp_error := [], dgp_notice := []\<rparr>"

definition loadLatest ::
  "'w ApiEnv \<Rightarrow> ('b, OpsLinkTestReport, 'w) fetcher \<Rightarrow> ('b, LoadtestJob Items, 'w) fetcher \<Rightarrow> ('b, jsval, 'w) fetcher \<Rightarrow>
    (unit, DiagnosticsPage, 'w) script" where
  "loadLatest env fetch_report fetch_jobs fetch_workspace =
     guarded (\<lambda>b p. p\<lparr>dgp_loading := b\<rparr>) (\<lambda>p. p\<lparr>dgp_error := []\<rparr>) diagnostics_error
       (bindS (awaitS (promise_all (catch_with None (map_result Some (fetchLatestLinkTest env fetch_report)))
                (promise_all (catch_with [] (fetchLoadtestJobs env fetch_jobs))
                  (catch_with JUndefined (fetchNodeTunnelWorkspace env fetch_workspace)))))
         (\<lambda>(linkReport, loadtestItems, workspaceResp). setS (\<lambda>p. p\<lparr>dgp_report := linkReport, dgp_jobs := loadtestItems,
            dgp_workspace := workspaceResp,
            dgp_gatewayBaseUrl :=
              (if truthy (chain (chain workspaceResp ''peerNode'') ''node_ip'') \<and> truthy (chain (chain workspaceResp ''peerNode'') ''signaling_port'')
               then str_or (dgp_gatewayBaseUrl p) ''http://127.0.0.1:8080'' else dgp_gatewayBaseUrl p)\<rparr>)))"

definition link_test ::
  "string \<Rightarrow> 'w ApiEnv \<Rightarrow> (LinkTestRequest, OpsLinkTestReport, 'w) fetcher \<Rightarrow> LinkTestRequest option \<Rightarrow> string \<Rightarrow>
    (unit, DiagnosticsPage, 'w) script" where
  "link_test title env fetch payload now =
     guarded (\<lambda>b p. p\<lparr>dgp_testing := b\<rparr>) diagnostics_reset diagnostics_error
       (bindS (awaitS (runLinkTest env fetch payload now))
         (\<lambda>r. setS (\<lambda>p. p\<lparr>dgp_report := Some r,
            dgp_notice := title @ (if oltr_status r = Test_passed then (uni ''~901A~8FC7'') else (uni ''~5931~8D25'')) @ (uni ''~3002'')\<rparr>)))"

definition page_runLinkTest ::
  "'w ApiEnv \<Rightarrow> (LinkTestRequest, OpsLinkTestReport, 'w) fetcher \<Rightarrow> string \<Rightarrow> (unit, DiagnosticsPage, 'w) script" where
  "page_runLinkTest env fetch now = link_test (uni ''~672C~7AEF~8282~70B9~8FDE~901A~6027~6D4B~8BD5~5DF2~5B8C~6210~FF1A'') env fetch None now"

definition runPeerLinkTest ::
  "'w ApiEnv \<Rightarrow> (LinkTestRequest, OpsLinkTestReport, 'w) fetcher \<Rightarrow> string \<Rightarrow> (unit, DiagnosticsPage, 'w) script" where
  "runPeerLinkTest env fetch now = link_test (uni ''~5BF9~7AEF~8282~70B9~8FDE~901A~6027~6D4B~8BD5~5DF2~5B8C~6210~FF1A'') env fetch (Some \<lparr>ltr_target = Some ''peer''\<rparr>) now"

definition runExport :: "'w ApiEnv \<Rightarrow> ('b, DiagnosticExportData, 'w) fetcher \<Rightarrow> (unit, DiagnosticsPage, 'w) script" where
  "runExport env fetch =
     guarded (\<lambda>b p. p\<lparr>dgp_exporting := b\<rparr>) diagnostics_reset diagnostics_error
       (readS (\<lambda>p. bindS (awaitS (exportDiagnostics env fetch (map_option oltr_request_id (dgp_report p)) (map_option oltr_trace_id (dgp_report p))))
         (\<lambda>d. setS (\<lambda>p. p\<lparr>dgp_exportData := Some d, dgp_notice := (uni ''~8BCA~65AD~5305~5DF2~5BFC~51FA~5E76~751F~6210~6700~8FD1~7ED3~679C~6458~8981~3002'')\<rparr>))))"

definition loadtest_request :: "DiagnosticsPage \<Rightarrow> LoadtestStart" where
  "loadtest_request p =
     \<lparr>lts_targets = None, lts_http_url = Some (dgp_httpUrl p), lts_sip_address = None, lts_rtp_address = None,
      lts_gateway_base_url = Some (dgp_gatewayBaseUrl p), lts_concurrency = dgp_concurrency p, lts_qps = dgp_qps p,
      lts_duration_sec = dgp_durationSec p, lts_output_dir = (if dgp_outputDir p = [] then None else Some (dgp_outputDir p))\<rparr>"

definition runLoadtest ::
  "'w ApiEnv \<Rightarrow> (LoadtestStart, LoadtestJob, 'w) fetcher \<Rightarrow> ('b, LoadtestJob Items, 'w) fetcher \<Rightarrow> (unit, DiagnosticsPage, 'w) script" where
  "runLoadtest env fetch_start fetch_jobs =
     guarded (\<lambda>b p. p\<lparr>dgp_startingLoadtest := b\<rparr>) diagnostics_reset diagnostics_error
       (readS (\<lambda>p. bindS (awaitS (startLoadtest env fetch_start (loadtest_request p)))
         (\<lambda>job. thenS (setS (\<lambda>p. p\<lparr>dgp_notice := (uni ''~538B~6D4B~4EFB~52A1~5DF2~521B~5EFA~FF1A'') @ ltj_job_id job\<rparr>))
           (bindS (awaitS (fetchLoadtestJobs env fetch_jobs)) (\<lambda>jobs. setS (\<lambda>p. p\<lparr>dgp_jobs := jobs\<rparr>))))))"

interpretation diagnostics_loading: busy_page dgp_loading "\<lambda>b p. p\<lparr>dgp_loading := b\<rparr>" dgp_error "\<lambda>m p. p\<lparr>dgp_error := m\<rparr>"
  "\<lambda>p. p\<lparr>dgp_error := []\<rparr>"
  by unfold_locales simp_all

interpretation diagnostics_testing: busy_page dgp_testing "\<lambda>b p. p\<lparr>dgp_testing := b\<rparr>" dgp_error "\<lambda>m p. p\<lparr>dgp_error := m\<rparr>" diagnostics_reset
  by unfold_locales (simp_all add: diagnostics_reset_def)

interpretation diagnostics_exporting: busy_page dgp_exporting "\<lambda>b p. p\<lparr>dgp_exporting := b\<rparr>" dgp_error "\<lambda>m p. p\<lparr>dgp_error := m\<rparr>" diagnostics_reset
  by unfold_locales (simp_all add: diagnostics_reset_def)

interpretation diagnostics_starting: busy_page dgp_startingLoadtest "\<lambda>b p. p\<lparr>dgp_startingLoadtest := b\<rparr>" dgp_error
  "\<lambda>m p. p\<lparr>dgp_error := m\<rparr>" diagnostics_reset
  by unfold_locales (simp_all add: diagnostics_reset_def)

subsection \<open>Tools\<close>

datatype PortStatus = Port_open | Port_occupied | Port_blocked

record PortResult =
  pr_port :: int
  pr_status :: PortStatus

datatype ToolCheckLevel = Check_pass | Check_warn | Check_fail

record ConfigCheck =
  cc_name :: string
  cc_level :: ToolCheckLevel

fun getLevelText :: "ToolCheckLevel \<Rightarrow> string" where
  "getLevelText Check_pass = (uni ''~6B63~5E38'')"
| "getLevelText Check_warn = (uni ''~5F02~5E38'')"
| "getLevelText Check_fail = (uni ''~5F02~5E38'')"

record ToolsPage =
  otp_activeTool :: string
  otp_target :: string
  otp_protocol :: string
  otp_summary :: string
  otp_detail :: string
  otp_start :: int
  otp_end :: int
  otp_portResults :: "PortResult list"
  otp_tunnelProgress :: int
  otp_tunnelResult :: string
  otp_configChecks :: "ConfigCheck list"

definition tools_init :: ToolsPage where
  "tools_init =
     \<lparr>otp_activeTool = ''network'', otp_target = ''10.10.10.18'', otp_protocol = ''SIP'', otp_summary = (uni ''~7B49~5F85~6267~884C~7F51~7EDC~8BCA~65AD''),
      otp_detail = (uni ''~652F~6301~8FDE~901A~6027~63A2~6D4B~3001RTT ~6296~52A8~548C~4E22~5305~7387~57FA~7840~68C0~67E5~3002''), otp_start = 5060, otp_end = 5065, otp_portResults = [],
      otp_tunnelProgress = 0, otp_tunnelResult = (uni ''~5C1A~672A~6267~884C~901A~9053~6D4B~8BD5''),
      otp_configChecks = [\<lparr>cc_name = (uni ''api_code ~6620~5C04~5408~6CD5~6027''), cc_level = Check_pass\<rparr>,
        \<lparr>cc_name = (uni ''SIP/RTP ~7AEF~53E3~533A~95F4~51B2~7A81''), cc_level = Check_warn\<rparr>, \<lparr>cc_name = (uni ''~7B7E~540D~7B97~6CD5~914D~7F6E~5B8C~6574~6027''), cc_level = Check_pass\<rparr>]\<rparr>"

definition runNetworkDiag :: "ToolsPage \<Rightarrow> ToolsPage" where
  "runNetworkDiag p =
     p\<lparr>otp_summary := otp_protocol p @ (uni '' ~5230 '') @ otp_target p @ (uni '' ~8FDE~901A~6027~6B63~5E38''),
       otp_detail := (uni ''~5E73~5747 RTT 8ms~FF0C~6296~52A8 1.1ms~FF0C~8FD1 5 ~5206~949F~4E22~5305~7387 0.02%~3002'')\<rparr>"

definition port_result :: "int \<Rightarrow> PortResult" where
  "port_result port =
     \<lparr>pr_port = port, pr_status = (if port mod 5 = 0 then Port_occupied else if port mod 7 = 0 then Port_blocked else Port_open)\<rparr>"

text \<open>The loop as it is written; whether it ends is proved below.\<close>

partial_function (option) port_loop :: "int \<Rightarrow> int \<Rightarrow> PortResult list \<Rightarrow> PortResult list option" where
  "port_loop port stop results =
     (if port \<le> stop \<and> length results < 20 then port_loop (port + 1) stop (results @ [port_result port]) else Some results)"

definition runPortCheck :: "ToolsPage \<Rightarrow> ToolsPage option" where
  "runPortCheck p =
     map_option (\<lambda>results. p\<lparr>otp_portResults := results\<rparr>)
       (port_loop (min (otp_start p) (otp_end p)) (max (otp_start p) (otp_end p)) [])"

definition runTunnelTest :: "ToolsPage \<Rightarrow> ToolsPage" where
  "runTunnelTest p = p\<lparr>otp_tunnelProgress := 3, otp_tunnelResult := (uni ''~901A~9053~6D4B~8BD5~901A~8FC7~FF1A~63A7~5236~9762~4E0E~6587~4EF6~9762~94FE~8DEF~5747~53EF~7528~3002'')\<rparr>"

definition runConfigValidation :: "ToolsPage \<Rightarrow> ToolsPage" where
  "runConfigValidation p =
     p\<lparr>otp_configChecks := [\<lparr>cc_name = (uni ''api_code ~6620~5C04~5408~6CD5~6027''), cc_level = Check_pass\<rparr>,
        \<lparr>cc_name = (uni ''SIP/RTP ~7AEF~53E3~533A~95F4~51B2~7A81''), cc_level = Check_pass\<rparr>, \<lparr>cc_name = (uni ''~7B7E~540D~7B97~6CD5~914D~7F6E~5B8C~6574~6027''), cc_level = Check_pass\<rparr>,
        \<lparr>cc_name = (uni ''~96A7~9053~6A21~5F0F~80FD~529B~5339~914D''), cc_level = Check_warn\<rparr>]\<rparr>"

subsection \<open>Licence page\<close>

record SecurityPage =
  scp_loading :: bool
  scp_saving :: bool
  scp_error :: string
  scp_notice :: string
  scp_state :: "SecurityCenterState option"
  scp_machineCode :: "MachineCodePayload option"
  scp_licenseContent :: string
  scp_messages :: "string list"
  scp_downloads :: "(string \<times> string) list"

definition security_page_init :: SecurityPage where
  "security_page_init =
     \<lparr>scp_loading = False, scp_saving = False, scp_error = [], scp_notice = [], scp_state = None, scp_machineCode = None,
      scp_licenseContent = [], scp_messages = [], scp_downloads = []\<rparr>"

definition adminTokenStatusText :: "SecurityPage \<Rightarrow> string" where
  "adminTokenStatusText p = (case scp_state p of
     Some s \<Rightarrow> if secs_adminTokenConfigured s = Some True
       then (uni ''~5DF2~542F~7528~FF08~6307~7EB9 '') @ str_or (nullish (secs_adminTokenFingerprint s) []) ''-'' @ (uni ''~FF09'') else (uni ''~672A~542F~7528'')
   | None \<Rightarrow> (uni ''~672A~542F~7528''))"

definition machineCodeText :: "SecurityPage \<Rightarrow> string" where
  "machineCodeText p = (case scp_machineCode p of None \<Rightarrow> (uni ''~6682~65E0~673A~5668~7801'') | Some m \<Rightarrow>
     join_with [CHR 0x0A]
       [(uni ''~672C~7AEF~7F16~7801~FF1A'') @ mcp_node_id m, (uni ''~4E3B~673A~540D~FF1A'') @ mcp_hostname m, (uni ''CPUID~FF1A'') @ mcp_cpu_id m, (uni ''~4E3B~677F~5E8F~5217~53F7~FF1A'') @ mcp_board_serial m,
        (uni ''~7F51~5361 MAC~FF1A'') @ mcp_mac_address m, (uni ''~673A~5668~7801~FF1A'') @ mcp_machine_code m])"

definition loadMachineCode :: "'w ApiEnv \<Rightarrow> ('b, MachineCodePayload, 'w) fetcher \<Rightarrow> (unit, SecurityPage, 'w) script" where
  "loadMachineCode env fetch =
     bindS (awaitS (fetchMachineCode env fetch)) (\<lambda>m. setS (\<lambda>p. p\<lparr>scp_machineCode := Some m\<rparr>))"

definition security_reset :: "SecurityPage \<Rightarrow> SecurityPage" where
  "security_reset p = p\<lparr>scp_error := [], scp_notice := []\<rparr>"

definition security_load ::
  "'w ApiEnv \<Rightarrow> ('b, SecurityStatePayload, 'w) fetcher \<Rightarrow> ('b, MachineCodePayload, 'w) fetcher \<Rightarrow> (unit, SecurityPage, 'w) script" where
  "security_load env fetch_state fetch_machine =
     guarded (\<lambda>b p. p\<lparr>scp_loading := b\<rparr>) security_reset (\<lambda>m p. p\<lparr>scp_error := m\<rparr>)
       (bindS (awaitS (promise_all (fetchSecurityState env fetch_state) (fetchMachineCode env fetch_machine)))
         (\<lambda>(stateResp, machineResp). setS (\<lambda>p. p\<lparr>scp_state := Some stateResp, scp_machineCode := Some machineResp\<rparr>)))"

definition copyMachineCode :: "(string \<Rightarrow> unit js_result) \<Rightarrow> (unit, SecurityPage, 'w) script" where
  "copyMachineCode clipboard =
     readS (\<lambda>p. case scp_machineCode p of None \<Rightarrow> returnS () | Some m \<Rightarrow>
       (case clipboard (mcp_machine_code m) of
          Inl (JsError e) \<Rightarrow> throwS e
        | Inr _ \<Rightarrow> setS (\<lambda>p. p\<lparr>scp_messages := scp_messages p @ [(uni ''~673A~5668~7801~5DF2~590D~5236'')]\<rparr>)))"

definition exportRequestFile :: "SecurityPage \<Rightarrow> SecurityPage" where
  "exportRequestFile p = (case scp_machineCode p of
     Some m \<Rightarrow> if mcp_request_file m = [] then p
       else p\<lparr>scp_downloads := scp_downloads p @ [(''license-request-'' @ mcp_machine_code m @ ''.licreq'', mcp_request_file m)],
              scp_messages := scp_messages p @ [(uni ''~7533~8BF7~6587~4EF6~5DF2~5BFC~51FA'')]\<rparr>
   | None \<Rightarrow> p)"

definition saveLicense ::
  "'w ApiEnv \<Rightarrow> (LicenseUpdate, LicensePayload, 'w) fetcher \<Rightarrow> ('b, SecurityStatePayload, 'w) fetcher \<Rightarrow>
    ('b, MachineCodePayload, 'w) fetcher \<Rightarrow> (unit, SecurityPage, 'w) script" where
  "saveLicense env fetch_save fetch_state fetch_machine =
     guarded (\<lambda>b p. p\<lparr>scp_saving := b\<rparr>) security_reset (\<lambda>m p. p\<lparr>scp_error := m\<rparr>)
       (readS (\<lambda>p. thenS (awaitS (updateLicense env fetch_save \<lparr>lu_token = None, lu_content = Some (scp_licenseContent p)\<rparr>))
         (thenS (security_load env fetch_state fetch_machine)
           (setS (\<lambda>p. p\<lparr>scp_licenseContent := [], scp_notice := (uni ''~6388~6743~6587~4EF6~5DF2~5BFC~5165~5E76~5B8C~6210~6821~9A8C~3002'')\<rparr>)))))"

interpretation security_loading: busy_page scp_loading "\<lambda>b p. p\<lparr>scp_loading := b\<rparr>" scp_error "\<lambda>m p. p\<lparr>scp_error := m\<rparr>" security_reset
  by unfold_locales (simp_all add: security_reset_def)

interpretation security_saving: busy_page scp_saving "\<lambda>b p. p\<lparr>scp_saving := b\<rparr>" scp_error "\<lambda>m p. p\<lparr>scp_error := m\<rparr>" security_reset
  by unfold_locales (simp_all add: security_reset_def)

subsection \<open>Rate limits\<close>

record LimitsPage =
  lmt_editVisible :: bool
  lmt_limits :: OpsLimits
  lmt_formState :: OpsLimits
  lmt_messages :: "string list"

definition limits_page_init :: LimitsPage where
  "limits_page_init =
     \<lparr>lmt_editVisible = False, lmt_limits = \<lparr>ol_rps = 0, ol_burst = 0, ol_maxConcurrent = 0\<rparr>,
      lmt_formState = \<lparr>ol_rps = 0, ol_burst = 0, ol_maxConcurrent = 0\<rparr>, lmt_messages = []\<rparr>"

definition loadLimits :: "'w ApiEnv \<Rightarrow> ('b, OpsLimits, 'w) fetcher \<Rightarrow> (unit, LimitsPage, 'w) script" where
  "loadLimits env fetch = bindS (awaitS (fetchLimits env fetch)) (\<lambda>data. setS (\<lambda>p. p\<lparr>lmt_limits := data\<rparr>))"

definition limits_openEdit :: "LimitsPage \<Rightarrow> LimitsPage" where
  "limits_openEdit p = p\<lparr>lmt_formState := lmt_limits p, lmt_editVisible := True\<rparr>"

definition savePolicy :: "'w ApiEnv \<Rightarrow> (OpsLimits, OpsLimits, 'w) fetcher \<Rightarrow> (unit, LimitsPage, 'w) script" where
  "savePolicy env fetch =
     readS (\<lambda>p. bindS (awaitS (updateLimits env fetch (lmt_formState p)))
       (\<lambda>saved. setS (\<lambda>p. p\<lparr>lmt_limits := saved, lmt_messages := lmt_messages p @ [(uni ''~9650~6D41~7B56~7565~5DF2~4FDD~5B58'')], lmt_editVisible := False\<rparr>)))"

subsection \<open>Alert centre\<close>

datatype Severity = Severity_critical | Severity_high | Severity_medium | Severity_low

record AlertStep =
  ast_time :: string
  ast_text :: string
  ast_color :: string

record AlertItem =
  ai_id :: string
  ai_title :: string
  ai_severity :: Severity
  ai_source :: string
  ai_triggeredAt :: string
  ai_recoveredAt :: "string option"
  ai_timeline :: "AlertStep list"

definition activeAlerts :: "AlertItem list" where
  "activeAlerts =
     [\<lparr>ai_id = ''ALT-1001'', ai_title = (uni ''gateway-a-02 CPU ~6301~7EED~9AD8~4E8E 80%''), ai_severity = Severity_high, ai_source = ''node-status'',
       ai_triggeredAt = ''2026-03-12 10:30:00'', ai_recoveredAt = None,
       ai_timeline = [\<lparr>ast_time = ''10:30:00'', ast_text = (uni ''~9996~6B21~89E6~53D1~9608~503C~544A~8B66''), ast_color = ''red''\<rparr>,
         \<lparr>ast_time = ''10:32:20'', ast_text = (uni ''~81EA~52A8~6269~5BB9~5931~8D25~FF0C~7B49~5F85~4EBA~5DE5~5904~7406''), ast_color = ''orange''\<rparr>]\<rparr>,
      \<lparr>ai_id = ''ALT-1002'', ai_title = (uni ''ORDER_SYNC ~547D~4E2D~9650~6D41~9608~503C''), ai_severity = Severity_medium, ai_source = ''rate-limit'',
       ai_triggeredAt = ''2026-03-12 10:45:00'', ai_recoveredAt = None,
       ai_timeline = [\<lparr>ast_time = ''10:45:00'', ast_text = (uni ''5 ~5206~949F~5185~89E6~53D1 34 ~6B21~9650~6D41''), ast_color = ''gold''\<rparr>,
         \<lparr>ast_time = ''10:46:10'', ast_text = (uni ''~5DF2~901A~77E5~503C~73ED~4EBA~5458''), ast_color = ''blue''\<rparr>]\<rparr>]"

definition recoveredAlerts :: "AlertItem list" where
  "recoveredAlerts =
     [\<lparr>ai_id = ''ALT-0908'', ai_title = (uni ''route-config ~4E0B~53D1~5931~8D25~7387~5347~9AD8''), ai_severity = Severity_critical, ai_source = ''router'',
       ai_triggeredAt = ''2026-03-12 08:10:00'', ai_recoveredAt = Some ''2026-03-12 08:19:30'',
       ai_timeline = [\<lparr>ast_time = ''08:10:00'', ast_text = (uni ''~8FDE~7EED 3 ~6B21~914D~7F6E~4E0B~53D1~5931~8D25''), ast_color = ''red''\<rparr>,
         \<lparr>ast_time = ''08:15:00'', ast_text = (uni ''~56DE~6EDA~4E0A~4E00~7248~672C~8DEF~7531~6A21~677F''), ast_color = ''orange''\<rparr>,
         \<lparr>ast_time = ''08:19:30'', ast_text = (uni ''~6062~590D~6210~529F''), ast_color = ''green''\<rparr>]\<rparr>]"

definition currentList :: "string \<Rightarrow> AlertItem list" where
  "currentList activeTab = (if activeTab = ''active'' then activeAlerts else recoveredAlerts)"

text \<open>\<open>Object.assign(selectedAlert, record)\<close>: a property the record lacks keeps its old value.\<close>

definition selectAlert :: "AlertItem \<Rightarrow> AlertItem \<Rightarrow> AlertItem" where
  "selectAlert record selected = record\<lparr>ai_recoveredAt := nullish_opt (ai_recoveredAt record) (ai_recoveredAt selected)\<rparr>"

subsection \<open>The frame of the console\<close>

definition activeMenuKey :: "string option \<Rightarrow> string" where
  "activeMenuKey name = nullish name ''dashboard''"

definition currentTitle :: "string option \<Rightarrow> string" where
  "currentTitle meta_title = nullish meta_title (uni ''~603B~89C8~76D1~63A7'')"

definition document_title :: "string option \<Rightarrow> string" where
  "document_title meta_title = currentTitle meta_title @ (uni '' - ~96A7~9053~63A7~5236~53F0'')"

record MenuItem =
  mi_key :: string
  mi_label :: string
  mi_title :: string

definition menuItems :: "AppStore \<Rightarrow> MenuItem list" where
  "menuItems store = map (\<lambda>item. \<lparr>mi_key = nav_key item, mi_label = nav_label item, mi_title = nav_label item\<rparr>) (app_navigation store)"

record LayoutPage =
  lay_restarting :: bool
  lay_messages :: "(MessageType \<times> string) list"

text \<open>The confirmed restart.\<close>

definition confirmRestart :: "'w ApiEnv \<Rightarrow> ('b, GatewayRestartResponse, 'w) fetcher \<Rightarrow> string \<Rightarrow> (unit, LayoutPage, 'w) script" where
  "confirmRestart env fetch now =
     guarded (\<lambda>b p. p\<lparr>lay_restarting := b\<rparr>) (\<lambda>p. p) (\<lambda>m p. p\<lparr>lay_messages := lay_messages p @ [(Msg_error, m)]\<rparr>)
       (bindS (awaitS (restartGateway env fetch now))
         (\<lambda>result. setS (\<lambda>p. p\<lparr>lay_messages := lay_messages p @ [(Msg_success, (uni ''~91CD~542F~6307~4EE4~5DF2~63D0~4EA4~FF1A'') @ grr_command result)]\<rparr>)))"

text \<open>The path pushed to the router, if any.\<close>

definition handleMenuClick :: "AppStore \<Rightarrow> string \<Rightarrow> string option" where
  "handleMenuClick store key = map_option nav_path (find (\<lambda>item. nav_key item = key) (app_navigation store))"

subsection \<open>What the handlers do\<close>

lemma port_loop_result:
  "length results \<le> 20 \<Longrightarrow>
     port_loop port stop results = Some (results @ map port_result (take (20 - length results) [port..stop]))"
proof (induction "20 - length results" arbitrary: port results)
  case 0
  then show ?case by (subst port_loop.simps) simp
next
  case (Suc n)
  have short: "length results < 20" using Suc(2) by linarith
  have n: "n = 20 - length (results @ [port_result port])" "length (results @ [port_result port]) \<le> 20" using Suc(2) by auto
  show ?case
  proof (cases "port \<le> stop")
    case True
    have "port_loop port stop results = port_loop (port + 1) stop (results @ [port_result port])"
      using True short by (subst port_loop.simps) simp
    also have "\<dots> = Some ((results @ [port_result port]) @ map port_result (take n [port + 1..stop]))"
      using Suc(1) [OF n] n(1) by simp
    also have "\<dots> = Some (results @ map port_result (take (Suc n) [port..stop]))" using True by (simp add: upto_rec1)
    finally show ?thesis using Suc(2) by simp
  qed (subst port_loop.simps, simp)
qed

lemma runPortCheck_result:
  "runPortCheck p = Some (p\<lparr>otp_portResults :=
     map port_result (take 20 [min (otp_start p) (otp_end p)..max (otp_start p) (otp_end p)])\<rparr>)"
  by (simp add: runPortCheck_def port_loop_result)

lemma catch_with_ok: "\<exists>x. fst (catch_with v req st) = Inr x"
  by (auto simp: catch_with_def split: prod.splits sum.splits)

lemma catch_all_ok:
  "\<exists>x y z. fst (promise_all (catch_with a r1) (promise_all (catch_with b r2) (catch_with c r3)) st) = Inr (x, y, z)"
  using catch_with_ok [of a r1 st] catch_with_ok [of b r2 "snd (catch_with a r1 st)"]
    catch_with_ok [of c r3 "snd (catch_with b r2 (snd (catch_with a r1 st)))"]
  by (auto simp: promise_all_def Let_def split: prod.splits sum.splits)

text \<open>The diagnostics page loads whatever it can: no failure of the three requests is shown.\<close>

lemma loadLatest_no_error: "dgp_error (fst (snd (loadLatest env fr fj fw s))) = []"
proof -
  obtain p st where s: "s = (p, st)" by fastforce
  have "\<exists>x y z. fst (promise_all (catch_with None (map_result Some (fetchLatestLinkTest env fr)))
      (promise_all (catch_with [] (fetchLoadtestJobs env fj)) (catch_with JUndefined (fetchNodeTunnelWorkspace env fw))) st) = Inr (x, y, z)"
    by (rule catch_all_ok)
  then show ?thesis by (auto simp: s loadLatest_def guarded_eval script_simps)
qed

lemma security_load_ends: "fst (security_load env fs fm s) = Inr ()"
  by (simp add: security_load_def guarded_never_rejects)

lemma saveLicense_run:
  "saveLicense env fl fs fm (p, st) =
     (let r = updateLicense env fl \<lparr>lu_token = None, lu_content = Some (scp_licenseContent p)\<rparr> st;
          q = security_reset (p\<lparr>scp_saving := True\<rparr>) in
      case fst r of
        Inl (JsError m) \<Rightarrow> (Inr (), (q\<lparr>scp_error := m, scp_saving := False\<rparr>, snd r))
      | Inr _ \<Rightarrow> (let l = snd (security_load env fs fm (q, snd r)) in
          (Inr (), ((fst l)\<lparr>scp_licenseContent := [], scp_notice := (uni ''~6388~6743~6587~4EF6~5DF2~5BFC~5165~5E76~5B8C~6210~6821~9A8C~3002''), scp_saving := False\<rparr>, snd l))))"
proof -
  let ?q = "security_reset (p\<lparr>scp_saving := True\<rparr>)"
  have c: "scp_licenseContent ?q = scp_licenseContent p" by (simp add: security_reset_def)
  let ?r = "updateLicense env fl \<lparr>lu_token = None, lu_content = Some (scp_licenseContent p)\<rparr> st"
  obtain l where l: "security_load env fs fm (?q, snd ?r) = (Inr (), l)"
    using security_load_ends by (metis prod.collapse)
  show ?thesis unfolding saveLicense_def guarded_eval script_eval(4) c then_eval await_eval
    by (cases l) (simp add: l script_eval(3) Let_def del: uni.simps split: sum.splits js_error.splits)
qed

lemma menu_click_known: "handleMenuClick useAppStore key \<noteq> None \<longleftrightarrow> key \<in> set (map route_name routes)"
  by (auto simp: handleMenuClick_def useAppStore_def navigation_def routes_def simp del: uni.simps)

lemma menu_click_path:
  "handleMenuClick useAppStore key = Some path \<Longrightarrow> path = ''/'' @ key"
  by (auto simp: handleMenuClick_def useAppStore_def navigation_def simp del: uni.simps split: if_splits)

end
