(* ===== verification/DeliveryGuard.thy ===== *)
theory DeliveryGuard
  imports JsValue
begin

text \<open>
  The delivery check \<open>scripts/ui-delivery-guard.mjs\<close>: it looks for files and symbols of retired pages,
  removes the files in repair mode, checks the built console, and exits with a failure when a check
  does not hold. The repository is a tree of files; a path is the list of its components. The report is
  a record; writing it as JSON and printing it are left out, as is its time stamp.

  The names an entry may have come from the file system, so a backslash in one is turned into a slash
  as the code does.
\<close>

subsection \<open>Files\<close>

datatype fsnode = FFile string | FDir "(string \<times> fsnode) list"

type_synonym path = "string list"

fun fs_lookup :: "path \<Rightarrow> fsnode \<Rightarrow> fsnode option" where
  "fs_lookup [] n = Some n"
| "fs_lookup (c # cs) (FFile t) = None"
| "fs_lookup (c # cs) (FDir es) = Option.bind (map_of es c) (fs_lookup cs)"

definition existsSync :: "fsnode \<Rightarrow> path \<Rightarrow> bool" where
  "existsSync fs p \<longleftrightarrow> fs_lookup p fs \<noteq> None"

definition readText :: "fsnode \<Rightarrow> path \<Rightarrow> string" where
  "readText fs p = (case fs_lookup p fs of Some (FFile t) \<Rightarrow> t | _ \<Rightarrow> [])"

text \<open>Removing an entry; \<open>fs.rmSync\<close> without \<open>recursive\<close> throws on a directory.\<close>

fun fs_remove :: "path \<Rightarrow> fsnode \<Rightarrow> fsnode" where
  "fs_remove [] n = n"
| "fs_remove (c # cs) (FFile t) = FFile t"
| "fs_remove [c] (FDir es) = FDir (filter (\<lambda>e. fst e \<noteq> c) es)"
| "fs_remove (c # d # cs) (FDir es) = FDir (map (\<lambda>e. if fst e = c then (c, fs_remove (d # cs) (snd e)) else e) es)"

definition rmSync :: "fsnode \<Rightarrow> path \<Rightarrow> fsnode js_result" where
  "rmSync fs p = (case fs_lookup p fs of Some (FDir _) \<Rightarrow> Inl (JsError ''ERR_FS_EISDIR'') | _ \<Rightarrow> Inr (fs_remove p fs))"

fun path_components :: "string \<Rightarrow> path" where
  "path_components [] = [[]]"
| "path_components (c # s) =
     (if c = CHR ''/'' then [] # path_components s
      else case path_components s of [] \<Rightarrow> [[c]] | d # ds \<Rightarrow> (c # d) # ds)"

fun join_path :: "path \<Rightarrow> string" where
  "join_path [] = []"
| "join_path [c] = c"
| "join_path (c # cs) = c @ ''/'' @ join_path cs"

text \<open>\<open>path.relative(repoRoot, full).replace(/\\/g, '/')\<close>.\<close>

definition rel_path :: "path \<Rightarrow> string" where
  "rel_path p = map (\<lambda>c. if c = CHR 0x5C then CHR ''/'' else c) (join_path p)"

subsection \<open>Arguments\<close>

fun parse_args :: "string list \<Rightarrow> (string \<times> string) list \<Rightarrow> (string \<times> string) list" where
  "parse_args [] args = args"
| "parse_args (key # rest) args =
     (if \<not> prefix ''--'' key then parse_args rest args
      else case rest of
             [] \<Rightarrow> put key ''true'' args
           | next # rest' \<Rightarrow>
               if next = [] \<or> prefix ''--'' next then parse_args rest (put key ''true'' args)
               else parse_args rest' (put key next args))"

record GuardOptions =
  go_mode :: string
  go_jsonStdout :: bool
  go_reportPath :: string
  go_allowMissing :: bool

definition guard_options :: "string list \<Rightarrow> GuardOptions" where
  "guard_options argv =
     (let args = parse_args argv [] in
      \<lparr>go_mode = toLowerCase (str_or (nullish (map_of args ''--mode'') []) ''verify''), go_jsonStdout = (map_of args ''--json-stdout'' \<noteq> None),
       go_reportPath = nullish (map_of args ''--report'') [],
       go_allowMissing = (map_of args ''--allow-missing-embedded-metadata'' \<noteq> None)\<rparr>)"

subsection \<open>What is looked for\<close>

definition legacyFiles :: "string list" where
  "legacyFiles =
     [''gateway-ui/src/views/ConfigGovernanceView.vue'', ''gateway-ui/src/views/ConfigTransferView.vue'',
      ''gateway-ui/src/views/NetworkConfigView.vue'', ''gateway-ui/src/views/NodeStatusView.vue'',
      ''gateway-ui/src/views/__tests__/NodeStatusView.spec.ts'', ''gateway-ui/src/api/__tests__/gatewayConfigTransfer.spec.ts'']"

definition forbiddenSymbols :: "string list" where
  "forbiddenSymbols =
     [''exportConfigJson'', ''importConfigJson'', ''downloadConfigTemplate'', ''fetchConfigGovernance'', ''rollbackConfig'',
      ''exportConfigYaml'', ''fetchNetworkConfig'', ''updateNetworkConfig'', ''createDiagnosticExport'', ''fetchDiagnosticExport'',
      ''retryDiagnosticExport'']"

definition allowedLegacyOnlyFiles :: "string set" where
  "allowedLegacyOnlyFiles =
     {''gateway-ui/src/api/mockGateway.ts'', ''gateway-ui/src/api/__tests__/mockGateway.spec.ts'', ''gateway-ui/src/types/gateway.ts'',
      ''gateway-ui/src/utils/networkConfig.ts'', ''gateway-ui/src/utils/__tests__/networkConfig.spec.ts''}"

definition source_name :: "string \<Rightarrow> bool" where
  "source_name name \<longleftrightarrow> (\<exists>e \<in> set [''.ts'', ''.tsx'', ''.vue'', ''.js'', ''.mjs'', ''.cjs'']. suffix e name)"

fun scan_entries :: "path \<Rightarrow> (string \<times> fsnode) list \<Rightarrow> path list" where
  "scan_entries dir [] = []"
| "scan_entries dir ((name, FDir es) # rest) = scan_entries (dir @ [name]) es @ scan_entries dir rest"
| "scan_entries dir ((name, FFile t) # rest) = (if source_name name then [dir @ [name]] else []) @ scan_entries dir rest"

definition scanFiles :: "fsnode \<Rightarrow> path \<Rightarrow> path list js_result" where
  "scanFiles fs dir = (case fs_lookup dir fs of
     None \<Rightarrow> Inr [] | Some (FDir es) \<Rightarrow> Inr (scan_entries dir es) | Some (FFile _) \<Rightarrow> Inl (JsError ''ENOTDIR''))"

subsection \<open>The run\<close>

text \<open>The loop of repair mode: the tree and the files removed so far.\<close>

fun remove_legacy :: "string list \<Rightarrow> fsnode \<Rightarrow> string list \<Rightarrow> (fsnode \<times> string list) js_result" where
  "remove_legacy [] fs removed = Inr (fs, removed)"
| "remove_legacy (rel # rest) fs removed =
     (if existsSync fs (path_components rel)
      then (case rmSync fs (path_components rel) of Inl e \<Rightarrow> Inl e | Inr fs' \<Rightarrow> remove_legacy rest fs' (removed @ [rel]))
      else remove_legacy rest fs removed)"

definition guard_start :: "GuardOptions \<Rightarrow> fsnode \<Rightarrow> (fsnode \<times> string list) js_result" where
  "guard_start options fs0 = (if go_mode options = ''repair'' then remove_legacy legacyFiles fs0 [] else Inr (fs0, []))"

record SymbolHit =
  sh_file :: string
  sh_symbol :: string

definition file_hits :: "fsnode \<Rightarrow> path \<Rightarrow> SymbolHit list" where
  "file_hits fs full =
     (if rel_path full \<in> allowedLegacyOnlyFiles then []
      else map (\<lambda>symbol. \<lparr>sh_file = rel_path full, sh_symbol = symbol\<rparr>)
             (filter (\<lambda>symbol. sublist symbol (readText fs full)) forbiddenSymbols))"

definition ui_base_path :: path where
  "ui_base_path = [''gateway-ui'', ''src'', ''utils'', ''uiBase.ts'']"

definition vite_path :: path where
  "vite_path = [''gateway-ui'', ''vite.config.ts'']"

definition dist_index :: path where
  "dist_index = [''gateway-ui'', ''dist'', ''index.html'']"

definition embedded_dir :: path where
  "embedded_dir = [''gateway-server'', ''internal'', ''server'', ''embedded-ui'']"

definition guard_checks :: "bool \<Rightarrow> fsnode \<Rightarrow> string list \<Rightarrow> SymbolHit list \<Rightarrow> (string \<times> bool) list" where
  "guard_checks allowMissing fs remaining hits =
     (let meta = existsSync fs (embedded_dir @ [''.siptunnel-ui-embed.json'']);
          distIndex = readText fs dist_index; embeddedIndex = readText fs (embedded_dir @ [''index.html'']) in
      [(''embedded_metadata_actual_present'', meta),
       (''legacy_files_absent'', remaining = []),
       (''active_ui_has_no_legacy_api_refs'', hits = []),
       (''router_base_meta_source_present'', sublist ''meta[name=\"siptunnel-ui-base-path\"]'' (readText fs ui_base_path)),
       (''vite_relative_base_present'', sublist (''base: '' @ [CHR 0x27] @ ''./'' @ [CHR 0x27]) (readText fs vite_path)),
       (''dist_relative_assets_present'', distIndex \<noteq> [] \<longrightarrow> sublist ''./assets/'' distIndex),
       (''embedded_relative_assets_present'', embeddedIndex \<noteq> [] \<longrightarrow> sublist ''./assets/'' embeddedIndex),
       (''embedded_base_meta_present'', embeddedIndex \<noteq> [] \<longrightarrow> sublist ''meta name=\"siptunnel-ui-base-path\"'' embeddedIndex),
       (''embedded_metadata_present'', meta \<or> allowMissing)])"

record GuardReport =
  gr_mode :: string
  gr_passed :: bool
  gr_detail :: "string list"
  gr_removed :: "string list"
  gr_remaining :: "string list"
  gr_hits :: "SymbolHit list"
  gr_checks :: "(string \<times> bool) list"

definition enforced :: "(string \<times> bool) list \<Rightarrow> (string \<times> bool) list" where
  "enforced checks = filter (\<lambda>c. fst c \<noteq> ''embedded_metadata_actual_present'') checks"

definition detail_parts :: "string list \<Rightarrow> string list \<Rightarrow> SymbolHit list \<Rightarrow> string list" where
  "detail_parts removed remaining hits =
     (let parts = (if removed \<noteq> [] then [''removed='' @ string_of_nat (length removed)] else []) @
            (if remaining \<noteq> [] then [''legacy_files='' @ string_of_nat (length remaining)] else []) @
            (if hits \<noteq> [] then [''active_legacy_refs='' @ string_of_nat (length hits)] else [])
      in if parts = [] then [''no legacy drift detected''] else parts)"

definition guard_run :: "string list \<Rightarrow> fsnode \<Rightarrow> (GuardReport \<times> fsnode) js_result" where
  "guard_run argv fs0 =
     (let options = guard_options argv in
      case guard_start options fs0 of
        Inl e \<Rightarrow> Inl e
      | Inr (fs, removed) \<Rightarrow>
          (let remaining = filter (\<lambda>rel. existsSync fs (path_components rel)) legacyFiles in
           case scanFiles fs [''gateway-ui'', ''src''] of
             Inl e \<Rightarrow> Inl e
           | Inr files \<Rightarrow>
               (let hits = concat (map (file_hits fs) files);
                    checks = guard_checks (go_allowMissing options) fs remaining hits
                in Inr (\<lparr>gr_mode = go_mode options, gr_passed = (filter (\<lambda>c. \<not> snd c) (enforced checks) = []),
                         gr_detail = detail_parts removed remaining hits, gr_removed = removed, gr_remaining = remaining,
                         gr_hits = hits, gr_checks = checks\<rparr>, fs))))"

definition exit_code :: "GuardReport \<Rightarrow> nat" where
  "exit_code r = (if gr_passed r then 0 else 1)"

subsection \<open>Removing files\<close>

lemma map_of_map_entry:
  "map_of (map (\<lambda>e. if fst e = c then (c, f (snd e)) else e) es) d = (if d = c then map_option f (map_of es c) else map_of es d)"
  by (induction es) auto

lemma map_of_filter_entry: "map_of (filter (\<lambda>e. fst e \<noteq> c) es) d = (if d = c then None else map_of es d)"
  by (induction es) auto

lemma lookup_removed: "p \<noteq> [] \<Longrightarrow> fs_lookup p (fs_remove p fs) = None"
proof (induction p fs rule: fs_remove.induct)
  case (4 c d cs es)
  then show ?case
    by (cases "map_of es c") (auto simp: map_of_map_entry dest: map_of_SomeD)
qed (simp_all add: map_of_filter_entry)

lemma lookup_kept:
  "\<not> prefix p q \<Longrightarrow> fs_lookup q (fs_remove p fs) = Some (FFile t) \<longleftrightarrow> fs_lookup q fs = Some (FFile t)"
proof (induction p fs arbitrary: q rule: fs_remove.induct)
  case (3 c es)
  then show ?case by (cases q) (auto simp: map_of_filter_entry)
next
  case (4 c d cs es)
  show ?case
  proof (cases q)
    case (Cons a q')
    show ?thesis
    proof (cases "a = c")
      case True
      then have "\<not> prefix (d # cs) q'" using 4(2) Cons by simp
      then show ?thesis using 4(1) True Cons
        by (cases "map_of es c") (auto simp: map_of_map_entry dest: map_of_SomeD)
    qed (simp add: Cons map_of_map_entry)
  qed simp
qed simp_all

lemma exists_kept: "\<not> prefix p q \<Longrightarrow> fs_lookup q (fs_remove p fs) = None \<longleftrightarrow> fs_lookup q fs = None"
proof (induction p fs arbitrary: q rule: fs_remove.induct)
  case (3 c es)
  then show ?case by (cases q) (auto simp: map_of_filter_entry)
next
  case (4 c d cs es)
  show ?case
  proof (cases q)
    case (Cons a q')
    show ?thesis
    proof (cases "a = c")
      case True
      then have "\<not> prefix (d # cs) q'" using 4(2) Cons by simp
      then show ?thesis using 4(1) True Cons
        by (cases "map_of es c") (auto simp: map_of_map_entry dest: map_of_SomeD)
    qed (simp add: Cons map_of_map_entry)
  qed simp
qed simp_all

lemma lookup_below: "fs_lookup (p @ q) fs = Option.bind (fs_lookup p fs) (fs_lookup q)"
proof (induction p fs rule: fs_lookup.induct)
  case (3 c cs es)
  then show ?case by (cases "map_of es c") auto
qed simp_all

text \<open>A path stays absent while others are removed.\<close>

lemma absent_stays: "p \<noteq> [] \<Longrightarrow> fs_lookup q fs = None \<Longrightarrow> fs_lookup q (fs_remove p fs) = None"
proof (cases "prefix p q")
  case True
  assume "p \<noteq> []"
  from True obtain r where "q = p @ r" by (auto simp: prefix_def)
  then show ?thesis by (simp add: lookup_below lookup_removed [OF \<open>p \<noteq> []\<close>])
qed (simp add: exists_kept)

lemma path_components_nonempty [simp]: "path_components s \<noteq> []"
  by (cases s) (auto split: list.splits)

lemma remove_legacy_absent:
  "remove_legacy rels fs removed = Inr (fs', removed') \<Longrightarrow>
     (\<forall>rel \<in> set rels. \<not> existsSync fs' (path_components rel)) \<and> (\<forall>q. fs_lookup q fs = None \<longrightarrow> fs_lookup q fs' = None)"
proof (induction rels arbitrary: fs removed)
  case (Cons rel rels)
  let ?p = "path_components rel"
  show ?case
  proof (cases "existsSync fs ?p")
    case True
    with Cons.prems obtain fs1 where fs1: "rmSync fs ?p = Inr fs1" "remove_legacy rels fs1 (removed @ [rel]) = Inr (fs', removed')"
      by (auto split: sum.splits)
    have eq: "fs1 = fs_remove ?p fs" using fs1(1) by (auto simp: rmSync_def split: option.splits fsnode.splits)
    from Cons.IH [OF fs1(2)] show ?thesis
      using lookup_removed [of ?p fs] absent_stays [of ?p _ fs] by (auto simp: eq existsSync_def)
  next
    case False
    then have "remove_legacy rels fs removed = Inr (fs', removed')" using Cons.prems by simp
    from Cons.IH [OF this] False show ?thesis by (auto simp: existsSync_def)
  qed
qed simp

lemma remove_legacy_kept:
  "remove_legacy rels fs removed = Inr (fs', removed') \<Longrightarrow> \<forall>rel \<in> set rels. \<not> prefix (path_components rel) q \<Longrightarrow>
     fs_lookup q fs' = Some (FFile t) \<longleftrightarrow> fs_lookup q fs = Some (FFile t)"
proof (induction rels arbitrary: fs removed)
  case (Cons rel rels)
  show ?case
  proof (cases "existsSync fs (path_components rel)")
    case True
    with Cons.prems(1) obtain fs1 where fs1: "rmSync fs (path_components rel) = Inr fs1" "remove_legacy rels fs1 (removed @ [rel]) = Inr (fs', removed')"
      by (auto split: sum.splits)
    have "fs1 = fs_remove (path_components rel) fs" using fs1(1) by (auto simp: rmSync_def split: option.splits fsnode.splits)
    then show ?thesis using Cons.IH [OF fs1(2)] Cons.prems(2) lookup_kept by auto
  next
    case False
    then have "remove_legacy rels fs removed = Inr (fs', removed')" using Cons.prems by simp
    then show ?thesis using Cons.IH Cons.prems(2) by simp
  qed
qed simp

lemma remove_legacy_removed:
  "remove_legacy rels fs removed = Inr (fs', removed') \<Longrightarrow>
     \<forall>a \<in> set rels. \<forall>b \<in> set rels. a \<noteq> b \<longrightarrow> \<not> prefix (path_components a) (path_components b) \<Longrightarrow> distinct rels \<Longrightarrow>
     removed' = removed @ filter (\<lambda>rel. existsSync fs (path_components rel)) rels"
proof (induction rels arbitrary: fs removed)
  case (Cons rel rels)
  show ?case
  proof (cases "existsSync fs (path_components rel)")
    case True
    with Cons.prems(1) obtain fs1 where fs1: "rmSync fs (path_components rel) = Inr fs1" "remove_legacy rels fs1 (removed @ [rel]) = Inr (fs', removed')"
      by (auto split: sum.splits)
    have "fs1 = fs_remove (path_components rel) fs" using fs1(1) by (auto simp: rmSync_def split: option.splits fsnode.splits)
    then have "existsSync fs1 (path_components b) = existsSync fs (path_components b)" if "b \<in> set rels" for b
      using exists_kept [of "path_components rel" "path_components b" fs] Cons.prems(2,3) that by (auto simp: existsSync_def)
    then have "filter (\<lambda>rel. existsSync fs1 (path_components rel)) rels = filter (\<lambda>rel. existsSync fs (path_components rel)) rels"
      by (intro filter_cong) auto
    then show ?thesis using Cons.IH [OF fs1(2)] Cons.prems(2,3) True by simp
  next
    case False
    then have "remove_legacy rels fs removed = Inr (fs', removed')" using Cons.prems by simp
    then show ?thesis using Cons.IH Cons.prems(2,3) False by simp
  qed
qed simp

lemma legacy_unrelated:
  "\<forall>a \<in> set legacyFiles. \<forall>b \<in> set legacyFiles. a \<noteq> b \<longrightarrow> \<not> prefix (path_components a) (path_components b)" "distinct legacyFiles"
  by code_simp+

subsection \<open>Scanning\<close>

text \<open>A directory has at most one entry of a name.\<close>

fun wf_entries :: "(string \<times> fsnode) list \<Rightarrow> bool" where
  "wf_entries [] \<longleftrightarrow> True"
| "wf_entries ((name, FDir es) # rest) \<longleftrightarrow> name \<notin> fst ` set rest \<and> wf_entries es \<and> wf_entries rest"
| "wf_entries ((name, FFile t) # rest) \<longleftrightarrow> name \<notin> fst ` set rest \<and> wf_entries rest"

definition wf_fs :: "fsnode \<Rightarrow> bool" where
  "wf_fs n \<longleftrightarrow> (case n of FFile _ \<Rightarrow> True | FDir es \<Rightarrow> wf_entries es)"

lemma wf_entries_lookup: "wf_entries es \<Longrightarrow> map_of es c = Some n \<Longrightarrow> wf_fs n"
  by (induction es rule: wf_entries.induct) (auto simp: wf_fs_def split: if_splits)

lemma wf_lookup: "wf_fs fs \<Longrightarrow> fs_lookup p fs = Some n \<Longrightarrow> wf_fs n"
proof (induction p fs rule: fs_lookup.induct)
  case (3 c cs es)
  then obtain m where "map_of es c = Some m" "fs_lookup cs m = Some n" by (auto split: bind_splits)
  with 3 wf_entries_lookup [of es c m] show ?case by (auto simp: wf_fs_def)
qed simp_all

lemma map_of_none: "name \<notin> fst ` set rest \<Longrightarrow> map_of rest name = None"
  by (simp add: map_of_eq_None_iff)

lemma scan_entries_iff:
  "wf_entries es \<Longrightarrow>
     p \<in> set (scan_entries dir es) \<longleftrightarrow>
       (\<exists>q t. p = dir @ q \<and> q \<noteq> [] \<and> fs_lookup q (FDir es) = Some (FFile t) \<and> source_name (last q))"
proof (induction dir es rule: scan_entries.induct)
  case (1 dir)
  have "fs_lookup q (FDir []) \<noteq> Some (FFile t)" if "q \<noteq> []" for q t using that by (cases q) auto
  then show ?case by auto
next
  case (2 dir name es rest)
  have sub: "p \<in> set (scan_entries (dir @ [name]) es) \<longleftrightarrow>
      (\<exists>r t. p = dir @ name # r \<and> r \<noteq> [] \<and> fs_lookup r (FDir es) = Some (FFile t) \<and> source_name (last r))"
    using 2 by simp
  have rest: "p \<in> set (scan_entries dir rest) \<longleftrightarrow>
      (\<exists>q t. p = dir @ q \<and> q \<noteq> [] \<and> fs_lookup q (FDir rest) = Some (FFile t) \<and> source_name (last q))"
    using 2 by simp
  have split: "q \<noteq> [] \<and> fs_lookup q (FDir ((name, FDir es) # rest)) = Some (FFile t) \<and> source_name (last q) \<longleftrightarrow>
      (\<exists>r. q = name # r \<and> r \<noteq> [] \<and> fs_lookup r (FDir es) = Some (FFile t) \<and> source_name (last r)) \<or>
      (q \<noteq> [] \<and> fs_lookup q (FDir rest) = Some (FFile t) \<and> source_name (last q))" for q t
    using 2(3) map_of_none [of name rest] by (cases q; cases "tl q") (auto simp: last_ConsR)
  show ?case unfolding scan_entries.simps set_append Un_iff sub rest using split by blast
next
  case (3 dir name u rest)
  have rest: "p \<in> set (scan_entries dir rest) \<longleftrightarrow>
      (\<exists>q t. p = dir @ q \<and> q \<noteq> [] \<and> fs_lookup q (FDir rest) = Some (FFile t) \<and> source_name (last q))"
    using 3 by simp
  have split: "q \<noteq> [] \<and> fs_lookup q (FDir ((name, FFile u) # rest)) = Some (FFile t) \<and> source_name (last q) \<longleftrightarrow>
      (q = [name] \<and> t = u \<and> source_name name) \<or> (q \<noteq> [] \<and> fs_lookup q (FDir rest) = Some (FFile t) \<and> source_name (last q))" for q t
    using 3(2) map_of_none [of name rest] by (cases q; cases "tl q") auto
  show ?case unfolding scan_entries.simps set_append Un_iff rest using split by auto
qed

definition active_files :: "fsnode \<Rightarrow> path set" where
  "active_files fs = {p. \<exists>q t. p = [''gateway-ui'', ''src''] @ q \<and> q \<noteq> [] \<and> fs_lookup p fs = Some (FFile t) \<and> source_name (last q)}"

lemma scanFiles_active:
  assumes "wf_fs fs" "scanFiles fs [''gateway-ui'', ''src''] = Inr files"
  shows "set files = active_files fs"
proof (cases "fs_lookup [''gateway-ui'', ''src''] fs")
  case None
  then have "files = []" using assms(2) by (simp add: scanFiles_def)
  then show ?thesis using None lookup_below [of "[''gateway-ui'', ''src'']" _ fs] by (auto simp: active_files_def)
next
  case (Some n)
  then obtain es where es: "n = FDir es" "files = scan_entries [''gateway-ui'', ''src''] es"
    using assms(2) by (auto simp: scanFiles_def split: fsnode.splits)
  have "wf_entries es" using wf_lookup [OF assms(1) Some] by (simp add: es wf_fs_def)
  from scan_entries_iff [OF this] show ?thesis
    using Some lookup_below [of "[''gateway-ui'', ''src'']" _ fs] by (auto simp: es active_files_def)
qed

lemma file_hits_empty:
  "file_hits fs p = [] \<longleftrightarrow> rel_path p \<in> allowedLegacyOnlyFiles \<or> (\<forall>symbol \<in> set forbiddenSymbols. \<not> sublist symbol (readText fs p))"
  by (auto simp: file_hits_def filter_empty_conv)

lemma hits_empty_iff:
  assumes "wf_fs fs" "scanFiles fs [''gateway-ui'', ''src''] = Inr files"
  shows "concat (map (file_hits fs) files) = [] \<longleftrightarrow>
    (\<forall>p \<in> active_files fs. rel_path p \<in> allowedLegacyOnlyFiles \<or> (\<forall>symbol \<in> set forbiddenSymbols. \<not> sublist symbol (readText fs p)))"
  unfolding scanFiles_active [OF assms, symmetric] by (simp add: file_hits_empty)

subsection \<open>The run\<close>

lemma guard_run_ok:
  assumes "guard_run argv fs0 = Inr (r, fs)"
  obtains files where "scanFiles fs [''gateway-ui'', ''src''] = Inr files" "gr_hits r = concat (map (file_hits fs) files)"
    "gr_remaining r = filter (\<lambda>rel. existsSync fs (path_components rel)) legacyFiles"
    "gr_checks r = guard_checks (go_allowMissing (guard_options argv)) fs (gr_remaining r) (gr_hits r)"
    "gr_passed r \<longleftrightarrow> filter (\<lambda>c. \<not> snd c) (enforced (gr_checks r)) = []"
    "guard_start (guard_options argv) fs0 = Inr (fs, gr_removed r)"
proof -
  note run = assms [unfolded guard_run_def Let_def]
  obtain fs1 removed where start: "guard_start (guard_options argv) fs0 = Inr (fs1, removed)"
    using run by (cases "guard_start (guard_options argv) fs0") auto
  note run1 = run [unfolded start sum.case prod.case]
  obtain files where files: "scanFiles fs1 [''gateway-ui'', ''src''] = Inr files"
    using run1 by (cases "scanFiles fs1 [''gateway-ui'', ''src'']") auto
  note run2 = run1 [unfolded files sum.case Inr_inject prod.inject]
  show ?thesis by (rule that [of files]) (use run2 files start in \<open>auto simp del: concat_map_singleton\<close>)
qed

lemma enforced_checks: "enforced (guard_checks allow fs remaining hits) = drop 1 (guard_checks allow fs remaining hits)"
  by (simp only: guard_checks_def Let_def enforced_def filter.simps fst_conv drop_Suc_Cons One_nat_def drop0) simp

lemma first_checks:
  "set (drop 1 (guard_checks allow fs remaining hits)) =
     {(''legacy_files_absent'', remaining = []), (''active_ui_has_no_legacy_api_refs'', hits = [])} \<union>
     set (drop 3 (guard_checks allow fs remaining hits))"
  by (simp only: guard_checks_def Let_def numeral_3_eq_3 One_nat_def drop_Suc_Cons drop0 list.set Un_insert_left Un_empty_left)

lemma guard_passed_iff:
  assumes "gr_checks r = guard_checks allow fs (gr_remaining r) (gr_hits r)"
    and "gr_passed r \<longleftrightarrow> filter (\<lambda>c. \<not> snd c) (enforced (gr_checks r)) = []"
  shows "gr_passed r \<longleftrightarrow> gr_remaining r = [] \<and> gr_hits r = [] \<and> (\<forall>c \<in> set (drop 3 (gr_checks r)). snd c)"
  unfolding assms(2) unfolding assms(1) enforced_checks filter_empty_conv first_checks by auto

text \<open>What a finished run has established about the tree it leaves behind.\<close>

lemma repair_effect:
  assumes "guard_run argv fs0 = Inr (r, fs)" "go_mode (guard_options argv) = ''repair''"
  shows "gr_remaining r = []" "gr_removed r = filter (\<lambda>rel. existsSync fs0 (path_components rel)) legacyFiles"
    "\<forall>rel \<in> set legacyFiles. \<not> prefix (path_components rel) q \<Longrightarrow> fs_lookup q fs = Some (FFile t) \<longleftrightarrow> fs_lookup q fs0 = Some (FFile t)"
proof -
  from guard_run_ok [OF assms(1)] have rem: "remove_legacy legacyFiles fs0 [] = Inr (fs, gr_removed r)"
    and left: "gr_remaining r = filter (\<lambda>rel. existsSync fs (path_components rel)) legacyFiles"
    using assms(2) by (auto simp: guard_start_def)
  show "gr_remaining r = []" unfolding left using remove_legacy_absent [OF rem] by (simp add: filter_empty_conv)
  show "gr_removed r = filter (\<lambda>rel. existsSync fs0 (path_components rel)) legacyFiles"
    using remove_legacy_removed [OF rem legacy_unrelated] by simp
  show "\<forall>rel \<in> set legacyFiles. \<not> prefix (path_components rel) q \<Longrightarrow> fs_lookup q fs = Some (FFile t) \<longleftrightarrow> fs_lookup q fs0 = Some (FFile t)"
    by (rule remove_legacy_kept [OF rem])
qed

lemma verify_effect: "guard_run argv fs0 = Inr (r, fs) \<Longrightarrow> go_mode (guard_options argv) \<noteq> ''repair'' \<Longrightarrow> fs = fs0 \<and> gr_removed r = []"
  by (auto elim!: guard_run_ok simp: guard_start_def)

text \<open>
  A run throws only when a directory stands where a retired file is expected, or a file where the
  sources are.
\<close>

definition legacy_plain :: "fsnode \<Rightarrow> bool" where
  "legacy_plain fs \<longleftrightarrow> (\<forall>rel \<in> set legacyFiles. \<forall>es. fs_lookup (path_components rel) fs \<noteq> Some (FDir es))"

definition console_dir :: "fsnode \<Rightarrow> bool" where
  "console_dir fs \<longleftrightarrow> (\<forall>t. fs_lookup [''gateway-ui'', ''src''] fs \<noteq> Some (FFile t))"

lemma directory_kept:
  "\<not> prefix p q \<Longrightarrow> (\<exists>es. fs_lookup q (fs_remove p fs) = Some (FDir es)) \<longleftrightarrow> (\<exists>es. fs_lookup q fs = Some (FDir es))"
proof -
  assume pq: "\<not> prefix p q"
  have "(\<exists>es. x = Some (FDir es)) \<longleftrightarrow> x \<noteq> None \<and> (\<forall>t. x \<noteq> Some (FFile t))" for x
    by (cases x) (auto, metis fsnode.exhaust)
  then show ?thesis using lookup_kept [OF pq, of fs] exists_kept [OF pq, of fs] by auto
qed

lemma remove_legacy_returns:
  "\<forall>a \<in> set rels. \<forall>b \<in> set rels. a \<noteq> b \<longrightarrow> \<not> prefix (path_components a) (path_components b) \<Longrightarrow> distinct rels \<Longrightarrow>
   \<forall>rel \<in> set rels. \<forall>es. fs_lookup (path_components rel) fs \<noteq> Some (FDir es) \<Longrightarrow>
     \<exists>out. remove_legacy rels fs removed = Inr out"
proof (induction rels arbitrary: fs removed)
  case (Cons rel rels)
  let ?p = "path_components rel"
  show ?case
  proof (cases "existsSync fs ?p")
    case True
    have "rmSync fs ?p = Inr (fs_remove ?p fs)"
      using Cons.prems(3) by (auto simp: rmSync_def split: option.splits fsnode.splits)
    moreover have "\<forall>b \<in> set rels. \<forall>es. fs_lookup (path_components b) (fs_remove ?p fs) \<noteq> Some (FDir es)"
      using directory_kept [of ?p _ fs] Cons.prems by (metis distinct.simps(2) list.set_intros)
    ultimately show ?thesis using Cons.IH [of "fs_remove ?p fs" "removed @ [rel]"] Cons.prems True by simp
  next
    case False
    then show ?thesis using Cons.IH [of fs removed] Cons.prems by simp
  qed
qed simp

lemma guard_run_returns:
  assumes "legacy_plain fs0" "console_dir fs0"
  shows "\<exists>out. guard_run argv fs0 = Inr out"
proof -
  obtain fs removed where start: "guard_start (guard_options argv) fs0 = Inr (fs, removed)"
    using remove_legacy_returns [OF legacy_unrelated, of fs0 "[]"] assms(1)
    by (cases "go_mode (guard_options argv) = ''repair''") (auto simp: guard_start_def legacy_plain_def)
  have away: "\<forall>rel \<in> set legacyFiles. \<not> prefix (path_components rel) [''gateway-ui'', ''src'']" by code_simp
  have "fs_lookup [''gateway-ui'', ''src''] fs = Some (FFile t) \<longleftrightarrow> fs_lookup [''gateway-ui'', ''src''] fs0 = Some (FFile t)" for t
    using start remove_legacy_kept [OF _ away, of fs0 "[]" fs removed t] by (auto simp: guard_start_def split: if_splits)
  then have "\<exists>files. scanFiles fs [''gateway-ui'', ''src''] = Inr files"
    using assms(2) by (auto simp: scanFiles_def console_dir_def split: option.splits fsnode.splits)
  then show ?thesis using start by (auto simp: guard_run_def Let_def)
qed

end
