(* ===== verification/BuildChunks.thy ===== *)
theory BuildChunks
  imports UiShell
begin

text \<open>
  The chunk rules of the production build (\<open>vite.config.ts\<close>): which bundle a module goes to, by the
  path the bundler gives it. \<open>undefined\<close> leaves the choice to the bundler.
\<close>

definition normalizeId :: "string \<Rightarrow> string" where
  "normalizeId i = map (\<lambda>c. if c = CHR 0x5C then CHR ''/'' else c) i"

definition includes_any :: "string list \<Rightarrow> string \<Rightarrow> bool" where
  "includes_any ws i \<longleftrightarrow> (\<exists>w \<in> set ws. sublist w i)"

definition featureChunkName :: "string \<Rightarrow> string option" where
  "featureChunkName rawId =
     (let i = normalizeId rawId in
      if \<not> sublist ''/src/'' i then None
      else if sublist ''/src/api/mockGateway'' i then Some ''mock-gateway''
      else if sublist ''/src/views/'' i \<and> includes_any [''DashboardView'', ''AccessLogsView'', ''OpsAuditsView'', ''LinkMonitorView''] i
        then Some ''feature-observability''
      else if sublist ''/src/views/'' i \<and> includes_any [''AlertsAndRateLimitView''] i then Some ''feature-protection''
      else if sublist ''/src/views/'' i \<and> includes_any [''SecurityCenterView'', ''SecurityEventsView''] i then Some ''feature-security''
      else if sublist ''/src/views/'' i \<and> includes_any [''TunnelMappingsView'', ''LocalResourcesView'', ''NodesAndTunnelsView''] i
        then Some ''feature-tunnel-ops''
      else if sublist ''/src/views/'' i \<and> includes_any [''SystemSettingsView''] i then Some ''feature-system-settings''
      else if sublist ''/src/views/'' i \<and> includes_any [''DiagnosticsLoadtestView''] i then Some ''feature-admin-tools''
      else if sublist ''/src/api/'' i then Some ''gateway-api''
      else None)"

definition vendorChunkName :: "string \<Rightarrow> string option" where
  "vendorChunkName rawId =
     (let i = normalizeId rawId in
      if \<not> sublist ''node_modules'' i then None
      else if sublist ''/@babel/runtime/'' i then Some ''vendor-babel-runtime''
      else if includes_any [''/dayjs/'', ''/@ctrl/tinycolor/'', ''/compute-scroll-into-view/'', ''/scroll-into-view-if-needed/'',
          ''/resize-observer-polyfill/'', ''/throttle-debounce/'', ''/async-validator/''] i then Some ''vendor-ui-utils''
      else if includes_any [''/@rc-component/'', ''/rc-'', ''ant-design-vue''] i then Some ''vendor-antd''
      else if sublist ''@ant-design/icons-vue'' i then Some ''vendor-antd-icons''
      else if includes_any [''/vue/'', ''/vue-router/'', ''/pinia/''] i then Some ''vendor-vue''
      else Some ''vendor'')"

definition manualChunks :: "string \<Rightarrow> string option" where
  "manualChunks i = nullish_opt (vendorChunkName i) (featureChunkName i)"

text \<open>Library code and the console's own code never share a bundle.\<close>

lemma vendor_prefix: "vendorChunkName i = Some c \<Longrightarrow> prefix ''vendor'' c"
  by (auto simp: vendorChunkName_def Let_def split: if_splits)

lemma vendor_total: "vendorChunkName i \<noteq> None \<longleftrightarrow> sublist ''node_modules'' (normalizeId i)"
  by (auto simp: vendorChunkName_def Let_def)

lemma feature_names:
  "featureChunkName i \<in> {None, Some ''mock-gateway'', Some ''feature-observability'', Some ''feature-protection'',
     Some ''feature-security'', Some ''feature-tunnel-ops'', Some ''feature-system-settings'', Some ''feature-admin-tools'',
     Some ''gateway-api''}"
  unfolding featureChunkName_def Let_def by (simp only: insert_iff split: if_split) simp

lemma feature_not_vendor: "featureChunkName i = Some c \<Longrightarrow> \<not> prefix ''vendor'' c"
  using feature_names [of i] by auto

lemma manualChunks_vendor: "(\<exists>c. manualChunks i = Some c \<and> prefix ''vendor'' c) \<longleftrightarrow> sublist ''node_modules'' (normalizeId i)"
  using vendor_prefix vendor_total [of i] feature_not_vendor
  by (cases "vendorChunkName i") (auto simp: manualChunks_def nullish_opt_def)

end
