(* ===== verification/Markup.thy ===== *)
theory Markup
  imports PageRuntime
begin

text \<open>
  What the templates of the pages (\<open><template>\<close> of \<open>views/*.vue\<close>) are translated to: a tree of elements
  with their props, their events and the variables they are bound to. A template becomes a function from
  the page to such a tree. \<open>v-if\<close> is a choice between lists of nodes, \<open>v-for\<close> maps over a list, a
  scoped slot of a list or a table is applied to every item or cell, a named slot is an element
  \<open>template\<close>. Left out are the attributes that only lay out a page (\<open>class\<close>, \<open>style\<close>, the columns and
  gutters of the grid), the keys of the renderer and props that are literal objects (sizes, texts of
  empty tables).

  \<open>v-model:x="e"\<close> is \<open>Model x\<close> with the value shown and the assignment an edit makes. A numeric control
  delivers a number and a text control a text, as the components of Ant Design document; clearing a
  number is not modelled where the variable is declared a number.
\<close>

datatype ('h, 'p) attr =
    Const string string
  | Bind string jsval
  | On string 'h
  | OnArg string "jsval \<Rightarrow> 'h"
  | Model string jsval "jsval \<Rightarrow> 'p \<Rightarrow> 'p"

datatype ('h, 'p) node =
    Text string
  | El string "('h, 'p) attr list" "('h, 'p) node list"

named_theorems view_simps \<open>what a tree of nodes contains\<close>

subsection \<open>Values\<close>

definition as_text :: "jsval \<Rightarrow> string" where
  "as_text v = (case v of JStr s \<Rightarrow> s | _ \<Rightarrow> [])"

definition as_num :: "jsval \<Rightarrow> rat" where
  "as_num v = (case v of JNum x \<Rightarrow> x | _ \<Rightarrow> 0)"

definition as_int :: "jsval \<Rightarrow> int" where
  "as_int v = \<lfloor>as_num v\<rfloor>"

definition as_bool :: "jsval \<Rightarrow> bool" where
  "as_bool v \<longleftrightarrow> v = JBool True"

lemma as_value [simp]:
  "as_text (JStr s) = s" "as_num (JNum x) = x" "as_int (JInt n) = n" "as_bool (JBool b) = b"
  by (simp_all add: as_text_def as_num_def as_int_def as_bool_def)

text \<open>\<open>{{ v }}\<close>: nothing for a missing value. Lists and objects are not interpolated by the pages.\<close>

definition display :: "jsval \<Rightarrow> string" where
  "display v = (if is_nullish v then [] else js_String v)"

text \<open>\<open>v.join(sep)\<close> and \<open>v?.length\<close> on a dynamic list.\<close>

definition json_join :: "string \<Rightarrow> jsval \<Rightarrow> jsval" where
  "json_join sep v =
     (if is_array v then JStr (join_with sep (map (\<lambda>x. if is_nullish x then [] else js_String x) (elements v))) else JUndefined)"

definition json_length :: "jsval \<Rightarrow> int" where
  "json_length v = int (length (elements v))"

definition text_opt :: "jsval \<Rightarrow> string option" where
  "text_opt v = (case v of JStr s \<Rightarrow> Some s | _ \<Rightarrow> None)"

definition int_opt :: "jsval \<Rightarrow> int option" where
  "int_opt v = (case v of JNum x \<Rightarrow> Some \<lfloor>x\<rfloor> | _ \<Rightarrow> None)"

text \<open>A value that may be missing, as the value of a prop.\<close>

fun opt_json :: "('a \<Rightarrow> jsval) \<Rightarrow> 'a option \<Rightarrow> jsval" where
  "opt_json g None = JUndefined"
| "opt_json g (Some v) = g v"

text \<open>Two texts that begin with different characters differ.\<close>

lemma hd_uni:
  "hd (uni (CHR ''~'' # a # b # d # e # s)) = hd (utf8_unit (4096 * hex_val a + 256 * hex_val b + 16 * hex_val d + hex_val e))"
  by (simp add: utf8_unit_def)

lemmas uni_heads = hd_uni utf8_unit_def hex_val_def

subsection \<open>Tables\<close>

text \<open>
  A table shows a row for each record and a cell for each column: what the slot \<open>bodyCell\<close> gives for it,
  and the field of the record the column names when the slot gives nothing.
\<close>

record Column =
  col_title :: string
  col_dataIndex :: string
  col_key :: string

definition column :: "string \<Rightarrow> string \<Rightarrow> string \<Rightarrow> Column" where
  "column title dataIndex key = \<lparr>col_title = title, col_dataIndex = dataIndex, col_key = key\<rparr>"

definition table_cell :: "('r \<Rightarrow> string \<Rightarrow> string) \<Rightarrow> 'r \<Rightarrow> Column \<Rightarrow> ('h, 'p) node list \<Rightarrow> ('h, 'p) node list" where
  "table_cell field r c slot = (if slot = [] then [Text (field r (col_dataIndex c))] else slot)"

definition table_body ::
  "Column list \<Rightarrow> 'r list \<Rightarrow> (Column \<Rightarrow> 'r \<Rightarrow> ('h, 'p) node list) \<Rightarrow> ('r \<Rightarrow> string \<Rightarrow> string) \<Rightarrow> ('h, 'p) node list" where
  "table_body columns rows slot field =
     El ''thead'' [] (map (\<lambda>c. El ''th'' [] [Text (col_title c)]) columns) #
     map (\<lambda>r. El ''tr'' [] (map (\<lambda>c. El ''td'' [] (table_cell field r c (slot c r))) columns)) rows"

subsection \<open>What a tree contains\<close>

text \<open>The value of a prop.\<close>

fun prop_val :: "string \<Rightarrow> ('h, 'p) attr list \<Rightarrow> jsval" where
  "prop_val k [] = JUndefined"
| "prop_val k (Const k' s # ps) = (if k' = k then JStr s else prop_val k ps)"
| "prop_val k (Bind k' v # ps) = (if k' = k then v else prop_val k ps)"
| "prop_val k (Model k' v u # ps) = (if k' = k then v else prop_val k ps)"
| "prop_val k (On e h # ps) = prop_val k ps"
| "prop_val k (OnArg e h # ps) = prop_val k ps"

text \<open>A drawer or a dialog shows nothing until it is open.\<close>

definition closed :: "string \<Rightarrow> ('h, 'p) attr list \<Rightarrow> bool" where
  "closed t ps \<longleftrightarrow> (t = ''a-drawer'' \<or> t = ''a-modal'') \<and> \<not> truthy (prop_val ''open'' ps)"

text \<open>Collecting over all elements shown, outermost first.\<close>

fun collect :: "(string \<Rightarrow> ('h, 'p) attr list \<Rightarrow> 'x list) \<Rightarrow> ('h, 'p) node \<Rightarrow> 'x list" where
  "collect f (Text s) = []"
| "collect f (El t ps cs) = (if closed t ps then [] else f t ps @ concat (map (collect f) cs))"

definition collects :: "(string \<Rightarrow> ('h, 'p) attr list \<Rightarrow> 'x list) \<Rightarrow> ('h, 'p) node list \<Rightarrow> 'x list" where
  "collects f ns = concat (map (collect f) ns)"

lemma collects_simps:
  "collects f [] = []" "collects f (Text s # ns) = collects f ns"
  "collects f (El t ps cs # ns) = (if closed t ps then [] else f t ps @ collects f cs) @ collects f ns"
  "collects f (ns @ ns') = collects f ns @ collects f ns'"
  "collects f (if b then ns else ns') = (if b then collects f ns else collects f ns')"
  "collects f (concat nss) = concat (map (collects f) nss)"
  "collects f (case x of None \<Rightarrow> ns | Some y \<Rightarrow> h y) = (case x of None \<Rightarrow> collects f ns | Some y \<Rightarrow> collects f (h y))"
  "collects f (map g xs) = concat (map (\<lambda>x. collects f [g x]) xs)"
  by (simp_all add: collects_def comp_def split: option.split) (induction nss; simp add: collects_def)

text \<open>
  An element reacts unless it is disabled or loading. The cover of a spinning \<open>a-spin\<close> only keeps the
  pointer off its content, so the elements under it still count.
\<close>

definition reacts :: "('h, 'p) attr list \<Rightarrow> bool" where
  "reacts ps \<longleftrightarrow> \<not> truthy (prop_val ''disabled'' ps) \<and> \<not> truthy (prop_val ''loading'' ps)"

definition events :: "('h, 'p) attr list \<Rightarrow> 'h list" where
  "events ps = concat (map (\<lambda>p. case p of On e h \<Rightarrow> [h] | _ \<Rightarrow> []) ps)"

text \<open>The handlers a user can start, the controls with their bounds, and the messages of the alerts.\<close>

definition offer_at :: "string \<Rightarrow> ('h, 'p) attr list \<Rightarrow> 'h list" where
  "offer_at t ps = (if reacts ps then events ps else [])"

definition offered :: "('h, 'p) node list \<Rightarrow> 'h list" where
  "offered = collects offer_at"

definition models :: "('h, 'p) attr list \<Rightarrow> (jsval \<times> (jsval \<Rightarrow> 'p \<Rightarrow> 'p)) list" where
  "models ps = concat (map (\<lambda>p. case p of Model k v u \<Rightarrow> [(v, u)] | _ \<Rightarrow> []) ps)"

record 'p control =
  ct_tag :: string
  ct_value :: jsval
  ct_assign :: "jsval \<Rightarrow> 'p \<Rightarrow> 'p"
  ct_min :: jsval
  ct_max :: jsval
  ct_active :: bool

definition control_at :: "string \<Rightarrow> ('h, 'p) attr list \<Rightarrow> 'p control list" where
  "control_at t ps = map (\<lambda>(v, u).
     \<lparr>ct_tag = t, ct_value = v, ct_assign = u, ct_min = prop_val ''min'' ps, ct_max = prop_val ''max'' ps, ct_active = reacts ps\<rparr>)
     (models ps)"

definition controls :: "('h, 'p) node list \<Rightarrow> 'p control list" where
  "controls = collects control_at"

definition alert_at :: "string \<Rightarrow> ('h, 'p) attr list \<Rightarrow> (string \<times> string) list" where
  "alert_at t ps = (if t = ''a-alert'' then [(js_String (prop_val ''type'' ps), js_String (prop_val ''message'' ps))] else [])"

definition alerts :: "('h, 'p) node list \<Rightarrow> (string \<times> string) list" where
  "alerts = collects alert_at"

declare closed_def [view_simps]

lemma concat_map_Nil [view_simps]: "concat (map (\<lambda>x. []) xs) = []"
  by (induction xs) simp_all

lemma reacts_simps [view_simps]:
  "events [] = []" "events (Const k s # ps) = events ps" "events (Bind k v # ps) = events ps"
  "events (On e h # ps) = h # events ps" "events (OnArg e g # ps) = events ps" "events (Model k v u # ps) = events ps"
  "models [] = []" "models (Const k s # ps) = models ps" "models (Bind k v # ps) = models ps"
  "models (On e h # ps) = models ps" "models (OnArg e g # ps) = models ps" "models (Model k v u # ps) = (v, u) # models ps"
  by (simp_all add: events_def models_def)

text \<open>A table contains what its slot gives for the cells.\<close>

lemma concat_empty: "concat (map (\<lambda>x. []) xs) = []"
  by (induction xs) simp_all

lemma collects_table:
  assumes "\<And>t. f t [] = []"
  shows "collects f (table_body columns rows slot field) = concat (map (\<lambda>r. concat (map (\<lambda>c. collects f (slot c r)) columns)) rows)"
proof -
  have cell: "collects f (table_cell field r c s) = collects f s" for r c s
    by (simp add: collects_simps table_cell_def)
  show ?thesis by (simp add: table_body_def collects_simps cell closed_def assms concat_empty)
qed

lemma at_nothing: "offer_at t [] = []" "control_at t [] = []" "t \<noteq> ''a-alert'' \<Longrightarrow> alert_at t [] = []"
  by (simp_all add: offer_at_def control_at_def alert_at_def events_def models_def)

lemmas offered_table = collects_table [where f = offer_at, OF at_nothing(1), folded offered_def]
lemmas controls_table = collects_table [where f = control_at, OF at_nothing(2), folded controls_def]

lemmas offered_simps = collects_simps [where f = offer_at, folded offered_def] offered_table
lemmas controls_simps = collects_simps [where f = control_at, folded controls_def] controls_table
lemmas alerts_simps = collects_simps [where f = alert_at, folded alerts_def]

subsection \<open>Bounds\<close>

text \<open>The bounds of a numeric control.\<close>

definition in_bounds :: "'p control \<Rightarrow> bool" where
  "in_bounds c \<longleftrightarrow> (ct_min c = JUndefined \<or> js_leq (ct_min c) (ct_value c)) \<and> (ct_max c = JUndefined \<or> js_leq (ct_value c) (ct_max c))"

subsection \<open>What a page says\<close>

text \<open>The texts shown: those between the elements and the messages of the alerts.\<close>

definition message_of :: "('h, 'p) attr list \<Rightarrow> string list" where
  "message_of ps = (case prop_val ''message'' ps of JStr s \<Rightarrow> [s] | _ \<Rightarrow> [])"

fun says :: "('h, 'p) node \<Rightarrow> string list" where
  "says (Text s) = [s]"
| "says (El t ps cs) = (if closed t ps then [] else message_of ps @ concat (map says cs))"

definition said :: "('h, 'p) node list \<Rightarrow> string list" where
  "said ns = concat (map says ns)"

lemma said_simps:
  "said [] = []" "said (Text s # ns) = s # said ns"
  "said (El t ps cs # ns) = (if closed t ps then [] else message_of ps @ said cs) @ said ns"
  "said (ns @ ns') = said ns @ said ns'"
  by (simp_all add: said_def)

text \<open>A page that shows the error of its state: the message of a failure is on the screen.\<close>

locale shown_errors = busy_page +
  fixes view :: "'p \<Rightarrow> ('h, 'q) node list"
  assumes error_said: "error p \<noteq> [] \<Longrightarrow> error p \<in> set (said (view p))"
begin

lemma failure_said:
  "body (reset (set_busy True p), st) = (Inl (JsError m), s') \<Longrightarrow> m \<noteq> [] \<Longrightarrow>
     m \<in> set (said (view (fst (snd (guarded set_busy reset set_error body (p, st))))))"
  using error_said guarded_error by metis

text \<open>In particular when the request the handler waits for fails.\<close>

lemma request_failure_said:
  "fst (q st) = Inl (JsError m) \<Longrightarrow> m \<noteq> [] \<Longrightarrow>
     m \<in> set (said (view (fst (snd (guarded set_busy reset set_error (bindS (awaitS q) k) (p, st))))))"
  by (rule failure_said [where s' = "(reset (set_busy True p), snd (q st))"]) (simp_all add: script_simps)

end

text \<open>
  A button that starts a handler with a flag: it does not react while the flag is up. Once the handler
  has ended the flag is down, so a button that reacts whenever its flag is down reacts again.
\<close>

locale busy_button = busy_page +
  fixes view :: "'p \<Rightarrow> ('h, 'q) node list" and press :: 'h and place :: "'p \<Rightarrow> bool"
  assumes offered_idle: "press \<in> set (offered (view p)) \<longleftrightarrow> place p \<and> \<not> busy p"
begin

lemma not_pressed_twice: "press \<notin> set (offered (view (set_busy True p)))"
  by (simp add: offered_idle busy_set)

lemma pressed_again:
  "place (fst (snd (guarded set_busy reset set_error body s))) \<Longrightarrow>
     press \<in> set (offered (view (fst (snd (guarded set_busy reset set_error body s)))))"
  by (simp add: offered_idle guarded_not_busy)

end

end
