(* ===== verification/SettingsView.thy ===== *)
theory SettingsView
  imports Markup SystemSettingsPage
begin

text \<open>
  The template of \<open>views/SystemSettingsView.vue\<close>, a card at a time, and what it offers: the numeric
  controls have exactly the bounds the validation checks, and every control is a variable of the page.
  \<open>formatMiB\<close> and the other texts are those of the script.
\<close>

datatype settings_call = Settings_load | Settings_save | Settings_saveAdminSession | Settings_clearAdminSession

subsection \<open>The template\<close>

definition settings_storage_card :: "SettingsPage \<Rightarrow> SystemSettingsState \<Rightarrow> (settings_call, SettingsPage) node list" where
  "settings_storage_card p form =
    [El ''a-card'' [Const ''title'' (uni ''~6301~4E45~5316~4E0E~6570~636E~5E93''), Bind ''bordered'' (JBool False)]
      [El ''a-form'' [Const ''layout'' ''vertical'']
         [El ''a-form-item'' [Const ''label'' (uni ''SQLite ~8DEF~5F84''), Const ''extra'' (uni ''~8BBF~95EE~65E5~5FD7~3001~5BA1~8BA1~548C~6E05~7406~72B6~6001~90FD~4F1A~5199~5165 SQLite~3002'')]
            [El ''a-input'' [Model ''value'' (JStr (st_sqlitePath form)) (\<lambda>v. settings_edit (st_sqlitePath_update (\<lambda>_. as_text v)))] []],
           El ''a-form-item'' [Const ''label'' (uni ''UI ~627F~8F7D~6A21~5F0F'')]
            [El ''a-input'' [Bind ''value'' (JStr (uiModeLabel p)), Bind ''disabled'' (JBool True)] []],
           El ''a-row'' []
            [El ''a-col'' []
               [El ''a-form-item'' [Const ''label'' (uni ''~4EFB~52A1~4FDD~7559~5929~6570'')]
                  [El ''a-input-number'' [Model ''value'' (JInt (st_logRetentionDays form)) (\<lambda>v. settings_edit (st_logRetentionDays_update (\<lambda>_. as_int v))), Bind ''min'' (JInt 1)] []]],
              El ''a-col'' []
               [El ''a-form-item'' [Const ''label'' (uni ''~4EFB~52A1~4FDD~7559~6761~6570'')]
                  [El ''a-input-number'' [Model ''value'' (JInt (st_logRetentionRecords form)) (\<lambda>v. settings_edit (st_logRetentionRecords_update (\<lambda>_. as_int v))), Bind ''min'' (JInt 100), Bind ''step'' (JInt 100)] []]]]]]]"

definition settings_cleanup_card :: "SettingsPage \<Rightarrow> SystemSettingsState \<Rightarrow> (settings_call, SettingsPage) node list" where
  "settings_cleanup_card p form =
    [El ''a-card'' [Const ''title'' (uni ''~65E5~5FD7~4E0E~6E05~7406''), Bind ''bordered'' (JBool False)]
      [El ''a-form'' [Const ''layout'' ''vertical'']
         [El ''a-form-item'' [Const ''label'' (uni ''~6E05~7406~8BA1~5212~FF08Cron~FF09''), Const ''extra'' (uni ''~7528~4E8E~63A7~5236~6570~636E~5E93~548C~65E5~5FD7~6E05~7406~8282~594F~3002'')]
            [El ''a-input'' [Model ''value'' (JStr (st_cleanupCron form)) (\<lambda>v. settings_edit (st_cleanupCron_update (\<lambda>_. as_text v)))] []],
           El ''a-row'' []
            [El ''a-col'' []
               [El ''a-form-item'' [Const ''label'' (uni ''~8BBF~95EE~65E5~5FD7~4FDD~7559~5929~6570'')]
                  [El ''a-input-number'' [Model ''value'' (JInt (st_accessLogRetentionDays form)) (\<lambda>v. settings_edit (st_accessLogRetentionDays_update (\<lambda>_. as_int v))), Bind ''min'' (JInt 1)] []]],
              El ''a-col'' []
               [El ''a-form-item'' [Const ''label'' (uni ''~8BBF~95EE~65E5~5FD7~4FDD~7559~6761~6570'')]
                  [El ''a-input-number'' [Model ''value'' (JInt (st_accessLogRetentionRecords form)) (\<lambda>v. settings_edit (st_accessLogRetentionRecords_update (\<lambda>_. as_int v))), Bind ''min'' (JInt 100), Bind ''step'' (JInt 100)] []]]],
           El ''a-row'' []
            [El ''a-col'' []
               [El ''a-form-item'' [Const ''label'' (uni ''~5BA1~8BA1~4FDD~7559~5929~6570'')]
                  [El ''a-input-number'' [Model ''value'' (JInt (st_auditRetentionDays form)) (\<lambda>v. settings_edit (st_auditRetentionDays_update (\<lambda>_. as_int v))), Bind ''min'' (JInt 1)] []]],
              El ''a-col'' []
               [El ''a-form-item'' [Const ''label'' (uni ''~5BA1~8BA1~4FDD~7559~6761~6570'')]
                  [El ''a-input-number'' [Model ''value'' (JInt (st_auditRetentionRecords form)) (\<lambda>v. settings_edit (st_auditRetentionRecords_update (\<lambda>_. as_int v))), Bind ''min'' (JInt 100), Bind ''step'' (JInt 100)] []]]]]]]"

definition settings_retention_card :: "SettingsPage \<Rightarrow> SystemSettingsState \<Rightarrow> (settings_call, SettingsPage) node list" where
  "settings_retention_card p form =
    [El ''a-card'' [Const ''title'' (uni ''~4FDD~7559~7B56~7565''), Bind ''bordered'' (JBool False)]
      [El ''a-form'' [Const ''layout'' ''vertical'']
         [El ''a-row'' []
            [El ''a-col'' []
               [El ''a-form-item'' [Const ''label'' (uni ''~8BCA~65AD~4FDD~7559~5929~6570'')]
                  [El ''a-input-number'' [Model ''value'' (JInt (st_diagnosticsRetentionDays form)) (\<lambda>v. settings_edit (st_diagnosticsRetentionDays_update (\<lambda>_. as_int v))), Bind ''min'' (JInt 1)] []]],
              El ''a-col'' []
               [El ''a-form-item'' [Const ''label'' (uni ''~8BCA~65AD~4FDD~7559~6761~6570'')]
                  [El ''a-input-number'' [Model ''value'' (JInt (st_diagnosticsRetentionRecords form)) (\<lambda>v. settings_edit (st_diagnosticsRetentionRecords_update (\<lambda>_. as_int v))), Bind ''min'' (JInt 10), Bind ''step'' (JInt 10)] []]]],
           El ''a-row'' []
            [El ''a-col'' []
               [El ''a-form-item'' [Const ''label'' (uni ''~538B~6D4B~4FDD~7559~5929~6570'')]
                  [El ''a-input-number'' [Model ''value'' (JInt (st_loadtestRetentionDays form)) (\<lambda>v. settings_edit (st_loadtestRetentionDays_update (\<lambda>_. as_int v))), Bind ''min'' (JInt 1)] []]],
              El ''a-col'' []
               [El ''a-form-item'' [Const ''label'' (uni ''~538B~6D4B~4FDD~7559~6761~6570'')]
                  [El ''a-input-number'' [Model ''value'' (JInt (st_loadtestRetentionRecords form)) (\<lambda>v. settings_edit (st_loadtestRetentionRecords_update (\<lambda>_. as_int v))), Bind ''min'' (JInt 10), Bind ''step'' (JInt 10)] []]]],
           El ''a-alert'' [Const ''type'' ''info'', Bind ''show-icon'' (JBool True), Const ''message'' (uni ''~4FDD~7559~7B56~7565~4FEE~6539~540E~4F1A~5728~4E0B~4E00~6B21~6E05~7406~5468~671F~751F~6548~3002'')] []]]]"

definition settings_probe_card :: "SettingsPage \<Rightarrow> SystemSettingsState \<Rightarrow> (settings_call, SettingsPage) node list" where
  "settings_probe_card p form =
    [El ''a-card'' [Const ''title'' (uni ''~89C2~6D4B~4E0E~63A2~9488~5165~53E3''), Bind ''bordered'' (JBool False)]
      [El ''a-alert'' [Const ''type'' ''info'', Bind ''show-icon'' (JBool True), Const ''message'' (uni ''P1 ~9636~6BB5~5DF2~8865~9F50 /metrics ~63A2~9488~FF1B~5EFA~8BAE~540C~65F6~628A /readyz~3001/api/selfcheck ~548C /api/startup-summary ~7EB3~5165~6392~969C~94FE~8DEF~3002'')] [],
        El ''a-descriptions'' [Bind ''column'' (JInt 1), Const ''size'' ''small'']
         [El ''a-descriptions-item'' [Const ''label'' (uni ''API ~57FA~5730~5740'')] [El ''span'' [] [Text (st_apiBaseUrl form)]],
           El ''a-descriptions-item'' [Const ''label'' ''Metrics''] [El ''span'' [] [Text (st_metricsEndpoint form)]],
           El ''a-descriptions-item'' [Const ''label'' (uni ''Ready ~63A2~9488'')] [El ''span'' [] [Text (st_readyEndpoint form)]],
           El ''a-descriptions-item'' [Const ''label'' ''Self-check''] [El ''span'' [] [Text (st_selfCheckEndpoint form)]],
           El ''a-descriptions-item'' [Const ''label'' (uni ''~542F~52A8~6458~8981'')] [El ''span'' [] [Text (st_startupSummaryEndpoint form)]]]]]"

definition settings_delivery_card :: "SettingsPage \<Rightarrow> SystemSettingsState \<Rightarrow> (settings_call, SettingsPage) node list" where
  "settings_delivery_card p form =
    [El ''a-card'' [Const ''title'' (uni ''~6E90~7801 / ~6784~5EFA / ~53D1~5E03~7269~4E00~81F4~6027''), Bind ''bordered'' (JBool False)]
      [El ''a-space'' [Const ''direction'' ''vertical'', Const ''size'' ''middle'']
         [El ''a-alert'' [Const ''type'' ''info'', Bind ''show-icon'' (JBool True), Const ''message'' (uni ''~7528~4E8E~8FD0~7EF4~5FEB~901F~5224~65AD~5F53~524D~8FD0~884C~6001 UI ~662F~5426~4ECD~4E0E~6E90~7801~548C~6784~5EFA~4EA7~7269~4E00~81F4~FF0C~907F~514D~2018~6E90~7801~5DF2~6539~3001~53D1~5E03~7269~672A~540C~6B65~2019~3002'')] [],
           El ''a-descriptions'' [Bind ''column'' (JInt 1), Const ''size'' ''small'']
            [El ''a-descriptions-item'' [Const ''label'' (uni ''~4E00~81F4~6027~72B6~6001'')]
               [El ''a-tag'' [Bind ''color'' (JStr (uiConsistencyTagColor p))]
                  [Text (str_or (nullish (st_uiConsistencyStatus form) []) ''unknown'')]],
              El ''a-descriptions-item'' [Const ''label'' (uni ''~4E00~81F4~6027~8BF4~660E'')]
               [Text (str_or (nullish (st_uiConsistencyDetail form) []) ''-'')],
              El ''a-descriptions-item'' [Const ''label'' (uni ''~6784~5EFA~6279~6B21 Nonce'')]
               [El ''span'' []
                  [Text (str_or (nullish (st_uiEmbedBuildNonce form) []) ''-'')]],
              El ''a-descriptions-item'' [Const ''label'' (uni ''~5D4C~5165~65F6~95F4'')]
               [El ''span'' [] [Text (str_or (nullish (st_uiEmbeddedAt form) []) ''-'')]],
              El ''a-descriptions-item'' [Const ''label'' (uni ''~6E90~7801~6700~8FD1~4FEE~6539'')]
               [El ''span'' []
                  [Text (str_or (nullish (st_uiSourceLatestWrite form) []) ''-'')]],
              El ''a-descriptions-item'' [Const ''label'' (uni ''~5D4C~5165~5305 Hash'')]
               [El ''span'' [] [Text (str_or (nullish (st_uiEmbeddedHash form) []) ''-'')]],
              El ''a-descriptions-item'' [Const ''label'' (uni ''~8D44~6E90~57FA~8DEF~5F84~6A21~5F0F'')]
               [El ''span'' [] [Text (str_or (nullish (st_uiAssetBaseMode form) []) ''-'')]],
              El ''a-descriptions-item'' [Const ''label'' (uni ''Router BasePath ~7B56~7565'')]
               [El ''span'' []
                  [Text (str_or (nullish (st_uiRouterBasePathPolicy form) []) ''-'')]],
              El ''a-descriptions-item'' [Const ''label'' (uni ''~6E90~7801~6E05~6D01~5B88~536B~72B6~6001'')]
               [El ''a-tag'' [Bind ''color'' (JStr (uiDeliveryGuardTagColor p))]
                  [Text (str_or (nullish (st_uiDeliveryGuardStatus form) []) ''unknown'')]],
              El ''a-descriptions-item'' [Const ''label'' (uni ''~6E90~7801~6E05~6D01~5B88~536B~8BF4~660E'')]
               [Text (str_or (nullish (st_uiDeliveryGuardDetail form) []) ''-'')],
              El ''a-descriptions-item'' [Const ''label'' (uni ''~5B88~536B~6E05~7406~9057~7559~6587~4EF6~6570'')]
               [El ''span'' []
                  [Text (string_of_int (nullish (st_uiDeliveryGuardRemovedCount form) 0))]],
              El ''a-descriptions-item'' [Const ''label'' (uni ''~5269~4F59~9057~7559~6587~4EF6 / ~6D3B~8DC3~547D~4E2D'')]
               [El ''span'' []
                  [Text ((string_of_int (nullish (st_uiDeliveryGuardRemainingCount form) 0)) @ '' / '' @ (string_of_int (nullish (st_uiDeliveryGuardHitCount form) 0)))]]]]]]"

definition settings_policy_card :: "SettingsPage \<Rightarrow> SystemSettingsState \<Rightarrow> (settings_call, SettingsPage) node list" where
  "settings_policy_card p form =
    [El ''a-card'' [Const ''title'' (uni ''~5165~53E3~4E0E~63A7~5236~9762~6D3B~8DC3~7B56~7565''), Bind ''bordered'' (JBool False)]
      [El ''a-space'' [Const ''direction'' ''vertical'', Const ''size'' ''middle'']
         [El ''a-alert'' [Const ''type'' ''info'', Bind ''show-icon'' (JBool True), Const ''message'' (uni ''~8FD0~7EF4~6392~969C~65F6~76F4~63A5~67E5~770B~5F53~524D~5165~53E3~9009~62E9~3001UDP ~63A7~5236~9762~9884~7B97~6551~63F4~3001~4EE5~53CA~5927~54CD~5E94 RTP ~5BB9~5FCD~7B56~7565~FF0C~907F~514D~591A~4EFD~6587~6863~53E3~5F84~6253~67B6~3002'')] [],
           El ''a-descriptions'' [Bind ''column'' (JInt 1), Const ''size'' ''small'']
            [El ''a-descriptions-item'' [Const ''label'' (uni ''~5165~53E3~9009~62E9~7B56~7565'')]
               [El ''span'' []
                  [Text (str_or (nullish (st_entrySelectionPolicy form) []) ''-'')]],
              El ''a-descriptions-item'' [Const ''label'' (uni ''UDP ~63A7~5236~9762~5934~7B56~7565'')]
               [El ''span'' []
                  [Text (str_or (nullish (st_udpControlHeaderPolicy form) []) ''-'')]],
              El ''a-descriptions-item'' [Const ''label'' (uni ''~5927~6587~4EF6 / ~89C6~9891 RTP ~5BB9~5FCD'')]
               [El ''span'' []
                  [Text (str_or (nullish (st_genericDownloadRTPToleranceProfile form) []) ''-'')]],
              El ''a-descriptions-item'' [Const ''label'' (uni ''~5927~6587~4EF6 RTP ~6536~53E3~5B88~536B'')]
               [El ''span'' []
                  [Text (str_or (nullish (st_genericDownloadGuardPolicy form) []) ''-'')]]]]]]"

definition settings_runtime_card :: "SettingsPage \<Rightarrow> SystemSettingsState \<Rightarrow> (settings_call, SettingsPage) node list" where
  "settings_runtime_card p form =
    [El ''a-card'' [Const ''title'' (uni ''~8FD0~884C~65F6~6536~53E3~53C2~6570~FF08~53EF~4FDD~5B58~FF0C~7EDF~4E00 MB / Mbps~FF09''), Bind ''bordered'' (JBool False)]
      [El ''a-space'' [Const ''direction'' ''vertical'', Const ''size'' ''middle'']
         [El ''a-alert'' [Const ''type'' ''info'', Bind ''show-icon'' (JBool True), Const ''message'' (uni ''~8FD9~91CC~76F4~63A5~914D~7F6E~8FD0~884C~65F6~5927~6587~4EF6 / ~70ED~70B9~7A97~53E3~6536~53E3~53C2~6570~FF0C~9875~9762~7EDF~4E00~6309 MB / Mbps ~5C55~793A~FF0C~907F~514D~7EE7~7EED~8BA9~8FD0~7EF4~586B~5199~5DE8~5927~7684 bps/bytes ~539F~59CB~503C~3002'')] [],
           El ''a-form'' [Const ''layout'' ''vertical'']
            [El ''a-row'' []
               [El ''a-col'' []
                  [El ''a-form-item'' [Const ''label'' (uni ''~5927~6587~4EF6~603B~5E26~5BBD~4E0A~9650~FF08Mbps~FF09'')]
                     [El ''a-input-number'' [Model ''value'' (JNum (st_genericDownloadTotalMbps form)) (\<lambda>v. settings_edit (st_genericDownloadTotalMbps_update (\<lambda>_. as_num v))), Bind ''min'' (JInt 1), Bind ''step'' (JInt 1)] []]],
                 El ''a-col'' []
                  [El ''a-form-item'' [Const ''label'' (uni ''~5355~4F20~8F93~4FDD~5E95~5E26~5BBD~FF08Mbps~FF09'')]
                     [El ''a-input-number'' [Model ''value'' (JNum (st_genericDownloadPerTransferMbps form)) (\<lambda>v. settings_edit (st_genericDownloadPerTransferMbps_update (\<lambda>_. as_num v))), Bind ''min'' (JNum (1 / 2)), Bind ''step'' (JNum (1 / 2))] []]],
                 El ''a-col'' []
                  [El ''a-form-item'' [Const ''label'' (uni ''~5927~6587~4EF6~7A97~53E3~FF08MB~FF09'')]
                     [El ''a-input-number'' [Model ''value'' (JNum (st_genericDownloadWindowMB form)) (\<lambda>v. settings_edit (st_genericDownloadWindowMB_update (\<lambda>_. as_num v))), Bind ''min'' (JNum (1 / 2)), Bind ''step'' (JNum (1 / 2))] []]]],
              El ''a-row'' []
               [El ''a-col'' []
                  [El ''a-form-item'' [Const ''label'' (uni ''~70ED~70B9~7F13~5B58~FF08MB~FF09'')]
                     [El ''a-input-number'' [Model ''value'' (JNum (st_adaptiveHotCacheMB form)) (\<lambda>v. settings_edit (st_adaptiveHotCacheMB_update (\<lambda>_. as_num v))), Bind ''min'' (JInt 1), Bind ''step'' (JInt 1)] []]],
                 El ''a-col'' []
                  [El ''a-form-item'' [Const ''label'' (uni ''~70ED~70B9~7A97~53E3~FF08MB~FF09'')]
                     [El ''a-input-number'' [Model ''value'' (JNum (st_adaptiveHotWindowMB form)) (\<lambda>v. settings_edit (st_adaptiveHotWindowMB_update (\<lambda>_. as_num v))), Bind ''min'' (JInt 1), Bind ''step'' (JInt 1)] []]],
                 El ''a-col'' []
                  [El ''a-form-item'' [Const ''label'' (uni ''~5927~6587~4EF6~6BB5~5E76~53D1'')]
                     [El ''a-input-number'' [Model ''value'' (JInt (st_genericDownloadSegmentConcurrency form)) (\<lambda>v. settings_edit (st_genericDownloadSegmentConcurrency_update (\<lambda>_. as_int v))), Bind ''min'' (JInt 1), Bind ''step'' (JInt 1)] []]]],
              El ''a-row'' []
               [El ''a-col'' []
                  [El ''a-form-item'' [Const ''label'' (uni ''~4E71~5E8F~7A97~53E3~FF08~5305~FF09'')]
                     [El ''a-input-number'' [Model ''value'' (JInt (st_genericDownloadRTPReorderWindowPackets form)) (\<lambda>v. settings_edit (st_genericDownloadRTPReorderWindowPackets_update (\<lambda>_. as_int v))), Bind ''min'' (JInt 32), Bind ''step'' (JInt 32)] []]],
                 El ''a-col'' []
                  [El ''a-form-item'' [Const ''label'' (uni ''~4E22~5305~5BB9~5FCD~FF08~5305~FF09'')]
                     [El ''a-input-number'' [Model ''value'' (JInt (st_genericDownloadRTPLossTolerancePackets form)) (\<lambda>v. settings_edit (st_genericDownloadRTPLossTolerancePackets_update (\<lambda>_. as_int v))), Bind ''min'' (JInt 1), Bind ''step'' (JInt 1)] []]],
                 El ''a-col'' []
                  [El ''a-form-item'' [Const ''label'' (uni ''Gap ~8D85~65F6~FF08ms~FF09'')]
                     [El ''a-input-number'' [Model ''value'' (JInt (st_genericDownloadRTPGapTimeoutMS form)) (\<lambda>v. settings_edit (st_genericDownloadRTPGapTimeoutMS_update (\<lambda>_. as_int v))), Bind ''min'' (JInt 100), Bind ''step'' (JInt 100)] []]],
                 El ''a-col'' []
                  [El ''a-form-item'' [Const ''label'' (uni ''FEC ~7EC4~5927~5C0F~FF08~5305~FF09'')]
                     [El ''a-input-number'' [Model ''value'' (JInt (st_genericDownloadRTPFECGroupPackets form)) (\<lambda>v. settings_edit (st_genericDownloadRTPFECGroupPackets_update (\<lambda>_. as_int v))), Bind ''min'' (JInt 2), Bind ''step'' (JInt 1), Bind ''disabled'' (JBool (\<not> (st_genericDownloadRTPFECEnabled form)))] []]]],
              El ''a-row'' []
               [El ''a-col'' []
                  [El ''a-form-item'' [Const ''label'' (uni ''~542F~7528~5927~6587~4EF6 RTP FEC'')]
                     [El ''a-switch'' [Model ''checked'' (JBool (st_genericDownloadRTPFECEnabled form)) (\<lambda>v. settings_edit (st_genericDownloadRTPFECEnabled_update (\<lambda>_. as_bool v)))] []]]]]]]]"

definition settings_resources :: "SettingsPage \<Rightarrow> SystemResourceUsage \<Rightarrow> (settings_call, SettingsPage) node list" where
  "settings_resources p usage =
    [El ''a-descriptions'' [Bind ''column'' (JInt 1), Const ''size'' ''small'']
      [El ''a-descriptions-item'' [Const ''label'' (uni ''~91C7~96C6~65F6~95F4'')] [El ''span'' [] [Text (str_or (sru_captured_at usage) ''-'')]],
        El ''a-descriptions-item'' [Const ''label'' (uni ''~8FD0~884C~7ED3~8BBA'')]
         [El ''a-tag'' [Bind ''color'' (JStr (resourceStatusTagColor (sru_status_color usage)))]
            [Text (str_or (nullish (sru_status_summary usage) []) (uni ''~672A~8BC4~4F30''))]],
        El ''a-descriptions-item'' [Const ''label'' (uni ''~63A8~8350~6863~4F4D'')]
         [Text (str_or (nullish (sru_recommended_profile usage) []) (uni ''~5E73~8861~6A21~5F0F''))],
        El ''a-descriptions-item'' [Const ''label'' (uni ''~8FD0~884C~65F6~5DF2~5E94~7528~6863~4F4D'')]
         ([Text (str_or (nullish (if opt_truthy (sru_runtime_profile_applied usage) then sru_runtime_profile_applied usage else sru_recommended_profile usage) []) (uni ''~5E73~8861~6A21~5F0F''))] @
          (if (sru_runtime_profile_changed usage) = Some True then
            [El ''span'' [] [Text (uni ''~FF08~672C~8F6E~5DF2~5207~6362~FF09'')]]
          else [])),
        El ''a-descriptions-item'' [Const ''label'' (uni ''~81EA~68C0~603B~4F53'')]
         [Text (str_or (nullish (sru_selfcheck_overall usage) []) (uni ''~672A~83B7~53D6''))],
        El ''a-descriptions-item'' [Const ''label'' ''CPU / GOMAXPROCS'']
         [Text ((string_of_int (sru_cpu_cores usage)) @ '' / '' @ (string_of_int (sru_gomaxprocs usage)))],
        El ''a-descriptions-item'' [Const ''label'' ''Goroutines''] [Text (string_of_int (sru_goroutines usage))],
        El ''a-descriptions-item'' [Const ''label'' (uni ''~5806~5185~5B58 / Sys'')]
         [Text ((formatMiB (Some (sru_heap_alloc_bytes usage))) @ '' / '' @ (formatMiB (Some (sru_heap_sys_bytes usage))))],
        El ''a-descriptions-item'' [Const ''label'' (uni ''~5806~7A7A~95F2 / ~6808~5185~5B58'')]
         [Text ((formatMiB (Some (sru_heap_idle_bytes usage))) @ '' / '' @ (formatMiB (Some (sru_stack_inuse_bytes usage))))],
        El ''a-descriptions-item'' [Const ''label'' (uni ''~5F53~524D~6D3B~8DC3~8BF7~6C42'')]
         [Text ((string_of_int (sru_active_requests usage)) @ (uni ''~FF08'') @ (num_text (nullish (sru_active_request_usage_percent usage) 0)) @ (uni ''%~FF09''))],
        El ''a-descriptions-item'' [Const ''label'' (uni ''SIP ~5F53~524D~8FDE~63A5'')] [Text (string_of_int (sru_sip_connections usage))],
        El ''a-descriptions-item'' [Const ''label'' (uni ''RTP ~6D3B~8DC3~4F20~8F93'')] [Text (string_of_int (sru_rtp_active_transfers usage))],
        El ''a-descriptions-item'' [Const ''label'' (uni ''RTP ~7AEF~53E3~6C60'')]
         [Text ((string_of_int (sru_rtp_port_pool_used usage)) @ '' / '' @ (string_of_int (sru_rtp_port_pool_total usage)) @ (uni ''~FF08'') @ (num_text (nullish (sru_rtp_port_pool_usage_percent usage) 0)) @ (uni ''%~FF09''))],
        El ''a-descriptions-item'' [Const ''label'' (uni ''~7406~8BBA~7A33~5B9A RTP ~5E76~53D1'')]
         [Text (string_of_int (nullish (sru_theoretical_rtp_transfer_limit usage) 0))],
        El ''a-descriptions-item'' [Const ''label'' (uni ''~5EFA~8BAE~6587~4EF6~5E76~53D1 / ~5EFA~8BAE~603B~5E76~53D1'')]
         [Text ((string_of_int (nullish (sru_recommended_file_transfer_max_concurrent usage) 0)) @ '' / '' @ (string_of_int (nullish (sru_recommended_max_concurrent usage) 0)))],
        El ''a-descriptions-item'' [Const ''label'' (uni ''~5EFA~8BAE~9650~6D41 RPS / Burst'')]
         [Text ((string_of_int (nullish (sru_recommended_rate_limit_rps usage) 0)) @ '' / '' @ (string_of_int (nullish (sru_recommended_rate_limit_burst usage) 0)))],
        El ''a-descriptions-item'' [Const ''label'' (uni ''~5927~6587~4EF6~603B~5E26~5BBD~4E0A~9650'')]
         [Text (formatMbps (Some (sru_configured_generic_download_mbps usage)))],
        El ''a-descriptions-item'' [Const ''label'' (uni ''~5355~4F20~8F93~4FDD~5E95~5E26~5BBD'')]
         [Text (formatMbps (Some (sru_configured_generic_per_transfer_mbps usage)))],
        El ''a-descriptions-item'' [Const ''label'' (uni ''~5927~6587~4EF6~7A97~53E3 / ~6BB5~5E76~53D1'')]
         [Text ((formatMBValue (Some (sru_configured_generic_download_window_mb usage))) @ '' / '' @ (string_of_int (sru_configured_generic_segment_concurrency usage)))],
        El ''a-descriptions-item'' [Const ''label'' (uni ''~70ED~70B9~7F13~5B58 / ~70ED~70B9~7A97~53E3'')]
         [Text ((formatMBValue (Some (sru_configured_adaptive_hot_cache_mb usage))) @ '' / '' @ (formatMBValue (Some (sru_configured_adaptive_hot_window_mb usage))))],
        El ''a-descriptions-item'' [Const ''label'' (uni ''RTP ~4E71~5E8F / ~5BB9~5FCD / Gap'')]
         [Text ((string_of_int (sru_configured_generic_rtp_reorder_window_packets usage)) @ '' / '' @ (string_of_int (sru_configured_generic_rtp_loss_tolerance_packets usage)) @ '' / '' @ (string_of_int (sru_configured_generic_rtp_gap_timeout_ms usage)) @ '' ms'')],
        El ''a-descriptions-item'' [Const ''label'' ''RTP FEC'']
         [Text ((if sru_configured_generic_rtp_fec_enabled usage then (uni ''~5DF2~542F~7528'') else (uni ''~672A~542F~7528'')) @ (uni '' ~00B7 ~7EC4~5927~5C0F '') @ (string_of_int (sru_configured_generic_rtp_fec_group_packets usage)))],
        El ''a-descriptions-item'' [Const ''label'' ''RTP jitter/loss / pending'']
         [Text ((string_of_int (nullish (sru_observed_jitter_loss_events usage) 0)) @ '' / '' @ (string_of_int (nullish (sru_observed_gap_timeouts usage) 0)) @ '' / '' @ (string_of_int (nullish (sru_observed_peak_pending usage) 0)))],
        El ''a-descriptions-item'' [Const ''label'' ''writer block / circuit open'']
         [Text ((string_of_int (nullish (sru_observed_max_writer_block_ms usage) 0)) @ '' ms / '' @ (string_of_int (nullish (sru_observed_circuit_open_count usage) 0)))]]]"

definition settings_resources_card :: "SettingsPage \<Rightarrow> (settings_call, SettingsPage) node list" where
  "settings_resources_card p =
    [El ''a-card'' [Const ''title'' (uni ''~7CFB~7EDF~8D44~6E90~4E0E~6536~53E3~53C2~6570~FF08MB / Mbps~FF09''), Bind ''bordered'' (JBool False)]
      [El ''a-space'' [Const ''direction'' ''vertical'', Const ''size'' ''middle'']
         ([El ''a-alert'' [Const ''type'' ''info'', Bind ''show-icon'' (JBool True), Const ''message'' (uni ''~8FD0~7EF4~4FA7~7EDF~4E00~67E5~770B CPU~3001~5185~5B58~3001~6D3B~8DC3~8FDE~63A5~FF0C~4EE5~53CA~5F53~524D~751F~6548~7684~5927~6587~4EF6~5E26~5BBD~3001~70ED~70B9~7F13~5B58~4E0E~70ED~70B9~7A97~53E3~FF0C~7EDF~4E00~91C7~7528 MB / Mbps ~53E3~5F84~3002'')] []] @
          (case stp_resourceUsage p of
            None \<Rightarrow> [El ''a-empty'' [Const ''description'' (uni ''~6682~65E0~8D44~6E90~89C6~56FE'')] []]
          | Some usage \<Rightarrow> (settings_resources p usage)))]]"

definition settings_advice_card :: "SettingsPage \<Rightarrow> (settings_call, SettingsPage) node list" where
  "settings_advice_card p =
    [El ''a-card'' [Const ''title'' (uni ''~8FD0~7EF4~5EFA~8BAE''), Bind ''bordered'' (JBool False)]
      [El ''a-space'' [Const ''direction'' ''vertical'', Const ''size'' ''middle'']
         [El ''a-alert'' [Const ''type'' ''warning'', Bind ''show-icon'' (JBool True), Const ''message'' (uni ''~5927~6587~4EF6~3001~70ED~70B9~8D44~6E90~548C~70ED~70B9~6765~6E90 IP ~7684~9650~6D41/~4E34~65F6~9650~5236~5EFA~8BAE~5728~201C~544A~8B66~4E0E~4FDD~62A4~201D~9875~7EDF~4E00~64CD~4F5C~FF1B~7CFB~7EDF~8BBE~7F6E~9875~4E3B~8981~8D1F~8D23~4E00~81F4~6027~4E0E~5168~5C40~6536~53E3~68C0~67E5~3002'')] [],
           El ''a-descriptions'' [Bind ''column'' (JInt 1), Const ''size'' ''small'']
            [El ''a-descriptions-item'' [Const ''label'' (uni ''~63A8~8350~6458~8981'')]
               [Text (str_or (nullish (Option.bind (stp_resourceUsage p) sru_recommended_summary) []) (uni ''~4F18~5148~4EE5~672C~9875~201C~4E00~81F4~6027~72B6~6001~201D~201C~6E90~7801~6E05~6D01~5B88~536B~201D~201C~5165~53E3~4E0E~63A7~5236~9762~6D3B~8DC3~7B56~7565~201D~4E3A~51C6~3002''))],
              El ''a-descriptions-item'' [Const ''label'' (uni ''~9002~5408~573A~666F'')]
               [Text (str_or (nullish (map_option (join_with (uni ''~3001'')) (Option.bind (stp_resourceUsage p) sru_suitable_scenarios)) []) (uni ''~89C6~9891~64AD~653E~3001~5927~6587~4EF6~4E0B~8F7D~3001~6DF7~5408~573A~666F''))],
              El ''a-descriptions-item'' [Const ''label'' (uni ''~8FD0~884C~65F6~5DF2~5E94~7528~6863~4F4D'')]
               [Text (str_or (nullish (if opt_truthy (Option.bind (stp_resourceUsage p) sru_runtime_profile_applied) then Option.bind (stp_resourceUsage p) sru_runtime_profile_applied else Option.bind (stp_resourceUsage p) sru_recommended_profile) []) (uni ''~5E73~8861~6A21~5F0F''))],
              El ''a-descriptions-item'' [Const ''label'' (uni ''~8FD0~884C~65F6~5199~56DE~65F6~95F4'')]
               [Text (str_or (nullish (Option.bind (stp_resourceUsage p) sru_runtime_profile_applied_at) []) ''-'')],
              El ''a-descriptions-item'' [Const ''label'' (uni ''~8FD0~884C~65F6~5199~56DE~8BF4~660E'')]
               [Text (str_or (nullish (Option.bind (stp_resourceUsage p) sru_runtime_profile_reason) []) (uni ''~672A~5199~56DE''))],
              El ''a-descriptions-item'' [Const ''label'' (uni ''~5EFA~8BAE~52A8~4F5C'')]
               [Text (str_or (nullish (map_option (join_with (uni ''~FF1B'')) (Option.bind (stp_resourceUsage p) sru_suggested_actions)) []) (uni ''~70ED~70B9~6765~6E90 IP~3001~70ED~70B9~6620~5C04~8D44~6E90~5EFA~8BAE~5148~505A 10~007E30 ~5206~949F~4E34~65F6~9650~5236~FF0C~518D~89C2~5BDF~547D~4E2D~548C~6062~590D~60C5~51B5~3002''))]]]]]"

definition settings_session_card :: "SettingsPage \<Rightarrow> SystemSettingsState \<Rightarrow> (settings_call, SettingsPage) node list" where
  "settings_session_card p form =
    [El ''a-card'' [Const ''title'' (uni ''~7BA1~7406~4F1A~8BDD~FF08~4EC5~6D4F~89C8~5668~672C~5730~FF09''), Bind ''bordered'' (JBool False)]
      [El ''a-alert'' [Const ''type'' ''info'', Bind ''show-icon'' (JBool True), Const ''message'' (uni ''~4EC5~4FDD~5B58~5728~5F53~524D~6D4F~89C8~5668~672C~5730~FF0C~7528~4E8E~4E13~7F51~7BA1~7406~9762~4EE4~724C/MFA ~5934~900F~4F20~FF1B~4E0D~4F1A~5199~5165~540E~7AEF~914D~7F6E~6587~4EF6~3002'')] [],
        El ''a-form'' [Const ''layout'' ''vertical'']
         [El ''a-row'' []
            [El ''a-col'' []
               [El ''a-form-item'' [Const ''label'' (uni ''~64CD~4F5C~4EBA'')]
                  [El ''a-input'' [Model ''value'' (JStr (adm_operator (stp_adminSession p))) (\<lambda>v. stp_adminSession_update (adm_operator_update (\<lambda>_. as_text v))), Const ''placeholder'' (uni ''~4F8B~5982 ops-admin'')] []]],
              El ''a-col'' []
               [El ''a-form-item'' [Const ''label'' (uni ''~7BA1~7406~4EE4~724C'')]
                  [El ''a-input-password'' [Model ''value'' (JStr (adm_token (stp_adminSession p))) (\<lambda>v. stp_adminSession_update (adm_token_update (\<lambda>_. as_text v))), Const ''placeholder'' ''GATEWAY_ADMIN_TOKEN''] []]],
              El ''a-col'' []
               [El ''a-form-item'' [Const ''label'' (uni ''MFA ~53E3~4EE4'')]
                  [El ''a-input-password'' [Model ''value'' (JStr (adm_mfa (stp_adminSession p))) (\<lambda>v. stp_adminSession_update (adm_mfa_update (\<lambda>_. as_text v))), Const ''placeholder'' ''GATEWAY_ADMIN_MFA_CODE''] []]]],
           El ''a-space'' []
            [El ''a-button'' [On ''click'' Settings_saveAdminSession] [Text (uni ''~4FDD~5B58~5230~6D4F~89C8~5668'')],
              El ''a-button'' [Bind ''danger'' (JBool True), Bind ''ghost'' (JBool True), On ''click'' Settings_clearAdminSession] [Text (uni ''~6E05~7A7A~672C~5730~4F1A~8BDD'')]],
           El ''a-descriptions'' [Bind ''column'' (JInt 1), Const ''size'' ''small'']
            [El ''a-descriptions-item'' [Const ''label'' (uni ''~7BA1~7406~4EE4~724C~5DF2~914D~7F6E'')]
               [El ''a-tag'' [Bind ''color'' (JStr (if (st_adminTokenConfigured form) = Some True then ''green'' else ''orange''))]
                  [Text (if (st_adminTokenConfigured form) = Some True then (uni ''~5DF2~542F~7528'') else (uni ''~672A~542F~7528''))]],
              El ''a-descriptions-item'' [Const ''label'' (uni ''MFA ~5DF2~914D~7F6E'')]
               [El ''a-tag'' [Bind ''color'' (JStr (if (st_adminMfaConfigured form) = Some True then ''green'' else ''orange''))]
                  [Text (if (st_adminMfaConfigured form) = Some True then (uni ''~5DF2~914D~7F6E'') else (uni ''~672A~914D~7F6E''))]],
              El ''a-descriptions-item'' [Const ''label'' (uni ''~914D~7F6E~843D~76D8~52A0~5BC6'')]
               [El ''a-tag'' [Bind ''color'' (JStr (if (st_configEncryptionEnabled form) = Some True then ''green'' else ''orange''))]
                  [Text (if (st_configEncryptionEnabled form) = Some True then (uni ''~5DF2~542F~7528'') else (uni ''~672A~542F~7528''))]],
              El ''a-descriptions-item'' [Const ''label'' (uni ''~96A7~9053~7B7E~540D~5BC6~94A5'')]
               [El ''a-tag'' [Bind ''color'' (JStr (if (st_tunnelSignerExternalized form) = Some True then ''green'' else ''orange''))]
                  [Text (if (st_tunnelSignerExternalized form) = Some True then (uni ''~5DF2~5916~7F6E'') else (uni ''~4ECD~4E3A~9ED8~8BA4~503C''))]]]]]]"

definition settings_view :: "SettingsPage \<Rightarrow> (settings_call, SettingsPage) node list" where
  "settings_view p =
    [El ''a-space'' [Const ''direction'' ''vertical'', Const ''size'' ''large'']
      ([El ''a-page-header'' [Const ''title'' (uni ''~7CFB~7EDF~8BBE~7F6E''), Const ''sub-title'' (uni ''~7EF4~62A4~6301~4E45~5316~3001~6E05~7406~8BA1~5212~4E0E~4FDD~7559~7B56~7565~FF1BUI ~9ED8~8BA4~4E3A~5185~5D4C~6A21~5F0F~3002'')]
         [El ''template'' [Const ''slot'' ''extra''] [El ''a-space'' []
               [El ''a-button'' [On ''click'' Settings_load] [Text (uni ''~5237~65B0~56DE~8BFB'')],
                 El ''a-button'' [Const ''type'' ''primary'', Bind ''loading'' (JBool (stp_saving p)), On ''click'' Settings_save] [Text (uni ''~4FDD~5B58~8BBE~7F6E'')]]]],
        El ''a-alert'' [Const ''type'' ''info'', Bind ''show-icon'' (JBool True), Const ''message'' (uni ''~5F53~524D~9875~5B57~6BB5~5747~53EF~76F4~63A5~7F16~8F91~FF0C~4FDD~5B58~540E~4F1A~7ACB~5373~91CD~65B0~56DE~8BFB~3002'')] []] @
       (if (stp_notice p) \<noteq> [] then
         [El ''a-alert'' [Const ''type'' ''success'', Bind ''message'' (JStr (stp_notice p)), Bind ''show-icon'' (JBool True)] []]
       else []) @
       (if (stp_error p) \<noteq> [] then
         [El ''a-alert'' [Const ''type'' ''error'', Bind ''message'' (JStr (stp_error p)), Bind ''show-icon'' (JBool True)] []]
       else []) @
       (if (stp_validationErrors p) \<noteq> [] then
         [El ''a-alert'' [Const ''type'' ''warning'', Bind ''show-icon'' (JBool True), Const ''message'' (uni ''~8BF7~5148~4FEE~6B63~4EE5~4E0B~7CFB~7EDF~8BBE~7F6E~95EE~9898'')]
           [El ''template'' [Const ''slot'' ''description''] [El ''ul'' []
                 (concat (map (\<lambda>item.
                    [El ''li'' [] [Text item]]) (stp_validationErrors p)))]]]
       else []) @
       [El ''a-spin'' [Bind ''spinning'' (JBool ((stp_loading p) \<or> (stp_saving p)))]
         (case stp_form p of
            None \<Rightarrow> [El ''a-empty'' [Const ''description'' (uni ''~6682~65E0~7CFB~7EDF~8BBE~7F6E'')] []]
          | Some form \<Rightarrow> ([El ''a-row'' [Const ''align'' ''top'']
              [El ''a-col'' [] (settings_storage_card p form),
                El ''a-col'' [] (settings_cleanup_card p form)],
             El ''a-row'' [Const ''align'' ''top'']
              [El ''a-col'' [] (settings_retention_card p form),
                El ''a-col'' []
                 [El ''a-card'' [Const ''title'' (uni ''~6700~8FD1~7EF4~62A4~52A8~4F5C''), Bind ''bordered'' (JBool False)]
                    [El ''a-form'' [Const ''layout'' ''vertical'']
                       [El ''a-form-item'' [Const ''label'' (uni ''~6700~8FD1~6E05~7406~7ED3~679C'')]
                          [El ''a-textarea'' [Bind ''value'' (JStr (cleanupSummary p)), Bind ''disabled'' (JBool True)] []]]]]]] @
            settings_probe_card p form @
            [El ''a-row'' [Const ''align'' ''top'']
              [El ''a-col'' [] (settings_delivery_card p form),
                El ''a-col'' [] (settings_policy_card p form)],
             El ''a-row'' [Const ''align'' ''top''] [El ''a-col'' [] (settings_runtime_card p form)],
             El ''a-row'' [Const ''align'' ''top'']
              [El ''a-col'' [] (settings_resources_card p),
                El ''a-col'' [] (settings_advice_card p)]] @
            settings_session_card p form))])]"

subsection \<open>The controls\<close>

definition number_input :: "jsval \<Rightarrow> (jsval \<Rightarrow> 'p \<Rightarrow> 'p) \<Rightarrow> jsval \<Rightarrow> bool \<Rightarrow> 'p control" where
  "number_input v u least active =
     \<lparr>ct_tag = ''a-input-number'', ct_value = v, ct_assign = u, ct_min = least, ct_max = JUndefined, ct_active = active\<rparr>"

definition input :: "string \<Rightarrow> jsval \<Rightarrow> (jsval \<Rightarrow> 'p \<Rightarrow> 'p) \<Rightarrow> 'p control" where
  "input tag v u = \<lparr>ct_tag = tag, ct_value = v, ct_assign = u, ct_min = JUndefined, ct_max = JUndefined, ct_active = True\<rparr>"

text \<open>How an edit of a field of the form reaches the page.\<close>

definition form_text :: "((string \<Rightarrow> string) \<Rightarrow> SystemSettingsState \<Rightarrow> SystemSettingsState) \<Rightarrow> jsval \<Rightarrow> SettingsPage \<Rightarrow> SettingsPage" where
  "form_text upd = (\<lambda>v. settings_edit (upd (\<lambda>_. as_text v)))"

definition form_int :: "((int \<Rightarrow> int) \<Rightarrow> SystemSettingsState \<Rightarrow> SystemSettingsState) \<Rightarrow> jsval \<Rightarrow> SettingsPage \<Rightarrow> SettingsPage" where
  "form_int upd = (\<lambda>v. settings_edit (upd (\<lambda>_. as_int v)))"

definition form_rat :: "((rat \<Rightarrow> rat) \<Rightarrow> SystemSettingsState \<Rightarrow> SystemSettingsState) \<Rightarrow> jsval \<Rightarrow> SettingsPage \<Rightarrow> SettingsPage" where
  "form_rat upd = (\<lambda>v. settings_edit (upd (\<lambda>_. as_num v)))"

lemmas form_setters = form_text_def form_int_def form_rat_def
lemmas control_eval = controls_simps control_at_def view_simps reacts_def number_input_def input_def form_setters

lemma storage_controls:
  "controls (settings_storage_card p f) =
     [input ''a-input'' (JStr (st_sqlitePath f)) (form_text st_sqlitePath_update),
      number_input (JInt (st_logRetentionDays f)) (form_int st_logRetentionDays_update) (JInt 1) True,
      number_input (JInt (st_logRetentionRecords f)) (form_int st_logRetentionRecords_update) (JInt 100) True]"
  by (simp add: settings_storage_card_def control_eval del: uni.simps)

lemma cleanup_controls:
  "controls (settings_cleanup_card p f) =
     [input ''a-input'' (JStr (st_cleanupCron f)) (form_text st_cleanupCron_update),
      number_input (JInt (st_accessLogRetentionDays f)) (form_int st_accessLogRetentionDays_update) (JInt 1) True,
      number_input (JInt (st_accessLogRetentionRecords f)) (form_int st_accessLogRetentionRecords_update) (JInt 100) True,
      number_input (JInt (st_auditRetentionDays f)) (form_int st_auditRetentionDays_update) (JInt 1) True,
      number_input (JInt (st_auditRetentionRecords f)) (form_int st_auditRetentionRecords_update) (JInt 100) True]"
  by (simp add: settings_cleanup_card_def control_eval del: uni.simps)

lemma retention_controls:
  "controls (settings_retention_card p f) =
     [number_input (JInt (st_diagnosticsRetentionDays f)) (form_int st_diagnosticsRetentionDays_update) (JInt 1) True,
      number_input (JInt (st_diagnosticsRetentionRecords f)) (form_int st_diagnosticsRetentionRecords_update) (JInt 10) True,
      number_input (JInt (st_loadtestRetentionDays f)) (form_int st_loadtestRetentionDays_update) (JInt 1) True,
      number_input (JInt (st_loadtestRetentionRecords f)) (form_int st_loadtestRetentionRecords_update) (JInt 10) True]"
  by (simp add: settings_retention_card_def control_eval del: uni.simps)

lemma runtime_controls:
  "controls (settings_runtime_card p f) =
     [number_input (JNum (st_genericDownloadTotalMbps f)) (form_rat st_genericDownloadTotalMbps_update) (JInt 1) True,
      number_input (JNum (st_genericDownloadPerTransferMbps f)) (form_rat st_genericDownloadPerTransferMbps_update) (JNum (1 / 2)) True,
      number_input (JNum (st_genericDownloadWindowMB f)) (form_rat st_genericDownloadWindowMB_update) (JNum (1 / 2)) True,
      number_input (JNum (st_adaptiveHotCacheMB f)) (form_rat st_adaptiveHotCacheMB_update) (JInt 1) True,
      number_input (JNum (st_adaptiveHotWindowMB f)) (form_rat st_adaptiveHotWindowMB_update) (JInt 1) True,
      number_input (JInt (st_genericDownloadSegmentConcurrency f)) (form_int st_genericDownloadSegmentConcurrency_update) (JInt 1) True,
      number_input (JInt (st_genericDownloadRTPReorderWindowPackets f)) (form_int st_genericDownloadRTPReorderWindowPackets_update) (JInt 32) True,
      number_input (JInt (st_genericDownloadRTPLossTolerancePackets f)) (form_int st_genericDownloadRTPLossTolerancePackets_update) (JInt 1) True,
      number_input (JInt (st_genericDownloadRTPGapTimeoutMS f)) (form_int st_genericDownloadRTPGapTimeoutMS_update) (JInt 100) True,
      number_input (JInt (st_genericDownloadRTPFECGroupPackets f)) (form_int st_genericDownloadRTPFECGroupPackets_update) (JInt 2)
        (st_genericDownloadRTPFECEnabled f),
      input ''a-switch'' (JBool (st_genericDownloadRTPFECEnabled f))
        (\<lambda>v. settings_edit (st_genericDownloadRTPFECEnabled_update (\<lambda>_. as_bool v)))]"
  by (simp add: settings_runtime_card_def control_eval del: uni.simps)

lemma session_controls:
  "controls (settings_session_card p f) =
     [input ''a-input'' (JStr (adm_operator (stp_adminSession p))) (\<lambda>v. stp_adminSession_update (adm_operator_update (\<lambda>_. as_text v))),
      input ''a-input-password'' (JStr (adm_token (stp_adminSession p))) (\<lambda>v. stp_adminSession_update (adm_token_update (\<lambda>_. as_text v))),
      input ''a-input-password'' (JStr (adm_mfa (stp_adminSession p))) (\<lambda>v. stp_adminSession_update (adm_mfa_update (\<lambda>_. as_text v)))]"
  by (simp add: settings_session_card_def control_eval del: uni.simps)

lemma text_cards:
  "controls (settings_probe_card p f) = []" "controls (settings_delivery_card p f) = []"
  "controls (settings_policy_card p f) = []" "controls (settings_resources p u) = []" "controls (settings_advice_card p) = []"
  by (simp_all add: settings_probe_card_def settings_delivery_card_def settings_policy_card_def settings_resources_def
      settings_advice_card_def control_eval del: uni.simps)

lemma resources_controls: "controls (settings_resources_card p) = []"
  by (cases "stp_resourceUsage p") (simp_all add: settings_resources_card_def text_cards control_eval del: uni.simps)

lemma settings_controls:
  assumes "stp_form p = Some f"
  shows "controls (settings_view p) = controls (settings_storage_card p f) @ controls (settings_cleanup_card p f) @
    controls (settings_retention_card p f) @ controls (settings_runtime_card p f) @ controls (settings_session_card p f)"
  using assms text_cards resources_controls
  by (simp add: settings_view_def controls_simps control_at_def view_simps del: uni.simps)

subsection \<open>Bounds and validation\<close>

text \<open>A numeric control the user can change holds a value within its bounds.\<close>

definition numeric_ok :: "'p control \<Rightarrow> bool" where
  "numeric_ok c \<longleftrightarrow> (ct_tag c = ''a-input-number'' \<longrightarrow> ct_active c \<longrightarrow> in_bounds c)"

lemma numeric_ok_simps:
  "numeric_ok (number_input (JNum x) u (JNum y) a) \<longleftrightarrow> (a \<longrightarrow> y \<le> x)"
  "t \<noteq> ''a-input-number'' \<Longrightarrow> numeric_ok (input t v u)"
  by (simp_all add: numeric_ok_def number_input_def input_def in_bounds_def)

lemma bounds_are_limits:
  assumes "stp_form p = Some f"
  shows "settings_valid f \<longleftrightarrow> trim (st_sqlitePath f) \<noteq> [] \<and> cronPattern (trim (st_cleanupCron f)) \<and>
    list_all numeric_ok (controls (settings_view p))"
  unfolding settings_controls [OF assms] storage_controls cleanup_controls retention_controls runtime_controls session_controls
  by (simp add: settings_valid_def numeric_ok_simps) blast

subsection \<open>Typing\<close>

definition settings_values :: "SystemSettingsState \<Rightarrow> AdminSession \<Rightarrow> jsval list" where
  "settings_values f s =
     [JStr (st_sqlitePath f), JInt (st_logRetentionDays f), JInt (st_logRetentionRecords f), JStr (st_cleanupCron f),
      JInt (st_accessLogRetentionDays f), JInt (st_accessLogRetentionRecords f), JInt (st_auditRetentionDays f),
      JInt (st_auditRetentionRecords f), JInt (st_diagnosticsRetentionDays f), JInt (st_diagnosticsRetentionRecords f),
      JInt (st_loadtestRetentionDays f), JInt (st_loadtestRetentionRecords f), JNum (st_genericDownloadTotalMbps f),
      JNum (st_genericDownloadPerTransferMbps f), JNum (st_genericDownloadWindowMB f), JNum (st_adaptiveHotCacheMB f),
      JNum (st_adaptiveHotWindowMB f), JInt (st_genericDownloadSegmentConcurrency f),
      JInt (st_genericDownloadRTPReorderWindowPackets f), JInt (st_genericDownloadRTPLossTolerancePackets f),
      JInt (st_genericDownloadRTPGapTimeoutMS f), JInt (st_genericDownloadRTPFECGroupPackets f),
      JBool (st_genericDownloadRTPFECEnabled f), JStr (adm_operator s), JStr (adm_token s), JStr (adm_mfa s)]"

lemma shown_values:
  "stp_form p = Some f \<Longrightarrow> map ct_value (controls (settings_view p)) = settings_values f (stp_adminSession p)"
  by (simp add: settings_controls storage_controls cleanup_controls retention_controls runtime_controls session_controls
      settings_values_def number_input_def input_def)

lemma settings_edit_shown:
  "stp_form p = Some f \<Longrightarrow> stp_form (settings_edit change p) = Some (change f)"
  "stp_adminSession (settings_edit change p) = stp_adminSession p"
  by (simp_all add: settings_edit_def validateSettings_def split: option.splits)

lemma list_update_numeral: "(x # xs)[numeral v := y] = x # xs[numeral v - 1 := y]"
  by (cases "numeral v :: nat") auto

text \<open>Typing into one control the value another form shows there changes this control and no other.\<close>

lemma typed_value:
  assumes "stp_form p = Some f" "i < length (controls (settings_view p))"
  shows "\<exists>g. stp_form (ct_assign (controls (settings_view p) ! i) (settings_values f' s' ! i) p) = Some g \<and>
    settings_values g (stp_adminSession (ct_assign (controls (settings_view p) ! i) (settings_values f' s' ! i) p)) =
      (settings_values f (stp_adminSession p))[i := settings_values f' s' ! i]"
proof -
  let ?P = "\<lambda>i. \<exists>g. stp_form (ct_assign (controls (settings_view p) ! i) (settings_values f' s' ! i) p) = Some g \<and>
    settings_values g (stp_adminSession (ct_assign (controls (settings_view p) ! i) (settings_values f' s' ! i) p)) =
      (settings_values f (stp_adminSession p))[i := settings_values f' s' ! i]"
  have upt: "[0..<26] = [0, 1, 2, 3, 4, 5, 6, 7, 8, 9, 10, 11, 12, 13, 14, 15, 16, 17, 18, 19, 20, 21, 22, 23, 24, 25]" by (simp add: upt_conv_Cons)
  have "list_all ?P [0..<26]"
    unfolding upt settings_controls [OF assms(1)] storage_controls cleanup_controls retention_controls runtime_controls session_controls
    by (simp add: list_update_numeral settings_values_def number_input_def input_def form_setters settings_edit_shown assms(1))
  moreover have "i \<in> set [0..<26]" using assms(2) unfolding settings_controls [OF assms(1)] storage_controls cleanup_controls
      retention_controls runtime_controls session_controls by simp
  ultimately show ?thesis unfolding list_all_iff by blast
qed

subsection \<open>A visit of the page\<close>

text \<open>
  A visit starts with the page mounted; then the user presses offered buttons and types into active controls.
  The state is the page, the browser's storage and the state of the client.
\<close>

type_synonym 'w settings_state = "SettingsPage \<times> BrowserStorage option \<times> 'w ApiState"

definition run_settings ::
  "'w ApiEnv \<Rightarrow> ('b, SystemSettingsPayload, 'w) fetcher \<Rightarrow> (SystemSettingsPayload, SystemSettingsPayload, 'w) fetcher \<Rightarrow>
    ('c, StartupSummaryPayload, 'w) fetcher \<Rightarrow> ('d, SystemResourceUsage, 'w) fetcher \<Rightarrow>
    settings_call \<Rightarrow> 'w settings_state \<Rightarrow> 'w settings_state" where
  "run_settings env fl fs fm fu h s = (case s of (p, win, st) \<Rightarrow>
     case h of
       Settings_load \<Rightarrow> (let r = snd (settings_load env fl fm fu (p, st)) in (fst r, win, snd r))
     | Settings_save \<Rightarrow> (let r = snd (settings_save env fs fm fu (p, st)) in (fst r, win, snd r))
     | Settings_saveAdminSession \<Rightarrow> (let r = saveAdminSession p win in (fst r, snd r, st))
     | Settings_clearAdminSession \<Rightarrow> (let r = clearAdminSession p win in (fst r, snd r, st)))"

definition settings_mounted ::
  "'w ApiEnv \<Rightarrow> ('b, SystemSettingsPayload, 'w) fetcher \<Rightarrow> ('c, StartupSummaryPayload, 'w) fetcher \<Rightarrow>
    ('d, SystemResourceUsage, 'w) fetcher \<Rightarrow> BrowserStorage option \<Rightarrow> 'w ApiState \<Rightarrow> 'w settings_state" where
  "settings_mounted env fl fm fu win st =
     (let r = snd (settings_load env fl fm fu (loadAdminSession win settings_page_init, st)) in (fst r, win, snd r))"

inductive settings_visit ::
  "'w ApiEnv \<Rightarrow> ('b, SystemSettingsPayload, 'w) fetcher \<Rightarrow> (SystemSettingsPayload, SystemSettingsPayload, 'w) fetcher \<Rightarrow>
    ('c, StartupSummaryPayload, 'w) fetcher \<Rightarrow> ('d, SystemResourceUsage, 'w) fetcher \<Rightarrow> 'w settings_state \<Rightarrow> bool"
  for env fl fs fm fu where
  mounted: "settings_visit env fl fs fm fu (settings_mounted env fl fm fu win st)"
| pressed: "settings_visit env fl fs fm fu s \<Longrightarrow> h \<in> set (offered (settings_view (fst s))) \<Longrightarrow>
    settings_visit env fl fs fm fu (run_settings env fl fs fm fu h s)"
| typed: "settings_visit env fl fs fm fu (p, r) \<Longrightarrow> c \<in> set (controls (settings_view p)) \<Longrightarrow> ct_active c \<Longrightarrow>
    settings_visit env fl fs fm fu (ct_assign c v p, r)"

text \<open>The problems shown are those of the form shown, and no request is under way.\<close>

definition settings_current :: "SettingsPage \<Rightarrow> bool" where
  "settings_current p \<longleftrightarrow> stp_validationErrors p = (case stp_form p of None \<Rightarrow> [] | Some f \<Rightarrow> settings_issues f) \<and>
     \<not> stp_loading p \<and> \<not> stp_saving p"

lemma validated_current:
  "\<not> stp_loading p \<Longrightarrow> \<not> stp_saving p \<Longrightarrow> stp_form p \<noteq> None \<Longrightarrow> settings_current (snd (validateSettings p))"
  by (auto simp: settings_current_def validateSettings_def)

lemma current_load: "settings_current p \<Longrightarrow> settings_current (fst (snd (settings_load env fl fm fu (p, st))))"
  by (simp add: settings_load_def guarded_eval script_simps settings_reset_def settings_current_def validateSettings_def
      split: sum.splits js_error.splits prod.splits)

lemma current_save:
  assumes "settings_current p"
  shows "settings_current (fst (snd (settings_save env fs fm fu (p, st))))"
proof (cases "stp_form p")
  case None
  then show ?thesis using assms by (simp add: settings_save_def script_simps)
next
  case (Some f)
  show ?thesis
  proof (cases "settings_valid f")
    case True
    then show ?thesis using assms Some settings_issues_empty [of f]
      by (simp add: save_guarded [OF Some True] guarded_eval script_simps settings_reset_def settings_current_def validateSettings_def
          del: uni.simps split: sum.splits js_error.splits prod.splits)
  next
    case False
    then show ?thesis using assms Some settings_issues_empty [of f]
      by (simp add: settings_save_def script_simps validateSettings_def settings_current_def del: uni.simps)
  qed
qed

lemma current_edit: "settings_current p \<Longrightarrow> settings_current (settings_edit change p)"
  by (auto simp: settings_edit_def validateSettings_def settings_current_def split: option.splits)

lemma current_assign:
  assumes "settings_current p" "c \<in> set (controls (settings_view p))"
  shows "settings_current (ct_assign c v p)"
proof (cases "stp_form p")
  case None
  then have "controls (settings_view p) = []" by (simp add: settings_view_def controls_simps control_at_def view_simps del: uni.simps)
  then show ?thesis using assms by simp
next
  case (Some f)
  have session: "settings_current (stp_adminSession_update g p)" for g using assms(1) by (simp add: settings_current_def)
  from assms(2) show ?thesis
    unfolding settings_controls [OF Some] storage_controls cleanup_controls retention_controls runtime_controls session_controls
    by (auto simp: number_input_def input_def form_setters intro: current_edit [OF assms(1)] session)
qed

lemma visit_current: "settings_visit env fl fs fm fu s \<Longrightarrow> settings_current (fst s)"
proof (induction rule: settings_visit.induct)
  case (mounted win st)
  have "settings_current (loadAdminSession win settings_page_init)"
    by (simp add: settings_current_def loadAdminSession_def settings_page_init_def split: option.splits)
  from current_load [OF this] show ?case by (simp add: settings_mounted_def Let_def)
next
  case (pressed s h)
  obtain p win st where s: "s = (p, win, st)" by (cases s)
  have "settings_current (fst (saveAdminSession p win))" "settings_current (fst (clearAdminSession p win))"
    using pressed.IH s by (auto simp: saveAdminSession_def clearAdminSession_def settings_current_def split: option.splits)
  then show ?case
    using pressed.IH s by (cases h) (auto simp: run_settings_def Let_def intro: current_load current_save)
qed (auto intro: current_assign)

lemmas alert_eval = alerts_simps alert_at_def view_simps

lemma card_warnings:
  "(''warning'', m) \<notin> set (alerts (settings_storage_card p f))" "(''warning'', m) \<notin> set (alerts (settings_cleanup_card p f))"
  "(''warning'', m) \<notin> set (alerts (settings_retention_card p f))" "(''warning'', m) \<notin> set (alerts (settings_probe_card p f))"
  "(''warning'', m) \<notin> set (alerts (settings_delivery_card p f))" "(''warning'', m) \<notin> set (alerts (settings_policy_card p f))"
  "(''warning'', m) \<notin> set (alerts (settings_runtime_card p f))" "(''warning'', m) \<notin> set (alerts (settings_session_card p f))"
  "(''warning'', m) \<notin> set (alerts (settings_resources p u))"
  by (simp_all add: settings_storage_card_def settings_cleanup_card_def settings_resources_def settings_retention_card_def
      settings_probe_card_def settings_delivery_card_def settings_policy_card_def settings_runtime_card_def settings_session_card_def
      alert_eval del: uni.simps)

lemma resources_warnings: "(''warning'', m) \<notin> set (alerts (settings_resources_card p))"
  by (cases "stp_resourceUsage p") (simp_all add: settings_resources_card_def card_warnings alert_eval del: uni.simps)

lemma advice_differs: "(uni ''~5927~6587~4EF6~3001~70ED~70B9~8D44~6E90~548C~70ED~70B9~6765~6E90 IP ~7684~9650~6D41/~4E34~65F6~9650~5236~5EFA~8BAE~5728~201C~544A~8B66~4E0E~4FDD~62A4~201D~9875~7EDF~4E00~64CD~4F5C~FF1B~7CFB~7EDF~8BBE~7F6E~9875~4E3B~8981~8D1F~8D23~4E00~81F4~6027~4E0E~5168~5C40~6536~53E3~68C0~67E5~3002'') \<noteq> (uni ''~8BF7~5148~4FEE~6B63~4EE5~4E0B~7CFB~7EDF~8BBE~7F6E~95EE~9898'')"
proof -
  have "hd (uni ''~5927~6587~4EF6~3001~70ED~70B9~8D44~6E90~548C~70ED~70B9~6765~6E90 IP ~7684~9650~6D41/~4E34~65F6~9650~5236~5EFA~8BAE~5728~201C~544A~8B66~4E0E~4FDD~62A4~201D~9875~7EDF~4E00~64CD~4F5C~FF1B~7CFB~7EDF~8BBE~7F6E~9875~4E3B~8981~8D1F~8D23~4E00~81F4~6027~4E0E~5168~5C40~6536~53E3~68C0~67E5~3002'') \<noteq> hd (uni ''~8BF7~5148~4FEE~6B63~4EE5~4E0B~7CFB~7EDF~8BBE~7F6E~95EE~9898'')"
    by (simp add: uni_heads del: uni.simps)
  then show ?thesis by metis
qed

lemma warning_shown:
  "(''warning'', (uni ''~8BF7~5148~4FEE~6B63~4EE5~4E0B~7CFB~7EDF~8BBE~7F6E~95EE~9898'')) \<in> set (alerts (settings_view p)) \<longleftrightarrow> stp_validationErrors p \<noteq> []"
proof -
  have other: "(''warning'', (uni ''~8BF7~5148~4FEE~6B63~4EE5~4E0B~7CFB~7EDF~8BBE~7F6E~95EE~9898'')) \<notin> set (alerts (settings_advice_card p))"
    by (simp add: settings_advice_card_def alert_eval advice_differs [symmetric] del: uni.simps)
  show ?thesis
  proof (cases "stp_form p")
    case None
    then show ?thesis by (simp add: settings_view_def alert_eval del: uni.simps)
  next
    case (Some f)
    then show ?thesis by (simp add: settings_view_def card_warnings resources_warnings other alert_eval del: uni.simps)
  qed
qed

lemma card_offered:
  "offered (settings_storage_card p f) = []" "offered (settings_cleanup_card p f) = []" "offered (settings_retention_card p f) = []"
  "offered (settings_probe_card p f) = []" "offered (settings_delivery_card p f) = []" "offered (settings_policy_card p f) = []"
  "offered (settings_runtime_card p f) = []" "offered (settings_resources p u) = []" "offered (settings_advice_card p) = []"
  "offered (settings_session_card p f) = [Settings_saveAdminSession, Settings_clearAdminSession]"
  by (simp_all add: settings_storage_card_def settings_cleanup_card_def settings_resources_def settings_retention_card_def
      settings_probe_card_def settings_delivery_card_def settings_policy_card_def settings_runtime_card_def settings_session_card_def
      settings_advice_card_def offered_simps offer_at_def view_simps reacts_def del: uni.simps)

lemma usage_card_offered: "offered (settings_resources_card p) = []"
  by (simp add: settings_resources_card_def card_offered offered_simps offer_at_def view_simps del: uni.simps split: option.split)

lemma settings_offered:
  "offered (settings_view p) = Settings_load # (if stp_saving p then [] else [Settings_save]) @
     (if stp_form p = None then [] else [Settings_saveAdminSession, Settings_clearAdminSession])"
  by (simp add: settings_view_def card_offered usage_card_offered offered_simps offer_at_def view_simps reacts_def
      del: uni.simps split: option.split)

lemma settings_error_said: "stp_error p \<noteq> [] \<Longrightarrow> stp_error p \<in> set (said (settings_view p))"
  by (simp add: settings_view_def said_simps view_simps message_of_def del: uni.simps split: option.split)

interpretation settings_shown: shown_errors stp_loading "\<lambda>b p. p\<lparr>stp_loading := b\<rparr>" stp_error "\<lambda>m p. p\<lparr>stp_error := m\<rparr>"
  "settings_reset" settings_view
  by unfold_locales (rule settings_error_said)

interpretation settings_button: busy_button stp_saving "\<lambda>b p. p\<lparr>stp_saving := b\<rparr>" stp_error "\<lambda>m p. p\<lparr>stp_error := m\<rparr>"
  "settings_reset" settings_view Settings_save "\<lambda>p. True"
  by unfold_locales (auto simp: settings_offered)

end
