(* ===== verification/Components.thy ===== *)
theory Components
  imports Markup LogPages UiShell
begin

text \<open>
  The display components (\<open>components/*.vue\<close>) and the two pages without a state of their own,
  \<open>HomeView.vue\<close> and \<open>PlaceholderView.vue\<close>. A component is a function from its props to nodes; the slot
  \<open>actions\<close> of \<open>ActionableNotice\<close> is its last argument, empty when none is given. What the message host
  renders is Ant Design's.
\<close>

definition actionable_notice ::
  "string option \<Rightarrow> string \<Rightarrow> string \<Rightarrow> string option \<Rightarrow> string option \<Rightarrow> string option \<Rightarrow> ('h, 'p) node list \<Rightarrow> ('h, 'p) node list" where
  "actionable_notice kind title summary suggestion detail docLink actions =
    [El ''a-alert'' [Bind ''type'' (opt_json JStr kind), Bind ''show-icon'' (JBool True), Bind ''message'' (JStr title)]
      [El ''template'' [Const ''slot'' ''description''] [El ''a-space'' [Const ''direction'' ''vertical'', Const ''size'' ''small'']
            ([El ''div'' []
               [El ''strong'' [] [Text (uni ''~7ED3~8BBA~FF1A'')],
                 Text summary]] @
             (if opt_truthy suggestion then
               [El ''div'' []
                 [El ''strong'' [] [Text (uni ''~5EFA~8BAE~FF1A'')],
                   Text (nullish suggestion [])]]
             else []) @
             (if opt_truthy detail then
               [El ''div'' []
                 [El ''strong'' [] [Text (uni ''~8BE6~60C5~FF1A'')],
                   Text (nullish detail [])]]
             else []) @
             (if actions \<noteq> [] \<or> opt_truthy docLink then
               [El ''a-space'' [Bind ''wrap'' (JBool True)]
                 (actions @
                  (if opt_truthy docLink then
                    [El ''a'' [Bind ''href'' (opt_json JStr docLink), Const ''target'' ''_blank'', Const ''rel'' ''noopener noreferrer''] [Text (uni ''~67E5~770B~6587~6863'')]]
                  else []))]
             else []))]]]"

definition status_pill :: "string \<Rightarrow> PillKind \<Rightarrow> ('h, 'p) node list" where
  "status_pill val kind =
    [El ''a-tag'' [Bind ''color'' (JStr (resolvedColor kind val))] [Text (resolvedLabel kind val)]]"

definition field_label_tooltip :: "string \<Rightarrow> string \<Rightarrow> ('h, 'p) node list" where
  "field_label_tooltip label tooltip =
    [El ''a-space'' [Bind ''size'' (JInt 4)]
      [El ''span'' [] [Text label],
        El ''a-tooltip'' [Bind ''title'' (JStr tooltip)]
         [El ''a-typography-text'' [Const ''type'' ''secondary''] [Text (uni ''~24D8'')]]]]"

definition global_message_host :: "('h, 'p) node list" where
  "global_message_host =
    [El ''component'' [] []]"

record OpsCard =
  opc_title :: string
  opc_value :: rat

definition ops_dashboard_cards :: "OpsCard list" where
  "ops_dashboard_cards =
     [\<lparr>opc_title = (uni ''RTP ~541E~5410 (MB/s)''), opc_value = 128\<rparr>, \<lparr>opc_title = (uni ''SIP ~6210~529F~7387 (%)''), opc_value = 1999 / 20\<rparr>,
      \<lparr>opc_title = (uni ''~91CD~8BD5~961F~5217~957F~5EA6''), opc_value = 3\<rparr>]"

definition ops_dashboard :: "('h, 'p) node list" where
  "ops_dashboard =
    [El ''a-layout'' []
      [El ''a-typography-title'' [Bind ''level'' (JInt 3)] [Text (uni ''~96A7~9053~7F51~5173~8FD0~7EF4~540E~53F0'')],
        El ''a-row'' []
         (concat (map (\<lambda>item.
            [El ''a-col'' []
              [El ''a-card'' []
                 [El ''a-statistic'' [Bind ''title'' (JStr (opc_title item)), Bind ''value'' (JNum (opc_value item))] []]]]) ops_dashboard_cards)),
        El ''a-alert'' [Const ''message'' (uni ''~544A~8B66~4E2D~5FC3~FF1A~5F53~524D~65E0 P1 ~544A~8B66''), Const ''type'' ''success'', Bind ''show-icon'' (JBool True)] [],
        El ''a-alert'' [Const ''message'' (uni ''~94FE~8DEF~8FFD~8E2A~FF1ASIP->RTP->HTTP ~5168~94FE~8DEF~53EF~89C2~6D4B~FF08~5360~4F4D~FF09''), Const ''type'' ''info'', Bind ''show-icon'' (JBool True)] []]]"

definition home_view :: "HealthState \<Rightarrow> ('h, 'p) node list" where
  "home_view health =
    [El ''a-layout'' []
      [El ''a-card'' [Const ''title'' (uni ''HTTP ~6620~5C04~96A7~9053~7F51~5173~7BA1~7406~754C~9762'')]
         [El ''a-typography-paragraph'' [] [Text (uni ''~5F53~524D~4E3B~7EBF~4E3A~201CHTTP ~6620~5C04~96A7~9053~6A21~5F0F~201D~FF1A~56F4~7ED5~672C~7AEF~8282~70B9/~5BF9~7AEF~8282~70B9~3001~7F51~7EDC~6A21~5F0F~3001~80FD~529B~77E9~9635~4E0E~96A7~9053~6620~5C04~8FDB~884C~8FD0~7EF4~3002'')],
           El ''a-typography-paragraph'' [Const ''type'' ''secondary''] [Text (uni ''~5386~53F2~672F~8BED route/api_code/template ~4EC5~7528~4E8E~517C~5BB9~FF0C~4E0D~4F5C~4E3A~9ED8~8BA4~4EA7~54C1~8868~8FBE~3002'')],
           El ''a-descriptions'' [Bind ''bordered'' (JBool True), Bind ''column'' (JInt 1)]
            [El ''a-descriptions-item'' [Const ''label'' (uni ''Gateway ~72B6~6001'')] [Text (health_status health)],
              El ''a-descriptions-item'' [Const ''label'' (uni ''~540E~7AEF~5065~5EB7~68C0~67E5'')] [Text ''GET /healthz'']]]]]"

definition placeholder_title :: "string option \<Rightarrow> string" where
  "placeholder_title meta_title = nullish meta_title (uni ''~672A~547D~540D~9875~9762'')"

definition placeholder_description :: "string option \<Rightarrow> string" where
  "placeholder_description meta_description = nullish meta_description (uni ''~7528~4E8E~627F~8F7D SIP ~63A7~5236~9762~3001RTP ~6587~4EF6~9762~4E0E HTTP ~6267~884C~94FE~8DEF~76F8~5173~7684~7BA1~7406~80FD~529B~3002'')"

definition placeholder_view :: "string option \<Rightarrow> string option \<Rightarrow> ('h, 'p) node list" where
  "placeholder_view meta_title meta_description =
    [El ''a-card'' [Bind ''title'' (JStr (placeholder_title meta_title)), Bind ''bordered'' (JBool False)]
      [El ''a-typography-paragraph'' [] [Text (placeholder_description meta_description)],
        El ''a-alert'' [Const ''type'' ''info'', Bind ''show-icon'' (JBool True), Const ''message'' (uni ''~9875~9762~5360~4F4D''), Const ''description'' (uni ''~8BE5~6A21~5757~6B63~5728~5F00~53D1~4E2D~FF0C~540E~7EED~5C06~63A5~5165~771F~5B9E~4E1A~52A1~80FD~529B~3002'')] []]]"

definition app_view :: "('h, 'p) node list \<Rightarrow> ('h, 'p) node list" where
  "app_view page =
    page"

subsection \<open>What a notice contains\<close>

text \<open>A notice says its title and its summary, and contains what its slot contains.\<close>

lemma notice_said: "{title, summary} \<subseteq> set (said (actionable_notice kind title summary suggestion detail docLink actions))"
  by (simp add: actionable_notice_def said_simps view_simps message_of_def)

lemma notice_collects:
  assumes "\<And>t ps. events ps = [] \<Longrightarrow> models ps = [] \<Longrightarrow> t \<noteq> ''a-alert'' \<Longrightarrow> f t ps = []"
  shows "collects f (actionable_notice kind title summary suggestion detail docLink actions) =
    f ''a-alert'' [Bind ''type'' (opt_json JStr kind), Bind ''show-icon'' (JBool True), Bind ''message'' (JStr title)] @ collects f actions"
  using assms by (simp add: actionable_notice_def collects_simps view_simps del: uni.simps)

lemma notice_offered: "offered (actionable_notice kind title summary suggestion detail docLink actions) = offered actions"
  unfolding offered_def
  by (subst notice_collects) (simp_all add: offer_at_def view_simps)

lemma notice_controls: "controls (actionable_notice kind title summary suggestion detail docLink actions) = controls actions"
  unfolding controls_def
  by (subst notice_collects) (simp_all add: control_at_def view_simps)

end
