(* ===== verification/AlertsView.thy ===== *)
theory AlertsView
  imports Components AlertsPage SystemSettingsPage
begin

text \<open>
  The template of \<open>views/AlertsAndRateLimitView.vue\<close>. The page reads the texts of a resource view as the
  settings page does. A scope or a restriction of the dynamic state is passed to the script as the
  declared type; the host's date parser and the clock are parameters, as they are in the script.
\<close>

datatype alerts_call =
    Alerts_load | Alerts_recover | Alerts_edit | Alerts_cancel | Alerts_save | Alerts_restrict | Alerts_clear
  | Alerts_quick string string int | Alerts_remove ProtectionRestrictionSnapshot

definition stats_of :: "jsval \<Rightarrow> ProtectionTargetStat list option" where
  "stats_of v = (if is_array v then Some (map (\<lambda>t.
     \<lparr>pts_target = as_text (chain t ''target''), pts_count = as_int (chain t ''count'')\<rparr>) (elements v)) else None)"

definition scope_of :: "jsval \<Rightarrow> ProtectionScopeSnapshot" where
  "scope_of v =
     \<lparr>pss_scope = as_text (chain v ''scope''), pss_label = as_text (chain v ''label''), pss_rps = as_int (chain v ''rps''),
      pss_burst = as_int (chain v ''burst''), pss_max_concurrent = as_int (chain v ''max_concurrent''),
      pss_active_requests = as_int (chain v ''active_requests''), pss_rate_limit_hits_total = as_int (chain v ''rate_limit_hits_total''),
      pss_concurrent_rejects_total = as_int (chain v ''concurrent_rejects_total''), pss_allowed_total = as_int (chain v ''allowed_total''),
      pss_top_rate_limit_targets = stats_of (chain v ''top_rate_limit_targets''),
      pss_top_concurrent_targets = stats_of (chain v ''top_concurrent_targets''),
      pss_top_allowed_targets = stats_of (chain v ''top_allowed_targets'')\<rparr>"

definition restriction_of :: "jsval \<Rightarrow> ProtectionRestrictionSnapshot" where
  "restriction_of v =
     \<lparr>prs_scope = as_text (chain v ''scope''), prs_target = as_text (chain v ''target''), prs_reason = text_opt (chain v ''reason''),
      prs_created_at = text_opt (chain v ''created_at''), prs_expires_at = text_opt (chain v ''expires_at''),
      prs_minutes = int_opt (chain v ''minutes''), prs_active = as_bool (chain v ''active'')\<rparr>"

definition scope_value :: "jsval \<Rightarrow> RestrictionScope" where
  "scope_value v = (if v = JStr ''mapping'' then Scope_mapping else Scope_source)"

subsection \<open>The template\<close>

definition alerts_scope_card ::
  "(string \<Rightarrow> int option) \<Rightarrow> int \<Rightarrow> AlertsPage \<Rightarrow> jsval \<Rightarrow> (alerts_call, AlertsPage) node list" where
  "alerts_scope_card date_parse now p sc =
    [El ''a-card'' [Const ''size'' ''small'']
      ([El ''div'' [] [Text (display (chain sc ''label''))],
        El ''a-descriptions'' [Bind ''column'' (JInt 1), Const ''size'' ''small'']
         [El ''a-descriptions-item'' [Const ''label'' ''RPS''] [Text (display (chain sc ''rps''))],
           El ''a-descriptions-item'' [Const ''label'' ''Burst''] [Text (display (chain sc ''burst''))],
           El ''a-descriptions-item'' [Const ''label'' (uni ''~6700~5927~5E76~53D1'')] [Text (display (chain sc ''max_concurrent''))],
           El ''a-descriptions-item'' [Const ''label'' (uni ''~5F53~524D~6D3B~8DC3'')] [Text (display (chain sc ''active_requests''))],
           El ''a-descriptions-item'' [Const ''label'' (uni ''~9650~6D41~547D~4E2D'')] [Text (display (chain sc ''rate_limit_hits_total''))],
           El ''a-descriptions-item'' [Const ''label'' (uni ''~5E76~53D1~62D2~7EDD'')] [Text (display (chain sc ''concurrent_rejects_total''))]]] @
       (if (chain sc ''scope'') \<noteq> (JStr ''global'') then
         ([El ''a-divider'' [Const ''orientation'' ''left''] [Text (uni ''~70ED~70B9~76EE~6807~5FEB~6377~9650~5236'')]] @
         (if (int (length (scopeHotTargets (scope_of sc)))) = 0 then
           [El ''a-empty'' [Const ''description'' (uni ''~6682~65E0~70ED~70B9~76EE~6807'')] []]
         else [El ''a-list'' [Const ''size'' ''small''] (concat (map (\<lambda>item.
                [El ''a-list-item'' []
                  [El ''a-space'' []
                     [El ''div'' []
                        [El ''div'' [] [Text (ht_target item)],
                          El ''div'' []
                           [Text ((ht_sourceLabel item) @ (uni '' ~00B7 ~547D~4E2D '') @ (string_of_int (ht_count item)))]],
                       El ''a-space'' []
                        [El ''a-button'' [Const ''size'' ''small'', On ''click'' (Alerts_quick (as_text (chain sc ''scope'')) (ht_target item) 10)] [Text (uni ''~9650 10 ~5206~949F'')],
                          El ''a-button'' [Const ''size'' ''small'', Bind ''danger'' (JBool True), Bind ''ghost'' (JBool True), On ''click'' (Alerts_quick (as_text (chain sc ''scope'')) (ht_target item) 30)] [Text (uni ''~9650 30 ~5206~949F'')]]]]]) (scopeHotTargets (scope_of sc))))]))
       else []))]"

definition alerts_trigger_card ::
  "(string \<Rightarrow> int option) \<Rightarrow> int \<Rightarrow> AlertsPage \<Rightarrow> (alerts_call, AlertsPage) node list" where
  "alerts_trigger_card date_parse now p =
    [El ''a-card'' [Const ''title'' (uni ''~5F53~524D~89E6~53D1~72B6~6001''), Bind ''bordered'' (JBool False)]
      ([El ''div'' [] [Text (uni ''~672C~9875~663E~793A~8FD0~884C~6001~547D~4E2D~8BA1~6570~4E0E~70ED~70B9~5BF9~8C61~FF0C~4E0D~518D~53EA~5C55~793A~9759~6001~914D~7F6E~503C~3002'')],
        El ''a-descriptions'' [Bind ''column'' (JInt 1), Const ''size'' ''small'']
         [El ''a-descriptions-item'' [Const ''label'' (uni ''~7EDF~8BA1~53E3~5F84'')]
            [Text (display (or_else (chain (alp_state p) ''analysisWindow'') (JStr (uni ''~8FD1 1 ~5C0F~65F6''))))],
           El ''a-descriptions-item'' [Const ''label'' (uni ''~5F53~524D~547D~4E2D'')]
            [Text (display (or_else (json_join (uni ''~3001'') (chain (alp_state p) ''currentTriggered'')) (JStr (uni ''~672A~89E6~53D1''))))],
           El ''a-descriptions-item'' [Const ''label'' (uni ''~9650~6D41~72B6~6001'')]
            [Text (display (or_else (chain (alp_state p) ''rateLimitStatus'') (JStr (uni ''~6B63~5E38''))))],
           El ''a-descriptions-item'' [Const ''label'' (uni ''~7194~65AD~72B6~6001'')]
            [Text (display (or_else (chain (alp_state p) ''circuitBreakerStatus'') (JStr (uni ''~5173~95ED''))))],
           El ''a-descriptions-item'' [Const ''label'' (uni ''~4FDD~62A4~72B6~6001'')]
            [Text (display (or_else (chain (alp_state p) ''protectionStatus'') (JStr (uni ''~672A~89E6~53D1~4FDD~62A4''))))],
           El ''a-descriptions-item'' [Const ''label'' (uni ''~8FD1 1 ~5C0F~65F6~5931~8D25~6570'')]
            [Text (display (coalesce (chain (alp_state p) ''recentFailureCount'') (JInt 0)))],
           El ''a-descriptions-item'' [Const ''label'' (uni ''~8FD1 1 ~5C0F~65F6~6162~8BF7~6C42'')]
            [Text (display (coalesce (chain (alp_state p) ''recentSlowRequestCount'') (JInt 0)))],
           El ''a-descriptions-item'' [Const ''label'' (uni ''~5F53~524D~6D3B~8DC3~8BF7~6C42'')]
            [Text (display (coalesce (chain (alp_state p) ''currentActiveRequests'') (JInt 0)))],
           El ''a-descriptions-item'' [Const ''label'' (uni ''~9650~6D41~547D~4E2D~7D2F~8BA1'')]
            [Text (display (coalesce (chain (alp_state p) ''rateLimitHitsTotal'') (JInt 0)))],
           El ''a-descriptions-item'' [Const ''label'' (uni ''~5E76~53D1~62D2~7EDD~7D2F~8BA1'')]
            [Text (display (coalesce (chain (alp_state p) ''concurrentRejectsTotal'') (JInt 0)))],
           El ''a-descriptions-item'' [Const ''label'' (uni ''~5141~8BB8~901A~8FC7~7D2F~8BA1'')]
            [Text (display (coalesce (chain (alp_state p) ''allowedRequestsTotal'') (JInt 0)))],
           El ''a-descriptions-item'' [Const ''label'' (uni ''~7194~65AD~6253~5F00~6570'')]
            [Text (display (coalesce (chain (alp_state p) ''circuitOpenCount'') (JInt 0)))],
           El ''a-descriptions-item'' [Const ''label'' (uni ''~534A~5F00~89C2~5BDF~6570'')]
            [Text (display (coalesce (chain (alp_state p) ''circuitHalfOpenCount'') (JInt 0)))],
           El ''a-descriptions-item'' [Const ''label'' (uni ''~7194~65AD~5F53~524D~76F8~4F4D'')]
            [Text (display (or_else (chain (alp_state p) ''circuitActiveState'') (JStr ''closed'')))],
           El ''a-descriptions-item'' [Const ''label'' (uni ''~6700~8FD1~89E6~53D1~7C7B~578B'')]
            [Text (display (or_else (chain (alp_state p) ''lastTriggeredType'') (JStr (uni ''~6682~65E0''))))],
           El ''a-descriptions-item'' [Const ''label'' (uni ''~6700~8FD1~89E6~53D1~65F6~95F4'')]
            [Text (display (or_else (chain (alp_state p) ''lastTriggeredTime'') (JStr (uni ''~6682~65E0''))))],
           El ''a-descriptions-item'' [Const ''label'' (uni ''~6700~8FD1~89E6~53D1~5BF9~8C61'')]
            [Text (display (or_else (chain (alp_state p) ''lastTriggeredTarget'') (JStr (uni ''~6682~65E0''))))],
           El ''a-descriptions-item'' [Const ''label'' (uni ''~7194~65AD~6062~590D~65F6~95F4'')]
            [Text (display (or_else (chain (alp_state p) ''circuitLastOpenUntil'') (JStr (uni ''~6682~65E0''))))],
           El ''a-descriptions-item'' [Const ''label'' (uni ''~7194~65AD~6700~8FD1~539F~56E0'')]
            [Text (display (or_else (chain (alp_state p) ''circuitLastOpenReason'') (JStr (uni ''~6682~65E0''))))]],
        El ''a-divider'' [Const ''orientation'' ''left''] [Text (uni ''~7194~65AD~7A97~53E3'')]] @
       (if (elements (chain (alp_state p) ''circuitEntries'')) = [] then
         [El ''a-empty'' [Const ''description'' (uni ''~6682~65E0~7194~65AD~5BF9~8C61'')] []]
       else [El ''a-list'' [Const ''size'' ''small''] (concat (map (\<lambda>item.
              [El ''a-list-item'' []
                [Text ((display (chain item ''key'')) @ (uni '' ~00B7 '') @ (display (chain item ''state'')) @ (uni '' ~00B7 '') @ (display (or_else (or_else (chain item ''open_until'') (chain item ''last_cause'')) (JStr (uni ''~89C2~5BDF~4E2D'')))))]]) (elements (chain (alp_state p) ''circuitEntries''))))]) @
       [El ''a-divider'' [Const ''orientation'' ''left''] [Text (uni ''~70ED~70B9~5BF9~8C61'')],
        El ''a-row'' []
         (concat (map (\<lambda>sc.
            [El ''a-col'' [] (alerts_scope_card date_parse now p sc)]) (elements (or_else (chain (alp_state p) ''scopes'') (JArr (map JStr []))))))])]"

definition alerts_policy_card ::
  "(string \<Rightarrow> int option) \<Rightarrow> int \<Rightarrow> AlertsPage \<Rightarrow> (alerts_call, AlertsPage) node list" where
  "alerts_policy_card date_parse now p =
    [El ''a-card'' [Const ''title'' (uni ''~4FDD~62A4~7B56~7565''), Bind ''bordered'' (JBool False)]
      [El ''a-alert'' [Const ''type'' ''info'', Bind ''show-icon'' (JBool True), Const ''message'' (uni ''~5EFA~8BAE~914D~5408 /metrics ~4E0E deploy/observability/prometheus/alerts.yaml ~4E00~8D77~4F7F~7528~FF1B~7B56~7565~8C03~4F18~540E~5148~89C2~5BDF 5~007E10 ~5206~949F~547D~4E2D~7387~518D~653E~91CF~3002'')] [],
        El ''a-form'' [Const ''layout'' ''vertical'']
         [El ''a-row'' []
            [El ''a-col'' []
               [El ''a-form-item'' [Const ''label'' (uni ''~544A~8B66~89C4~5219 1'')]
                  [El ''a-input'' [Model ''value'' (alp_alertRule1 p) (\<lambda>v. alp_alertRule1_update (\<lambda>_. v)), Bind ''disabled'' (JBool (\<not> (alp_editing p)))] []]],
              El ''a-col'' []
               [El ''a-form-item'' [Const ''label'' (uni ''~544A~8B66~89C4~5219 2'')]
                  [El ''a-input'' [Model ''value'' (alp_alertRule2 p) (\<lambda>v. alp_alertRule2_update (\<lambda>_. v)), Bind ''disabled'' (JBool (\<not> (alp_editing p)))] []]],
              El ''a-col'' []
               [El ''a-form-item'' [Const ''label'' (uni ''~6BCF~79D2~8BF7~6C42~6570~FF08RPS~FF09'')]
                  [El ''a-input-number'' [Model ''value'' (alp_rps p) (\<lambda>v. alp_rps_update (\<lambda>_. v)), Bind ''disabled'' (JBool (\<not> (alp_editing p))), Bind ''min'' (JInt 1)] []]],
              El ''a-col'' []
               [El ''a-form-item'' [Const ''label'' (uni ''~7A81~53D1~503C~FF08Burst~FF09'')]
                  [El ''a-input-number'' [Model ''value'' (alp_burst p) (\<lambda>v. alp_burst_update (\<lambda>_. v)), Bind ''disabled'' (JBool (\<not> (alp_editing p))), Bind ''min'' (JInt 1)] []]],
              El ''a-col'' []
               [El ''a-form-item'' [Const ''label'' (uni ''~6700~5927~5E76~53D1~6570'')]
                  [El ''a-input-number'' [Model ''value'' (alp_maxConcurrent p) (\<lambda>v. alp_maxConcurrent_update (\<lambda>_. v)), Bind ''disabled'' (JBool (\<not> (alp_editing p))), Bind ''min'' (JInt 1)] []]],
              El ''a-col'' []
               [El ''a-form-item'' [Const ''label'' (uni ''~7194~65AD~89C4~5219 1'')]
                  [El ''a-input'' [Model ''value'' (alp_circuitRule1 p) (\<lambda>v. alp_circuitRule1_update (\<lambda>_. v)), Bind ''disabled'' (JBool (\<not> (alp_editing p)))] []]],
              El ''a-col'' []
               [El ''a-form-item'' [Const ''label'' (uni ''~7194~65AD~89C4~5219 2'')]
                  [El ''a-input'' [Model ''value'' (alp_circuitRule2 p) (\<lambda>v. alp_circuitRule2_update (\<lambda>_. v)), Bind ''disabled'' (JBool (\<not> (alp_editing p)))] []]],
              El ''a-col'' []
               [El ''a-form-item'' [Const ''label'' (uni ''~5931~8D25~9608~503C'')]
                  [El ''a-input-number'' [Model ''value'' (alp_failureThreshold p) (\<lambda>v. alp_failureThreshold_update (\<lambda>_. v)), Bind ''disabled'' (JBool (\<not> (alp_editing p))), Bind ''min'' (JInt 1)] []]],
              El ''a-col'' []
               [El ''a-form-item'' [Const ''label'' (uni ''~6062~590D~7A97~53E3~FF08~79D2~FF09'')]
                  [El ''a-input-number'' [Model ''value'' (alp_recoveryWindowSec p) (\<lambda>v. alp_recoveryWindowSec_update (\<lambda>_. v)), Bind ''disabled'' (JBool (\<not> (alp_editing p))), Bind ''min'' (JInt 5)] []]]]]]]"

definition alerts_resources ::
  "(string \<Rightarrow> int option) \<Rightarrow> int \<Rightarrow> AlertsPage \<Rightarrow> SystemResourceUsage \<Rightarrow> (alerts_call, AlertsPage) node list" where
  "alerts_resources date_parse now p usage =
    [El ''a-descriptions'' [Bind ''column'' (JInt 1), Const ''size'' ''small'']
      [El ''a-descriptions-item'' [Const ''label'' (uni ''~91C7~96C6~65F6~95F4'')] [Text (str_or (sru_captured_at usage) ''-'')],
        El ''a-descriptions-item'' [Const ''label'' (uni ''~8FD0~884C~7ED3~8BBA'')]
         [El ''a-tag'' [Bind ''color'' (JStr (resourceStatusTagColor (sru_status_color usage)))]
            [Text (str_or (nullish (sru_status_summary usage) []) (uni ''~672A~8BC4~4F30''))]],
        El ''a-descriptions-item'' [Const ''label'' (uni ''~63A8~8350~6863~4F4D'')]
         [Text (str_or (nullish (sru_recommended_profile usage) []) (uni ''~5E73~8861~6A21~5F0F''))],
        El ''a-descriptions-item'' [Const ''label'' (uni ''~8FD0~884C~65F6~5DF2~5E94~7528~6863~4F4D'')]
         ([Text (str_or (nullish (if opt_truthy (sru_runtime_profile_applied usage) then sru_runtime_profile_applied usage else sru_recommended_profile usage) []) (uni ''~5E73~8861~6A21~5F0F''))] @
          (if (sru_runtime_profile_changed usage) = Some True then
            [El ''span'' [] [Text (uni ''~FF08~672C~8F6E~5DF2~5207~6362~FF09'')]]
          else [])),
        El ''a-descriptions-item'' [Const ''label'' ''CPU / GOMAXPROCS'']
         [Text ((string_of_int (sru_cpu_cores usage)) @ '' / '' @ (string_of_int (sru_gomaxprocs usage)))],
        El ''a-descriptions-item'' [Const ''label'' ''Goroutines''] [Text (string_of_int (sru_goroutines usage))],
        El ''a-descriptions-item'' [Const ''label'' (uni ''~5806~5185~5B58 / Sys'')]
         [Text ((formatMiB (Some (sru_heap_alloc_bytes usage))) @ '' / '' @ (formatMiB (Some (sru_heap_sys_bytes usage))))],
        El ''a-descriptions-item'' [Const ''label'' (uni ''~5806~7A7A~95F2 / ~6808~5185~5B58'')]
         [Text ((formatMiB (Some (sru_heap_idle_bytes usage))) @ '' / '' @ (formatMiB (Some (sru_stack_inuse_bytes usage))))],
        El ''a-descriptions-item'' [Const ''label'' (uni ''~6700~8FD1 GC'')] [Text (str_or (nullish (sru_last_gc_time usage) []) (uni ''~6682~65E0''))],
        El ''a-descriptions-item'' [Const ''label'' (uni ''~5F53~524D~6D3B~8DC3~8BF7~6C42'')]
         [Text ((string_of_int (sru_active_requests usage)) @ (uni ''~FF08'') @ (num_text (nullish (sru_active_request_usage_percent usage) 0)) @ (uni ''%~FF09''))],
        El ''a-descriptions-item'' [Const ''label'' (uni ''SIP ~5F53~524D~8FDE~63A5'')] [Text (string_of_int (sru_sip_connections usage))],
        El ''a-descriptions-item'' [Const ''label'' (uni ''RTP ~6D3B~8DC3~4F20~8F93'')] [Text (string_of_int (sru_rtp_active_transfers usage))],
        El ''a-descriptions-item'' [Const ''label'' (uni ''RTP ~7AEF~53E3~6C60'')]
         [Text ((string_of_int (sru_rtp_port_pool_used usage)) @ '' / '' @ (string_of_int (sru_rtp_port_pool_total usage)) @ (uni ''~FF08'') @ (num_text (nullish (sru_rtp_port_pool_usage_percent usage) 0)) @ (uni ''%~FF09''))],
        El ''a-descriptions-item'' [Const ''label'' (uni ''~7406~8BBA~7A33~5B9A RTP ~5E76~53D1'')]
         [Text (string_of_int (nullish (sru_theoretical_rtp_transfer_limit usage) 0))],
        El ''a-descriptions-item'' [Const ''label'' (uni ''~5EFA~8BAE~6587~4EF6~5E76~53D1 / ~5EFA~8BAE~603B~5E76~53D1'')]
         [Text ((string_of_int (nullish (sru_recommended_file_transfer_max_concurrent usage) 0)) @ '' / '' @ (string_of_int (nullish (sru_recommended_max_concurrent usage) 0)))],
        El ''a-descriptions-item'' [Const ''label'' (uni ''~5EFA~8BAE~9650~6D41 RPS / Burst'')]
         [Text ((string_of_int (nullish (sru_recommended_rate_limit_rps usage) 0)) @ '' / '' @ (string_of_int (nullish (sru_recommended_rate_limit_burst usage) 0)))],
        El ''a-descriptions-item'' [Const ''label'' (uni ''~5927~6587~4EF6~603B~5E26~5BBD~4E0A~9650'')]
         [Text (formatMbps (Some (sru_configured_generic_download_mbps usage)))],
        El ''a-descriptions-item'' [Const ''label'' (uni ''~5355~4F20~8F93~4FDD~5E95~5E26~5BBD'')]
         [Text (formatMbps (Some (sru_configured_generic_per_transfer_mbps usage)))],
        El ''a-descriptions-item'' [Const ''label'' (uni ''~70ED~70B9~7F13~5B58 / ~70ED~70B9~7A97~53E3'')]
         [Text ((formatMBValue (Some (sru_configured_adaptive_hot_cache_mb usage))) @ '' / '' @ (formatMBValue (Some (sru_configured_adaptive_hot_window_mb usage))))],
        El ''a-descriptions-item'' [Const ''label'' ''RTP jitter/loss / pending'']
         [Text ((string_of_int (nullish (sru_observed_jitter_loss_events usage) 0)) @ '' / '' @ (string_of_int (nullish (sru_observed_gap_timeouts usage) 0)) @ '' / '' @ (string_of_int (nullish (sru_observed_peak_pending usage) 0)))],
        El ''a-descriptions-item'' [Const ''label'' ''writer block / circuit open'']
         [Text ((string_of_int (nullish (sru_observed_max_writer_block_ms usage) 0)) @ '' ms / '' @ (string_of_int (nullish (sru_observed_circuit_open_count usage) 0)))],
        El ''a-descriptions-item'' [Const ''label'' (uni ''~8FD0~884C~65F6~5199~56DE~8BF4~660E'')]
         [El ''span'' []
            [Text (str_or (nullish (sru_runtime_profile_reason usage) []) (uni ''~672A~5199~56DE''))]],
        El ''a-descriptions-item'' [Const ''label'' (uni ''~5EFA~8BAE~52A8~4F5C'')]
         [Text (str_or (nullish (map_option (join_with (uni ''~FF1B'')) (sru_suggested_actions usage)) []) (uni ''~5148~89C2~5BDF~8FD0~884C~7ED3~8BBA~540E~518D~653E~91CF~3002''))]]]"

definition alerts_resources_card ::
  "(string \<Rightarrow> int option) \<Rightarrow> int \<Rightarrow> AlertsPage \<Rightarrow> (alerts_call, AlertsPage) node list" where
  "alerts_resources_card date_parse now p =
    [El ''a-card'' [Const ''title'' (uni ''~7CFB~7EDF~8D44~6E90~4E0E~5E26~5BBD~6536~53E3''), Bind ''bordered'' (JBool False)]
      ([El ''a-alert'' [Const ''type'' ''info'', Bind ''show-icon'' (JBool True), Const ''message'' (uni ''~4ECE~8FD0~7EF4~89C6~89D2~7EDF~4E00~67E5~770B CPU~3001~5185~5B58~3001~6D3B~8DC3~8FDE~63A5~3001RTP ~7AEF~53E3~6C60~FF0C~4EE5~53CA~5F53~524D~751F~6548~7684~5927~6587~4EF6~5E26~5BBD~4E0E~70ED~70B9~7A97~53E3~FF08MB/Mbps ~53E3~5F84~FF09~3002'')] []] @
       (case alp_resourceUsage p of
         None \<Rightarrow> [El ''a-empty'' [Const ''description'' (uni ''~6682~65E0~8D44~6E90~89C6~56FE'')] []]
       | Some usage \<Rightarrow> (alerts_resources date_parse now p usage)))]"

definition alerts_restriction_item ::
  "(string \<Rightarrow> int option) \<Rightarrow> int \<Rightarrow> AlertsPage \<Rightarrow> jsval \<Rightarrow> (alerts_call, AlertsPage) node list" where
  "alerts_restriction_item date_parse now p item =
    [El ''a-list-item'' []
      [El ''a-space'' [Const ''align'' ''start'']
         [El ''div'' []
            [El ''div'' []
               [El ''a-tag'' [Bind ''color'' (JStr (if truthy (chain item ''active'') then ''orange'' else ''default''))]
                  [Text (display (if (chain item ''scope'') = (JStr ''source'') then JStr (uni ''~6765~6E90 IP'') else (if (chain item ''scope'') = (JStr ''mapping'') then JStr (uni ''~6620~5C04~8D44~6E90'') else chain item ''scope'')))],
                 El ''a-tag'' [Bind ''color'' (JStr (if truthy (chain item ''auto'') then ''blue'' else ''default''))] [Text (if truthy (chain item ''auto'') then (uni ''~81EA~52A8'') else (uni ''~4EBA~5DE5''))],
                 El ''span'' [] [Text (display (chain item ''target''))]],
              El ''div'' []
               [Text ((uni ''~539F~56E0~FF1A'') @ (display (or_else (chain item ''reason'') (JStr (uni ''~4E34~65F6~9650~5236'')))) @ (if truthy (chain item ''trigger'') then (uni '' ~00B7 ~89E6~53D1='') @ (js_String (chain item ''trigger'')) else []))],
              El ''div'' []
               [Text ((uni ''~521B~5EFA~FF1A'') @ (display (or_else (chain item ''created_at'') (JStr ''-''))) @ (uni ''~FF1B~5230~671F~FF1A'') @ (display (or_else (chain item ''expires_at'') (JStr ''-''))) @ (uni ''~FF1B'') @ (if truthy (chain item ''auto_release'') then (uni ''~5230~671F~81EA~52A8~6062~590D'') else (uni ''~4EBA~5DE5~89E3~9664'')))]],
           El ''a-space'' []
            [El ''a-tag'' []
               [Text (restrictionRemainingText date_parse now (restriction_of item))],
              El ''a-button'' [Const ''size'' ''small'', Bind ''danger'' (JBool True), Bind ''ghost'' (JBool True), Bind ''loading'' (JBool ((alp_removingKey p) = ((js_String (chain item ''scope'')) @ ''|'' @ (js_String (chain item ''target''))))), On ''click'' (Alerts_remove (restriction_of item))] [Text (uni ''~89E3~9664'')]]]]]"

definition alerts_restrictions_card ::
  "(string \<Rightarrow> int option) \<Rightarrow> int \<Rightarrow> AlertsPage \<Rightarrow> (alerts_call, AlertsPage) node list" where
  "alerts_restrictions_card date_parse now p =
    [El ''a-card'' [Const ''title'' (uni ''~4E34~65F6~9650~5236 / ~9ED1~540D~5355''), Bind ''bordered'' (JBool False)]
      ([El ''a-alert'' [Const ''type'' ''warning'', Bind ''show-icon'' (JBool True), Const ''message'' (uni ''~7528~4E8E~5F02~5E38~6765~6E90 IP ~6216~70ED~70B9~8D44~6E90~7684~4E34~65F6~5C01~7981~3002~5EFA~8BAE~5148~9650 10~007E30 ~5206~949F~89C2~5BDF~FF0C~907F~514D~76F4~63A5~6C38~4E45~62C9~9ED1~3002'')] [],
        El ''a-form'' [Const ''layout'' ''vertical'']
         [El ''a-row'' []
            [El ''a-col'' []
               [El ''a-form-item'' [Const ''label'' (uni ''~9650~5236~8303~56F4'')]
                  [El ''a-select'' [Model ''value'' (JStr (scope_text (alp_restrictionScope p))) (\<lambda>v. alp_restrictionScope_update (\<lambda>_. scope_value v)), Bind ''options'' (JArr (map (\<lambda>(l, s). JObj [(''label'', JStr l), (''value'', JStr (scope_text s))]) restrictionScopeOptions))] []]],
              El ''a-col'' []
               [El ''a-form-item'' [Const ''label'' (uni ''~76EE~6807'')]
                  [El ''a-input'' [Model ''value'' (JStr (alp_restrictionTarget p)) (\<lambda>v. alp_restrictionTarget_update (\<lambda>_. as_text v)), Const ''placeholder'' (uni ''~6765~6E90 IP ~6216~6620~5C04 ID'')] []]],
              El ''a-col'' []
               [El ''a-form-item'' [Const ''label'' (uni ''~5206~949F'')]
                  [El ''a-input-number'' [Model ''value'' (JInt (alp_restrictionMinutes p)) (\<lambda>v. alp_restrictionMinutes_update (\<lambda>_. as_int v)), Bind ''min'' (JInt 1), Bind ''max'' (JInt 1440)] []]],
              El ''a-col'' []
               [El ''a-form-item'' [Const ''label'' (uni ''~539F~56E0'')]
                  [El ''a-input'' [Model ''value'' (JStr (alp_restrictionReason p)) (\<lambda>v. alp_restrictionReason_update (\<lambda>_. as_text v)), Const ''placeholder'' (uni ''~4F8B~5982~FF1A~70ED~70B9~5F02~5E38~3001~538B~6D4B~9650~6D41'')] []]]],
           El ''a-space'' []
            [El ''a-button'' [Const ''type'' ''primary'', Bind ''loading'' (JBool (alp_restricting p)), Bind ''disabled'' (JBool ((trim (alp_restrictionTarget p)) = [])), On ''click'' Alerts_restrict] [Text (uni ''~6DFB~52A0~4E34~65F6~9650~5236'')],
              El ''a-button'' [On ''click'' Alerts_clear] [Text (uni ''~6E05~7A7A'')]]],
        El ''a-divider'' [Const ''orientation'' ''left''] [Text (uni ''~5F53~524D~9650~5236~9879'')]] @
       (if (elements (chain (alp_state p) ''restrictions'')) = [] then
         [El ''a-empty'' [Const ''description'' (uni ''~6682~65E0~4E34~65F6~9650~5236'')] []]
       else [El ''a-list'' [Const ''size'' ''small''] (concat (map (\<lambda>item.
              (alerts_restriction_item date_parse now p item)) (elements (chain (alp_state p) ''restrictions''))))]))]"

definition alerts_view ::
  "(string \<Rightarrow> int option) \<Rightarrow> int \<Rightarrow> AlertsPage \<Rightarrow> (alerts_call, AlertsPage) node list" where
  "alerts_view date_parse now p =
    [El ''a-space'' [Const ''direction'' ''vertical'', Const ''size'' ''large'']
      ([El ''a-page-header'' [Const ''title'' (uni ''~544A~8B66~4E0E~4FDD~62A4''), Const ''sub-title'' (uni ''~4E0E~603B~89C8~76D1~63A7~3001~8BBF~95EE~65E5~5FD7~5171~7528~201C~8FD1 1 ~5C0F~65F6~8BBF~95EE~65E5~5FD7~201D~5206~6790~53E3~5F84~3002'')]
         [El ''template'' [Const ''slot'' ''extra''] [El ''a-space'' []
               ([El ''a-button'' [On ''click'' Alerts_load] [Text (uni ''~5237~65B0'')],
                 El ''a-button'' [Bind ''loading'' (JBool (alp_recovering p)), On ''click'' Alerts_recover] [Text (uni ''~7194~65AD~6062~590D'')]] @
                (if \<not> (alp_editing p) then
                  [El ''a-button'' [Const ''type'' ''primary'', On ''click'' Alerts_edit] [Text (uni ''~7F16~8F91~7B56~7565'')]]
                else [El ''a-button'' [On ''click'' Alerts_cancel] [Text (uni ''~53D6~6D88~7F16~8F91'')],
                   El ''a-button'' [Const ''type'' ''primary'', Bind ''loading'' (JBool (alp_saving p)), On ''click'' Alerts_save] [Text (uni ''~4FDD~5B58~4FDD~62A4~7B56~7565'')]]))]]] @
       (if (alp_notice p) \<noteq> [] then
         [El ''a-alert'' [Const ''type'' ''success'', Bind ''message'' (JStr (alp_notice p)), Bind ''show-icon'' (JBool True)] []]
       else []) @
       (if (alp_error p) \<noteq> [] then
         (actionable_notice (Some ''error'') (uni ''~4FDD~62A4~72B6~6001~52A0~8F7D~5931~8D25'') (alp_error p) (Some (uni ''~5148~786E~8BA4 /metrics~3001/api/protection/state~3001/api/system/resource-usage ~4E0E~8BBF~95EE~65E5~5FD7~7EDF~8BA1~662F~5426~53EF~8FBE~FF0C~518D~68C0~67E5~4FDD~62A4~7B56~7565~662F~5426~88AB~8BEF~6539~3002'')) (Some (uni ''~672C~9875~73B0~5728~540C~65F6~5C55~793A~8FD0~884C~6001~8BA1~6570~3001~70ED~70B9~76EE~6807~3001~4E34~65F6~9650~5236~548C~7CFB~7EDF~8D44~6E90~FF1B~5982~679C~9875~9762~4E3A~7A7A~FF0C~901A~5E38~4E0D~662F UI ~6837~5F0F~95EE~9898~FF0C~800C~662F~540E~7AEF~8FD0~884C~6001~6216~63A5~53E3~8C03~7528~5931~8D25~3002'')) None [])
       else []) @
       [El ''a-spin'' [Bind ''spinning'' (JBool (((((alp_loading p) \<or> (alp_saving p)) \<or> (alp_recovering p)) \<or> (alp_restricting p)) \<or> (alp_removing p)))]
         (if \<not> (truthy (alp_state p)) then
            [El ''a-empty'' [Const ''description'' (uni ''~6682~65E0~4FDD~62A4~72B6~6001'')] []]
          else [El ''a-row'' [Const ''align'' ''top'']
              [El ''a-col'' [] (alerts_trigger_card date_parse now p),
                El ''a-col'' [] (alerts_policy_card date_parse now p)],
             El ''a-row'' [Const ''align'' ''top'']
              [El ''a-col'' [] (alerts_resources_card date_parse now p),
                El ''a-col'' [] (alerts_restrictions_card date_parse now p)]])])]"

subsection \<open>What the page offers\<close>

lemmas offer_eval = offered_simps offer_at_def view_simps reacts_def
lemmas alerts_control_eval = controls_simps control_at_def view_simps reacts_def

lemma scope_card_offered:
  "offered (alerts_scope_card dp now p sc) =
     (if chain sc ''scope'' = JStr ''global'' then [] else
        concat (map (\<lambda>item. [Alerts_quick (as_text (chain sc ''scope'')) (ht_target item) 10, Alerts_quick (as_text (chain sc ''scope'')) (ht_target item) 30])
          (scopeHotTargets (scope_of sc))))"
  by (simp add: alerts_scope_card_def offer_eval del: uni.simps)

lemma trigger_card_offered:
  "offered (alerts_trigger_card dp now p) =
     concat (map (\<lambda>sc. offered (alerts_scope_card dp now p sc)) (elements (or_else (chain (alp_state p) ''scopes'') (JArr []))))"
  by (simp add: alerts_trigger_card_def offer_eval comp_def del: uni.simps)

lemma quick_only: "set (offered (alerts_trigger_card dp now p)) \<subseteq> {h. \<exists>s t n. h = Alerts_quick s t n}"
  by (auto simp: trigger_card_offered scope_card_offered simp del: uni.simps)

lemma still_cards_offered:
  "offered (alerts_policy_card dp now p) = []" "offered (alerts_resources dp now p u) = []"
  by (simp_all add: alerts_policy_card_def alerts_resources_def offer_eval del: uni.simps)

lemma resources_card_offered: "offered (alerts_resources_card dp now p) = []"
  by (simp add: alerts_resources_card_def still_cards_offered offer_eval del: uni.simps split: option.split)

lemma restriction_item_offered:
  "offered (alerts_restriction_item dp now p item) =
     (if alp_removingKey p = js_String (chain item ''scope'') @ ''|'' @ js_String (chain item ''target'') then []
      else [Alerts_remove (restriction_of item)])"
  by (simp add: alerts_restriction_item_def offer_eval del: uni.simps)

lemma restrictions_card_offered:
  "offered (alerts_restrictions_card dp now p) =
     (if alp_restricting p \<or> trim (alp_restrictionTarget p) = [] then [] else [Alerts_restrict]) @ [Alerts_clear] @
     concat (map (\<lambda>item. offered (alerts_restriction_item dp now p item)) (elements (chain (alp_state p) ''restrictions'')))"
  by (simp add: alerts_restrictions_card_def offer_eval comp_def del: uni.simps)

lemma alerts_offered:
  "offered (alerts_view dp now p) =
     [Alerts_load] @ (if alp_recovering p then [] else [Alerts_recover]) @
     (if alp_editing p then Alerts_cancel # (if alp_saving p then [] else [Alerts_save]) else [Alerts_edit]) @
     (if truthy (alp_state p) then offered (alerts_trigger_card dp now p) @ offered (alerts_restrictions_card dp now p) else [])"
  by (simp add: alerts_view_def still_cards_offered resources_card_offered notice_offered offer_eval del: uni.simps)

lemma save_offered: "Alerts_save \<in> set (offered (alerts_view dp now p)) \<longleftrightarrow> alp_editing p \<and> \<not> alp_saving p"
  using quick_only [of dp now p]
  by (auto simp: alerts_offered restrictions_card_offered restriction_item_offered simp del: uni.simps)

lemma edit_offered: "Alerts_edit \<in> set (offered (alerts_view dp now p)) \<longleftrightarrow> \<not> alp_editing p"
  using quick_only [of dp now p]
  by (auto simp: alerts_offered restrictions_card_offered restriction_item_offered simp del: uni.simps)

text \<open>Without a protection state there is nothing to edit; with one, the policy can be changed exactly in the editing mode.\<close>

lemma no_state_no_controls: "\<not> truthy (alp_state p) \<Longrightarrow> controls (alerts_view dp now p) = []"
  by (simp add: alerts_view_def notice_controls alerts_control_eval del: uni.simps)

lemma policy_controls_active: "c \<in> set (controls (alerts_policy_card dp now p)) \<Longrightarrow> ct_active c \<longleftrightarrow> alp_editing p"
  by (auto simp: alerts_policy_card_def alerts_control_eval simp del: uni.simps)

lemma policy_controls:
  "map (\<lambda>c. (ct_value c, ct_assign c)) (controls (alerts_policy_card dp now p)) =
     [(alp_alertRule1 p, \<lambda>v. alp_alertRule1_update (\<lambda>_. v)), (alp_alertRule2 p, \<lambda>v. alp_alertRule2_update (\<lambda>_. v)),
      (alp_rps p, \<lambda>v. alp_rps_update (\<lambda>_. v)), (alp_burst p, \<lambda>v. alp_burst_update (\<lambda>_. v)),
      (alp_maxConcurrent p, \<lambda>v. alp_maxConcurrent_update (\<lambda>_. v)), (alp_circuitRule1 p, \<lambda>v. alp_circuitRule1_update (\<lambda>_. v)),
      (alp_circuitRule2 p, \<lambda>v. alp_circuitRule2_update (\<lambda>_. v)), (alp_failureThreshold p, \<lambda>v. alp_failureThreshold_update (\<lambda>_. v)),
      (alp_recoveryWindowSec p, \<lambda>v. alp_recoveryWindowSec_update (\<lambda>_. v))]"
  by (simp add: alerts_policy_card_def alerts_control_eval del: uni.simps)

lemma alerts_error_said: "alp_error p \<noteq> [] \<Longrightarrow> alp_error p \<in> set (said (alerts_view dp now p))"
  using notice_said by (simp add: alerts_view_def said_simps view_simps del: uni.simps) fast

interpretation alerts_shown: shown_errors alp_loading "\<lambda>b p. p\<lparr>alp_loading := b\<rparr>" alp_error "\<lambda>m p. p\<lparr>alp_error := m\<rparr>" alerts_reset
  "alerts_view dp now" for dp now
  by unfold_locales (rule alerts_error_said)

interpretation alerts_save_button: busy_button alp_saving "\<lambda>b p. p\<lparr>alp_saving := b\<rparr>" alp_error "\<lambda>m p. p\<lparr>alp_error := m\<rparr>" alerts_reset
  "alerts_view dp now" Alerts_save alp_editing for dp now
  by unfold_locales (rule save_offered)

subsection \<open>Editing the policy\<close>

lemma failed_load:
  assumes "fst (promise_all (fetchProtectionState env f) (fetchSystemResourceUsage env fu) st) = Inl (JsError m)"
  shows "fst (snd (alerts_load env f fu (p, st))) = p\<lparr>alp_loading := False, alp_error := m, alp_notice := []\<rparr>"
  using assms by (simp add: alerts_load_def guarded_eval script_simps alerts_reset_def split: prod.splits)

text \<open>A state whose rules the form can read, and the form it leaves.\<close>

definition form_reads :: "jsval \<Rightarrow> bool" where
  "form_reads state \<longleftrightarrow> (\<forall>key \<in> {''RPS='', ''Burst='', ''MaxConcurrent=''}. \<exists>r. find_rule key (chain state ''rateLimitRules'') = Inr r)"

lemma form_reads_results:
  assumes "form_reads state"
  obtains a b c where "find_rule ''RPS='' (chain state ''rateLimitRules'') = Inr a" "find_rule ''Burst='' (chain state ''rateLimitRules'') = Inr b"
    "find_rule ''MaxConcurrent='' (chain state ''rateLimitRules'') = Inr c"
  using assms unfolding form_reads_def by (metis insertCI)

lemma syncForm_payload:
  assumes "form_reads state"
  shows "fst (syncForm state (p, st)) = Inr ()"
    "form_payload (fst (snd (syncForm state (p, st)))) = form_payload (fst (snd (syncForm state (q, st'))))"
    "alp_editing (fst (snd (syncForm state (p, st)))) = alp_editing p" "alp_saving (fst (snd (syncForm state (p, st)))) = alp_saving p"
proof -
  obtain a b c where r: "find_rule ''RPS='' (chain state ''rateLimitRules'') = Inr a" "find_rule ''Burst='' (chain state ''rateLimitRules'') = Inr b"
    "find_rule ''MaxConcurrent='' (chain state ''rateLimitRules'') = Inr c"
    using form_reads_results [OF assms] .
  show "fst (syncForm state (p, st)) = Inr ()"
    "form_payload (fst (snd (syncForm state (p, st)))) = form_payload (fst (snd (syncForm state (q, st'))))"
    "alp_editing (fst (snd (syncForm state (p, st)))) = alp_editing p" "alp_saving (fst (snd (syncForm state (p, st)))) = alp_saving p"
    by (simp_all add: sync_form [OF r] form_payload_def)
qed

text \<open>A restriction that is accepted puts the answer's rules into the form, whatever was typed there.\<close>

lemma restriction_fields [simp]:
  "form_payload (resetRestrictionForm p) = form_payload p" "alp_editing (resetRestrictionForm p) = alp_editing p"
  "alp_saving (resetRestrictionForm p) = alp_saving p"
  "form_payload (p\<lparr>alp_notice := m\<rparr>) = form_payload p" "form_payload (p\<lparr>alp_restricting := b\<rparr>) = form_payload p"
  by (simp_all add: resetRestrictionForm_def form_payload_def)

lemma accepted_restriction:
  assumes "trim (alp_restrictionTarget p) \<noteq> []"
    and resp: "upsertProtectionRestriction env fr (restriction_payload p) st = (Inr resp, st1)"
    and state: "truthy (chain resp ''state'')" "form_reads (chain resp ''state'')"
    and page: "p' = fst (snd (submitRestriction env fr f fu (p, st)))"
  shows "form_payload p' = form_payload (fst (snd (syncForm (chain resp ''state'') (q, st'))))"
    "alp_editing p' = alp_editing p" "alp_saving p' = alp_saving p"
proof -
  let ?q = "(alerts_reset (p\<lparr>alp_restricting := True\<rparr>))\<lparr>alp_state := chain resp ''state''\<rparr>"
  obtain q2 st2 where sync: "syncForm (chain resp ''state'') (?q, st1) = (Inr (), (q2, st2))"
    using syncForm_payload(1) [OF state(2), of ?q st1] by (metis fst_conv surj_pair)
  have "submitRestriction env fr f fu (p, st) = (Inr (), ((resetRestrictionForm (q2\<lparr>alp_notice :=
      (uni ''~5DF2~65B0~589E~4E34~65F6~9650~5236~FF1A'') @ trim (alp_restrictionTarget q2) @ (uni ''~FF0C~6301~7EED '') @ string_of_int (alp_restrictionMinutes q2) @ (uni '' ~5206~949F~3002'')\<rparr>))
      \<lparr>alp_restricting := False\<rparr>, st2))"
    using assms(1) resp state(1) sync
    by (simp add: submitRestriction_def script_simps guarded_eval adopt_state_def script_eval then_eval bind_eval await_eval del: uni.simps)
  moreover have "form_payload q2 = form_payload (fst (snd (syncForm (chain resp ''state'') (q, st'))))"
    "alp_editing q2 = alp_editing p" "alp_saving q2 = alp_saving p"
    using syncForm_payload [OF state(2), of ?q st1] sync by (simp_all add: alerts_reset_def)
  ultimately show "form_payload p' = form_payload (fst (snd (syncForm (chain resp ''state'') (q, st'))))"
    "alp_editing p' = alp_editing p" "alp_saving p' = alp_saving p"
    by (simp_all add: page del: uni.simps)
qed

end
