(* ===== verification/MonitorViews.thy ===== *)
theory MonitorViews
  imports Components DashboardPage NodePages
begin

text \<open>
  The templates of \<open>views/DashboardView.vue\<close> and \<open>views/LinkMonitorView.vue\<close>, and the paths their buttons
  give to the router. A polyline is given by its points, before they are printed.
\<close>

subsection \<open>Dashboard\<close>

datatype dashboard_call = Dashboard_load | Dashboard_trends | Dashboard_goToAccessLogs | Dashboard_go string

fun dashboard_push :: "dashboard_call \<Rightarrow> string option" where
  "dashboard_push (Dashboard_go path) = Some path"
| "dashboard_push Dashboard_goToAccessLogs = Some ''/access-logs''"
| "dashboard_push _ = None"

fun card_json :: "CardValue \<Rightarrow> jsval" where
  "card_json (CardText s) = JStr s"
| "card_json (CardNumber n) = JInt n"

definition polyline_json :: "(rat \<times> rat) list \<Rightarrow> jsval" where
  "polyline_json points = JArr (map (\<lambda>(x, y). JArr [JNum x, JNum y]) points)"

definition dashboard_trends :: "DashboardPage \<Rightarrow> (dashboard_call, DashboardPage) node list" where
  "dashboard_trends p =
    [El ''a-row'' []
      [El ''a-col'' []
         [El ''a-card'' [Const ''title'' (uni ''~8BBF~95EE~8D8B~52BF''), Bind ''bordered'' (JBool False)]
            ([El ''div'' []
               [El ''a-radio-group'' [Model ''value'' (JStr (dp_rangeKey p)) (\<lambda>v. dp_rangeKey_update (\<lambda>_. as_text v)), Const ''button-style'' ''solid'', On ''change'' Dashboard_trends]
                  [El ''a-radio-button'' [Const ''value'' ''1h''] [Text (uni ''~8FD1 1 ~5C0F~65F6'')],
                    El ''a-radio-button'' [Const ''value'' ''6h''] [Text (uni ''~8FD1 6 ~5C0F~65F6'')],
                    El ''a-radio-button'' [Const ''value'' ''24h''] [Text (uni ''~8FD1 24 ~5C0F~65F6'')],
                    El ''a-radio-button'' [Const ''value'' ''7d''] [Text (uni ''~8FD1 7 ~5929'')]],
                 El ''a-select'' [Model ''value'' (JStr (dp_granularity p)) (\<lambda>v. dp_granularity_update (\<lambda>_. as_text v)), On ''change'' Dashboard_trends]
                  [El ''a-select-option'' [Const ''value'' ''5m''] [Text (uni ''5 ~5206~949F'')],
                    El ''a-select-option'' [Const ''value'' ''15m''] [Text (uni ''15 ~5206~949F'')],
                    El ''a-select-option'' [Const ''value'' ''1h''] [Text (uni ''1 ~5C0F~65F6'')],
                    El ''a-select-option'' [Const ''value'' ''1d''] [Text (uni ''1 ~5929'')]]]] @
             (if (dts_points (dp_trendSeries p)) \<noteq> [] then
               [El ''div'' []
                 [El ''div'' []
                    [El ''svg'' [Bind ''viewBox'' (JStr (''0 0 '' @ (string_of_int chartWidth) @ '' '' @ (string_of_int chartHeight))), Const ''preserveAspectRatio'' ''none'']
                       (concat (map (\<lambda>y.
                          [El ''line'' [Bind ''x1'' (JInt paddingLeft), Bind ''x2'' (JInt (chartWidth - paddingRight)), Bind ''y1'' (JNum y), Bind ''y2'' (JNum y)] []]) gridLines) @
                        [El ''polyline'' [Bind ''points'' (polyline_json (totalPolyline p)), Const ''fill'' ''none''] [],
                         El ''polyline'' [Bind ''points'' (polyline_json (failedPolyline p)), Const ''fill'' ''none''] []])],
                   El ''div'' []
                    [El ''span'' [] [El ''i'' [] [],
                         Text (uni ''~603B~8BF7~6C42'')],
                      El ''span'' [] [El ''i'' [] [],
                         Text (uni ''~5931~8D25~8BF7~6C42'')],
                      El ''span'' []
                       [El ''i'' [] [],
                         Text ((uni ''~6162~8BF7~6C42~FF1A'') @ (string_of_int (totalSlow p)))]],
                   El ''div'' []
                    (concat (map (\<lambda>pt.
                       [El ''span'' [] [Text (dtp_label pt)]]) (xTicks p)))]]
             else [El ''a-empty'' [Const ''description'' (uni ''~5F53~524D~65F6~95F4~8303~56F4~5185~6682~65E0~8D8B~52BF~6570~636E'')] []]))]]]"

definition dashboard_hot :: "DashboardPage \<Rightarrow> (dashboard_call, DashboardPage) node list" where
  "dashboard_hot p =
    [El ''a-row'' [Const ''align'' ''stretch'']
      [El ''a-col'' []
         [El ''a-card'' [Const ''title'' (uni ''~70ED~70B9~4E0E~5F02~5E38~6620~5C04''), Bind ''bordered'' (JBool False)]
            [El ''a-row'' []
               [El ''a-col'' []
                  [El ''div'' [] [Text (uni ''~8BBF~95EE~6700~9891~7E41'')],
                    El ''a-list'' [Const ''size'' ''small''] (concat (map (\<lambda>item.
                        [El ''a-list-item'' []
                          [El ''a-space'' []
                             [El ''span'' [] [Text (dosi_name item)],
                               El ''a-tag'' [Const ''color'' ''blue''] [Text (string_of_int (dosi_count item))]]]]) (nullish (map_option dos_hotMappings (dp_ops p)) [])))],
                 El ''a-col'' []
                  [El ''div'' [] [Text (uni ''~5931~8D25~6700~591A'')],
                    El ''a-list'' [Const ''size'' ''small''] (concat (map (\<lambda>item.
                        [El ''a-list-item'' []
                          [El ''a-space'' []
                             [El ''span'' [] [Text (dosi_name item)],
                               El ''a-tag'' [Const ''color'' ''red''] [Text (string_of_int (dosi_count item))]]]]) (nullish (map_option dos_topFailureMappings (dp_ops p)) [])))]]]],
        El ''a-col'' []
         [El ''a-card'' [Const ''title'' (uni ''~6765~6E90 IP ~98CE~9669''), Bind ''bordered'' (JBool False)]
            [El ''a-row'' []
               [El ''a-col'' []
                  [El ''div'' [] [Text (uni ''~8BBF~95EE~6700~9891~7E41'')],
                    El ''a-list'' [Const ''size'' ''small''] (concat (map (\<lambda>item.
                        [El ''a-list-item'' []
                          [El ''a-space'' []
                             [El ''span'' [] [Text (dosi_name item)],
                               El ''a-tag'' [] [Text (string_of_int (dosi_count item))]]]]) (nullish (map_option dos_hotSourceIPs (dp_ops p)) [])))],
                 El ''a-col'' []
                  [El ''div'' [] [Text (uni ''~5931~8D25~6700~591A'')],
                    El ''a-list'' [Const ''size'' ''small''] (concat (map (\<lambda>item.
                        [El ''a-list-item'' []
                          [El ''a-space'' []
                             [El ''span'' [] [Text (dosi_name item)],
                               El ''a-tag'' [Const ''color'' ''red''] [Text (string_of_int (dosi_count item))]]]]) (nullish (map_option dos_topFailureIPs (dp_ops p)) [])))]]]]]]"

definition dashboard_protection :: "DashboardPage \<Rightarrow> DashboardSummary \<Rightarrow> (dashboard_call, DashboardPage) node list" where
  "dashboard_protection p summary =
    [El ''a-row'' [Const ''align'' ''stretch'']
      [El ''a-col'' []
         [El ''a-card'' [Const ''title'' (uni ''~4FDD~62A4~72B6~6001''), Bind ''bordered'' (JBool False)]
            [El ''a-descriptions'' [Bind ''column'' (JInt 1), Const ''size'' ''small'']
               [El ''a-descriptions-item'' [Const ''label'' (uni ''~9650~6D41~72B6~6001'')] [Text (formatRateState (dsum_rateLimitState summary))],
                 El ''a-descriptions-item'' [Const ''label'' (uni ''~7194~65AD~72B6~6001'')]
                  [Text (formatCircuitState (dsum_circuitBreakerState summary))],
                 El ''a-descriptions-item'' [Const ''label'' (uni ''~5EFA~8BAE~64CD~4F5C'')] [Text (actionAdvice p)]]]],
        El ''a-col'' []
         [El ''a-card'' [Const ''title'' (uni ''~5FEB~901F~64CD~4F5C''), Bind ''bordered'' (JBool False)]
            [El ''a-space'' [Const ''direction'' ''vertical'']
               [El ''a-button'' [Bind ''block'' (JBool True), On ''click'' (Dashboard_go ''/tunnel-mappings'')] [Text (uni ''~8FDB~5165~96A7~9053~6620~5C04'')],
                 El ''a-button'' [Bind ''block'' (JBool True), On ''click'' (Dashboard_go ''/access-logs'')] [Text (uni ''~67E5~770B~8BBF~95EE~65E5~5FD7'')],
                 El ''a-button'' [Bind ''block'' (JBool True), On ''click'' (Dashboard_go ''/diagnostics-loadtest'')] [Text (uni ''~8FDB~5165~8BCA~65AD~4E0E~538B~6D4B'')],
                 El ''a-button'' [Bind ''block'' (JBool True), On ''click'' (Dashboard_go ''/system-settings'')] [Text (uni ''~8FDB~5165~7CFB~7EDF~8BBE~7F6E'')]]]]]]"

definition dashboard_view :: "DashboardPage \<Rightarrow> (dashboard_call, DashboardPage) node list" where
  "dashboard_view p =
    [El ''a-space'' [Const ''direction'' ''vertical'', Const ''size'' ''large'']
      ([El ''a-page-header'' [Const ''title'' (uni ''~603B~89C8~76D1~63A7''), Const ''sub-title'' (uni ''~7EDF~4E00~67E5~770B~8FD1 1 ~5C0F~65F6~8BBF~95EE~8D8B~52BF~3001~70ED~70B9~3001~4FDD~62A4~72B6~6001~4E0E~5F85~5904~7406~4E8B~9879~3002'')]
         [El ''template'' [Const ''slot'' ''extra''] [El ''a-space'' []
               [El ''a-tag'' [Const ''color'' ''blue''] [Text (uni ''~7EDF~8BA1~53E3~5F84~FF1A~8FD1 1 ~5C0F~65F6~8BBF~95EE~65E5~5FD7'')],
                 El ''a-button'' [On ''click'' Dashboard_load] [Text (uni ''~5237~65B0'')],
                 El ''a-button'' [Const ''type'' ''primary'', On ''click'' Dashboard_goToAccessLogs] [Text (uni ''~67E5~770B~5931~8D25~65E5~5FD7'')]]]]] @
       (if (dp_error p) \<noteq> [] then
         [El ''a-alert'' [Const ''type'' ''error'', Bind ''message'' (JStr (dp_error p)), Bind ''show-icon'' (JBool True)] []]
       else []) @
       [El ''a-spin'' [Bind ''spinning'' (JBool (dp_loading p))]
         (case dp_summary p of
            None \<Rightarrow> [El ''a-empty'' [Const ''description'' (uni ''~6682~65E0~603B~89C8~6570~636E'')] []]
          | Some summary \<Rightarrow> ([El ''a-row'' []
              (concat (map (\<lambda>card.
                 [El ''a-col'' []
                   [El ''a-card'' [Bind ''bordered'' (JBool False)]
                      [El ''a-statistic'' [Bind ''title'' (JStr (sc_title card)), Bind ''value'' (card_json (sc_value card))] [],
                        El ''div'' [] [Text (sc_hint card)]]]]) (summaryCards p)))] @
            dashboard_trends p @
            dashboard_hot p @
            dashboard_protection p summary))])]"

subsection \<open>Link monitor\<close>

datatype link_call = Link_load | Link_act SessionAction | Link_go string

fun link_push :: "link_call \<Rightarrow> string option" where
  "link_push (Link_go path) = Some path"
| "link_push _ = None"

definition peer_columns :: "Column list" where
  "peer_columns =
    [column (uni ''~7EA7~8054~5BF9~7AEF~7F16~7801'') ''device_id'' ''device_id'',
     column (uni ''~8FDC~7AEF~5730~5740'') ''remote_addr'' ''remote_addr'',
     column (uni ''~8BA2~9605~5230~671F'') ''subscription_expires_at'' ''subscription_expires_at'',
     column (uni ''~9274~6743'') ''auth_required'' ''auth_required'',
     column (uni ''~6700~8FD1~9519~8BEF'') ''last_error'' ''last_error'']"

definition peer_field :: "GB28181PeerState \<Rightarrow> string \<Rightarrow> string" where
  "peer_field record f =
    (if f = ''device_id'' then (gps_device_id record)
     else if f = ''remote_addr'' then (gps_remote_addr record)
     else if f = ''subscription_expires_at'' then (nullish (gps_subscription_expires_at record) [])
     else if f = ''auth_required'' then (if (gps_auth_required record) then ''true''
     else ''false'')
     else if f = ''last_error'' then nullish (gps_last_error record) [] else [])"

definition pending_columns :: "Column list" where
  "pending_columns =
    [column ''Call-ID'' ''call_id'' ''call_id'',
     column (uni ''~8D44~6E90~7F16~7801'') ''device_id'' ''device_id'',
     column (uni ''~6620~5C04 ID'') ''mapping_id'' ''mapping_id'',
     column (uni ''~627F~8F7D'') ''response_mode'' ''response_mode'',
     column (uni ''~9636~6BB5'') ''stage'' ''stage'',
     column (uni ''~9636~6BB5~66F4~65B0~65F6~95F4'') ''last_stage_at'' ''last_stage_at'',
     column (uni ''~6700~8FD1~9519~8BEF'') ''last_error'' ''last_error'']"

definition pending_field :: "GB28181PendingSession \<Rightarrow> string \<Rightarrow> string" where
  "pending_field record f =
    (if f = ''call_id'' then (gpd_call_id record)
     else if f = ''device_id'' then (gpd_device_id record)
     else if f = ''mapping_id'' then (gpd_mapping_id record)
     else if f = ''response_mode'' then (gpd_response_mode record)
     else if f = ''stage'' then (nullish (gpd_stage record) [])
     else if f = ''last_stage_at'' then (nullish (gpd_last_stage_at record) [])
     else if f = ''last_error'' then nullish (gpd_last_error record) [] else [])"

definition inbound_columns :: "Column list" where
  "inbound_columns =
    [column ''Call-ID'' ''call_id'' ''call_id'',
     column (uni ''~8D44~6E90~7F16~7801'') ''device_id'' ''device_id'',
     column (uni ''~56DE~8C03~5730~5740'') ''callback_addr'' ''callback_addr'',
     column (uni ''RTP ~8FDC~7AEF'') ''remote_rtp_ip'' ''remote_rtp_ip'',
     column (uni ''~9636~6BB5'') ''stage'' ''stage'',
     column (uni ''~9636~6BB5~66F4~65B0~65F6~95F4'') ''last_stage_at'' ''last_stage_at'',
     column (uni ''~6700~8FD1~9519~8BEF'') ''last_error'' ''last_error'']"

definition inbound_field :: "GB28181InboundSession \<Rightarrow> string \<Rightarrow> string" where
  "inbound_field record f =
    (if f = ''call_id'' then (gis_call_id record)
     else if f = ''device_id'' then (gis_device_id record)
     else if f = ''callback_addr'' then (gis_callback_addr record)
     else if f = ''remote_rtp_ip'' then (gis_remote_rtp_ip record)
     else if f = ''stage'' then (nullish (gis_stage record) [])
     else if f = ''last_stage_at'' then (nullish (gis_last_stage_at record) [])
     else if f = ''last_error'' then nullish (gis_last_error record) [] else [])"

definition link_monitor_view ::
  "(int \<Rightarrow> int) \<Rightarrow> (string \<Rightarrow> int option) \<Rightarrow> LinkPage \<Rightarrow> (link_call, LinkPage) node list" where
  "link_monitor_view resolve parse p =
    [El ''a-space'' [Const ''direction'' ''vertical'', Const ''size'' ''large'']
      ([El ''a-page-header'' [Const ''title'' (uni ''~94FE~8DEF~76D1~63A7''), Const ''sub-title'' (uni ''~8FD9~91CC~53EA~653E~6CE8~518C~72B6~6001~3001GB/T 28181 ~8FD0~884C~6001~548C~4F1A~8BDD~94FE~8DEF~FF1B~8D44~6E90~5B9A~4E49~4E0E~6620~5C04~914D~7F6E~5DF2~7ECF~62C6~5230~5176~4ED6~9875~9762~3002'')]
         [El ''template'' [Const ''slot'' ''extra''] [El ''a-space'' []
               [El ''a-button'' [On ''click'' Link_load] [Text (uni ''~5237~65B0'')],
                 El ''a-button'' [Bind ''loading'' (JBool (lkp_actionLoading p)), On ''click'' (Link_act Session_register_now)] [Text (uni ''~624B~52A8~6CE8~518C'')],
                 El ''a-button'' [Bind ''loading'' (JBool (lkp_actionLoading p)), On ''click'' (Link_act Session_reregister)] [Text (uni ''~91CD~65B0~6CE8~518C'')],
                 El ''a-button'' [Bind ''loading'' (JBool (lkp_actionLoading p)), On ''click'' (Link_act Session_heartbeat_once)] [Text (uni ''~53D1~9001~5FC3~8DF3'')]]]]] @
       (if (lkp_notice p) \<noteq> [] then
         [El ''a-alert'' [Const ''type'' ''success'', Bind ''message'' (JStr (lkp_notice p)), Bind ''show-icon'' (JBool True)] []]
       else []) @
       (if (lkp_error p) \<noteq> [] then
         (actionable_notice (Some ''error'') (uni ''~94FE~8DEF~76D1~63A7~52A0~8F7D~5931~8D25'') (lkp_error p) (Some (uni ''~5148~786E~8BA4 /healthz~3001/readyz ~4E0E /api/selfcheck ~662F~5426~53EF~8BBF~95EE~FF0C~518D~590D~6838~5BF9~7AEF~4E0E~7AEF~53E3~914D~7F6E~3002'')) (Some (uni ''~5982~4E3A~77ED~65F6~7F51~7EDC~6296~52A8~FF0C~5EFA~8BAE~5148~67E5~770B~2018~544A~8B66~4E0E~4FDD~62A4~2019~9875~7684~6700~8FD1~89E6~53D1~5BF9~8C61~548C~7194~65AD~539F~56E0~3002'')) None [])
       else []) @
       [El ''a-spin'' [Bind ''spinning'' (JBool ((lkp_loading p) \<or> (lkp_actionLoading p)))]
         ([El ''a-row'' []
            [El ''a-col'' []
               [El ''a-card'' []
                  [El ''a-statistic'' [Const ''title'' (uni ''~5DF2~6CE8~518C~5BF9~7AEF''), Bind ''value'' (JInt (int (length (peerRows resolve parse p))))] []]],
              El ''a-col'' []
               [El ''a-card'' []
                  [El ''a-statistic'' [Const ''title'' (uni ''~5F85~5B8C~6210~4F1A~8BDD''), Bind ''value'' (JInt (int (length (pendingRows resolve parse p))))] []]],
              El ''a-col'' []
               [El ''a-card'' []
                  [El ''a-statistic'' [Const ''title'' (uni ''~5165~7AD9~4F1A~8BDD''), Bind ''value'' (JInt (int (length (inboundRows resolve parse p))))] []]],
              El ''a-col'' []
               [El ''a-card'' []
                  [El ''a-statistic'' [Const ''title'' (uni ''~8FDE~7EED~5FC3~8DF3~8D85~65F6''), Bind ''value'' (JInt (nullish (map_option tsrs_consecutive_heartbeat_timeout (map_option lmp_session (lkp_state p))) 0))] []]]]] @
          actionable_notice (Some (if (map_option lmp_ready_status (lkp_state p)) = Some ''ready'' then ''success'' else ''warning'')) (uni ''~94FE~8DEF~5C31~7EEA~6458~8981'') ((uni ''~8FDB~7A0B~5B58~6D3B='') @ (str_or (nullish (map_option lmp_live_status (lkp_state p)) []) ''-'') @ (uni ''~FF1B~5C31~7EEA~72B6~6001='') @ (str_or (nullish (map_option lmp_ready_status (lkp_state p)) []) ''-'')) (Some (if (map_option lmp_ready_status (lkp_state p)) = Some ''ready'' then (uni ''~5F53~524D~53EF~4EE5~63A5~65B0~6D41~91CF~FF1B~53D8~66F4~6CE8~518C~3001~5FC3~8DF3~6216~6620~5C04~914D~7F6E~540E~4ECD~5EFA~8BAE~89C2~5BDF 1~007E2 ~4E2A~5468~671F~3002'') else (uni ''~5148~5904~7406~5C31~7EEA~539F~56E0~4E2D~7684~7B2C~4E00~6761~FF0C~518D~91CD~590D~68C0~67E5 /readyz ~4E0E~672C~9875~9636~6BB5~72B6~6001~3002''))) (Some (str_or (join_with (uni ''~FF1B'') (nullish (Option.bind (lkp_state p) lmp_readiness_reasons) [])) (uni ''~672C~5730~76D1~542C~3001~81EA~68C0~4E0E~6620~5C04~8FD0~884C~6001~5747~6EE1~8DB3~5C31~7EEA~6761~4EF6~3002''))) None [El ''a-button'' [Const ''size'' ''small'', On ''click'' (Link_go ''/nodes-tunnels'')] [Text (uni ''~6253~5F00~8282~70B9~4E0E~7EA7~8054'')],
              El ''a-button'' [Const ''size'' ''small'', On ''click'' (Link_go ''/alerts-protection'')] [Text (uni ''~67E5~770B~4FDD~62A4~72B6~6001'')]] @
          (if (sipPortWarning p) \<noteq> [] then
            (actionable_notice (Some ''warning'') (uni ''SIP ~53D1~9001~94FE~8DEF~63D0~793A'') (sipPortWarning p) (Some (uni ''~91CD~70B9~6838~5BF9~672C~7AEF~76D1~542C~7AEF~53E3~3001~5BF9~7AEF~4FE1~4EE4~7AEF~53E3~3001SIP transport ~548C~7F51~7EDC~7B56~7565~662F~5426~5B8C~5168~4E00~81F4~3002'')) (Some (uni ''~8FD9~7C7B~95EE~9898~591A~6570~53D1~751F~5728~53D1~9001~524D~7F16~7801~3001~7AEF~53E3~590D~7528~6216 UDP ~8D85~65F6~9636~6BB5~FF0C~4E0D~4E00~5B9A~662F~5BF9~7AEF~4E3B~52A8~62D2~7EDD~3002'')) None [El ''a-button'' [Const ''size'' ''small'', On ''click'' (Link_go ''/nodes-tunnels'')] [Text (uni ''~68C0~67E5~8282~70B9~914D~7F6E'')]])
          else []) @
          [El ''a-row'' [Const ''align'' ''top'']
            [El ''a-col'' []
               [El ''a-card'' [Const ''title'' (uni ''~8282~70B9~8FDE~63A5~72B6~6001''), Bind ''bordered'' (JBool False)]
                  [El ''a-descriptions'' [Bind ''column'' (JInt 1), Bind ''bordered'' (JBool True), Const ''size'' ''small'']
                     [El ''a-descriptions-item'' [Const ''label'' (uni ''~6CE8~518C~72B6~6001'')]
                        [Text (statusLabel (map_option tsrs_registration_status (map_option lmp_session (lkp_state p))) Kind_registration)],
                       El ''a-descriptions-item'' [Const ''label'' (uni ''~5FC3~8DF3~72B6~6001'')]
                        [Text (statusLabel (map_option tsrs_heartbeat_status (map_option lmp_session (lkp_state p))) Kind_heartbeat)],
                       El ''a-descriptions-item'' [Const ''label'' (uni ''~5F53~524D~9636~6BB5'')]
                        [Text (phaseLabel (Option.bind (map_option lmp_session (lkp_state p)) tsrs_phase))],
                       El ''a-descriptions-item'' [Const ''label'' (uni ''~9636~6BB5~66F4~65B0~65F6~95F4'')]
                        [Text (formatTime resolve parse (Option.bind (map_option lmp_session (lkp_state p)) tsrs_phase_updated_at))],
                       El ''a-descriptions-item'' [Const ''label'' (uni ''~6700~8FD1~6CE8~518C~65F6~95F4'')]
                        [Text (formatTime resolve parse (map_option tsrs_last_register_time (map_option lmp_session (lkp_state p))))],
                       El ''a-descriptions-item'' [Const ''label'' (uni ''~6700~8FD1~5FC3~8DF3~65F6~95F4'')]
                        [Text (formatTime resolve parse (map_option tsrs_last_heartbeat_time (map_option lmp_session (lkp_state p))))],
                       El ''a-descriptions-item'' [Const ''label'' (uni ''~6700~8FD1~5931~8D25~539F~56E0'')]
                        [Text (str_or (nullish (map_option tsrs_last_failure_reason (map_option lmp_session (lkp_state p))) []) ''-'')],
                       El ''a-descriptions-item'' [Const ''label'' (uni ''~4E0B~4E00~6B21~91CD~8BD5'')]
                        [Text (formatTime resolve parse (map_option tsrs_next_retry_time (map_option lmp_session (lkp_state p))))],
                       El ''a-descriptions-item'' [Const ''label'' (uni ''Catalog ~7EED~8BA2~5468~671F'')]
                        [Text ((string_of_int (nullish (Option.bind (map_option lmp_config (lkp_state p)) tc_catalog_subscribe_expires_sec) 0)) @ (uni '' ~79D2''))],
                       El ''a-descriptions-item'' [Const ''label'' (uni ''~5FEB~7167~65F6~95F4'')]
                        [Text (formatTime resolve parse (map_option lmp_updated_at (lkp_state p)))]]]],
              El ''a-col'' []
               [El ''a-card'' [Const ''title'' (uni ''~5DF2~6CE8~518C~5BF9~7AEF''), Bind ''bordered'' (JBool False)]
                  [El ''a-table'' [Const ''size'' ''small'', Const ''row-key'' ''device_id'', Bind ''pagination'' (JBool False)]
                      (table_body peer_columns (peerRows resolve parse p) (\<lambda>column record. (if (col_key column) = ''auth_required'' then
                          [El ''a-tag'' [Bind ''color'' (JStr (if gps_auth_required record then ''orange'' else ''default''))]
                            [Text (if gps_auth_required record then (uni ''~9700~8981~9274~6743'') else (uni ''~65E0~9700~9274~6743''))]]
                        else [])) peer_field)]]],
           El ''a-row'' []
            [El ''a-col'' []
               [El ''a-card'' [Const ''title'' (uni ''~5F85~5B8C~6210~4F1A~8BDD''), Bind ''bordered'' (JBool False)]
                  [El ''a-table'' [Const ''size'' ''small'', Const ''row-key'' ''call_id'', Bind ''pagination'' (JBool False)]
                      (table_body pending_columns (pendingRows resolve parse p) (\<lambda>column record. []) pending_field)]],
              El ''a-col'' []
               [El ''a-card'' [Const ''title'' (uni ''~5165~7AD9~4F1A~8BDD''), Bind ''bordered'' (JBool False)]
                  [El ''a-table'' [Const ''size'' ''small'', Const ''row-key'' ''call_id'', Bind ''pagination'' (JBool False)]
                      (table_body inbound_columns (inboundRows resolve parse p) (\<lambda>column record. []) inbound_field)]]]])])]"

subsection \<open>What the pages offer\<close>

lemmas monitor_offer = offered_simps offer_at_def view_simps reacts_def

text \<open>The paths of the pages the router knows.\<close>

definition page_paths :: "string list" where
  "page_paths = map (\<lambda>r. CHR ''/'' # route_path r) routes"

lemma page_paths_list:
  "page_paths = [''/dashboard'', ''/nodes-tunnels'', ''/local-resources'', ''/tunnel-mappings'', ''/link-monitor'', ''/access-logs'', ''/ops-audits'',
     ''/alerts-protection'', ''/system-settings'', ''/diagnostics-loadtest'', ''/security-center'', ''/security-events'']"
  by (simp add: page_paths_def routes_def)

lemma dashboard_parts_offered:
  "offered (dashboard_trends p) = [Dashboard_trends, Dashboard_trends]" "offered (dashboard_hot p) = []"
  "offered (dashboard_protection p s) =
     map Dashboard_go [''/tunnel-mappings'', ''/access-logs'', ''/diagnostics-loadtest'', ''/system-settings'']"
  by (simp_all add: dashboard_trends_def dashboard_hot_def dashboard_protection_def monitor_offer comp_def concat_empty cong: if_cong del: uni.simps)

lemma dashboard_offered:
  "offered (dashboard_view p) = [Dashboard_load, Dashboard_goToAccessLogs] @
     (if dp_summary p = None then [] else [Dashboard_trends, Dashboard_trends] @
        map Dashboard_go [''/tunnel-mappings'', ''/access-logs'', ''/diagnostics-loadtest'', ''/system-settings''])"
  by (simp add: dashboard_view_def dashboard_parts_offered monitor_offer comp_def concat_empty cong: if_cong del: uni.simps split: option.split)

lemma link_offered:
  "offered (link_monitor_view resolve parse p) = [Link_load] @
     (if lkp_actionLoading p then [] else map Link_act [Session_register_now, Session_reregister, Session_heartbeat_once]) @
     map Link_go [''/nodes-tunnels'', ''/alerts-protection''] @ (if sipPortWarning p = [] then [] else [Link_go ''/nodes-tunnels''])"
  by (simp add: link_monitor_view_def notice_offered monitor_offer comp_def concat_empty cong: if_cong del: uni.simps)

lemma dashboard_error_said: "dp_error p \<noteq> [] \<Longrightarrow> dp_error p \<in> set (said (dashboard_view p))"
  by (simp add: dashboard_view_def said_simps view_simps message_of_def del: uni.simps)

lemma link_error_said: "lkp_error p \<noteq> [] \<Longrightarrow> lkp_error p \<in> set (said (link_monitor_view resolve parse p))"
  using notice_said by (simp add: link_monitor_view_def said_simps view_simps message_of_def del: uni.simps) fast

interpretation dashboard_shown: shown_errors dp_loading "\<lambda>b p. p\<lparr>dp_loading := b\<rparr>" dp_error "\<lambda>m p. p\<lparr>dp_error := m\<rparr>" "\<lambda>p. p\<lparr>dp_error := []\<rparr>"
  dashboard_view
  by unfold_locales (rule dashboard_error_said)

interpretation link_shown: shown_errors lkp_loading "\<lambda>b p. p\<lparr>lkp_loading := b\<rparr>" lkp_error "\<lambda>m p. p\<lparr>lkp_error := m\<rparr>" "\<lambda>p. p\<lparr>lkp_error := []\<rparr>"
  "link_monitor_view resolve parse" for resolve parse
  by unfold_locales (rule link_error_said)

interpretation link_button: busy_button lkp_actionLoading "\<lambda>b p. p\<lparr>lkp_actionLoading := b\<rparr>" lkp_error "\<lambda>m p. p\<lparr>lkp_error := m\<rparr>"
  "\<lambda>p. p\<lparr>lkp_error := []\<rparr>" "link_monitor_view resolve parse" "Link_act Session_register_now" "\<lambda>p. True" for resolve parse
  by unfold_locales (simp add: link_offered)

end
