(* ===== verification/ConfigViews.thy ===== *)
theory ConfigViews
  imports Components NodePages NodesPage
begin

text \<open>
  The templates of the pages that edit the configuration: \<open>views/TunnelConfigView.vue\<close>,
  \<open>NodeConfigView.vue\<close>, \<open>LocalNodeConfigView.vue\<close>, \<open>PeerNodeConfigView.vue\<close> and \<open>NodesAndTunnelsView.vue\<close>.
  The last one edits the dynamic workspace: its watchers run after the assignment a control makes.
\<close>

definition options_json :: "SelectOption list \<Rightarrow> jsval" where
  "options_json opts = JArr (map (\<lambda>o'. JObj [(''label'', JStr (so_label o')), (''value'', JStr (so_value o'))]) opts)"

definition registerAuthAlgorithmOptions :: "SelectOption list" where
  "registerAuthAlgorithmOptions = [\<lparr>so_label = ''MD5'', so_value = ''MD5''\<rparr>]"

definition transport_value :: "jsval \<Rightarrow> TransportProtocol" where
  "transport_value v = (if v = JStr ''TCP'' then TCP else UDP)"

subsection \<open>Tunnel configuration\<close>

datatype tunnel_call = Tunnel_load | Tunnel_save | Tunnel_act SessionAction

definition tunnel_formatDateTime :: "(int \<Rightarrow> int) \<Rightarrow> (string \<Rightarrow> int option) \<Rightarrow> string \<Rightarrow> string" where
  "tunnel_formatDateTime resolve parse value = formatDateTimeText resolve parse (Some value) (uni ''~6682~65E0'')"

definition tunnel_config_view ::
  "(int \<Rightarrow> int) \<Rightarrow> (string \<Rightarrow> int option) \<Rightarrow> TunnelPage \<Rightarrow> (tunnel_call, TunnelPage) node list" where
  "tunnel_config_view resolve parse p =
    [El ''a-space'' [Const ''direction'' ''vertical'', Const ''size'' ''middle'']
      [El ''a-card'' [Const ''title'' (uni ''HTTP ~6620~5C04~96A7~9053~914D~7F6E~FF08GB/T 28181 ~6CE8~518C~4E0E~5FC3~8DF3~FF09'')]
         [El ''a-alert'' [Const ''type'' ''info'', Bind ''show-icon'' (JBool True), Const ''message'' (uni ''~5F53~524D~4EC5~4FDD~7559~4E25~683C~6A21~5F0F~FF1A~63A7~5236~9762~7EDF~4E00~4F7F~7528 MESSAGE + Application/MANSCDP+xml~FF1B~8BFB~63A5~53E3~4E0D~56DE~663E~5BC6~7801~539F~6587~3002'')] [],
           El ''a-form'' [Const ''layout'' ''vertical'']
            [El ''a-form-item'' [Const ''label'' (uni ''~901A~9053~534F~8BAE~FF08~63A7~5236~9762~FF09'')]
               [El ''a-input'' [Bind ''value'' (JStr (tc_channel_protocol (tp_draft p))), Bind ''disabled'' (JBool True)] []],
              El ''a-form-item'' []
               [El ''template'' [Const ''slot'' ''label''] [El ''a-space'' [Const ''size'' ''small'']
                     [Text (uni ''~5F53~524D~8282~70B9~89D2~8272~FF08~53D1~9001~7AEF / ~63A5~6536~7AEF~FF0C~53EA~8BFB~FF09 ''),
                       El ''a-tooltip'' []
                        [El ''template'' [Const ''slot'' ''title''] [Text (uni ''~89D2~8272~7531~7F51~7EDC~6A21~5F0F~51B3~5B9A~FF1A~672C~7AEF~4E0E~5BF9~7AEF~5728~8BF7~6C42/~54CD~5E94~65B9~5411~4E0A~5404~81EA~627F~62C5~53D1~9001~7AEF~6216~63A5~6536~7AEF~804C~8D23~3002'')],
                          El ''a-typography-text'' [Const ''type'' ''secondary''] [Text (uni ''~24D8'')]]]],
                 El ''a-space'' [Const ''direction'' ''vertical'']
                  [El ''a-alert'' [Const ''type'' ''info'', Bind ''show-icon'' (JBool True), Bind ''message'' (JStr (nullish (map_option nmp_senderRole (networkModeProfile p)) (uni ''~53D1~9001~7AEF~89D2~8272~672A~77E5'')))] [],
                    El ''a-alert'' [Const ''type'' ''info'', Bind ''show-icon'' (JBool True), Bind ''message'' (JStr (nullish (map_option nmp_receiverRole (networkModeProfile p)) (uni ''~63A5~6536~7AEF~89D2~8272~672A~77E5'')))] [],
                    El ''a-typography-text'' [Const ''type'' ''secondary'']
                     [Text (nullish (map_option nmp_requestDirection (networkModeProfile p)) ''-'')],
                    El ''a-typography-text'' [Const ''type'' ''secondary'']
                     [Text (nullish (map_option nmp_responseDirection (networkModeProfile p)) ''-'')]]],
              El ''a-form-item'' []
               [El ''template'' [Const ''slot'' ''label''] [El ''a-space'' [Const ''size'' ''small'']
                     [Text (uni ''~7F51~7EDC~6A21~5F0F~FF08~53EA~8BFB~FF09 ''),
                       El ''a-tooltip'' []
                        [El ''template'' [Const ''slot'' ''title''] [Text (uni ''~7F51~7EDC~6A21~5F0F~662F~5168~5C40~7EA6~675F~FF0C~51B3~5B9A~80FD~529B~77E9~9635~4E0E transport ~63A8~5BFC~FF0C~4E0D~80FD~6309~5355~6761~6620~5C04~8986~76D6~3002'')],
                          El ''a-typography-text'' [Const ''type'' ''secondary''] [Text (uni ''~24D8'')]]]],
                 El ''a-input'' [Bind ''value'' (JStr (nullish (map_option nmp_flowLabel (networkModeProfile p)) (networkModeLabel p))), Bind ''disabled'' (JBool True)] []],
              El ''a-form-item'' [Const ''label'' (uni ''~672C~7AEF~7F16~7801~FF08~6765~6E90~FF1A~8282~70B9~914D~7F6E~FF09'')]
               [El ''a-input'' [Bind ''value'' (JStr (str_or (tc_local_device_id (tp_draft p)) (uni ''~672A~914D~7F6E''))), Bind ''disabled'' (JBool True)] []],
              El ''a-form-item'' [Const ''label'' (uni ''~5BF9~7AEF~7F16~7801~FF08~6765~6E90~FF1A~8282~70B9~914D~7F6E~FF09'')]
               [El ''a-input'' [Bind ''value'' (JStr (str_or (tc_peer_device_id (tp_draft p)) (uni ''~672A~914D~7F6E''))), Bind ''disabled'' (JBool True)] []],
              El ''a-alert'' [Const ''type'' ''info'', Bind ''show-icon'' (JBool True), Const ''message'' (uni ''~7F16~7801~7531~8282~70B9~914D~7F6E~7EDF~4E00~7EF4~62A4~FF0C~901A~9053~914D~7F6E~4EC5~5C55~793A~FF0C~4E0D~53EF~7F16~8F91~3002'')] [],
              El ''a-form-item'' [Const ''label'' (uni ''~5FC3~8DF3~95F4~9694~FF08~79D2~FF09'')]
               [El ''a-input-number'' [Model ''value'' (JInt (tc_heartbeat_interval_sec (tp_draft p))) (\<lambda>v. tp_draft_update (tc_heartbeat_interval_sec_update (\<lambda>_. as_int v))), Bind ''min'' (JInt 1)] []],
              El ''a-form-item'' [Const ''label'' (uni ''~6CE8~518C~91CD~8BD5~6B21~6570'')]
               [El ''a-input-number'' [Model ''value'' (JInt (tc_register_retry_count (tp_draft p))) (\<lambda>v. tp_draft_update (tc_register_retry_count_update (\<lambda>_. as_int v))), Bind ''min'' (JInt 0)] []],
              El ''a-form-item'' [Const ''label'' (uni ''~6CE8~518C~91CD~8BD5~95F4~9694~FF08~79D2~FF09'')]
               [El ''a-input-number'' [Model ''value'' (JInt (tc_register_retry_interval_sec (tp_draft p))) (\<lambda>v. tp_draft_update (tc_register_retry_interval_sec_update (\<lambda>_. as_int v))), Bind ''min'' (JInt 1)] []],
              El ''a-divider'' [Const ''orientation'' ''left''] [Text (uni ''~6CE8~518C~9274~6743~4E0E~76EE~5F55~8BA2~9605'')],
              El ''a-row'' []
               [El ''a-col'' []
                  [El ''a-form-item'' [Const ''label'' (uni ''~542F~7528 REGISTER Digest ~9274~6743'')]
                     [El ''a-switch'' [Model ''checked'' (opt_json JBool (tc_register_auth_enabled (tp_draft p))) (\<lambda>v. tp_draft_update (tc_register_auth_enabled_update (\<lambda>_. Some (as_bool v))))] []]],
                 El ''a-col'' []
                  [El ''a-form-item'' [Const ''label'' (uni ''~9274~6743~7B97~6CD5'')]
                     [El ''a-select'' [Model ''value'' (opt_json JStr (tc_register_auth_algorithm (tp_draft p))) (\<lambda>v. tp_draft_update (tc_register_auth_algorithm_update (\<lambda>_. text_opt v))), Bind ''options'' (options_json registerAuthAlgorithmOptions)] []]],
                 El ''a-col'' []
                  [El ''a-form-item'' [Const ''label'' (uni ''Catalog ~7EED~8BA2~5468~671F~FF08~79D2~FF09'')]
                     [El ''a-input-number'' [Model ''value'' (opt_json JInt (tc_catalog_subscribe_expires_sec (tp_draft p))) (\<lambda>v. tp_draft_update (tc_catalog_subscribe_expires_sec_update (\<lambda>_. int_opt v))), Bind ''min'' (JInt 60)] []]]],
              El ''a-row'' []
               [El ''a-col'' []
                  [El ''a-form-item'' [Const ''label'' (uni ''~9274~6743~7528~6237~540D'')]
                     [El ''a-input'' [Model ''value'' (opt_json JStr (tc_register_auth_username (tp_draft p))) (\<lambda>v. tp_draft_update (tc_register_auth_username_update (\<lambda>_. text_opt v))), Bind ''disabled'' (JBool (\<not> ((tc_register_auth_enabled (tp_draft p)) = Some True)))] []]],
                 El ''a-col'' []
                  [El ''a-form-item'' [Const ''label'' (uni ''~9274~6743~5BC6~7801''), Const ''extra'' (uni ''~7559~7A7A~8868~793A~4FDD~6301~4E0D~53D8~FF1B~8BFB~63A5~53E3~4E0D~56DE~663E~5BC6~7801~539F~6587~3002'')]
                     [El ''a-input-password'' [Model ''value'' (JStr (tp_passwordInput p)) (\<lambda>v. tp_passwordInput_update (\<lambda>_. as_text v)), Bind ''disabled'' (JBool (\<not> ((tc_register_auth_enabled (tp_draft p)) = Some True)))] [],
                       El ''a-typography-text'' [Const ''type'' ''secondary'']
                        [Text ((uni ''~5F53~524D~72B6~6001~FF1A'') @ (if (tc_register_auth_password_configured (tp_draft p)) = Some True then (uni ''~5DF2~914D~7F6E'') else (uni ''~672A~914D~7F6E'')))]]],
                 El ''a-col'' []
                  [El ''a-form-item'' [Const ''label'' (uni ''~9274~6743~57DF Realm'')]
                     [El ''a-input'' [Model ''value'' (opt_json JStr (tc_register_auth_realm (tp_draft p))) (\<lambda>v. tp_draft_update (tc_register_auth_realm_update (\<lambda>_. text_opt v))), Bind ''disabled'' (JBool (\<not> ((tc_register_auth_enabled (tp_draft p)) = Some True)))] []]]]],
           El ''a-space'' []
            [El ''a-button'' [On ''click'' Tunnel_load] [Text (uni ''~91CD~8F7D'')],
              El ''a-button'' [Const ''type'' ''primary'', Bind ''loading'' (JBool (tp_saving p)), On ''click'' Tunnel_save] [Text (uni ''~4FDD~5B58~914D~7F6E'')]]],
        El ''a-card'' [Const ''title'' (uni ''~6CE8~518C~4E0E~5FC3~8DF3~72B6~6001~FF08~53EA~8BFB~FF09'')]
         [El ''a-row'' []
            [El ''a-col'' []
               [El ''a-statistic'' [Const ''title'' (uni ''~5F53~524D~6CE8~518C~72B6~6001''), Bind ''value'' (JStr (formatRegistrationStatus (tc_registration_status (tp_draft p))))] []],
              El ''a-col'' []
               [El ''a-statistic'' [Const ''title'' (uni ''~6700~8FD1~6CE8~518C~65F6~95F4''), Bind ''value'' (JStr (tunnel_formatDateTime resolve parse (tc_last_register_time (tp_draft p))))] []],
              El ''a-col'' []
               [El ''a-statistic'' [Const ''title'' (uni ''~6700~8FD1~5FC3~8DF3~65F6~95F4''), Bind ''value'' (JStr (tunnel_formatDateTime resolve parse (tc_last_heartbeat_time (tp_draft p))))] []]],
           El ''a-row'' []
            [El ''a-col'' []
               [El ''a-form-item'' [Const ''label'' (uni ''~5FC3~8DF3~72B6~6001'')]
                  [El ''a-tag'' [Bind ''color'' (JStr (heartbeatTagColor p))]
                     [Text (formatHeartbeatStatus (tc_heartbeat_status (tp_draft p)))]]],
              El ''a-col'' []
               [El ''a-form-item'' [Const ''label'' (uni ''~5F53~524D~652F~6301~80FD~529B'')]
                  [El ''a-space'' [Bind ''wrap'' (JBool True)]
                     (concat (map (\<lambda>item.
                        [El ''a-tag'' [Const ''color'' ''blue''] [Text item]]) (tc_supported_capabilities (tp_draft p))))]]],
           El ''a-row'' []
            [El ''a-col'' []
               [El ''a-alert'' [Const ''type'' ''error'', Bind ''show-icon'' (JBool True), Bind ''message'' (JStr ((uni ''~6700~8FD1~5931~8D25~539F~56E0~FF1A'') @ (str_or (tc_last_failure_reason (tp_draft p)) (uni ''~6682~65E0''))))] []],
              El ''a-col'' []
               [El ''a-alert'' [Const ''type'' ''warning'', Bind ''show-icon'' (JBool True), Bind ''message'' (JStr ((uni ''~4E0B~6B21~91CD~8BD5~65F6~95F4~FF1A'') @ (tunnel_formatDateTime resolve parse (tc_next_retry_time (tp_draft p)))))] []]],
           El ''a-row'' []
            [El ''a-col'' []
               [El ''a-space'' []
                  [El ''a-button'' [Bind ''loading'' (JBool (tp_actionLoading p)), On ''click'' (Tunnel_act Session_register_now)] [Text (uni ''~7ACB~5373~6CE8~518C'')],
                    El ''a-button'' [Bind ''loading'' (JBool (tp_actionLoading p)), On ''click'' (Tunnel_act Session_reregister)] [Text (uni ''~91CD~65B0~6CE8~518C'')],
                    El ''a-button'' [Bind ''loading'' (JBool (tp_actionLoading p)), On ''click'' (Tunnel_act Session_heartbeat_once)] [Text (uni ''~53D1~9001~4E00~6B21~5FC3~8DF3'')]]]],
           El ''a-alert'' [Const ''type'' ''info'', Bind ''show-icon'' (JBool True), Const ''message'' (uni ''transport ~6765~6E90~FF1A~7531~7F51~7EDC~6A21~5F0F~4E0E~6620~5C04~627F~8F7D~6A21~5F0F~5171~540C~63A8~5BFC~FF08SIP ~8BF7~6C42~901A~9053 + SIP/RTP ~54CD~5E94~901A~9053~FF09~FF0C~65E0~9700~9010~6761~6620~5C04~914D~7F6E~3002'')] []]]]"

subsection \<open>Node configuration\<close>

datatype node_config_call = NodeConfig_load | NodeConfig_save

definition node_config_view :: "NodeConfigPage \<Rightarrow> (node_config_call, NodeConfigPage) node list" where
  "node_config_view p =
    [El ''a-card'' [Const ''title'' (uni ''~8282~70B9~914D~7F6E~FF08HTTP ~6620~5C04~96A7~9053~FF09'')]
      [El ''a-form'' [Const ''layout'' ''vertical'']
         [El ''a-alert'' [Const ''type'' ''info'', Bind ''show-icon'' (JBool True), Const ''message'' (uni ''~8282~70B9~914D~7F6E~6309~201C~672C~7AEF~8282~70B9 / ~5BF9~7AEF~8282~70B9~201D~62C6~5206~FF1B~89D2~8272~7531~7F51~7EDC~6A21~5F0F~63A8~5BFC~FF0C~4E0D~518D~6309 route/api_code ~672F~8BED~533A~5206~3002'')] [],
           El ''a-divider'' [Const ''orientation'' ''left''] [Text (uni ''~672C~7AEF~8282~70B9~FF08~672C~7AEF~5165~53E3~76D1~542C~FF09'')],
           El ''a-form-item'' [Const ''label'' (uni ''~8282~70B9IP'')]
            [El ''a-input'' [Model ''value'' (JStr (nce_node_ip (ncp_local_node (ncpg_draft p)))) (\<lambda>v. ncpg_draft_update (ncp_local_node_update (nce_node_ip_update (\<lambda>_. as_text v))))] []],
           El ''a-form-item'' [Const ''label'' (uni ''~4FE1~4EE4~7AEF~53E3'')]
            [El ''a-input-number'' [Model ''value'' (JInt (nce_signaling_port (ncp_local_node (ncpg_draft p)))) (\<lambda>v. ncpg_draft_update (ncp_local_node_update (nce_signaling_port_update (\<lambda>_. as_int v)))), Bind ''min'' (JInt 1), Bind ''max'' (JInt 65535)] []],
           El ''a-form-item'' [Const ''label'' (uni ''~7F16~7801~FF0820 ~4F4D~56FD~6807~7F16~7801~FF09'')]
            [El ''a-input'' [Model ''value'' (JStr (nce_device_id (ncp_local_node (ncpg_draft p)))) (\<lambda>v. ncpg_draft_update (ncp_local_node_update (nce_device_id_update (\<lambda>_. as_text v)))), Const ''maxlength'' ''20''] []],
           El ''a-form-item'' [Const ''label'' (uni ''RTP~8D77~59CB~7AEF~53E3'')]
            [El ''a-input-number'' [Model ''value'' (opt_json JInt (nce_rtp_port_start (ncp_local_node (ncpg_draft p)))) (\<lambda>v. ncpg_draft_update (ncp_local_node_update (nce_rtp_port_start_update (\<lambda>_. int_opt v)))), Bind ''min'' (JInt 1), Bind ''max'' (JInt 65535)] []],
           El ''a-form-item'' [Const ''label'' (uni ''RTP~7ED3~675F~7AEF~53E3'')]
            [El ''a-input-number'' [Model ''value'' (opt_json JInt (nce_rtp_port_end (ncp_local_node (ncpg_draft p)))) (\<lambda>v. ncpg_draft_update (ncp_local_node_update (nce_rtp_port_end_update (\<lambda>_. int_opt v)))), Bind ''min'' (JInt 1), Bind ''max'' (JInt 65535)] []],
           El ''a-form-item'' [Const ''label'' (uni ''~672C~5730~6620~5C04~8D77~59CB~7AEF~53E3'')]
            [El ''a-input-number'' [Model ''value'' (opt_json JInt (nce_mapping_port_start (ncp_local_node (ncpg_draft p)))) (\<lambda>v. ncpg_draft_update (ncp_local_node_update (nce_mapping_port_start_update (\<lambda>_. int_opt v)))), Bind ''min'' (JInt 1), Bind ''max'' (JInt 65535)] []],
           El ''a-form-item'' [Const ''label'' (uni ''~672C~5730~6620~5C04~7ED3~675F~7AEF~53E3'')]
            [El ''a-input-number'' [Model ''value'' (opt_json JInt (nce_mapping_port_end (ncp_local_node (ncpg_draft p)))) (\<lambda>v. ncpg_draft_update (ncp_local_node_update (nce_mapping_port_end_update (\<lambda>_. int_opt v)))), Bind ''min'' (JInt 1), Bind ''max'' (JInt 65535)] []],
           El ''a-divider'' [Const ''orientation'' ''left''] [Text (uni ''~5BF9~7AEF~8282~70B9~FF08~5BF9~7AEF~76EE~6807~63A5~5165~FF09'')],
           El ''a-form-item'' [Const ''label'' (uni ''~8282~70B9IP'')]
            [El ''a-input'' [Model ''value'' (JStr (nce_node_ip (ncp_peer_node (ncpg_draft p)))) (\<lambda>v. ncpg_draft_update (ncp_peer_node_update (nce_node_ip_update (\<lambda>_. as_text v))))] []],
           El ''a-form-item'' [Const ''label'' (uni ''~4FE1~4EE4~7AEF~53E3'')]
            [El ''a-input-number'' [Model ''value'' (JInt (nce_signaling_port (ncp_peer_node (ncpg_draft p)))) (\<lambda>v. ncpg_draft_update (ncp_peer_node_update (nce_signaling_port_update (\<lambda>_. as_int v)))), Bind ''min'' (JInt 1), Bind ''max'' (JInt 65535)] []],
           El ''a-form-item'' [Const ''label'' (uni ''~7F16~7801~FF0820 ~4F4D~56FD~6807~7F16~7801~FF09'')]
            [El ''a-input'' [Model ''value'' (JStr (nce_device_id (ncp_peer_node (ncpg_draft p)))) (\<lambda>v. ncpg_draft_update (ncp_peer_node_update (nce_device_id_update (\<lambda>_. as_text v)))), Const ''maxlength'' ''20''] []]],
        El ''a-space'' []
         [El ''a-button'' [On ''click'' NodeConfig_load] [Text (uni ''~91CD~8F7D'')],
           El ''a-button'' [Const ''type'' ''primary'', Bind ''loading'' (JBool (ncpg_saving p)), On ''click'' NodeConfig_save] [Text (uni ''~4FDD~5B58~5E76~91CD~542F~901A~9053'')]]]]"

subsection \<open>Local node\<close>

datatype local_node_call = LocalNode_load | LocalNode_save

definition local_node_view :: "LocalNodePage \<Rightarrow> (local_node_call, LocalNodePage) node list" where
  "local_node_view p =
    [El ''a-space'' [Const ''direction'' ''vertical'', Const ''size'' ''middle'']
      [El ''a-card'' [Const ''title'' (uni ''~672C~7AEF~8282~70B9~914D~7F6E'')]
         [El ''a-alert'' [Const ''type'' ''info'', Bind ''show-icon'' (JBool True), Const ''message'' (uni ''~5168~5C40~7F51~7EDC~6A21~5F0F~51B3~5B9A transport ~627F~8F7D~7B56~7565''), Const ''description'' (uni ''~6620~5C04~9875~53EA~914D~7F6E~672C~7AEF~5165~53E3~548C~5BF9~7AEF~76EE~6807~FF0C~4E0D~627F~8F7D NetworkMode/Capability ~7684~4E3B~914D~7F6E~3002'')] [],
           El ''a-descriptions'' [Bind ''bordered'' (JBool True), Bind ''column'' (JInt 2), Const ''size'' ''small'']
            [El ''a-descriptions-item'' [Const ''label'' (uni ''~5F53~524D NetworkMode'')]
               [Text (nullish (map_option nns_current_network_mode (lnp_networkStatus p)) ''-'')],
              El ''a-descriptions-item'' [Const ''label'' (uni ''Capability ~6458~8981'')] [Text (capabilitySummaryText (lnp_networkStatus p))]],
           El ''a-form'' [Const ''layout'' ''vertical'']
            [El ''a-form-item'' [Const ''label'' ''node_id'']
               [El ''a-input'' [Model ''value'' (JStr (ln_node_id (lnp_draft p))) (\<lambda>v. lnp_draft_update (ln_node_id_update (\<lambda>_. as_text v)))] []],
              El ''a-form-item'' [Const ''label'' ''node_name'']
               [El ''a-input'' [Model ''value'' (JStr (ln_node_name (lnp_draft p))) (\<lambda>v. lnp_draft_update (ln_node_name_update (\<lambda>_. as_text v)))] []],
              El ''a-form-item'' [Const ''label'' ''node_role'']
               [El ''a-input'' [Model ''value'' (JStr (ln_node_role (lnp_draft p))) (\<lambda>v. lnp_draft_update (ln_node_role_update (\<lambda>_. as_text v)))] []],
              El ''a-form-item'' [Const ''label'' ''network_mode'']
               [El ''a-input'' [Model ''value'' (JStr (ln_network_mode (lnp_draft p))) (\<lambda>v. lnp_draft_update (ln_network_mode_update (\<lambda>_. as_text v)))] []],
              El ''a-divider'' [Const ''orientation'' ''left''] [Text (uni ''SIP ~914D~7F6E'')],
              El ''a-form-item'' [Const ''label'' ''sip_listen_ip'']
               [El ''a-input'' [Model ''value'' (JStr (ln_sip_listen_ip (lnp_draft p))) (\<lambda>v. lnp_draft_update (ln_sip_listen_ip_update (\<lambda>_. as_text v)))] []],
              El ''a-form-item'' [Const ''label'' ''sip_listen_port'']
               [El ''a-input-number'' [Model ''value'' (JInt (ln_sip_listen_port (lnp_draft p))) (\<lambda>v. lnp_draft_update (ln_sip_listen_port_update (\<lambda>_. as_int v))), Bind ''min'' (JInt 1), Bind ''max'' (JInt 65535)] []],
              El ''a-form-item'' [Const ''label'' ''sip_transport'']
               [El ''a-radio-group'' [Model ''value'' (JStr (transport_text (ln_sip_transport (lnp_draft p)))) (\<lambda>v. lnp_draft_update (ln_sip_transport_update (\<lambda>_. transport_value v))), Const ''button-style'' ''solid'']
                  [El ''a-radio-button'' [Const ''value'' ''UDP''] [Text ''UDP''],
                    El ''a-radio-button'' [Const ''value'' ''TCP''] [Text ''TCP'']]],
              El ''a-divider'' [Const ''orientation'' ''left''] [Text (uni ''RTP ~914D~7F6E'')],
              El ''a-form-item'' [Const ''label'' ''rtp_listen_ip'']
               [El ''a-input'' [Model ''value'' (JStr (ln_rtp_listen_ip (lnp_draft p))) (\<lambda>v. lnp_draft_update (ln_rtp_listen_ip_update (\<lambda>_. as_text v)))] []],
              El ''a-form-item'' [Const ''label'' ''rtp_port_start'']
               [El ''a-input-number'' [Model ''value'' (JInt (ln_rtp_port_start (lnp_draft p))) (\<lambda>v. lnp_draft_update (ln_rtp_port_start_update (\<lambda>_. as_int v))), Bind ''min'' (JInt 1), Bind ''max'' (JInt 65535)] []],
              El ''a-form-item'' [Const ''label'' ''rtp_port_end'']
               [El ''a-input-number'' [Model ''value'' (JInt (ln_rtp_port_end (lnp_draft p))) (\<lambda>v. lnp_draft_update (ln_rtp_port_end_update (\<lambda>_. as_int v))), Bind ''min'' (JInt 1), Bind ''max'' (JInt 65535)] []],
              El ''a-form-item'' [Const ''label'' ''rtp_transport'']
               [El ''a-radio-group'' [Model ''value'' (JStr (transport_text (ln_rtp_transport (lnp_draft p)))) (\<lambda>v. lnp_draft_update (ln_rtp_transport_update (\<lambda>_. transport_value v))), Const ''button-style'' ''solid'']
                  [El ''a-radio-button'' [Const ''value'' ''UDP''] [Text ''UDP''],
                    El ''a-radio-button'' [Const ''value'' ''TCP''] [Text ''TCP'']]],
              El ''a-divider'' [Const ''orientation'' ''left''] [Text (uni ''~672C~5730~6620~5C04~7AEF~53E3~8303~56F4'')],
              El ''a-form-item'' [Const ''label'' (uni ''~672C~5730~6620~5C04~8D77~59CB~7AEF~53E3'')]
               [El ''a-input-number'' [Model ''value'' (JInt (ln_mapping_port_start (lnp_draft p))) (\<lambda>v. lnp_draft_update (ln_mapping_port_start_update (\<lambda>_. as_int v))), Bind ''min'' (JInt 1), Bind ''max'' (JInt 65535)] []],
              El ''a-form-item'' [Const ''label'' (uni ''~672C~5730~6620~5C04~7ED3~675F~7AEF~53E3'')]
               [El ''a-input-number'' [Model ''value'' (JInt (ln_mapping_port_end (lnp_draft p))) (\<lambda>v. lnp_draft_update (ln_mapping_port_end_update (\<lambda>_. as_int v))), Bind ''min'' (JInt 1), Bind ''max'' (JInt 65535)] []]],
           El ''a-space'' []
            [El ''a-button'' [On ''click'' LocalNode_load] [Text (uni ''~91CD~8F7D'')],
              El ''a-button'' [Const ''type'' ''primary'', Bind ''loading'' (JBool (lnp_saving p)), On ''click'' LocalNode_save] [Text (uni ''~4FDD~5B58~672C~7AEF~8282~70B9~914D~7F6E'')]]]]]"

subsection \<open>Peer nodes\<close>

datatype peer_call = Peer_load | Peer_openCreate | Peer_openEdit PeerNodeConfig | Peer_remove string | Peer_save | Peer_close

definition peer_node_view :: "PeerPage \<Rightarrow> (peer_call, PeerPage) node list" where
  "peer_node_view p =
    [El ''a-space'' [Const ''direction'' ''vertical'', Const ''size'' ''middle'']
      [El ''a-card'' [Const ''title'' (uni ''~5BF9~7AEF~8282~70B9~914D~7F6E'')]
         [El ''a-alert'' [Const ''type'' ''info'', Bind ''show-icon'' (JBool True), Const ''message'' (uni ''~5168~5C40~7F51~7EDC~6A21~5F0F~51B3~5B9A transport ~627F~8F7D~7B56~7565''), Const ''description'' (uni ''~6620~5C04~9875~53EA~914D~7F6E~672C~7AEF~5165~53E3~548C~5BF9~7AEF~76EE~6807~FF1Bpeer ~9875~8D1F~8D23 signaling/media ~4E0E~6A21~5F0F~517C~5BB9~6CBB~7406~3002'')] [],
           El ''a-descriptions'' [Bind ''bordered'' (JBool True), Bind ''column'' (JInt 2), Const ''size'' ''small'']
            [El ''a-descriptions-item'' [Const ''label'' (uni ''~5F53~524D NetworkMode'')]
               [Text (nullish (map_option nns_current_network_mode (ppg_networkStatus p)) ''-'')],
              El ''a-descriptions-item'' [Const ''label'' (uni ''Capability ~6458~8981'')] [Text (capabilitySummaryText (ppg_networkStatus p))]],
           El ''a-space'' []
            [El ''a-button'' [Const ''type'' ''primary'', On ''click'' Peer_openCreate] [Text (uni ''~65B0~589E~5BF9~7AEF~8282~70B9'')],
              El ''a-button'' [On ''click'' Peer_load] [Text (uni ''~5237~65B0'')]],
           El ''a-table'' [Const ''row-key'' ''peer_node_id'', Bind ''pagination'' (JBool False)] (map (\<lambda>record. El ''tr'' [] [
               El ''td'' [Const ''title'' ''peer_node_id''] [Text (pn_peer_node_id record)],
               El ''td'' [Const ''title'' ''peer_name''] [Text (pn_peer_name record)],
               El ''td'' [Const ''title'' (uni ''signaling ~5730~5740'')] [Text ((pn_peer_signaling_ip record) @ '':'' @ (string_of_int (pn_peer_signaling_port record)))],
               El ''td'' [Const ''title'' (uni ''media ~5730~5740~8303~56F4'')] [Text ((pn_peer_media_ip record) @ '':'' @ (string_of_int (pn_peer_media_port_start record)) @ ''-'' @ (string_of_int (pn_peer_media_port_end record)))],
               El ''td'' [Const ''title'' ''supported_network_mode''] [Text (pn_supported_network_mode record)],
               El ''td'' [Const ''title'' ''enabled''] [El ''a-switch'' [Bind ''checked'' (JBool (pn_enabled record)), Bind ''disabled'' (JBool True)] []],
               El ''td'' [Const ''title'' (uni ''~64CD~4F5C'')] [El ''a-space'' []
                 [El ''a-button'' [Const ''type'' ''link'', On ''click'' (Peer_openEdit record)] [Text (uni ''~7F16~8F91'')],
                   El ''a-popconfirm'' [Const ''title'' (uni ''~786E~8BA4~5220~9664~8BE5 peer~FF1F''), On ''confirm'' (Peer_remove (pn_peer_node_id record))]
                    [El ''a-button'' [Const ''type'' ''link'', Bind ''danger'' (JBool True)] [Text (uni ''~5220~9664'')]]]]]) (ppg_peers p))],
        El ''a-drawer'' [Model ''open'' (JBool (ppg_drawerOpen p)) (\<lambda>v. ppg_drawerOpen_update (\<lambda>_. as_bool v)), Bind ''title'' (JStr (drawerTitle p)), Const ''width'' ''620'', On ''close'' Peer_close]
         [El ''a-form'' [Const ''layout'' ''vertical'']
            [El ''a-form-item'' [Const ''label'' ''peer_node_id'']
               [El ''a-input'' [Model ''value'' (JStr (pn_peer_node_id (ppg_editing p))) (\<lambda>v. ppg_editing_update (pn_peer_node_id_update (\<lambda>_. as_text v))), Bind ''disabled'' (JBool ((ppg_mode p) = Peer_edit))] []],
              El ''a-form-item'' [Const ''label'' ''peer_name'']
               [El ''a-input'' [Model ''value'' (JStr (pn_peer_name (ppg_editing p))) (\<lambda>v. ppg_editing_update (pn_peer_name_update (\<lambda>_. as_text v)))] []],
              El ''a-form-item'' [Const ''label'' ''peer_signaling_ip'']
               [El ''a-input'' [Model ''value'' (JStr (pn_peer_signaling_ip (ppg_editing p))) (\<lambda>v. ppg_editing_update (pn_peer_signaling_ip_update (\<lambda>_. as_text v)))] []],
              El ''a-form-item'' [Const ''label'' ''peer_signaling_port'']
               [El ''a-input-number'' [Model ''value'' (JInt (pn_peer_signaling_port (ppg_editing p))) (\<lambda>v. ppg_editing_update (pn_peer_signaling_port_update (\<lambda>_. as_int v))), Bind ''min'' (JInt 1), Bind ''max'' (JInt 65535)] []],
              El ''a-form-item'' [Const ''label'' ''peer_media_ip'']
               [El ''a-input'' [Model ''value'' (JStr (pn_peer_media_ip (ppg_editing p))) (\<lambda>v. ppg_editing_update (pn_peer_media_ip_update (\<lambda>_. as_text v)))] []],
              El ''a-form-item'' [Const ''label'' ''peer_media_port_start'']
               [El ''a-input-number'' [Model ''value'' (JInt (pn_peer_media_port_start (ppg_editing p))) (\<lambda>v. ppg_editing_update (pn_peer_media_port_start_update (\<lambda>_. as_int v))), Bind ''min'' (JInt 1), Bind ''max'' (JInt 65535)] []],
              El ''a-form-item'' [Const ''label'' ''peer_media_port_end'']
               [El ''a-input-number'' [Model ''value'' (JInt (pn_peer_media_port_end (ppg_editing p))) (\<lambda>v. ppg_editing_update (pn_peer_media_port_end_update (\<lambda>_. as_int v))), Bind ''min'' (JInt 1), Bind ''max'' (JInt 65535)] []],
              El ''a-form-item'' [Const ''label'' ''supported_network_mode'']
               [El ''a-input'' [Model ''value'' (JStr (pn_supported_network_mode (ppg_editing p))) (\<lambda>v. ppg_editing_update (pn_supported_network_mode_update (\<lambda>_. as_text v)))] []],
              El ''a-form-item'' [Const ''label'' ''enabled'']
               [El ''a-switch'' [Model ''checked'' (JBool (pn_enabled (ppg_editing p))) (\<lambda>v. ppg_editing_update (pn_enabled_update (\<lambda>_. as_bool v)))] []]],
           El ''template'' [Const ''slot'' ''footer''] [El ''a-space'' []
               [El ''a-button'' [On ''click'' Peer_close] [Text (uni ''~53D6~6D88'')],
                 El ''a-button'' [Const ''type'' ''primary'', On ''click'' Peer_save] [Text (uni ''~4FDD~5B58'')]]]]]]"

subsection \<open>Nodes and tunnels\<close>

datatype nodes_call = Nodes_load | Nodes_save | Nodes_generate string

definition capability_columns :: "Column list" where
  "capability_columns =
    [column (uni ''~80FD~529B~9879'') ''label'' ''label'',
     column (uni ''~7ED3~679C'') ''result'' ''result'']"

definition capability_field :: "CapabilityRow \<Rightarrow> string \<Rightarrow> string" where
  "capability_field record f =
    (if f = ''label'' then (display (cr_label record))
     else if f = ''result'' then cr_result record else [])"

definition nodes_view :: "NodesPage \<Rightarrow> (nodes_call, NodesPage) node list" where
  "nodes_view p =
    [El ''a-space'' [Const ''direction'' ''vertical'', Const ''size'' ''large'']
      ([El ''a-page-header'' [Const ''title'' (uni ''~8282~70B9~4E0E~7EA7~8054''), Const ''sub-title'' (uni ''~8FD9~91CC~6309 GB/T 28181 ~7684~672C~7EA7~57DF / ~4E0A~7EA7~57DF / ~4E0B~7EA7~57DF~5173~7CFB~914D~7F6E~7EA7~8054~53C2~6570~FF1B~8FD0~884C~6001~7EDF~4E00~653E~5230~201C~94FE~8DEF~76D1~63A7~201D~FF1B~672C~9875~4E0D~518D~627F~8F7D~96A7~9053~6620~5C04~4FE1~606F~3002'')]
         [El ''template'' [Const ''slot'' ''extra''] [El ''a-space'' []
               [El ''a-button'' [On ''click'' Nodes_load] [Text (uni ''~5237~65B0~56DE~8BFB'')],
                 El ''a-button'' [Const ''type'' ''primary'', Bind ''loading'' (JBool (ndp_saving p)), On ''click'' Nodes_save] [Text (uni ''~4FDD~5B58~5E76~5E94~7528'')]]]]] @
       (if (ndp_notice p) \<noteq> [] then
         [El ''a-alert'' [Const ''type'' ''success'', Bind ''message'' (JStr (ndp_notice p)), Bind ''show-icon'' (JBool True)] []]
       else []) @
       (if (ndp_error p) \<noteq> [] then
         [El ''a-alert'' [Const ''type'' ''error'', Bind ''message'' (JStr (ndp_error p)), Bind ''show-icon'' (JBool True)] []]
       else []) @
       (if (ndp_validationErrors p) \<noteq> [] then
         [El ''a-alert'' [Const ''type'' ''warning'', Bind ''show-icon'' (JBool True), Const ''message'' (uni ''~8BF7~5148~4FEE~6B63~4EE5~4E0B~914D~7F6E~95EE~9898'')]
           [El ''template'' [Const ''slot'' ''description''] [El ''ul'' []
                 (concat (map (\<lambda>item.
                    [El ''li'' [] [Text item]]) (ndp_validationErrors p)))]]]
       else []) @
       [El ''a-spin'' [Bind ''spinning'' (JBool ((ndp_loading p) \<or> (ndp_saving p)))]
         (if \<not> (truthy (ndp_workspace p)) then
            [El ''a-empty'' [Const ''description'' (uni ''~6682~65E0~8282~70B9~4E0E~7EA7~8054~914D~7F6E'')] []]
          else [El ''a-row'' [Const ''align'' ''top'']
              [El ''a-col'' []
                 [El ''a-alert'' [Const ''type'' ''info'', Bind ''show-icon'' (JBool True), Bind ''message'' (JStr (roleHint p))] [],
                   El ''a-alert'' [Const ''type'' ''info'', Bind ''show-icon'' (JBool True), Const ''message'' (uni ''~5F53~524D~4EC5~4FDD~7559~4E25~683C~6A21~5F0F~FF1A~63A7~5236~9762~7EDF~4E00~4F7F~7528 MESSAGE + Application/MANSCDP+xml~FF1B~5BC6~7801~5B57~6BB5~4E3A~53EA~5199~FF0C~7559~7A7A~8868~793A~4FDD~6301~4E0D~53D8~3002'')] [],
                   El ''a-card'' [Const ''title'' (uni ''~8282~70B9~4E0E~4F1A~8BDD~914D~7F6E''), Bind ''bordered'' (JBool False)]
                    [El ''a-form'' [Const ''layout'' ''vertical'']
                       [El ''a-divider'' [Const ''orientation'' ''left''] [Text (uni ''~672C~7EA7~57DF'')],
                         El ''a-row'' []
                          [El ''a-col'' []
                             [El ''a-form-item'' [Const ''label'' (uni ''~672C~7EA7~57DF~7F16~7801~FF0820 ~4F4D~56FD~6807~7F16~7801~FF09'')]
                                [El ''a-space'' [Bind ''compact'' (JBool True)]
                                   [El ''a-input'' [Model ''value'' (chain (chain (ndp_workspace p) ''localNode'') ''device_id'') (edit_field ''localNode'' ''device_id''), Const ''maxlength'' ''20''] [],
                                     El ''a-tooltip'' [Const ''title'' (uni ''~6309~670D~52A1~5668~7C7B~578B~751F~6210~7F16~7801'')]
                                      [El ''a-button'' [On ''click'' (Nodes_generate ''localNode'')] [El ''ApiOutlined'' [] []]]]]]],
                         El ''a-row'' []
                          [El ''a-col'' []
                             [El ''a-form-item'' [Const ''label'' (uni ''~672C~7EA7~57DF~76D1~542C~5730~5740'')]
                                [El ''a-input'' [Model ''value'' (chain (chain (ndp_workspace p) ''localNode'') ''node_ip'') (edit_field ''localNode'' ''node_ip'')] []]],
                            El ''a-col'' []
                             [El ''a-form-item'' [Const ''label'' (uni ''~672C~7EA7~57DF SIP ~4FE1~4EE4~7AEF~53E3'')]
                                [El ''a-input-number'' [Model ''value'' (chain (chain (ndp_workspace p) ''localNode'') ''signaling_port'') (edit_field ''localNode'' ''signaling_port'')] []]]],
                         El ''a-row'' []
                          [El ''a-col'' []
                             [El ''a-form-item'' [Const ''label'' (uni ''~672C~7EA7~57DF RTP ~7AEF~53E3~8303~56F4'')]
                                [El ''a-space'' [Bind ''compact'' (JBool True)]
                                   [El ''a-input-number'' [Model ''value'' (chain (chain (ndp_workspace p) ''localNode'') ''rtp_port_start'') (edit_field ''localNode'' ''rtp_port_start'')] [],
                                     El ''a-input-number'' [Model ''value'' (chain (chain (ndp_workspace p) ''localNode'') ''rtp_port_end'') (edit_field ''localNode'' ''rtp_port_end'')] []]]],
                            El ''a-col'' []
                             [El ''a-form-item'' [Const ''label'' (uni ''~672C~5730~96A7~9053~6620~5C04~7AEF~53E3~8303~56F4'')]
                                [El ''a-space'' [Bind ''compact'' (JBool True)]
                                   [El ''a-input-number'' [Model ''value'' (chain (chain (ndp_workspace p) ''localNode'') ''mapping_port_start'') (edit_field ''localNode'' ''mapping_port_start'')] [],
                                     El ''a-input-number'' [Model ''value'' (chain (chain (ndp_workspace p) ''localNode'') ''mapping_port_end'') (edit_field ''localNode'' ''mapping_port_end'')] []]]]],
                         El ''a-divider'' [Const ''orientation'' ''left''] [Text (uni ''~7EA7~8054~5BF9~7AEF'')],
                         El ''a-row'' []
                          [El ''a-col'' []
                             [El ''a-form-item'' [Const ''label'' (uni ''~7EA7~8054~5BF9~7AEF~7F16~7801~FF0820 ~4F4D~56FD~6807~7F16~7801~FF09'')]
                                [El ''a-space'' [Bind ''compact'' (JBool True)]
                                   [El ''a-input'' [Model ''value'' (chain (chain (ndp_workspace p) ''peerNode'') ''device_id'') (edit_field ''peerNode'' ''device_id''), Const ''maxlength'' ''20''] [],
                                     El ''a-tooltip'' [Const ''title'' (uni ''~6309~670D~52A1~5668~7C7B~578B~751F~6210~7F16~7801'')]
                                      [El ''a-button'' [On ''click'' (Nodes_generate ''peerNode'')] [El ''ApiOutlined'' [] []]]]]]],
                         El ''a-row'' []
                          [El ''a-col'' []
                             [El ''a-form-item'' [Const ''label'' (uni ''~7EA7~8054~5BF9~7AEF~5730~5740'')]
                                [El ''a-input'' [Model ''value'' (chain (chain (ndp_workspace p) ''peerNode'') ''node_ip'') (edit_field ''peerNode'' ''node_ip'')] []]],
                            El ''a-col'' []
                             [El ''a-form-item'' [Const ''label'' (uni ''~7EA7~8054~5BF9~7AEF SIP ~4FE1~4EE4~7AEF~53E3'')]
                                [El ''a-input-number'' [Model ''value'' (chain (chain (ndp_workspace p) ''peerNode'') ''signaling_port'') (edit_field ''peerNode'' ''signaling_port'')] []]]],
                         El ''a-row'' []
                          [El ''a-col'' []
                             [El ''a-form-item'' [Const ''label'' (uni ''~7EA7~8054~5BF9~7AEF RTP ~7AEF~53E3~8303~56F4'')]
                                [El ''a-space'' [Bind ''compact'' (JBool True)]
                                   [El ''a-input-number'' [Model ''value'' (chain (chain (ndp_workspace p) ''peerNode'') ''rtp_port_start'') (edit_field ''peerNode'' ''rtp_port_start'')] [],
                                     El ''a-input-number'' [Model ''value'' (chain (chain (ndp_workspace p) ''peerNode'') ''rtp_port_end'') (edit_field ''peerNode'' ''rtp_port_end'')] []]]]],
                         El ''a-divider'' [Const ''orientation'' ''left''] [Text (uni ''~4F1A~8BDD~4E0E~4F20~8F93'')],
                         El ''a-row'' []
                          [El ''a-col'' []
                             [El ''a-form-item'' [Const ''label'' (uni ''~8FDE~63A5~53D1~8D77~65B9'')]
                                [El ''a-select'' [Model ''value'' (chain (chain (ndp_workspace p) ''sessionSettings'') ''connection_initiator'') (edit_field ''sessionSettings'' ''connection_initiator''), Bind ''options'' (options_json initiatorOptions)] []]],
                            El ''a-col'' []
                             [El ''a-form-item'' [Const ''label'' (uni ''~7F51~7EDC~80FD~529B~6A21~5F0F'')]
                                [El ''a-select'' [Model ''value'' (chain (ndp_workspace p) ''networkMode'') (\<lambda>v p. p\<lparr>ndp_workspace := set_prop ''networkMode'' v (ndp_workspace p)\<rparr>), Bind ''options'' (options_json networkModeOptions)] []]]],
                         El ''a-row'' []
                          [El ''a-col'' []
                             [El ''a-form-item'' [Const ''label'' (uni ''SIP ~4F20~8F93'')]
                                [El ''a-select'' [Model ''value'' (chain (chain (ndp_workspace p) ''sipCapability'') ''transport'') (edit_field ''sipCapability'' ''transport''), Bind ''options'' (options_json transportOptions)] []]],
                            El ''a-col'' []
                             [El ''a-form-item'' [Const ''label'' (uni ''RTP ~4F20~8F93'')]
                                [El ''a-select'' [Model ''value'' (chain (chain (ndp_workspace p) ''rtpCapability'') ''transport'') (edit_field ''rtpCapability'' ''transport''), Bind ''options'' (options_json transportOptions)] []]]],
                         El ''a-row'' []
                          [El ''a-col'' []
                             [El ''a-form-item'' [Const ''label'' (uni ''~6620~5C04~627F~8F7D~6A21~5F0F'')]
                                [El ''a-select'' [Model ''value'' (chain (chain (ndp_workspace p) ''sessionSettings'') ''mapping_relay_mode'') (edit_field ''sessionSettings'' ''mapping_relay_mode''), Bind ''options'' (options_json mappingRelayModeOptions)] []]]],
                         El ''a-row'' []
                          [El ''a-col'' []
                             [El ''a-form-item'' [Const ''label'' (uni ''~5FC3~8DF3~95F4~9694~FF08~79D2~FF09'')]
                                [El ''a-input-number'' [Model ''value'' (chain (chain (ndp_workspace p) ''sessionSettings'') ''heartbeat_interval_sec'') (edit_field ''sessionSettings'' ''heartbeat_interval_sec''), Bind ''min'' (JInt 5)] []]],
                            El ''a-col'' []
                             [El ''a-form-item'' [Const ''label'' (uni ''~6CE8~518C~91CD~8BD5~6B21~6570'')]
                                [El ''a-input-number'' [Model ''value'' (chain (chain (ndp_workspace p) ''sessionSettings'') ''register_retry_count'') (edit_field ''sessionSettings'' ''register_retry_count''), Bind ''min'' (JInt 0)] []]],
                            El ''a-col'' []
                             [El ''a-form-item'' [Const ''label'' (uni ''~91CD~8BD5~95F4~9694~FF08~79D2~FF09'')]
                                [El ''a-input-number'' [Model ''value'' (chain (chain (ndp_workspace p) ''sessionSettings'') ''register_retry_interval_sec'') (edit_field ''sessionSettings'' ''register_retry_interval_sec''), Bind ''min'' (JInt 1)] []]]],
                         El ''a-divider'' [Const ''orientation'' ''left''] [Text (uni ''REGISTER ~9274~6743~4E0E~76EE~5F55~8BA2~9605'')],
                         El ''a-row'' []
                          [El ''a-col'' []
                             [El ''a-form-item'' [Const ''label'' (uni ''~542F~7528 Digest ~9274~6743'')]
                                [El ''a-switch'' [Model ''checked'' (chain (chain (ndp_workspace p) ''sessionSettings'') ''register_auth_enabled'') (edit_field ''sessionSettings'' ''register_auth_enabled'')] []]],
                            El ''a-col'' []
                             [El ''a-form-item'' [Const ''label'' (uni ''Catalog ~7EED~8BA2~5468~671F~FF08~79D2~FF09'')]
                                [El ''a-input-number'' [Model ''value'' (chain (chain (ndp_workspace p) ''sessionSettings'') ''catalog_subscribe_expires_sec'') (edit_field ''sessionSettings'' ''catalog_subscribe_expires_sec''), Bind ''min'' (JInt 60)] []]],
                            El ''a-col'' []
                             [El ''a-form-item'' [Const ''label'' (uni ''~9274~6743~7B97~6CD5'')]
                                [El ''a-select'' [Model ''value'' (chain (chain (ndp_workspace p) ''sessionSettings'') ''register_auth_algorithm'') (edit_field ''sessionSettings'' ''register_auth_algorithm''), Bind ''options'' (options_json registerAuthAlgorithmOptions)] []]]],
                         El ''a-row'' []
                          [El ''a-col'' []
                             [El ''a-form-item'' [Const ''label'' (uni ''~9274~6743~7528~6237~540D'')]
                                [El ''a-input'' [Model ''value'' (chain (chain (ndp_workspace p) ''sessionSettings'') ''register_auth_username'') (edit_field ''sessionSettings'' ''register_auth_username''), Bind ''disabled'' (JBool (\<not> (truthy (chain (chain (ndp_workspace p) ''sessionSettings'') ''register_auth_enabled''))))] []]],
                            El ''a-col'' []
                             [El ''a-form-item'' [Const ''label'' (uni ''~9274~6743~5BC6~7801''), Const ''extra'' (uni ''~7559~7A7A~8868~793A~4FDD~6301~4E0D~53D8~FF1B~8BFB~63A5~53E3~4E0D~56DE~663E~5BC6~7801~539F~6587~3002'')]
                                [El ''a-input-password'' [Model ''value'' (JStr (ndp_registerAuthPasswordInput p)) (\<lambda>v. ndp_registerAuthPasswordInput_update (\<lambda>_. as_text v)), Bind ''disabled'' (JBool (\<not> (truthy (chain (chain (ndp_workspace p) ''sessionSettings'') ''register_auth_enabled''))))] [],
                                  El ''a-typography-text'' [Const ''type'' ''secondary'']
                                   [Text ((uni ''~5F53~524D~72B6~6001~FF1A'') @ (if truthy (chain (chain (ndp_workspace p) ''sessionSettings'') ''register_auth_password_configured'') then (uni ''~5DF2~914D~7F6E'') else (uni ''~672A~914D~7F6E'')))]]],
                            El ''a-col'' []
                             [El ''a-form-item'' [Const ''label'' (uni ''~9274~6743~57DF Realm'')]
                                [El ''a-input'' [Model ''value'' (chain (chain (ndp_workspace p) ''sessionSettings'') ''register_auth_realm'') (edit_field ''sessionSettings'' ''register_auth_realm''), Bind ''disabled'' (JBool (\<not> (truthy (chain (chain (ndp_workspace p) ''sessionSettings'') ''register_auth_enabled''))))] []]]]]]],
                El ''a-col'' []
                 [El ''a-space'' [Const ''direction'' ''vertical'', Const ''size'' ''middle'']
                    [El ''a-card'' [Const ''title'' (uni ''~80FD~529B~77E9~9635''), Bind ''bordered'' (JBool False)]
                       [El ''a-table'' [Const ''row-key'' ''key'', Bind ''pagination'' (JBool False)]
                           (table_body capability_columns (capabilityRows p) (\<lambda>column record. []) capability_field)],
                      El ''a-card'' [Const ''title'' (uni ''~4F7F~7528~8FB9~754C''), Bind ''bordered'' (JBool False)]
                       [El ''a-typography-paragraph'' []
                          [Text (uni ''~672C~9875~7EDF~4E00~4F7F~7528~201C~7F16~7801~201D~800C~975E~201C~8BBE~5907 / ~8D44~6E90~201D~6DF7~79F0~FF1B~672C~7EA7~57DF~7F16~7801~3001~7EA7~8054~5BF9~7AEF~7F16~7801~5747~8981~6C42~4F7F~7528 20 ~4F4D~56FD~6807~7F16~7801~FF0C~9ED8~8BA4~751F~6210~65F6~6309~670D~52A1~5668~7C7B~578B~751F~6210~3002'')],
                         El ''a-typography-paragraph'' [] [Text (uni ''~8D44~6E90~5B9A~4E49~8BF7~5230~201C~672C~5730~8D44~6E90~201D~FF1B~4E0B~7EA7~8D44~6E90~7684~76D1~542C~8865~5145~8BF7~5230~201C~96A7~9053~6620~5C04~201D~FF1B~6CE8~518C~4E0E~4F1A~8BDD~8FD0~884C~6001~8BF7~5230~201C~94FE~8DEF~76D1~63A7~201D~3002'')]]]]]])])]"

subsection \<open>What the pages offer\<close>

lemmas config_offer = offered_simps offer_at_def view_simps reacts_def

lemma tunnel_offered:
  "offered (tunnel_config_view resolve parse p) = [Tunnel_load] @ (if tp_saving p then [] else [Tunnel_save]) @
     (if tp_actionLoading p then [] else map Tunnel_act [Session_register_now, Session_reregister, Session_heartbeat_once])"
  by (simp add: tunnel_config_view_def config_offer comp_def concat_empty cong: if_cong del: uni.simps)

lemma node_config_offered: "offered (node_config_view p) = [NodeConfig_load] @ (if ncpg_saving p then [] else [NodeConfig_save])"
  by (simp add: node_config_view_def config_offer del: uni.simps)

lemma local_node_offered: "offered (local_node_view p) = [LocalNode_load] @ (if lnp_saving p then [] else [LocalNode_save])"
  by (simp add: local_node_view_def config_offer del: uni.simps)

lemma peer_offered:
  "offered (peer_node_view p) = [Peer_openCreate, Peer_load] @
     concat (map (\<lambda>r. [Peer_openEdit r, Peer_remove (pn_peer_node_id r)]) (ppg_peers p)) @
     (if ppg_drawerOpen p then [Peer_close, Peer_close, Peer_save] else [])"
  by (simp add: peer_node_view_def config_offer comp_def cong: if_cong del: uni.simps)

lemma nodes_offered:
  "offered (nodes_view p) = [Nodes_load] @ (if ndp_saving p then [] else [Nodes_save]) @
     (if truthy (ndp_workspace p) then map Nodes_generate [''localNode'', ''peerNode''] else [])"
  by (simp add: nodes_view_def config_offer comp_def concat_empty cong: if_cong del: uni.simps)

lemma nodes_error_said: "ndp_error p \<noteq> [] \<Longrightarrow> ndp_error p \<in> set (said (nodes_view p))"
  by (simp add: nodes_view_def said_simps view_simps message_of_def del: uni.simps)

subsection \<open>Passwords\<close>

text \<open>The stored password of the draft is not on the page: the view does not depend on it.\<close>

lemma tunnel_password_hidden:
  "tunnel_config_view resolve parse (p\<lparr>tp_draft := (tp_draft p)\<lparr>tc_register_auth_password := pw\<rparr>\<rparr>) = tunnel_config_view resolve parse p"
  by (simp add: tunnel_config_view_def networkModeProfile_def networkModeLabel_def heartbeatTagColor_def del: uni.simps)

text \<open>Nor is the one of the workspace.\<close>

lemma session_password:
  assumes "workspace_shape (ndp_workspace p)"
  shows "chain (ndp_workspace (edit_field ''sessionSettings'' ''register_auth_password'' v p)) part =
      (if part = ''sessionSettings'' then set_prop ''register_auth_password'' v (chain (ndp_workspace p) part) else chain (ndp_workspace p) part)"
    "k \<noteq> ''register_auth_password'' \<Longrightarrow>
      chain (chain (ndp_workspace (edit_field ''sessionSettings'' ''register_auth_password'' v p)) part) k = chain (chain (ndp_workspace p) part) k"
    "truthy (ndp_workspace (edit_field ''sessionSettings'' ''register_auth_password'' v p))" "truthy (ndp_workspace p)"
  using assms by (auto simp: edit_field_def workspace_shape_def chain_set_prop)

lemma edit_field_page:
  "ndp_notice (edit_field part k v p) = ndp_notice p" "ndp_error (edit_field part k v p) = ndp_error p"
  "ndp_loading (edit_field part k v p) = ndp_loading p" "ndp_saving (edit_field part k v p) = ndp_saving p"
  "ndp_validationErrors (edit_field part k v p) = ndp_validationErrors p"
  "ndp_registerAuthPasswordInput (edit_field part k v p) = ndp_registerAuthPasswordInput p"
  by (simp_all add: edit_field_def)

lemma nodes_password_hidden:
  assumes "workspace_shape (ndp_workspace p)"
  shows "nodes_view (edit_field ''sessionSettings'' ''register_auth_password'' v p) = nodes_view p"
proof -
  define q where "q = edit_field ''sessionSettings'' ''register_auth_password'' v p"
  have parts: "chain (ndp_workspace q) ''capabilityMatrix'' = chain (ndp_workspace p) ''capabilityMatrix''"
    "chain (ndp_workspace q) ''networkMode'' = chain (ndp_workspace p) ''networkMode''"
    "truthy (ndp_workspace q)" "truthy (ndp_workspace p)"
    using session_password(1,3) [OF assms, where v = v] session_password(4) [OF assms] by (simp_all add: q_def)
  have inner: "chain (chain (ndp_workspace q) part) k = chain (chain (ndp_workspace p) part) k" if "k \<noteq> ''register_auth_password''" for part k
    using session_password(2) [OF assms that, where v = v] by (simp add: q_def)
  have page: "ndp_notice q = ndp_notice p" "ndp_error q = ndp_error p" "ndp_loading q = ndp_loading p" "ndp_saving q = ndp_saving p"
    "ndp_validationErrors q = ndp_validationErrors p" "ndp_registerAuthPasswordInput q = ndp_registerAuthPasswordInput p"
    by (simp_all add: q_def edit_field_page)
  have derived: "capabilityRows q = capabilityRows p" "roleHint q = roleHint p"
    by (simp_all add: capabilityRows_def roleHint_def parts inner del: uni.simps)
  have there: "truthy (ndp_workspace q) = truthy (ndp_workspace p)"
    by (simp only: parts)
  show ?thesis
    unfolding q_def [symmetric] nodes_view_def page derived parts(1,2) there by (simp add: inner del: uni.simps)
qed

text \<open>A password that is typed is typed into a masked input.\<close>

lemma typed_passwords_masked:
  "c \<in> set (controls (tunnel_config_view resolve parse p)) \<Longrightarrow> tp_passwordInput (ct_assign c v p) \<noteq> tp_passwordInput p \<Longrightarrow>
     ct_tag c = ''a-input-password''"
  by (auto simp: tunnel_config_view_def controls_simps control_at_def view_simps reacts_def simp del: uni.simps)

lemma nodes_typed_masked:
  "c \<in> set (controls (nodes_view p)) \<Longrightarrow> ndp_registerAuthPasswordInput (ct_assign c v p) \<noteq> ndp_registerAuthPasswordInput p \<Longrightarrow>
     ct_tag c = ''a-input-password''"
  by (cases "truthy (ndp_workspace p)")
    (auto simp: nodes_view_def controls_simps control_at_def view_simps reacts_def comp_def concat_empty edit_field_page
      simp del: uni.simps cong: if_cong)

subsection \<open>The interfaces\<close>

interpretation nodes_shown: shown_errors ndp_loading "\<lambda>b p. p\<lparr>ndp_loading := b\<rparr>" ndp_error "\<lambda>m p. p\<lparr>ndp_error := m\<rparr>"
  "\<lambda>p. p\<lparr>ndp_error := [], ndp_notice := (if reset then [] else ndp_notice p)\<rparr>" nodes_view for reset
  by unfold_locales (rule nodes_error_said)

interpretation nodes_button: busy_button ndp_saving "\<lambda>b p. p\<lparr>ndp_saving := b\<rparr>" ndp_error "\<lambda>m p. p\<lparr>ndp_error := m\<rparr>"
  "\<lambda>p. p\<lparr>ndp_error := [], ndp_notice := []\<rparr>" nodes_view Nodes_save "\<lambda>p. True"
  by unfold_locales (simp add: nodes_offered)

end
