(* ===== verification/ResourceViews.thy ===== *)
theory ResourceViews
  imports ConfigViews MappingsPage LocalResourcesPage
begin

text \<open>
  The templates of \<open>views/TunnelMappingsView.vue\<close> and \<open>views/LocalResourcesView.vue\<close>. Removing a resource
  asks for a confirmation first; the handler stands for the confirmed removal.
\<close>

subsection \<open>Mappings\<close>

datatype mappings_call =
    Mappings_load | Mappings_test | Mappings_catalog CatalogAction | Mappings_open TunnelMappingOverviewItem
  | Mappings_detail TunnelMappingOverviewItem | Mappings_save | Mappings_remove | Mappings_close

fun mapping_status_text :: "MappingStatus \<Rightarrow> string" where
  "mapping_status_text Mapping_UNMAPPED = ''UNMAPPED''"
| "mapping_status_text Mapping_MANUAL = ''MANUAL''"

fun link_status_text :: "LinkStatus \<Rightarrow> string" where
  "link_status_text Link_connected = ''connected''"
| "link_status_text Link_disabled = ''disabled''"
| "link_status_text Link_listening = ''listening''"
| "link_status_text Link_start_failed = ''start_failed''"
| "link_status_text Link_interrupted = ''interrupted''"
| "link_status_text Link_abnormal = ''abnormal''"

definition mapping_columns :: "Column list" where
  "mapping_columns =
    [column (uni ''~8D44~6E90~540D~79F0'') ''name'' ''name'',
     column (uni ''~8D44~6E90~7F16~7801'') ''resource_code'' ''resource_code'',
     column (uni ''~6765~6E90~8282~70B9'') ''source_node'' ''source_node'',
     column (uni ''~65B9~6CD5'') ''methods'' ''methods'',
     column (uni ''~54CD~5E94~627F~8F7D'') ''response_mode'' ''response_mode'',
     column (uni ''~6620~5C04~72B6~6001'') ''mapping_status'' ''mapping_status'',
     column (uni ''~672C~5730~76D1~542C'') ''listen_ports'' ''listen_ports'',
     column (uni ''~64CD~4F5C'') [] ''action'']"

definition mapping_field :: "TunnelMappingOverviewItem \<Rightarrow> string \<Rightarrow> string" where
  "mapping_field record f =
    (if f = ''name'' then (tmoi_name record)
     else if f = ''resource_code'' then (tmoi_resource_code record)
     else if f = ''source_node'' then (nullish (tmoi_source_node record) [])
     else if f = ''methods'' then (concat (tmoi_methods record))
     else if f = ''response_mode'' then (mode_text (tmoi_response_mode record))
     else if f = ''mapping_status'' then (mapping_status_text (tmoi_mapping_status record))
     else if f = ''listen_ports'' then concat (map string_of_int (tmoi_listen_ports record)) else [])"

definition mappings_view :: "MappingsPage \<Rightarrow> (mappings_call, MappingsPage) node list" where
  "mappings_view p =
    [El ''a-space'' [Const ''direction'' ''vertical'', Const ''size'' ''large'']
      ([El ''a-page-header'' [Const ''title'' (uni ''~96A7~9053~6620~5C04''), Const ''sub-title'' (uni ''~5728~62C9~53D6~5230~7684~4E0B~7EA7~8D44~6E90~57FA~7840~4E0A~FF0C~8865~5145~672C~5730~76D1~542C~7AEF~53E3~4E0E~8DEF~5F84~FF1B~8D85~65F6~548C~94FE~8DEF~4F53~91CF~4E0A~9650~7531~5168~5C40~94FE~8DEF~914D~7F6E~7EDF~4E00~63A7~5236~3002'')]
         [El ''template'' [Const ''slot'' ''extra''] [El ''a-space'' []
               [El ''a-button'' [On ''click'' Mappings_load] [Text (uni ''~5237~65B0'')],
                 El ''a-button'' [Bind ''loading'' (JBool (mpp_testing p)), On ''click'' Mappings_test] [Text (uni ''~94FE~8DEF~81EA~68C0'')],
                 El ''a-button'' [Bind ''loading'' (JBool (mpp_testing p)), On ''click'' (Mappings_catalog Catalog_pull_remote)] [Text (uni ''~624B~52A8~62C9~53D6~76EE~5F55'')]]]]] @
       (if (mpp_notice p) \<noteq> [] then
         [El ''a-alert'' [Const ''type'' ''success'', Bind ''message'' (JStr (mpp_notice p)), Bind ''show-icon'' (JBool True)] []]
       else []) @
       (if (mpp_error p) \<noteq> [] then
         [El ''a-alert'' [Const ''type'' ''error'', Bind ''message'' (JStr (mpp_error p)), Bind ''show-icon'' (JBool True)] []]
       else []) @
       [El ''a-alert'' [Const ''type'' ''info'', Bind ''show-icon'' (JBool True), Bind ''message'' (JStr ((uni ''~76D1~542C~7AEF~53E3~662F~672C~5730 HTTP ~5165~53E3~FF0C~4E0D~662F RTP ~7AEF~53E3~FF1B~8BF7~4ECE~672C~5730~96A7~9053~6620~5C04~7AEF~53E3~8303~56F4 '') @ (mappingRangeText p) @ (uni '' ~4E2D~9009~62E9~FF0CRTP ~7AEF~53E3~4ECD~7531~7CFB~7EDF~4ECE '') @ (rtpRangeText p) @ (uni '' ~5185~52A8~6001~5206~914D~3002'')))] [],
        El ''a-row'' []
         [El ''a-col'' []
            [El ''a-card'' []
               [El ''a-statistic'' [Const ''title'' (uni ''~4E0B~7EA7~8D44~6E90''), Bind ''value'' (JInt (nullish (map_option tmos_resource_total (map_option tmop_summary (mpp_overview p))) 0))] []]],
           El ''a-col'' []
            [El ''a-card'' []
               [El ''a-statistic'' [Const ''title'' (uni ''~5DF2~6620~5C04''), Bind ''value'' (JInt (nullish (map_option tmos_mapped_total (map_option tmop_summary (mpp_overview p))) 0))] []]],
           El ''a-col'' []
            [El ''a-card'' []
               [El ''a-statistic'' [Const ''title'' (uni ''~624B~5DE5~6620~5C04''), Bind ''value'' (JInt (nullish (map_option tmos_manual_total (map_option tmop_summary (mpp_overview p))) 0))] []]],
           El ''a-col'' []
            [El ''a-card'' []
               [El ''a-statistic'' [Const ''title'' (uni ''~672A~6620~5C04''), Bind ''value'' (JInt (nullish (map_option tmos_unmapped_total (map_option tmop_summary (mpp_overview p))) 0))] []]]],
        El ''a-spin'' [Bind ''spinning'' (JBool (((mpp_loading p) \<or> (mpp_testing p)) \<or> (mpp_saving p)))]
         [El ''a-card'' [Const ''title'' (uni ''~8D44~6E90~4E0E~6620~5C04~603B~89C8''), Bind ''bordered'' (JBool False)]
            [El ''a-table'' [Const ''row-key'' ''device_id'', Bind ''pagination'' (JBool False)]
                (table_body mapping_columns (mapping_rows p) (\<lambda>column record. (if (col_key column) = ''mapping_status'' then
                    [El ''a-tag'' [Bind ''color'' (JStr (if (tmoi_mapping_status record) = Mapping_MANUAL then ''green'' else ''default''))] [Text (mappingStatusLabel (tmoi_mapping_status record))]]
                  else (if (col_key column) = ''response_mode'' then
                    [El ''a-tag'' [] [Text (mode_text (tmoi_response_mode record))]]
                  else (if (col_key column) = ''listen_ports'' then
                    [Text (formatListenEntry p record)]
                  else (if (col_key column) = ''methods'' then
                    [Text (str_or (join_with '', '' (tmoi_methods record)) ''*'')]
                  else (if (col_key column) = ''action'' then
                    [El ''a-space'' []
                      [El ''a-button'' [Const ''type'' ''link'', On ''click'' (Mappings_open record)]
                         [Text (if (tmoi_mapping_status record) = Mapping_UNMAPPED then (uni ''~521B~5EFA~6620~5C04'') else (uni ''~8865~5145~76D1~542C''))],
                        El ''a-button'' [Const ''type'' ''link'', On ''click'' (Mappings_detail record)] [Text (uni ''~8BE6~60C5'')]]]
                  else [])))))) mapping_field)]],
        El ''a-drawer'' [Model ''open'' (JBool (mpp_editorOpen p)) (\<lambda>v. mpp_editorOpen_update (\<lambda>_. as_bool v)), Bind ''title'' (JStr (if (mpp_editingId p) \<noteq> [] then (uni ''~7F16~8F91~96A7~9053~6620~5C04'') else (uni ''~65B0~5EFA~96A7~9053~6620~5C04''))), Bind ''width'' (JInt 860), Bind ''destroy-on-close'' (JBool True)]
         [El ''a-form'' [Const ''layout'' ''vertical'']
            [El ''a-row'' []
               [El ''a-col'' []
                  [El ''a-form-item'' [Const ''label'' (uni ''~8D44~6E90~540D~79F0'')]
                     [El ''a-input'' [Bind ''value'' (opt_json JStr (map_option tmoi_name (mpp_currentResource p))), Bind ''disabled'' (JBool True)] []]],
                 El ''a-col'' []
                  [El ''a-form-item'' [Const ''label'' (uni ''~8D44~6E90~7F16~7801~FF0820 ~4F4D~56FD~6807~7F16~7801~FF09'')]
                     [El ''a-input'' [Bind ''value'' (opt_json JStr (if opt_truthy (map_option tmoi_resource_code (mpp_currentResource p)) then map_option tmoi_resource_code (mpp_currentResource p) else map_option tmoi_device_id (mpp_currentResource p))), Bind ''disabled'' (JBool True)] []]]],
              El ''a-row'' []
               [El ''a-col'' []
                  [El ''a-form-item'' [Const ''label'' (uni ''~54CD~5E94~627F~8F7D'')]
                     [El ''a-input'' [Bind ''value'' (JStr (case (map_option tmoi_response_mode (mpp_currentResource p)) of None \<Rightarrow> ''AUTO'' | Some v \<Rightarrow> mode_text v)), Bind ''disabled'' (JBool True)] []]],
                 El ''a-col'' []
                  [El ''a-form-item'' [Const ''label'' (uni ''~7EA7~8054~5BF9~7AEF'')]
                     [El ''a-input'' [Bind ''value'' (JStr (str_or (nullish (Option.bind (mpp_currentResource p) tmoi_source_node) []) ''-'')), Bind ''disabled'' (JBool True)] []]]],
              El ''a-form-item'' [Const ''label'' (uni ''~5141~8BB8~65B9~6CD5'')]
               [El ''a-select'' [Bind ''value'' (JArr (map JStr (nullish (map_option tmoi_methods (mpp_currentResource p)) [''*'']))), Const ''mode'' ''multiple'', Bind ''options'' (options_json methodOptions), Bind ''disabled'' (JBool True)] []],
              El ''a-divider'' [Const ''orientation'' ''left''] [Text (uni ''~672C~5730~76D1~542C~8865~5145~4FE1~606F'')],
              El ''a-row'' []
               [El ''a-col'' []
                  [El ''a-form-item'' [Const ''label'' (uni ''~76D1~542C IP'')]
                     [El ''a-input'' [Model ''value'' (JStr (me_local_bind_ip (mpp_editor p))) (\<lambda>v. mpp_editor_update (me_local_bind_ip_update (\<lambda>_. as_text v)))] []]],
                 El ''a-col'' []
                  [El ''a-form-item'' [Const ''label'' (uni ''~76D1~542C~7AEF~53E3''), Bind ''extra'' (JStr ((uni ''~9700~843D~5728~672C~5730~96A7~9053~6620~5C04~7AEF~53E3~8303~56F4 '') @ (mappingRangeText p)))]
                     [El ''a-input-number'' [Model ''value'' (opt_json JInt (me_local_bind_port (mpp_editor p))) (\<lambda>v. mpp_editor_update (me_local_bind_port_update (\<lambda>_. int_opt v))), Bind ''min'' (JInt 1), Bind ''placeholder'' (opt_json JStr (if (mappingRangeText p) = (uni ''~672A~914D~7F6E'') then None else Some (mappingRangeText p)))] []]],
                 El ''a-col'' []
                  [El ''a-form-item'' [Const ''label'' (uni ''~8DEF~5F84~524D~7F00'')]
                     [El ''a-input'' [Model ''value'' (JStr (me_local_base_path (mpp_editor p))) (\<lambda>v. mpp_editor_update (me_local_base_path_update (\<lambda>_. as_text v)))] []]]],
              El ''a-row'' []
               [El ''a-col'' []
                  [El ''a-form-item'' [Const ''label'' (uni ''~542F~7528~6620~5C04'')]
                     [El ''a-switch'' [Model ''checked'' (JBool (me_enabled (mpp_editor p))) (\<lambda>v. mpp_editor_update (me_enabled_update (\<lambda>_. as_bool v)))] []]],
                 El ''a-col'' []
                  [El ''a-form-item'' [Const ''label'' (uni ''~63CF~8FF0'')]
                     [El ''a-input'' [Model ''value'' (JStr (me_description (mpp_editor p))) (\<lambda>v. mpp_editor_update (me_description_update (\<lambda>_. as_text v)))] []]]],
              El ''a-alert'' [Const ''type'' ''info'', Bind ''show-icon'' (JBool True), Const ''message'' (uni ''~8FDE~63A5~8D85~65F6~3001~8BF7~6C42~8D85~65F6~3001~54CD~5E94~5934~8D85~65F6~4EE5~53CA~4F53~91CF~4E0A~9650~7531~5168~5C40~94FE~8DEF~8BBE~7F6E~81EA~52A8~63A7~5236~FF0C~8FD9~91CC~53EA~8865~5145~672C~5730~76D1~542C~4FE1~606F~FF1B~76D1~542C~7AEF~53E3~5FC5~987B~843D~5728~672C~5730~96A7~9053~6620~5C04~7AEF~53E3~8303~56F4~5185~3002'')] []],
           El ''template'' [Const ''slot'' ''footer''] [El ''a-space'' []
               ((if (mpp_editingId p) \<noteq> [] then
                  [El ''a-button'' [Bind ''danger'' (JBool True), On ''click'' Mappings_remove] [Text (uni ''~5220~9664'')]]
                else []) @
                [El ''a-button'' [On ''click'' Mappings_close] [Text (uni ''~53D6~6D88'')],
                 El ''a-button'' [Const ''type'' ''primary'', Bind ''loading'' (JBool (mpp_saving p)), On ''click'' Mappings_save] [Text (uni ''~4FDD~5B58'')]])]],
        El ''a-drawer'' [Model ''open'' (JBool (mpp_detailOpen p)) (\<lambda>v. mpp_detailOpen_update (\<lambda>_. as_bool v)), Const ''title'' (uni ''~96A7~9053~6620~5C04~8BE6~60C5''), Bind ''width'' (JInt 860)]
         (case mpp_currentResource p of
            None \<Rightarrow> []
          | Some res \<Rightarrow> [El ''a-descriptions'' [Bind ''column'' (JInt 1), Bind ''bordered'' (JBool True), Const ''size'' ''small'']
              [El ''a-descriptions-item'' [Const ''label'' (uni ''~8D44~6E90~540D~79F0'')] [Text (tmoi_name res)],
                El ''a-descriptions-item'' [Const ''label'' (uni ''~8D44~6E90~7F16~7801'')]
                 [Text (str_or (tmoi_resource_code res) (tmoi_device_id res))],
                El ''a-descriptions-item'' [Const ''label'' (uni ''~6765~6E90~8282~70B9'')] [Text (str_or (nullish (tmoi_source_node res) []) ''-'')],
                El ''a-descriptions-item'' [Const ''label'' (uni ''~6620~5C04~72B6~6001'')] [Text (mappingStatusLabel (tmoi_mapping_status res))],
                El ''a-descriptions-item'' [Const ''label'' (uni ''~672C~5730~76D1~542C'')] [Text (formatListenEntry p res)],
                El ''a-descriptions-item'' [Const ''label'' (uni ''~5141~8BB8~65B9~6CD5'')] [Text (str_or (join_with '', '' (tmoi_methods res)) ''*'')],
                El ''a-descriptions-item'' [Const ''label'' (uni ''~54CD~5E94~627F~8F7D'')] [Text (mode_text (tmoi_response_mode res))],
                El ''a-descriptions-item'' [Const ''label'' (uni ''~8D44~6E90~72B6~6001'')] [Text (tmoi_resource_status res)],
                El ''a-descriptions-item'' [Const ''label'' (uni ''~6620~5C04 ID'')]
                 [Text (str_or (join_with '', '' (nullish (tmoi_mapping_ids res) [])) ''-'')],
                El ''a-descriptions-item'' [Const ''label'' (uni ''~76D1~542C~72B6~6001'')]
                 [Text (str_or (nullish (if opt_truthy (Option.bind (mpp_currentRaw p) tm_link_status_text) then Option.bind (mpp_currentRaw p) tm_link_status_text else map_option link_status_text (Option.bind (mpp_currentRaw p) tm_link_status)) []) ''-'')],
                El ''a-descriptions-item'' [Const ''label'' (uni ''~6700~8FD1~5931~8D25~539F~56E0'')]
                 [Text (str_or (nullish (Option.bind (mpp_currentRaw p) tm_failure_reason) []) ''-'')]]])])]"

subsection \<open>Local resources\<close>

datatype resources_call =
    Resources_load | Resources_push | Resources_create | Resources_edit LocalResourceItem | Resources_remove LocalResourceItem
  | Resources_generate string | Resources_save | Resources_close

definition response_mode_value :: "jsval \<Rightarrow> ResponseMode" where
  "response_mode_value v = (if v = JStr ''AUTO'' then RM_AUTO else if v = JStr ''INLINE'' then RM_INLINE else RM_RTP)"

definition resource_columns :: "Column list" where
  "resource_columns =
    [column (uni ''~8D44~6E90~540D~79F0'') ''name'' ''name'',
     column (uni ''~8D44~6E90~7F16~7801'') ''resource_code'' ''resource_code'',
     column (uni ''~76EE~6807 URL'') ''target_url'' ''target_url'',
     column (uni ''~65B9~6CD5'') ''methods'' ''methods'',
     column (uni ''~54CD~5E94~627F~8F7D'') ''response_mode'' ''response_mode'',
     column (uni ''~81EA~52A8~4F53~91CF~7B56~7565'') ''body_limit_policy'' ''body_limit_policy'',
     column (uni ''~72B6~6001'') ''enabled'' ''enabled'',
     column (uni ''~64CD~4F5C'') [] ''action'']"

definition resource_field :: "LocalResourceItem \<Rightarrow> string \<Rightarrow> string" where
  "resource_field record f =
    (if f = ''name'' then (lri_name record)
     else if f = ''resource_code'' then (lri_resource_code record)
     else if f = ''target_url'' then (lri_target_url record)
     else if f = ''methods'' then (concat (lri_methods record))
     else if f = ''response_mode'' then (mode_text (lri_response_mode record))
     else if f = ''body_limit_policy'' then (nullish (lri_body_limit_policy record) [])
     else if f = ''enabled'' then (if (lri_enabled record) then ''true''
     else ''false'') else [])"

definition resources_view :: "ResourcesPage \<Rightarrow> (resources_call, ResourcesPage) node list" where
  "resources_view p =
    [El ''a-space'' [Const ''direction'' ''vertical'', Const ''size'' ''large'']
      ([El ''a-page-header'' [Const ''title'' (uni ''~672C~5730~8D44~6E90''), Const ''sub-title'' (uni ''~8FD9~91CC~53EA~7EF4~62A4~672C~673A~53D1~5E03~7684~8D44~6E90~5B9A~4E49~FF1A~7EDF~4E00~4F7F~7528 20 ~4F4D~56FD~6807~8D44~6E90~7F16~7801~FF0C~65B9~6CD5~91C7~7528~591A~9009~FF1B~80FD~4ECE~56FD~6807~7F16~7801~63A8~5BFC~7684~7C7B~578B~4FE1~606F~4E0D~518D~5355~72EC~5C55~793A~3002'')]
         [El ''template'' [Const ''slot'' ''extra''] [El ''a-space'' []
               [El ''a-button'' [On ''click'' Resources_load] [Text (uni ''~5237~65B0'')],
                 El ''a-button'' [Bind ''loading'' (JBool (lrp_syncingCatalog p)), On ''click'' Resources_push] [Text (uni ''~624B~52A8~63A8~9001~76EE~5F55'')],
                 El ''a-button'' [Const ''type'' ''primary'', On ''click'' Resources_create] [Text (uni ''~65B0~5EFA~8D44~6E90'')]]]]] @
       (if (lrp_notice p) \<noteq> [] then
         [El ''a-alert'' [Const ''type'' ''success'', Bind ''message'' (JStr (lrp_notice p)), Bind ''show-icon'' (JBool True)] []]
       else []) @
       (if (lrp_error p) \<noteq> [] then
         [El ''a-alert'' [Const ''type'' ''error'', Bind ''message'' (JStr (lrp_error p)), Bind ''show-icon'' (JBool True)] []]
       else []) @
       [El ''a-alert'' [Const ''type'' ''info'', Bind ''show-icon'' (JBool True), Bind ''message'' (JStr (uni ''~8D44~6E90~7F16~7801~3001~672C~7EA7~57DF~7F16~7801~3001~7EA7~8054~5BF9~7AEF~7F16~7801~7EDF~4E00~4F7F~7528 20 ~4F4D~56FD~6807~7F16~7801~FF1B~672C~5730~8D44~6E90~9875~53EA~7EF4~62A4~8D44~6E90~5B9A~4E49~4E0E~76EE~6807 URL~FF0C~672C~5730~76D1~542C~7AEF~53E3~4E0E~8DEF~5F84~7531~201C~96A7~9053~6620~5C04~201D~5355~72EC~7BA1~7406~3002''))] [],
        El ''a-spin'' [Bind ''spinning'' (JBool ((lrp_loading p) \<or> (lrp_saving p)))]
         [El ''a-card'' []
            [El ''a-table'' [Const ''row-key'' ''resource_code'', Bind ''pagination'' (JBool False)]
                (table_body resource_columns (lrp_rows p) (\<lambda>column record. (if (col_key column) = ''enabled'' then
                    [El ''a-tag'' [Bind ''color'' (JStr (if lri_enabled record then ''green'' else ''default''))] [Text (if lri_enabled record then (uni ''~542F~7528'') else (uni ''~505C~7528''))]]
                  else (if (col_key column) = ''methods'' then
                    [Text (join_with '', '' (lri_methods record))]
                  else (if (col_key column) = ''action'' then
                    [El ''a-space'' []
                      [El ''a-button'' [Const ''type'' ''link'', On ''click'' (Resources_edit record)] [Text (uni ''~7F16~8F91'')],
                        El ''a-button'' [Const ''type'' ''link'', Bind ''danger'' (JBool True), On ''click'' (Resources_remove record)] [Text (uni ''~5220~9664'')]]]
                  else [])))) resource_field)]],
        El ''a-drawer'' [Model ''open'' (JBool (lrp_editorOpen p)) (\<lambda>v. lrp_editorOpen_update (\<lambda>_. as_bool v)), Bind ''title'' (JStr (if (lrp_editingId p) \<noteq> [] then (uni ''~7F16~8F91~672C~5730~8D44~6E90'') else (uni ''~65B0~5EFA~672C~5730~8D44~6E90''))), Bind ''width'' (JInt 980), Bind ''destroy-on-close'' (JBool True)]
         [El ''a-form'' [Const ''layout'' ''vertical'']
            [El ''a-row'' []
               [El ''a-col'' []
                  [El ''a-form-item'' [Const ''label'' (uni ''~8D44~6E90~540D~79F0'')]
                     [El ''a-input'' [Model ''value'' (JStr (lre_name (lrp_editor p))) (\<lambda>v. lrp_editor_update (lre_name_update (\<lambda>_. as_text v)))] []]],
                 El ''a-col'' []
                  [El ''a-form-item'' [Const ''label'' (uni ''~542F~7528~8D44~6E90'')]
                     [El ''a-switch'' [Model ''checked'' (JBool (lre_enabled (lrp_editor p))) (\<lambda>v. lrp_editor_update (lre_enabled_update (\<lambda>_. as_bool v)))] []]]],
              El ''a-row'' []
               [El ''a-col'' []
                  [El ''a-form-item'' [Const ''label'' (uni ''~8D44~6E90~7F16~7801~FF0820 ~4F4D~56FD~6807~7F16~7801~FF09'')]
                     [El ''a-space'' [Bind ''compact'' (JBool True)]
                        [El ''a-input'' [Model ''value'' (JStr (lre_resource_code (lrp_editor p))) (\<lambda>v. lrp_editor_update (lre_resource_code_update (\<lambda>_. as_text v))), Const ''maxlength'' ''20'', Const ''placeholder'' (uni ''~4F8B~5982 34020000001320000001'')] [],
                          El ''a-tooltip'' [Const ''title'' (uni ''~6309~670D~52A1~5668~7C7B~578B~751F~6210~7F16~7801'')]
                           [El ''a-button'' [On ''click'' (Resources_generate ''SERVICE'')] [El ''ApiOutlined'' [] []]],
                          El ''a-tooltip'' [Const ''title'' (uni ''~6309~6444~50CF~673A~7C7B~578B~751F~6210~7F16~7801'')]
                           [El ''a-button'' [On ''click'' (Resources_generate ''CAMERA'')] [El ''VideoCameraOutlined'' [] []]]]]]],
              El ''a-row'' []
               [El ''a-col'' []
                  [El ''a-form-item'' [Const ''label'' (uni ''~76EE~6807 URL'')]
                     [El ''a-input'' [Model ''value'' (JStr (lre_target_url (lrp_editor p))) (\<lambda>v. lrp_editor_update (lre_target_url_update (\<lambda>_. as_text v))), Const ''placeholder'' ''http://127.0.0.1:8080/api/orders''] []]]],
              El ''a-row'' []
               [El ''a-col'' []
                  [El ''a-form-item'' [Const ''label'' (uni ''~5141~8BB8~65B9~6CD5'')]
                     [El ''a-select'' [Model ''value'' (JArr (map JStr (lre_methods (lrp_editor p)))) (\<lambda>v. lrp_editor_update (lre_methods_update (\<lambda>_. map as_text (elements v)))), Const ''mode'' ''multiple'', Bind ''options'' (options_json methodOptions), Const ''placeholder'' (uni ''~8BF7~9009~62E9~5141~8BB8~7684~65B9~6CD5'')] []]],
                 El ''a-col'' []
                  [El ''a-form-item'' [Const ''label'' (uni ''~54CD~5E94~627F~8F7D'')]
                     [El ''a-select'' [Model ''value'' (JStr (mode_text (lre_response_mode (lrp_editor p)))) (\<lambda>v. lrp_editor_update (lre_response_mode_update (\<lambda>_. response_mode_value v))), Bind ''options'' (options_json responseModeOptions)] []]]],
              El ''a-card'' [Const ''size'' ''small'', Const ''title'' (uni ''~81EA~52A8~63A8~5BFC~7684~94FE~8DEF~4F53~91CF~4E0A~9650''), Bind ''bordered'' (JBool False)]
               [El ''a-descriptions'' [Bind ''column'' (JInt 1), Const ''size'' ''small'', Bind ''bordered'' (JBool True)]
                  [El ''a-descriptions-item'' [Const ''label'' (uni ''~7B56~7565'')] [Text (blp_policyLabel (limitProfile p))],
                    El ''a-descriptions-item'' [Const ''label'' (uni ''~6700~5927~5185~8054~54CD~5E94~4F53'')]
                     [Text (formatBytes (blp_maxInlineResponseBody (limitProfile p)))],
                    El ''a-descriptions-item'' [Const ''label'' (uni ''~6700~5927~8BF7~6C42~4F53'')] [Text (formatBytes (blp_maxRequestBody (limitProfile p)))],
                    El ''a-descriptions-item'' [Const ''label'' (uni ''~6700~5927~54CD~5E94~4F53'')] [Text (formatBytes (blp_maxResponseBody (limitProfile p)))]]],
              El ''a-form-item'' [Const ''label'' (uni ''~63CF~8FF0'')]
               [El ''a-textarea'' [Model ''value'' (JStr (lre_description (lrp_editor p))) (\<lambda>v. lrp_editor_update (lre_description_update (\<lambda>_. as_text v)))] []]],
           El ''template'' [Const ''slot'' ''footer''] [El ''a-space'' []
               [El ''a-button'' [On ''click'' Resources_close] [Text (uni ''~53D6~6D88'')],
                 El ''a-button'' [Const ''type'' ''primary'', Bind ''loading'' (JBool (lrp_saving p)), On ''click'' Resources_save] [Text (uni ''~4FDD~5B58'')]]]]])]"

subsection \<open>What the pages offer\<close>

lemmas resource_offer = offered_simps offer_at_def view_simps reacts_def

lemma mappings_offered:
  "offered (mappings_view p) = [Mappings_load] @ (if mpp_testing p then [] else [Mappings_test, Mappings_catalog Catalog_pull_remote]) @
     concat (map (\<lambda>r. [Mappings_open r, Mappings_detail r]) (mapping_rows p)) @
     (if mpp_editorOpen p then (if mpp_editingId p = [] then [] else [Mappings_remove]) @ [Mappings_close] @
        (if mpp_saving p then [] else [Mappings_save]) else [])"
  by (simp add: mappings_view_def mapping_columns_def column_def resource_offer comp_def concat_empty cong: if_cong option.case_cong
      del: uni.simps split: option.split)

lemma resources_offered:
  "offered (resources_view p) = [Resources_load] @ (if lrp_syncingCatalog p then [] else [Resources_push]) @ [Resources_create] @
     concat (map (\<lambda>r. [Resources_edit r, Resources_remove r]) (lrp_rows p)) @
     (if lrp_editorOpen p then [Resources_generate ''SERVICE'', Resources_generate ''CAMERA'', Resources_close] @
        (if lrp_saving p then [] else [Resources_save]) else [])"
  by (simp add: resources_view_def resource_columns_def column_def resource_offer comp_def concat_empty cong: if_cong del: uni.simps)

lemma mappings_error_said: "mpp_error p \<noteq> [] \<Longrightarrow> mpp_error p \<in> set (said (mappings_view p))"
  by (simp add: mappings_view_def said_simps view_simps message_of_def del: uni.simps)

lemma resources_error_said: "lrp_error p \<noteq> [] \<Longrightarrow> lrp_error p \<in> set (said (resources_view p))"
  by (simp add: resources_view_def said_simps view_simps message_of_def del: uni.simps)

interpretation mappings_shown: shown_errors mpp_loading "\<lambda>b p. p\<lparr>mpp_loading := b\<rparr>" mpp_error "\<lambda>m p. p\<lparr>mpp_error := m\<rparr>"
  "\<lambda>p. p\<lparr>mpp_error := [], mpp_notice := (if reset then [] else mpp_notice p)\<rparr>" mappings_view for reset
  by unfold_locales (rule mappings_error_said)

interpretation resources_shown: shown_errors lrp_loading "\<lambda>b p. p\<lparr>lrp_loading := b\<rparr>" lrp_error "\<lambda>m p. p\<lparr>lrp_error := m\<rparr>"
  "\<lambda>p. p\<lparr>lrp_error := [], lrp_notice := (if reset then [] else lrp_notice p)\<rparr>" resources_view for reset
  by unfold_locales (rule resources_error_said)

interpretation mappings_button: busy_button mpp_saving "\<lambda>b p. p\<lparr>mpp_saving := b\<rparr>" mpp_error "\<lambda>m p. p\<lparr>mpp_error := m\<rparr>" testing_reset
  mappings_view Mappings_save mpp_editorOpen
  by unfold_locales (auto simp: mappings_offered)

interpretation resources_button: busy_button lrp_saving "\<lambda>b p. p\<lparr>lrp_saving := b\<rparr>" lrp_error "\<lambda>m p. p\<lparr>lrp_error := m\<rparr>"
  "\<lambda>p. p\<lparr>lrp_error := []\<rparr>" resources_view Resources_save lrp_editorOpen
  by unfold_locales (auto simp: resources_offered)

subsection \<open>A visit to the page of local resources\<close>

text \<open>
  What the handlers do, with the codes' clock and random number, the time stamp of the store and the
  server as parameters. The dialog that asks before a removal is confirmed.
\<close>

record ('b, 'w) ResourceServer =
  rsv_save :: "(LocalResourceSavePayload, jsval, 'w) fetcher"
  rsv_list :: "('b, LocalResourceListPayload, 'w) fetcher"
  rsv_workspace :: "('b, jsval, 'w) fetcher"
  rsv_delete :: "('b, jsval, 'w) fetcher"
  rsv_action :: "(TunnelCatalogActionPayload, TunnelCatalogActionResponse, 'w) fetcher"

fun run_resources ::
  "(string \<Rightarrow> bool) \<Rightarrow> 'w ApiEnv \<Rightarrow> ('b, 'w) ResourceServer \<Rightarrow> nat \<Rightarrow> nat \<Rightarrow> string \<Rightarrow> resources_call \<Rightarrow>
    ResourcesPage \<times> 'w ApiState \<Rightarrow> ResourcesPage \<times> 'w ApiState" where
  "run_resources url_ok env srv clock rand now Resources_load s = snd (resources_load env (rsv_list srv) (rsv_workspace srv) True s)"
| "run_resources url_ok env srv clock rand now Resources_push s =
     snd (pushLocalCatalog env (rsv_action srv) (rsv_list srv) (rsv_workspace srv) s)"
| "run_resources url_ok env srv clock rand now Resources_create s = (resources_openCreate (fst s), snd s)"
| "run_resources url_ok env srv clock rand now (Resources_edit row) s = (resources_openEdit row (fst s), snd s)"
| "run_resources url_ok env srv clock rand now (Resources_remove row) s =
     snd (removeResource env (rsv_delete srv) (rsv_list srv) (rsv_workspace srv) row s)"
| "run_resources url_ok env srv clock rand now (Resources_generate kind) s = (generateResourceCode kind clock rand (fst s), snd s)"
| "run_resources url_ok env srv clock rand now Resources_close s = ((fst s)\<lparr>lrp_editorOpen := False\<rparr>, snd s)"
| "run_resources url_ok env srv clock rand now Resources_save s =
     snd (saveResource url_ok env (rsv_save srv) (rsv_list srv) (rsv_workspace srv) clock rand now s)"

text \<open>A user presses what the page offers and types into its controls; a drawer is only closed this way.\<close>

inductive resources_visit ::
  "(string \<Rightarrow> bool) \<Rightarrow> 'w ApiEnv \<Rightarrow> ('b, 'w) ResourceServer \<Rightarrow> ResourcesPage \<times> 'w ApiState \<Rightarrow> bool"
  for url_ok env srv where
  opened: "module_loaded st \<Longrightarrow> distinct (map lrsp_resource_code (localResourceState (as_mock st))) \<Longrightarrow>
    resources_visit url_ok env srv (snd (resources_load env (rsv_list srv) (rsv_workspace srv) True (resources_page_init, st)))"
| pressed: "resources_visit url_ok env srv s \<Longrightarrow> h \<in> set (offered (resources_view (fst s))) \<Longrightarrow>
    resources_visit url_ok env srv (run_resources url_ok env srv clock rand now h s)"
| typed: "resources_visit url_ok env srv (p, st) \<Longrightarrow> c \<in> set (controls (resources_view p)) \<Longrightarrow>
    ct_tag c \<noteq> ''a-drawer'' \<or> v = JBool False \<Longrightarrow> resources_visit url_ok env srv (ct_assign c v p, st)"

lemma pressed_is_step:
  "h \<in> set (offered (resources_view (fst s))) \<Longrightarrow>
     resource_page_step url_ok env (rsv_save srv) (rsv_list srv) (rsv_workspace srv) s (run_resources url_ok env srv clock rand now h s)"
  by (cases s; cases h)
    (auto simp: resources_offered intro: resource_page_step.intros split: if_splits)

lemma editor_controls:
  assumes "c \<in> set (controls (resources_view p))"
  shows "(\<exists>e. ct_assign c v p = p\<lparr>lrp_editor := e\<rparr>) \<or> ct_tag c = ''a-drawer'' \<and> ct_assign c v p = p\<lparr>lrp_editorOpen := as_bool v\<rparr>"
proof -
  have update: "\<exists>e. lrp_editor_update g p = p\<lparr>lrp_editor := e\<rparr>" for g
    by (rule exI [of _ "g (lrp_editor p)"]) simp
  show ?thesis
    using assms
    by (auto simp: resources_view_def resource_columns_def column_def controls_simps control_at_def view_simps reacts_def comp_def concat_empty
        update simp del: uni.simps cong: if_cong split: if_splits)
qed

lemma typed_is_step:
  assumes "c \<in> set (controls (resources_view p))" "ct_tag c \<noteq> ''a-drawer'' \<or> v = JBool False"
  shows "resource_page_step url_ok env fs fl fw (p, st) (ct_assign c v p, st)"
  using editor_controls [OF assms(1), of v] assms(2)
  by (auto intro: resource_page_step.type resource_page_step.cancel)

lemma visit_is_console:
  "resources_visit url_ok env srv s \<Longrightarrow> resource_console url_ok env (rsv_save srv) (rsv_list srv) (rsv_workspace srv) s"
proof (induction rule: resources_visit.induct)
  case (opened st)
  then show ?case by (rule resource_console.mounted)
next
  case (pressed s h clock rand now)
  show ?case by (rule resource_console.step [OF pressed.IH pressed_is_step [OF pressed.hyps(2)]])
next
  case (typed p st c v)
  show ?case by (rule resource_console.step [OF typed.IH typed_is_step [OF typed.hyps(2,3)]])
qed

end
