(* ===== verification/LogViews.thy ===== *)
theory LogViews
  imports ConfigViews LogPages
begin

text \<open>
  The templates of the log and task pages: \<open>views/AccessLogsView.vue\<close>, \<open>AuditLogsView.vue\<close>,
  \<open>OpsAuditsView.vue\<close>, \<open>SecurityEventsView.vue\<close>, \<open>CommandTasksView.vue\<close>, \<open>FileTasksView.vue\<close> and
  \<open>TaskDetailView.vue\<close>. A date range is the pair of its two texts.
\<close>

definition range_json :: "(string \<times> string) option \<Rightarrow> jsval" where
  "range_json r = (case r of None \<Rightarrow> JNull | Some (a, b) \<Rightarrow> JArr [JStr a, JStr b])"

definition range_value :: "jsval \<Rightarrow> (string \<times> string) option" where
  "range_value v = (case v of JArr [JStr a, JStr b] \<Rightarrow> Some (a, b) | _ \<Rightarrow> None)"

definition pagination_json :: "int \<Rightarrow> int \<Rightarrow> int \<Rightarrow> jsval" where
  "pagination_json current pageSize count =
     JObj [(''current'', JInt current), (''pageSize'', JInt pageSize), (''total'', JInt count), (''showSizeChanger'', JBool True)]"

subsection \<open>Access log\<close>

datatype access_call = Access_load | Access_reset | Access_detail AccessLogEntry

definition access_columns :: "Column list" where
  "access_columns =
    [column (uni ''~65F6~95F4'') ''occurred_at'' ''occurred_at'',
     column (uni ''~6620~5C04~540D~79F0'') ''mapping_name'' ''mapping_name'',
     column (uni ''~6765~6E90 IP'') ''source_ip'' ''source_ip'',
     column (uni ''~8BF7~6C42~65B9~6CD5'') ''method'' ''method'',
     column (uni ''~8BF7~6C42~8DEF~5F84'') ''path'' ''path'',
     column (uni ''~72B6~6001~7801'') ''status_code'' ''status_code'',
     column (uni ''~8017~65F6'') ''duration_ms'' ''duration_ms'',
     column (uni ''~5931~8D25~539F~56E0'') ''failure_reason'' ''failure_reason'',
     column (uni ''~64CD~4F5C'') [] ''action'']"

definition access_field :: "AccessLogEntry \<Rightarrow> string \<Rightarrow> string" where
  "access_field record f =
    (if f = ''occurred_at'' then (ale_occurred_at record)
     else if f = ''mapping_name'' then (ale_mapping_name record)
     else if f = ''source_ip'' then (ale_source_ip record)
     else if f = ''method'' then (ale_method record)
     else if f = ''path'' then (ale_path record)
     else if f = ''status_code'' then (string_of_int (ale_status_code record))
     else if f = ''duration_ms'' then (string_of_int (ale_duration_ms record))
     else if f = ''failure_reason'' then ale_failure_reason record else [])"

definition access_view ::
  "(int \<Rightarrow> int) \<Rightarrow> (string \<Rightarrow> int option) \<Rightarrow> AccessPage \<Rightarrow> (access_call, AccessPage) node list" where
  "access_view resolve parse p =
    [El ''a-space'' [Const ''direction'' ''vertical'', Const ''size'' ''large'']
      ([El ''a-page-header'' [Const ''title'' (uni ''~8BBF~95EE~65E5~5FD7''), Const ''sub-title'' (uni ''~57FA~4E8E~771F~5B9E~8BF7~6C42~94FE~8DEF~67E5~8BE2~8BBF~95EE~8BB0~5F55~FF0C~5E76~4E0E~603B~89C8~76D1~63A7~548C~544A~8B66~4FDD~62A4~5171~7528~540C~4E00~5206~6790~53E3~5F84~3002'')]
         [El ''template'' [Const ''slot'' ''extra''] [El ''a-space'' []
               [El ''a-tag'' [Const ''color'' ''blue''] [Text ((uni ''~7EDF~8BA1~53E3~5F84~FF1A'') @ (summaryWindow p))],
                 El ''a-button'' [On ''click'' Access_load] [Text (uni ''~5237~65B0'')]]]],
        El ''a-row'' []
         (concat (map (\<lambda>card.
            [El ''a-col'' []
              [El ''a-card'' [Bind ''bordered'' (JBool False)]
                 [El ''a-statistic'' [Bind ''title'' (JStr (fst card)), Bind ''value'' (JInt (snd card))] []]]]) (access_cards p))),
        El ''a-card'' [Bind ''bordered'' (JBool False)]
         [El ''a-form'' [Const ''layout'' ''inline'']
            [El ''a-form-item'' [Const ''label'' (uni ''~6620~5C04~540D~79F0'')]
               [El ''a-input'' [Model ''value'' (opt_json JStr (alq_mapping (acp_query p))) (\<lambda>v. acp_query_update (alq_mapping_update (\<lambda>_. text_opt v))), Bind ''allow-clear'' (JBool True)] []],
              El ''a-form-item'' [Const ''label'' (uni ''~6765~6E90 IP'')]
               [El ''a-input'' [Model ''value'' (opt_json JStr (alq_sourceIP (acp_query p))) (\<lambda>v. acp_query_update (alq_sourceIP_update (\<lambda>_. text_opt v))), Bind ''allow-clear'' (JBool True)] []],
              El ''a-form-item'' [Const ''label'' (uni ''~8BF7~6C42~65B9~6CD5'')]
               [El ''a-input'' [Model ''value'' (opt_json JStr (alq_method (acp_query p))) (\<lambda>v. acp_query_update (alq_method_update (\<lambda>_. text_opt v))), Bind ''allow-clear'' (JBool True)] []],
              El ''a-form-item'' [Const ''label'' (uni ''~72B6~6001~7801'')]
               [El ''a-input-number'' [Model ''value'' (opt_json JInt (alq_status (acp_query p))) (\<lambda>v. acp_query_update (alq_status_update (\<lambda>_. int_opt v))), Bind ''min'' (JInt 100), Bind ''max'' (JInt 599)] []],
              El ''a-form-item'' [Const ''label'' (uni ''~65F6~95F4~8303~56F4'')]
               [El ''a-range-picker'' [Model ''value'' (range_json (acp_timeRange p)) (\<lambda>v. set_timeRange (range_value v)), Bind ''show-time'' (JBool True)] []],
              El ''a-form-item'' []
               [El ''a-checkbox'' [Model ''checked'' (opt_json JBool (alq_slowOnly (acp_query p))) (\<lambda>v. acp_query_update (alq_slowOnly_update (\<lambda>_. Some (as_bool v))))] [Text (uni ''~4EC5~6162~8BF7~6C42'')]],
              El ''a-form-item'' []
               [El ''a-checkbox'' [Model ''checked'' (opt_json JBool (alq_failedOnly (acp_query p))) (\<lambda>v. acp_query_update (alq_failedOnly_update (\<lambda>_. Some (as_bool v))))] [Text (uni ''~4EC5~5931~8D25~8BF7~6C42'')]],
              El ''a-form-item'' []
               [El ''a-space'' []
                  [El ''a-button'' [Const ''type'' ''primary'', On ''click'' Access_load] [Text (uni ''~67E5~8BE2'')],
                    El ''a-button'' [On ''click'' Access_reset] [Text (uni ''~91CD~7F6E'')]]]]]] @
       (if (acp_error p) \<noteq> [] then
         [El ''a-alert'' [Const ''type'' ''error'', Bind ''message'' (JStr (acp_error p)), Bind ''show-icon'' (JBool True)] []]
       else []) @
       [El ''a-spin'' [Bind ''spinning'' (JBool (acp_loading p))]
         [El ''a-table'' [Const ''row-key'' ''id'', Bind ''pagination'' (JBool False)]
             (table_body access_columns (acp_list p) (\<lambda>column record. (if (col_key column) = ''status_code'' then
                 [El ''a-tag'' [Bind ''color'' (JStr (if (ale_status_code record) \<ge> 500 then ''red'' else (if (ale_status_code record) \<ge> 400 then ''orange'' else ''green'')))] [Text (string_of_int (ale_status_code record))]]
               else (if (col_key column) = ''occurred_at'' then
                 [El ''span'' []
                   [Text (formatDateTimeText resolve parse (Some (ale_occurred_at record)) ''-'')]]
               else (if (col_key column) = ''duration_ms'' then
                 [El ''span'' [] [Text ((string_of_int (ale_duration_ms record)) @ '' ms'')]]
               else (if (col_key column) = ''action'' then
                 [El ''a-button'' [Const ''type'' ''link'', On ''click'' (Access_detail record)] [Text (uni ''~67E5~770B~8BE6~60C5'')]]
               else []))))) access_field)],
        El ''a-drawer'' [Model ''open'' (JBool (acp_detailOpen p)) (\<lambda>v. acp_detailOpen_update (\<lambda>_. as_bool v)), Const ''title'' (uni ''~8BBF~95EE~65E5~5FD7~8BE6~60C5''), Bind ''width'' (JInt 720)]
         (case acp_current p of
            None \<Rightarrow> []
          | Some entry \<Rightarrow> [El ''a-descriptions'' [Bind ''column'' (JInt 1), Bind ''bordered'' (JBool True), Const ''size'' ''small'']
              [El ''a-descriptions-item'' [Const ''label'' (uni ''~65F6~95F4'')]
                 [Text (formatDateTimeText resolve parse (Some (ale_occurred_at entry)) ''-'')],
                El ''a-descriptions-item'' [Const ''label'' (uni ''~6620~5C04~540D~79F0'')] [Text (ale_mapping_name entry)],
                El ''a-descriptions-item'' [Const ''label'' (uni ''~6765~6E90 IP'')] [Text (ale_source_ip entry)],
                El ''a-descriptions-item'' [Const ''label'' (uni ''~8BF7~6C42~65B9~6CD5'')] [Text (ale_method entry)],
                El ''a-descriptions-item'' [Const ''label'' (uni ''~8BF7~6C42~8DEF~5F84'')] [Text (ale_path entry)],
                El ''a-descriptions-item'' [Const ''label'' (uni ''~72B6~6001~7801'')] [Text (string_of_int (ale_status_code entry))],
                El ''a-descriptions-item'' [Const ''label'' (uni ''~8017~65F6'')] [Text ((string_of_int (ale_duration_ms entry)) @ '' ms'')],
                El ''a-descriptions-item'' [Const ''label'' (uni ''~5931~8D25~539F~56E0'')] [Text (str_or (ale_failure_reason entry) (uni ''~65E0''))],
                El ''a-descriptions-item'' [Const ''label'' ''request_id''] [Text (ale_request_id entry)],
                El ''a-descriptions-item'' [Const ''label'' ''trace_id''] [Text (ale_trace_id entry)]]])])]"

subsection \<open>Audit log\<close>

datatype audit_call = Audit_load int | Audit_range "(string \<times> string) option" | Audit_table "int option" "int option" | Audit_detail OpsAuditEvent

definition audit_columns :: "Column list" where
  "audit_columns =
    [column ''request_id'' ''core.request_id'' ''request_id'',
     column ''trace_id'' ''core.trace_id'' ''trace_id'',
     column (uni ''~64CD~4F5C~7C7B~578B'') [] ''ops_action'',
     column (uni ''~64CD~4F5C~4EBA'') ''who'' ''who'',
     column (uni ''~65F6~95F4'') ''when'' ''when'',
     column (uni ''~7ED3~679C'') [] ''final_result'',
     column (uni ''~64CD~4F5C'') [] ''actionBtn'']"

definition audit_field :: "OpsAuditEvent \<Rightarrow> string \<Rightarrow> string" where
  "audit_field record f =
    (if f = ''core.request_id'' then (oac_request_id (oae_core record))
     else if f = ''core.trace_id'' then (oac_trace_id (oae_core record))
     else if f = ''who'' then (oae_who record)
     else if f = ''when'' then oae_when record else [])"

definition audit_view ::
  "(int \<Rightarrow> int) \<Rightarrow> (string \<Rightarrow> int option) \<Rightarrow> AuditPage \<Rightarrow> (audit_call, AuditPage) node list" where
  "audit_view resolve parse p =
    [El ''a-space'' [Const ''direction'' ''vertical'', Const ''size'' ''middle'']
      [El ''a-card'' [Const ''title'' (uni ''~5BA1~8BA1~67E5~8BE2'')]
         [El ''a-form'' [Const ''layout'' ''inline'']
            [El ''a-form-item'' [Const ''label'' ''request_id'']
               [El ''a-input'' [Model ''value'' (JStr (aup_requestId p)) (\<lambda>v. aup_requestId_update (\<lambda>_. as_text v)), Bind ''allow-clear'' (JBool True)] []],
              El ''a-form-item'' [Const ''label'' ''trace_id'']
               [El ''a-input'' [Model ''value'' (JStr (aup_traceId p)) (\<lambda>v. aup_traceId_update (\<lambda>_. as_text v)), Bind ''allow-clear'' (JBool True)] []],
              El ''a-form-item'' [Const ''label'' (uni ''~89C4~5219~5173~952E~8BCD'')]
               [El ''a-input'' [Model ''value'' (JStr (aup_rule p)) (\<lambda>v. aup_rule_update (\<lambda>_. as_text v)), Const ''placeholder'' ''api_code / ops_action / request_type'', Bind ''allow-clear'' (JBool True)] []],
              El ''a-form-item'' [Const ''label'' (uni ''~65F6~95F4~8303~56F4'')]
               [El ''a-range-picker'' [Model ''value'' (range_json (aup_selectedRange p)) (\<lambda>v. aup_selectedRange_update (\<lambda>_. range_value v)), Bind ''show-time'' (JBool True), Const ''value-format'' ''YYYY-MM-DDTHH:mm:ss[Z]'', OnArg ''change'' (\<lambda>v. Audit_range (range_value v))] []],
              El ''a-form-item'' []
               [El ''a-checkbox'' [Model ''checked'' (opt_json JBool (aup_errorOnly p)) (\<lambda>v. aup_errorOnly_update (\<lambda>_. Some (as_bool v)))] [Text (uni ''~4EC5~9519~8BEF'')]],
              El ''a-form-item'' []
               [El ''a-button'' [Const ''type'' ''primary'', On ''click'' (Audit_load 1)] [Text (uni ''~67E5~8BE2'')]]]],
        El ''a-card'' [Const ''title'' (uni ''~5BA1~8BA1~65E5~5FD7'')]
         [El ''a-table'' [Const ''row-key'' ''when'', Bind ''pagination'' (pagination_json (aup_current p) (aup_pageSize p) (aup_total p)), OnArg ''change'' (\<lambda>v. Audit_table (int_opt (chain v ''current'')) (int_opt (chain v ''pageSize'')))]
             (table_body audit_columns (aup_logs p) (\<lambda>column record. ((if (col_key column) = ''when'' then
                 [El ''span'' []
                   [Text (formatDateTimeText resolve parse (Some (oae_when record)) ''-'')]]
               else (if (col_key column) = ''ops_action'' then
                 [El ''a-tag'' [Const ''color'' ''processing''] [Text (str_or (oae_ops_action record) ''NONE'')]]
               else [])) @
               (if (col_key column) = ''final_result'' then
                 [El ''a-tag'' [Bind ''color'' (JStr (if (oae_final_result record) = ''OK'' then ''success'' else ''error''))] [Text (str_or (oae_final_result record) ''UNKNOWN'')]]
               else []) @
               (if (col_key column) = ''actionBtn'' then
                 [El ''a-button'' [Const ''type'' ''link'', On ''click'' (Audit_detail record)] [Text (uni ''~8BE6~60C5'')]]
               else []))) audit_field)],
        El ''a-drawer'' [Model ''open'' (JBool (aup_drawerVisible p)) (\<lambda>v. aup_drawerVisible_update (\<lambda>_. as_bool v)), Const ''title'' (uni ''~5BA1~8BA1~8BE6~60C5''), Const ''width'' ''620'']
         [El ''a-descriptions'' [Bind ''bordered'' (JBool True), Bind ''column'' (JInt 1)]
            [El ''a-descriptions-item'' [Const ''label'' ''request_id'']
               [Text (nullish (map_option oac_request_id (map_option oae_core (aup_selectedLog p))) [])],
              El ''a-descriptions-item'' [Const ''label'' ''trace_id'']
               [Text (nullish (map_option oac_trace_id (map_option oae_core (aup_selectedLog p))) [])],
              El ''a-descriptions-item'' [Const ''label'' (uni ''~64CD~4F5C~7C7B~578B'')]
               [Text (nullish (map_option oae_ops_action (aup_selectedLog p)) [])],
              El ''a-descriptions-item'' [Const ''label'' (uni ''~64CD~4F5C~4EBA'')]
               [Text (nullish (map_option oae_who (aup_selectedLog p)) [])],
              El ''a-descriptions-item'' [Const ''label'' (uni ''~65F6~95F4'')]
               [Text (formatDateTimeText resolve parse (map_option oae_when (aup_selectedLog p)) ''-'')],
              El ''a-descriptions-item'' [Const ''label'' (uni ''~7ED3~679C'')]
               [Text (nullish (map_option oae_final_result (aup_selectedLog p)) [])]]]]]"

subsection \<open>Operations audit\<close>

datatype ops_audit_call = OpsAudit_load | OpsAudit_reset | OpsAudit_detail OpsAuditEvent

definition ops_audit_columns :: "Column list" where
  "ops_audit_columns =
    [column (uni ''~65F6~95F4'') ''time'' ''time'',
     column (uni ''~64CD~4F5C~7C7B~578B'') ''type'' ''type'',
     column (uni ''~64CD~4F5C~5BF9~8C61'') ''target'' ''target'',
     column (uni ''~64CD~4F5C~4EBA'') ''operator'' ''operator'',
     column (uni ''~7ED3~679C'') ''result'' ''result'',
     column (uni ''~6458~8981'') ''summary'' ''summary'',
     column (uni ''~64CD~4F5C'') [] ''action'']"

definition ops_audit_field :: "AuditRow \<Rightarrow> string \<Rightarrow> string" where
  "ops_audit_field record f =
    (if f = ''time'' then (ar_time record)
     else if f = ''type'' then (ar_type record)
     else if f = ''target'' then (ar_target record)
     else if f = ''operator'' then (ar_operator record)
     else if f = ''result'' then (ar_result record)
     else if f = ''summary'' then ar_summary record else [])"

definition ops_audit_view ::
  "(int \<Rightarrow> int) \<Rightarrow> (string \<Rightarrow> int option) \<Rightarrow> OpsAuditPage \<Rightarrow> (ops_audit_call, OpsAuditPage) node list" where
  "ops_audit_view resolve parse p =
    [El ''a-space'' [Const ''direction'' ''vertical'', Const ''size'' ''large'']
      ([El ''a-page-header'' [Const ''title'' (uni ''~8FD0~7EF4~5BA1~8BA1''), Const ''sub-title'' (uni ''~805A~7126~8C01~5728~4EC0~4E48~65F6~5019~6539~4E86~4EC0~4E48~FF0C~4EE5~53CA~6267~884C~7ED3~679C~3002'')] [],
        El ''a-card'' [Bind ''bordered'' (JBool False)]
         [El ''a-form'' [Const ''layout'' ''inline'']
            [El ''a-form-item'' [Const ''label'' (uni ''~8BF7~6C42 ID'')]
               [El ''a-input'' [Model ''value'' (opt_json JStr (oaf_requestId (oap_filters p))) (\<lambda>v. oap_filters_update (oaf_requestId_update (\<lambda>_. text_opt v))), Bind ''allow-clear'' (JBool True)] []],
              El ''a-form-item'' [Const ''label'' (uni ''~8FFD~8E2A ID'')]
               [El ''a-input'' [Model ''value'' (opt_json JStr (oaf_traceId (oap_filters p))) (\<lambda>v. oap_filters_update (oaf_traceId_update (\<lambda>_. text_opt v))), Bind ''allow-clear'' (JBool True)] []],
              El ''a-form-item'' [Const ''label'' (uni ''~4EC5~5931~8D25'')]
               [El ''a-switch'' [Model ''checked'' (opt_json JBool (oaf_errorOnly (oap_filters p))) (\<lambda>v. oap_filters_update (oaf_errorOnly_update (\<lambda>_. Some (as_bool v))))] []],
              El ''a-form-item'' []
               [El ''a-space'' []
                  [El ''a-button'' [Const ''type'' ''primary'', On ''click'' OpsAudit_load] [Text (uni ''~67E5~8BE2'')],
                    El ''a-button'' [On ''click'' OpsAudit_reset] [Text (uni ''~91CD~7F6E'')]]]]]] @
       (if (oap_error p) \<noteq> [] then
         [El ''a-alert'' [Const ''type'' ''error'', Bind ''message'' (JStr (oap_error p)), Bind ''show-icon'' (JBool True)] []]
       else []) @
       [El ''a-spin'' [Bind ''spinning'' (JBool (oap_loading p))]
         (if (\<not> (oap_loading p)) \<and> ((int (length (oap_rows p))) = 0) then
            [El ''a-empty'' [Const ''description'' (uni ''~6682~65E0~5BA1~8BA1~8BB0~5F55'')] []]
          else [El ''a-table'' [Const ''row-key'' ''id'', Bind ''pagination'' (JBool False)]
               (table_body ops_audit_columns (oap_rows p) (\<lambda>column record. (if (col_key column) = ''time'' then
                   [El ''span'' []
                     [Text (formatDateTimeText resolve parse (Some (ar_time record)) ''-'')]]
                 else (if (col_key column) = ''result'' then
                   [El ''a-tag'' [Bind ''color'' (JStr (if (ar_result record) = (uni ''~6210~529F'') then ''green'' else ''red''))] [Text (ar_result record)]]
                 else (if (col_key column) = ''action'' then
                   [El ''a-button'' [Const ''type'' ''link'', On ''click'' (OpsAudit_detail (ar_raw record))] [Text (uni ''~67E5~770B~8BE6~60C5'')]]
                 else [])))) ops_audit_field)]),
        El ''a-drawer'' [Model ''open'' (JBool (oap_detailOpen p)) (\<lambda>v. oap_detailOpen_update (\<lambda>_. as_bool v)), Const ''title'' (uni ''~5BA1~8BA1~8BE6~60C5''), Bind ''width'' (JInt 720)]
         (case oap_current p of
            None \<Rightarrow> []
          | Some event \<Rightarrow> [El ''a-descriptions'' [Bind ''bordered'' (JBool True), Bind ''column'' (JInt 1), Const ''size'' ''small'']
              [El ''a-descriptions-item'' [Const ''label'' (uni ''~65F6~95F4'')]
                 [Text (formatDateTimeText resolve parse (Some (oae_when event)) ''-'')],
                El ''a-descriptions-item'' [Const ''label'' (uni ''~64CD~4F5C~7C7B~578B'')] [Text (oae_request_type event)],
                El ''a-descriptions-item'' [Const ''label'' (uni ''~64CD~4F5C~5BF9~8C61'')] [Text (str_or (oae_local_service_route event) (uni ''~7CFB~7EDF~914D~7F6E''))],
                El ''a-descriptions-item'' [Const ''label'' (uni ''~64CD~4F5C~4EBA'')] [Text (oae_who event)],
                El ''a-descriptions-item'' [Const ''label'' (uni ''~7ED3~679C'')] [Text (oae_final_result event)],
                El ''a-descriptions-item'' [Const ''label'' ''request_id''] [Text (oac_request_id (oae_core event))],
                El ''a-descriptions-item'' [Const ''label'' ''trace_id''] [Text (oac_trace_id (oae_core event))],
                El ''a-descriptions-item'' [Const ''label'' (uni ''~6765~6E90~7CFB~7EDF'')] [Text (oac_source_system (oae_core event))],
                El ''a-descriptions-item'' [Const ''label'' (uni ''~6765~6E90~8282~70B9'')] [Text (oac_source_node (oae_core event))],
                El ''a-descriptions-item'' [Const ''label'' (uni ''~7ED3~679C~7801'')] [Text (oac_result_code (oae_core event))]]])])]"

subsection \<open>Security events\<close>

datatype security_events_call = SecurityEvents_load

definition security_event_columns :: "Column list" where
  "security_event_columns =
    [column (uni ''~65F6~95F4'') ''when'' ''when'',
     column (uni ''~7C7B~522B'') ''category'' ''category'',
     column (uni ''~4F20~8F93'') ''transport'' ''transport'',
     column (uni ''~539F~56E0'') ''reason'' ''reason'',
     column ''request_id'' ''requestId'' ''requestId'',
     column ''trace_id'' ''traceId'' ''traceId'',
     column (uni ''~5BA1~8BA1~8054~52A8'') ''auditLinked'' ''auditLinked'']"

definition security_event_field :: "SecurityEventRecord \<times> string \<Rightarrow> string \<Rightarrow> string" where
  "security_event_field record f =
    (if f = ''when'' then (ser_when (fst record))
     else if f = ''category'' then (ser_category (fst record))
     else if f = ''transport'' then (ser_transport (fst record))
     else if f = ''reason'' then (ser_reason (fst record))
     else if f = ''requestId'' then (ser_requestId (fst record))
     else if f = ''traceId'' then (ser_traceId (fst record))
     else if f = ''auditLinked'' then (case (ser_auditLinked (fst record)) of None \<Rightarrow> [] | Some v \<Rightarrow> (if v then ''true''
     else ''false'')) else [])"

definition security_events_view ::
  "(int \<Rightarrow> int) \<Rightarrow> (string \<Rightarrow> int option) \<Rightarrow> SecurityEventsPage \<Rightarrow> (security_events_call, SecurityEventsPage) node list" where
  "security_events_view resolve parse p =
    [El ''a-space'' [Const ''direction'' ''vertical'', Const ''size'' ''large'']
      ([El ''a-page-header'' [Const ''title'' (uni ''~5B89~5168~4E8B~4EF6''), Const ''sub-title'' (uni ''~67E5~770B SIP/RTP ~534F~8BAE~62D2~7EDD~3001~91CD~653E~3001~6458~8981~6821~9A8C~4E0E~7B7E~540D~5931~8D25~4E8B~4EF6~FF1B~8BE5~89C6~56FE~4E0E~7EDF~4E00~5BA1~8BA1~67E5~8BE2~53E3~5F84~8054~52A8~3002'')]
         [El ''template'' [Const ''slot'' ''extra''] [El ''a-button'' [On ''click'' SecurityEvents_load] [Text (uni ''~5237~65B0'')]]]] @
       (if (sep_error p) \<noteq> [] then
         [El ''a-alert'' [Const ''type'' ''error'', Bind ''message'' (JStr (sep_error p)), Bind ''show-icon'' (JBool True)] []]
       else []) @
       [El ''a-spin'' [Bind ''spinning'' (JBool (sep_loading p))]
         [El ''a-table'' [Const ''row-key'' ''key'', Bind ''pagination'' (JBool False)]
             (table_body security_event_columns (sep_rows p) (\<lambda>column record. (if (col_key column) = ''when'' then
                 [El ''span'' []
                   [Text (formatDateTimeText resolve parse (Some (ser_when (fst record))) ''-'')]]
               else (if (col_key column) = ''transport'' then
                 [El ''a-tag'' [Bind ''color'' (JStr (if (ser_transport (fst record)) = ''RTP'' then ''orange'' else ''blue''))] [Text (ser_transport (fst record))]]
               else (if (col_key column) = ''auditLinked'' then
                 [El ''a-tag'' [Bind ''color'' (JStr (if (ser_auditLinked (fst record)) = Some True then ''green'' else ''default''))]
                   [Text (if (ser_auditLinked (fst record)) = Some True then (uni ''~5DF2~7EB3~5165~5BA1~8BA1'') else (uni ''~4EC5~5B89~5168~4E8B~4EF6''))]]
               else [])))) security_event_field)]])]"

subsection \<open>Tasks\<close>

datatype tasks_call = Tasks_load int | Tasks_reset | Tasks_table "int option" "int option" | Tasks_detail string

text \<open>The route, by name and parameters, that the row of a task leads to.\<close>

definition command_goDetail :: "string \<Rightarrow> string \<times> (string \<times> string) list" where
  "command_goDetail task = (''task-detail'', [(''taskKind'', ''command''), (''id'', task)])"

definition file_goDetail :: "string \<Rightarrow> string \<times> (string \<times> string) list" where
  "file_goDetail task = (''task-detail'', [(''taskKind'', ''file''), (''id'', task)])"

definition task_status_value_opt :: "jsval \<Rightarrow> TaskStatus option" where
  "task_status_value_opt v = (case v of
     JStr s \<Rightarrow> find (\<lambda>x. task_status_text x = s) [Task_pending, Task_accepted, Task_running, Task_transferring, Task_verifying, Task_retry_wait,
       Task_succeeded, Task_failed, Task_dead_lettered, Task_cancelled]
   | _ \<Rightarrow> None)"

definition command_task_columns :: "Column list" where
  "command_task_columns =
    [column (uni ''~4EFB~52A1ID'') ''id'' ''id'',
     column ''request_id'' ''requestId'' ''requestId'',
     column ''trace_id'' ''traceId'' ''traceId'',
     column (uni ''api_code~FF08~517C~5BB9~7D22~5F15~FF09'') ''apiCode'' ''apiCode'',
     column (uni ''~72B6~6001'') ''status'' ''status'',
     column (uni ''~5EF6~8FDF(ms)'') ''latencyMs'' ''latencyMs'',
     column (uni ''~66F4~65B0~65F6~95F4'') ''updatedAt'' ''updatedAt'',
     column (uni ''~64CD~4F5C'') [] ''action'']"

definition command_task_field :: "CommandTask \<Rightarrow> string \<Rightarrow> string" where
  "command_task_field record f =
    (if f = ''id'' then (ct_id record)
     else if f = ''requestId'' then (ct_requestId record)
     else if f = ''traceId'' then (ct_traceId record)
     else if f = ''apiCode'' then (ct_apiCode record)
     else if f = ''status'' then (task_status_text (ct_status record))
     else if f = ''latencyMs'' then (string_of_int (ct_latencyMs record))
     else if f = ''updatedAt'' then ct_updatedAt record else [])"

definition command_tasks_view :: "CommandTask TasksPage \<Rightarrow> (tasks_call, CommandTask TasksPage) node list" where
  "command_tasks_view p =
    [El ''a-space'' [Const ''direction'' ''vertical'', Const ''size'' ''middle'']
      [El ''a-card'' [Const ''title'' (uni ''~7B5B~9009~533A'')]
         [El ''a-form'' [Const ''layout'' ''inline'']
            [El ''a-form-item'' [Const ''label'' (uni ''~72B6~6001'')]
               [El ''a-select'' [Model ''value'' (opt_json (\<lambda>v. JStr (task_status_text v)) (tf_status (tpg_filters p))) (\<lambda>v. tpg_filters_update (tf_status_update (\<lambda>_. task_status_value_opt v))), Bind ''allow-clear'' (JBool True), Bind ''options'' (options_json statusOptions)] []],
              El ''a-form-item'' [Const ''label'' ''request_id'']
               [El ''a-input'' [Model ''value'' (opt_json JStr (tf_requestId (tpg_filters p))) (\<lambda>v. tpg_filters_update (tf_requestId_update (\<lambda>_. text_opt v))), Const ''placeholder'' ''REQ-CMD-0001'', Bind ''allow-clear'' (JBool True)] []],
              El ''a-form-item'' [Const ''label'' ''trace_id'']
               [El ''a-input'' [Model ''value'' (opt_json JStr (tf_traceId (tpg_filters p))) (\<lambda>v. tpg_filters_update (tf_traceId_update (\<lambda>_. text_opt v))), Const ''placeholder'' ''TRACE-xxxx'', Bind ''allow-clear'' (JBool True)] []],
              El ''a-form-item'' []
               [El ''a-space'' []
                  [El ''a-button'' [Const ''type'' ''primary'', On ''click'' (Tasks_load 1)] [Text (uni ''~67E5~8BE2'')],
                    El ''a-button'' [On ''click'' Tasks_reset] [Text (uni ''~91CD~7F6E'')]]]]],
        El ''a-card'' [Const ''title'' (uni ''~547D~4EE4~4EFB~52A1~5217~8868'')]
         [El ''a-table'' [Bind ''pagination'' (pagination_json (tpg_current p) (tpg_pageSize p) (tpg_total p)), Const ''row-key'' ''id'', OnArg ''change'' (\<lambda>v. Tasks_table (int_opt (chain v ''current'')) (int_opt (chain v ''pageSize'')))]
             (table_body command_task_columns (tlr_list (tpg_result p)) (\<lambda>column record. (if (col_key column) = ''status'' then
                 [El ''a-tag'' [Bind ''color'' (JStr (statusColorMap (ct_status record)))] [Text (statusTextMap (ct_status record))]]
               else (if (col_key column) = ''action'' then
                 [El ''a-button'' [Const ''type'' ''link'', On ''click'' (Tasks_detail (ct_id record))] [Text (uni ''~8BE6~60C5'')]]
               else []))) command_task_field)]]]"

definition file_task_columns :: "Column list" where
  "file_task_columns =
    [column (uni ''~4EFB~52A1ID'') ''id'' ''id'',
     column ''request_id'' ''requestId'' ''requestId'',
     column ''trace_id'' ''traceId'' ''traceId'',
     column (uni ''~6587~4EF6~540D'') ''filename'' ''filename'',
     column (uni ''~72B6~6001'') ''status'' ''status'',
     column (uni ''~4F20~8F93~8FDB~5EA6'') [] ''progress'',
     column (uni ''~7F3A~7247~6570'') ''missingShards'' ''missingShards'',
     column (uni ''~91CD~4F20~8F6E~6B21'') ''retryRounds'' ''retryRounds'',
     column (uni ''~6821~9A8C~7ED3~679C'') ''checksumPassed'' ''checksumPassed'',
     column (uni ''~64CD~4F5C'') [] ''action'']"

definition file_task_field :: "FileTask \<Rightarrow> string \<Rightarrow> string" where
  "file_task_field record f =
    (if f = ''id'' then (ft_id record)
     else if f = ''requestId'' then (ft_requestId record)
     else if f = ''traceId'' then (ft_traceId record)
     else if f = ''filename'' then (ft_filename record)
     else if f = ''status'' then (task_status_text (ft_status record))
     else if f = ''missingShards'' then (string_of_int (ft_missingShards record))
     else if f = ''retryRounds'' then (string_of_int (ft_retryRounds record))
     else if f = ''checksumPassed'' then (if (ft_checksumPassed record) then ''true''
     else ''false'') else [])"

definition file_tasks_view :: "FileTask TasksPage \<Rightarrow> (tasks_call, FileTask TasksPage) node list" where
  "file_tasks_view p =
    [El ''a-space'' [Const ''direction'' ''vertical'', Const ''size'' ''middle'']
      [El ''a-card'' [Const ''title'' (uni ''~7B5B~9009~533A'')]
         [El ''a-form'' [Const ''layout'' ''inline'']
            [El ''a-form-item'' [Const ''label'' (uni ''~72B6~6001'')]
               [El ''a-select'' [Model ''value'' (opt_json (\<lambda>v. JStr (task_status_text v)) (tf_status (tpg_filters p))) (\<lambda>v. tpg_filters_update (tf_status_update (\<lambda>_. task_status_value_opt v))), Bind ''allow-clear'' (JBool True), Bind ''options'' (options_json statusOptions)] []],
              El ''a-form-item'' [Const ''label'' ''request_id'']
               [El ''a-input'' [Model ''value'' (opt_json JStr (tf_requestId (tpg_filters p))) (\<lambda>v. tpg_filters_update (tf_requestId_update (\<lambda>_. text_opt v))), Bind ''allow-clear'' (JBool True)] []],
              El ''a-form-item'' [Const ''label'' ''trace_id'']
               [El ''a-input'' [Model ''value'' (opt_json JStr (tf_traceId (tpg_filters p))) (\<lambda>v. tpg_filters_update (tf_traceId_update (\<lambda>_. text_opt v))), Bind ''allow-clear'' (JBool True)] []],
              El ''a-form-item'' []
               [El ''a-space'' []
                  [El ''a-button'' [Const ''type'' ''primary'', On ''click'' (Tasks_load 1)] [Text (uni ''~67E5~8BE2'')],
                    El ''a-button'' [On ''click'' Tasks_reset] [Text (uni ''~91CD~7F6E'')]]]]],
        El ''a-card'' [Const ''title'' (uni ''~6587~4EF6~4EFB~52A1~5217~8868'')]
         [El ''a-table'' [Const ''row-key'' ''id'', Bind ''pagination'' (pagination_json (tpg_current p) (tpg_pageSize p) (tpg_total p)), OnArg ''change'' (\<lambda>v. Tasks_table (int_opt (chain v ''current'')) (int_opt (chain v ''pageSize'')))]
             (table_body file_task_columns (tlr_list (tpg_result p)) (\<lambda>column record. (if (col_key column) = ''status'' then
                 [El ''a-tag'' [Bind ''color'' (JStr (statusColorMap (ft_status record)))] [Text (statusTextMap (ft_status record))]]
               else (if (col_key column) = ''progress'' then
                 [El ''a-progress'' [Bind ''percent'' (JInt (ft_progress record)), Const ''size'' ''small''] []]
               else (if (col_key column) = ''checksumPassed'' then
                 [El ''a-badge'' [Bind ''status'' (JStr (if ft_checksumPassed record then ''success'' else ''error'')), Bind ''text'' (JStr (if ft_checksumPassed record then (uni ''~901A~8FC7'') else (uni ''~5931~8D25'')))] []]
               else (if (col_key column) = ''action'' then
                 [El ''a-button'' [Const ''type'' ''link'', On ''click'' (Tasks_detail (ft_id record))] [Text (uni ''~8BE6~60C5'')]]
               else []))))) file_task_field)]]]"

subsection \<open>Task detail\<close>

fun task_kind_text :: "TaskKind \<Rightarrow> string" where
  "task_kind_text Kind_command = ''command''"
| "task_kind_text Kind_file = ''file''"

fun timelineColor :: "TimelineStatus \<Rightarrow> string" where
  "timelineColor Timeline_done = ''green''"
| "timelineColor Timeline_processing = ''blue''"
| "timelineColor Timeline_wait = ''gray''"

definition sip_columns :: "Column list" where
  "sip_columns =
    [column (uni ''~65F6~95F4'') ''time'' ''time'',
     column (uni ''~65B9~6CD5'') ''method'' ''method'',
     column (uni ''~72B6~6001~7801'') ''code'' ''code'',
     column (uni ''~6458~8981'') ''summary'' ''summary'']"

definition sip_event_field :: "SipEvent \<Rightarrow> string \<Rightarrow> string" where
  "sip_event_field record f =
    (if f = ''time'' then (se_time record)
     else if f = ''method'' then (se_method record)
     else if f = ''code'' then (string_of_int (se_code record))
     else if f = ''summary'' then se_summary record else [])"

definition task_detail_view :: "TaskDetail \<Rightarrow> ('h, TaskDetail) node list" where
  "task_detail_view detail =
    [El ''a-space'' [Const ''direction'' ''vertical'', Const ''size'' ''middle'']
      [El ''a-card'' [Const ''title'' (uni ''~57FA~7840~4FE1~606F'')]
         [El ''a-descriptions'' [Bind ''column'' (JInt 3), Bind ''bordered'' (JBool True), Const ''size'' ''small'']
            [El ''a-descriptions-item'' [Const ''label'' (uni ''~4EFB~52A1ID'')] [Text (td_id detail)],
              El ''a-descriptions-item'' [Const ''label'' (uni ''~4EFB~52A1~7C7B~578B'')] [Text (task_kind_text (td_taskKind detail))],
              El ''a-descriptions-item'' [Const ''label'' (uni ''~72B6~6001'')]
               [El ''a-tag'' [Const ''color'' ''processing''] [Text (task_status_text (td_status detail))]],
              El ''a-descriptions-item'' [Const ''label'' ''request_id''] [Text (td_requestId detail)],
              El ''a-descriptions-item'' [Const ''label'' ''trace_id''] [Text (td_traceId detail)],
              El ''a-descriptions-item'' [Const ''label'' (uni ''~8282~70B9'')] [Text (td_nodeId detail)]]],
        El ''a-card'' [Const ''title'' (uni ''~72B6~6001~6D41~8F6C~65F6~95F4~7EBF'')]
         [El ''a-timeline'' []
            (concat (map (\<lambda>item.
               [El ''a-timeline-item'' [Bind ''color'' (JStr (timelineColor (tli_status item)))]
                 [El ''strong'' [] [Text (tli_stage item)],
                   Text ('' - '' @ (tli_time item) @ '' - '' @ (tli_detail item) @ (uni ''~FF08'') @ (tli_operator item) @ (uni ''~FF09''))]]) (td_timeline detail)))],
        El ''a-card'' [Const ''title'' (uni ''SIP ~4E8B~4EF6'')]
         [El ''a-table'' [Bind ''pagination'' (JBool False), Const ''row-key'' ''time'', Const ''size'' ''small'']
             (table_body sip_columns (td_sipEvents detail) (\<lambda>column record. []) sip_event_field)],
        El ''a-card'' [Const ''title'' (uni ''RTP ~5206~7247~7EDF~8BA1'')]
         [El ''a-row'' []
            [El ''a-col'' []
               [El ''a-statistic'' [Const ''title'' (uni ''~603B~5206~7247''), Bind ''value'' (JInt (rs_totalShards (td_rtpStats detail)))] []],
              El ''a-col'' []
               [El ''a-statistic'' [Const ''title'' (uni ''~5DF2~63A5~6536''), Bind ''value'' (JInt (rs_receivedShards (td_rtpStats detail)))] []],
              El ''a-col'' []
               [El ''a-statistic'' [Const ''title'' (uni ''~7F3A~5931''), Bind ''value'' (JInt (rs_missingShards (td_rtpStats detail)))] []],
              El ''a-col'' []
               [El ''a-statistic'' [Const ''title'' (uni ''~91CD~4F20~5206~7247''), Bind ''value'' (JInt (rs_retransmittedShards (td_rtpStats detail)))] []]]],
        El ''a-card'' [Const ''title'' (uni ''HTTP ~6267~884C~7ED3~679C'')]
         [El ''a-descriptions'' [Bind ''column'' (JInt 2), Bind ''bordered'' (JBool True), Const ''size'' ''small'']
            [El ''a-descriptions-item'' [Const ''label'' (uni ''api_code~FF08~517C~5BB9~7D22~5F15~FF09'')] [Text (her_apiCode (td_httpResult detail))],
              El ''a-descriptions-item'' [Const ''label'' ''URL''] [Text (her_url (td_httpResult detail))],
              El ''a-descriptions-item'' [Const ''label'' ''Method''] [Text (her_method (td_httpResult detail))],
              El ''a-descriptions-item'' [Const ''label'' (uni ''~72B6~6001~7801'')]
               [Text (string_of_int (her_statusCode (td_httpResult detail)))],
              El ''a-descriptions-item'' [Const ''label'' (uni ''~8017~65F6'')]
               [Text ((string_of_int (her_durationMs (td_httpResult detail))) @ ''ms'')],
              El ''a-descriptions-item'' [Const ''label'' (uni ''~54CD~5E94~7247~6BB5'')]
               [El ''a-typography-text'' [Bind ''code'' (JBool True)] [Text (her_responseSnippet (td_httpResult detail))]]]],
        El ''a-card'' [Const ''title'' (uni ''~5BA1~8BA1~8BB0~5F55~7247~6BB5'')]
         [El ''a-list'' [Bind ''bordered'' (JBool True)] (concat (map (\<lambda>item.
               [El ''a-list-item'' []
                 [El ''a-space'' [Const ''direction'' ''vertical'', Const ''size'' ''small'']
                    [El ''a-typography-text'' [Bind ''strong'' (JBool True)] [Text ((as_action item) @ (uni ''~FF08'') @ (as_actor item) @ (uni ''~FF09''))],
                      El ''a-typography-text'' [Const ''type'' ''secondary''] [Text (as_time item)],
                      El ''span'' [] [Text (as_summary item)]]]]) (td_auditSnippets detail)))]]]"

subsection \<open>What the pages offer\<close>

lemmas log_offer = offered_simps offer_at_def view_simps reacts_def

lemma access_offered:
  "offered (access_view resolve parse p) = [Access_load, Access_load, Access_reset] @ map Access_detail (acp_list p)"
  by (simp add: access_view_def access_columns_def column_def log_offer comp_def concat_empty cong: if_cong del: uni.simps split: option.split)

lemma tasks_offered:
  "offered (command_tasks_view p) = [Tasks_load 1, Tasks_reset] @ map (\<lambda>t. Tasks_detail (ct_id t)) (tlr_list (tpg_result p))"
  "offered (file_tasks_view q) = [Tasks_load 1, Tasks_reset] @ map (\<lambda>t. Tasks_detail (ft_id t)) (tlr_list (tpg_result q))"
  by (simp_all add: command_tasks_view_def file_tasks_view_def command_task_columns_def file_task_columns_def column_def log_offer comp_def
      concat_empty cong: if_cong del: uni.simps)

lemma access_error_said: "acp_error p \<noteq> [] \<Longrightarrow> acp_error p \<in> set (said (access_view resolve parse p))"
  by (simp add: access_view_def said_simps view_simps message_of_def del: uni.simps)

lemma ops_audit_error_said: "oap_error p \<noteq> [] \<Longrightarrow> oap_error p \<in> set (said (ops_audit_view resolve parse p))"
  by (simp add: ops_audit_view_def said_simps view_simps message_of_def del: uni.simps)

lemma security_events_error_said: "sep_error p \<noteq> [] \<Longrightarrow> sep_error p \<in> set (said (security_events_view resolve parse p))"
  by (simp add: security_events_view_def said_simps view_simps message_of_def del: uni.simps)

interpretation access_shown: shown_errors acp_loading "\<lambda>b p. p\<lparr>acp_loading := b\<rparr>" acp_error "\<lambda>m p. p\<lparr>acp_error := m\<rparr>"
  "\<lambda>p. p\<lparr>acp_error := []\<rparr>" "access_view resolve parse" for resolve parse
  by unfold_locales (rule access_error_said)

interpretation ops_audit_shown: shown_errors oap_loading "\<lambda>b p. p\<lparr>oap_loading := b\<rparr>" oap_error "\<lambda>m p. p\<lparr>oap_error := m\<rparr>"
  "\<lambda>p. p\<lparr>oap_error := []\<rparr>" "ops_audit_view resolve parse" for resolve parse
  by unfold_locales (rule ops_audit_error_said)

interpretation security_events_shown: shown_errors sep_loading "\<lambda>b p. p\<lparr>sep_loading := b\<rparr>" sep_error "\<lambda>m p. p\<lparr>sep_error := m\<rparr>"
  "\<lambda>p. p\<lparr>sep_error := []\<rparr>" "security_events_view resolve parse" for resolve parse
  by unfold_locales (rule security_events_error_said)

end
