(* ===== verification/OpsViews.thy ===== *)
theory OpsViews
  imports Components OpsPages DateText
begin

text \<open>
  The templates of the operations pages, \<open>views/DiagnosticsLoadtestView.vue\<close>, \<open>OpsToolsView.vue\<close>,
  \<open>SecurityCenterView.vue\<close>, \<open>RateLimitPoliciesView.vue\<close> and \<open>AlertsCenterView.vue\<close>, and of the frame,
  \<open>layouts/AdminLayout.vue\<close>, around the page the router shows.
\<close>

subsection \<open>Diagnostics\<close>

datatype diagnostics_call =
    Diagnostics_link | Diagnostics_peer | Diagnostics_notice string | Diagnostics_export | Diagnostics_loadtest

definition diagnostics_view ::
  "(int \<Rightarrow> int) \<Rightarrow> (string \<Rightarrow> int option) \<Rightarrow> DiagnosticsPage \<Rightarrow> (diagnostics_call, DiagnosticsPage) node list" where
  "diagnostics_view resolve parse p =
    [El ''a-space'' [Const ''direction'' ''vertical'', Const ''size'' ''large'']
      ([El ''a-page-header'' [Const ''title'' (uni ''~8BCA~65AD~4E0E~538B~6D4B''), Const ''sub-title'' (uni ''~63A5~5165~771F~5B9E~8BCA~65AD~94FE~8DEF~3001~8BCA~65AD~5305~5BFC~51FA~4E0E~538B~6D4B~4EFB~52A1~5217~8868~FF0C~5E76~57FA~4E8E~538B~6D4B~7ED3~679C~8F93~51FA~4FDD~62A4~7B56~7565~5EFA~8BBE~503C~3002'')] []] @
       (if (dgp_notice p) \<noteq> [] then
         [El ''a-alert'' [Const ''type'' ''success'', Bind ''message'' (JStr (dgp_notice p)), Bind ''show-icon'' (JBool True)] []]
       else []) @
       (if (dgp_error p) \<noteq> [] then
         [El ''a-alert'' [Const ''type'' ''error'', Bind ''message'' (JStr (dgp_error p)), Bind ''show-icon'' (JBool True)] []]
       else []) @
       [El ''a-row'' []
         [El ''a-col'' []
            [El ''a-card'' [Const ''title'' (uni ''~8BCA~65AD''), Bind ''bordered'' (JBool False)]
               [El ''a-space'' [Const ''direction'' ''vertical'']
                  ([El ''a-space'' [Bind ''wrap'' (JBool True)]
                     [El ''a-button'' [Const ''type'' ''primary'', Bind ''loading'' (JBool (dgp_testing p)), On ''click'' Diagnostics_link] [Text (uni ''~672C~7AEF~8282~70B9~8FDE~901A~6027~6D4B~8BD5'')],
                       El ''a-button'' [Bind ''loading'' (JBool (dgp_testing p)), On ''click'' Diagnostics_peer] [Text (uni ''~5BF9~7AEF~8282~70B9~8FDE~901A~6027~6D4B~8BD5'')],
                       El ''a-button'' [On ''click'' (Diagnostics_notice (uni ''~8BF7~5728~96A7~9053~6620~5C04~9875~4F7F~7528~5355~6761~6D4B~8BD5~5165~53E3~3002''))] [Text (uni ''~5355~6761~6620~5C04~6D4B~8BD5'')],
                       El ''a-button'' [On ''click'' (Diagnostics_notice (uni ''~8BF7~5728~96A7~9053~6620~5C04~9875~4F7F~7528~5168~90E8~6D4B~8BD5~5165~53E3~3002''))] [Text (uni ''~5168~90E8~6620~5C04~6D4B~8BD5'')],
                       El ''a-button'' [Bind ''loading'' (JBool (dgp_exporting p)), On ''click'' Diagnostics_export] [Text (uni ''~5BFC~51FA~8BCA~65AD~5305'')]],
                    El ''a-spin'' [Bind ''spinning'' (JBool (dgp_loading p))]
                     (case dgp_report p of
                        None \<Rightarrow> [El ''a-empty'' [Const ''description'' (uni ''~6682~65E0~6700~8FD1~8BCA~65AD~8BB0~5F55'')] []]
                      | Some report \<Rightarrow> [El ''a-descriptions'' [Bind ''bordered'' (JBool True), Bind ''column'' (JInt 1), Const ''size'' ''small'']
                          [El ''a-descriptions-item'' [Const ''label'' (uni ''~6700~8FD1~6D4B~8BD5~65F6~95F4'')]
                             [Text (formatDateTimeText resolve parse (Some (oltr_checked_at report)) ''-'')],
                            El ''a-descriptions-item'' [Const ''label'' (uni ''~6574~4F53~7ED3~679C'')]
                             [Text (if (oltr_status report) = Test_passed then (uni ''~901A~8FC7'') else (uni ''~5931~8D25''))],
                            El ''a-descriptions-item'' [Const ''label'' (uni ''~8017~65F6'')] [Text ((string_of_int (oltr_duration_ms report)) @ '' ms'')],
                            El ''a-descriptions-item'' [Const ''label'' ''request_id''] [Text (oltr_request_id report)],
                            El ''a-descriptions-item'' [Const ''label'' ''trace_id''] [Text (oltr_trace_id report)]],
                         El ''a-list'' [Const ''header'' (uni ''~8BCA~65AD~6B65~9AA4''), Bind ''bordered'' (JBool True), Const ''size'' ''small''] (concat (map (\<lambda>item.
                             [El ''a-list-item'' []
                               [El ''a-space'' []
                                  [El ''span'' []
                                     [Text ((str_or (nullish (olti_name item) []) (uni ''~672A~547D~540D~6B65~9AA4'')) @ (uni ''~FF1A'') @ (olti_detail item))],
                                    El ''a-tag'' [Bind ''color'' (JStr (if (olti_status item) = Test_passed then ''green'' else ''red''))]
                                     [Text (if (olti_status item) = Test_passed then (uni ''~901A~8FC7'') else (uni ''~5931~8D25''))]]]]) (oltr_items report)))])] @
                   (case dgp_exportData p of
                     None \<Rightarrow> []
                   | Some export \<Rightarrow> [El ''a-card'' [Const ''size'' ''small'', Const ''title'' (uni ''~6700~8FD1~8BCA~65AD~5305~5BFC~51FA~7ED3~679C'')]
                       [El ''a-descriptions'' [Bind ''column'' (JInt 1), Const ''size'' ''small'', Bind ''bordered'' (JBool True)]
                          [El ''a-descriptions-item'' [Const ''label'' (uni ''~751F~6210~65F6~95F4'')]
                             [Text (formatDateTimeText resolve parse (Some (ded_generated_at export)) ''-'')],
                            El ''a-descriptions-item'' [Const ''label'' (uni ''~8F93~51FA~76EE~5F55'')] [Text (ded_output_dir export)],
                            El ''a-descriptions-item'' [Const ''label'' (uni ''~6587~4EF6~540D'')] [Text (ded_file_name export)],
                            El ''a-descriptions-item'' [Const ''label'' (uni ''~5173~8054 request_id'')] [Text (str_or (nullish (ded_request_id export) []) (uni ''~65E0''))],
                            El ''a-descriptions-item'' [Const ''label'' (uni ''~5173~8054 trace_id'')] [Text (str_or (nullish (ded_trace_id export) []) (uni ''~65E0''))]]]]))]],
           El ''a-col'' []
            [El ''a-card'' [Const ''title'' (uni ''~538B~6D4B''), Bind ''bordered'' (JBool False)]
               ([El ''a-form'' [Const ''layout'' ''vertical'']
                  [El ''a-form-item'' [Const ''label'' (uni ''HTTP ~76EE~6807~5730~5740'')]
                     [El ''a-input'' [Model ''value'' (JStr (dgp_httpUrl p)) (\<lambda>v. dgp_httpUrl_update (\<lambda>_. as_text v)), Const ''placeholder'' (uni ''~4F8B~5982 http://127.0.0.1:18080/healthz'')] []],
                    El ''a-form-item'' [Const ''label'' (uni ''~7F51~5173~57FA~5730~5740'')]
                     [El ''a-input'' [Model ''value'' (JStr (dgp_gatewayBaseUrl p)) (\<lambda>v. dgp_gatewayBaseUrl_update (\<lambda>_. as_text v)), Const ''placeholder'' (uni ''~4F8B~5982 http://127.0.0.1:8080'')] []],
                    El ''a-row'' []
                     [El ''a-col'' []
                        [El ''a-form-item'' [Const ''label'' (uni ''~5E76~53D1~6570'')]
                           [El ''a-input-number'' [Model ''value'' (opt_json JInt (dgp_concurrency p)) (\<lambda>v. dgp_concurrency_update (\<lambda>_. int_opt v)), Bind ''min'' (JInt 1)] []]],
                       El ''a-col'' []
                        [El ''a-form-item'' [Const ''label'' ''QPS'']
                           [El ''a-input-number'' [Model ''value'' (opt_json JInt (dgp_qps p)) (\<lambda>v. dgp_qps_update (\<lambda>_. int_opt v)), Bind ''min'' (JInt 0)] []]],
                       El ''a-col'' []
                        [El ''a-form-item'' [Const ''label'' (uni ''~6301~7EED~65F6~95F4~FF08~79D2~FF09'')]
                           [El ''a-input-number'' [Model ''value'' (opt_json JInt (dgp_durationSec p)) (\<lambda>v. dgp_durationSec_update (\<lambda>_. int_opt v)), Bind ''min'' (JInt 1)] []]]],
                    El ''a-form-item'' [Const ''label'' (uni ''~7ED3~679C~8F93~51FA~76EE~5F55'')]
                     [El ''a-input'' [Model ''value'' (JStr (dgp_outputDir p)) (\<lambda>v. dgp_outputDir_update (\<lambda>_. as_text v)), Const ''placeholder'' (uni ''~9ED8~8BA4~5199~5165 ./data/final/loadtest'')] []],
                    El ''a-button'' [Const ''type'' ''primary'', Bind ''loading'' (JBool (dgp_startingLoadtest p)), On ''click'' Diagnostics_loadtest] [Text (uni ''~53D1~8D77~538B~6D4B'')]],
                 El ''a-divider'' [] []] @
                (if truthy (latestCapacitySuggestion p) then
                  [El ''a-card'' [Const ''size'' ''small'', Const ''title'' (uni ''~4FDD~62A4~7B56~7565~5EFA~8BBE~503C'')]
                    [El ''a-descriptions'' [Bind ''column'' (JInt 1), Const ''size'' ''small'', Bind ''bordered'' (JBool True)]
                       [El ''a-descriptions-item'' [Const ''label'' (uni ''~547D~4EE4~5E76~53D1~5EFA~8BAE'')]
                          [Text (display (coalesce (chain (latestCapacitySuggestion p) ''recommended_command_max_concurrent'') (JStr ''-'')))],
                         El ''a-descriptions-item'' [Const ''label'' (uni ''~6587~4EF6~4F20~8F93~5E76~53D1~5EFA~8BAE'')]
                          [Text (display (coalesce (chain (latestCapacitySuggestion p) ''recommended_file_transfer_max_concurrent'') (JStr ''-'')))],
                         El ''a-descriptions-item'' [Const ''label'' (uni ''RTP ~7AEF~53E3~6C60~5EFA~8BAE'')]
                          [Text (display (coalesce (chain (latestCapacitySuggestion p) ''recommended_rtp_port_pool_size'') (JStr ''-'')))],
                         El ''a-descriptions-item'' [Const ''label'' (uni ''~6700~5927~8FDE~63A5~6570~5EFA~8BAE'')]
                          [Text (display (coalesce (chain (latestCapacitySuggestion p) ''recommended_max_connections'') (JStr ''-'')))],
                         El ''a-descriptions-item'' [Const ''label'' (uni ''~9650~6D41 RPS ~5EFA~8BAE'')]
                          [Text (display (coalesce (chain (latestCapacitySuggestion p) ''recommended_rate_limit_rps'') (JStr ''-'')))],
                         El ''a-descriptions-item'' [Const ''label'' (uni ''~9650~6D41 Burst ~5EFA~8BAE'')]
                          [Text (display (coalesce (chain (latestCapacitySuggestion p) ''recommended_rate_limit_burst'') (JStr ''-'')))],
                         El ''a-descriptions-item'' [Const ''label'' (uni ''~5EFA~8BBE~4F9D~636E'')] [Text (display (capacityBasisText p))]]]]
                else []) @
                [El ''a-list'' [Const ''header'' (uni ''~538B~6D4B~4EFB~52A1''), Bind ''bordered'' (JBool True)] (concat (map (\<lambda>item.
                     [El ''a-list-item'' []
                       [El ''a-space'' [Const ''direction'' ''vertical'']
                          ([El ''a-space'' []
                             [El ''span'' [] [Text (ltj_job_id item)],
                               El ''a-tag'' [Bind ''color'' (JStr (if (ltj_status item) = ''succeeded'' then ''green'' else (if (ltj_status item) = ''failed'' then ''red'' else ''blue'')))]
                                [Text (if (ltj_status item) = ''succeeded'' then (uni ''~6210~529F'') else (if (ltj_status item) = ''failed'' then (uni ''~5931~8D25'') else (if (ltj_status item) = ''running'' then (uni ''~8FD0~884C~4E2D'') else ltj_status item)))]],
                            El ''span'' []
                             [Text ((uni ''~521B~5EFA~65F6~95F4 '') @ (formatDateTimeText resolve parse (Some (ltj_created_at item)) ''-'') @ (uni '' / ~66F4~65B0~65F6~95F4 '') @ (formatDateTimeText resolve parse (Some (ltj_updated_at item)) ''-''))],
                            El ''span'' []
                             [Text ((uni ''~5E76~53D1 '') @ (string_of_int (ltj_concurrency item)) @ '' / QPS '' @ (string_of_int (ltj_qps item)) @ (uni '' / ~6301~7EED '') @ (string_of_int (ltj_duration_sec item)) @ (uni '' ~79D2''))]] @
                           (if opt_truthy (ltj_error_message item) then
                             [El ''span'' [] [Text ((uni ''~9519~8BEF~FF1A'') @ (nullish (ltj_error_message item) []))]]
                           else []))]]) (dgp_jobs p)))])]]])]"

subsection \<open>Tools\<close>

datatype tools_call = Tools_network | Tools_ports | Tools_tunnel | Tools_config

fun port_status_text :: "PortStatus \<Rightarrow> string" where
  "port_status_text Port_open = ''open''"
| "port_status_text Port_occupied = ''occupied''"
| "port_status_text Port_blocked = ''blocked''"

definition tunnelSteps :: "string list" where
  "tunnelSteps = [(uni ''SIP ~63E1~624B''), (uni ''RTP ~901A~9053~5EFA~7ACB''), (uni ''HTTP ~8DEF~7531~56DE~73AF''), (uni ''~5B8C~6210'')]"

definition port_columns :: "Column list" where
  "port_columns =
    [column (uni ''~7AEF~53E3'') ''port'' ''port'',
     column (uni ''~72B6~6001'') ''status'' ''status'']"

definition port_field :: "PortResult \<Rightarrow> string \<Rightarrow> string" where
  "port_field record f =
    (if f = ''port'' then (string_of_int (pr_port record))
     else if f = ''status'' then port_status_text (pr_status record) else [])"

definition tools_view :: "ToolsPage \<Rightarrow> (tools_call, ToolsPage) node list" where
  "tools_view p =
    [El ''a-space'' [Const ''direction'' ''vertical'', Const ''size'' ''middle'']
      [El ''a-card'' []
         [El ''a-space'' [Const ''direction'' ''vertical'', Const ''size'' ''small'']
            [El ''a-typography-title'' [Bind ''level'' (JInt 5)] [Text (uni ''~8FD0~7EF4~5DE5~5177'')],
              El ''a-typography-text'' [Const ''type'' ''secondary''] [Text (uni ''~63D0~4F9B~7F51~7EDC~8BCA~65AD~3001~7AEF~53E3~68C0~6D4B~3001~901A~9053~6D4B~8BD5~3001~914D~7F6E~6821~9A8C~56DB~7C7B~8FD0~7EF4~80FD~529B~FF0C~8F85~52A9~5FEB~901F~5B9A~4F4D SIP/RTP/~914D~7F6E~95EE~9898~3002'')]]],
        El ''a-tabs'' [Model ''activeKey'' (JStr (otp_activeTool p)) (\<lambda>v. otp_activeTool_update (\<lambda>_. as_text v))]
         [El ''a-tab-pane'' [Const ''key'' ''network'', Const ''tab'' (uni ''~7F51~7EDC~8BCA~65AD'')]
            [El ''a-card'' []
               [El ''a-form'' [Const ''layout'' ''inline'']
                  [El ''a-form-item'' [Const ''label'' (uni ''~76EE~6807~5730~5740'')]
                     [El ''a-input'' [Model ''value'' (JStr (otp_target p)) (\<lambda>v. otp_target_update (\<lambda>_. as_text v)), Const ''placeholder'' (uni ''~4F8B~5982 10.10.10.18'')] []],
                    El ''a-form-item'' [Const ''label'' (uni ''~534F~8BAE'')]
                     [El ''a-select'' [Model ''value'' (JStr (otp_protocol p)) (\<lambda>v. otp_protocol_update (\<lambda>_. as_text v))]
                        [El ''a-select-option'' [Const ''value'' ''SIP''] [Text ''SIP''],
                          El ''a-select-option'' [Const ''value'' ''RTP''] [Text ''RTP'']]],
                    El ''a-form-item'' []
                     [El ''a-button'' [Const ''type'' ''primary'', On ''click'' Tools_network] [Text (uni ''~5F00~59CB~8BCA~65AD'')]]],
                 El ''a-alert'' [Const ''type'' ''info'', Bind ''show-icon'' (JBool True), Bind ''message'' (JStr (otp_summary p)), Bind ''description'' (JStr (otp_detail p))] []]],
           El ''a-tab-pane'' [Const ''key'' ''port'', Const ''tab'' (uni ''~7AEF~53E3~68C0~6D4B'')]
            [El ''a-card'' []
               [El ''a-space'' [Const ''direction'' ''vertical'']
                  [El ''a-space'' []
                     [El ''a-input-number'' [Model ''value'' (JInt (otp_start p)) (\<lambda>v. otp_start_update (\<lambda>_. as_int v)), Bind ''min'' (JInt 1), Bind ''max'' (JInt 65535)] [],
                       El ''span'' [] [Text ''~''],
                       El ''a-input-number'' [Model ''value'' (JInt (otp_end p)) (\<lambda>v. otp_end_update (\<lambda>_. as_int v)), Bind ''min'' (JInt 1), Bind ''max'' (JInt 65535)] [],
                       El ''a-button'' [Const ''type'' ''primary'', On ''click'' Tools_ports] [Text (uni ''~6267~884C~68C0~6D4B'')]],
                    El ''a-table'' [Bind ''pagination'' (JBool False), Const ''row-key'' ''port'', Const ''size'' ''small'']
                      (table_body port_columns (otp_portResults p) (\<lambda>column record. (if (col_dataIndex column) = ''status'' then
                          [El ''a-tag'' [Bind ''color'' (JStr (if (pr_status record) = Port_open then ''green'' else (if (pr_status record) = Port_occupied then ''orange'' else ''red'')))] [Text (port_status_text (pr_status record))]]
                        else [])) port_field)]]],
           El ''a-tab-pane'' [Const ''key'' ''tunnel'', Const ''tab'' (uni ''~901A~9053~6D4B~8BD5'')]
            [El ''a-card'' []
               [El ''a-space'' [Const ''direction'' ''vertical'']
                  [El ''a-button'' [Const ''type'' ''primary'', On ''click'' Tools_tunnel] [Text (uni ''~6267~884C~901A~9053~6D4B~8BD5'')],
                    El ''a-steps'' [Bind ''current'' (JInt (otp_tunnelProgress p)), Const ''size'' ''small'', Bind ''items'' (JArr (map (\<lambda>s. JObj [(''title'', JStr s)]) tunnelSteps))] [],
                    El ''a-alert'' [Const ''type'' ''success'', Bind ''show-icon'' (JBool True), Bind ''message'' (JStr (otp_tunnelResult p))] []]]],
           El ''a-tab-pane'' [Const ''key'' ''config'', Const ''tab'' (uni ''~914D~7F6E~6821~9A8C'')]
            [El ''a-card'' []
               [El ''a-space'' [Const ''direction'' ''vertical'']
                  [El ''a-button'' [Const ''type'' ''primary'', On ''click'' Tools_config] [Text (uni ''~6267~884C~914D~7F6E~6821~9A8C'')],
                    El ''a-list'' [Bind ''bordered'' (JBool True)] (concat (map (\<lambda>item.
                        [El ''a-list-item'' []
                          [El ''a-space'' []
                             [El ''span'' [] [Text (cc_name item)],
                               El ''a-tag'' [Bind ''color'' (JStr (if (cc_level item) = Check_pass then ''green'' else (if (cc_level item) = Check_warn then ''gold'' else ''red'')))] [Text (getLevelText (cc_level item))]]]]) (otp_configChecks p)))]]]]]]"

subsection \<open>Licence\<close>

datatype security_call = Security_machine | Security_copy | Security_export | Security_save

definition security_view ::
  "(int \<Rightarrow> int) \<Rightarrow> (string \<Rightarrow> int option) \<Rightarrow> SecurityPage \<Rightarrow> (security_call, SecurityPage) node list" where
  "security_view resolve parse p =
    [El ''a-space'' [Const ''direction'' ''vertical'', Const ''size'' ''large'']
      ([El ''a-page-header'' [Const ''title'' (uni ''~6388~6743~7BA1~7406''), Const ''sub-title'' (uni ''~805A~7126~6388~6743~72B6~6001~3001~673A~5668~7801~5BFC~51FA~4E0E~6388~6743~5BFC~5165~FF1B~5B89~5168~4E8B~4EF6~8BF7~5728~201C~5B89~5168~4E8B~4EF6~201D~9875~9762~67E5~770B~FF0C~672C~7AEF~7BA1~7406~9762~5B89~5168~548C~8282~70B9~901A~4FE1~52A0~5BC6~8BF7~5728~201C~8282~70B9~4E0E~7EA7~8054~201D~4E2D~7EF4~62A4~3002'')] []] @
       (if (scp_notice p) \<noteq> [] then
         [El ''a-alert'' [Const ''type'' ''success'', Bind ''message'' (JStr (scp_notice p)), Bind ''show-icon'' (JBool True)] []]
       else []) @
       (if (scp_error p) \<noteq> [] then
         [El ''a-alert'' [Const ''type'' ''error'', Bind ''message'' (JStr (scp_error p)), Bind ''show-icon'' (JBool True)] []]
       else []) @
       [El ''a-spin'' [Bind ''spinning'' (JBool ((scp_loading p) \<or> (scp_saving p)))]
         [El ''a-row'' []
            [El ''a-col'' []
               [El ''a-card'' [Const ''title'' (uni ''~6388~6743~6458~8981''), Bind ''bordered'' (JBool False)]
                  ((case scp_state p of
                     None \<Rightarrow> [El ''a-empty'' [Const ''description'' (uni ''~6682~65E0~6388~6743~72B6~6001'')] []]
                   | Some secs \<Rightarrow> [El ''a-descriptions'' [Bind ''column'' (JInt 1), Const ''size'' ''small'']
                       [El ''a-descriptions-item'' [Const ''label'' (uni ''~6388~6743~72B6~6001'')] [Text (secs_licenseStatus secs)],
                         El ''a-descriptions-item'' [Const ''label'' (uni ''~4EA7~54C1~7C7B~578B'')]
                          [Text (if opt_truthy (secs_productTypeName secs) then ((case (secs_productTypeName secs) of None \<Rightarrow> ''undefined'' | Some v \<Rightarrow> v) @ (uni ''~FF08'') @ (secs_productType secs) @ (uni ''~FF09'')) else secs_productType secs)],
                         El ''a-descriptions-item'' [Const ''label'' (uni ''~6388~6743~7C7B~578B'')] [Text (secs_licenseType secs)],
                         El ''a-descriptions-item'' [Const ''label'' (uni ''~6388~6743~6B21~6570'')] [Text (secs_licenseCounter secs)],
                         El ''a-descriptions-item'' [Const ''label'' (uni ''~6388~6743~65E5~671F'')]
                          [Text (formatDateTimeText resolve parse (Some (secs_licenseTime secs)) ''-'')],
                         El ''a-descriptions-item'' [Const ''label'' (uni ''~542F~7528~65E5~671F'')]
                          [Text (formatDateTimeText resolve parse (Some (secs_activeTime secs)) ''-'')],
                         El ''a-descriptions-item'' [Const ''label'' (uni ''~5230~671F~65F6~95F4'')]
                          [Text (formatDateTimeText resolve parse (Some (secs_expiryTime secs)) ''-'')],
                         El ''a-descriptions-item'' [Const ''label'' (uni ''~7EF4~4FDD~5230~671F'')]
                          [Text (formatDateTimeText resolve parse (Some (secs_maintenanceExpireTime secs)) ''-'')],
                         El ''a-descriptions-item'' [Const ''label'' (uni ''~9879~76EE~7F16~7801'')]
                          [El ''a-typography-paragraph'' [Bind ''copyable'' (JBool True)] [Text (secs_projectCode secs)]],
                         El ''a-descriptions-item'' [Const ''label'' (uni ''~673A~5668~7801'')]
                          [El ''a-typography-paragraph'' [Bind ''copyable'' (JBool True)] [Text (secs_machineCode secs)]],
                         El ''a-descriptions-item'' [Const ''label'' (uni ''~5DF2~6388~6743~529F~80FD'')]
                          [Text (str_or (join_with (uni ''~3001'') (secs_licensedFeatures secs)) (uni ''~65E0''))],
                         El ''a-descriptions-item'' [Const ''label'' (uni ''~6700~8FD1~6821~9A8C~7ED3~679C'')] [Text (secs_lastValidation secs)]]]) @
                   [El ''a-divider'' [] []] @
                   (case scp_state p of
                     None \<Rightarrow> []
                   | Some secs \<Rightarrow> [El ''a-descriptions'' [Bind ''column'' (JInt 1), Const ''size'' ''small'', Const ''title'' (uni ''~7BA1~7406~9762~52A0~56FA~72B6~6001'')]
                       [El ''a-descriptions-item'' [Const ''label'' (uni ''~7BA1~7406~4EE4~724C'')]
                          [El ''a-tag'' [Bind ''color'' (JStr (if (secs_adminTokenConfigured secs) = Some True then ''green'' else ''orange''))] [Text (adminTokenStatusText p)]],
                         El ''a-descriptions-item'' [Const ''label'' (uni ''~7BA1~7406~9762 MFA'')]
                          [El ''a-tag'' [Bind ''color'' (JStr (if (secs_adminMFARequired secs) = Some True then (if (secs_adminMFAConfigured secs) = Some True then ''green'' else ''red'') else ''default''))]
                             [Text (if (secs_adminMFARequired secs) = Some True then (if (secs_adminMFAConfigured secs) = Some True then (uni ''~5DF2~8981~6C42~4E14~5DF2~914D~7F6E'') else (uni ''~5DF2~8981~6C42~4F46~672A~914D~7F6E'')) else (uni ''~672A~8981~6C42''))]],
                         El ''a-descriptions-item'' [Const ''label'' (uni ''~914D~7F6E~843D~76D8~52A0~5BC6'')]
                          [El ''a-tag'' [Bind ''color'' (JStr (if (secs_configEncryption secs) = Some True then ''green'' else ''orange''))]
                             [Text (if (secs_configEncryption secs) = Some True then (uni ''~5DF2~542F~7528'') else (uni ''~672A~542F~7528''))]],
                         El ''a-descriptions-item'' [Const ''label'' (uni ''~96A7~9053~7B7E~540D~5BC6~94A5'')]
                          [El ''a-tag'' [Bind ''color'' (JStr (if (secs_signerExternalized secs) = Some True then ''green'' else ''orange''))]
                             [Text (if (secs_signerExternalized secs) = Some True then (uni ''~5DF2~5916~7F6E'') else (uni ''~4ECD~4E3A~9ED8~8BA4~503C''))]]]]))],
              El ''a-col'' []
               [El ''a-card'' [Const ''title'' (uni ''~673A~5668~7801~4E0E~6388~6743~5BFC~5165''), Bind ''bordered'' (JBool False)]
                  [El ''a-form'' [Const ''layout'' ''vertical'']
                     [El ''a-alert'' [Const ''type'' ''info'', Bind ''show-icon'' (JBool True), Const ''message'' (uni ''~7F16~7801~5C55~793A~5DF2~6539~4E3A~81EA~52A8~6362~884C~4E0E~7B49~5BBD~5B57~4F53~FF0C~957F~673A~5668~7801/~9879~76EE~7F16~7801~4E0D~4F1A~518D~88AB~622A~65AD~3002'')] [],
                       El ''a-form-item'' [Const ''label'' (uni ''~673A~5668~7801''), Const ''extra'' (uni ''~673A~5668~7801~7531 CPUID~3001~4E3B~677F~5E8F~5217~53F7~3001~4E3B~7F51~5361 MAC ~7EC4~5408~751F~6210~FF1B~83B7~53D6~4E0D~5230~7684~9879~4F1A~4F7F~7528~7F3A~7701~503C~3002'')]
                        [El ''a-textarea'' [Bind ''value'' (JStr (machineCodeText p)), Bind ''disabled'' (JBool True)] []],
                       El ''a-space'' [Bind ''wrap'' (JBool True)]
                        [El ''a-button'' [On ''click'' Security_machine] [Text (uni ''~5237~65B0~673A~5668~7801'')],
                          El ''a-button'' [Const ''type'' ''primary'', Bind ''ghost'' (JBool True), On ''click'' Security_copy] [Text (uni ''~590D~5236~673A~5668~7801'')],
                          El ''a-button'' [Const ''type'' ''primary'', On ''click'' Security_export] [Text (uni ''~5BFC~51FA~7533~8BF7~6587~4EF6'')]],
                       El ''a-divider'' [] [],
                       El ''a-form-item'' [Const ''label'' (uni ''~6388~6743~6587~4EF6~5185~5BB9''), Const ''extra'' (uni ''~8BF7~7C98~8D34~5B8C~6574~6388~6743~6587~4EF6~5185~5BB9~FF0C~7CFB~7EDF~5C06~6309~7EA6~5B9A~987A~5E8F~7EC4~88C5~5B57~6BB5~3001~8BA1~7B97 MD5~FF0C~5E76~4F7F~7528 RSA ~79C1~94A5~89E3~5BC6 Summary1 ~8FDB~884C~6821~9A8C~3002'')]
                        [El ''a-textarea'' [Model ''value'' (JStr (scp_licenseContent p)) (\<lambda>v. scp_licenseContent_update (\<lambda>_. as_text v)), Const ''placeholder'' (uni ''~8BF7~7C98~8D34~5B8C~6574~6388~6743~6587~4EF6~5185~5BB9'')] []],
                       El ''a-button'' [Const ''type'' ''primary'', Bind ''loading'' (JBool (scp_saving p)), On ''click'' Security_save] [Text (uni ''~5BFC~5165~5E76~6821~9A8C~6388~6743'')]]]]]]])]"

subsection \<open>Rate limits\<close>

datatype limits_call = Limits_edit | Limits_save

definition limit_columns :: "Column list" where
  "limit_columns =
    [column (uni ''~7B56~7565~540D'') ''id'' ''id'',
     column ''RPS'' ''rps'' ''rps'',
     column ''Burst'' ''burst'' ''burst'',
     column (uni ''~6700~5927~5E76~53D1'') ''maxConcurrent'' ''maxConcurrent'',
     column (uni ''~64CD~4F5C'') [] ''action'']"

definition limit_field :: "OpsLimits \<Rightarrow> string \<Rightarrow> string" where
  "limit_field record f =
    (if f = ''id'' then ''global''
     else if f = ''rps'' then (string_of_int (ol_rps record))
     else if f = ''burst'' then (string_of_int (ol_burst record))
     else if f = ''maxConcurrent'' then string_of_int (ol_maxConcurrent record) else [])"

definition limits_view :: "LimitsPage \<Rightarrow> (limits_call, LimitsPage) node list" where
  "limits_view p =
    [El ''a-space'' [Const ''direction'' ''vertical'', Const ''size'' ''middle'']
      [El ''a-card'' [Const ''title'' (uni ''~9650~6D41~7B56~7565'')]
         [El ''a-table'' [Const ''row-key'' ''id'', Bind ''pagination'' (JBool False)]
             (table_body limit_columns [lmt_limits p] (\<lambda>column record. (if (col_key column) = ''action'' then
                 [El ''a-button'' [Const ''type'' ''link'', On ''click'' Limits_edit] [Text (uni ''~7F16~8F91'')]]
               else [])) limit_field)],
        El ''a-modal'' [Model ''open'' (JBool (lmt_editVisible p)) (\<lambda>v. lmt_editVisible_update (\<lambda>_. as_bool v)), Const ''title'' (uni ''~7F16~8F91~9650~6D41~7B56~7565''), On ''ok'' Limits_save]
         [El ''a-form'' [Const ''layout'' ''vertical'']
            [El ''a-form-item'' [Const ''label'' ''RPS'']
               [El ''a-input-number'' [Model ''value'' (JInt (ol_rps (lmt_formState p))) (\<lambda>v. lmt_formState_update (ol_rps_update (\<lambda>_. as_int v))), Bind ''min'' (JInt 1)] []],
              El ''a-form-item'' [Const ''label'' ''Burst'']
               [El ''a-input-number'' [Model ''value'' (JInt (ol_burst (lmt_formState p))) (\<lambda>v. lmt_formState_update (ol_burst_update (\<lambda>_. as_int v))), Bind ''min'' (JInt 1)] []],
              El ''a-form-item'' [Const ''label'' (uni ''~6700~5927~5E76~53D1'')]
               [El ''a-input-number'' [Model ''value'' (JInt (ol_maxConcurrent (lmt_formState p))) (\<lambda>v. lmt_formState_update (ol_maxConcurrent_update (\<lambda>_. as_int v))), Bind ''min'' (JInt 1)] []]]]]]"

subsection \<open>Alert centre\<close>

text \<open>The state of the page is the tab shown and the alert selected; the one handler is \<open>selectAlert\<close>.\<close>

fun severity_text :: "Severity \<Rightarrow> string" where
  "severity_text Severity_critical = ''critical''"
| "severity_text Severity_high = ''high''"
| "severity_text Severity_medium = ''medium''"
| "severity_text Severity_low = ''low''"

definition alert_columns :: "Column list" where
  "alert_columns =
    [column (uni ''~544A~8B66ID'') ''id'' ''id'',
     column (uni ''~544A~8B66~5185~5BB9'') ''title'' ''title'',
     column (uni ''~7EA7~522B'') [] ''severity'',
     column (uni ''~6765~6E90'') ''source'' ''source'',
     column (uni ''~89E6~53D1~65F6~95F4'') ''triggeredAt'' ''triggeredAt'',
     column (uni ''~6062~590D~65F6~95F4'') ''recoveredAt'' ''recoveredAt'',
     column (uni ''~64CD~4F5C'') [] ''action'']"

definition alert_field :: "AlertItem \<Rightarrow> string \<Rightarrow> string" where
  "alert_field record f =
    (if f = ''id'' then (ai_id record)
     else if f = ''title'' then (ai_title record)
     else if f = ''source'' then (ai_source record)
     else if f = ''triggeredAt'' then (ai_triggeredAt record)
     else if f = ''recoveredAt'' then nullish (ai_recoveredAt record) [] else [])"

definition alerts_center_view :: "string \<Rightarrow> AlertItem \<Rightarrow> (AlertItem, string \<times> AlertItem) node list" where
  "alerts_center_view activeTab selected =
    [El ''a-space'' [Const ''direction'' ''vertical'', Const ''size'' ''middle'']
      ([El ''a-card'' [Const ''title'' (uni ''~544A~8B66~4E2D~5FC3'')]
         [El ''a-tabs'' [Model ''activeKey'' (JStr activeTab) (\<lambda>v (_, a). (as_text v, a))]
            [El ''a-tab-pane'' [Const ''key'' ''active'', Const ''tab'' (uni ''~6D3B~8DC3~544A~8B66'')] [],
              El ''a-tab-pane'' [Const ''key'' ''recovered'', Const ''tab'' (uni ''~5DF2~6062~590D~544A~8B66'')] []],
           El ''a-table'' [Const ''row-key'' ''id'', Bind ''pagination'' (JBool False)]
             (table_body alert_columns (currentList activeTab) (\<lambda>column record. ((if (col_key column) = ''severity'' then
                 (status_pill (severity_text (ai_severity record)) Pill_severity)
               else []) @
               (if (col_key column) = ''action'' then
                 [El ''a-button'' [Const ''type'' ''link'', On ''click'' ( record)] [Text (uni ''~67E5~770B~65F6~95F4~7EBF'')]]
               else []))) alert_field)]] @
       (if (ai_id selected) \<noteq> [] then
         [El ''a-card'' [Bind ''title'' (JStr ((ai_id selected) @ (uni '' ~65F6~95F4~7EBF'')))]
           [El ''a-timeline'' []
              (concat (map (\<lambda>node.
                 [El ''a-timeline-item'' [Bind ''color'' (JStr (ast_color node))]
                   [El ''a-space'' [Const ''direction'' ''vertical'', Const ''size'' ''small'']
                      [El ''a-typography-text'' [Bind ''strong'' (JBool True)] [Text (ast_time node)],
                        El ''a-typography-text'' [] [Text (ast_text node)]]]]) (ai_timeline selected)))]]
       else []))]"

subsection \<open>The frame\<close>

text \<open>A restart is confirmed in a dialog of Ant Design; the handler stands for the confirmed restart.\<close>

datatype layout_call = Layout_menu string | Layout_toggle | Layout_restart

definition admin_layout ::
  "string option \<Rightarrow> string option \<Rightarrow> AppStore \<Rightarrow> LayoutPage \<Rightarrow> (layout_call, AppStore) node list \<Rightarrow> (layout_call, AppStore) node list" where
  "admin_layout name meta_title store p page =
    [El ''a-app'' []
      ([El ''a-layout'' []
         [El ''a-layout-sider'' [Model ''collapsed'' (JBool (app_collapsed store)) (\<lambda>v. app_collapsed_update (\<lambda>_. as_bool v)), Bind ''collapsible'' (JBool True), Bind ''width'' (JInt 240), Bind ''collapsed-width'' (JInt 80)]
            [El ''div'' []
               [El ''span'' [Const ''aria-hidden'' ''true''] [Text (uni ''~25C9'')],
                 El ''span'' [] [Text (uni ''~96A7~9053~63A7~5236~53F0'')]],
              El ''a-menu'' [Const ''theme'' ''dark'', Const ''mode'' ''inline'', Bind ''selected-keys'' (JArr (map JStr [(activeMenuKey name)])), Bind ''items'' (JArr (map (\<lambda>item. JObj [(''key'', JStr (mi_key item)), (''label'', JStr (mi_label item)), (''title'', JStr (mi_title item))]) (menuItems store))), OnArg ''click'' (\<lambda>v. Layout_menu (as_text (chain v ''key'')))] []],
           El ''a-layout'' []
            [El ''a-layout-header'' []
               [El ''a-space'' []
                  [El ''a-button'' [Const ''type'' ''text'', On ''click'' Layout_toggle] [Text (if app_collapsed store then (uni ''~5C55~5F00~83DC~5355'') else (uni ''~6536~8D77~83DC~5355''))],
                    El ''a-breadcrumb'' []
                     [El ''a-breadcrumb-item'' [] [Text (uni ''~96A7~9053~63A7~5236~53F0'')],
                       El ''a-breadcrumb-item'' [] [Text (currentTitle meta_title)]]],
                 El ''a-space'' []
                  [El ''a-button'' [Bind ''danger'' (JBool True), Bind ''loading'' (JBool (lay_restarting p)), On ''click'' Layout_restart] [Text (uni ''~91CD~542F~7F51~5173'')],
                    El ''a-tag'' [Const ''color'' ''blue''] [Text (uni ''~7EDF~4E00~8FD0~7EF4~8303~5F0F'')],
                    El ''a-tag'' [Const ''color'' ''green''] [Text (uni ''~4E2D~6587~63A7~5236~53F0'')]]],
              El ''a-layout-content'' [] page]]] @
       global_message_host)]"

subsection \<open>What the pages offer\<close>

lemmas ops_offer = offered_simps offer_at_def view_simps reacts_def

lemma diagnostics_offered:
  "offered (diagnostics_view resolve parse p) = (if dgp_testing p then [] else [Diagnostics_link, Diagnostics_peer]) @
     [Diagnostics_notice (uni ''~8BF7~5728~96A7~9053~6620~5C04~9875~4F7F~7528~5355~6761~6D4B~8BD5~5165~53E3~3002''), Diagnostics_notice (uni ''~8BF7~5728~96A7~9053~6620~5C04~9875~4F7F~7528~5168~90E8~6D4B~8BD5~5165~53E3~3002'')] @
     (if dgp_exporting p then [] else [Diagnostics_export]) @ (if dgp_startingLoadtest p then [] else [Diagnostics_loadtest])"
  by (simp add: diagnostics_view_def ops_offer comp_def concat_empty cong: if_cong del: uni.simps split: option.split)

lemma security_offered:
  "offered (security_view resolve parse p) =
     [Security_machine, Security_copy, Security_export] @ (if scp_saving p then [] else [Security_save])"
  by (simp add: security_view_def ops_offer comp_def concat_empty cong: if_cong del: uni.simps split: option.split)

lemma limits_offered:
  "offered (limits_view p) = [Limits_edit] @ (if lmt_editVisible p then [Limits_save] else [])"
  by (simp add: limits_view_def limit_columns_def column_def ops_offer comp_def concat_empty cong: if_cong del: uni.simps)

lemma layout_offered:
  "offered (admin_layout name meta_title store p page) = [Layout_toggle] @ (if lay_restarting p then [] else [Layout_restart]) @ offered page"
  by (simp add: admin_layout_def global_message_host_def ops_offer comp_def concat_empty cong: if_cong del: uni.simps)

lemma diagnostics_error_said: "dgp_error p \<noteq> [] \<Longrightarrow> dgp_error p \<in> set (said (diagnostics_view resolve parse p))"
  by (simp add: diagnostics_view_def said_simps view_simps message_of_def del: uni.simps)

lemma security_error_said: "scp_error p \<noteq> [] \<Longrightarrow> scp_error p \<in> set (said (security_view resolve parse p))"
  by (simp add: security_view_def said_simps view_simps message_of_def del: uni.simps)

interpretation security_shown: shown_errors scp_loading "\<lambda>b p. p\<lparr>scp_loading := b\<rparr>" scp_error "\<lambda>m p. p\<lparr>scp_error := m\<rparr>" security_reset
  "security_view resolve parse" for resolve parse
  by unfold_locales (rule security_error_said)

interpretation security_button: busy_button scp_saving "\<lambda>b p. p\<lparr>scp_saving := b\<rparr>" scp_error "\<lambda>m p. p\<lparr>scp_error := m\<rparr>" security_reset
  "security_view resolve parse" Security_save "\<lambda>p. True" for resolve parse
  by unfold_locales (simp add: security_offered)

text \<open>The menu: its items are the routes in their order, and lead to them.\<close>

lemma menu_items:
  "map mi_key (menuItems useAppStore) = map route_name routes" "map mi_label (menuItems useAppStore) = map route_title routes"
  by (simp_all add: menuItems_def useAppStore_def navigation_def routes_def del: uni.simps)

lemma menu_leads: "map (handleMenuClick useAppStore) (map route_name routes) = map (\<lambda>r. Some (CHR ''/'' # route_path r)) routes"
  by (simp add: useAppStore_def navigation_def routes_def handleMenuClick_def del: uni.simps)

end
