(* ===== verification/SampleInputs.thy ===== *)
theory SampleInputs
  imports ConsoleFacts SystemSettingsPage AlertsPage NodesPage MappingsPage LocalResourcesPage
    PageRaces NodePages LogPages OpsPages DeliveryGuard BuildChunks
    SettingsView AlertsView MonitorViews ConfigViews ResourceViews LogViews OpsViews
begin

text \<open>
  Concrete inputs for the witnesses: payloads, pages, a tree of files and two servers, one that never
  answers and one that delivers an empty workspace.
\<close>

definition sample_rtp :: "int \<Rightarrow> int \<Rightarrow> RtpNetworkConfig" where
  "sample_rtp start stop =
     \<lparr>rn_listenIp = ''0.0.0.0'', rn_portRangeStart = start, rn_portRangeEnd = stop, rn_protocol = UDP,
      rn_advertisedAddress = ''10.20.0.10'', rn_maxConcurrentTransfers = 90\<rparr>"

definition sample_network :: "int \<Rightarrow> int \<Rightarrow> UpdateNetworkConfigPayload" where
  "sample_network start stop =
     \<lparr>unc_sip = nc_sip networkConfigState_init, unc_rtp = sample_rtp start stop\<rparr>"

definition sample_mapping :: "string \<Rightarrow> TunnelMapping" where
  "sample_mapping k = (hd mappingState_init)\<lparr>tm_mapping_id := k, tm_allowed_methods := Some [''get'']\<rparr>"

definition sample_resource :: "string \<Rightarrow> LocalResourceSavePayload" where
  "sample_resource k =
     \<lparr>lrsp_resource_code = k, lrsp_name = ''stock'', lrsp_enabled = True,
      lrsp_target_url = ''http://10.0.0.9:8080'', lrsp_methods = [''GET''], lrsp_response_mode = RM_RTP,
      lrsp_description = ''''\<rparr>"

definition sample_export :: "string \<Rightarrow> DiagnosticExportCreatePayload" where
  "sample_export node = \<lparr>decp_nodeId = node, decp_requestId = None, decp_traceId = None\<rparr>"

definition sample_tunnel :: "string \<Rightarrow> TunnelConfigUpdatePayload" where
  "sample_tunnel mode =
     \<lparr>tcu_channel_protocol = ''GB/T 28181'', tcu_connection_initiator = Initiator_LOCAL,
      tcu_mapping_relay_mode = None, tcu_heartbeat_interval_sec = 30, tcu_register_retry_count = 5,
      tcu_register_retry_interval_sec = 10, tcu_network_mode = mode, tcu_register_auth_enabled = None,
      tcu_register_auth_username = None, tcu_register_auth_password = None,
      tcu_register_auth_password_configured = None, tcu_register_auth_realm = None,
      tcu_register_auth_algorithm = None, tcu_catalog_subscribe_expires_sec = None\<rparr>"

definition sample_node_config :: "string \<Rightarrow> NodeConfigPayload" where
  "sample_node_config peer =
     \<lparr>ncp_local_node = local_endpoint localNodeState_init, ncp_peer_node = peer_endpoint ''10.9.0.2'' 5062 peer\<rparr>"

definition sample_env :: "unit ApiEnv" where
  "sample_env = \<lparr>he_api_base_url = None, he_window = None, ae_api_mode = None, ae_import = Pair (Inr ())\<rparr>"

definition empty_task_server :: "(unit, TaskApiModel ItemsPage, unit) fetcher" where
  "empty_task_server i w =
     (Inr (ResponseOk (Inr \<lparr>ar_code = JStr ''OK'', ar_message = [],
        ar_data = \<lparr>ip_items = [], ip_pagination = \<lparr>pg_total = 0, pg_page = 1, pg_page_size = 200\<rparr>\<rparr>\<rparr>)), w)"

lemma sample_mapping_id [simp]: "tm_mapping_id (sample_mapping k) = k"
  by (simp add: sample_mapping_def)

lemma initial_mapping_ids: "map tm_mapping_id (mappingState mock_init) = [''map-orders'', ''map-query'']"
  by (simp add: mock_init_def mappingState_init_def)

definition sample_mock_env :: "unit ApiEnv" where
  "sample_mock_env = sample_env\<lparr>ae_api_mode := Some ''mock''\<rparr>"

definition workspace_server :: "(unit, jsval, unit) fetcher" where
  "workspace_server i w =
     (Inr (ResponseOk (Inr \<lparr>ar_code = JStr ''OK'', ar_message = [], ar_data = JObj []\<rparr>)), w)"

definition offline :: "('b, 'a, unit) fetcher" where
  "offline i w = (Inl (JsError ''offline''), w)"

definition sample_client :: "unit ApiState" where
  "sample_client = \<lparr>as_module = Some (Inr ()), as_mock = mock_init, as_net = ()\<rparr>"

lemma sample_mock_mode: "useMockMode sample_mock_env"
  by (simp add: useMockMode_def sample_mock_env_def sample_env_def toLowerCase_def lower_char_def)

lemma sample_client_loaded: "module_loaded sample_client" "as_mock sample_client = mock_init"
  by (simp_all add: module_loaded_def sample_client_def)

lemma workspace_server_answers: "workspace_answers env workspace_server"
  by (simp add: workspace_answers_def get_json_def call_def unwrap_def map_result_def request_def workspace_server_def)

definition sample_workspace :: jsval where
  "sample_workspace = JObj
     [(''localNode'', JObj [(''device_id'', JStr ''34020000002000000001''), (''node_ip'', JStr ''10.0.0.1''),
        (''signaling_port'', JInt 5060), (''rtp_port_start'', JInt 20000), (''rtp_port_end'', JInt 20100),
        (''mapping_port_start'', JInt 30000), (''mapping_port_end'', JInt 30010)]),
      (''peerNode'', JObj [(''device_id'', JStr ''34020000002000000002''), (''node_ip'', JStr ''10.0.0.2''),
        (''signaling_port'', JInt 5060)]),
      (''sessionSettings'', JObj [(''catalog_subscribe_expires_sec'', JInt 3600), (''heartbeat_interval_sec'', JInt 60)])]"

definition sample_overview_item :: TunnelMappingOverviewItem where
  "sample_overview_item =
     \<lparr>tmoi_resource_code = ''34020000002000000009'', tmoi_device_id = ''34020000002000000009'', tmoi_mapping_id = None,
      tmoi_local_bind_port = None, tmoi_resource_type = None, tmoi_name = ''stock'', tmoi_source_node = None,
      tmoi_methods = [''GET''], tmoi_response_mode = RM_RTP, tmoi_resource_status = ''ON'',
      tmoi_mapping_status = Mapping_UNMAPPED, tmoi_mapping_ids = None, tmoi_listen_ip = None, tmoi_listen_ports = [],
      tmoi_path_prefix = None, tmoi_enabled = True\<rparr>"

definition sample_mapping_page :: "int \<Rightarrow> MappingsPage" where
  "sample_mapping_page port = mappings_page_init\<lparr>mpp_workspace := sample_workspace,
     mpp_currentResource := Some sample_overview_item,
     mpp_editor := (mpp_editor mappings_page_init)\<lparr>me_local_bind_port := Some port\<rparr>\<rparr>"

definition sample_fetchers :: "(unit, unit) MappingFetchers" where
  "sample_fetchers =
     \<lparr>mf_overview = offline, mf_catalog = offline, mf_mappings = offline, mf_workspace = workspace_server\<rparr>"

lemma sample_mapping_page_ports:
  "mpp_currentResource (sample_mapping_page port) = Some sample_overview_item"
  "mpp_editingId (sample_mapping_page port) = []"
  "local_node (sample_mapping_page port) ''signaling_port'' = JInt 5060"
  "local_node (sample_mapping_page port) ''rtp_port_start'' = JInt 20000"
  "local_node (sample_mapping_page port) ''rtp_port_end'' = JInt 20100"
  "local_node (sample_mapping_page port) ''mapping_port_start'' = JInt 30000"
  "local_node (sample_mapping_page port) ''mapping_port_end'' = JInt 30010"
  "me_local_bind_port (mpp_editor (sample_mapping_page port)) = Some port"
  by (simp_all add: sample_mapping_page_def mappings_page_init_def local_node_def sample_workspace_def)

definition sample_settings :: SystemSettingsState where
  "sample_settings =
     \<lparr>st_sqlitePath = [], st_logPath = ''logs'', st_uiMode = Ui_embedded, st_apiBaseUrl = ''/api'', st_metricsEndpoint = ''/metrics'',
      st_readyEndpoint = ''/readyz'', st_selfCheckEndpoint = ''/selfcheck'', st_startupSummaryEndpoint = ''/startup-summary'',
      st_uiConsistencyStatus = None, st_uiConsistencyDetail = None, st_uiEmbedBuildNonce = None, st_uiEmbeddedAt = None,
      st_uiSourceLatestWrite = None, st_uiEmbeddedHash = None, st_uiAssetBaseMode = None, st_uiRouterBasePathPolicy = None,
      st_uiDeliveryGuardStatus = None, st_uiDeliveryGuardDetail = None, st_uiDeliveryGuardRemovedCount = None,
      st_uiDeliveryGuardRemainingCount = None, st_uiDeliveryGuardHitCount = None, st_entrySelectionPolicy = None,
      st_udpControlHeaderPolicy = None, st_genericDownloadRTPToleranceProfile = None, st_genericDownloadGuardPolicy = None,
      st_logRetentionDays = 7, st_logRetentionRecords = 1000, st_auditRetentionDays = 7, st_auditRetentionRecords = 1000,
      st_accessLogRetentionDays = 7, st_accessLogRetentionRecords = 1000, st_diagnosticsRetentionDays = 7,
      st_diagnosticsRetentionRecords = 100, st_loadtestRetentionDays = 7, st_loadtestRetentionRecords = 100,
      st_cleanupCron = ''@daily'', st_adminCIDR = ''10.0.0.0/8'', st_mfaEnabled = False, st_genericDownloadTotalMbps = 100,
      st_genericDownloadPerTransferMbps = 10, st_genericDownloadWindowMB = 8, st_adaptiveHotCacheMB = 64,
      st_adaptiveHotWindowMB = 8, st_genericDownloadSegmentConcurrency = 4, st_genericDownloadRTPReorderWindowPackets = 64,
      st_genericDownloadRTPLossTolerancePackets = 4, st_genericDownloadRTPGapTimeoutMS = 500,
      st_genericDownloadRTPFECEnabled = False, st_genericDownloadRTPFECGroupPackets = 0, st_adminTokenConfigured = None,
      st_adminMfaConfigured = None, st_configEncryptionEnabled = None, st_tunnelSignerExternalized = None,
      st_lastCleanupStatus = [], st_lastCleanupRemovedRecords = 0\<rparr>"

lemma sample_codes:
  "GB_CODE_PATTERN ''34020000002000000001''" "GB_CODE_PATTERN ''34020000002000000002''" "GB_CODE_PATTERN ''34020000002000000009''"
  by (simp_all add: GB_CODE_PATTERN_def js_eval)

definition sample_tree :: fsnode where
  "sample_tree =
     FDir [(''gateway-ui'', FDir [(''src'', FDir [(''views'', FDir [(''NodeStatusView.vue'', FFile ''retired'')])])])]"

lemma sample_tree_plain: "legacy_plain sample_tree" "console_dir sample_tree"
  by (auto simp: sample_tree_def legacy_plain_def console_dir_def legacyFiles_def)

definition sample_trend :: DashboardTrendSeries where
  "sample_trend = \<lparr>dts_range = ''24h'', dts_granularity = ''1h'', dts_points =
     [\<lparr>dtp_bucket = ''10:00'', dtp_label = ''10:00'', dtp_total = 120, dtp_failed = 3, dtp_slow = 1\<rparr>,
      \<lparr>dtp_bucket = ''11:00'', dtp_label = ''11:00'', dtp_total = 80, dtp_failed = 9, dtp_slow = 0\<rparr>]\<rparr>"

definition sample_series :: "string \<times> string \<Rightarrow> DashboardTrendSeries" where
  "sample_series q = \<lparr>dts_range = fst q, dts_granularity = snd q, dts_points = []\<rparr>"

definition sample_dashboard :: DashboardPage where
  "sample_dashboard = dashboard_init\<lparr>dp_trendSeries := sample_series (dp_rangeKey dashboard_init, dp_granularity dashboard_init)\<rparr>"

definition sample_tunnel_page :: TunnelPage where
  "sample_tunnel_page = tunnel_page_init\<lparr>tp_draft := (tp_draft tunnel_page_init)\<lparr>
     tc_register_auth_enabled := Some True, tc_register_auth_username := Some ''sip'', tc_register_auth_realm := Some ''3402'',
     tc_register_auth_algorithm := Some ''MD5'', tc_catalog_subscribe_expires_sec := Some 3600\<rparr>\<rparr>"

text \<open>A server that answers every request of one kind with the same data.\<close>

definition answering :: "'a \<Rightarrow> ('b, 'a, unit) fetcher" where
  "answering x i w = (Inr (ResponseOk (Inr \<lparr>ar_code = JStr ''OK'', ar_message = [], ar_data = x\<rparr>)), w)"

lemma answered: "get_json env (answering x) path w = (Inr x, w)" "send_json env (answering x) verb path body w = (Inr x, w)"
  by (simp_all add: get_json_def send_json_def call_def unwrap_def map_result_def request_def answering_def)

definition sample_usage :: SystemResourceUsage where
  "sample_usage =
     \<lparr>sru_captured_at = ''2026-03-14T00:00:00Z'', sru_cpu_cores = 1, sru_gomaxprocs = 1, sru_goroutines = 1,
      sru_heap_alloc_bytes = 1, sru_heap_sys_bytes = 1, sru_heap_idle_bytes = 1, sru_stack_inuse_bytes = 1,
      sru_last_gc_time = None, sru_sip_connections = 1, sru_rtp_active_transfers = 1, sru_rtp_port_pool_used = 1,
      sru_rtp_port_pool_total = 1, sru_active_requests = 1, sru_configured_generic_download_mbps = 1,
      sru_configured_generic_per_transfer_mbps = 1, sru_configured_adaptive_hot_cache_mb = 1,
      sru_configured_adaptive_hot_window_mb = 1, sru_configured_generic_download_window_mb = 1,
      sru_configured_generic_segment_concurrency = 1, sru_configured_generic_rtp_reorder_window_packets = 1,
      sru_configured_generic_rtp_loss_tolerance_packets = 1, sru_configured_generic_rtp_gap_timeout_ms = 1,
      sru_configured_generic_rtp_fec_enabled = False, sru_configured_generic_rtp_fec_group_packets = 1,
      sru_status_color = None, sru_status_summary = None, sru_status_reasons = None, sru_recommended_summary = None,
      sru_recommended_profile = None, sru_suggested_actions = None, sru_suitable_scenarios = None,
      sru_selfcheck_overall = None, sru_rtp_port_pool_usage_percent = None, sru_active_request_usage_percent = None,
      sru_heap_usage_percent = None, sru_theoretical_rtp_transfer_limit = None,
      sru_recommended_file_transfer_max_concurrent = None, sru_recommended_max_concurrent = None,
      sru_recommended_rate_limit_rps = None, sru_recommended_rate_limit_burst = None,
      sru_observed_jitter_loss_events = None, sru_observed_gap_timeouts = None, sru_observed_fec_recovered = None,
      sru_observed_peak_pending = None, sru_observed_max_gap_hold_ms = None, sru_observed_writer_block_ms = None,
      sru_observed_max_writer_block_ms = None, sru_observed_context_canceled = None,
      sru_observed_circuit_open_count = None, sru_observed_circuit_half_open_count = None,
      sru_runtime_profile_applied = None, sru_runtime_profile_applied_at = None, sru_runtime_profile_reason = None,
      sru_runtime_profile_changed = None\<rparr>"

definition sample_rules :: jsval where
  "sample_rules = JObj [(''rate_limit_rules'', JArr [JStr ''RPS=300'']), (''alert_rules'', JArr [JStr ''errors > 5''])]"

lemma offline_fails: "get_json env offline path w = (Inl (JsError ''offline''), w)"
  by (simp add: get_json_def send_json_def call_def unwrap_def map_result_def request_def offline_def)

lemma sample_settings_answer:
  "fetchSystemSettings sample_mock_env (answering x) (offline :: (unit, _, unit) fetcher) sample_client =
     (Inr (mapSystemSettings x fetchStartupSummaryMock), sample_client)"
  "fetchSystemResourceUsage env (answering y) st = (Inr y, st)"
proof -
  have net: "sample_client\<lparr>as_net := ()\<rparr> = sample_client" "st\<lparr>as_net := ()\<rparr> = st" by simp_all
  have summary: "fetchStartupSummary sample_mock_env (offline :: (unit, _, unit) fetcher) sample_client =
      (Inr fetchStartupSummaryMock, sample_client)"
    by (simp add: fetchStartupSummary_def dispatch_mock [OF sample_mock_mode sample_client_loaded(1)] mock_read_def)
  show "fetchSystemSettings sample_mock_env (answering x) (offline :: (unit, _, unit) fetcher) sample_client =
     (Inr (mapSystemSettings x fetchStartupSummaryMock), sample_client)"
    by (simp add: fetchSystemSettings_def map_result_def promise_all_def from_server_def answered net summary)
  show "fetchSystemResourceUsage env (answering y) st = (Inr y, st)"
    by (simp add: fetchSystemResourceUsage_def from_server_def answered)
qed

lemma sample_workspace_loaded: "ndp_workspace (fst (snd (nodes_load sample_env workspace_server True (nodes_page_init, sample_client)))) \<noteq> JUndefined"
proof -
  have "fst (fetchNodeTunnelWorkspace sample_env workspace_server sample_client) = Inr (mapNodeTunnelWorkspace (JObj []))"
    by (simp add: fetchNodeTunnelWorkspace_def map_result_def from_server_def get_json_def call_def unwrap_def request_def workspace_server_def)
  from load_ok [OF this] show ?thesis
    using linked_workspace_shape [OF workspace_shape_facade [of "JObj []"]] by (auto simp: adopted_def Let_def workspace_shape_def is_object_def)
qed

definition sample_visit :: "unit settings_state" where
  "sample_visit = settings_mounted sample_mock_env (answering (settingsRequest sample_settings) :: (unit, _, unit) fetcher)
     (offline :: (unit, _, unit) fetcher) (answering sample_usage :: (unit, _, unit) fetcher) None sample_client"

lemma sample_visit_form:
  obtains f where "stp_form (fst sample_visit) = Some f" "st_sqlitePath f = []"
  by (simp add: sample_visit_def settings_mounted_def settings_load_def guarded_eval script_simps promise_all_def sample_settings_answer
      validateSettings_def mapSystemSettings_def settingsRequest_def sample_settings_def Let_def)

end
