(* ===== verification/Spec2Isabelle.thy ===== *)
theory Spec2Isabelle
  imports SampleInputs
begin

text \<open>
  \<^bold>\<open>Verification of the SIPTunnel operations console\<close>

  SIPTunnel tunnels HTTP through SIP/RTP links between GB/T 28181 domains. Its console
  (\<open>src/gateway-ui/src\<close>, TypeScript) is a single-page application. The pages call one facade,
  \<open>gatewayApi\<close> of \<open>api/gateway.ts\<close>, which sends a request to the gateway server through \<open>api/http.ts\<close>
  or, in mock mode, calls \<open>api/mockGateway.ts\<close>, an in-browser gateway with state of its own that
  \<open>api/mockGatewayLoader.ts\<close> loads on first use. Utilities under \<open>utils/\<close> derive capabilities from the
  network mode, check mappings and drafts, and normalise user input. This development models that code
  and proves what its parts promise each other.

  \<^bold>\<open>Theories\<close>

  \<^item> \<open>JsPrelude\<close>, \<open>JsNumber\<close>, \<open>JsValue\<close>: the part of JavaScript the code uses. Strings are their UTF-8
    bytes (\<open>uni\<close> spells the Chinese literals); \<open>??\<close> is \<open>nullish\<close>; a thrown error is \<open>Inl\<close>; numbers that
    are computed with are exact results rounded to double precision (\<open>fl64\<close>), all others \<open>int\<close>; dynamic
    data is \<open>jsval\<close>. The locale \<open>normaliser\<close> states what a normalisation owes its callers.
  \<^item> \<open>GatewayTypes\<close>, \<open>TaskTypes\<close>, \<open>TunnelTypes\<close>, \<open>NetworkTypes\<close>, \<open>ConsoleTypes\<close>, \<open>TransferTypes\<close>: the
    interfaces of \<open>types/gateway.ts\<close> as records with a prefix per type, an optional property as an
    \<open>option\<close> field, a union of literals as a datatype.
  \<^item> \<open>TunnelCapability\<close> (\<open>utils/tunnelConfig.ts\<close>, \<open>networkMode.ts\<close>, \<open>capability.ts\<close>): the derivation is
    ordered, with the full duplex mode on top and an unknown mode at the bottom; a mapping has no blocking
    issue exactly when it is admissible.
  \<^item> \<open>Gb28181\<close> (\<open>utils/gb28181.ts\<close>), \<open>NetworkRisk\<close> (\<open>utils/networkConfig.ts\<close>), \<open>UiShell\<close>
    (\<open>utils/uiBase.ts\<close>, \<open>router/index.ts\<close>, \<open>stores/\<close>): generated codes are valid, selections and bases are
    normal forms, the risk detector is exact, navigation and routes agree.
  \<^item> \<open>MockState\<close>, \<open>MockStores\<close>, \<open>MockTasks\<close>, \<open>MockFixtures\<close>, \<open>MockNetwork\<close>, \<open>MockGovernance\<close>,
    \<open>MockDiagnostics\<close>, \<open>DiagnosticsRuns\<close>, \<open>MockTunnel\<close> (\<open>api/mockGateway.ts\<close>): the module variables as
    the record \<open>MockState\<close>, one definition per exported function. The locale \<open>keyed_collection\<close> with its
    extensions \<open>appending_collection\<close> and \<open>replacing_collection\<close> is the contract of the three editable
    collections, \<open>paged_source\<close> that of the task tables, \<open>polling_job\<close> that of the exports; each is
    interpreted on the module's own functions.
  \<^item> \<open>MockGateway\<close>: all operations as one datatype, the states they lead to, the locale
    \<open>mock_invariant\<close> and its six interpretations, and the loader.
  \<^item> \<open>Http\<close> (\<open>api/http.ts\<close>): headers, query strings and errors of a request, with the browser's
    \<open>fetch\<close> as a parameter that reads and changes the network.
  \<^item> \<open>GatewayMapping\<close>, \<open>WorkspaceLaws\<close>, \<open>GatewayApi\<close>, \<open>ApiLaws\<close> (\<open>api/gateway.ts\<close>): the mappings
    between wire form and page form, every operation of the facade, and their laws.
  \<^item> \<open>Contracts\<close> (\<open>contracts/\<close>): the declared contracts of two pages agree with the facade.
  \<^item> \<open>PageRuntime\<close>: what the scripts of the pages (\<open>views/*.vue\<close>) share. A page is a record of its reactive
    variables, a handler a \<open>script\<close> over the page and the client state; the locale \<open>busy_page\<close> states what
    the frame of a handler owes the page and is interpreted for every page that has one.
  \<^item> \<open>LocalResourcesPage\<close>, \<open>MappingsPage\<close>, \<open>NodesPage\<close>, \<open>SystemSettingsPage\<close>, \<open>AlertsPage\<close>,
    \<open>DashboardPage\<close>: the pages of the same names. The resource page refines a finite map; a mapping is
    saved exactly when its port is usable; the node page keeps a well-typed, linked workspace whatever the
    server answers; the settings form is sent exactly when it keeps its limits; the hot targets are the
    most frequent ones; the chart stays in its frame.
  \<^item> \<open>PageRaces\<close>: overlapping requests of the dashboard and of the tables as a step relation over the requests under way.
  \<^item> \<open>NodePages\<close> (\<open>TunnelConfigView\<close>, \<open>LinkMonitorView\<close>, \<open>NodeConfigView\<close>, \<open>LocalNodeConfigView\<close>,
    \<open>PeerNodeConfigView\<close>), \<open>LogPages\<close> (\<open>AccessLogsView\<close>, \<open>AuditLogsView\<close>, \<open>OpsAuditsView\<close>,
    \<open>SecurityEventsView\<close>, \<open>CommandTasksView\<close>, \<open>FileTasksView\<close>, \<open>TaskDetailView\<close>, \<open>StatusPill\<close>),
    \<open>OpsPages\<close> (\<open>DiagnosticsLoadtestView\<close>, \<open>OpsToolsView\<close>, \<open>SecurityCenterView\<close>,
    \<open>RateLimitPoliciesView\<close>, \<open>AlertsCenterView\<close>, \<open>AdminLayout\<close>): the other pages, with what a save
    stores, which query is sent and that the loops end.
  \<^item> \<open>DateText\<close> (\<open>utils/date.ts\<close>): date texts over the calendar of ECMAScript, with the time zone as a
    parameter; printing and reading are inverse.
  \<^item> \<open>DeliveryGuard\<close> (\<open>scripts/ui-delivery-guard.mjs\<close>), \<open>BuildChunks\<close> (\<open>vite.config.ts\<close>): the delivery
    check on a tree of files, and the assignment of modules to chunks.
  \<^item> \<open>Markup\<close>: the elements of a template. A template is a function from the page to a list of \<open>node\<close>s:
    elements with constant, bound and two-way bound (\<open>v-model\<close>) attributes and event handlers, texts, and
    the rows of tables. What a user sees and can do are functions of that tree: \<open>said\<close> and \<open>alerts\<close> are the
    messages, \<open>offered\<close> the handlers that can be triggered (a disabled or loading button triggers none, a
    closed drawer or dialog shows nothing), \<open>controls\<close> the inputs with their values, bounds and what
    typing assigns. The locales \<open>shown_errors\<close> and \<open>busy_button\<close> extend \<open>busy_page\<close> to what is on the screen.
  \<^item> \<open>Components\<close> (\<open>components/\<close>, \<open>HomeView\<close>, \<open>PlaceholderView\<close>, \<open>App\<close>), \<open>SettingsView\<close>, \<open>AlertsView\<close>,
    \<open>MonitorViews\<close> (dashboard, link monitor), \<open>ConfigViews\<close> (tunnel, node and peer pages),
    \<open>ResourceViews\<close> (mappings, local resources), \<open>LogViews\<close> (logs, audits, tasks), \<open>OpsViews\<close>
    (diagnostics, tools, security, limits, alerts, frame): one function per template, and per column table.
    They show which handlers a page offers, that a failure is on the screen, that a save button does not
    react while it saves, and, with the relations \<open>settings_visit\<close> and \<open>resources_visit\<close> of everything a
    user can press and type, what is true of the two pages after any visit.
  \<^item> \<open>ConsoleFacts\<close>: further facts about single operations. \<open>SampleInputs\<close>: the inputs of the witnesses.
  \<^item> This theory: the properties C1 to C40, from the invariants of the whole mock gateway and of the
    pages down to single functions, each with a witness where it has hypotheses.

  \<^bold>\<open>State and time\<close>

  JavaScript runs the code between two \<open>await\<close>s without interruption. Every mock operation waits first
  and then runs to its end, so concurrent calls interleave as whole operations; the import, which waits
  again in the middle, is given as its two parts, and the export as a function of the two states it reads.
  The clock, the random numbers, the document, the build variables, the browser storages, \<open>fetch\<close> and the
  dynamic import are arguments. A page handler runs to its end before the next one starts, except in
  \<open>PageRaces\<close>, where the two halves of a request are steps of their own. A watcher of Vue runs after the
  current block of code: where this decides what is sent (the access log page) it is a step of the model,
  elsewhere it is part of the edit that triggers it. No definition needs fuel: every recursion is
  structural or has a measure, the loop of the port check is a partial function that is proved to
  return, and the one unbounded process, polling an export, is a function of the list of polls, with the
  theorem that four polls are enough.

  \<^bold>\<open>Limits of the model\<close>

  A response with a declared type is taken to have it, as the source takes it; where the source says
  \<open>any\<close> nothing is assumed. Deep copies through JSON are the identity on the model's immutable data;
  the arrays of allowed methods that \<open>createMappingMock\<close> and \<open>updateMappingMock\<close> share with the caller's
  payload are taken not to be changed by the caller. Upper and lower case is that of ASCII.

  Chart coordinates are rational numbers, not rounded to double precision. In the messages of the pages
  the text for thrown values that are not errors never appears.

  Of the templates the attributes that only place or style an element (\<open>class\<close>, \<open>style\<close>, sizes, grid
  spans, keys, object literals) are left out, and a template expression is evaluated as if it never threw.
  The panes of an inactive tab and the content under a spinner count as reachable. How Vue and Ant Design
  draw the tree is not part of the model.

  Not modelled: styles; the report file and the output of the delivery guard; the Go server and the
  generated bundle of the console, which are not TypeScript of this program.
\<close>

section \<open>The mock gateway as a whole\<close>

text \<open>C1: in every state the mock gateway can reach through updates with a non-negative concurrency
  limit and imports that keep the size of the port range, the port pool figures agree with the port
  range: the total is its size, active transfers are at most the occupied ports and those at most the
  total, and the usage rate is between 0 and 100.\<close>

theorem port_pool_consistent:
  "reachable_by keeps_pool s \<Longrightarrow> pool_ok (networkConfigState s)"
  by (rule port_pool.reachable_inv)

theorem port_pool_consistent_witness:
  "pool_ok (networkConfigState (mock_apply (Op_updateNetworkConfig (sample_network 40000 40099)) mock_init))"
  by (rule port_pool_consistent [OF reachable_by.step [OF reachable_by.init]])
    (simp add: sample_network_def sample_rtp_def)

text \<open>C2: whatever operations run, in whatever order, every diagnostic export of the mock gateway is
  stored under its own id and is well formed: its progress is 25 per poll and at most 100, its sections
  are the seven of the template in order and are marked done from the front in proportion to the
  progress, it is finished exactly at 100, it has an error message exactly when it failed and a download
  link exactly when it succeeded.\<close>

theorem export_jobs_consistent:
  "mock_reachable s \<Longrightarrow> diagnosticJobs s j = Some r \<Longrightarrow>
     dej_jobId (dr_job r) = j \<and> dej_progress (dr_job r) = int (25 * dr_polls r) \<and> dr_polls r \<le> 4 \<and>
     (is_terminal (dej_status (dr_job r)) \<longleftrightarrow> dej_progress (dr_job r) = 100) \<and>
     map des_key (dej_sections (dr_job r)) = map fst diagnosticSectionsTemplate \<and>
     map des_done (dej_sections (dr_job r)) = map (\<lambda>i. i < (25 * dr_polls r * 7) div 100) [0..<7] \<and>
     (dej_errorMessage (dr_job r) \<noteq> None \<longleftrightarrow> dej_status (dr_job r) = Diag_failed) \<and>
     (dej_downloadUrl (dr_job r) \<noteq> None \<longleftrightarrow> dej_status (dr_job r) = Diag_succeeded)"
  using export_jobs.reachable_inv [of s] diag_ok_terminal [of r]
  by (simp add: jobs_ok_def diag_ok_def done_count_def del: upt_Suc)

theorem export_jobs_consistent_witness:
  "dej_jobId (dr_job (the (diagnosticJobs (mock_apply (Op_createDiagnosticExport (sample_export ''n1'') ''7f'' ''t'') mock_init)
     ''diag-7f''))) = ''diag-7f''"
proof -
  let ?s = "mock_apply (Op_createDiagnosticExport (sample_export ''n1'') ''7f'' ''t'') mock_init"
  have "mock_reachable ?s" by (rule reachable_by.step [OF reachable_by.init]) simp
  moreover obtain r where "diagnosticJobs ?s ''diag-7f'' = Some r"
    by (simp add: createDiagnosticExportMock_def Let_def)
  ultimately show ?thesis using export_jobs_consistent [of ?s "''diag-7f''" r] by simp
qed

section \<open>Pages over the gateway\<close>

text \<open>C3: in mock mode with a server that delivers the workspace, the page of local resources refines a
  finite map from codes to resources. Every action of the user is, on the stored resources, a step of the
  map: it keeps the map, adds a resource with a code of twenty digits under a free code, replaces one and
  possibly moves it to a free code, or removes one, and never overwrites another resource. After every
  action the rows shown are the stored resources, with distinct codes.\<close>

theorem resource_page_refines_map:
  assumes "useMockMode env" "workspace_answers env fw" "resource_console url_ok env fs fl fw s"
    and "resource_page_step url_ok env fs fl fw s s'"
  shows "resource_spec_step (stored_resources (as_mock (snd s))) (stored_resources (as_mock (snd s'))) \<and>
    lrp_rows (fst s') = lrlp_items (fetchLocalResourcesMock (as_mock (snd s'))) \<and>
    distinct (map lri_resource_code (lrp_rows (fst s')))"
  using advance_step [OF assms(1,2,4) console_synced [OF assms(1-3)]]
  by (simp add: resources_advance_def resources_synced_def fetchLocalResourcesMock_def o_def row_codes)

theorem resource_page_refines_map_witness:
  "let s = snd (resources_load sample_mock_env offline workspace_server True (resources_page_init, sample_client));
       s' = snd (saveResource (\<lambda>_. True) sample_mock_env offline offline workspace_server 1 2 ''t'' s)
   in resource_spec_step (stored_resources (as_mock (snd s))) (stored_resources (as_mock (snd s')))"
  unfolding Let_def
  by (rule resource_page_refines_map [OF sample_mock_mode workspace_server_answers
        resource_console.mounted resource_page_step.save, THEN conjunct1])
    (simp_all add: sample_client_loaded init_defs)



section \<open>What the user sees and can do\<close>

text \<open>C5: whatever a user presses and types on the settings page, and whatever the server answers, the
  warning about invalid settings is on the screen exactly when the form breaks a limit of the script, that
  is when the database path is blank, the schedule is no cron text or an active number input of the page is
  below its least value; while it is there, pressing Save sends nothing.\<close>

theorem settings_warning_agrees:
  assumes "settings_visit env fl fs fm fu s" "stp_form (fst s) = Some f"
  shows "((''warning'', (uni ''~8BF7~5148~4FEE~6B63~4EE5~4E0B~7CFB~7EDF~8BBE~7F6E~95EE~9898'')) \<in> set (alerts (settings_view (fst s))) \<longleftrightarrow> \<not> settings_valid f) \<and>
    (settings_valid f \<longleftrightarrow> trim (st_sqlitePath f) \<noteq> [] \<and> cronPattern (trim (st_cleanupCron f)) \<and>
       list_all numeric_ok (controls (settings_view (fst s)))) \<and>
    ((''warning'', (uni ''~8BF7~5148~4FEE~6B63~4EE5~4E0B~7CFB~7EDF~8BBE~7F6E~95EE~9898'')) \<in> set (alerts (settings_view (fst s))) \<longrightarrow>
       snd (run_settings env fl fs fm fu Settings_save s) = snd s)"
proof -
  have current: "stp_validationErrors (fst s) = settings_issues f" "\<not> stp_saving (fst s)"
    using visit_current [OF assms(1)] assms(2) by (simp_all add: settings_current_def)
  have shown: "(''warning'', (uni ''~8BF7~5148~4FEE~6B63~4EE5~4E0B~7CFB~7EDF~8BBE~7F6E~95EE~9898'')) \<in> set (alerts (settings_view (fst s))) \<longleftrightarrow> \<not> settings_valid f"
    using current(1) settings_issues_empty [of f] by (simp add: warning_shown del: uni.simps)
  have "snd (run_settings env fl fs fm fu Settings_save s) = snd s" if "\<not> settings_valid f"
    using save_outcome [OF assms(2) current(2), of env fs fm fu "snd (snd s)"] that
    by (cases s) (simp add: run_settings_def Let_def)
  then show ?thesis using shown bounds_are_limits [OF assms(2)] by blast
qed

theorem settings_warning_agrees_witness:
  "(''warning'', (uni ''~8BF7~5148~4FEE~6B63~4EE5~4E0B~7CFB~7EDF~8BBE~7F6E~95EE~9898'')) \<in> set (alerts (settings_view (fst sample_visit)))"
proof -
  obtain f where f: "stp_form (fst sample_visit) = Some f" "st_sqlitePath f = []" by (rule sample_visit_form)
  then have "\<not> settings_valid f" by (simp add: settings_valid_def)
  then show ?thesis
    using settings_warning_agrees [OF settings_visit.mounted [where fs = offline] f(1) [unfolded sample_visit_def]]
    unfolding sample_visit_def by blast
qed


text \<open>C7: the navigation of the console leads to its pages: the items of the menu are the routes, in their
  order, and lead to their paths, and every path a button of the dashboard or of the link monitor leads to
  is the path of a page. The rows of the two task lists lead to a route the router does not have.\<close>

theorem links_lead_to_pages:
  "map mi_key (menuItems useAppStore) = map route_name routes \<and>
   map (handleMenuClick useAppStore) (map route_name routes) = map Some page_paths \<and>
   set (List.map_filter dashboard_push (offered (dashboard_view p))) \<subseteq> set page_paths \<and>
   set (List.map_filter link_push (offered (link_monitor_view resolve parse q))) \<subseteq> set page_paths \<and>
   fst (command_goDetail task) \<notin> set (map route_name routes) \<and> fst (file_goDetail task) \<notin> set (map route_name routes)"
proof (intro conjI)
  show "set (List.map_filter dashboard_push (offered (dashboard_view p))) \<subseteq> set page_paths"
    by (simp add: page_paths_list dashboard_offered map_filter_simps)
  show "set (List.map_filter link_push (offered (link_monitor_view resolve parse q))) \<subseteq> set page_paths"
    by (simp add: page_paths_list link_offered map_filter_simps)
  show "map (handleMenuClick useAppStore) (map route_name routes) = map Some page_paths"
    using menu_leads unfolding page_paths_def map_map o_def .
qed (simp_all add: menu_items command_goDetail_def file_goDetail_def routes_def)





text \<open>C10: after a first load that failed, the protection page still offers to edit the policy, and then to save
  it: there is nothing to edit on the page, and the save would send empty lists of alert rules and of
  circuit breaker rules.\<close>

theorem blind_save_offered:
  assumes "fst (promise_all (fetchProtectionState env f) (fetchSystemResourceUsage env fu) st) = Inl (JsError m)"
    and "p = fst (snd (alerts_load env f fu (alerts_page_init, st)))" "q = p\<lparr>alp_editing := True\<rparr>"
  shows "Alerts_edit \<in> set (offered (alerts_view dp now p)) \<and> Alerts_save \<in> set (offered (alerts_view dp now q)) \<and>
    controls (alerts_view dp now q) = [] \<and>
    chain (form_payload q) ''alertRules'' = JArr [] \<and> chain (form_payload q) ''circuitBreakerRules'' = JArr []"
proof -
  have "p = alerts_page_init\<lparr>alp_loading := False, alp_error := m, alp_notice := []\<rparr>"
    using assms(1,2) failed_load by blast
  then have q: "q = alerts_page_init\<lparr>alp_loading := False, alp_error := m, alp_notice := [], alp_editing := True\<rparr>"
    and "\<not> alp_editing p" using assms(3) by (simp_all add: alerts_page_init_def)
  moreover have "\<not> truthy (alp_state q)" by (simp add: q alerts_page_init_def)
  ultimately show ?thesis
    by (simp add: edit_offered save_offered no_state_no_controls) (simp add: q alerts_page_init_def form_payload_def)
qed

theorem blind_save_offered_witness:
  "controls (alerts_view (\<lambda>_. None) 0 ((fst (snd (alerts_load sample_env (offline :: (unit, _, unit) fetcher)
     (offline :: (unit, _, unit) fetcher) (alerts_page_init, sample_client))))\<lparr>alp_editing := True\<rparr>)) = []"
proof -
  have "fst (promise_all (fetchProtectionState sample_env (offline :: (unit, _, unit) fetcher))
      (fetchSystemResourceUsage sample_env (offline :: (unit, _, unit) fetcher)) sample_client) = Inl (JsError ''offline'')"
    by (simp add: promise_all_def fetchProtectionState_def from_server_def map_result_simps offline_fails map_result_def split: prod.splits)
  from blind_save_offered [OF this refl refl, of "\<lambda>_. None" 0] show ?thesis by blast
qed

text \<open>C11: a restriction that is accepted while the policy is being edited replaces everything typed into the
  policy form by the rules of the answer: what a later save sends does not depend on what was typed. The
  page stays in the edit mode and offers the save.\<close>

theorem restriction_discards_edits:
  assumes "trim (alp_restrictionTarget p) \<noteq> []" "alp_editing p" "\<not> alp_saving p"
    and "upsertProtectionRestriction env fr (restriction_payload p) st = (Inr resp, st1)"
    and "truthy (chain resp ''state'')" "form_reads (chain resp ''state'')"
    and "p' = fst (snd (submitRestriction env fr f fu (p, st)))"
  shows "form_payload p' = form_payload (fst (snd (syncForm (chain resp ''state'') (q, st')))) \<and>
    Alerts_save \<in> set (offered (alerts_view dp now p'))"
  using accepted_restriction [OF assms(1,4,5,6,7)] assms(2,3) by (simp add: save_offered)

theorem restriction_discards_edits_witness:
  "chain (form_payload (fst (snd (submitRestriction sample_env (answering (JObj [(''state'', sample_rules)]))
     (offline :: (unit, _, unit) fetcher) (offline :: (unit, _, unit) fetcher)
     (alerts_page_init\<lparr>alp_editing := True, alp_restrictionTarget := ''10.0.0.1'', alp_alertRule1 := JStr ''typed''\<rparr>, sample_client)))))
     ''alertRules'' = JArr [JStr ''errors > 5'']"
proof -
  let ?p = "alerts_page_init\<lparr>alp_editing := True, alp_restrictionTarget := ''10.0.0.1'', alp_alertRule1 := JStr ''typed''\<rparr>"
  let ?r = "with_protection_state (JObj [(''state'', sample_rules)])"
  have target: "trim (alp_restrictionTarget ?p) \<noteq> []" by (simp add: trim_solid solid_def)
  have answer: "upsertProtectionRestriction sample_env (answering (JObj [(''state'', sample_rules)])) (restriction_payload ?p) sample_client =
      (Inr ?r, sample_client)"
    by (simp add: upsertProtectionRestriction_def from_server_def map_result_def answered)
  have rules: "truthy (chain ?r ''state'')" "chain (chain ?r ''state'') ''rateLimitRules'' = JArr [JStr ''RPS=300'']"
    "chain (chain ?r ''state'') ''alertRules'' = JArr [JStr ''errors > 5'']"
    by (simp_all add: with_protection_state_def mapProtectionState_def sample_rules_def listed_def own_props_def coalesce_def truthy_def)
  then have reads: "form_reads (chain ?r ''state'')" by (simp add: form_reads_def find_rule_def)
  then obtain x y z where "find_rule ''RPS='' (chain (chain ?r ''state'') ''rateLimitRules'') = Inr x"
    "find_rule ''Burst='' (chain (chain ?r ''state'') ''rateLimitRules'') = Inr y"
    "find_rule ''MaxConcurrent='' (chain (chain ?r ''state'') ''rateLimitRules'') = Inr z" by (rule form_reads_results)
  note run = sync_form [OF this, of alerts_page_init sample_client]
  have "chain (form_payload (fst (snd (syncForm (chain ?r ''state'') (alerts_page_init, sample_client))))) ''alertRules'' = JArr [JStr ''errors > 5'']"
    by (simp add: run form_payload_def rules at_index_def coalesce_def truthy_def)
  moreover have "alp_editing ?p" "\<not> alp_saving ?p" by (simp_all add: alerts_page_init_def)
  ultimately show ?thesis
    using restriction_discards_edits [OF target _ _ answer rules(1) reads refl, where q = alerts_page_init and st' = sample_client] by metis
qed

text \<open>C12: in mock mode with a server that delivers the workspace, whatever a user presses and types on the
  page of local resources, the rows shown are the stored resources, with distinct codes, and the page offers
  to edit and to remove exactly these.\<close>

theorem resource_visit_shows_store:
  assumes "useMockMode env" "workspace_answers env (rsv_workspace srv)" "resources_visit url_ok env srv s"
  shows "lrp_rows (fst s) = lrlp_items (fetchLocalResourcesMock (as_mock (snd s))) \<and>
    distinct (map lri_resource_code (lrp_rows (fst s))) \<and>
    {r. Resources_edit r \<in> set (offered (resources_view (fst s)))} = set (lrp_rows (fst s)) \<and>
    {r. Resources_remove r \<in> set (offered (resources_view (fst s)))} = set (lrp_rows (fst s))"
proof -
  have "resources_synced s" by (rule console_synced [OF assms(1,2) visit_is_console [OF assms(3)]])
  then show ?thesis
    by (auto simp: resources_synced_def fetchLocalResourcesMock_def o_def row_codes resources_offered simp del: uni.simps)
qed

theorem resource_visit_shows_store_witness:
  "let srv = \<lparr>rsv_save = offline, rsv_list = offline, rsv_workspace = workspace_server, rsv_delete = offline, rsv_action = offline\<rparr>;
       s = run_resources (\<lambda>_. True) sample_mock_env srv 1 2 ''t'' Resources_create
         (snd (resources_load sample_mock_env offline workspace_server True (resources_page_init, sample_client)))
   in lrp_rows (fst s) = lrlp_items (fetchLocalResourcesMock mock_init)"
proof -
  let ?srv = "\<lparr>rsv_save = offline, rsv_list = offline, rsv_workspace = workspace_server, rsv_delete = offline, rsv_action = offline\<rparr> :: (unit, unit) ResourceServer"
  let ?o = "snd (resources_load sample_mock_env (rsv_list ?srv) (rsv_workspace ?srv) True (resources_page_init, sample_client))"
  let ?s = "run_resources (\<lambda>_. True) sample_mock_env ?srv 1 2 ''t'' Resources_create ?o"
  have "distinct (map lrsp_resource_code (localResourceState (as_mock sample_client)))" by (simp add: sample_client_loaded init_defs)
  then have visit: "resources_visit (\<lambda>_. True) sample_mock_env ?srv ?s"
    by (intro resources_visit.pressed resources_visit.opened) (simp_all add: sample_client_loaded resources_offered)
  have kept: "as_mock (snd ?s) = mock_init"
    using load_mock(2) [OF sample_mock_mode workspace_server_answers sample_client_loaded(1), where fl = "offline :: (unit, _, unit) fetcher" and r = True and p = resources_page_init]
    by (simp add: sample_client_loaded init_defs)
  show ?thesis
    using resource_visit_shows_store [OF sample_mock_mode _ visit] workspace_server_answers kept by (simp add: Let_def)
qed

section \<open>Further invariants of the mock gateway\<close>

text \<open>C13: in every reachable state the snapshot list has the versions it started with, in their order,
  and at most one snapshot is active.\<close>

theorem one_active_snapshot:
  "mock_reachable s \<Longrightarrow>
     map cgs_version (snapshotState s) = map cgs_version configSnapshotsSeed \<and>
     length (filter is_active (snapshotState s)) \<le> 1"
  using snapshots.reachable_inv [of s] by (simp add: snapshots_ok_def)

theorem one_active_snapshot_witness:
  "length (filter is_active (snapshotState (mock_apply (Op_rollbackConfig ''cfg-none'') mock_init))) \<le> 1"
  using one_active_snapshot [OF reachable_by.step [OF reachable_by.init, of _ "Op_rollbackConfig ''cfg-none''"]]
  by simp

text \<open>C14: as long as every imported tunnel configuration has the capability of its mode, the tunnel
  configuration the mock gateway reports always has: the capability is the one derived from the network
  mode and the capability items are the ones built from it.\<close>

theorem reported_capability_agrees:
  "reachable_by imports_agree s \<Longrightarrow>
     tc_capability (fetchTunnelConfigMock s) = deriveTunnelCapability (tc_network_mode (fetchTunnelConfigMock s)) \<and>
     tc_capability_items (fetchTunnelConfigMock s) = buildTunnelCapabilityItems (tc_capability (fetchTunnelConfigMock s))"
  using tunnel_capabilities.reachable_inv [of s]
  by (simp add: tunnel_ok_def fetchTunnelConfigMock_def with_device_ids_def)

theorem reported_capability_agrees_witness:
  "tc_capability (fetchTunnelConfigMock (mock_apply (Op_saveTunnelConfig (sample_tunnel ''X'')) mock_init)) =
     deriveTunnelCapability ''X''"
  using reported_capability_agrees [OF reachable_by.step [OF reachable_by.init, of imports_agree
        "Op_saveTunnelConfig (sample_tunnel ''X'')"]]
  by (simp add: fetchTunnelConfigMock_def with_device_ids_def saveTunnelConfigMock_def
      saved_tunnel_config_def sample_tunnel_def Let_def)

section \<open>Diagnostic exports\<close>

text \<open>C15: an export that was created and polled at least four times has finished: it succeeded, unless
  its node id ends in 02, in which case it failed.\<close>

theorem export_finishes:
  assumes "4 \<le> length nows"
  shows "\<exists>r. diagnosticJobs (poll_times (''diag-'' @ rand) nows (snd (createDiagnosticExportMock p rand now s)))
      (''diag-'' @ rand) = Some r \<and>
    dej_status (dr_job r) = (if suffix ''02'' (decp_nodeId p) then Diag_failed else Diag_succeeded)"
proof -
  let ?s = "snd (createDiagnosticExportMock p rand now s)"
  obtain r where r: "diagnosticJobs ?s (''diag-'' @ rand) = Some r"
    "dr_failOnce r = suffix ''02'' (decp_nodeId p)" "dej_status (dr_job r) = Diag_pending"
    by (simp add: createDiagnosticExportMock_def Let_def)
  have ok: "diag_ok r" using r(1) by (rule diag_ok_created)
  have "dej_status (dr_job (exports.polls nows r)) =
      (if suffix ''02'' (decp_nodeId p) then Diag_failed else Diag_succeeded)"
    using polls_succeed [OF ok _ _ assms] polls_fail_once [OF ok _ _ assms] r(2,3) by auto
  with poll_times_record [OF r(1)] show ?thesis by auto
qed

theorem export_finishes_witness:
  "\<exists>r. diagnosticJobs (poll_times ''diag-7f'' [''a'', ''b'', ''c'', ''d'']
      (snd (createDiagnosticExportMock (sample_export ''node-02'') ''7f'' ''t'' mock_init))) ''diag-7f'' = Some r \<and>
    dej_status (dr_job r) = Diag_failed"
  using export_finishes [of "[''a'', ''b'', ''c'', ''d'']" "''7f''" "sample_export ''node-02''" "''t''" mock_init]
  by (simp add: sample_export_def suffix_def)

text \<open>C16: in a reachable state, an export that has finished, whether it succeeded or failed, and one that
  is not set to fail, succeeds when it is retried and polled at least four times: no export fails twice.\<close>

theorem retried_export_succeeds:
  assumes "mock_reachable s" "diagnosticJobs s j = Some r"
    "is_terminal (dej_status (dr_job r)) \<or> \<not> dr_failOnce r" "4 \<le> length nows"
  shows "\<exists>r'. diagnosticJobs (poll_times j nows (snd (retryDiagnosticExportMock j now s))) j = Some r' \<and>
    dej_status (dr_job r') = Diag_succeeded"
proof -
  have "diag_ok r" using export_jobs.reachable_inv [OF assms(1)] assms(2) by (simp add: jobs_ok_def)
  then have "\<not> dr_failOnce r" using assms(3) by (auto simp: diag_ok_def is_terminal_def)
  then have "dej_status (dr_job (exports.polls nows (retry_record now r))) = Diag_succeeded"
    using assms(4) by (intro polls_succeed diag_ok_retry) (simp_all add: retry_record_def)
  moreover have "diagnosticJobs (snd (retryDiagnosticExportMock j now s)) j = Some (retry_record now r)"
    using assms(2) by (simp add: retryDiagnosticExportMock_def Let_def)
  ultimately show ?thesis using poll_times_record by fastforce
qed

theorem retried_export_succeeds_witness:
  "\<exists>s r r'. diagnosticJobs s ''diag-7f'' = Some r \<and> dej_status (dr_job r) = Diag_failed \<and>
     diagnosticJobs (poll_times ''diag-7f'' [''a'', ''b'', ''c'', ''d''] (snd (retryDiagnosticExportMock ''diag-7f'' ''t'' s)))
       ''diag-7f'' = Some r' \<and> dej_status (dr_job r') = Diag_succeeded"
proof -
  let ?c = "mock_apply (Op_createDiagnosticExport (sample_export ''node-02'') ''7f'' ''t'') mock_init"
  let ?s = "poll_times ''diag-7f'' [''a'', ''b'', ''c'', ''d''] ?c"
  have c: "mock_reachable ?c" by (rule reachable_by.step [OF reachable_by.init]) simp
  obtain r where r: "diagnosticJobs ?c ''diag-7f'' = Some r" "dr_failOnce r" "dej_status (dr_job r) = Diag_pending"
    by (simp add: createDiagnosticExportMock_def Let_def sample_export_def suffix_def)
  have ok: "diag_ok r" using export_jobs.reachable_inv [OF c] r(1) by (simp add: jobs_ok_def)
  define f where "f = exports.polls [''a'', ''b'', ''c'', ''d''] r"
  have f: "diagnosticJobs ?s ''diag-7f'' = Some f" unfolding f_def by (rule poll_times_record [OF r(1)])
  have "dej_status (dr_job f) = Diag_failed"
    using polls_fail_once [OF ok r(2,3), of "[''a'', ''b'', ''c'', ''d'']"] by (simp add: f_def)
  with retried_export_succeeds [OF reachable_poll_times [OF c] f, of "[''a'', ''b'', ''c'', ''d'']" "''t''"] f
  show ?thesis by (auto simp: is_terminal_def)
qed

section \<open>What the editing pages do\<close>

text \<open>C17: saving a new mapping in mock mode, with numeric ports in the workspace: when the resource has a
  valid code and the port is usable (given, not taken by another resource, not the SIP port, outside the
  RTP range and inside the mapping range), exactly the payload with this port is stored; otherwise nothing
  is stored and an error is shown.\<close>

theorem mapping_save_checked:
  fixes sip a b c d port :: int
  assumes "useMockMode env" "module_loaded st" "mpp_currentResource p = Some r" "mpp_editingId p = []"
    and "local_node p ''signaling_port'' = JInt sip" "local_node p ''rtp_port_start'' = JInt a"
    "local_node p ''rtp_port_end'' = JInt b" "local_node p ''mapping_port_start'' = JInt c"
    "local_node p ''mapping_port_end'' = JInt d"
    "sip \<noteq> 0" "a \<noteq> 0" "b \<noteq> 0" "c \<noteq> 0" "d \<noteq> 0"
    "me_local_bind_port (mpp_editor p) = Some port"
  shows "if isGBCode20 (Some (resource_code_of r)) \<and> port_usable p r port \<and> port \<noteq> sip \<and> port \<notin> {a..b} \<and> port \<in> {c..d}
    then as_mock (snd (snd (saveMapping env fs f now (p, st)))) = snd (createMappingMock (mapping_payload p r) now (as_mock st)) \<and>
      tm_local_bind_port (mapping_payload p r) = port
    else as_mock (snd (snd (saveMapping env fs f now (p, st)))) = as_mock st \<and>
      (\<exists>m. mapping_check p r = Some m \<and> mpp_error (fst (snd (saveMapping env fs f now (p, st)))) = m)"
proof -
  have port: "tm_local_bind_port (mapping_payload p r) = port"
    using assms(15) by (simp add: mapping_payload_def Let_def)
  show ?thesis
    using mapping_check_iff [OF assms(5-15), of r] mock_save [OF assms(1-3) _ assms(4), of fs f now] port
      save_rejected [OF assms(3), of _ env fs f now st]
    by (cases "mapping_check p r") auto
qed

theorem mapping_save_checked_witness:
  "as_mock (snd (snd (saveMapping sample_mock_env offline sample_fetchers ''t'' (sample_mapping_page 5060, sample_client)))) =
     mock_init \<and>
   as_mock (snd (snd (saveMapping sample_mock_env offline sample_fetchers ''t'' (sample_mapping_page 30005, sample_client)))) =
     snd (createMappingMock (mapping_payload (sample_mapping_page 30005) sample_overview_item) ''t'' mock_init)"
proof -
  note ports = sample_mapping_page_ports
  note use = mapping_save_checked [where env = sample_mock_env and st = sample_client and r = sample_overview_item
      and sip = 5060 and a = 20000 and b = 20100 and c = 30000 and d = 30010 and fs = offline and f = sample_fetchers
      and now = "''t''", OF sample_mock_mode sample_client_loaded(1)]
  have code: "isGBCode20 (Some (resource_code_of sample_overview_item))"
    by (simp add: sample_overview_item_def resource_code_of_def str_or_def isGBCode20_pattern sample_codes)
  have free: "port_usable (sample_mapping_page 30005) sample_overview_item 30005"
    by (simp add: port_usable_def port_taken_def mapping_rows_def sample_mapping_page_def mappings_page_init_def)
  show ?thesis
    using use [where p = "sample_mapping_page 5060" and port = 5060] use [where p = "sample_mapping_page 30005" and port = 30005]
      code free by (simp add: ports sample_client_loaded)
qed

text \<open>C18: what saving a local resource does on the page of that console: an editor that fails a check
  leaves the store alone and shows the message of the check; an accepted one stores the payload under its
  code, and when an existing resource was edited its old code no longer leads to it.\<close>

theorem resource_save_effect:
  assumes "useMockMode env" "workspace_answers env fw" "resource_console url_ok env fs fl fw (p, st)"
    and "lrp_editingId p = [] \<or> lrp_editingId p \<in> dom (stored_resources (as_mock st))"
  shows "case editorToPayload url_ok (filled_code clock rand p) of
      Inl (JsError m) \<Rightarrow>
        as_mock (snd (snd (saveResource url_ok env fs fl fw clock rand now (p, st)))) = as_mock st \<and>
        lrp_error (fst (snd (saveResource url_ok env fs fl fw clock rand now (p, st)))) = m
    | Inr payload \<Rightarrow>
        stored_resources (as_mock (snd (snd (saveResource url_ok env fs fl fw clock rand now (p, st))))) =
          (if lrp_editingId p = [] then stored_resources (as_mock st)
           else (stored_resources (as_mock st))(lrp_editingId p := None))
          (lrsp_resource_code payload \<mapsto> saved_resource payload now)"
  by (rule saveResource_effect [OF assms(1,2) console_synced [OF assms(1-3)] assms(4)])

theorem resource_save_effect_witness:
  "let s = snd (resources_load sample_mock_env offline workspace_server True (resources_page_init, sample_client));
       p = (fst s)\<lparr>lrp_editor := (lrp_editor (fst s))\<lparr>lre_resource_code := ''123''\<rparr>\<rparr>
   in as_mock (snd (snd (saveResource (\<lambda>_. True) sample_mock_env offline offline workspace_server 1 2 ''t'' (p, snd s)))) =
        as_mock (snd s)"
proof -
  let ?s = "snd (resources_load sample_mock_env offline workspace_server True (resources_page_init, sample_client))"
  let ?p = "(fst ?s)\<lparr>lrp_editor := (lrp_editor (fst ?s))\<lparr>lre_resource_code := ''123''\<rparr>\<rparr>"
  have s: "resource_console (\<lambda>_. True) sample_mock_env offline offline workspace_server ?s"
    by (rule resource_console.mounted) (simp_all add: sample_client_loaded init_defs)
  have "resource_page_step (\<lambda>_. True) sample_mock_env offline offline workspace_server (fst ?s, snd ?s) (?p, snd ?s)"
    by (rule resource_page_step.type)
  then have step: "resource_console (\<lambda>_. True) sample_mock_env offline offline workspace_server (?p, snd ?s)"
    using resource_console.step [OF s] by simp
  have new: "lrp_editingId ?p = []"
    by (simp add: resources_load_run Let_def resources_page_init_def split: sum.splits js_error.splits prod.splits)
  have "\<exists>m. editorToPayload (\<lambda>_. True) (filled_code 1 2 ?p) = Inl (JsError m)"
    by (simp add: editorToPayload_def filled_code_def isGBCode20_def GB_CODE_PATTERN_def str_or_def
        trim_solid solid_def Let_def del: uni.simps)
  with resource_save_effect [OF sample_mock_mode workspace_server_answers step, of 1 2 "''t''"] new
  show ?thesis by auto
qed

text \<open>C19: saving the system settings: a form that breaks one of the limits is not sent, stays as it is and
  shows its problems; one that keeps them all is sent, is kept and shows the server's message when the
  server refuses it, and is replaced by what the server stored when it accepts it. The page never stays
  busy.\<close>

theorem settings_save_contract:
  assumes "stp_form p = Some f" "\<not> stp_saving p"
  shows "(if settings_valid f
    then (case fst (updateSystemSettings env fetch fs f st) of
            Inl (JsError m) \<Rightarrow> stp_form (fst (snd (settings_save env fetch fs fu (p, st)))) = Some f \<and>
              stp_error (fst (snd (settings_save env fetch fs fu (p, st)))) = m
          | Inr g \<Rightarrow> stp_form (fst (snd (settings_save env fetch fs fu (p, st)))) = Some g)
    else snd (snd (settings_save env fetch fs fu (p, st))) = st \<and>
      stp_form (fst (snd (settings_save env fetch fs fu (p, st)))) = Some f \<and>
      stp_validationErrors (fst (snd (settings_save env fetch fs fu (p, st)))) \<noteq> []) \<and>
    \<not> stp_saving (fst (snd (settings_save env fetch fs fu (p, st))))"
  by (rule save_outcome [OF assms])

theorem settings_save_contract_witness:
  "snd (snd (settings_save sample_env offline (offline :: (unit, _, unit) fetcher) (offline :: (unit, _, unit) fetcher)
     (settings_page_init\<lparr>stp_form := Some sample_settings\<rparr>, sample_client))) = sample_client"
proof -
  have "\<not> settings_valid sample_settings" by (simp add: settings_valid_def sample_settings_def)
  then show ?thesis
    using settings_save_contract [of "settings_page_init\<lparr>stp_form := Some sample_settings\<rparr>" sample_settings sample_env
        offline "offline :: (unit, _, unit) fetcher" "offline :: (unit, _, unit) fetcher" sample_client]
    by (simp add: settings_page_init_def)
qed

text \<open>C20: a workspace with numeric ports that the node page accepts has valid codes for both domains, and
  its range of mapping ports is not empty, does not contain the SIP port and has no port in common with the
  RTP range.\<close>

theorem accepted_workspace_ports:
  fixes a b sip c d :: int
  assumes "fst (nodes_validate (p, st)) = Inr []"
    and "local_port p ''mapping_port_start'' = JInt a" "local_port p ''mapping_port_end'' = JInt b"
    and "local_port p ''signaling_port'' = JInt sip"
    and "local_port p ''rtp_port_start'' = JInt c" "local_port p ''rtp_port_end'' = JInt d"
  shows "gb_code_ok (local_port p ''device_id'') \<and> gb_code_ok (chain (chain (ndp_workspace p) ''peerNode'') ''device_id'') \<and>
    a \<le> b \<and> sip \<notin> {a..b} \<and> {a..b} \<inter> {c..d} = {}"
proof -
  have ok: "workspace_issues (ndp_workspace p) (ndp_registerAuthPasswordInput p) = []"
    using assms(1) by (auto simp: nodes_validate_def script_simps Let_def split: if_splits)
  note ports = assms(2-6) [unfolded local_port_def]
  have "{a..b} \<inter> {c..d} = {}" unfolding disjoint_iff using valid_ranges(3) [OF ok ports] by auto
  moreover have "sip \<notin> {a..b}" using valid_ranges(2) [OF ok ports, of sip] by auto
  ultimately show ?thesis
    using valid_codes [OF ok] valid_ranges(1) [OF ok ports] by (simp add: local_port_def)
qed

theorem accepted_workspace_ports_witness:
  "5060 \<notin> {30000..30010 :: int} \<and> {30000..30010 :: int} \<inter> {20000..20100} = {} \<and>
   fst (nodes_validate (nodes_page_init\<lparr>ndp_workspace := sample_workspace\<rparr>, sample_client)) = Inr []"
proof -
  have ok: "fst (nodes_validate (nodes_page_init\<lparr>ndp_workspace := sample_workspace\<rparr>, sample_client)) = Inr []"
    by (simp add: nodes_validate_def script_simps workspace_issues_def sample_workspace_def
        gb_code_ok_text sample_codes port_of_def nodes_page_init_def Let_def del: uni.simps)
  from accepted_workspace_ports [OF ok, of 30000 30010 5060 20000 20100]
  have "5060 \<notin> {30000..30010 :: int} \<and> {30000..30010 :: int} \<inter> {20000..20100} = {}"
    by (simp add: local_port_def sample_workspace_def)
  with ok show ?thesis by blast
qed

section \<open>The delivery guard\<close>



text \<open>C22: a finished run of the delivery guard exits with success exactly when the tree it leaves behind has
  no retired file, no source file of the console outside the five exceptions mentions a retired operation,
  and the build configuration and the built pages have the marks of a relocatable console, with the
  embedding record present or waived.\<close>

theorem guard_passes_iff:
  assumes "guard_run argv fs0 = Inr (r, fs)" "wf_fs fs"
  shows "exit_code r = 0 \<longleftrightarrow>
    (\<forall>rel \<in> set legacyFiles. \<not> existsSync fs (path_components rel)) \<and>
    (\<forall>p \<in> active_files fs. rel_path p \<in> allowedLegacyOnlyFiles \<or>
       (\<forall>symbol \<in> set forbiddenSymbols. \<not> sublist symbol (readText fs p))) \<and>
    sublist ''meta[name=\"siptunnel-ui-base-path\"]'' (readText fs ui_base_path) \<and>
    sublist (''base: '' @ [CHR 0x27] @ ''./'' @ [CHR 0x27]) (readText fs vite_path) \<and>
    (readText fs dist_index \<noteq> [] \<longrightarrow> sublist ''./assets/'' (readText fs dist_index)) \<and>
    (readText fs (embedded_dir @ [''index.html'']) \<noteq> [] \<longrightarrow>
       sublist ''./assets/'' (readText fs (embedded_dir @ [''index.html''])) \<and>
       sublist ''meta name=\"siptunnel-ui-base-path\"'' (readText fs (embedded_dir @ [''index.html'']))) \<and>
    (existsSync fs (embedded_dir @ [''.siptunnel-ui-embed.json'']) \<or> go_allowMissing (guard_options argv))"
proof -
  obtain files where run: "scanFiles fs [''gateway-ui'', ''src''] = Inr files" "gr_hits r = concat (map (file_hits fs) files)"
    "gr_remaining r = filter (\<lambda>rel. existsSync fs (path_components rel)) legacyFiles"
    "gr_checks r = guard_checks (go_allowMissing (guard_options argv)) fs (gr_remaining r) (gr_hits r)"
    "gr_passed r \<longleftrightarrow> filter (\<lambda>c. \<not> snd c) (enforced (gr_checks r)) = []"
    using guard_run_ok [OF assms(1)] by blast
  have pass: "exit_code r = 0 \<longleftrightarrow>
      gr_remaining r = [] \<and> gr_hits r = [] \<and> (\<forall>c \<in> set (drop 3 (gr_checks r)). snd c)"
    using guard_passed_iff [OF run(4,5)] by (simp add: exit_code_def)
  have absent: "gr_remaining r = [] \<longleftrightarrow> (\<forall>rel \<in> set legacyFiles. \<not> existsSync fs (path_components rel))"
    unfolding run(3) filter_empty_conv ..
  have hits: "gr_hits r = [] \<longleftrightarrow> (\<forall>p \<in> active_files fs. rel_path p \<in> allowedLegacyOnlyFiles \<or>
      (\<forall>symbol \<in> set forbiddenSymbols. \<not> sublist symbol (readText fs p)))"
    unfolding run(2) by (rule hits_empty_iff [OF assms(2) run(1)])
  show ?thesis unfolding pass absent hits run(4) by (auto simp: guard_checks_def Let_def)
qed

theorem guard_passes_iff_witness:
  "\<exists>r fs. guard_run [] sample_tree = Inr (r, fs) \<and> exit_code r \<noteq> 0"
proof -
  have mode: "go_mode (guard_options []) \<noteq> ''repair''"
    by (simp add: guard_options_def toLowerCase_def lower_char_def str_or_def js_eval)
  obtain r fs where run: "guard_run [] sample_tree = Inr (r, fs)"
    using guard_run_returns [OF sample_tree_plain] by (metis prod.exhaust)
  have "fs = sample_tree" using verify_effect [OF run mode] by simp
  moreover have "wf_fs sample_tree" by (simp add: sample_tree_def wf_fs_def)
  moreover have "existsSync sample_tree (path_components ''gateway-ui/src/views/NodeStatusView.vue'')"
    "''gateway-ui/src/views/NodeStatusView.vue'' \<in> set legacyFiles"
    by (simp_all add: sample_tree_def legacyFiles_def existsSync_def)
  ultimately show ?thesis using guard_passes_iff [OF run] run by blast
qed

section \<open>Overlapping loads\<close>



text \<open>C24: a task table, on which searches and page changes may overlap. However the answers arrive, the rows
  shown are the answer to one request for the page number and page size shown (or still those of the
  beginning), and the total shown is the total of that answer. The filters shown need not be the filters of
  that request: for any two requests there is a run after which the page shows the filters of the second
  and the rows of the first.\<close>

theorem task_table_consistent:
  assumes "overlap_run tasks_start tasks_finish answer in_order p s" "tpg_total p = tlr_total (tpg_result p)"
  shows "(tpg_result (ov_page s) = tpg_result p \<and> tpg_current (ov_page s) = tpg_current p \<and> tpg_pageSize (ov_page s) = tpg_pageSize p \<or>
      (\<exists>f. tpg_result (ov_page s) = answer (f, tpg_current (ov_page s), tpg_pageSize (ov_page s)))) \<and>
    tpg_total (ov_page s) = tlr_total (tpg_result (ov_page s)) \<and>
    (\<exists>t. overlap_run tasks_start tasks_finish answer False p t \<and> ov_pending t = [] \<and>
       tpg_filters (ov_page t) = fst (q2 :: TaskListFilters \<times> int \<times> int) \<and> tpg_result (ov_page t) = answer q1)"
  using tasks.always_consistent [OF assms(1)] tasks_total [OF assms] task_filters.race [of answer p q2 q1] by auto

theorem task_table_consistent_witness:
  "\<exists>t. overlap_run tasks_start tasks_finish (\<lambda>q. \<lparr>tlr_list = [fst q], tlr_total = 1, tlr_page = 1, tlr_pageSize = 10\<rparr>)
       False tasks_page_init t \<and> ov_pending t = [] \<and> tlr_list (tpg_result (ov_page t)) \<noteq> [tpg_filters (ov_page t)]"
proof -
  let ?q = "(no_task_filters\<lparr>tf_requestId := Some ''a''\<rparr>, 1, 10)"
  let ?answer = "\<lambda>q :: TaskListFilters \<times> int \<times> int. \<lparr>tlr_list = [fst q], tlr_total = 1, tlr_page = 1, tlr_pageSize = 10\<rparr>"
  have "tpg_total tasks_page_init = tlr_total (tpg_result tasks_page_init :: TaskListFilters TaskListResult)"
    by (simp add: tasks_page_init_def)
  from task_table_consistent [OF overlap_run.loaded [where answer = ?answer and in_order = False] this, of ?q "(no_task_filters, 1, 10)"]
  obtain t where "overlap_run tasks_start tasks_finish ?answer False tasks_page_init t" "ov_pending t = []"
    "tpg_filters (ov_page t) = fst ?q" "tpg_result (ov_page t) = ?answer (no_task_filters, 1, 10)" by auto
  then show ?thesis by (intro exI [of _ t]) (simp add: no_task_filters_def)
qed

section \<open>Checks and stores\<close>

text \<open>C25: saving an edited peer in mock mode succeeds exactly when the peer is still stored. Then the page
  lists the stored peers, the edited one is stored as it was typed, and every other peer and the order of
  the list are as before; otherwise neither the page nor the store changes.\<close>

theorem peer_page_edit:
  assumes "useMockMode env" "module_loaded st" "ppg_mode p = Peer_edit" "r = peer_save env fc fu fp ft (p, st)"
  shows "(fst r = Inr () \<longleftrightarrow> pn_peer_node_id (ppg_editing p) \<in> set (map pn_peer_node_id (peerNodeState (as_mock st)))) \<and>
    (if fst r = Inr ()
     then ppg_peers (fst (snd r)) = peerNodeState (as_mock (snd (snd r))) \<and>
       map pn_peer_node_id (ppg_peers (fst (snd r))) = map pn_peer_node_id (peerNodeState (as_mock st)) \<and>
       (\<forall>k. find (\<lambda>x. pn_peer_node_id x = k) (ppg_peers (fst (snd r))) =
          (if k = pn_peer_node_id (ppg_editing p) then Some (ppg_editing p)
           else find (\<lambda>x. pn_peer_node_id x = k) (peerNodeState (as_mock st))))
     else snd r = (p, st))"
  using peer_edit_mock [OF assms] by (auto simp: peers.keys_def peers.lookup_def)

theorem peer_page_edit_witness:
  "snd (peer_save sample_mock_env offline offline (offline :: (unit, _, unit) fetcher) offline
     (peer_page_init\<lparr>ppg_mode := Peer_edit\<rparr>, sample_client)) = (peer_page_init\<lparr>ppg_mode := Peer_edit\<rparr>, sample_client)"
  using peer_page_edit [OF sample_mock_mode sample_client_loaded(1), of "peer_page_init\<lparr>ppg_mode := Peer_edit\<rparr>" _ offline offline
      "offline :: (unit, _, unit) fetcher" offline, OF _ refl]
  by (simp add: peer_page_init_def emptyPeer_def sample_client_loaded mock_init_def peerNodeState_init_def split: if_splits)

text \<open>C26: the capability check of a mapping reports no blocking issue exactly when the mapping is
  admissible: request and response bodies are within the limits the transport plan sets for a mode that
  cannot carry large bodies, a streaming response is only required where it is supported, and CONNECT and
  TRACE, in any case of letters, are only allowed where the tunnel is bidirectional.\<close>

theorem mapping_check_correct:
  "mcr_blockingIssues (evaluateMappingCapability m (Some s)) = [] \<longleftrightarrow>
     mapping_admissible (ss_capability s) (ss_transport_plan s) m"
  by (rule blocking_empty_iff)

text \<open>C27: the high risk detector is silent exactly when the draft keeps all seven settings a running
  gateway depends on, and every change it does report shows two different values.\<close>

theorem risk_detector_correct:
  "(detectHighRiskChanges c d = [] \<longleftrightarrow>
      risky_settings (nc_sip c) (nc_rtp c) = risky_settings (unc_sip d) (unc_rtp d)) \<and>
   list_all (\<lambda>x. hrc_before x \<noteq> hrc_after x) (detectHighRiskChanges c d)"
  using detect_empty_iff detect_reports_difference by (auto simp: list_all_iff)

section \<open>Tunnel and node configuration\<close>

text \<open>C28: two pages over the mock gateway. After a save on the node configuration page, the tunnel page
  loads the same two device ids the node page shows. The local one is the one typed. The peer is the one
  typed exactly when it was unknown or already first: saving a known peer further down the list updates it
  in place, and both pages go on showing the first one.\<close>

theorem saved_nodes_across_pages:
  assumes "useMockMode env" "module_loaded st"
    and "n = snd (node_config_save env fs f (p, st))" "d = tp_draft (fst (snd (tunnel_load env ft (t, snd n))))"
  shows "tc_local_device_id d = nce_device_id (ncp_local_node (ncpg_draft (fst n))) \<and>
    tc_peer_device_id d = nce_device_id (ncp_peer_node (ncpg_draft (fst n))) \<and>
    tc_local_device_id d = nce_device_id (ncp_local_node (ncpg_draft p)) \<and>
    (tc_peer_device_id d = nce_device_id (ncp_peer_node (ncpg_draft p)) \<longleftrightarrow>
       becomes_primary (nce_device_id (ncp_peer_node (ncpg_draft p))) (as_mock st))"
proof -
  note n = node_config_save_run [OF assms(1,2), of fs f p, folded assms(3)]
  have loaded: "module_loaded (snd n)" using assms(2) by (simp add: n(2) module_loaded_def)
  note d = tunnel_load_ids [OF assms(1) loaded, of ft t, folded assms(4)]
  show ?thesis
    by (simp add: d n read_peer_id fetchNodeConfig_local local_endpoint_def saved_local_node_def saveNodeConfig_local
        primary_after_saveNodeConfig)
qed
theorem saved_nodes_across_pages_witness:
  "let p = node_config_init\<lparr>ncpg_draft := sample_node_config ''peer-c''\<rparr>;
       st = sample_client\<lparr>as_mock := snd (createPeerMock ((hd peerNodeState_init)\<lparr>pn_peer_node_id := ''peer-c''\<rparr>) mock_init)\<rparr>;
       n = snd (node_config_save sample_mock_env offline (offline :: (unit, _, unit) fetcher) (p, st))
   in tc_peer_device_id (tp_draft (fst (snd (tunnel_load sample_mock_env (offline :: (unit, _, unit) fetcher) (tunnel_page_init, snd n)))))
        \<noteq> ''peer-c''"
proof -
  let ?p = "node_config_init\<lparr>ncpg_draft := sample_node_config ''peer-c''\<rparr>"
  let ?st = "sample_client\<lparr>as_mock := snd (createPeerMock ((hd peerNodeState_init)\<lparr>pn_peer_node_id := ''peer-c''\<rparr>) mock_init)\<rparr>"
  have loaded: "module_loaded ?st" using sample_client_loaded by (simp add: module_loaded_def)
  have typed: "nce_device_id (ncp_peer_node (ncpg_draft ?p)) = ''peer-c''" by (simp add: sample_node_config_def peer_endpoint_def)
  have "\<not> becomes_primary ''peer-c'' (as_mock ?st)"
    by (simp add: becomes_primary_def primary_peer_id_def createPeerMock_def mock_init_def peerNodeState_init_def)
  then show ?thesis unfolding Let_def
    using saved_nodes_across_pages [where fs = offline and f = "offline :: (unit, _, unit) fetcher" and p = ?p and
        ft = "offline :: (unit, _, unit) fetcher" and t = tunnel_page_init, OF sample_mock_mode loaded refl refl, unfolded typed]
    by blast
qed

text \<open>C29: a configuration exported from any state and imported into any other is exported again from
  there unchanged, provided its peer is unknown there or first in the list.\<close>

theorem config_transfer_roundtrip:
  assumes "e = exportConfigJsonMock now now' s s'"
    and "becomes_primary (nce_device_id (ncp_peer_node (ctp_node_config e))) t"
  shows "exportConfigJsonMock now now' (snd (importConfigJsonMock e t)) (snd (importConfigJsonMock e t)) = e"
  using assms by (rule export_after_import)

theorem config_transfer_roundtrip_witness:
  "let e = exportConfigJsonMock ''2026-03-14T00:00:00Z'' ''2026-03-14T00:00:01Z'' mock_init mock_init;
       t = snd (deletePeerMock ''peer-b-01'' mock_init);
       t' = snd (importConfigJsonMock e t)
   in exportConfigJsonMock ''2026-03-14T00:00:00Z'' ''2026-03-14T00:00:01Z'' t' t' = e"
  unfolding Let_def
  by (rule config_transfer_roundtrip [OF refl])
    (simp add: becomes_primary_def exportConfigJsonMock_def fetchNodeConfig_peer peer_endpoint_def
      deletePeerMock_def mock_init_def peerNodeState_init_def)

section \<open>Configuration governance\<close>

text \<open>C30: rolling back makes exactly the snapshots of that version active, whatever was active before, and
  doing it again changes nothing; with an unknown version no snapshot stays active.\<close>

theorem rollback_contract:
  "map cgs_version (filter is_active (cgp_snapshots (fetchConfigGovernanceMock no_filters (snd (rollbackConfigMock v s))))) =
     filter (\<lambda>w. w = v) (map cgs_version (snapshotState s)) \<and>
   snd (rollbackConfigMock v (snd (rollbackConfigMock v s))) = snd (rollbackConfigMock v s)"
  by (simp add: fetch_no_filters rollback_active rollback_idem)

section \<open>What the pages show and send\<close>

text \<open>C31: the capability matrix the node page derives from a network mode agrees with the capability the
  rest of the console derives exactly for the modes the console has a profile for, and these are the modes
  the page offers; for any other mode the page claims that everything is supported.\<close>

theorem matrix_agrees:
  "(deriveCapabilityMatrix (JStr mode) = matrix_of_capability (deriveTunnelCapability mode) \<longleftrightarrow>
      mode \<in> set (map nmp_value NETWORK_MODE_PROFILES)) \<and>
   map so_value networkModeOptions = map nmp_value NETWORK_MODE_PROFILES \<and>
   (mode \<notin> set (map nmp_value NETWORK_MODE_PROFILES) \<longrightarrow>
      list_all (\<lambda>row. chain row ''supported'' = JBool True) (elements (deriveCapabilityMatrix (JStr mode))))"
proof -
  have "list_all (\<lambda>row. chain row ''supported'' = JBool True) (elements (deriveCapabilityMatrix (JStr mode)))"
    if "mode \<notin> set (map nmp_value NETWORK_MODE_PROFILES)"
    using that by (simp add: deriveCapabilityMatrix_def matrix_row_def NETWORK_MODE_PROFILES_def elements_def)
  then show ?thesis using matrix_agrees_iff [of mode] options_are_known_modes by blast
qed

theorem matrix_agrees_witness:
  "list_all (\<lambda>row. chain row ''supported'' = JBool True) (elements (deriveCapabilityMatrix (JStr ''RELAY'')))"
  using matrix_agrees [of "''RELAY''"] by (simp add: NETWORK_MODE_PROFILES_def)

text \<open>C32: saving the tunnel form in mock mode with every optional field filled in and no new password: the
  form keeps its values, so that saving it again sends the same request, but the stored registration
  password is replaced by the empty one, although the page says that a blank input leaves it unchanged.\<close>

theorem tunnel_page_save:
  assumes "useMockMode env" "module_loaded st" "tunnel_form_complete p" "tp_passwordInput p = []"
  shows "fst (tunnel_save env fs f (p, st)) = Inr () \<and>
    tunnel_payload (fst (snd (tunnel_save env fs f (p, st)))) = tunnel_payload p \<and>
    ts_register_auth_password (tunnelConfigState (as_mock (snd (snd (tunnel_save env fs f (p, st)))))) = Some []"
proof -
  have "(tunnel_payload p)\<lparr>tcu_register_auth_password := Some []\<rparr> = tunnel_payload p"
    using assms(4) by (simp add: tunnel_payload_def Let_def)
  then show ?thesis
    using tunnel_save_stable [OF assms(1-3), of fs f] tunnel_save_mock [OF assms(1,2) refl, of fs f p]
      blank_password_stored [OF assms(4), of "as_mock st"]
    by simp
qed

theorem tunnel_page_save_witness:
  "let m = snd (saveTunnelConfigMock ((sample_tunnel ''X'')\<lparr>tcu_register_auth_password := Some ''pw''\<rparr>) mock_init)
   in ts_register_auth_password (tunnelConfigState m) = Some ''pw'' \<and>
     ts_register_auth_password (tunnelConfigState (as_mock (snd (snd (tunnel_save sample_mock_env offline
       (offline :: (unit, _, unit) fetcher) (sample_tunnel_page, sample_client\<lparr>as_mock := m\<rparr>)))))) = Some []"
proof -
  have form: "tunnel_form_complete sample_tunnel_page" "tp_passwordInput sample_tunnel_page = []"
    by (auto simp: sample_tunnel_page_def tunnel_form_complete_def tunnel_page_init_def Let_def)
  have "module_loaded (sample_client\<lparr>as_mock := m\<rparr>)" for m by (simp add: sample_client_loaded)
  from tunnel_page_save [OF sample_mock_mode this form, of offline "offline :: (unit, _, unit) fetcher"]
  show ?thesis by (simp add: Let_def saveTunnelConfigMock_def saved_tunnel_config_def sample_tunnel_def del: uni.simps)
qed

text \<open>C33: the access log page shows a range of one hour when it opens, but its first request is made
  without any range, because the watcher that copies the range into the query runs only afterwards; the
  next request has the range. Resetting the filters repeats this.\<close>

theorem access_first_query:
  "(let s = snd (access_mounted env f ago now (access_page_init, st)) in
      acp_timeRange (fst s) = Some (ago, now) \<and>
      snd s = snd (fetchAccessLogs env f defaultQuery 1 100 st) \<and>
      alq_startTime defaultQuery = None \<and> alq_endTime defaultQuery = None \<and>
      snd (snd (access_load env f s)) =
        snd (fetchAccessLogs env f (defaultQuery\<lparr>alq_startTime := Some ago, alq_endTime := Some now\<rparr>) 1 100 (snd s))) \<and>
   snd (snd (access_reset env f ago now (p, st))) = snd (fetchAccessLogs env f defaultQuery 1 100 st)"
proof -
  let ?s = "snd (access_mounted env f ago now (access_page_init, st))"
  have run: "access_mounted env f ago now (access_page_init, st) =
      access_load env f (set_timeRange (Some (ago, now)) access_page_init, st)"
    by (simp add: access_mounted_def script_simps)
  have "acp_query (fst ?s) = defaultQuery\<lparr>alq_startTime := Some ago, alq_endTime := Some now\<rparr>"
    unfolding run access_after_load by (simp add: flush_watch_def set_timeRange_def access_page_init_def)
  then have again: "snd (snd (access_load env f ?s)) =
      snd (fetchAccessLogs env f (defaultQuery\<lparr>alq_startTime := Some ago, alq_endTime := Some now\<rparr>) 1 100 (snd ?s))"
    using access_after_load(4) [of env f "fst ?s" "snd ?s"] by simp
  have first: "snd ?s = snd (fetchAccessLogs env f defaultQuery 1 100 st)"
    unfolding access_mounted_run by (simp add: access_page_init_def)
  have reset: "snd (snd (access_reset env f ago now (p, st))) = snd (fetchAccessLogs env f defaultQuery 1 100 st)"
    unfolding access_reset_run access_mounted_run by simp
  show ?thesis unfolding Let_def
    by (intro conjI access_mounted_run(2) first again reset) (simp_all add: defaultQuery_def)
qed



text \<open>C35: editing the protection rules loses rules: the form shows two alert rules and two circuit breaker
  rules, and what it saves after it was filled from a state are the first two of each list, so a third rule
  is dropped by a save that changes nothing.\<close>

theorem alert_rules_truncated:
  assumes "chain state ''alertRules'' = JArr xs" "list_all truthy xs"
    and "chain state ''circuitBreakerRules'' = JArr ys" "list_all truthy ys"
    and "chain state ''rateLimitRules'' = JArr zs" "list_all (\<lambda>v. \<exists>s. v = JStr s) zs"
  shows "fst (syncForm state (p, st)) = Inr () \<and>
    chain (form_payload (fst (snd (syncForm state (p, st))))) ''alertRules'' = JArr (take 2 xs) \<and>
    chain (form_payload (fst (snd (syncForm state (p, st))))) ''circuitBreakerRules'' = JArr (take 2 ys)"
proof -
  obtain a b c where "find_rule ''RPS='' (JArr zs) = Inr a" "find_rule ''Burst='' (JArr zs) = Inr b"
    "find_rule ''MaxConcurrent='' (JArr zs) = Inr c"
    using find_rule_texts [OF assms(6)] by meson
  note run = sync_form [of state, unfolded assms(5), OF this, of p st]
  show ?thesis
    using first_two_truthy [OF assms(2)] first_two_truthy [OF assms(4)]
    by (simp add: run form_payload_def assms(1,3))
qed

theorem alert_rules_truncated_witness:
  "chain (form_payload (fst (snd (syncForm
     (JObj [(''alertRules'', JArr [JStr ''a'', JStr ''b'', JStr ''c'']), (''circuitBreakerRules'', JArr []),
            (''rateLimitRules'', JArr [JStr ''RPS=300''])]) (alerts_page_init, sample_client))))) ''alertRules'' =
   JArr [JStr ''a'', JStr ''b'']"
  using alert_rules_truncated [of "JObj [(''alertRules'', JArr [JStr ''a'', JStr ''b'', JStr ''c'']), (''circuitBreakerRules'', JArr []),
      (''rateLimitRules'', JArr [JStr ''RPS=300''])]" "[JStr ''a'', JStr ''b'', JStr ''c'']" "[]" "[JStr ''RPS=300'']"
      alerts_page_init sample_client]
  by (simp add: truthy_def)

text \<open>C36: the administrator session the settings page saves in the browser is what it reads back and what
  requests are signed with; after clearing it, requests still carry whatever the session storage holds under
  the same names.\<close>

theorem admin_session_contract:
  "stp_adminSession (loadAdminSession (snd (saveAdminSession p (Some st))) q) = stp_adminSession p \<and>
   (he_window env = snd (saveAdminSession p (Some st)) \<longrightarrow> adm_token (stp_adminSession p) \<noteq> [] \<longrightarrow>
      adm_mfa (stp_adminSession p) \<noteq> [] \<longrightarrow> adm_operator (stp_adminSession p) \<noteq> [] \<longrightarrow>
      browserAdminHeaders env =
        admin_header ''X-Admin-Token'' (trim (adm_token (stp_adminSession p))) @
        admin_header ''X-Admin-MFA'' (trim (adm_mfa (stp_adminSession p))) @
        admin_header ''X-Admin-Operator'' (trim (adm_operator (stp_adminSession p)))) \<and>
   (he_window env = snd (clearAdminSession p (Some st)) \<longrightarrow>
      browserAdminHeaders env =
        admin_header ''X-Admin-Token'' (trim (nullish (bs_session st ''siptunnel.adminToken'') [])) @
        admin_header ''X-Admin-MFA'' (trim (nullish (bs_session st ''siptunnel.adminMfa'') [])) @
        admin_header ''X-Admin-Operator'' (trim (nullish (bs_session st ''siptunnel.adminOperator'') [])))"
  using session_roundtrip [of p st q] session_headers [of env p st] session_cleared [of env p st] by blast

theorem admin_session_contract_witness:
  "browserAdminHeaders (sample_env\<lparr>he_window := snd (clearAdminSession settings_page_init
     (Some \<lparr>bs_local = Map.empty, bs_session = [''siptunnel.adminToken'' \<mapsto> ''secret'']\<rparr>))\<rparr>) =
   [(''X-Admin-Token'', ''secret'')]"
  (is "browserAdminHeaders (sample_env\<lparr>he_window := snd (clearAdminSession _ (Some ?st))\<rparr>) = _")
proof -
  have "he_window (sample_env\<lparr>he_window := snd (clearAdminSession settings_page_init (Some ?st))\<rparr>) =
      snd (clearAdminSession settings_page_init (Some ?st))" by simp
  from admin_session_contract [THEN conjunct2, THEN conjunct2, rule_format, OF this] show ?thesis
    by (simp add: admin_header_def trim_solid solid_def)
qed

text \<open>C37: a valid local date printed in the console's form is read back as the same date and printed again
  unchanged, whatever the host's own parser does, unless the time zone skips it; a blank text shows the
  fallback.\<close>

theorem date_text_roundtrip:
  assumes "valid_date d" "resolve (local_value d) = local_value d" "trim blank = []"
  shows "parseUnifiedLocalDate resolve (date_text d) = Some (local_value d) \<and>
    formatDateTimeText resolve parse (Some (date_text d)) fallback = date_text d \<and>
    formatDateTimeText resolve parse (Some blank) fallback = fallback"
  using assms date_text_fixed [of d resolve, OF assms(1,2)] parse_date_text [OF assms(1)] by (simp add: formatDateTimeText_def)

theorem date_text_roundtrip_witness:
  "formatDateTimeText (\<lambda>t. t) (\<lambda>_. None) (Some ''2024-02-29 23:59:58.007'') [] = ''2024-02-29 23:59:58.007''"
proof -
  let ?d = "\<lparr>ld_year = 2024, ld_month = 2, ld_day = 29, ld_hour = 23, ld_minute = 59, ld_second = 58, ld_ms = 7\<rparr>"
  have "valid_date ?d" by (simp add: valid_date_def month_days_def month_start_def is_leap_def)
  moreover have "date_text ?d = ''2024-02-29 23:59:58.007''"
    by (simp add: date_text_def pad_def padStart_def js_eval) (simp add: numeral_2_eq_2)
  ultimately show ?thesis using date_text_roundtrip [of ?d "\<lambda>t. t" "[]" "\<lambda>_. None" "[]"] by (simp add: trim_Nil)
qed

text \<open>C38: the port check of the tools page always ends: its loop checks the ports between the two ends, in
  either order of the ends, from the lowest on and at most twenty of them.\<close>

theorem port_check_terminates:
  "\<exists>q. runPortCheck p = Some q \<and>
     map pr_port (otp_portResults q) = take 20 [min (otp_start p) (otp_end p)..max (otp_start p) (otp_end p)] \<and>
     length (otp_portResults q) = min 20 (nat (\<bar>otp_end p - otp_start p\<bar> + 1))"
  by (simp add: runPortCheck_result port_result_def o_def)

section \<open>Requests to the server\<close>


text \<open>C40: a request succeeds exactly when the one fetch it makes delivers an OK response with a JSON body;
  for a response that is not OK the error shows the status and the message of the error object if the body
  has one, and the status text if the body is not JSON.\<close>

theorem request_errors:
  "((\<exists>r. fst (request env fetch path opts w) = Inr r) \<longleftrightarrow>
      (\<exists>r. fst (fetch (fetch_init env path opts) w) = Inr (ResponseOk (Inr r)))) \<and>
   snd (request env fetch path opts w) = snd (fetch (fetch_init env path opts) w) \<and>
   (fst (fetch (fetch_init env path opts) w) = Inr (ResponseNotOk n status_text body) \<longrightarrow>
      (chain (chain (case body of Inr p \<Rightarrow> p | Inl _ \<Rightarrow> JUndefined) ''error'') ''message'' = JStr (c # m) \<longrightarrow>
        fst (request env fetch path opts w) = Inl (JsError (''HTTP '' @ string_of_int n @ '': '' @ c # m))) \<and>
      (body = Inl e \<longrightarrow>
        fst (request env fetch path opts w) = Inl (JsError (''HTTP '' @ string_of_int n @ '': '' @ status_text))))"
proof -
  have "(\<exists>r. fst (request env fetch path opts w) = Inr r) \<longleftrightarrow>
      (\<exists>r. fst (fetch (fetch_init env path opts) w) = Inr (ResponseOk (Inr r)))"
    using request_throws_iff [of env fetch path opts w]
    by (cases "fst (request env fetch path opts w)") auto
  then show ?thesis
    using request_network [of env fetch path opts w]
    by (auto simp: request_def error_detail_def or_else_def split: prod.splits sum.splits)
qed

theorem request_errors_witness:
  "fst (request (\<lparr>he_api_base_url = None, he_window = None\<rparr> :: HttpEnv)
      (\<lambda>(i :: unit FetchInit) w. (Inr (ResponseNotOk 503 ''Service Unavailable'' (Inl (JsError ''no JSON''))), w))
      ''/tasks'' \<lparr>ro_method = Some ''GET'', ro_params = None, ro_headers = [], ro_body = NoBody\<rparr> ()) =
   (Inl (JsError (''HTTP '' @ string_of_int 503 @ '': Service Unavailable'')) :: unit ApiResponse js_result)"
  using request_errors [where fetch = "\<lambda>(i :: unit FetchInit) w. (Inr (ResponseNotOk 503 ''Service Unavailable'' (Inl (JsError ''no JSON'')) :: unit FetchResponse), w)"
      and env = "\<lparr>he_api_base_url = None, he_window = None\<rparr> :: HttpEnv" and path = "''/tasks''"
      and opts = "\<lparr>ro_method = Some ''GET'', ro_params = None, ro_headers = [], ro_body = NoBody\<rparr>" and w = "()"
      and n = 503 and status_text = "''Service Unavailable''" and body = "Inl (JsError ''no JSON'')" and e = "JsError ''no JSON''"]
  by simp

end
